(* ===== verification/Prelude.thy ===== *)
theory Prelude
  imports Main "HOL-Library.Word" "HOL-Library.Monad_Syntax"
begin

unbundle bit_operations_syntax

text \<open>
  Shared vocabulary of the development: machine words and byte strings, the
  big-endian reading of a byte string that the encoder properties are stated
  with, and the shape of every effectful function of the model.

  An effectful C++ function is a HOL function from its arguments and the state
  \<open>w\<close> before the call to \<open>(result \<times> 'w) option\<close>: \<open>Some (r, w')\<close> is a normal
  return, \<open>None\<close> is undefined behaviour (in this code base: a method called on
  a null session pointer). Sequencing is the option monad's bind with the state
  passed explicitly, so a body reads like the statements it translates.
\<close>

type_synonym u8 = "8 word"
type_synonym u16 = "16 word"
type_synonym u32 = "32 word"
type_synonym u64 = "64 word"
type_synonym u128 = "128 word"
type_synonym bytes = "u8 list"

type_synonym ('w, 'r) result = "('r \<times> 'w) option"

text \<open>Collections: the P4 name macros, the encoder bodies, the entry operations
  (Prepare, Read, Write, Config), and the session and client operations.\<close>

named_theorems p4_names
named_theorems msg_defs
named_theorems enc_defs
named_theorems op_defs
named_theorems schema_defs

section \<open>Byte strings read as big-endian numbers\<close>

fun be_acc :: "nat \<Rightarrow> bytes \<Rightarrow> nat" where
  "be_acc a [] = a"
| "be_acc a (b # bs) = be_acc (256 * a + unat b) bs"

definition be_value :: "bytes \<Rightarrow> nat" where
  "be_value bs = be_acc 0 bs"

section \<open>Runs of effectful functions\<close>

text \<open>\<open>runs P m\<close>: the run \<open>m\<close> returns (no undefined behaviour) and its final
  state satisfies \<open>P\<close>.\<close>

definition runs :: "('w \<Rightarrow> bool) \<Rightarrow> ('w, 'r) result \<Rightarrow> bool" where
  "runs P m \<longleftrightarrow> (\<exists>r w. m = Some (r, w) \<and> P w)"

text \<open>\<open>simulates Q R m m'\<close>: both runs fail, or both return, the results are related by \<open>Q\<close>
  and the final states by \<open>R\<close>. \<open>mimics Q R m m'\<close>: when \<open>m'\<close> returns then so does \<open>m\<close>, with
  a related result and a related state.\<close>

definition simulates ::
    "('r \<Rightarrow> 'q \<Rightarrow> bool) \<Rightarrow> ('v \<Rightarrow> 'w \<Rightarrow> bool) \<Rightarrow> ('v, 'r) result \<Rightarrow> ('w, 'q) result \<Rightarrow> bool" where
  "simulates Q R m m' \<longleftrightarrow> rel_option (rel_prod Q R) m m'"

definition mimics ::
    "('r \<Rightarrow> 'q \<Rightarrow> bool) \<Rightarrow> ('v \<Rightarrow> 'w \<Rightarrow> bool) \<Rightarrow> ('v, 'r) result \<Rightarrow> ('w, 'q) result \<Rightarrow> bool" where
  "mimics Q R m m' \<longleftrightarrow> (\<forall>q w. m' = Some (q, w) \<longrightarrow> (\<exists>r v. m = Some (r, v) \<and> Q r q \<and> R v w))"

section \<open>Lemmas on big-endian values\<close>

lemma be_acc_shift: "be_acc a bs = a * 256 ^ length bs + be_acc 0 bs"
proof (induction bs arbitrary: a)
  case Nil
  then show ?case by simp
next
  case (Cons b bs)
  have "be_acc (256 * a + unat b) bs = (256 * a + unat b) * 256 ^ length bs + be_acc 0 bs"
    by (rule Cons.IH)
  moreover have "be_acc (unat b) bs = unat b * 256 ^ length bs + be_acc 0 bs"
    by (rule Cons.IH)
  ultimately show ?case by (simp add: algebra_simps)
qed

lemma be_value_Nil [simp]: "be_value [] = 0"
  by (simp add: be_value_def)

lemma be_value_Cons: "be_value (b # bs) = unat b * 256 ^ length bs + be_value bs"
  using be_acc_shift [of "unat b" bs] by (simp add: be_value_def)

lemma unat_u8_less: "unat (b :: u8) < 256"
  using unsigned_less [where 'a = nat, of b] by simp

lemma be_value_bound: "be_value bs < 256 ^ length bs"
proof (induction bs)
  case Nil
  then show ?case by simp
next
  case (Cons b bs)
  have "unat b \<le> 255"
    using unat_u8_less [of b] by linarith
  then have "unat b * 256 ^ length bs \<le> 255 * 256 ^ length bs"
    by (rule mult_le_mono1)
  with Cons show ?case by (simp only: be_value_Cons length_Cons power_Suc)
qed

text \<open>Byte strings of one length with the same value are equal.\<close>

lemma be_value_inj:
  assumes "length bs = length cs" and "be_value bs = be_value cs"
  shows "bs = cs"
  using assms
proof (induction bs cs rule: list_induct2)
  case Nil
  then show ?case by simp
next
  case (Cons b bs c cs)
  let ?n = "(256::nat) ^ length bs"
  have eq: "unat b * ?n + be_value bs = unat c * ?n + be_value cs"
    using Cons.prems Cons.hyps by (simp add: be_value_Cons)
  have lt: "be_value bs < ?n" "be_value cs < ?n"
    using be_value_bound [of bs] be_value_bound [of cs] Cons.hyps by simp_all
  have "unat b = (unat b * ?n + be_value bs) div ?n"
    using lt by simp
  also have "\<dots> = unat c"
    using lt eq by simp
  finally have b: "unat b = unat c" .
  with eq have "be_value bs = be_value cs" by simp
  then have "bs = cs" by (rule Cons.IH)
  moreover from b have "b = c" by (rule word_unat_eq_iff [THEN iffD2])
  ultimately show ?case by simp
qed

section \<open>Lemmas on runs\<close>

lemma runs_Some [simp]: "runs P (Some (r, w)) \<longleftrightarrow> P w"
  by (simp add: runs_def)

lemma runs_None [simp]: "\<not> runs P None"
  by (simp add: runs_def)

lemma runs_bind:
  assumes "runs Q m" and "\<And>r w. Q w \<Longrightarrow> runs P (f (r, w))"
  shows "runs P (m \<bind> f)"
  using assms by (auto simp: runs_def)

lemma runs_mono: "runs P m \<Longrightarrow> (\<And>w. P w \<Longrightarrow> Q w) \<Longrightarrow> runs Q m"
  by (auto simp: runs_def)

lemma simulates_Some [simp]:
  "simulates Q R (Some (r, v)) (Some (q, w)) \<longleftrightarrow> Q r q \<and> R v w"
  by (simp add: simulates_def)

lemma simulates_None [simp]: "simulates Q R None None"
  by (simp add: simulates_def)

lemma simulates_bind:
  assumes "simulates Q R m m'"
    and "\<And>r q v w. Q r q \<Longrightarrow> R v w \<Longrightarrow> simulates Q' S (f (r, v)) (f' (q, w))"
  shows "simulates Q' S (m \<bind> f) (m' \<bind> f')"
  using assms by (cases m; cases m') (auto simp: simulates_def)

lemma simulates_mimics: "simulates Q R m m' \<Longrightarrow> mimics Q R m m'"
  by (cases m; cases m') (auto simp: simulates_def mimics_def)

lemma mimics_Some [simp]: "mimics Q R (Some (r, v)) (Some (q, w)) \<longleftrightarrow> Q r q \<and> R v w"
  by (simp add: mimics_def)

lemma mimics_None [simp]: "mimics Q R m None"
  by (simp add: mimics_def)

lemma mimics_bind:
  assumes "mimics Q R m m'"
    and "\<And>r q v w. Q r q \<Longrightarrow> R v w \<Longrightarrow> mimics Q' S (f (r, v)) (f' (q, w))"
  shows "mimics Q' S (m \<bind> f) (m' \<bind> f')"
  using assms by (cases m; cases m') (fastforce simp: mimics_def)+

section \<open>Lemmas on words\<close>

lemma mask_low_byte: "(x :: u32) AND 255 = take_bit 8 x"
  using take_bit_eq_mask [of 8 x] by (simp add: mask_numeral)

lemma mask_low_nibble: "(x :: u32) AND 15 = take_bit 4 x"
  using take_bit_eq_mask [of 4 x] by (simp add: mask_numeral)

lemma unat_byte_of_u32: "unat (ucast (x :: u32) :: u8) = unat x mod 256"
  by (simp add: unsigned_ucast_eq take_bit_eq_mod)

lemma ucast_byte_mask: "(ucast (b :: u8) :: u32) AND 0xff = ucast b"
  by (rule bit_word_eqI) (auto simp: mask_low_byte bit_simps dest: bit_imp_le_length)

lemma ucast_low_byte: "(ucast (x AND 255 :: u32) :: u8) = ucast x"
  by (rule bit_word_eqI) (auto simp: mask_low_byte bit_simps)

lemma ucast_byte_u32 [simp]: "(ucast (ucast (b :: u8) :: u32) :: u8) = b"
  by (rule bit_word_eqI) (simp add: bit_simps)

text \<open>A 16-bit word widened to 32 bits and narrowed to a byte.\<close>

lemma ucast_u16_u32_u8: "(ucast (ucast (x :: u16) :: u32) :: u8) = ucast x"
  by (rule bit_word_eqI) (simp add: bit_simps)

lemma unat_byte_of_u16: "unat (ucast (x :: u16) :: u8) = unat x mod 256"
  by (simp add: unsigned_ucast_eq take_bit_eq_mod)

lemma unat_u16_less: "unat (x :: u16) < 65536"
  using unsigned_less [where 'a = nat, of x] by simp

lemma unat_u16_u32: "unat (ucast (x :: u16) :: u32) = unat x"
proof -
  have "unat (ucast x :: u32) = take_bit 32 (unat x)" by (simp add: unsigned_ucast_eq)
  then show ?thesis using unat_u16_less [of x] by (simp add: take_bit_eq_mod)
qed

lemma unat_shift_u16: "unat (drop_bit n (x :: u16)) = unat x div 2 ^ n"
  by (subst unat_drop_bit_eq) (rule drop_bit_eq_div)

text \<open>A number split into its three low bytes.\<close>

lemma mod_bytes3:
  fixes n m :: nat
  shows "n mod (65536 * m) = n div 65536 mod m * 65536 + (n div 256 mod 256 * 256 + n mod 256)"
proof -
  have "n mod (65536 * m) = 65536 * (n div 65536 mod m) + n mod 65536"
    by (rule mod_mult2_eq)
  moreover have "n mod (256 * 256) = 256 * (n div 256 mod 256) + n mod 256"
    by (rule mod_mult2_eq)
  ultimately show ?thesis by simp
qed

lemma upt_0_4: "[0..<4] = [0, 1, 2, 3 :: nat]"
  by (simp add: upt_rec)

lemma unat_shift_u32: "unat (drop_bit n (x :: u32)) = unat x div 2 ^ n"
  by (subst unat_drop_bit_eq) (rule drop_bit_eq_div)

end
