(* ===== verification/P4Runtime.thy ===== *)
theory P4Runtime
  imports Prelude
begin

text \<open>
  The P4Runtime protobuf messages the code builds and reads, each as a record
  with the fields the code uses. The message types are generated from the
  P4Runtime proto files, which are outside the repository; only the data they
  carry is represented here, and the accessors behave as protobuf documents
  them: a setter overwrites a field, \<open>add_x\<close> appends to a repeated field,
  \<open>mutable_x\<close> creates an absent submessage, reading an absent submessage gives
  its default value, and selecting a member of a oneof clears the others.

  A \<open>TableEntry*\<close> that points into a request is the index of the update (or
  entity) of the request that holds it; \<open>write_entry\<close> and \<open>put_write_entry\<close>
  are the dereference and the assignment through it.
\<close>

section \<open>Status values\<close>

text \<open>\<open>absl::Status\<close> and \<open>grpc::Status\<close>: a code and a message; code 0 is OK.
  \<open>absl::Status(code, message)\<close> drops the message when the code is OK.\<close>

record Status =
  st_code :: int
  st_message :: string

type_synonym 'a StatusOr = "Status + 'a"

definition ok :: "Status \<Rightarrow> bool" where
  "ok s \<longleftrightarrow> st_code s = 0"

definition absl_Status :: "int \<Rightarrow> string \<Rightarrow> Status" where
  "absl_Status c m = (if c = 0 then \<lparr>st_code = 0, st_message = []\<rparr>
                      else \<lparr>st_code = c, st_message = m\<rparr>)"

definition OkStatus :: Status where
  "OkStatus = \<lparr>st_code = 0, st_message = []\<rparr>"

definition UnimplementedError :: "string \<Rightarrow> Status" where
  "UnimplementedError m = absl_Status 12 m"

definition InternalError :: "string \<Rightarrow> Status" where
  "InternalError m = absl_Status 13 m"

definition UnavailableError :: "string \<Rightarrow> Status" where
  "UnavailableError m = absl_Status 14 m"

fun status_or_ok :: "'a StatusOr \<Rightarrow> bool" where
  "status_or_ok (Inl _) = False"
| "status_or_ok (Inr _) = True"

fun status_of :: "'a StatusOr \<Rightarrow> Status" where
  "status_of (Inl s) = s"
| "status_of (Inr _) = OkStatus"

section \<open>P4Info\<close>

record Preamble =
  pre_id :: u32
  pre_name :: string

record NamedId =
  ni_id :: u32
  ni_name :: string

record P4Table =
  tbl_preamble :: Preamble
  tbl_match_fields :: "NamedId list"

record P4Action =
  pact_preamble :: Preamble
  pact_params :: "NamedId list"

record P4Info =
  pi_tables :: "P4Table list"
  pi_actions :: "P4Action list"

definition empty_P4Info :: P4Info where
  "empty_P4Info = \<lparr>pi_tables = [], pi_actions = []\<rparr>"

section \<open>Table entries\<close>

datatype MatchType = NoMatch | Exact bytes | Ternary bytes bytes

record FieldMatch =
  fm_field_id :: u32
  fm_match :: MatchType

record Param =
  par_param_id :: u32
  par_value :: bytes

record Action =
  act_action_id :: u32
  act_params :: "Param list"

record TableEntry =
  te_table_id :: u32
  te_match :: "FieldMatch list"
  te_action :: "Action option"
  te_priority :: u32

definition empty_Action :: Action where
  "empty_Action = \<lparr>act_action_id = 0, act_params = []\<rparr>"

definition empty_TableEntry :: TableEntry where
  "empty_TableEntry = \<lparr>te_table_id = 0, te_match = [], te_action = None, te_priority = 0\<rparr>"

definition set_table_id :: "u32 \<Rightarrow> TableEntry \<Rightarrow> TableEntry" where
  "set_table_id i te = te\<lparr>te_table_id := i\<rparr>"

definition set_priority :: "u32 \<Rightarrow> TableEntry \<Rightarrow> TableEntry" where
  "set_priority p te = te\<lparr>te_priority := p\<rparr>"

text \<open>\<open>add_match()\<close>, \<open>set_field_id(i)\<close> and \<open>mutable_exact()->set_value(v)\<close> (or the
  two ternary setters) on the new element.\<close>

definition add_exact :: "u32 \<Rightarrow> bytes \<Rightarrow> TableEntry \<Rightarrow> TableEntry" where
  "add_exact i v te =
     te\<lparr>te_match := te_match te @ [\<lparr>fm_field_id = i, fm_match = Exact v\<rparr>]\<rparr>"

definition add_ternary :: "u32 \<Rightarrow> bytes \<Rightarrow> bytes \<Rightarrow> TableEntry \<Rightarrow> TableEntry" where
  "add_ternary i v m te =
     te\<lparr>te_match := te_match te @ [\<lparr>fm_field_id = i, fm_match = Ternary v m\<rparr>]\<rparr>"

text \<open>\<open>mutable_action()->mutable_action()\<close>, the default action when there is none.\<close>

definition the_action :: "TableEntry \<Rightarrow> Action" where
  "the_action te = (case te_action te of None \<Rightarrow> empty_Action | Some a \<Rightarrow> a)"

definition mutable_action :: "TableEntry \<Rightarrow> TableEntry" where
  "mutable_action te = te\<lparr>te_action := Some (the_action te)\<rparr>"

definition set_action_id :: "u32 \<Rightarrow> TableEntry \<Rightarrow> TableEntry" where
  "set_action_id i te = te\<lparr>te_action := Some ((the_action te)\<lparr>act_action_id := i\<rparr>)\<rparr>"

text \<open>\<open>action->add_params()\<close>, \<open>set_param_id(i)\<close> and \<open>set_value(v)\<close> on the new
  element.\<close>

definition add_param :: "u32 \<Rightarrow> bytes \<Rightarrow> TableEntry \<Rightarrow> TableEntry" where
  "add_param i v te =
     te\<lparr>te_action := Some ((the_action te)\<lparr>act_params :=
       act_params (the_action te) @ [\<lparr>par_param_id = i, par_value = v\<rparr>]\<rparr>)\<rparr>"

text \<open>What identifies an entry to the server: its table, its match fields and its
  priority. INSERT, MODIFY, DELETE and READ all address an entry by these.\<close>

type_synonym entry_key = "u32 \<times> FieldMatch list \<times> u32"

definition entry_key :: "TableEntry \<Rightarrow> entry_key" where
  "entry_key te = (te_table_id te, te_match te, te_priority te)"

section \<open>Requests and responses\<close>

datatype Update_Type = UNSPECIFIED | INSERT | MODIFY | DELETE

record Uint128 =
  u128_high :: u64
  u128_low :: u64

definition empty_Uint128 :: Uint128 where
  "empty_Uint128 = \<lparr>u128_high = 0, u128_low = 0\<rparr>"

record Update =
  upd_type :: Update_Type
  upd_entry :: TableEntry

record WriteRequest =
  wr_device_id :: u64
  wr_election_id :: Uint128
  wr_updates :: "Update list"

record ReadRequest =
  rr_device_id :: u64
  rr_entities :: "TableEntry list"

record ReadResponse =
  rs_entities :: "TableEntry list"

definition empty_WriteRequest :: WriteRequest where
  "empty_WriteRequest = \<lparr>wr_device_id = 0, wr_election_id = empty_Uint128, wr_updates = []\<rparr>"

definition empty_ReadRequest :: ReadRequest where
  "empty_ReadRequest = \<lparr>rr_device_id = 0, rr_entities = []\<rparr>"

definition empty_ReadResponse :: ReadResponse where
  "empty_ReadResponse = \<lparr>rs_entities = []\<rparr>"

definition write_entry :: "nat \<Rightarrow> WriteRequest \<Rightarrow> TableEntry" where
  "write_entry p req = upd_entry (wr_updates req ! p)"

definition put_write_entry :: "nat \<Rightarrow> TableEntry \<Rightarrow> WriteRequest \<Rightarrow> WriteRequest" where
  "put_write_entry p te req =
     req\<lparr>wr_updates := (wr_updates req)[p := (wr_updates req ! p)\<lparr>upd_entry := te\<rparr>]\<rparr>"

definition read_entry :: "nat \<Rightarrow> ReadRequest \<Rightarrow> TableEntry" where
  "read_entry p req = rr_entities req ! p"

definition put_read_entry :: "nat \<Rightarrow> TableEntry \<Rightarrow> ReadRequest \<Rightarrow> ReadRequest" where
  "put_read_entry p te req = req\<lparr>rr_entities := (rr_entities req)[p := te]\<rparr>"

section \<open>Lemmas\<close>

declare set_table_id_def [msg_defs] set_priority_def [msg_defs] add_exact_def [msg_defs]
  add_ternary_def [msg_defs] the_action_def [msg_defs] mutable_action_def [msg_defs]
  set_action_id_def [msg_defs] add_param_def [msg_defs] entry_key_def [msg_defs]
  empty_Action_def [msg_defs] empty_TableEntry_def [msg_defs]

lemma ok_OkStatus [simp]: "ok OkStatus"
  by (simp add: ok_def OkStatus_def)

lemma ok_absl_Status [simp]: "ok (absl_Status c m) \<longleftrightarrow> c = 0"
  by (simp add: ok_def absl_Status_def)

lemma not_ok_errors [simp]:
  "\<not> ok (UnimplementedError m)" "\<not> ok (InternalError m)" "\<not> ok (UnavailableError m)"
  by (simp_all add: UnimplementedError_def InternalError_def UnavailableError_def)

lemma status_or_ok_iff: "status_or_ok x \<longleftrightarrow> (\<exists>v. x = Inr v)"
  by (cases x) simp_all

text \<open>The setters of the action leave the key of an entry alone, and the setters
  of the key leave the action alone.\<close>

lemma entry_key_action [simp]:
  "entry_key (mutable_action te) = entry_key te"
  "entry_key (set_action_id i te) = entry_key te"
  "entry_key (add_param i v te) = entry_key te"
  by (simp_all add: msg_defs)

lemma te_action_key [simp]:
  "te_action (set_table_id i te) = te_action te"
  "te_action (set_priority p te) = te_action te"
  "te_action (add_exact f v te) = te_action te"
  "te_action (add_ternary f v m te) = te_action te"
  by (simp_all add: msg_defs)

lemma te_action_set [simp]:
  "te_action (mutable_action te) = Some (the_action te)"
  "te_action (set_action_id i te) = Some ((the_action te)\<lparr>act_action_id := i\<rparr>)"
  by (simp_all add: mutable_action_def set_action_id_def)

end
