(* ===== verification/Api_Types.thy ===== *)
theory Api_Types
  imports Prelude
begin

text \<open>
  \<^verbatim>\<open>include/ovsp4rt/ovs-p4rt.h\<close>: the constants and structures of the public
  interface, and \<^verbatim>\<open>core/api/ovsp4rt_str_to_tunnel_type.cc\<close>.

  Two unions are represented by their storage. The address union of \<open>p4_ipaddr\<close> is
  its 16 bytes of memory, as a 128-bit word whose byte \<open>i\<close> is bits \<open>8 i\<close> to
  \<open>8 i + 7\<close>: \<open>v4addr.s_addr\<close> is the low 32 bits, \<open>__u6_addr8[i]\<close> a byte and
  \<open>__u6_addr32[i]\<close> a 32-bit group, all read as a little-endian host reads them. The
  anonymous union of \<open>mac_learning_info\<close> is its larger member \<open>tnl_info\<close>;
  \<open>vln_info.vlan_id\<close> shares the first four bytes with \<open>tnl_info.ifindex\<close>, so
  reading the one reads the other. \<open>mac_addr[6]\<close> is a tuple of six bytes, and the
  \<open>tunnel_type\<close> field, a \<open>uint8_t\<close>, holds the numeric values of
  \<open>enum ovs_tunnel_type\<close>.
\<close>

section \<open>Constants and enumerations\<close>

definition AF_INET :: u8 where "AF_INET = 2"
definition AF_INET6 :: u8 where "AF_INET6 = 10"

definition P4_VXLAN_SOURCE_PORT_OFFSET :: u32 where "P4_VXLAN_SOURCE_PORT_OFFSET = 2048"
definition MAX_P4_BRIDGE_ID :: u32 where "MAX_P4_BRIDGE_ID = 255"

datatype p4_vlan_mode =
    P4_PORT_VLAN_ACCESS
  | P4_PORT_VLAN_TRUNK
  | P4_PORT_VLAN_NATIVE_TAGGED
  | P4_PORT_VLAN_NATIVE_UNTAGGED
  | P4_PORT_VLAN_DOT1Q_TUNNEL
  | P4_PORT_VLAN_UNSUPPORTED

definition OVS_TUNNEL_UNKNOWN :: u8 where "OVS_TUNNEL_UNKNOWN = 0"
definition OVS_TUNNEL_VXLAN :: u8 where "OVS_TUNNEL_VXLAN = 1"
definition OVS_TUNNEL_GENEVE :: u8 where "OVS_TUNNEL_GENEVE = 2"

section \<open>Structures\<close>

datatype mac_addr = Mac (mac0: u8) (mac1: u8) (mac2: u8) (mac3: u8) (mac4: u8) (mac5: u8)

record p4_ipaddr =
  ip_family :: u8
  ip_prefix_len :: u8
  ip_mem :: u128

definition v4addr_s_addr :: "p4_ipaddr \<Rightarrow> u32" where
  "v4addr_s_addr a = ucast (ip_mem a)"

definition u6_addr8 :: "u128 \<Rightarrow> nat \<Rightarrow> u8" where
  "u6_addr8 a i = ucast (drop_bit (8 * i) a)"

definition u6_addr32 :: "u128 \<Rightarrow> nat \<Rightarrow> u32" where
  "u6_addr32 a i = ucast (drop_bit (32 * i) a)"

record port_vlan_info =
  pv_mode :: p4_vlan_mode
  pv_vlan :: u32

record tunnel_info =
  ti_ifindex :: u32
  ti_port_id :: u32
  ti_src_port :: u32
  ti_local_ip :: p4_ipaddr
  ti_remote_ip :: p4_ipaddr
  ti_dst_port :: u16
  ti_vni :: u32
  ti_vlan_info :: port_vlan_info
  ti_bridge_id :: u8
  ti_tunnel_type :: u8

record src_port_info =
  sp_bridge_id :: u8
  sp_vlan_id :: u16
  sp_src_port :: u32

record vlan_info =
  vi_vlan_id :: u32

record mac_learning_info =
  ml_is_tunnel :: bool
  ml_is_vlan :: bool
  ml_mac_addr :: mac_addr
  ml_bridge_id :: u8
  ml_src_port :: u32
  ml_rx_src_port :: u32
  ml_vlan_info :: port_vlan_info
  ml_tnl_info :: tunnel_info

definition ml_vln_info :: "mac_learning_info \<Rightarrow> vlan_info" where
  "ml_vln_info m = \<lparr>vi_vlan_id = ti_ifindex (ml_tnl_info m)\<rparr>"

record ip_mac_map_info =
  im_src_mac_addr :: mac_addr
  im_dst_mac_addr :: mac_addr
  im_src_ip_addr :: p4_ipaddr
  im_dst_ip_addr :: p4_ipaddr

section \<open>Tunnel type names\<close>

text \<open>A null \<open>const char*\<close> is \<open>None\<close>.\<close>

definition ovsp4rt_str_to_tunnel_type :: "string option \<Rightarrow> u8" where
  "ovsp4rt_str_to_tunnel_type tnl_type =
     (case tnl_type of
        Some s \<Rightarrow> if s = ''vxlan'' then OVS_TUNNEL_VXLAN
                  else if s = ''geneve'' then OVS_TUNNEL_GENEVE
                  else OVS_TUNNEL_UNKNOWN
      | None \<Rightarrow> OVS_TUNNEL_UNKNOWN)"

section \<open>Lemmas\<close>

lemma tunnel_types_distinct [simp]:
  "OVS_TUNNEL_VXLAN \<noteq> OVS_TUNNEL_GENEVE" "OVS_TUNNEL_GENEVE \<noteq> OVS_TUNNEL_VXLAN"
  "OVS_TUNNEL_VXLAN \<noteq> OVS_TUNNEL_UNKNOWN" "OVS_TUNNEL_GENEVE \<noteq> OVS_TUNNEL_UNKNOWN"
  "OVS_TUNNEL_UNKNOWN \<noteq> OVS_TUNNEL_VXLAN" "OVS_TUNNEL_UNKNOWN \<noteq> OVS_TUNNEL_GENEVE"
  by (simp_all add: OVS_TUNNEL_VXLAN_def OVS_TUNNEL_GENEVE_def OVS_TUNNEL_UNKNOWN_def)

lemma families_distinct [simp]: "AF_INET \<noteq> AF_INET6" "AF_INET6 \<noteq> AF_INET"
  by (simp_all add: AF_INET_def AF_INET6_def)

text \<open>A 32-bit group of an IPv6 address, byte by byte.\<close>

lemma u6_addr32_byte:
  assumes "j < 4" and "i < 4"
  shows "(ucast (drop_bit (8 * j) (u6_addr32 a i)) :: u8) = u6_addr8 a (4 * i + j)"
proof (rule bit_word_eqI)
  fix n
  assume "n < LENGTH(8)"
  with assms(1) have "n + 8 * j < 32" by simp
  with \<open>n < LENGTH(8)\<close> show "bit (ucast (drop_bit (8 * j) (u6_addr32 a i)) :: u8) n =
      bit (u6_addr8 a (4 * i + j)) n"
    by (auto simp: u6_addr32_def u6_addr8_def bit_simps ac_simps)
qed

end
