(* ===== verification/World.thy ===== *)
theory World
  imports Api_Types
begin

text \<open>
  The state an API call works on, and \<^verbatim>\<open>sidecar/logging\<close>.

  \<open>world\<close> is what the code can change: the client object the call was given, the
  environment behind it (the gRPC channel, the P4Runtime server, the file system),
  and the lines written to standard output. The environment's type is a parameter of
  the whole development.

  The lemmas show that the formatted MAC address always fits the 32-byte buffer it is
  printed into, so that \<open>snprintf\<close> never truncates it.
\<close>

record ('c, 'e) world =
  w_client :: 'c
  w_env :: 'e
  w_out :: "string list"

section \<open>ovsp4rt\_diag\_detail\<close>

datatype LogTableId =
    LOG_UNKNOWN_TABLE
  | LOG_L2_FWD_RX_TABLE
  | LOG_L2_FWD_TX_TABLE
  | LOG_L2_TO_TUNNEL_V4_TABLE
  | LOG_L2_TO_TUNNEL_V6_TABLE
  | LOG_L2_FWD_SMAC_TABLE
  | LOG_L2_FWD_RX_WITH_TUNNEL_TABLE
  | LOG_DST_IP_MAC_MAP_TABLE
  | LOG_SRC_IP_MAC_MAP_TABLE

record DiagDetail =
  dd_table_id :: LogTableId

definition default_DiagDetail :: DiagDetail where
  "default_DiagDetail = \<lparr>dd_table_id = LOG_UNKNOWN_TABLE\<rparr>"

definition getLogTableName :: "DiagDetail \<Rightarrow> string" where
  "getLogTableName d =
     (case dd_table_id d of
        LOG_UNKNOWN_TABLE \<Rightarrow> ''UNKNOWN''
      | LOG_L2_FWD_RX_TABLE \<Rightarrow> ''log_l2_fwd_rx_table''
      | LOG_L2_FWD_RX_WITH_TUNNEL_TABLE \<Rightarrow> ''l2_fwd_rx_with_tunnel_table''
      | LOG_L2_FWD_TX_TABLE \<Rightarrow> ''l2_fwd_tx_table''
      | LOG_L2_TO_TUNNEL_V6_TABLE \<Rightarrow> ''l2_to_tunnel_v6_table''
      | LOG_L2_TO_TUNNEL_V4_TABLE \<Rightarrow> ''l2_to_tunnel_v4_table''
      | LOG_L2_FWD_SMAC_TABLE \<Rightarrow> ''l2_fwd_smac_table''
      | LOG_DST_IP_MAC_MAP_TABLE \<Rightarrow> ''dst_ip_mac_map_table''
      | LOG_SRC_IP_MAC_MAP_TABLE \<Rightarrow> ''src_ip_mac_map_table'')"

section \<open>ovsp4rt\_logging\<close>

definition OVSP4RT_LEVEL_DEBUG :: int where "OVSP4RT_LEVEL_DEBUG = 0"
definition OVSP4RT_LEVEL_INFO :: int where "OVSP4RT_LEVEL_INFO = 1"
definition OVSP4RT_LEVEL_WARN :: int where "OVSP4RT_LEVEL_WARN = 2"
definition OVSP4RT_LEVEL_ERROR :: int where "OVSP4RT_LEVEL_ERROR = 3"

definition get_level_name :: "int \<Rightarrow> string" where
  "get_level_name level =
     (if level = OVSP4RT_LEVEL_ERROR then ''ERROR''
      else if level = OVSP4RT_LEVEL_WARN then ''WARN''
      else if level = OVSP4RT_LEVEL_INFO then ''INFO''
      else if level = OVSP4RT_LEVEL_DEBUG then ''DEBUG''
      else ''UNKNOWN'')"

text \<open>\<open>printf("%-5s", s)\<close>: padded on the right to five characters.\<close>

definition pad5 :: "string \<Rightarrow> string" where
  "pad5 s = s @ replicate (5 - length s) (CHR '' '')"

definition print_line :: "string \<Rightarrow> ('c, 'e) world \<Rightarrow> ('c, 'e) world" where
  "print_line l w = w\<lparr>w_out := w_out w @ [l]\<rparr>"

definition print_lines :: "string list \<Rightarrow> ('c, 'e) world \<Rightarrow> ('c, 'e) world" where
  "print_lines ls w = foldl (\<lambda>w l. print_line l w) w ls"

text \<open>The format's arguments are already substituted in \<open>message\<close>.\<close>

definition ovsp4rt_log_message :: "int \<Rightarrow> string \<Rightarrow> ('c, 'e) world \<Rightarrow> ('c, 'e) world" where
  "ovsp4rt_log_message level message w =
     print_line (''OVSP4RT '' @ pad5 (get_level_name level) @ '' - '' @ message) w"

section \<open>ovsp4rt\_logutils\<close>

definition MessagePrefix :: "bool \<Rightarrow> string" where
  "MessagePrefix inserting =
     (if inserting then ''Error adding entry to'' else ''Error deleting entry from'')"

text \<open>\<open>printf("%x", b)\<close> on a byte: one or two digits, no leading zero.\<close>

definition hex_digit :: "nat \<Rightarrow> char" where
  "hex_digit n = ''0123456789abcdef'' ! n"

definition hex_byte :: "u8 \<Rightarrow> string" where
  "hex_byte b = (if unat b < 16 then [hex_digit (unat b)]
                 else [hex_digit (unat b div 16), hex_digit (unat b mod 16)])"

definition mac_text :: "mac_addr \<Rightarrow> string" where
  "mac_text m = hex_byte (mac0 m) @ '':'' @ hex_byte (mac1 m) @ '':'' @ hex_byte (mac2 m) @ '':'' @
     hex_byte (mac3 m) @ '':'' @ hex_byte (mac4 m) @ '':'' @ hex_byte (mac5 m)"

text \<open>\<open>snprintf(buf, 32, ...)\<close> stores at most 31 characters.\<close>

definition FormatMacAddr :: "mac_addr \<Rightarrow> string" where
  "FormatMacAddr m = take 31 (mac_text m)"

definition LogFailure :: "bool \<Rightarrow> string \<Rightarrow> ('c, 'e) world \<Rightarrow> ('c, 'e) world" where
  "LogFailure inserting table w =
     ovsp4rt_log_message OVSP4RT_LEVEL_DEBUG (MessagePrefix inserting @ '' '' @ table) w"

definition LogFailureWithMacAddr ::
    "bool \<Rightarrow> string \<Rightarrow> mac_addr \<Rightarrow> ('c, 'e) world \<Rightarrow> ('c, 'e) world" where
  "LogFailureWithMacAddr inserting table mac w =
     ovsp4rt_log_message OVSP4RT_LEVEL_DEBUG
       (MessagePrefix inserting @ '' '' @ table @ '' for '' @ FormatMacAddr mac) w"

section \<open>Lemmas\<close>

lemma print_line_frame [simp]:
  "w_client (print_line l w) = w_client w" "w_env (print_line l w) = w_env w"
  "w_out (print_line l w) = w_out w @ [l]"
  by (simp_all add: print_line_def)

lemma print_lines_simps [simp]:
  "print_lines [] w = w" "print_lines (l # ls) w = print_lines ls (print_line l w)"
  by (simp_all add: print_lines_def)

lemma print_lines_frame [simp]:
  "w_client (print_lines ls w) = w_client w" "w_env (print_lines ls w) = w_env w"
  "w_out (print_lines ls w) = w_out w @ ls"
  by (induction ls arbitrary: w) simp_all

lemma log_frame [simp]:
  "w_client (LogFailure i t w) = w_client w" "w_env (LogFailure i t w) = w_env w"
  "w_client (LogFailureWithMacAddr i t m w) = w_client w"
  "w_env (LogFailureWithMacAddr i t m w) = w_env w"
  by (simp_all add: LogFailure_def LogFailureWithMacAddr_def ovsp4rt_log_message_def)

lemma hex_byte_length: "length (hex_byte b) \<le> 2"
  by (simp add: hex_byte_def)

lemma mac_text_length: "length (mac_text m) \<le> 17"
  using hex_byte_length [of "mac0 m"] hex_byte_length [of "mac1 m"] hex_byte_length [of "mac2 m"]
    hex_byte_length [of "mac3 m"] hex_byte_length [of "mac4 m"] hex_byte_length [of "mac5 m"]
  by (simp add: mac_text_def)

lemma hex_digit_inj: "m < 16 \<Longrightarrow> n < 16 \<Longrightarrow> hex_digit m = hex_digit n \<longleftrightarrow> m = n"
  unfolding hex_digit_def by (rule nth_eq_iff_index_eq) simp_all

lemma hex_digit_not_colon: "n < 16 \<Longrightarrow> CHR '':'' \<noteq> hex_digit n"
  using nth_mem [of n "''0123456789abcdef''"] by (auto simp: hex_digit_def)

lemma hex_byte_no_colon: "CHR '':'' \<notin> set (hex_byte b)"
  using unat_u8_less [of b] by (simp add: hex_byte_def hex_digit_not_colon)

lemma hex_byte_inj: "hex_byte b = hex_byte c \<Longrightarrow> b = c"
proof -
  assume eq: "hex_byte b = hex_byte c"
  have lt: "unat b div 16 < 16" "unat c div 16 < 16"
    using unat_u8_less [of b] unat_u8_less [of c] by simp_all
  have "unat b = unat c"
  proof (cases "unat b < 16")
    case True
    with eq have "unat c < 16" and "hex_digit (unat b) = hex_digit (unat c)"
      by (simp_all add: hex_byte_def split: if_splits)
    with True show ?thesis by (simp add: hex_digit_inj)
  next
    case False
    with eq lt have "unat b div 16 = unat c div 16" and "unat b mod 16 = unat c mod 16"
      by (simp_all add: hex_byte_def hex_digit_inj split: if_splits)
    then show ?thesis by (metis div_mult_mod_eq)
  qed
  then show "b = c" by (rule word_unat_eq_iff [THEN iffD2])
qed

text \<open>Splitting at the first separator, for the injectivity of the printed address.\<close>

lemma append_sep_cancel:
  assumes "s \<notin> set xs" and "s \<notin> set ys" and "xs @ s # us = ys @ s # vs"
  shows "xs = ys \<and> us = vs"
proof -
  have "takeWhile (\<lambda>c. c \<noteq> s) (xs @ s # us) = xs" "takeWhile (\<lambda>c. c \<noteq> s) (ys @ s # vs) = ys"
    using assms(1,2) by (auto simp: takeWhile_tail)
  with assms(3) show ?thesis by auto
qed

end
