(* ===== verification/Session.thy ===== *)
theory Session
  imports P4Runtime World
begin

text \<open>
  \<^verbatim>\<open>sidecar/session\<close>: the P4Runtime session and the channel credentials.

  What lies outside the repository (the gRPC stub and its streams, the file system,
  the clock, the thread library) is the record \<open>grpc_env\<close>, a parameter of every
  function that uses it, over an arbitrary type \<open>'e\<close> of environment states. A stub and
  an open stream are handles. A server-streaming read is the finite list of the
  partial responses followed by the final status.

  The lemmas characterise the outcomes of session creation and of the three requests.
\<close>

section \<open>The environment\<close>

datatype Credentials =
    InsecureCredentials
  | TlsCredentials (tls_key_file: string) (tls_cert_file: string) (tls_ca_file: string)
      (tls_refresh: nat) (tls_watch_identity: bool)

record Arbitration =
  arb_device_id :: u64
  arb_role_name :: string
  arb_role_config :: "bytes option"
  arb_election_id :: Uint128

datatype StreamMessageResponse = kArbitration u64 | kOther

record GetConfigRequest =
  gc_device_id :: u64
  gc_response_type :: string

record 'e grpc_env =
  g_now :: "'e \<Rightarrow> u64"
  g_thread_self :: "'e \<Rightarrow> u64"
  g_lstat_regular :: "string \<Rightarrow> 'e \<Rightarrow> bool"
  g_path_exists :: "string \<Rightarrow> 'e \<Rightarrow> bool"
  g_read_role_config :: "string \<Rightarrow> 'e \<Rightarrow> Status \<times> bytes"
  g_new_stub :: "string \<Rightarrow> Credentials \<Rightarrow> 'e \<Rightarrow> nat \<times> 'e"
  g_stream_channel :: "nat \<Rightarrow> 'e \<Rightarrow> nat \<times> 'e"
  g_stream_write :: "nat \<Rightarrow> Arbitration \<Rightarrow> 'e \<Rightarrow> bool \<times> 'e"
  g_stream_read :: "nat \<Rightarrow> 'e \<Rightarrow> StreamMessageResponse option \<times> 'e"
  g_stream_finish :: "nat \<Rightarrow> 'e \<Rightarrow> 'e"
  g_get_config :: "nat \<Rightarrow> GetConfigRequest \<Rightarrow> 'e \<Rightarrow> (Status \<times> P4Info) \<times> 'e"
  g_read :: "nat \<Rightarrow> ReadRequest \<Rightarrow> 'e \<Rightarrow> (ReadResponse list \<times> Status) \<times> 'e"
  g_write :: "nat \<Rightarrow> WriteRequest \<Rightarrow> 'e \<Rightarrow> Status \<times> 'e"

section \<open>Credentials\<close>

definition ca_cert_file :: string where
  "ca_cert_file = ''/usr/share/stratum/certs/ca.crt''"
definition client_key_file :: string where
  "client_key_file = ''/usr/share/stratum/certs/client.key''"
definition client_cert_file :: string where
  "client_cert_file = ''/usr/share/stratum/certs/client.crt''"
definition kFileRefreshIntervalSeconds :: nat where
  "kFileRefreshIntervalSeconds = 1"

definition IsRegularFile :: "'e grpc_env \<Rightarrow> string \<Rightarrow> 'e \<Rightarrow> bool" where
  "IsRegularFile g filename e = g_lstat_regular g filename e"

definition GenerateClientCredentials ::
    "'e grpc_env \<Rightarrow> ('c, 'e) world \<Rightarrow> Credentials \<times> ('c, 'e) world" where
  "GenerateClientCredentials g w =
     (if IsRegularFile g ca_cert_file (w_env w) \<and> IsRegularFile g client_cert_file (w_env w) \<and>
         IsRegularFile g client_key_file (w_env w)
      then (TlsCredentials client_key_file client_cert_file ca_cert_file
              kFileRefreshIntervalSeconds (ca_cert_file \<noteq> [] \<and> client_key_file \<noteq> []), w)
      else (InsecureCredentials, print_line ''Using insecure client credentials!'' w))"

section \<open>Status conversions\<close>

definition AbslStatusToGrpcStatus :: "Status \<Rightarrow> Status" where
  "AbslStatusToGrpcStatus s = \<lparr>st_code = st_code s, st_message = st_message s\<rparr>"

definition GrpcStatusToAbslStatus :: "Status \<Rightarrow> Status" where
  "GrpcStatusToAbslStatus s = absl_Status (st_code s) (st_message s)"

definition StratumStatusToAbslStatus :: "Status \<Rightarrow> Status" where
  "StratumStatusToAbslStatus s = absl_Status (st_code s) (st_message s)"

section \<open>The session\<close>

record OvsP4rtSession =
  ses_device_id :: u32
  ses_election_id :: Uint128
  ses_role_name :: string
  ses_stub :: nat
  ses_stream_channel :: nat

definition MakeUint128 :: "u64 \<Rightarrow> u64 \<Rightarrow> u128" where
  "MakeUint128 high low = push_bit 64 (ucast high) OR ucast low"

definition Uint128High64 :: "u128 \<Rightarrow> u64" where
  "Uint128High64 x = ucast (drop_bit 64 x)"

definition Uint128Low64 :: "u128 \<Rightarrow> u64" where
  "Uint128Low64 x = ucast x"

definition TimeBasedElectionId :: "'e grpc_env \<Rightarrow> 'e \<Rightarrow> u128" where
  "TimeBasedElectionId g e = MakeUint128 (g_now g e) 0"

text \<open>The private constructor: \<open>ses_role_name\<close> has no initializer, so it is empty.\<close>

definition OvsP4rtSession_new ::
    "'e grpc_env \<Rightarrow> u32 \<Rightarrow> string \<Rightarrow> nat \<Rightarrow> u128 \<Rightarrow> 'e \<Rightarrow> OvsP4rtSession \<times> 'e" where
  "OvsP4rtSession_new g device_id role_name stub election_id e =
     (case g_stream_channel g stub e of
        (stream, e) \<Rightarrow>
          (\<lparr>ses_device_id = device_id,
            ses_election_id = \<lparr>u128_high = Uint128High64 election_id,
                            u128_low = Uint128Low64 election_id\<rparr>,
            ses_role_name = [],
            ses_stub = stub,
            ses_stream_channel = stream\<rparr>, e))"

definition DEFAULT_OVS_P4RT_ROLE_CONFIG_FILE :: string where
  "DEFAULT_OVS_P4RT_ROLE_CONFIG_FILE = ''/usr/share/stratum/ovs_p4rt_role_config.pb.txt''"

text \<open>The role of the arbitration request: \<open>Inl\<close> is the early return when the role
  configuration file exists and cannot be parsed.\<close>

definition arbitration_role_config :: "'e grpc_env \<Rightarrow> 'e \<Rightarrow> Status + bytes option" where
  "arbitration_role_config g e =
     (if g_path_exists g DEFAULT_OVS_P4RT_ROLE_CONFIG_FILE e then
        (case g_read_role_config g DEFAULT_OVS_P4RT_ROLE_CONFIG_FILE e of
           (status, role_config) \<Rightarrow>
             if \<not> ok status then Inl (StratumStatusToAbslStatus status)
             else Inr (Some role_config))
      else Inr None)"

definition Create ::
    "'e grpc_env \<Rightarrow> nat \<Rightarrow> u32 \<Rightarrow> string \<Rightarrow> u128 \<Rightarrow> 'e \<Rightarrow> OvsP4rtSession StatusOr \<times> 'e" where
  "Create g stub device_id role_name election_id e =
     (let (session, e) = OvsP4rtSession_new g device_id role_name stub election_id e
      in case arbitration_role_config g e of
           Inl status \<Rightarrow> (Inl status, e)
         | Inr config \<Rightarrow>
             (let arbt_request =
                    \<lparr>arb_device_id = ucast device_id, arb_role_name = role_name,
                     arb_role_config = config, arb_election_id = ses_election_id session\<rparr>;
                  (written, e) = g_stream_write g (ses_stream_channel session) arbt_request e
              in if \<not> written then
                   (Inl (UnavailableError (''Unable to initiate P4RT connection '' @
                           ''for Write request, closing stream channel'')),
                    g_stream_finish g (ses_stream_channel session) e)
                 else
                   (let (response, e) = g_stream_read g (ses_stream_channel session) e
                    in case response of
                         None \<Rightarrow>
                           (Inl (InternalError ''No arbitration response received''),
                            g_stream_finish g (ses_stream_channel session) e)
                       | Some kOther \<Rightarrow> (Inl (InternalError ''No arbitration update received''), e)
                       | Some (kArbitration d) \<Rightarrow>
                           if d \<noteq> ucast (ses_device_id session)
                           then (Inl (InternalError ''Received device id doesn't match''), e)
                           else (Inr session, e))))"

text \<open>The overload that takes an address: the thread identifier is added to the
  election identifier.\<close>

definition Create_addr ::
    "'e grpc_env \<Rightarrow> string \<Rightarrow> Credentials \<Rightarrow> u32 \<Rightarrow> string \<Rightarrow> u128 \<Rightarrow> 'e \<Rightarrow>
     OvsP4rtSession StatusOr \<times> 'e" where
  "Create_addr g address credentials device_id role_name election_id e =
     (let election_id = election_id + ucast (g_thread_self g e);
          (stub, e) = g_new_stub g address credentials e
      in Create g stub device_id role_name election_id e)"

section \<open>Requests of a session\<close>

text \<open>The status of the call is computed and dropped; the result is always OK.\<close>

definition GetForwardingPipelineConfig ::
    "'e grpc_env \<Rightarrow> OvsP4rtSession \<Rightarrow> 'e \<Rightarrow> (Status \<times> P4Info) \<times> 'e" where
  "GetForwardingPipelineConfig g session e =
     (let request = \<lparr>gc_device_id = ucast (ses_device_id session),
                     gc_response_type = ''P4INFO_AND_COOKIE''\<rparr>;
          ((status, config), e) = g_get_config g (ses_stub session) request e
      in ((OkStatus, config), e))"

definition MergeFrom :: "ReadResponse \<Rightarrow> ReadResponse \<Rightarrow> ReadResponse" where
  "MergeFrom response partial = \<lparr>rs_entities = rs_entities response @ rs_entities partial\<rparr>"

definition SendReadRequest ::
    "'e grpc_env \<Rightarrow> OvsP4rtSession \<Rightarrow> ReadRequest \<Rightarrow> 'e \<Rightarrow> ReadResponse StatusOr \<times> 'e" where
  "SendReadRequest g session read_request e =
     (let ((partials, reader_status), e) = g_read g (ses_stub session) read_request e;
          response = foldl MergeFrom empty_ReadResponse partials
      in if \<not> ok reader_status then (Inl (GrpcStatusToAbslStatus reader_status), e)
         else (Inr response, e))"

definition SendWriteRequest ::
    "'e grpc_env \<Rightarrow> OvsP4rtSession \<Rightarrow> WriteRequest \<Rightarrow> 'e \<Rightarrow> Status \<times> 'e" where
  "SendWriteRequest g session write_request e =
     (let (status, e) = g_write g (ses_stub session) write_request e
      in (GrpcStatusToAbslStatus status, e))"

section \<open>Setting up a request\<close>

text \<open>Each returns the position of the new entry in the request, and the request.\<close>

definition SetupTableEntryToRead :: "OvsP4rtSession \<Rightarrow> ReadRequest \<Rightarrow> nat \<times> ReadRequest" where
  "SetupTableEntryToRead session req =
     (length (rr_entities req),
      req\<lparr>rr_device_id := ucast (ses_device_id session),
          rr_entities := rr_entities req @ [empty_TableEntry]\<rparr>)"

definition SetupTableEntryToInsert :: "OvsP4rtSession \<Rightarrow> WriteRequest \<Rightarrow> nat \<times> WriteRequest" where
  "SetupTableEntryToInsert session req =
     (length (wr_updates req),
      req\<lparr>wr_device_id := ucast (ses_device_id session),
          wr_election_id := ses_election_id session,
          wr_updates := wr_updates req @ [\<lparr>upd_type = INSERT, upd_entry = empty_TableEntry\<rparr>]\<rparr>)"

definition SetupTableEntryToModify :: "OvsP4rtSession \<Rightarrow> WriteRequest \<Rightarrow> nat \<times> WriteRequest" where
  "SetupTableEntryToModify session req =
     (length (wr_updates req),
      req\<lparr>wr_device_id := ucast (ses_device_id session),
          wr_election_id := ses_election_id session,
          wr_updates := wr_updates req @ [\<lparr>upd_type = MODIFY, upd_entry = empty_TableEntry\<rparr>]\<rparr>)"

definition SetupTableEntryToDelete :: "OvsP4rtSession \<Rightarrow> WriteRequest \<Rightarrow> nat \<times> WriteRequest" where
  "SetupTableEntryToDelete session req =
     (length (wr_updates req),
      req\<lparr>wr_device_id := ucast (ses_device_id session),
          wr_election_id := ses_election_id session,
          wr_updates := wr_updates req @ [\<lparr>upd_type = DELETE, upd_entry = empty_TableEntry\<rparr>]\<rparr>)"

section \<open>Lemmas\<close>

lemma ok_GrpcStatusToAbslStatus [simp]: "ok (GrpcStatusToAbslStatus s) \<longleftrightarrow> ok s"
  by (simp add: GrpcStatusToAbslStatus_def ok_def [of s])

lemma ok_StratumStatusToAbslStatus [simp]: "ok (StratumStatusToAbslStatus s) \<longleftrightarrow> ok s"
  by (simp add: StratumStatusToAbslStatus_def ok_def [of s])

lemma credentials_frame [simp]:
  "w_env (snd (GenerateClientCredentials g w)) = w_env w"
  "w_client (snd (GenerateClientCredentials g w)) = w_client w"
  by (simp_all add: GenerateClientCredentials_def)

text \<open>The partial responses of a read are concatenated in order.\<close>

lemma foldl_MergeFrom:
  "rs_entities (foldl MergeFrom r ps) = rs_entities r @ concat (map rs_entities ps)"
  by (induction ps arbitrary: r) (simp_all add: MergeFrom_def)

text \<open>The two halves of a 128-bit election identifier.\<close>

lemma Uint128_halves:
  "Uint128High64 (MakeUint128 h l) = h" "Uint128Low64 (MakeUint128 h l) = l"
  by (rule bit_word_eqI,
      auto simp: Uint128High64_def Uint128Low64_def MakeUint128_def bit_simps
        dest: bit_imp_le_length)+

lemma MakeUint128_add: "MakeUint128 h 0 + ucast l = MakeUint128 h l"
proof -
  have "push_bit 64 (ucast h :: u128) AND ucast l = 0"
    by (rule bit_word_eqI) (auto simp: bit_simps dest: bit_imp_le_length)
  then have "push_bit 64 (ucast h :: u128) + ucast l = push_bit 64 (ucast h) OR ucast l"
    by (rule disjunctive_add_eq_or)
  then show ?thesis by (simp add: MakeUint128_def)
qed

lemma Create_new_simps [simp]:
  "ses_device_id (fst (OvsP4rtSession_new g d r s el e)) = d"
  "ses_stub (fst (OvsP4rtSession_new g d r s el e)) = s"
  "ses_role_name (fst (OvsP4rtSession_new g d r s el e)) = []"
  "ses_election_id (fst (OvsP4rtSession_new g d r s el e)) =
     \<lparr>u128_high = Uint128High64 el, u128_low = Uint128Low64 el\<rparr>"
  by (simp_all add: OvsP4rtSession_new_def split: prod.split)

text \<open>A created session carries the device, the election identifier and the stub it was
  created with.\<close>

lemma Create_session:
  assumes "Create g stub d r el e = (Inr s, e')"
  shows "ses_device_id s = d \<and> ses_stub s = stub \<and> ses_role_name s = [] \<and>
    ses_election_id s = \<lparr>u128_high = Uint128High64 el, u128_low = Uint128Low64 el\<rparr>"
proof -
  obtain s0 e0 where n: "OvsP4rtSession_new g d r stub el e = (s0, e0)" by fastforce
  from assms n have "s = s0"
    by (auto simp: Create_def Let_def split: prod.splits sum.splits option.splits if_splits
        StreamMessageResponse.splits)
  with n show ?thesis using Create_new_simps [of g d r stub el e] by simp
qed

text \<open>An error of session creation is never the OK status.\<close>

lemma Create_error:
  assumes "Create g stub d r el e = (Inl st, e')"
  shows "\<not> ok st"
  using assms
  by (auto simp: Create_def Let_def arbitration_role_config_def
      split: prod.splits sum.splits option.splits if_splits StreamMessageResponse.splits)

lemma Create_addr_error: "Create_addr g a c d r el e = (Inl st, e') \<Longrightarrow> \<not> ok st"
  by (auto simp: Create_addr_def Let_def split: prod.splits dest: Create_error)

end
