(* ===== verification/Client.thy ===== *)
theory Client
  imports Session
begin

text \<open>
  \<^verbatim>\<open>sidecar/client\<close>: the interface every API function talks to the P4Runtime server
  through (\<open>ClientInterface\<close>, here the record of its virtual functions), its production
  implementation \<open>Client\<close> over a session, and \<open>TestClient\<close>, the base of the mock
  clients.

  \<open>Client::session_\<close> is a \<open>unique_ptr\<close>: \<open>None\<close> until a connect succeeds. A method that
  dereferences it while it is null has undefined behaviour, the result \<open>None\<close>.

  The locale \<open>client_interface\<close> is what the API functions rely on: connecting returns,
  and on success makes the client ready; on a ready client every method returns and
  leaves it ready, and the init methods append one entry stamped with the device and
  election identifiers. \<open>Client\<close> and \<open>TestClient\<close> are instances. Its lemmas show that a
  request set up by a Prepare function holds exactly one update.
\<close>

section \<open>Flags and interface\<close>

record client_flags =
  FLAGS_device_id :: u64
  FLAGS_role_name :: string

definition default_flags :: client_flags where
  "default_flags = \<lparr>FLAGS_device_id = 1, FLAGS_role_name = ''ovs-p4rt''\<rparr>"

record ('c, 'e) ClientInterface =
  ci_connect :: "string \<Rightarrow> ('c, 'e) world \<Rightarrow> (('c, 'e) world, Status) result"
  ci_getPipelineConfig ::
    "P4Info \<Rightarrow> ('c, 'e) world \<Rightarrow> (('c, 'e) world, Status \<times> P4Info) result"
  ci_initReadRequest ::
    "ReadRequest \<Rightarrow> ('c, 'e) world \<Rightarrow> (('c, 'e) world, nat \<times> ReadRequest) result"
  ci_sendReadRequest ::
    "ReadRequest \<Rightarrow> ('c, 'e) world \<Rightarrow> (('c, 'e) world, ReadResponse StatusOr) result"
  ci_initInsertRequest ::
    "WriteRequest \<Rightarrow> ('c, 'e) world \<Rightarrow> (('c, 'e) world, nat \<times> WriteRequest) result"
  ci_initModifyRequest ::
    "WriteRequest \<Rightarrow> ('c, 'e) world \<Rightarrow> (('c, 'e) world, nat \<times> WriteRequest) result"
  ci_initDeleteRequest ::
    "WriteRequest \<Rightarrow> ('c, 'e) world \<Rightarrow> (('c, 'e) world, nat \<times> WriteRequest) result"
  ci_initWriteRequest ::
    "WriteRequest \<Rightarrow> bool \<Rightarrow> ('c, 'e) world \<Rightarrow> (('c, 'e) world, nat \<times> WriteRequest) result"
  ci_sendWriteRequest ::
    "WriteRequest \<Rightarrow> ('c, 'e) world \<Rightarrow> (('c, 'e) world, Status) result"

section \<open>Client\<close>

record Client =
  cl_session :: "OvsP4rtSession option"

definition Client_connect ::
    "'e grpc_env \<Rightarrow> client_flags \<Rightarrow> string \<Rightarrow> ('a Client_scheme, 'e) world \<Rightarrow>
     (('a Client_scheme, 'e) world, Status) result" where
  "Client_connect g flags grpc_addr w =
     (let (credentials, w) = GenerateClientCredentials g w;
          (result, e) = Create_addr g grpc_addr credentials
             (ucast (FLAGS_device_id flags)) (FLAGS_role_name flags)
             (TimeBasedElectionId g (w_env w)) (w_env w);
          w = w\<lparr>w_env := e\<rparr>
      in case result of
           Inl status \<Rightarrow> Some (status, w)
         | Inr session \<Rightarrow>
             Some (OkStatus, w\<lparr>w_client := (w_client w)\<lparr>cl_session := Some session\<rparr>\<rparr>))"

definition Client_getPipelineConfig ::
    "'e grpc_env \<Rightarrow> P4Info \<Rightarrow> ('a Client_scheme, 'e) world \<Rightarrow>
     (('a Client_scheme, 'e) world, Status \<times> P4Info) result" where
  "Client_getPipelineConfig g p4info w = do {
     session \<leftarrow> cl_session (w_client w);
     let (r, e) = GetForwardingPipelineConfig g session (w_env w);
     Some (r, w\<lparr>w_env := e\<rparr>)
   }"

definition Client_initReadRequest ::
    "ReadRequest \<Rightarrow> ('a Client_scheme, 'e) world \<Rightarrow>
     (('a Client_scheme, 'e) world, nat \<times> ReadRequest) result" where
  "Client_initReadRequest request w = do {
     session \<leftarrow> cl_session (w_client w);
     Some (SetupTableEntryToRead session request, w)
   }"

definition Client_DoSendReadRequest ::
    "'e grpc_env \<Rightarrow> ReadRequest \<Rightarrow> ('a Client_scheme, 'e) world \<Rightarrow>
     (('a Client_scheme, 'e) world, ReadResponse StatusOr) result" where
  "Client_DoSendReadRequest g request w = do {
     session \<leftarrow> cl_session (w_client w);
     let (r, e) = SendReadRequest g session request (w_env w);
     Some (r, w\<lparr>w_env := e\<rparr>)
   }"

definition Client_initInsertRequest ::
    "WriteRequest \<Rightarrow> ('a Client_scheme, 'e) world \<Rightarrow>
     (('a Client_scheme, 'e) world, nat \<times> WriteRequest) result" where
  "Client_initInsertRequest request w = do {
     session \<leftarrow> cl_session (w_client w);
     Some (SetupTableEntryToInsert session request, w)
   }"

definition Client_initModifyRequest ::
    "WriteRequest \<Rightarrow> ('a Client_scheme, 'e) world \<Rightarrow>
     (('a Client_scheme, 'e) world, nat \<times> WriteRequest) result" where
  "Client_initModifyRequest request w = do {
     session \<leftarrow> cl_session (w_client w);
     Some (SetupTableEntryToModify session request, w)
   }"

definition Client_initDeleteRequest ::
    "WriteRequest \<Rightarrow> ('a Client_scheme, 'e) world \<Rightarrow>
     (('a Client_scheme, 'e) world, nat \<times> WriteRequest) result" where
  "Client_initDeleteRequest request w = do {
     session \<leftarrow> cl_session (w_client w);
     Some (SetupTableEntryToDelete session request, w)
   }"

definition Client_initWriteRequest ::
    "WriteRequest \<Rightarrow> bool \<Rightarrow> ('a Client_scheme, 'e) world \<Rightarrow>
     (('a Client_scheme, 'e) world, nat \<times> WriteRequest) result" where
  "Client_initWriteRequest request insert_entry w =
     (if insert_entry then Client_initInsertRequest request w
      else Client_initDeleteRequest request w)"

definition Client_DoSendWriteRequest ::
    "'e grpc_env \<Rightarrow> WriteRequest \<Rightarrow> ('a Client_scheme, 'e) world \<Rightarrow>
     (('a Client_scheme, 'e) world, Status) result" where
  "Client_DoSendWriteRequest g request w = do {
     session \<leftarrow> cl_session (w_client w);
     let (r, e) = SendWriteRequest g session request (w_env w);
     Some (r, w\<lparr>w_env := e\<rparr>)
   }"

definition Client_new :: Client where
  "Client_new = \<lparr>cl_session = None\<rparr>"

definition Client_vtable ::
    "'e grpc_env \<Rightarrow> client_flags \<Rightarrow> ('a Client_scheme, 'e) ClientInterface" where
  "Client_vtable g flags = \<lparr>
     ci_connect = Client_connect g flags,
     ci_getPipelineConfig = Client_getPipelineConfig g,
     ci_initReadRequest = Client_initReadRequest,
     ci_sendReadRequest = Client_DoSendReadRequest g,
     ci_initInsertRequest = Client_initInsertRequest,
     ci_initModifyRequest = Client_initModifyRequest,
     ci_initDeleteRequest = Client_initDeleteRequest,
     ci_initWriteRequest = Client_initWriteRequest,
     ci_sendWriteRequest = Client_DoSendWriteRequest g\<rparr>"

section \<open>TestClient\<close>

record TestClient =
  tc_device_id :: u64
  tc_election_id :: Uint128
  tc_role_name :: string

definition TestClient_new :: "client_flags \<Rightarrow> TestClient" where
  "TestClient_new flags = \<lparr>tc_device_id = FLAGS_device_id flags, tc_election_id = empty_Uint128,
     tc_role_name = FLAGS_role_name flags\<rparr>"

definition TestClient_InitWriteRequest ::
    "WriteRequest \<Rightarrow> Update_Type \<Rightarrow> (TestClient, 'e) world \<Rightarrow>
     ((TestClient, 'e) world, nat \<times> WriteRequest) result" where
  "TestClient_InitWriteRequest request type_value w =
     Some ((length (wr_updates request),
            request\<lparr>wr_device_id := tc_device_id (w_client w),
                    wr_election_id := tc_election_id (w_client w),
                    wr_updates := wr_updates request @
                      [\<lparr>upd_type = type_value, upd_entry = empty_TableEntry\<rparr>]\<rparr>), w)"

definition TestClient_initReadRequest ::
    "ReadRequest \<Rightarrow> (TestClient, 'e) world \<Rightarrow>
     ((TestClient, 'e) world, nat \<times> ReadRequest) result" where
  "TestClient_initReadRequest request w =
     Some ((length (rr_entities request),
            request\<lparr>rr_device_id := tc_device_id (w_client w),
                    rr_entities := rr_entities request @ [empty_TableEntry]\<rparr>), w)"

definition TestClient_vtable :: "(TestClient, 'e) ClientInterface" where
  "TestClient_vtable = \<lparr>
     ci_connect = (\<lambda>grpc_addr w. Some (UnimplementedError ''connect'', w)),
     ci_getPipelineConfig =
       (\<lambda>p4info w. Some ((UnimplementedError ''getPipelineConfig'', p4info), w)),
     ci_initReadRequest = TestClient_initReadRequest,
     ci_sendReadRequest =
       (\<lambda>request w. Some (Inl (UnimplementedError ''DoSendReadRequest''), w)),
     ci_initInsertRequest = (\<lambda>request. TestClient_InitWriteRequest request INSERT),
     ci_initModifyRequest = (\<lambda>request. TestClient_InitWriteRequest request MODIFY),
     ci_initDeleteRequest = (\<lambda>request. TestClient_InitWriteRequest request DELETE),
     ci_initWriteRequest =
       (\<lambda>request insert_entry.
          if insert_entry then TestClient_InitWriteRequest request INSERT
          else TestClient_InitWriteRequest request DELETE),
     ci_sendWriteRequest =
       (\<lambda>request w. Some (UnimplementedError ''DoSendWriteRequest'', w))\<rparr>"

section \<open>The contract of a client\<close>

text \<open>The request with one update, and with one entity, that a call sends.\<close>

definition write_type :: "bool \<Rightarrow> Update_Type" where
  "write_type insert_entry = (if insert_entry then INSERT else DELETE)"

definition single_write :: "u64 \<Rightarrow> Uint128 \<Rightarrow> bool \<Rightarrow> TableEntry \<Rightarrow> WriteRequest" where
  "single_write dev elec insert_entry te =
     \<lparr>wr_device_id = dev, wr_election_id = elec,
      wr_updates = [\<lparr>upd_type = write_type insert_entry, upd_entry = te\<rparr>]\<rparr>"

definition single_read :: "u64 \<Rightarrow> TableEntry \<Rightarrow> ReadRequest" where
  "single_read dev te = \<lparr>rr_device_id = dev, rr_entities = [te]\<rparr>"

text \<open>What a call may not change of a ready client.\<close>

definition keeps :: "('c \<Rightarrow> u64) \<Rightarrow> ('c \<Rightarrow> Uint128) \<Rightarrow> 'c \<Rightarrow> 'c \<Rightarrow> bool" where
  "keeps dev elec c c' \<longleftrightarrow> dev c' = dev c \<and> elec c' = elec c"

locale client_interface =
  fixes ci :: "('c, 'e) ClientInterface"
    and ready :: "'c \<Rightarrow> bool"
    and dev :: "'c \<Rightarrow> u64"
    and elec :: "'c \<Rightarrow> Uint128"
  assumes connect_returns:
      "\<exists>s w'. ci_connect ci addr w = Some (s, w') \<and> (ok s \<longrightarrow> ready (w_client w'))"
    and config_returns:
      "ready (w_client w) \<Longrightarrow>
       runs (\<lambda>w'. ready (w_client w') \<and> keeps dev elec (w_client w) (w_client w'))
         (ci_getPipelineConfig ci p w)"
    and read_returns:
      "ready (w_client w) \<Longrightarrow>
       runs (\<lambda>w'. ready (w_client w') \<and> keeps dev elec (w_client w) (w_client w'))
         (ci_sendReadRequest ci rq w)"
    and write_returns:
      "ready (w_client w) \<Longrightarrow>
       runs (\<lambda>w'. ready (w_client w') \<and> keeps dev elec (w_client w) (w_client w'))
         (ci_sendWriteRequest ci wq w)"
    and init_read:
      "ready (w_client w) \<Longrightarrow>
       ci_initReadRequest ci rq w =
         Some ((length (rr_entities rq),
                rq\<lparr>rr_device_id := dev (w_client w),
                   rr_entities := rr_entities rq @ [empty_TableEntry]\<rparr>), w)"
    and init_write:
      "ready (w_client w) \<Longrightarrow>
       ci_initWriteRequest ci wq b w =
         Some ((length (wr_updates wq),
                wq\<lparr>wr_device_id := dev (w_client w), wr_election_id := elec (w_client w),
                   wr_updates := wr_updates wq @
                     [\<lparr>upd_type = write_type b, upd_entry = empty_TableEntry\<rparr>]\<rparr>), w)"
begin

text \<open>The state after a call: the client is still ready and has its identifiers.\<close>

definition stays :: "('c, 'e) world \<Rightarrow> ('c, 'e) world \<Rightarrow> bool" where
  "stays w w' \<longleftrightarrow> ready (w_client w') \<and> keeps dev elec (w_client w) (w_client w')"

lemma stays_refl: "ready (w_client w) \<Longrightarrow> stays w w"
  by (simp add: stays_def keeps_def)

lemma stays_trans: "stays u v \<Longrightarrow> stays v w \<Longrightarrow> stays u w"
  by (simp add: stays_def keeps_def)

lemma stays_ready: "stays v w \<Longrightarrow> ready (w_client w)"
  by (simp add: stays_def)

lemma stays_log [simp]:
  "stays v (LogFailure i t w) = stays v w"
  "stays v (LogFailureWithMacAddr i t m w) = stays v w"
  "stays v (print_line l w) = stays v w"
  by (simp_all add: stays_def)

lemma stays_then:
  assumes "runs (stays w) m"
    and "\<And>r w'. ready (w_client w') \<Longrightarrow> runs (stays w') (f (r, w'))"
  shows "runs (stays w) (m \<bind> f)"
proof (rule runs_bind [OF assms(1)])
  fix r w'
  assume s: "stays w w'"
  then have "runs (stays w') (f (r, w'))" by (intro assms(2) stays_ready)
  with s show "runs (stays w) (f (r, w'))" by (blast intro: runs_mono stays_trans)
qed

text \<open>Sending one entry: what every Write and Read function of the code amounts to.\<close>

definition send_entry ::
    "bool \<Rightarrow> TableEntry \<Rightarrow> ('c, 'e) world \<Rightarrow> (('c, 'e) world, Status) result" where
  "send_entry b te w =
     ci_sendWriteRequest ci (single_write (dev (w_client w)) (elec (w_client w)) b te) w"

definition read_key ::
    "TableEntry \<Rightarrow> ('c, 'e) world \<Rightarrow> (('c, 'e) world, ReadResponse StatusOr) result" where
  "read_key te w = ci_sendReadRequest ci (single_read (dev (w_client w)) te) w"

lemma send_entry_stays: "ready (w_client w) \<Longrightarrow> runs (stays w) (send_entry b te w)"
  using write_returns by (auto simp: send_entry_def runs_def stays_def)

lemma read_key_stays: "ready (w_client w) \<Longrightarrow> runs (stays w) (read_key te w)"
  using read_returns by (auto simp: read_key_def runs_def stays_def)

text \<open>Preparing a request from an empty one and writing the encoded entry into it.\<close>

lemma init_empty_write:
  assumes "ready (w_client w)"
  shows "\<exists>req. ci_initWriteRequest ci empty_WriteRequest b w = Some ((0, req), w) \<and>
      write_entry 0 req = empty_TableEntry \<and>
      (\<forall>te. put_write_entry 0 te req =
         single_write (dev (w_client w)) (elec (w_client w)) b te)"
  using init_write [OF assms, of empty_WriteRequest b]
  by (simp add: empty_WriteRequest_def write_entry_def put_write_entry_def single_write_def)

lemma init_empty_read:
  assumes "ready (w_client w)"
  shows "\<exists>req. ci_initReadRequest ci empty_ReadRequest w = Some ((0, req), w) \<and>
      read_entry 0 req = empty_TableEntry \<and>
      (\<forall>te. put_read_entry 0 te req = single_read (dev (w_client w)) te)"
  using init_read [OF assms, of empty_ReadRequest]
  by (simp add: empty_ReadRequest_def read_entry_def put_read_entry_def single_read_def)

end

section \<open>The clients meet the contract\<close>

definition Client_ready :: "'a Client_scheme \<Rightarrow> bool" where
  "Client_ready c \<longleftrightarrow> cl_session c \<noteq> None"

definition Client_dev :: "'a Client_scheme \<Rightarrow> u64" where
  "Client_dev c = (case cl_session c of None \<Rightarrow> 0 | Some s \<Rightarrow> ucast (ses_device_id s))"

definition Client_elec :: "'a Client_scheme \<Rightarrow> Uint128" where
  "Client_elec c = (case cl_session c of None \<Rightarrow> empty_Uint128 | Some s \<Rightarrow> ses_election_id s)"

lemmas Client_defs = Client_vtable_def Client_ready_def Client_dev_def Client_elec_def
  Client_connect_def Client_getPipelineConfig_def Client_initReadRequest_def
  Client_DoSendReadRequest_def Client_initInsertRequest_def Client_initModifyRequest_def
  Client_initDeleteRequest_def Client_initWriteRequest_def Client_DoSendWriteRequest_def
  SetupTableEntryToRead_def SetupTableEntryToInsert_def SetupTableEntryToModify_def
  SetupTableEntryToDelete_def

interpretation cl: client_interface "Client_vtable g flags" Client_ready Client_dev Client_elec
  for g :: "'e grpc_env" and flags
  by unfold_locales
    (auto simp: Client_defs keeps_def runs_def write_type_def Let_def split: prod.splits sum.splits
      dest: Create_addr_error)

lemmas TestClient_defs = TestClient_vtable_def TestClient_InitWriteRequest_def
  TestClient_initReadRequest_def

interpretation tc: client_interface TestClient_vtable "\<lambda>_. True" tc_device_id tc_election_id
  by unfold_locales (auto simp: TestClient_defs keeps_def write_type_def)

end
