(* ===== verification/Entry_Ops.thy ===== *)
theory Entry_Ops
  imports Client
begin

text \<open>
  The three shapes of client code that every API function of \<^verbatim>\<open>core/v3\<close> is built from,
  and what they amount to on a client that meets the contract: a request that is
  initialized, filled in by an encoder and sent is one write of the encoded entry; the
  same with a log line on failure; and the connect / get pipeline / update prologue of
  the \<open>DoConfig\<close> functions.

  \<open>write_all\<close> and \<open>write_each\<close> are the abstract side of the refinement theorems: the
  effect on the server of a list of entries written until the first failure, or
  written regardless of failures.
\<close>

section \<open>Sequences of writes to the server\<close>

definition server_write ::
    "'e grpc_env \<Rightarrow> OvsP4rtSession \<Rightarrow> bool \<Rightarrow> TableEntry \<Rightarrow> 'e \<Rightarrow> Status \<times> 'e" where
  "server_write g s b te e =
     SendWriteRequest g s (single_write (ucast (ses_device_id s)) (ses_election_id s) b te) e"

definition server_read ::
    "'e grpc_env \<Rightarrow> OvsP4rtSession \<Rightarrow> TableEntry \<Rightarrow> 'e \<Rightarrow> ReadResponse StatusOr \<times> 'e" where
  "server_read g s te e = SendReadRequest g s (single_read (ucast (ses_device_id s)) te) e"

fun write_all ::
    "'e grpc_env \<Rightarrow> OvsP4rtSession \<Rightarrow> bool \<Rightarrow> TableEntry list \<Rightarrow> 'e \<Rightarrow> Status \<times> 'e" where
  "write_all g s b [] e = (OkStatus, e)"
| "write_all g s b [te] e = server_write g s b te e"
| "write_all g s b (te # tes) e =
     (let (st, e) = server_write g s b te e in if ok st then write_all g s b tes e else (st, e))"

fun write_each ::
    "'e grpc_env \<Rightarrow> OvsP4rtSession \<Rightarrow> bool \<Rightarrow> TableEntry list \<Rightarrow> 'e \<Rightarrow> 'e" where
  "write_each g s b [] e = e"
| "write_each g s b (te # tes) e = write_each g s b tes (snd (server_write g s b te e))"

section \<open>The prologue of an API function\<close>

text \<open>The common body of the \<open>DoConfig\<close> functions, with the update of the P4 tables as a
  parameter.\<close>

definition in_session ::
    "('c, 'e) ClientInterface \<Rightarrow> string \<Rightarrow>
     (P4Info \<Rightarrow> ('c, 'e) world \<Rightarrow> (('c, 'e) world, Status) result) \<Rightarrow>
     ('c, 'e) world \<Rightarrow> (('c, 'e) world, Status) result" where
  "in_session client grpc_addr update w = do {
     (status, w) \<leftarrow> ci_connect client grpc_addr w;
     if \<not> ok status then Some (status, w)
     else do {
       ((status, p4info), w) \<leftarrow> ci_getPipelineConfig client empty_P4Info w;
       if \<not> ok status then Some (status, w) else update p4info w
     }
   }"

section \<open>The shapes on a client that meets the contract\<close>

context client_interface
begin

text \<open>Initialize, encode, send.\<close>

lemma write_shape:
  assumes "ready (w_client w)"
  shows "(ci_initWriteRequest ci empty_WriteRequest b w \<bind>
      (\<lambda>((p, req), w). ci_sendWriteRequest ci (put_write_entry p (f (write_entry p req)) req) w)) =
    send_entry b (f empty_TableEntry) w"
  using init_empty_write [OF assms, of b] by (auto simp: send_entry_def)

lemma read_shape:
  assumes "ready (w_client w)"
  shows "(ci_initReadRequest ci empty_ReadRequest w \<bind>
      (\<lambda>((p, req), w). ci_sendReadRequest ci (put_read_entry p (f (read_entry p req)) req) w)) =
    read_key (f empty_TableEntry) w"
  using init_empty_read [OF assms] by (auto simp: read_key_def)

lemma read_detail_shape:
  assumes "ready (w_client w)"
  shows "(ci_initReadRequest ci empty_ReadRequest w \<bind>
      (\<lambda>((p, req), w). case f (read_entry p req) of (te, detail) \<Rightarrow>
         ci_sendReadRequest ci (put_read_entry p te req) w)) =
    read_key (fst (f empty_TableEntry)) w"
  using init_empty_read [OF assms] by (auto simp: read_key_def split: prod.split)

text \<open>The same with a diagnostic line when the write fails.\<close>

definition send_logged ::
    "(string \<Rightarrow> ('c, 'e) world \<Rightarrow> ('c, 'e) world) \<Rightarrow> bool \<Rightarrow> TableEntry \<times> DiagDetail \<Rightarrow>
     ('c, 'e) world \<Rightarrow> (('c, 'e) world, Status) result" where
  "send_logged log b r w = do {
     (status, w) \<leftarrow> send_entry b (fst r) w;
     Some (status, if ok status then w else log (getLogTableName (snd r)) w)
   }"

lemma write_logged_shape:
  assumes "ready (w_client w)"
  shows "(ci_initWriteRequest ci empty_WriteRequest b w \<bind>
      (\<lambda>((p, req), w). case f (write_entry p req) of (te, detail) \<Rightarrow>
         ci_sendWriteRequest ci (put_write_entry p te req) w \<bind>
         (\<lambda>(status, w). Some (status,
            if \<not> ok status then log (getLogTableName detail) w else w)))) =
    send_logged log b (f empty_TableEntry) w"
proof -
  obtain req where "ci_initWriteRequest ci empty_WriteRequest b w = Some ((0, req), w)"
    "write_entry 0 req = empty_TableEntry"
    "\<And>te. put_write_entry 0 te req = single_write (dev (w_client w)) (elec (w_client w)) b te"
    using init_empty_write [OF assms, of b] by blast
  then show ?thesis
    by (cases "f empty_TableEntry") (auto simp: send_logged_def send_entry_def intro!: Option.bind_cong)
qed

lemma write_printed_shape:
  assumes "ready (w_client w)"
  shows "(ci_initWriteRequest ci empty_WriteRequest b w \<bind>
      (\<lambda>((p, req), w). case f (write_entry p req) of (te, lines) \<Rightarrow>
         ci_sendWriteRequest ci (put_write_entry p te req) (print_lines lines w))) =
    send_entry b (fst (f empty_TableEntry)) (print_lines (snd (f empty_TableEntry)) w)"
  using init_empty_write [OF assms, of b]
  by (auto simp: send_entry_def split: prod.split)

lemma send_logged_stays:
  assumes "ready (w_client w)" and "\<And>t w. w_client (log t w) = w_client w"
  shows "runs (stays w) (send_logged log b r w)"
  using send_entry_stays [OF assms(1), of b "fst r"] assms(2)
  by (auto simp: send_logged_def runs_def stays_def)

text \<open>A DoConfig function returns, whatever the server answers.\<close>

lemma in_session_returns:
  assumes "\<And>p4info w. ready (w_client w) \<Longrightarrow> runs (\<lambda>_. True) (update p4info w)"
  shows "runs (\<lambda>_. True) (in_session ci addr update w)"
proof -
  obtain s w1 where c: "ci_connect ci addr w = Some (s, w1)" "ok s \<longrightarrow> ready (w_client w1)"
    using connect_returns by blast
  show ?thesis
  proof (cases "ok s")
    case False
    with c show ?thesis by (simp add: in_session_def)
  next
    case True
    with c have "ready (w_client w1)" by simp
    then obtain t p w2 where g: "ci_getPipelineConfig ci empty_P4Info w1 = Some ((t, p), w2)"
      "ready (w_client w2)"
      using config_returns [of w1 empty_P4Info] by (auto simp: runs_def)
    with True c show ?thesis
      using assms [of w2 p] by (auto simp: in_session_def)
  qed
qed

end

section \<open>The shapes on the production client\<close>

lemma cl_send_entry:
  assumes "cl_session (w_client w) = Some s"
  shows "cl.send_entry g flags b te w =
    (let (st, e) = server_write g s b te (w_env w) in Some (st, w\<lparr>w_env := e\<rparr>))"
  using assms unfolding cl.send_entry_def
  by (simp add: server_write_def Client_defs Let_def split: prod.split)

lemma cl_read_key:
  assumes "cl_session (w_client w) = Some s"
  shows "cl.read_key g flags te w =
    (let (r, e) = server_read g s te (w_env w) in Some (r, w\<lparr>w_env := e\<rparr>))"
  using assms unfolding cl.read_key_def
  by (simp add: server_read_def Client_defs Let_def split: prod.split)

lemma Client_readyI: "cl_session c = Some s \<Longrightarrow> Client_ready c"
  by (simp add: Client_ready_def)

lemma cl_send_logged:
  assumes "cl_session (w_client w) = Some s"
  shows "cl.send_logged g flags log b r w =
    (let (st, e) = server_write g s b (fst r) (w_env w);
         w' = w\<lparr>w_env := e\<rparr>
     in Some (st, if ok st then w' else log (getLogTableName (snd r)) w'))"
  using assms unfolding cl.send_logged_def
  by (simp add: cl_send_entry Let_def split: prod.split)

lemmas cl_simps = cl_send_entry cl_read_key cl_send_logged Client_readyI

end
