(* ===== verification/P4Info_Utils.thy ===== *)
theory P4Info_Utils
  imports P4Runtime
begin

text \<open>
  \<^verbatim>\<open>core/common/ovsp4rt_p4info_utils.cc\<close>: the four functions that look a name up
  in the pipeline description. They return \<open>int\<close>; every caller converts the result
  to \<open>uint32_t\<close>, so an identifier is a 32-bit word and the "not found" value \<open>-1\<close>
  is \<open>0xFFFFFFFF\<close>. The lemmas show that a lookup finds the declared identifier of
  every name of a pipeline whose names are unambiguous, and is \<open>-1\<close> for a name that
  is not declared.
\<close>

fun find_id :: "NamedId list \<Rightarrow> string \<Rightarrow> u32 option" where
  "find_id [] name = None"
| "find_id (x # xs) name = (if ni_name x = name then Some (ni_id x) else find_id xs name)"

fun GetActionId_loop :: "P4Action list \<Rightarrow> string \<Rightarrow> u32" where
  "GetActionId_loop [] a_name = -1"
| "GetActionId_loop (action # actions) a_name =
     (let pre = pact_preamble action in
      if pre_name pre = a_name then pre_id pre else GetActionId_loop actions a_name)"

definition GetActionId :: "P4Info \<Rightarrow> string \<Rightarrow> u32" where
  "GetActionId p4info a_name = GetActionId_loop (pi_actions p4info) a_name"

fun GetMatchFieldId_loop :: "P4Table list \<Rightarrow> string \<Rightarrow> string \<Rightarrow> u32" where
  "GetMatchFieldId_loop [] t_name mf_name = -1"
| "GetMatchFieldId_loop (table # tables) t_name mf_name =
     (let pre = tbl_preamble table in
      if pre_name pre \<noteq> t_name then GetMatchFieldId_loop tables t_name mf_name
      else (case find_id (tbl_match_fields table) mf_name of
              Some i \<Rightarrow> i
            | None \<Rightarrow> GetMatchFieldId_loop tables t_name mf_name))"

definition GetMatchFieldId :: "P4Info \<Rightarrow> string \<Rightarrow> string \<Rightarrow> u32" where
  "GetMatchFieldId p4info t_name mf_name = GetMatchFieldId_loop (pi_tables p4info) t_name mf_name"

fun GetParamId_loop :: "P4Action list \<Rightarrow> string \<Rightarrow> string \<Rightarrow> u32" where
  "GetParamId_loop [] a_name param_name = -1"
| "GetParamId_loop (action # actions) a_name param_name =
     (let pre = pact_preamble action in
      if pre_name pre \<noteq> a_name then GetParamId_loop actions a_name param_name
      else (case find_id (pact_params action) param_name of
              Some i \<Rightarrow> i
            | None \<Rightarrow> GetParamId_loop actions a_name param_name))"

definition GetParamId :: "P4Info \<Rightarrow> string \<Rightarrow> string \<Rightarrow> u32" where
  "GetParamId p4info a_name param_name = GetParamId_loop (pi_actions p4info) a_name param_name"

fun GetTableId_loop :: "P4Table list \<Rightarrow> string \<Rightarrow> u32" where
  "GetTableId_loop [] t_name = -1"
| "GetTableId_loop (table # tables) t_name =
     (let pre = tbl_preamble table in
      if pre_name pre = t_name then pre_id pre else GetTableId_loop tables t_name)"

definition GetTableId :: "P4Info \<Rightarrow> string \<Rightarrow> u32" where
  "GetTableId p4info t_name = GetTableId_loop (pi_tables p4info) t_name"

text \<open>The names of the pipeline's tables and actions.\<close>

definition table_names :: "P4Info \<Rightarrow> string list" where
  "table_names p4info = map (pre_name \<circ> tbl_preamble) (pi_tables p4info)"

definition action_names :: "P4Info \<Rightarrow> string list" where
  "action_names p4info = map (pre_name \<circ> pact_preamble) (pi_actions p4info)"

text \<open>A well-formed pipeline description: table names, table identifiers, action
  names and action identifiers are distinct, each table's match fields and each
  action's parameters have distinct names, and no identifier is the reserved
  value \<open>-1\<close>.\<close>

definition wf_named :: "NamedId list \<Rightarrow> bool" where
  "wf_named xs \<longleftrightarrow> distinct (map ni_name xs) \<and> distinct (map ni_id xs) \<and> -1 \<notin> ni_id ` set xs"

definition wf_p4info :: "P4Info \<Rightarrow> bool" where
  "wf_p4info p4info \<longleftrightarrow>
     distinct (table_names p4info) \<and>
     distinct (map (pre_id \<circ> tbl_preamble) (pi_tables p4info)) \<and>
     -1 \<notin> (pre_id \<circ> tbl_preamble) ` set (pi_tables p4info) \<and>
     distinct (action_names p4info) \<and>
     distinct (map (pre_id \<circ> pact_preamble) (pi_actions p4info)) \<and>
     -1 \<notin> (pre_id \<circ> pact_preamble) ` set (pi_actions p4info) \<and>
     list_all (wf_named \<circ> tbl_match_fields) (pi_tables p4info) \<and>
     list_all (wf_named \<circ> pact_params) (pi_actions p4info)"

section \<open>Lemmas\<close>

lemma find_id_None_iff: "find_id xs name = None \<longleftrightarrow> name \<notin> ni_name ` set xs"
  by (induction xs) auto

lemma find_id_SomeD: "find_id xs name = Some i \<Longrightarrow> \<exists>x\<in>set xs. ni_name x = name \<and> ni_id x = i"
  by (induction xs) (auto split: if_splits)

lemma find_id_distinct:
  "distinct (map ni_name xs) \<Longrightarrow> x \<in> set xs \<Longrightarrow> find_id xs (ni_name x) = Some (ni_id x)"
  by (induction xs) (auto simp: image_iff)

lemma GetTableId_loop_distinct:
  "distinct (map (pre_name \<circ> tbl_preamble) ts) \<Longrightarrow> t \<in> set ts \<Longrightarrow>
   GetTableId_loop ts (pre_name (tbl_preamble t)) = pre_id (tbl_preamble t)"
  by (induction ts) (auto simp: Let_def image_iff)

lemma GetActionId_loop_distinct:
  "distinct (map (pre_name \<circ> pact_preamble) as) \<Longrightarrow> a \<in> set as \<Longrightarrow>
   GetActionId_loop as (pre_name (pact_preamble a)) = pre_id (pact_preamble a)"
  by (induction as) (auto simp: Let_def image_iff)

lemma GetMatchFieldId_loop_absent:
  "t_name \<notin> set (map (pre_name \<circ> tbl_preamble) ts) \<Longrightarrow> GetMatchFieldId_loop ts t_name f = -1"
  by (induction ts) (auto simp: Let_def)

lemma GetMatchFieldId_loop_distinct:
  assumes "distinct (map (pre_name \<circ> tbl_preamble) ts)" and "t \<in> set ts"
  shows "GetMatchFieldId_loop ts (pre_name (tbl_preamble t)) f =
         (case find_id (tbl_match_fields t) f of Some i \<Rightarrow> i | None \<Rightarrow> -1)"
  using assms
proof (induction ts)
  case Nil
  then show ?case by simp
next
  case (Cons s ts)
  show ?case
  proof (cases "s = t")
    case True
    with Cons.prems have "GetMatchFieldId_loop ts (pre_name (tbl_preamble t)) f = -1"
      by (intro GetMatchFieldId_loop_absent) auto
    with True show ?thesis by (simp add: Let_def split: option.splits)
  next
    case False
    with Cons.prems have "t \<in> set ts" and "pre_name (tbl_preamble s) \<noteq> pre_name (tbl_preamble t)"
      by (auto simp: image_iff)
    with Cons show ?thesis by (simp add: Let_def)
  qed
qed

lemma GetParamId_loop_absent:
  "a_name \<notin> set (map (pre_name \<circ> pact_preamble) as) \<Longrightarrow> GetParamId_loop as a_name f = -1"
  by (induction as) (auto simp: Let_def)

lemma GetParamId_loop_distinct:
  assumes "distinct (map (pre_name \<circ> pact_preamble) as)" and "a \<in> set as"
  shows "GetParamId_loop as (pre_name (pact_preamble a)) f =
         (case find_id (pact_params a) f of Some i \<Rightarrow> i | None \<Rightarrow> -1)"
  using assms
proof (induction as)
  case Nil
  then show ?case by simp
next
  case (Cons s as)
  show ?case
  proof (cases "s = a")
    case True
    with Cons.prems have "GetParamId_loop as (pre_name (pact_preamble a)) f = -1"
      by (intro GetParamId_loop_absent) auto
    with True show ?thesis by (simp add: Let_def split: option.splits)
  next
    case False
    with Cons.prems have "a \<in> set as" and "pre_name (pact_preamble s) \<noteq> pre_name (pact_preamble a)"
      by (auto simp: image_iff)
    with Cons show ?thesis by (simp add: Let_def)
  qed
qed

lemma GetTableId_loop_absent:
  "t_name \<notin> set (map (pre_name \<circ> tbl_preamble) ts) \<Longrightarrow> GetTableId_loop ts t_name = -1"
  by (induction ts) (auto simp: Let_def)

lemma GetActionId_loop_absent:
  "a_name \<notin> set (map (pre_name \<circ> pact_preamble) as) \<Longrightarrow> GetActionId_loop as a_name = -1"
  by (induction as) (auto simp: Let_def)

text \<open>Lookups in the default (empty) pipeline description.\<close>

lemma lookups_empty [simp]:
  "GetTableId empty_P4Info t = -1" "GetActionId empty_P4Info a = -1"
  "GetMatchFieldId empty_P4Info t f = -1" "GetParamId empty_P4Info a f = -1"
  by (simp_all add: GetTableId_def GetActionId_def GetMatchFieldId_def GetParamId_def
      empty_P4Info_def)

text \<open>Declared tables of a well-formed pipeline have pairwise different identifiers.\<close>

lemma table_id_in:
  assumes "wf_p4info p" and "n \<in> set (table_names p)"
  shows "\<exists>t\<in>set (pi_tables p). pre_name (tbl_preamble t) = n \<and> GetTableId p n = pre_id (tbl_preamble t)"
proof -
  from assms(2) obtain t where t: "t \<in> set (pi_tables p)" "pre_name (tbl_preamble t) = n"
    by (auto simp: table_names_def)
  with assms(1) have "GetTableId p n = pre_id (tbl_preamble t)"
    unfolding GetTableId_def t(2) [symmetric]
    by (intro GetTableId_loop_distinct) (auto simp: wf_p4info_def table_names_def)
  with t show ?thesis by blast
qed

lemma GetTableId_inj:
  assumes wf: "wf_p4info p" and m: "m \<in> set (table_names p)" and n: "n \<in> set (table_names p)"
  shows "GetTableId p m = GetTableId p n \<longleftrightarrow> m = n"
proof
  assume eq: "GetTableId p m = GetTableId p n"
  obtain s where s: "s \<in> set (pi_tables p)" "pre_name (tbl_preamble s) = m"
    "GetTableId p m = pre_id (tbl_preamble s)"
    using table_id_in [OF wf m] by blast
  obtain t where t: "t \<in> set (pi_tables p)" "pre_name (tbl_preamble t) = n"
    "GetTableId p n = pre_id (tbl_preamble t)"
    using table_id_in [OF wf n] by blast
  from eq s t have "(pre_id \<circ> tbl_preamble) s = (pre_id \<circ> tbl_preamble) t"
    by simp
  moreover from wf have "inj_on (pre_id \<circ> tbl_preamble) (set (pi_tables p))"
    by (simp add: wf_p4info_def distinct_map)
  ultimately have "s = t" using s(1) t(1) by (blast dest: inj_onD)
  with s t show "m = n" by simp
qed simp

end
