(* ===== verification/Entry_Encoder.thy ===== *)
theory Entry_Encoder
  imports P4Info_Utils
begin

text \<open>
  What an encoder of a table entry promises, independent of the target.

  \<open>entry_conforms\<close> says when an entry fits a pipeline description: its table is
  declared, its match fields are pairwise different declared fields of that table, and
  its action, if it has one, is a declared action whose parameters are pairwise
  different declared parameters. \<open>declares\<close> says that the pipeline has the names an
  encoder looks up.

  The locale \<open>entry_encoder\<close> is the contract: the encoder follows one
  \<open>entry_schema\<close> (one table and a fixed list of match fields), an INSERT and a DELETE of the same input have the same
  key, and only an INSERT carries an action, taken from the schema. Its
  lemmas derive conformance from the contract. Every encoder of the two targets
  interprets it.
\<close>

definition field_ids :: "TableEntry \<Rightarrow> u32 list" where
  "field_ids te = map fm_field_id (te_match te)"

definition param_ids :: "Action \<Rightarrow> u32 list" where
  "param_ids a = map par_param_id (act_params a)"

definition find_table :: "P4Info \<Rightarrow> u32 \<Rightarrow> P4Table option" where
  "find_table p i = find (\<lambda>t. pre_id (tbl_preamble t) = i) (pi_tables p)"

definition find_action :: "P4Info \<Rightarrow> u32 \<Rightarrow> P4Action option" where
  "find_action p i = find (\<lambda>a. pre_id (pact_preamble a) = i) (pi_actions p)"

definition ids_within :: "u32 list \<Rightarrow> NamedId list \<Rightarrow> bool" where
  "ids_within is xs \<longleftrightarrow> distinct is \<and> set is \<subseteq> set (map ni_id xs)"

definition entry_conforms :: "P4Info \<Rightarrow> TableEntry \<Rightarrow> bool" where
  "entry_conforms p te \<longleftrightarrow>
     (case find_table p (te_table_id te) of
        None \<Rightarrow> False
      | Some t \<Rightarrow> ids_within (field_ids te) (tbl_match_fields t)) \<and>
     (case te_action te of
        None \<Rightarrow> True
      | Some a \<Rightarrow>
          (case find_action p (act_action_id a) of
             None \<Rightarrow> False
           | Some d \<Rightarrow> ids_within (param_ids a) (pact_params d)))"

text \<open>The pipeline declares a table with (at least) the given match fields, and an
  action with the given parameters.\<close>

definition declares_table :: "P4Info \<Rightarrow> string \<Rightarrow> string list \<Rightarrow> bool" where
  "declares_table p tbl keys \<longleftrightarrow>
     list_ex (\<lambda>t. pre_name (tbl_preamble t) = tbl \<and>
                  set keys \<subseteq> set (map ni_name (tbl_match_fields t))) (pi_tables p)"

definition declares_action :: "P4Info \<Rightarrow> string \<times> string list \<Rightarrow> bool" where
  "declares_action p a \<longleftrightarrow>
     list_ex (\<lambda>d. pre_name (pact_preamble d) = fst a \<and>
                  set (snd a) \<subseteq> set (map ni_name (pact_params d))) (pi_actions p)"

text \<open>The names an encoder looks up: its table, the match fields in the order they are
  added, and each action it can attach with the parameters in order.\<close>

record entry_schema =
  sc_table :: string
  sc_keys :: "string list"
  sc_actions :: "(string \<times> string list) list"

definition schema_wf :: "entry_schema \<Rightarrow> bool" where
  "schema_wf sc \<longleftrightarrow> distinct (sc_keys sc) \<and> list_all (distinct \<circ> snd) (sc_actions sc)"

definition declares :: "P4Info \<Rightarrow> entry_schema \<Rightarrow> bool" where
  "declares p sc \<longleftrightarrow>
     declares_table p (sc_table sc) (sc_keys sc) \<and> list_all (declares_action p) (sc_actions sc)"

text \<open>An action built from one of the listed action names and its parameter names.\<close>

definition action_of :: "P4Info \<Rightarrow> (string \<times> string list) list \<Rightarrow> Action \<Rightarrow> bool" where
  "action_of p acts act \<longleftrightarrow>
     (\<exists>(a, ps) \<in> set acts. act_action_id act = GetActionId p a \<and>
        param_ids act = map (GetParamId p a) ps)"

section \<open>Lemmas on the message setters\<close>

lemma table_id_setters [simp]:
  "te_table_id (set_table_id i te) = i"
  "te_table_id (set_priority p te) = te_table_id te"
  "te_table_id (add_exact f v te) = te_table_id te"
  "te_table_id (add_ternary f v m te) = te_table_id te"
  "te_table_id (mutable_action te) = te_table_id te"
  "te_table_id (set_action_id i te) = te_table_id te"
  "te_table_id (add_param i v te) = te_table_id te"
  by (simp_all add: msg_defs)

lemma field_ids_setters [simp]:
  "field_ids (set_table_id i te) = field_ids te"
  "field_ids (set_priority p te) = field_ids te"
  "field_ids (add_exact f v te) = field_ids te @ [f]"
  "field_ids (add_ternary f v m te) = field_ids te @ [f]"
  "field_ids (mutable_action te) = field_ids te"
  "field_ids (set_action_id i te) = field_ids te"
  "field_ids (add_param i v te) = field_ids te"
  by (simp_all add: field_ids_def msg_defs)

lemma the_action_setters [simp]:
  "the_action (set_table_id i te) = the_action te"
  "the_action (set_priority p te) = the_action te"
  "the_action (add_exact f v te) = the_action te"
  "the_action (add_ternary f v m te) = the_action te"
  "the_action (mutable_action te) = the_action te"
  "the_action (set_action_id i te) = (the_action te)\<lparr>act_action_id := i\<rparr>"
  "the_action (add_param i v te) =
     (the_action te)\<lparr>act_params := act_params (the_action te) @ [\<lparr>par_param_id = i, par_value = v\<rparr>]\<rparr>"
  by (simp_all add: the_action_def set_table_id_def set_priority_def add_exact_def add_ternary_def
      mutable_action_def set_action_id_def add_param_def)

lemma te_action_add_param [simp]:
  "te_action (add_param i v te) = Some (the_action (add_param i v te))"
  by (simp add: add_param_def the_action_def)

lemma the_action_None: "te_action te = None \<Longrightarrow> the_action te = empty_Action"
  by (simp add: the_action_def)

lemma empty_Action_simps [simp]:
  "act_action_id empty_Action = 0" "act_params empty_Action = []"
  by (simp_all add: empty_Action_def)

lemma empty_TableEntry_simps [simp]:
  "te_action empty_TableEntry = None" "te_match empty_TableEntry = []"
  "te_table_id empty_TableEntry = 0" "te_priority empty_TableEntry = 0"
  "field_ids empty_TableEntry = []"
  by (simp_all add: empty_TableEntry_def field_ids_def)

section \<open>Lemmas on lookups and conformance\<close>

lemma find_distinct_key:
  "distinct (map f xs) \<Longrightarrow> x \<in> set xs \<Longrightarrow> find (\<lambda>y. f y = f x) xs = Some x"
  by (induction xs) (auto simp: image_iff)

lemma ids_within_named:
  assumes "wf_named xs" and "distinct ns" and "set ns \<subseteq> set (map ni_name xs)"
    and "\<And>n i. find_id xs n = Some i \<Longrightarrow> look n = i"
  shows "ids_within (map look ns) xs"
proof -
  have look: "\<exists>x\<in>set xs. ni_name x = n \<and> look n = ni_id x" if "n \<in> set ns" for n
  proof -
    from that assms(3) obtain x where x: "x \<in> set xs" "ni_name x = n" by auto
    with assms(1) have "find_id xs n = Some (ni_id x)"
      by (auto simp: wf_named_def intro: find_id_distinct)
    with assms(4) x show ?thesis by blast
  qed
  have "inj_on look (set ns)"
  proof (rule inj_onI)
    fix m n
    assume mn: "m \<in> set ns" "n \<in> set ns" "look m = look n"
    obtain x where x: "x \<in> set xs" "ni_name x = m" "look m = ni_id x" using look [OF mn(1)] by blast
    obtain y where y: "y \<in> set xs" "ni_name y = n" "look n = ni_id y" using look [OF mn(2)] by blast
    from assms(1) have "inj_on ni_id (set xs)" by (simp add: wf_named_def distinct_map)
    with mn(3) x y have "x = y" by (auto dest: inj_onD)
    with x y show "m = n" by simp
  qed
  moreover have "set (map look ns) \<subseteq> set (map ni_id xs)"
    using look by auto
  ultimately show ?thesis
    using assms(2) by (simp add: ids_within_def distinct_map)
qed

lemma GetTableId_declared:
  assumes "wf_p4info p" and "t \<in> set (pi_tables p)"
  shows "GetTableId p (pre_name (tbl_preamble t)) = pre_id (tbl_preamble t)"
  using assms unfolding GetTableId_def
  by (intro GetTableId_loop_distinct) (auto simp: wf_p4info_def table_names_def)

lemma GetActionId_declared:
  assumes "wf_p4info p" and "a \<in> set (pi_actions p)"
  shows "GetActionId p (pre_name (pact_preamble a)) = pre_id (pact_preamble a)"
  using assms unfolding GetActionId_def
  by (intro GetActionId_loop_distinct) (auto simp: wf_p4info_def action_names_def)

lemma declared_fields:
  assumes wf: "wf_p4info p" and d: "declares_table p tbl keys" and keys: "distinct keys"
  obtains t where "find_table p (GetTableId p tbl) = Some t"
    and "ids_within (map (GetMatchFieldId p tbl) keys) (tbl_match_fields t)"
proof -
  from d obtain t where t: "t \<in> set (pi_tables p)" "tbl = pre_name (tbl_preamble t)"
    and sub: "set keys \<subseteq> set (map ni_name (tbl_match_fields t))"
    by (auto simp: declares_table_def list_ex_iff)
  have "find_table p (GetTableId p tbl) = Some t"
    using wf t GetTableId_declared [OF wf t(1)] find_distinct_key [of "pre_id \<circ> tbl_preamble"]
    by (auto simp: find_table_def wf_p4info_def comp_def)
  moreover have "ids_within (map (GetMatchFieldId p tbl) keys) (tbl_match_fields t)"
  proof (rule ids_within_named)
    show "wf_named (tbl_match_fields t)" using wf t(1) by (auto simp: wf_p4info_def list_all_iff)
    show "GetMatchFieldId p tbl n = i" if "find_id (tbl_match_fields t) n = Some i" for n i
      using that wf t GetMatchFieldId_loop_distinct [of "pi_tables p" t n]
      by (auto simp: GetMatchFieldId_def wf_p4info_def table_names_def)
  qed (fact keys sub)+
  ultimately show thesis by (rule that)
qed

lemma declared_params:
  assumes wf: "wf_p4info p" and d: "declares_action p (a, ps)" and ps: "distinct ps"
  obtains d where "find_action p (GetActionId p a) = Some d"
    and "ids_within (map (GetParamId p a) ps) (pact_params d)"
proof -
  from d obtain t where t: "t \<in> set (pi_actions p)" "a = pre_name (pact_preamble t)"
    and sub: "set ps \<subseteq> set (map ni_name (pact_params t))"
    by (auto simp: declares_action_def list_ex_iff)
  have "find_action p (GetActionId p a) = Some t"
    using wf t GetActionId_declared [OF wf t(1)] find_distinct_key [of "pre_id \<circ> pact_preamble"]
    by (auto simp: find_action_def wf_p4info_def comp_def)
  moreover have "ids_within (map (GetParamId p a) ps) (pact_params t)"
  proof (rule ids_within_named)
    show "wf_named (pact_params t)" using wf t(1) by (auto simp: wf_p4info_def list_all_iff)
    show "GetParamId p a n = i" if "find_id (pact_params t) n = Some i" for n i
      using that wf t GetParamId_loop_distinct [of "pi_actions p" t n]
      by (auto simp: GetParamId_def wf_p4info_def action_names_def)
  qed (fact ps sub)+
  ultimately show thesis by (rule that)
qed

lemmas encoder_simps = Let_def action_of_def param_ids_def the_action_None

section \<open>The contract of an encoder\<close>

locale entry_encoder =
  fixes enc :: "TableEntry \<Rightarrow> 'i \<Rightarrow> P4Info \<Rightarrow> bool \<Rightarrow> TableEntry"
    and sc :: entry_schema
    and supported :: "'i \<Rightarrow> bool"
  assumes table_id: "te_table_id (enc te i p b) = GetTableId p (sc_table sc)"
    and fields:
      "field_ids (enc te i p b) = field_ids te @ map (GetMatchFieldId p (sc_table sc)) (sc_keys sc)"
    and same_key: "entry_key (enc te i p True) = entry_key (enc te i p False)"
    and delete_action: "te_action (enc te i p False) = te_action te"
    and insert_action:
      "supported i \<Longrightarrow> te_action te = None \<Longrightarrow>
       \<exists>act. te_action (enc te i p True) = Some act \<and> action_of p (sc_actions sc) act"
    and schema_wf: "schema_wf sc"
begin

text \<open>The key of an entry does not depend on the insert flag.\<close>

lemma key_flag: "entry_key (enc te i p b) = entry_key (enc te i p c)"
  using same_key [of te i p] by (cases b; cases c) simp_all

text \<open>A DELETE carries no action.\<close>

lemma delete_no_action: "te_action (enc empty_TableEntry i p False) = None"
  by (simp add: delete_action)

text \<open>An entry built from scratch conforms to every pipeline that declares the names.\<close>

lemma conforms:
  assumes wf: "wf_p4info p" and d: "declares p sc" and sup: "b \<longrightarrow> supported i"
  shows "entry_conforms p (enc empty_TableEntry i p b)"
proof -
  let ?te = "enc empty_TableEntry i p b"
  obtain t where t: "find_table p (GetTableId p (sc_table sc)) = Some t"
    "ids_within (map (GetMatchFieldId p (sc_table sc)) (sc_keys sc)) (tbl_match_fields t)"
    using d schema_wf by (auto simp: declares_def schema_wf_def intro: declared_fields [OF wf])
  have act: "\<exists>e. find_action p (act_action_id a) = Some e \<and> ids_within (param_ids a) (pact_params e)"
    if a: "te_action ?te = Some a" for a
  proof -
    from a have b by (cases b) (simp_all add: delete_action)
    with a sup insert_action [of i empty_TableEntry p] have "action_of p (sc_actions sc) a" by auto
    then obtain n ps where n: "(n, ps) \<in> set (sc_actions sc)" "act_action_id a = GetActionId p n"
      "param_ids a = map (GetParamId p n) ps"
      by (auto simp: action_of_def)
    moreover from n(1) d have "declares_action p (n, ps)"
      by (auto simp: declares_def list_all_iff)
    moreover from n(1) schema_wf have "distinct ps"
      by (auto simp: schema_wf_def list_all_iff)
    ultimately show ?thesis using declared_params [OF wf] by metis
  qed
  show ?thesis
    using t act by (auto simp: entry_conforms_def table_id fields split: option.splits)
qed

end

end
