(* ===== verification/P4_Names.thy ===== *)
theory P4_Names
  imports Prelude
begin

text \<open>
  \<^verbatim>\<open>core/es2k/p4_name_mapping.h\<close> and \<^verbatim>\<open>core/dpdk/p4_name_mapping.h\<close>: the names of
  the tables, match fields, actions and parameters of the two P4 programs, as far as
  the encoders use them. A constant of the DPDK header carries the prefix
  \<open>DPDK_\<close>, since the two headers define many macros of the same name and one of
  them, the key of the VXLAN encapsulation table, with a different value.
\<close>

section \<open>ES2K\<close>

definition ES2K_VPORT_ID_OFFSET :: u32 where [p4_names]:
  "ES2K_VPORT_ID_OFFSET = 16"
definition VXLAN_ENCAP_MOD_TABLE :: string where [p4_names]:
  "VXLAN_ENCAP_MOD_TABLE = ''linux_networking_control.vxlan_encap_mod_table''"
definition VXLAN_ENCAP_MOD_TABLE_KEY_VENDORMETA_MOD_DATA_PTR :: string where [p4_names]:
  "VXLAN_ENCAP_MOD_TABLE_KEY_VENDORMETA_MOD_DATA_PTR = ''vmeta.common.mod_blob_ptr''"
definition ACTION_VXLAN_ENCAP :: string where [p4_names]:
  "ACTION_VXLAN_ENCAP = ''linux_networking_control.vxlan_encap''"
definition ACTION_VXLAN_ENCAP_PARAM_SRC_ADDR :: string where [p4_names]:
  "ACTION_VXLAN_ENCAP_PARAM_SRC_ADDR = ''src_addr''"
definition ACTION_VXLAN_ENCAP_PARAM_DST_ADDR :: string where [p4_names]:
  "ACTION_VXLAN_ENCAP_PARAM_DST_ADDR = ''dst_addr''"
definition ACTION_VXLAN_ENCAP_PARAM_DST_PORT :: string where [p4_names]:
  "ACTION_VXLAN_ENCAP_PARAM_DST_PORT = ''dst_port''"
definition ACTION_VXLAN_ENCAP_PARAM_SRC_PORT :: string where [p4_names]:
  "ACTION_VXLAN_ENCAP_PARAM_SRC_PORT = ''src_port''"
definition ACTION_VXLAN_ENCAP_PARAM_VNI :: string where [p4_names]:
  "ACTION_VXLAN_ENCAP_PARAM_VNI = ''vni''"
definition VXLAN_ENCAP_VLAN_POP_MOD_TABLE :: string where [p4_names]:
  "VXLAN_ENCAP_VLAN_POP_MOD_TABLE = ''linux_networking_control.vxlan_encap_vlan_pop_mod_table''"
definition VXLAN_ENCAP_VLAN_POP_MOD_TABLE_KEY_VENDORMETA_MOD_DATA_PTR :: string where [p4_names]:
  "VXLAN_ENCAP_VLAN_POP_MOD_TABLE_KEY_VENDORMETA_MOD_DATA_PTR = ''vmeta.common.mod_blob_ptr''"
definition ACTION_VXLAN_ENCAP_VLAN_POP :: string where [p4_names]:
  "ACTION_VXLAN_ENCAP_VLAN_POP = ''linux_networking_control.vxlan_encap_vlan_pop''"
definition ACTION_VXLAN_ENCAP_VLAN_POP_PARAM_SRC_ADDR :: string where [p4_names]:
  "ACTION_VXLAN_ENCAP_VLAN_POP_PARAM_SRC_ADDR = ''src_addr''"
definition ACTION_VXLAN_ENCAP_VLAN_POP_PARAM_DST_ADDR :: string where [p4_names]:
  "ACTION_VXLAN_ENCAP_VLAN_POP_PARAM_DST_ADDR = ''dst_addr''"
definition ACTION_VXLAN_ENCAP_VLAN_POP_PARAM_DST_PORT :: string where [p4_names]:
  "ACTION_VXLAN_ENCAP_VLAN_POP_PARAM_DST_PORT = ''dst_port''"
definition ACTION_VXLAN_ENCAP_VLAN_POP_PARAM_SRC_PORT :: string where [p4_names]:
  "ACTION_VXLAN_ENCAP_VLAN_POP_PARAM_SRC_PORT = ''src_port''"
definition ACTION_VXLAN_ENCAP_VLAN_POP_PARAM_VNI :: string where [p4_names]:
  "ACTION_VXLAN_ENCAP_VLAN_POP_PARAM_VNI = ''vni''"
definition VXLAN_ENCAP_V6_MOD_TABLE :: string where [p4_names]:
  "VXLAN_ENCAP_V6_MOD_TABLE = ''linux_networking_control.vxlan_encap_v6_mod_table''"
definition VXLAN_ENCAP_V6_MOD_TABLE_KEY_VENDORMETA_MOD_DATA_PTR :: string where [p4_names]:
  "VXLAN_ENCAP_V6_MOD_TABLE_KEY_VENDORMETA_MOD_DATA_PTR = ''vmeta.common.mod_blob_ptr''"
definition ACTION_VXLAN_ENCAP_V6 :: string where [p4_names]:
  "ACTION_VXLAN_ENCAP_V6 = ''linux_networking_control.vxlan_encap_v6''"
definition ACTION_VXLAN_ENCAP_V6_PARAM_SRC_ADDR :: string where [p4_names]:
  "ACTION_VXLAN_ENCAP_V6_PARAM_SRC_ADDR = ''src_addr''"
definition ACTION_VXLAN_ENCAP_V6_PARAM_DST_ADDR :: string where [p4_names]:
  "ACTION_VXLAN_ENCAP_V6_PARAM_DST_ADDR = ''dst_addr''"
definition ACTION_VXLAN_ENCAP_V6_PARAM_SRC_PORT :: string where [p4_names]:
  "ACTION_VXLAN_ENCAP_V6_PARAM_SRC_PORT = ''src_port''"
definition ACTION_VXLAN_ENCAP_V6_PARAM_DST_PORT :: string where [p4_names]:
  "ACTION_VXLAN_ENCAP_V6_PARAM_DST_PORT = ''dst_port''"
definition ACTION_VXLAN_ENCAP_V6_PARAM_VNI :: string where [p4_names]:
  "ACTION_VXLAN_ENCAP_V6_PARAM_VNI = ''vni''"
definition VXLAN_ENCAP_V6_VLAN_POP_MOD_TABLE :: string where [p4_names]:
  "VXLAN_ENCAP_V6_VLAN_POP_MOD_TABLE = ''linux_networking_control.vxlan_encap_v6_vlan_pop_mod_table''"
definition VXLAN_ENCAP_V6_VLAN_POP_MOD_TABLE_KEY_VENDORMETA_MOD_DATA_PTR :: string where [p4_names]:
  "VXLAN_ENCAP_V6_VLAN_POP_MOD_TABLE_KEY_VENDORMETA_MOD_DATA_PTR = ''vmeta.common.mod_blob_ptr''"
definition ACTION_VXLAN_ENCAP_V6_VLAN_POP :: string where [p4_names]:
  "ACTION_VXLAN_ENCAP_V6_VLAN_POP = ''linux_networking_control.vxlan_encap_v6_vlan_pop''"
definition ACTION_VXLAN_ENCAP_V6_VLAN_POP_PARAM_SRC_ADDR :: string where [p4_names]:
  "ACTION_VXLAN_ENCAP_V6_VLAN_POP_PARAM_SRC_ADDR = ''src_addr''"
definition ACTION_VXLAN_ENCAP_V6_VLAN_POP_PARAM_DST_ADDR :: string where [p4_names]:
  "ACTION_VXLAN_ENCAP_V6_VLAN_POP_PARAM_DST_ADDR = ''dst_addr''"
definition ACTION_VXLAN_ENCAP_V6_VLAN_POP_PARAM_SRC_PORT :: string where [p4_names]:
  "ACTION_VXLAN_ENCAP_V6_VLAN_POP_PARAM_SRC_PORT = ''src_port''"
definition ACTION_VXLAN_ENCAP_V6_VLAN_POP_PARAM_DST_PORT :: string where [p4_names]:
  "ACTION_VXLAN_ENCAP_V6_VLAN_POP_PARAM_DST_PORT = ''dst_port''"
definition ACTION_VXLAN_ENCAP_V6_VLAN_POP_PARAM_VNI :: string where [p4_names]:
  "ACTION_VXLAN_ENCAP_V6_VLAN_POP_PARAM_VNI = ''vni''"
definition GENEVE_ENCAP_MOD_TABLE :: string where [p4_names]:
  "GENEVE_ENCAP_MOD_TABLE = ''linux_networking_control.geneve_encap_mod_table''"
definition GENEVE_ENCAP_MOD_TABLE_KEY_VENDORMETA_MOD_DATA_PTR :: string where [p4_names]:
  "GENEVE_ENCAP_MOD_TABLE_KEY_VENDORMETA_MOD_DATA_PTR = ''vmeta.common.mod_blob_ptr''"
definition ACTION_GENEVE_ENCAP :: string where [p4_names]:
  "ACTION_GENEVE_ENCAP = ''linux_networking_control.geneve_encap''"
definition ACTION_GENEVE_ENCAP_PARAM_SRC_ADDR :: string where [p4_names]:
  "ACTION_GENEVE_ENCAP_PARAM_SRC_ADDR = ''src_addr''"
definition ACTION_GENEVE_ENCAP_PARAM_DST_ADDR :: string where [p4_names]:
  "ACTION_GENEVE_ENCAP_PARAM_DST_ADDR = ''dst_addr''"
definition ACTION_GENEVE_ENCAP_PARAM_DST_PORT :: string where [p4_names]:
  "ACTION_GENEVE_ENCAP_PARAM_DST_PORT = ''dst_port''"
definition ACTION_GENEVE_ENCAP_PARAM_SRC_PORT :: string where [p4_names]:
  "ACTION_GENEVE_ENCAP_PARAM_SRC_PORT = ''src_port''"
definition ACTION_GENEVE_ENCAP_PARAM_VNI :: string where [p4_names]:
  "ACTION_GENEVE_ENCAP_PARAM_VNI = ''vni''"
definition GENEVE_ENCAP_VLAN_POP_MOD_TABLE :: string where [p4_names]:
  "GENEVE_ENCAP_VLAN_POP_MOD_TABLE = ''linux_networking_control.geneve_encap_vlan_pop_mod_table''"
definition GENEVE_ENCAP_VLAN_POP_MOD_TABLE_KEY_VENDORMETA_MOD_DATA_PTR :: string where [p4_names]:
  "GENEVE_ENCAP_VLAN_POP_MOD_TABLE_KEY_VENDORMETA_MOD_DATA_PTR = ''vmeta.common.mod_blob_ptr''"
definition ACTION_GENEVE_ENCAP_VLAN_POP :: string where [p4_names]:
  "ACTION_GENEVE_ENCAP_VLAN_POP = ''linux_networking_control.geneve_encap_vlan_pop''"
definition ACTION_GENEVE_ENCAP_VLAN_POP_PARAM_SRC_ADDR :: string where [p4_names]:
  "ACTION_GENEVE_ENCAP_VLAN_POP_PARAM_SRC_ADDR = ''src_addr''"
definition ACTION_GENEVE_ENCAP_VLAN_POP_PARAM_DST_ADDR :: string where [p4_names]:
  "ACTION_GENEVE_ENCAP_VLAN_POP_PARAM_DST_ADDR = ''dst_addr''"
definition ACTION_GENEVE_ENCAP_VLAN_POP_PARAM_DST_PORT :: string where [p4_names]:
  "ACTION_GENEVE_ENCAP_VLAN_POP_PARAM_DST_PORT = ''dst_port''"
definition ACTION_GENEVE_ENCAP_VLAN_POP_PARAM_SRC_PORT :: string where [p4_names]:
  "ACTION_GENEVE_ENCAP_VLAN_POP_PARAM_SRC_PORT = ''src_port''"
definition ACTION_GENEVE_ENCAP_VLAN_POP_PARAM_VNI :: string where [p4_names]:
  "ACTION_GENEVE_ENCAP_VLAN_POP_PARAM_VNI = ''vni''"
definition GENEVE_ENCAP_V6_MOD_TABLE :: string where [p4_names]:
  "GENEVE_ENCAP_V6_MOD_TABLE = ''linux_networking_control.geneve_encap_v6_mod_table''"
definition GENEVE_ENCAP_V6_MOD_TABLE_KEY_VENDORMETA_MOD_DATA_PTR :: string where [p4_names]:
  "GENEVE_ENCAP_V6_MOD_TABLE_KEY_VENDORMETA_MOD_DATA_PTR = ''vmeta.common.mod_blob_ptr''"
definition ACTION_GENEVE_ENCAP_V6 :: string where [p4_names]:
  "ACTION_GENEVE_ENCAP_V6 = ''linux_networking_control.geneve_encap_v6''"
definition ACTION_GENEVE_ENCAP_V6_PARAM_SRC_ADDR :: string where [p4_names]:
  "ACTION_GENEVE_ENCAP_V6_PARAM_SRC_ADDR = ''src_addr''"
definition ACTION_GENEVE_ENCAP_V6_PARAM_DST_ADDR :: string where [p4_names]:
  "ACTION_GENEVE_ENCAP_V6_PARAM_DST_ADDR = ''dst_addr''"
definition ACTION_GENEVE_ENCAP_V6_PARAM_SRC_PORT :: string where [p4_names]:
  "ACTION_GENEVE_ENCAP_V6_PARAM_SRC_PORT = ''src_port''"
definition ACTION_GENEVE_ENCAP_V6_PARAM_DST_PORT :: string where [p4_names]:
  "ACTION_GENEVE_ENCAP_V6_PARAM_DST_PORT = ''dst_port''"
definition ACTION_GENEVE_ENCAP_V6_PARAM_VNI :: string where [p4_names]:
  "ACTION_GENEVE_ENCAP_V6_PARAM_VNI = ''vni''"
definition GENEVE_ENCAP_V6_VLAN_POP_MOD_TABLE :: string where [p4_names]:
  "GENEVE_ENCAP_V6_VLAN_POP_MOD_TABLE = ''linux_networking_control.geneve_encap_v6_vlan_pop_mod_table''"
definition GENEVE_ENCAP_V6_VLAN_POP_MOD_TABLE_KEY_VENDORMETA_MOD_DATA_PTR :: string where [p4_names]:
  "GENEVE_ENCAP_V6_VLAN_POP_MOD_TABLE_KEY_VENDORMETA_MOD_DATA_PTR = ''vmeta.common.mod_blob_ptr''"
definition ACTION_GENEVE_ENCAP_V6_VLAN_POP :: string where [p4_names]:
  "ACTION_GENEVE_ENCAP_V6_VLAN_POP = ''linux_networking_control.geneve_encap_v6_vlan_pop''"
definition ACTION_GENEVE_ENCAP_V6_VLAN_POP_PARAM_SRC_ADDR :: string where [p4_names]:
  "ACTION_GENEVE_ENCAP_V6_VLAN_POP_PARAM_SRC_ADDR = ''src_addr''"
definition ACTION_GENEVE_ENCAP_V6_VLAN_POP_PARAM_DST_ADDR :: string where [p4_names]:
  "ACTION_GENEVE_ENCAP_V6_VLAN_POP_PARAM_DST_ADDR = ''dst_addr''"
definition ACTION_GENEVE_ENCAP_V6_VLAN_POP_PARAM_SRC_PORT :: string where [p4_names]:
  "ACTION_GENEVE_ENCAP_V6_VLAN_POP_PARAM_SRC_PORT = ''src_port''"
definition ACTION_GENEVE_ENCAP_V6_VLAN_POP_PARAM_DST_PORT :: string where [p4_names]:
  "ACTION_GENEVE_ENCAP_V6_VLAN_POP_PARAM_DST_PORT = ''dst_port''"
definition ACTION_GENEVE_ENCAP_V6_VLAN_POP_PARAM_VNI :: string where [p4_names]:
  "ACTION_GENEVE_ENCAP_V6_VLAN_POP_PARAM_VNI = ''vni''"
definition IPV4_TUNNEL_TERM_TABLE :: string where [p4_names]:
  "IPV4_TUNNEL_TERM_TABLE = ''linux_networking_control.ipv4_tunnel_term_table''"
definition IPV4_TUNNEL_TERM_TABLE_KEY_BRIDGE_ID :: string where [p4_names]:
  "IPV4_TUNNEL_TERM_TABLE_KEY_BRIDGE_ID = ''user_meta.pmeta.bridge_id''"
definition IPV4_TUNNEL_TERM_TABLE_KEY_IPV4_SRC :: string where [p4_names]:
  "IPV4_TUNNEL_TERM_TABLE_KEY_IPV4_SRC = ''ipv4_src''"
definition IPV4_TUNNEL_TERM_TABLE_KEY_VNI :: string where [p4_names]:
  "IPV4_TUNNEL_TERM_TABLE_KEY_VNI = ''vni''"
definition ACTION_SET_VXLAN_DECAP_OUTER_HDR :: string where [p4_names]:
  "ACTION_SET_VXLAN_DECAP_OUTER_HDR = ''linux_networking_control.set_vxlan_decap_outer_hdr''"
definition ACTION_SET_VXLAN_DECAP_OUTER_HDR_AND_PUSH_VLAN :: string where [p4_names]:
  "ACTION_SET_VXLAN_DECAP_OUTER_HDR_AND_PUSH_VLAN = ''linux_networking_control.set_vxlan_decap_outer_and_push_vlan''"
definition ACTION_SET_GENEVE_DECAP_OUTER_HDR :: string where [p4_names]:
  "ACTION_SET_GENEVE_DECAP_OUTER_HDR = ''linux_networking_control.set_geneve_decap_outer_hdr''"
definition ACTION_SET_GENEVE_DECAP_OUTER_HDR_AND_PUSH_VLAN :: string where [p4_names]:
  "ACTION_SET_GENEVE_DECAP_OUTER_HDR_AND_PUSH_VLAN = ''linux_networking_control.set_geneve_decap_outer_and_push_vlan''"
definition IPV6_TUNNEL_TERM_TABLE :: string where [p4_names]:
  "IPV6_TUNNEL_TERM_TABLE = ''linux_networking_control.ipv6_tunnel_term_table''"
definition IPV6_TUNNEL_TERM_TABLE_KEY_BRIDGE_ID :: string where [p4_names]:
  "IPV6_TUNNEL_TERM_TABLE_KEY_BRIDGE_ID = ''user_meta.pmeta.bridge_id''"
definition IPV6_TUNNEL_TERM_TABLE_KEY_IPV6_SRC :: string where [p4_names]:
  "IPV6_TUNNEL_TERM_TABLE_KEY_IPV6_SRC = ''ipv6_src''"
definition IPV6_TUNNEL_TERM_TABLE_KEY_VNI :: string where [p4_names]:
  "IPV6_TUNNEL_TERM_TABLE_KEY_VNI = ''vni''"
definition VXLAN_DECAP_MOD_TABLE :: string where [p4_names]:
  "VXLAN_DECAP_MOD_TABLE = ''linux_networking_control.vxlan_decap_mod_table''"
definition VXLAN_DECAP_MOD_TABLE_KEY_MOD_BLOB_PTR :: string where [p4_names]:
  "VXLAN_DECAP_MOD_TABLE_KEY_MOD_BLOB_PTR = ''vmeta.common.mod_blob_ptr''"
definition ACTION_VXLAN_DECAP_OUTER_HDR :: string where [p4_names]:
  "ACTION_VXLAN_DECAP_OUTER_HDR = ''linux_networking_control.vxlan_decap_outer_hdr''"
definition VXLAN_DECAP_AND_VLAN_PUSH_MOD_TABLE :: string where [p4_names]:
  "VXLAN_DECAP_AND_VLAN_PUSH_MOD_TABLE = ''linux_networking_control.vxlan_decap_and_push_vlan_mod_table''"
definition VXLAN_DECAP_AND_VLAN_PUSH_MOD_TABLE_KEY_MOD_BLOB_PTR :: string where [p4_names]:
  "VXLAN_DECAP_AND_VLAN_PUSH_MOD_TABLE_KEY_MOD_BLOB_PTR = ''vmeta.common.mod_blob_ptr''"
definition ACTION_VXLAN_DECAP_AND_PUSH_VLAN :: string where [p4_names]:
  "ACTION_VXLAN_DECAP_AND_PUSH_VLAN = ''linux_networking_control.vxlan_decap_and_push_vlan''"
definition ACTION_VXLAN_DECAP_AND_PUSH_VLAN_PARAM_PCP :: string where [p4_names]:
  "ACTION_VXLAN_DECAP_AND_PUSH_VLAN_PARAM_PCP = ''pcp''"
definition ACTION_VXLAN_DECAP_AND_PUSH_VLAN_PARAM_DEI :: string where [p4_names]:
  "ACTION_VXLAN_DECAP_AND_PUSH_VLAN_PARAM_DEI = ''dei''"
definition ACTION_VXLAN_DECAP_AND_PUSH_VLAN_PARAM_VLAN_ID :: string where [p4_names]:
  "ACTION_VXLAN_DECAP_AND_PUSH_VLAN_PARAM_VLAN_ID = ''vlan_id''"
definition GENEVE_DECAP_MOD_TABLE :: string where [p4_names]:
  "GENEVE_DECAP_MOD_TABLE = ''linux_networking_control.geneve_decap_mod_table''"
definition GENEVE_DECAP_MOD_TABLE_KEY_MOD_BLOB_PTR :: string where [p4_names]:
  "GENEVE_DECAP_MOD_TABLE_KEY_MOD_BLOB_PTR = ''vmeta.common.mod_blob_ptr''"
definition ACTION_GENEVE_DECAP_OUTER_HDR :: string where [p4_names]:
  "ACTION_GENEVE_DECAP_OUTER_HDR = ''linux_networking_control.geneve_decap_outer_hdr''"
definition GENEVE_DECAP_AND_VLAN_PUSH_MOD_TABLE :: string where [p4_names]:
  "GENEVE_DECAP_AND_VLAN_PUSH_MOD_TABLE = ''linux_networking_control.geneve_decap_and_push_vlan_mod_table''"
definition GENEVE_DECAP_AND_VLAN_PUSH_MOD_TABLE_KEY_MOD_BLOB_PTR :: string where [p4_names]:
  "GENEVE_DECAP_AND_VLAN_PUSH_MOD_TABLE_KEY_MOD_BLOB_PTR = ''vmeta.common.mod_blob_ptr''"
definition ACTION_GENEVE_DECAP_AND_PUSH_VLAN :: string where [p4_names]:
  "ACTION_GENEVE_DECAP_AND_PUSH_VLAN = ''linux_networking_control.geneve_decap_and_push_vlan''"
definition ACTION_GENEVE_DECAP_AND_PUSH_VLAN_PARAM_PCP :: string where [p4_names]:
  "ACTION_GENEVE_DECAP_AND_PUSH_VLAN_PARAM_PCP = ''pcp''"
definition ACTION_GENEVE_DECAP_AND_PUSH_VLAN_PARAM_DEI :: string where [p4_names]:
  "ACTION_GENEVE_DECAP_AND_PUSH_VLAN_PARAM_DEI = ''dei''"
definition ACTION_GENEVE_DECAP_AND_PUSH_VLAN_PARAM_VLAN_ID :: string where [p4_names]:
  "ACTION_GENEVE_DECAP_AND_PUSH_VLAN_PARAM_VLAN_ID = ''vlan_id''"
definition L2_FWD_RX_TABLE :: string where [p4_names]:
  "L2_FWD_RX_TABLE = ''linux_networking_control.l2_fwd_rx_table''"
definition L2_FWD_RX_TABLE_KEY_DST_MAC :: string where [p4_names]:
  "L2_FWD_RX_TABLE_KEY_DST_MAC = ''dst_mac''"
definition L2_FWD_RX_TABLE_KEY_BRIDGE_ID :: string where [p4_names]:
  "L2_FWD_RX_TABLE_KEY_BRIDGE_ID = ''user_meta.pmeta.bridge_id''"
definition L2_FWD_SMAC_TABLE_KEY_BRIDGE_ID :: string where [p4_names]:
  "L2_FWD_SMAC_TABLE_KEY_BRIDGE_ID = ''user_meta.pmeta.bridge_id''"
definition L2_FWD_RX_TABLE_ACTION_L2_FWD :: string where [p4_names]:
  "L2_FWD_RX_TABLE_ACTION_L2_FWD = ''linux_networking_control.l2_fwd''"
definition ACTION_L2_FWD_PARAM_PORT :: string where [p4_names]:
  "ACTION_L2_FWD_PARAM_PORT = ''port''"
definition L2_FWD_TX_TABLE :: string where [p4_names]:
  "L2_FWD_TX_TABLE = ''linux_networking_control.l2_fwd_tx_table''"
definition L2_FWD_TX_TABLE_KEY_DST_MAC :: string where [p4_names]:
  "L2_FWD_TX_TABLE_KEY_DST_MAC = ''dst_mac''"
definition L2_FWD_TX_TABLE_KEY_BRIDGE_ID :: string where [p4_names]:
  "L2_FWD_TX_TABLE_KEY_BRIDGE_ID = ''user_meta.pmeta.bridge_id''"
definition L2_FWD_TX_TABLE_ACTION_L2_FWD :: string where [p4_names]:
  "L2_FWD_TX_TABLE_ACTION_L2_FWD = ''linux_networking_control.l2_fwd''"
definition L2_FWD_TX_TABLE_ACTION_SET_VXLAN_UNDERLAY_V4 :: string where [p4_names]:
  "L2_FWD_TX_TABLE_ACTION_SET_VXLAN_UNDERLAY_V4 = ''linux_networking_control.set_vxlan_underlay_v4''"
definition L2_FWD_TX_TABLE_ACTION_SET_GENEVE_UNDERLAY_V4 :: string where [p4_names]:
  "L2_FWD_TX_TABLE_ACTION_SET_GENEVE_UNDERLAY_V4 = ''linux_networking_control.set_geneve_underlay_v4''"
definition L2_FWD_TX_TABLE_ACTION_SET_VXLAN_UNDERLAY_V6 :: string where [p4_names]:
  "L2_FWD_TX_TABLE_ACTION_SET_VXLAN_UNDERLAY_V6 = ''linux_networking_control.set_vxlan_underlay_v6''"
definition L2_FWD_TX_TABLE_ACTION_SET_GENEVE_UNDERLAY_V6 :: string where [p4_names]:
  "L2_FWD_TX_TABLE_ACTION_SET_GENEVE_UNDERLAY_V6 = ''linux_networking_control.set_geneve_underlay_v6''"
definition L2_FWD_TX_TABLE_ACTION_POP_VLAN_SET_VXLAN_UNDERLAY_V4 :: string where [p4_names]:
  "L2_FWD_TX_TABLE_ACTION_POP_VLAN_SET_VXLAN_UNDERLAY_V4 = ''linux_networking_control.pop_vlan_set_vxlan_underlay_v4''"
definition L2_FWD_TX_TABLE_ACTION_POP_VLAN_SET_GENEVE_UNDERLAY_V4 :: string where [p4_names]:
  "L2_FWD_TX_TABLE_ACTION_POP_VLAN_SET_GENEVE_UNDERLAY_V4 = ''linux_networking_control.pop_vlan_set_geneve_underlay_v4''"
definition L2_FWD_TX_TABLE_ACTION_POP_VLAN_SET_VXLAN_UNDERLAY_V6 :: string where [p4_names]:
  "L2_FWD_TX_TABLE_ACTION_POP_VLAN_SET_VXLAN_UNDERLAY_V6 = ''linux_networking_control.pop_vlan_set_vxlan_underlay_v6''"
definition L2_FWD_TX_TABLE_ACTION_POP_VLAN_SET_GENEVE_UNDERLAY_V6 :: string where [p4_names]:
  "L2_FWD_TX_TABLE_ACTION_POP_VLAN_SET_GENEVE_UNDERLAY_V6 = ''linux_networking_control.pop_vlan_set_geneve_underlay_v6''"
definition ACTION_PARAM_TUNNEL_ID :: string where [p4_names]:
  "ACTION_PARAM_TUNNEL_ID = ''tunnel_id''"
definition L2_FWD_TX_TABLE_ACTION_REMOVE_VLAN_AND_FWD :: string where [p4_names]:
  "L2_FWD_TX_TABLE_ACTION_REMOVE_VLAN_AND_FWD = ''linux_networking_control.remove_vlan_and_fwd''"
definition ACTION_REMOVE_VLAN_AND_FWD_PARAM_VLAN_PTR :: string where [p4_names]:
  "ACTION_REMOVE_VLAN_AND_FWD_PARAM_VLAN_PTR = ''vlan_ptr''"
definition ACTION_REMOVE_VLAN_AND_FWD_PARAM_PORT_ID :: string where [p4_names]:
  "ACTION_REMOVE_VLAN_AND_FWD_PARAM_PORT_ID = ''port_id''"
definition SOURCE_PORT_TO_BRIDGE_MAP_TABLE :: string where [p4_names]:
  "SOURCE_PORT_TO_BRIDGE_MAP_TABLE = ''linux_networking_control.source_port_to_bridge_map''"
definition SOURCE_PORT_TO_BRIDGE_MAP_TABLE_KEY_SRC_PORT :: string where [p4_names]:
  "SOURCE_PORT_TO_BRIDGE_MAP_TABLE_KEY_SRC_PORT = ''user_meta.cmeta.source_port''"
definition SOURCE_PORT_TO_BRIDGE_MAP_TABLE_KEY_VID :: string where [p4_names]:
  "SOURCE_PORT_TO_BRIDGE_MAP_TABLE_KEY_VID = ''hdrs.vlan_ext[vmeta.common.depth].hdr.vid''"
definition SOURCE_PORT_TO_BRIDGE_MAP_TABLE_ACTION_SET_BRIDGE_ID :: string where [p4_names]:
  "SOURCE_PORT_TO_BRIDGE_MAP_TABLE_ACTION_SET_BRIDGE_ID = ''linux_networking_control.set_bridge_id''"
definition ACTION_SET_BRIDGE_ID_PARAM_BRIDGE_ID :: string where [p4_names]:
  "ACTION_SET_BRIDGE_ID_PARAM_BRIDGE_ID = ''bridge_id''"
definition RX_IPV4_TUNNEL_SOURCE_PORT_TABLE :: string where [p4_names]:
  "RX_IPV4_TUNNEL_SOURCE_PORT_TABLE = ''linux_networking_control.rx_ipv4_tunnel_source_port''"
definition RX_IPV4_TUNNEL_SOURCE_PORT_TABLE_KEY_IPV4_SRC :: string where [p4_names]:
  "RX_IPV4_TUNNEL_SOURCE_PORT_TABLE_KEY_IPV4_SRC = ''ipv4_src''"
definition RX_IPV4_TUNNEL_SOURCE_PORT_TABLE_KEY_VNI :: string where [p4_names]:
  "RX_IPV4_TUNNEL_SOURCE_PORT_TABLE_KEY_VNI = ''vni''"
definition RX_IPV4_TUNNEL_SOURCE_PORT_TABLE_ACTION_SET_SRC_PORT :: string where [p4_names]:
  "RX_IPV4_TUNNEL_SOURCE_PORT_TABLE_ACTION_SET_SRC_PORT = ''linux_networking_control.set_source_port''"
definition ACTION_SET_SRC_PORT :: string where [p4_names]:
  "ACTION_SET_SRC_PORT = ''source_port''"
definition RX_IPV6_TUNNEL_SOURCE_PORT_TABLE :: string where [p4_names]:
  "RX_IPV6_TUNNEL_SOURCE_PORT_TABLE = ''linux_networking_control.rx_ipv6_tunnel_source_port''"
definition RX_IPV6_TUNNEL_SOURCE_PORT_TABLE_KEY_IPV6_SRC :: string where [p4_names]:
  "RX_IPV6_TUNNEL_SOURCE_PORT_TABLE_KEY_IPV6_SRC = ''ipv6_src''"
definition RX_IPV6_TUNNEL_SOURCE_PORT_TABLE_KEY_VNI :: string where [p4_names]:
  "RX_IPV6_TUNNEL_SOURCE_PORT_TABLE_KEY_VNI = ''vni''"
definition RX_IPV6_TUNNEL_SOURCE_PORT_TABLE_ACTION_SET_SRC_PORT :: string where [p4_names]:
  "RX_IPV6_TUNNEL_SOURCE_PORT_TABLE_ACTION_SET_SRC_PORT = ''linux_networking_control.set_source_port''"
definition L2_TO_TUNNEL_V4_TABLE :: string where [p4_names]:
  "L2_TO_TUNNEL_V4_TABLE = ''linux_networking_control.l2_to_tunnel_v4''"
definition L2_TO_TUNNEL_V4_KEY_DA :: string where [p4_names]:
  "L2_TO_TUNNEL_V4_KEY_DA = ''hdrs.mac[vmeta.common.depth].da''"
definition L2_TO_TUNNEL_V4_ACTION_SET_TUNNEL_V4 :: string where [p4_names]:
  "L2_TO_TUNNEL_V4_ACTION_SET_TUNNEL_V4 = ''linux_networking_control.set_tunnel_v4''"
definition ACTION_SET_TUNNEL_V4_PARAM_DST_ADDR :: string where [p4_names]:
  "ACTION_SET_TUNNEL_V4_PARAM_DST_ADDR = ''dst_addr''"
definition L2_TO_TUNNEL_V6_TABLE :: string where [p4_names]:
  "L2_TO_TUNNEL_V6_TABLE = ''linux_networking_control.l2_to_tunnel_v6''"
definition L2_TO_TUNNEL_V6_KEY_DA :: string where [p4_names]:
  "L2_TO_TUNNEL_V6_KEY_DA = ''hdrs.mac[vmeta.common.depth].da''"
definition L2_TO_TUNNEL_V6_ACTION_SET_TUNNEL_V6 :: string where [p4_names]:
  "L2_TO_TUNNEL_V6_ACTION_SET_TUNNEL_V6 = ''linux_networking_control.set_tunnel_v6''"
definition ACTION_SET_TUNNEL_V6_PARAM_IPV6_1 :: string where [p4_names]:
  "ACTION_SET_TUNNEL_V6_PARAM_IPV6_1 = ''ipv6_1''"
definition ACTION_SET_TUNNEL_V6_PARAM_IPV6_2 :: string where [p4_names]:
  "ACTION_SET_TUNNEL_V6_PARAM_IPV6_2 = ''ipv6_2''"
definition ACTION_SET_TUNNEL_V6_PARAM_IPV6_3 :: string where [p4_names]:
  "ACTION_SET_TUNNEL_V6_PARAM_IPV6_3 = ''ipv6_3''"
definition ACTION_SET_TUNNEL_V6_PARAM_IPV6_4 :: string where [p4_names]:
  "ACTION_SET_TUNNEL_V6_PARAM_IPV6_4 = ''ipv6_4''"
definition VLAN_PUSH_MOD_TABLE :: string where [p4_names]:
  "VLAN_PUSH_MOD_TABLE = ''linux_networking_control.vlan_push_mod_table''"
definition VLAN_PUSH_MOD_KEY_MOD_BLOB_PTR :: string where [p4_names]:
  "VLAN_PUSH_MOD_KEY_MOD_BLOB_PTR = ''vmeta.common.mod_blob_ptr''"
definition VLAN_PUSH_MOD_ACTION_VLAN_PUSH :: string where [p4_names]:
  "VLAN_PUSH_MOD_ACTION_VLAN_PUSH = ''linux_networking_control.vlan_push''"
definition ACTION_VLAN_PUSH_PARAM_PCP :: string where [p4_names]:
  "ACTION_VLAN_PUSH_PARAM_PCP = ''pcp''"
definition ACTION_VLAN_PUSH_PARAM_DEI :: string where [p4_names]:
  "ACTION_VLAN_PUSH_PARAM_DEI = ''dei''"
definition ACTION_VLAN_PUSH_PARAM_VLAN_ID :: string where [p4_names]:
  "ACTION_VLAN_PUSH_PARAM_VLAN_ID = ''vlan_id''"
definition VLAN_POP_MOD_TABLE :: string where [p4_names]:
  "VLAN_POP_MOD_TABLE = ''linux_networking_control.vlan_pop_mod_table''"
definition VLAN_POP_MOD_KEY_MOD_BLOB_PTR :: string where [p4_names]:
  "VLAN_POP_MOD_KEY_MOD_BLOB_PTR = ''vmeta.common.mod_blob_ptr''"
definition VLAN_POP_MOD_ACTION_VLAN_POP :: string where [p4_names]:
  "VLAN_POP_MOD_ACTION_VLAN_POP = ''linux_networking_control.vlan_pop''"
definition TX_ACC_VSI_TABLE :: string where [p4_names]:
  "TX_ACC_VSI_TABLE = ''linux_networking_control.tx_acc_vsi''"
definition TX_ACC_VSI_TABLE_KEY_VSI :: string where [p4_names]:
  "TX_ACC_VSI_TABLE_KEY_VSI = ''vmeta.common.vsi''"
definition TX_ACC_VSI_TABLE_ACTION_L2_FWD_AND_BYPASS_BRIDGE :: string where [p4_names]:
  "TX_ACC_VSI_TABLE_ACTION_L2_FWD_AND_BYPASS_BRIDGE = ''linux_networking_control.l2_fwd_and_bypass_bridge''"
definition ACTION_L2_FWD_AND_BYPASS_BRIDGE_PARAM_PORT :: string where [p4_names]:
  "ACTION_L2_FWD_AND_BYPASS_BRIDGE_PARAM_PORT = ''port''"
definition L2_FWD_SMAC_TABLE :: string where [p4_names]:
  "L2_FWD_SMAC_TABLE = ''linux_networking_control.l2_fwd_smac_table''"
definition L2_FWD_SMAC_TABLE_KEY_SA :: string where [p4_names]:
  "L2_FWD_SMAC_TABLE_KEY_SA = ''hdrs.mac[vmeta.common.depth].sa''"
definition L2_FWD_SMAC_TABLE_ACTION_NO_ACTION :: string where [p4_names]:
  "L2_FWD_SMAC_TABLE_ACTION_NO_ACTION = ''NoAction''"
definition SRC_IP_MAC_MAP_TABLE :: string where [p4_names]:
  "SRC_IP_MAC_MAP_TABLE = ''linux_networking_control.vm_src_ip4_mac_map_table''"
definition SRC_IP_MAC_MAP_TABLE_KEY_SRC_IP :: string where [p4_names]:
  "SRC_IP_MAC_MAP_TABLE_KEY_SRC_IP = ''ipv4_src''"
definition SRC_IP_MAC_MAP_TABLE_ACTION_SMAC_MAP :: string where [p4_names]:
  "SRC_IP_MAC_MAP_TABLE_ACTION_SMAC_MAP = ''linux_networking_control.vm_src_ip4_mac_map_action''"
definition ACTION_SET_SRC_MAC_HIGH :: string where [p4_names]:
  "ACTION_SET_SRC_MAC_HIGH = ''smac_high''"
definition ACTION_SET_SRC_MAC_MID :: string where [p4_names]:
  "ACTION_SET_SRC_MAC_MID = ''smac_mid''"
definition ACTION_SET_SRC_MAC_LOW :: string where [p4_names]:
  "ACTION_SET_SRC_MAC_LOW = ''smac_low''"
definition DST_IP_MAC_MAP_TABLE :: string where [p4_names]:
  "DST_IP_MAC_MAP_TABLE = ''linux_networking_control.vm_dst_ip4_mac_map_table''"
definition DST_IP_MAC_MAP_TABLE_KEY_DST_IP :: string where [p4_names]:
  "DST_IP_MAC_MAP_TABLE_KEY_DST_IP = ''ipv4_dst''"
definition DST_IP_MAC_MAP_TABLE_ACTION_DMAC_MAP :: string where [p4_names]:
  "DST_IP_MAC_MAP_TABLE_ACTION_DMAC_MAP = ''linux_networking_control.vm_dst_ip4_mac_map_action''"
definition ACTION_SET_DST_MAC_HIGH :: string where [p4_names]:
  "ACTION_SET_DST_MAC_HIGH = ''dmac_high''"
definition ACTION_SET_DST_MAC_MID :: string where [p4_names]:
  "ACTION_SET_DST_MAC_MID = ''dmac_mid''"
definition ACTION_SET_DST_MAC_LOW :: string where [p4_names]:
  "ACTION_SET_DST_MAC_LOW = ''dmac_low''"

section \<open>DPDK\<close>

definition DPDK_VXLAN_ENCAP_MOD_TABLE :: string where [p4_names]:
  "DPDK_VXLAN_ENCAP_MOD_TABLE = ''linux_networking_control.vxlan_encap_mod_table''"
definition DPDK_VXLAN_ENCAP_MOD_TABLE_KEY_VENDORMETA_MOD_DATA_PTR :: string where [p4_names]:
  "DPDK_VXLAN_ENCAP_MOD_TABLE_KEY_VENDORMETA_MOD_DATA_PTR = ''vendormeta_mod_data_ptr''"
definition DPDK_ACTION_VXLAN_ENCAP :: string where [p4_names]:
  "DPDK_ACTION_VXLAN_ENCAP = ''linux_networking_control.vxlan_encap''"
definition DPDK_ACTION_VXLAN_ENCAP_PARAM_SRC_ADDR :: string where [p4_names]:
  "DPDK_ACTION_VXLAN_ENCAP_PARAM_SRC_ADDR = ''src_addr''"
definition DPDK_ACTION_VXLAN_ENCAP_PARAM_DST_ADDR :: string where [p4_names]:
  "DPDK_ACTION_VXLAN_ENCAP_PARAM_DST_ADDR = ''dst_addr''"
definition DPDK_ACTION_VXLAN_ENCAP_PARAM_DST_PORT :: string where [p4_names]:
  "DPDK_ACTION_VXLAN_ENCAP_PARAM_DST_PORT = ''dst_port''"
definition DPDK_ACTION_VXLAN_ENCAP_PARAM_VNI :: string where [p4_names]:
  "DPDK_ACTION_VXLAN_ENCAP_PARAM_VNI = ''vni''"
definition DPDK_TUNNEL_TYPE_VXLAN :: u32 where [p4_names]:
  "DPDK_TUNNEL_TYPE_VXLAN = 2"
definition DPDK_IPV4_TUNNEL_TERM_TABLE :: string where [p4_names]:
  "DPDK_IPV4_TUNNEL_TERM_TABLE = ''linux_networking_control.ipv4_tunnel_term_table''"
definition DPDK_IPV4_TUNNEL_TERM_TABLE_KEY_TUNNEL_TYPE :: string where [p4_names]:
  "DPDK_IPV4_TUNNEL_TERM_TABLE_KEY_TUNNEL_TYPE = ''tunnel_type''"
definition DPDK_IPV4_TUNNEL_TERM_TABLE_KEY_IPV4_SRC :: string where [p4_names]:
  "DPDK_IPV4_TUNNEL_TERM_TABLE_KEY_IPV4_SRC = ''ipv4_src''"
definition DPDK_IPV4_TUNNEL_TERM_TABLE_KEY_IPV4_DST :: string where [p4_names]:
  "DPDK_IPV4_TUNNEL_TERM_TABLE_KEY_IPV4_DST = ''ipv4_dst''"
definition DPDK_ACTION_DECAP_OUTER_IPV4 :: string where [p4_names]:
  "DPDK_ACTION_DECAP_OUTER_IPV4 = ''linux_networking_control.decap_outer_ipv4''"
definition DPDK_ACTION_DECAP_OUTER_IPV4_PARAM_TUNNEL_ID :: string where [p4_names]:
  "DPDK_ACTION_DECAP_OUTER_IPV4_PARAM_TUNNEL_ID = ''tunnel_id''"
definition DPDK_L2_FWD_RX_TABLE_ACTION_L2_FWD :: string where [p4_names]:
  "DPDK_L2_FWD_RX_TABLE_ACTION_L2_FWD = ''linux_networking_control.l2_fwd''"
definition DPDK_ACTION_L2_FWD_PARAM_PORT :: string where [p4_names]:
  "DPDK_ACTION_L2_FWD_PARAM_PORT = ''port''"
definition DPDK_L2_FWD_RX_WITH_TUNNEL_TABLE :: string where [p4_names]:
  "DPDK_L2_FWD_RX_WITH_TUNNEL_TABLE = ''linux_networking_control.l2_fwd_rx_with_tunnel_table''"
definition DPDK_L2_FWD_TX_TABLE :: string where [p4_names]:
  "DPDK_L2_FWD_TX_TABLE = ''linux_networking_control.l2_fwd_tx_table''"
definition DPDK_L2_FWD_TX_TABLE_KEY_DST_MAC :: string where [p4_names]:
  "DPDK_L2_FWD_TX_TABLE_KEY_DST_MAC = ''dst_mac''"
definition DPDK_L2_FWD_TX_TABLE_ACTION_L2_FWD :: string where [p4_names]:
  "DPDK_L2_FWD_TX_TABLE_ACTION_L2_FWD = ''linux_networking_control.l2_fwd''"
definition DPDK_L2_FWD_TX_TABLE_ACTION_SET_TUNNEL :: string where [p4_names]:
  "DPDK_L2_FWD_TX_TABLE_ACTION_SET_TUNNEL = ''linux_networking_control.set_tunnel''"
definition DPDK_ACTION_SET_TUNNEL_PARAM_TUNNEL_ID :: string where [p4_names]:
  "DPDK_ACTION_SET_TUNNEL_PARAM_TUNNEL_ID = ''tunnel_id''"
definition DPDK_ACTION_SET_TUNNEL_PARAM_DST_ADDR :: string where [p4_names]:
  "DPDK_ACTION_SET_TUNNEL_PARAM_DST_ADDR = ''dst_addr''"

end
