(* ===== verification/Encode_Utils.thy ===== *)
theory Encode_Utils
  imports Api_Types
begin

text \<open>
  \<^verbatim>\<open>core/common/ovsp4rt_encode_utils.h\<close> and \<^verbatim>\<open>ovsp4rt_encode_utils.cc\<close>: the
  functions that turn a field into the byte string of a match value or an action
  parameter. The variable arguments of \<open>EncodeByteValue\<close> are promoted to \<open>int\<close>, here
  32-bit words; each call of the code passes exactly \<open>arg_count\<close> of them. \<open>htons\<close> is
  the byte swap it is on a little-endian host.

  The lemmas give the number each byte string stands for and show where an encoder
  loses high bits.
\<close>

fun EncodeByteValue :: "nat \<Rightarrow> u32 list \<Rightarrow> bytes" where
  "EncodeByteValue (Suc arg_count) (arg # args) = ucast arg # EncodeByteValue arg_count args"
| "EncodeByteValue _ _ = []"

definition EncodeTunnelId :: "u32 \<Rightarrow> bytes" where
  "EncodeTunnelId vni = EncodeByteValue 3
     [drop_bit 16 vni AND 0x0F, drop_bit 8 vni AND 0xFF, vni AND 0xFF]"

definition EncodeVniValue :: "u32 \<Rightarrow> bytes" where
  "EncodeVniValue vni = EncodeByteValue 3
     [drop_bit 16 vni AND 0xFF, drop_bit 8 vni AND 0xFF, vni AND 0xFF]"

definition CanonicalizeIp :: "u32 \<Rightarrow> bytes" where
  "CanonicalizeIp ipv4addr = EncodeByteValue 4
     [ipv4addr AND 0xff, drop_bit 8 ipv4addr AND 0xff,
      drop_bit 16 ipv4addr AND 0xff, drop_bit 24 ipv4addr AND 0xff]"

definition CanonicalizeIpv6 :: "u128 \<Rightarrow> bytes" where
  "CanonicalizeIpv6 a = EncodeByteValue 16
     [ucast (u6_addr8 a 0), ucast (u6_addr8 a 1), ucast (u6_addr8 a 2), ucast (u6_addr8 a 3),
      ucast (u6_addr8 a 4), ucast (u6_addr8 a 5), ucast (u6_addr8 a 6), ucast (u6_addr8 a 7),
      ucast (u6_addr8 a 8), ucast (u6_addr8 a 9), ucast (u6_addr8 a 10), ucast (u6_addr8 a 11),
      ucast (u6_addr8 a 12), ucast (u6_addr8 a 13), ucast (u6_addr8 a 14), ucast (u6_addr8 a 15)]"

definition CanonicalizeMac :: "mac_addr \<Rightarrow> bytes" where
  "CanonicalizeMac mac = EncodeByteValue 6
     [ucast (mac0 mac) AND 0xff, ucast (mac1 mac) AND 0xff, ucast (mac2 mac) AND 0xff,
      ucast (mac3 mac) AND 0xff, ucast (mac4 mac) AND 0xff, ucast (mac5 mac) AND 0xff]"

definition htons :: "u16 \<Rightarrow> u16" where
  "htons x = push_bit 8 x OR drop_bit 8 x"

text \<open>\<open>EncodeByteValue(2, ((p >> 8) & 0xff), (p & 0xff))\<close>, as the encoders write it
  for a 16-bit port and for the low half of a 32-bit port.\<close>

definition encode_port16 :: "u16 \<Rightarrow> bytes" where
  "encode_port16 p = EncodeByteValue 2 [ucast (drop_bit 8 p) AND 0xff, ucast p AND 0xff]"

definition encode_port32 :: "u32 \<Rightarrow> bytes" where
  "encode_port32 p = EncodeByteValue 2 [drop_bit 8 p AND 0xff, p AND 0xff]"

section \<open>Lemmas\<close>

lemma EncodeByteValue_length [simp]:
  "length (EncodeByteValue n args) = min n (length args)"
  by (induction n args rule: EncodeByteValue.induct) simp_all

lemma EncodeByteValue_numeral [simp]:
  "EncodeByteValue (numeral k) (a # as) = ucast a # EncodeByteValue (pred_numeral k) as"
  by (simp add: numeral_eq_Suc)

lemma EncodeByteValue_1 [simp]: "EncodeByteValue 1 (a # as) = [ucast a]"
  by (simp add: One_nat_def del: One_nat_def [symmetric])

lemma EncodeVniValue_bytes:
  "EncodeVniValue vni = [ucast (drop_bit 16 vni), ucast (drop_bit 8 vni), ucast vni]"
  by (simp add: EncodeVniValue_def ucast_low_byte)

lemma EncodeTunnelId_bytes:
  "EncodeTunnelId vni = [ucast (take_bit 4 (drop_bit 16 vni)), ucast (drop_bit 8 vni), ucast vni]"
  by (simp add: EncodeTunnelId_def ucast_low_byte mask_low_nibble)

lemma CanonicalizeIp_bytes:
  "CanonicalizeIp a =
     [ucast a, ucast (drop_bit 8 a), ucast (drop_bit 16 a), ucast (drop_bit 24 a)]"
  by (simp add: CanonicalizeIp_def ucast_low_byte)

lemma CanonicalizeMac_bytes:
  "CanonicalizeMac m = [mac0 m, mac1 m, mac2 m, mac3 m, mac4 m, mac5 m]"
  by (simp add: CanonicalizeMac_def ucast_low_byte)

lemma CanonicalizeMac_inj: "CanonicalizeMac m = CanonicalizeMac n \<longleftrightarrow> m = n"
  by (cases m; cases n) (simp add: CanonicalizeMac_bytes)

lemma be_value_EncodeVniValue: "be_value (EncodeVniValue vni) = unat vni mod 2 ^ 24"
proof -
  have "be_value (EncodeVniValue vni) =
      unat vni div 2 ^ 16 mod 256 * 65536 + (unat vni div 2 ^ 8 mod 256 * 256 + unat vni mod 256)"
    by (simp only: EncodeVniValue_bytes be_value_Cons unat_byte_of_u32 unat_shift_u32) simp
  also have "\<dots> = unat vni mod 2 ^ 24"
    using mod_bytes3 [of "unat vni" 256] by simp
  finally show ?thesis .
qed

lemma unat_low_nibble: "unat (ucast (take_bit 4 (x :: u32)) :: u8) = unat x mod 16"
proof -
  have "unat (take_bit 4 x) = take_bit 4 (unat x)"
    by (rule unsigned_take_bit_eq)
  also have "\<dots> = unat x mod 16" by (simp add: take_bit_eq_mod)
  finally have "unat (take_bit 4 x) = unat x mod 16" .
  moreover have "unat x mod 16 < 256" by (rule less_trans [OF mod_less_divisor]) simp_all
  ultimately show ?thesis by (simp only: unat_byte_of_u32 mod_less)
qed

lemma be_value_EncodeTunnelId: "be_value (EncodeTunnelId vni) = unat vni mod 2 ^ 20"
proof -
  have "be_value (EncodeTunnelId vni) =
      unat vni div 2 ^ 16 mod 16 * 65536 + (unat vni div 2 ^ 8 mod 256 * 256 + unat vni mod 256)"
    by (simp only: EncodeTunnelId_bytes be_value_Cons unat_low_nibble)
      (simp only: unat_byte_of_u32 unat_shift_u32, simp)
  also have "\<dots> = unat vni mod 2 ^ 20"
    using mod_bytes3 [of "unat vni" 16] by simp
  finally show ?thesis .
qed

lemma CanonicalizeIp_inj:
  "CanonicalizeIp a = CanonicalizeIp b \<longleftrightarrow> a = b"
proof
  assume eq: "CanonicalizeIp a = CanonicalizeIp b"
  show "a = b"
  proof (rule bit_word_eqI)
    fix n
    assume n: "n < LENGTH(32)"
    have byte: "bit x (8 * i + j) = bit (ucast (drop_bit (8 * i) x) :: u8) j"
      if "j < 8" for x :: u32 and i j
      using that by (simp add: bit_simps)
    have "\<forall>i<4. (ucast (drop_bit (8 * i) a) :: u8) = ucast (drop_bit (8 * i) b)"
      using eq by (simp add: CanonicalizeIp_bytes All_less_Suc numeral_eq_Suc)
    moreover have "n div 8 < 4" using n by simp
    ultimately have "(ucast (drop_bit (8 * (n div 8)) a) :: u8) = ucast (drop_bit (8 * (n div 8)) b)"
      by blast
    then have "bit a (8 * (n div 8) + n mod 8) = bit b (8 * (n div 8) + n mod 8)"
      by (subst (1 2) byte) simp_all
    then show "bit a n = bit b n" by simp
  qed
qed simp

lemma htons_htons: "htons (htons x) = x"
  by (rule bit_word_eqI) (auto simp: htons_def bit_simps)

lemma encode_port16_htons: "encode_port16 (htons p) = [ucast p, ucast (drop_bit 8 p)]"
  by (auto simp: encode_port16_def htons_def ucast_low_byte bit_simps intro!: bit_word_eqI)

end
