(* ===== verification/Es2k_Encoders.thy ===== *)
theory Es2k_Encoders
  imports Entry_Encoder P4_Names Encode_Utils World
begin

text \<open>
  \<^verbatim>\<open>core/v3/es2k_encoders.cc\<close>: the functions that fill in a table entry of the ES2K
  pipeline. Each takes the entry the request holds and returns it filled in; the
  statements appear in the order of the source. The insert flag decides whether an
  action follows the match fields. A \<open>DiagDetail&\<close> out-parameter is returned beside
  the entry, and an encoder that reports an unsupported tunnel type on standard
  output returns the lines it prints.

  The source writes \<open>htons(dst_port) * 2\<close> into a \<open>uint16_t\<close>, so the product wraps at
  16 bits here as well.
\<close>

section \<open>Encoders\<close>

definition tunnel_v6_param_name :: "string list" where
  "tunnel_v6_param_name =
     [ACTION_SET_TUNNEL_V6_PARAM_IPV6_1, ACTION_SET_TUNNEL_V6_PARAM_IPV6_2,
      ACTION_SET_TUNNEL_V6_PARAM_IPV6_3, ACTION_SET_TUNNEL_V6_PARAM_IPV6_4]"

definition EncodeFdbSmacTableEntry ::
    "TableEntry \<Rightarrow> mac_learning_info \<Rightarrow> P4Info \<Rightarrow> bool \<Rightarrow>
     DiagDetail \<Rightarrow> TableEntry \<times> DiagDetail" where
  "EncodeFdbSmacTableEntry table_entry learn_info p4info insert_entry detail =
     (let te = set_table_id (GetTableId p4info L2_FWD_SMAC_TABLE) table_entry;
          te = add_exact (GetMatchFieldId p4info L2_FWD_SMAC_TABLE
             L2_FWD_SMAC_TABLE_KEY_SA) (CanonicalizeMac (ml_mac_addr learn_info)) te;
          te = add_exact (GetMatchFieldId p4info L2_FWD_SMAC_TABLE
             L2_FWD_SMAC_TABLE_KEY_BRIDGE_ID)
             (EncodeByteValue 1 [ucast (ml_bridge_id learn_info)]) te
      in ((if insert_entry then
           (let te = mutable_action te;
                te = set_action_id (GetActionId p4info L2_FWD_SMAC_TABLE_ACTION_NO_ACTION) te
            in te)
         else te),
          detail\<lparr>dd_table_id := LOG_L2_FWD_SMAC_TABLE\<rparr>))"

definition EncodeL2FwdTxTablePrologue ::
    "TableEntry \<Rightarrow> mac_learning_info \<Rightarrow> P4Info \<Rightarrow> TableEntry" where
  "EncodeL2FwdTxTablePrologue table_entry learn_info p4info =
     (let te = set_table_id (GetTableId p4info L2_FWD_TX_TABLE) table_entry;
          te = add_exact (GetMatchFieldId p4info L2_FWD_TX_TABLE
             L2_FWD_TX_TABLE_KEY_DST_MAC) (CanonicalizeMac (ml_mac_addr learn_info)) te;
          te = add_exact (GetMatchFieldId p4info L2_FWD_TX_TABLE
             L2_FWD_TX_TABLE_KEY_BRIDGE_ID)
             (EncodeByteValue 1 [ucast (ml_bridge_id learn_info)]) te
      in te)"

definition EncodeFdbTxVlanTableEntry ::
    "TableEntry \<Rightarrow> mac_learning_info \<Rightarrow> P4Info \<Rightarrow> bool \<Rightarrow>
     DiagDetail \<Rightarrow> TableEntry \<times> DiagDetail" where
  "EncodeFdbTxVlanTableEntry table_entry learn_info p4info insert_entry detail =
     (let te = EncodeL2FwdTxTablePrologue table_entry learn_info p4info
      in ((if insert_entry then
           (let te = mutable_action te
            in if pv_mode (ml_vlan_info learn_info) = P4_PORT_VLAN_NATIVE_UNTAGGED then
                 (let te = set_action_id
                        (GetActionId p4info L2_FWD_TX_TABLE_ACTION_REMOVE_VLAN_AND_FWD) te;
                      te = add_param (GetParamId p4info L2_FWD_TX_TABLE_ACTION_REMOVE_VLAN_AND_FWD
                               ACTION_REMOVE_VLAN_AND_FWD_PARAM_PORT_ID)
                             (EncodeByteValue 1 [ml_src_port learn_info]) te;
                      te = add_param (GetParamId p4info L2_FWD_TX_TABLE_ACTION_REMOVE_VLAN_AND_FWD
                               ACTION_REMOVE_VLAN_AND_FWD_PARAM_VLAN_PTR)
                             (EncodeByteValue 1 [pv_vlan (ml_vlan_info learn_info)]) te
                  in te)
               else
                 (let te = set_action_id (GetActionId p4info L2_FWD_TX_TABLE_ACTION_L2_FWD) te;
                      te = add_param (GetParamId p4info L2_FWD_TX_TABLE_ACTION_L2_FWD
                               ACTION_L2_FWD_PARAM_PORT)
                             (EncodeByteValue 1 [ml_src_port learn_info]) te
                  in te))
         else te),
          detail\<lparr>dd_table_id := LOG_L2_FWD_TX_TABLE\<rparr>))"

definition EncodeFdbRxVlanTableEntry ::
    "TableEntry \<Rightarrow> mac_learning_info \<Rightarrow> P4Info \<Rightarrow> bool \<Rightarrow>
     DiagDetail \<Rightarrow> TableEntry \<times> DiagDetail" where
  "EncodeFdbRxVlanTableEntry table_entry learn_info p4info insert_entry detail =
     (let te = set_table_id (GetTableId p4info L2_FWD_RX_TABLE) table_entry;
          te = add_exact (GetMatchFieldId p4info L2_FWD_RX_TABLE
             L2_FWD_RX_TABLE_KEY_DST_MAC) (CanonicalizeMac (ml_mac_addr learn_info)) te;
          te = add_exact (GetMatchFieldId p4info L2_FWD_RX_TABLE
             L2_FWD_RX_TABLE_KEY_BRIDGE_ID)
             (EncodeByteValue 1 [ucast (ml_bridge_id learn_info)]) te
      in ((if insert_entry then
           (let te = mutable_action te;
                te = set_action_id (GetActionId p4info L2_FWD_RX_TABLE_ACTION_L2_FWD) te;
                te = add_param (GetParamId p4info L2_FWD_RX_TABLE_ACTION_L2_FWD
                         ACTION_L2_FWD_PARAM_PORT)
                       (EncodeByteValue 1 [ml_rx_src_port learn_info]) te
            in te)
         else te),
          detail\<lparr>dd_table_id := LOG_L2_FWD_RX_TABLE\<rparr>))"

definition EncodeFdbTableEntryforV4VxlanTunnel ::
    "TableEntry \<Rightarrow> mac_learning_info \<Rightarrow> P4Info \<Rightarrow> bool \<Rightarrow>
     DiagDetail \<Rightarrow> TableEntry \<times> DiagDetail" where
  "EncodeFdbTableEntryforV4VxlanTunnel table_entry learn_info p4info insert_entry detail =
     (let te = EncodeL2FwdTxTablePrologue table_entry learn_info p4info
      in ((if insert_entry then
           (let te = mutable_action te
            in if ip_family (ti_local_ip (ml_tnl_info learn_info)) = AF_INET \<and>
                  ip_family (ti_remote_ip (ml_tnl_info learn_info)) = AF_INET then
                 (if pv_mode (ml_vlan_info learn_info) = P4_PORT_VLAN_NATIVE_UNTAGGED then
                    (let te = set_action_id
                           (GetActionId p4info L2_FWD_TX_TABLE_ACTION_POP_VLAN_SET_VXLAN_UNDERLAY_V4) te;
                         te = add_param (GetParamId p4info L2_FWD_TX_TABLE_ACTION_POP_VLAN_SET_VXLAN_UNDERLAY_V4
                                  ACTION_PARAM_TUNNEL_ID)
                                (EncodeTunnelId (ti_vni (ml_tnl_info learn_info))) te
                     in te)
                  else
                    (let te = set_action_id
                           (GetActionId p4info L2_FWD_TX_TABLE_ACTION_SET_VXLAN_UNDERLAY_V4) te;
                         te = add_param (GetParamId p4info L2_FWD_TX_TABLE_ACTION_SET_VXLAN_UNDERLAY_V4
                                  ACTION_PARAM_TUNNEL_ID)
                                (EncodeTunnelId (ti_vni (ml_tnl_info learn_info))) te
                     in te))
               else if ip_family (ti_local_ip (ml_tnl_info learn_info)) = AF_INET6 \<and>
                  ip_family (ti_remote_ip (ml_tnl_info learn_info)) = AF_INET6 then
                 (if pv_mode (ml_vlan_info learn_info) = P4_PORT_VLAN_NATIVE_UNTAGGED then
                    (let te = set_action_id
                           (GetActionId p4info L2_FWD_TX_TABLE_ACTION_POP_VLAN_SET_VXLAN_UNDERLAY_V6) te;
                         te = add_param (GetParamId p4info L2_FWD_TX_TABLE_ACTION_POP_VLAN_SET_VXLAN_UNDERLAY_V6
                                  ACTION_PARAM_TUNNEL_ID)
                                (EncodeTunnelId (ti_vni (ml_tnl_info learn_info))) te
                     in te)
                  else
                    (let te = set_action_id
                           (GetActionId p4info L2_FWD_TX_TABLE_ACTION_SET_VXLAN_UNDERLAY_V6) te;
                         te = add_param (GetParamId p4info L2_FWD_TX_TABLE_ACTION_SET_VXLAN_UNDERLAY_V6
                                  ACTION_PARAM_TUNNEL_ID)
                                (EncodeTunnelId (ti_vni (ml_tnl_info learn_info))) te
                     in te))
               else te)
         else te),
          detail\<lparr>dd_table_id := LOG_L2_FWD_TX_TABLE\<rparr>))"

definition EncodeFdbTableEntryforV4GeneveTunnel ::
    "TableEntry \<Rightarrow> mac_learning_info \<Rightarrow> P4Info \<Rightarrow> bool \<Rightarrow>
     DiagDetail \<Rightarrow> TableEntry \<times> DiagDetail" where
  "EncodeFdbTableEntryforV4GeneveTunnel table_entry learn_info p4info insert_entry detail =
     (let te = EncodeL2FwdTxTablePrologue table_entry learn_info p4info
      in ((if insert_entry then
           (let te = mutable_action te
            in if ip_family (ti_local_ip (ml_tnl_info learn_info)) = AF_INET \<and>
                  ip_family (ti_remote_ip (ml_tnl_info learn_info)) = AF_INET then
                 (if pv_mode (ml_vlan_info learn_info) = P4_PORT_VLAN_NATIVE_UNTAGGED then
                    (let te = set_action_id
                           (GetActionId p4info L2_FWD_TX_TABLE_ACTION_POP_VLAN_SET_GENEVE_UNDERLAY_V4) te;
                         te = add_param (GetParamId p4info L2_FWD_TX_TABLE_ACTION_POP_VLAN_SET_GENEVE_UNDERLAY_V4
                                  ACTION_PARAM_TUNNEL_ID)
                                (EncodeTunnelId (ti_vni (ml_tnl_info learn_info))) te
                     in te)
                  else
                    (let te = set_action_id
                           (GetActionId p4info L2_FWD_TX_TABLE_ACTION_SET_GENEVE_UNDERLAY_V4) te;
                         te = add_param (GetParamId p4info L2_FWD_TX_TABLE_ACTION_SET_GENEVE_UNDERLAY_V4
                                  ACTION_PARAM_TUNNEL_ID)
                                (EncodeTunnelId (ti_vni (ml_tnl_info learn_info))) te
                     in te))
               else if ip_family (ti_local_ip (ml_tnl_info learn_info)) = AF_INET6 \<and>
                  ip_family (ti_remote_ip (ml_tnl_info learn_info)) = AF_INET6 then
                 (if pv_mode (ml_vlan_info learn_info) = P4_PORT_VLAN_NATIVE_UNTAGGED then
                    (let te = set_action_id
                           (GetActionId p4info L2_FWD_TX_TABLE_ACTION_POP_VLAN_SET_GENEVE_UNDERLAY_V6) te;
                         te = add_param (GetParamId p4info L2_FWD_TX_TABLE_ACTION_POP_VLAN_SET_GENEVE_UNDERLAY_V6
                                  ACTION_PARAM_TUNNEL_ID)
                                (EncodeTunnelId (ti_vni (ml_tnl_info learn_info))) te
                     in te)
                  else
                    (let te = set_action_id
                           (GetActionId p4info L2_FWD_TX_TABLE_ACTION_SET_GENEVE_UNDERLAY_V6) te;
                         te = add_param (GetParamId p4info L2_FWD_TX_TABLE_ACTION_SET_GENEVE_UNDERLAY_V6
                                  ACTION_PARAM_TUNNEL_ID)
                                (EncodeTunnelId (ti_vni (ml_tnl_info learn_info))) te
                     in te))
               else te)
         else te),
          detail\<lparr>dd_table_id := LOG_L2_FWD_TX_TABLE\<rparr>))"

definition EncodeL2ToTunnelV4 ::
    "TableEntry \<Rightarrow> mac_learning_info \<Rightarrow> P4Info \<Rightarrow> bool \<Rightarrow>
     DiagDetail \<Rightarrow> TableEntry \<times> DiagDetail" where
  "EncodeL2ToTunnelV4 table_entry learn_info p4info insert_entry detail =
     (let te = set_table_id (GetTableId p4info L2_TO_TUNNEL_V4_TABLE) table_entry;
          te = add_exact (GetMatchFieldId p4info L2_TO_TUNNEL_V4_TABLE
             L2_TO_TUNNEL_V4_KEY_DA) (CanonicalizeMac (ml_mac_addr learn_info)) te
      in ((if insert_entry then
           (let te = mutable_action te;
                te = set_action_id (GetActionId p4info L2_TO_TUNNEL_V4_ACTION_SET_TUNNEL_V4) te;
                te = add_param (GetParamId p4info L2_TO_TUNNEL_V4_ACTION_SET_TUNNEL_V4
                         ACTION_SET_TUNNEL_V4_PARAM_DST_ADDR)
                       (CanonicalizeIp (v4addr_s_addr (ti_remote_ip (ml_tnl_info learn_info)))) te
            in te)
         else te),
          detail\<lparr>dd_table_id := LOG_L2_TO_TUNNEL_V4_TABLE\<rparr>))"

definition EncodeL2ToTunnelV6 ::
    "TableEntry \<Rightarrow> mac_learning_info \<Rightarrow> P4Info \<Rightarrow> bool \<Rightarrow>
     DiagDetail \<Rightarrow> TableEntry \<times> DiagDetail" where
  "EncodeL2ToTunnelV6 table_entry learn_info p4info insert_entry detail =
     (let te = set_table_id (GetTableId p4info L2_TO_TUNNEL_V6_TABLE) table_entry;
          te = add_exact (GetMatchFieldId p4info L2_TO_TUNNEL_V6_TABLE
             L2_TO_TUNNEL_V6_KEY_DA) (CanonicalizeMac (ml_mac_addr learn_info)) te
      in ((if insert_entry then
           (let te = mutable_action te;
                te = set_action_id (GetActionId p4info L2_TO_TUNNEL_V6_ACTION_SET_TUNNEL_V6) te;
                te = foldl (\<lambda>te i. add_param
                       (GetParamId p4info L2_TO_TUNNEL_V6_ACTION_SET_TUNNEL_V6 (tunnel_v6_param_name ! i))
                       (CanonicalizeIp (u6_addr32 (ip_mem (ti_remote_ip (ml_tnl_info learn_info))) i)) te)
                   te [0..<4]
            in te)
         else te),
          detail\<lparr>dd_table_id := LOG_L2_TO_TUNNEL_V6_TABLE\<rparr>))"

definition EncodeVxlanEncapTableEntry ::
    "TableEntry \<Rightarrow> tunnel_info \<Rightarrow> P4Info \<Rightarrow> bool \<Rightarrow> TableEntry" where
  "EncodeVxlanEncapTableEntry table_entry tunnel_info p4info insert_entry =
     (let te = set_table_id (GetTableId p4info VXLAN_ENCAP_MOD_TABLE) table_entry;
          te = add_exact (GetMatchFieldId p4info VXLAN_ENCAP_MOD_TABLE
             VXLAN_ENCAP_MOD_TABLE_KEY_VENDORMETA_MOD_DATA_PTR)
             (EncodeVniValue (ti_vni tunnel_info)) te
      in (if insert_entry then
           (let te = mutable_action te;
                te = set_action_id (GetActionId p4info ACTION_VXLAN_ENCAP) te;
                te = add_param (GetParamId p4info ACTION_VXLAN_ENCAP
                         ACTION_VXLAN_ENCAP_PARAM_SRC_ADDR)
                       (CanonicalizeIp (v4addr_s_addr (ti_local_ip tunnel_info))) te;
                te = add_param (GetParamId p4info ACTION_VXLAN_ENCAP
                         ACTION_VXLAN_ENCAP_PARAM_DST_ADDR)
                       (CanonicalizeIp (v4addr_s_addr (ti_remote_ip tunnel_info))) te;
                te = add_param (GetParamId p4info ACTION_VXLAN_ENCAP
                         ACTION_VXLAN_ENCAP_PARAM_SRC_PORT)
                       (encode_port16 (htons (ti_dst_port tunnel_info) * 2)) te;
                te = add_param (GetParamId p4info ACTION_VXLAN_ENCAP
                         ACTION_VXLAN_ENCAP_PARAM_DST_PORT)
                       (encode_port16 (htons (ti_dst_port tunnel_info))) te;
                te = add_param (GetParamId p4info ACTION_VXLAN_ENCAP ACTION_VXLAN_ENCAP_PARAM_VNI)
                       (EncodeVniValue (ti_vni tunnel_info)) te
            in te)
         else te))"

definition EncodeGeneveEncapTableEntry ::
    "TableEntry \<Rightarrow> tunnel_info \<Rightarrow> P4Info \<Rightarrow> bool \<Rightarrow> TableEntry" where
  "EncodeGeneveEncapTableEntry table_entry tunnel_info p4info insert_entry =
     (let te = set_table_id (GetTableId p4info GENEVE_ENCAP_MOD_TABLE) table_entry;
          te = add_exact (GetMatchFieldId p4info GENEVE_ENCAP_MOD_TABLE
             GENEVE_ENCAP_MOD_TABLE_KEY_VENDORMETA_MOD_DATA_PTR)
             (EncodeVniValue (ti_vni tunnel_info)) te
      in (if insert_entry then
           (let te = mutable_action te;
                te = set_action_id (GetActionId p4info ACTION_GENEVE_ENCAP) te;
                te = add_param (GetParamId p4info ACTION_GENEVE_ENCAP
                         ACTION_GENEVE_ENCAP_PARAM_SRC_ADDR)
                       (CanonicalizeIp (v4addr_s_addr (ti_local_ip tunnel_info))) te;
                te = add_param (GetParamId p4info ACTION_GENEVE_ENCAP
                         ACTION_GENEVE_ENCAP_PARAM_DST_ADDR)
                       (CanonicalizeIp (v4addr_s_addr (ti_remote_ip tunnel_info))) te;
                te = add_param (GetParamId p4info ACTION_GENEVE_ENCAP
                         ACTION_GENEVE_ENCAP_PARAM_SRC_PORT)
                       (encode_port16 (htons (ti_dst_port tunnel_info) * 2)) te;
                te = add_param (GetParamId p4info ACTION_GENEVE_ENCAP
                         ACTION_GENEVE_ENCAP_PARAM_DST_PORT)
                       (encode_port16 (htons (ti_dst_port tunnel_info))) te;
                te = add_param (GetParamId p4info ACTION_GENEVE_ENCAP
                         ACTION_GENEVE_ENCAP_PARAM_VNI)
                       (EncodeVniValue (ti_vni tunnel_info)) te
            in te)
         else te))"

definition EncodeV6VxlanEncapTableEntry ::
    "TableEntry \<Rightarrow> tunnel_info \<Rightarrow> P4Info \<Rightarrow> bool \<Rightarrow> TableEntry" where
  "EncodeV6VxlanEncapTableEntry table_entry tunnel_info p4info insert_entry =
     (let te = set_table_id (GetTableId p4info VXLAN_ENCAP_V6_MOD_TABLE) table_entry;
          te = add_exact (GetMatchFieldId p4info VXLAN_ENCAP_V6_MOD_TABLE
             VXLAN_ENCAP_V6_MOD_TABLE_KEY_VENDORMETA_MOD_DATA_PTR)
             (EncodeVniValue (ti_vni tunnel_info)) te
      in (if insert_entry then
           (let te = mutable_action te;
                te = set_action_id (GetActionId p4info ACTION_VXLAN_ENCAP_V6) te;
                te = add_param (GetParamId p4info ACTION_VXLAN_ENCAP_V6
                         ACTION_VXLAN_ENCAP_V6_PARAM_SRC_ADDR)
                       (CanonicalizeIpv6 (ip_mem (ti_local_ip tunnel_info))) te;
                te = add_param (GetParamId p4info ACTION_VXLAN_ENCAP_V6
                         ACTION_VXLAN_ENCAP_V6_PARAM_DST_ADDR)
                       (CanonicalizeIpv6 (ip_mem (ti_remote_ip tunnel_info))) te;
                te = add_param (GetParamId p4info ACTION_VXLAN_ENCAP_V6
                         ACTION_VXLAN_ENCAP_V6_PARAM_SRC_PORT)
                       (encode_port16 (htons (ti_dst_port tunnel_info) * 2)) te;
                te = add_param (GetParamId p4info ACTION_VXLAN_ENCAP_V6
                         ACTION_VXLAN_ENCAP_V6_PARAM_DST_PORT)
                       (encode_port16 (htons (ti_dst_port tunnel_info))) te;
                te = add_param (GetParamId p4info ACTION_VXLAN_ENCAP_V6
                         ACTION_VXLAN_ENCAP_V6_PARAM_VNI)
                       (EncodeVniValue (ti_vni tunnel_info)) te
            in te)
         else te))"

definition EncodeV6GeneveEncapTableEntry ::
    "TableEntry \<Rightarrow> tunnel_info \<Rightarrow> P4Info \<Rightarrow> bool \<Rightarrow> TableEntry" where
  "EncodeV6GeneveEncapTableEntry table_entry tunnel_info p4info insert_entry =
     (let te = set_table_id (GetTableId p4info GENEVE_ENCAP_V6_MOD_TABLE) table_entry;
          te = add_exact (GetMatchFieldId p4info GENEVE_ENCAP_V6_MOD_TABLE
             GENEVE_ENCAP_V6_MOD_TABLE_KEY_VENDORMETA_MOD_DATA_PTR)
             (EncodeVniValue (ti_vni tunnel_info)) te
      in (if insert_entry then
           (let te = mutable_action te;
                te = set_action_id (GetActionId p4info ACTION_GENEVE_ENCAP_V6) te;
                te = add_param (GetParamId p4info ACTION_GENEVE_ENCAP_V6
                         ACTION_GENEVE_ENCAP_V6_PARAM_SRC_ADDR)
                       (CanonicalizeIpv6 (ip_mem (ti_local_ip tunnel_info))) te;
                te = add_param (GetParamId p4info ACTION_GENEVE_ENCAP_V6
                         ACTION_GENEVE_ENCAP_V6_PARAM_DST_ADDR)
                       (CanonicalizeIpv6 (ip_mem (ti_remote_ip tunnel_info))) te;
                te = add_param (GetParamId p4info ACTION_GENEVE_ENCAP_V6
                         ACTION_GENEVE_ENCAP_V6_PARAM_SRC_PORT)
                       (encode_port16 (htons (ti_dst_port tunnel_info) * 2)) te;
                te = add_param (GetParamId p4info ACTION_GENEVE_ENCAP_V6
                         ACTION_GENEVE_ENCAP_V6_PARAM_DST_PORT)
                       (encode_port16 (htons (ti_dst_port tunnel_info))) te;
                te = add_param (GetParamId p4info ACTION_GENEVE_ENCAP_V6
                         ACTION_GENEVE_ENCAP_V6_PARAM_VNI)
                       (EncodeVniValue (ti_vni tunnel_info)) te
            in te)
         else te))"

definition EncodeVxlanEncapAndVlanPopTableEntry ::
    "TableEntry \<Rightarrow> tunnel_info \<Rightarrow> P4Info \<Rightarrow> bool \<Rightarrow> TableEntry" where
  "EncodeVxlanEncapAndVlanPopTableEntry table_entry tunnel_info p4info insert_entry =
     (let te = set_table_id (GetTableId p4info VXLAN_ENCAP_VLAN_POP_MOD_TABLE) table_entry;
          te = add_exact (GetMatchFieldId p4info VXLAN_ENCAP_VLAN_POP_MOD_TABLE
             VXLAN_ENCAP_VLAN_POP_MOD_TABLE_KEY_VENDORMETA_MOD_DATA_PTR)
             (EncodeVniValue (ti_vni tunnel_info)) te
      in (if insert_entry then
           (let te = mutable_action te;
                te = set_action_id (GetActionId p4info ACTION_VXLAN_ENCAP_VLAN_POP) te;
                te = add_param (GetParamId p4info ACTION_VXLAN_ENCAP_VLAN_POP
                         ACTION_VXLAN_ENCAP_VLAN_POP_PARAM_SRC_ADDR)
                       (CanonicalizeIp (v4addr_s_addr (ti_local_ip tunnel_info))) te;
                te = add_param (GetParamId p4info ACTION_VXLAN_ENCAP_VLAN_POP
                         ACTION_VXLAN_ENCAP_VLAN_POP_PARAM_DST_ADDR)
                       (CanonicalizeIp (v4addr_s_addr (ti_remote_ip tunnel_info))) te;
                te = add_param (GetParamId p4info ACTION_VXLAN_ENCAP_VLAN_POP
                         ACTION_VXLAN_ENCAP_VLAN_POP_PARAM_SRC_PORT)
                       (encode_port16 (htons (ti_dst_port tunnel_info) * 2)) te;
                te = add_param (GetParamId p4info ACTION_VXLAN_ENCAP_VLAN_POP
                         ACTION_VXLAN_ENCAP_VLAN_POP_PARAM_DST_PORT)
                       (encode_port16 (htons (ti_dst_port tunnel_info))) te;
                te = add_param (GetParamId p4info ACTION_VXLAN_ENCAP_VLAN_POP
                         ACTION_VXLAN_ENCAP_VLAN_POP_PARAM_VNI)
                       (EncodeVniValue (ti_vni tunnel_info)) te
            in te)
         else te))"

definition EncodeGeneveEncapAndVlanPopTableEntry ::
    "TableEntry \<Rightarrow> tunnel_info \<Rightarrow> P4Info \<Rightarrow> bool \<Rightarrow> TableEntry" where
  "EncodeGeneveEncapAndVlanPopTableEntry table_entry tunnel_info p4info insert_entry =
     (let te = set_table_id (GetTableId p4info GENEVE_ENCAP_VLAN_POP_MOD_TABLE) table_entry;
          te = add_exact (GetMatchFieldId p4info GENEVE_ENCAP_VLAN_POP_MOD_TABLE
             GENEVE_ENCAP_VLAN_POP_MOD_TABLE_KEY_VENDORMETA_MOD_DATA_PTR)
             (EncodeVniValue (ti_vni tunnel_info)) te
      in (if insert_entry then
           (let te = mutable_action te;
                te = set_action_id (GetActionId p4info ACTION_GENEVE_ENCAP_VLAN_POP) te;
                te = add_param (GetParamId p4info ACTION_GENEVE_ENCAP_VLAN_POP
                         ACTION_GENEVE_ENCAP_VLAN_POP_PARAM_SRC_ADDR)
                       (CanonicalizeIp (v4addr_s_addr (ti_local_ip tunnel_info))) te;
                te = add_param (GetParamId p4info ACTION_GENEVE_ENCAP_VLAN_POP
                         ACTION_GENEVE_ENCAP_VLAN_POP_PARAM_DST_ADDR)
                       (CanonicalizeIp (v4addr_s_addr (ti_remote_ip tunnel_info))) te;
                te = add_param (GetParamId p4info ACTION_GENEVE_ENCAP_VLAN_POP
                         ACTION_GENEVE_ENCAP_VLAN_POP_PARAM_SRC_PORT)
                       (encode_port16 (htons (ti_dst_port tunnel_info) * 2)) te;
                te = add_param (GetParamId p4info ACTION_GENEVE_ENCAP_VLAN_POP
                         ACTION_GENEVE_ENCAP_VLAN_POP_PARAM_DST_PORT)
                       (encode_port16 (htons (ti_dst_port tunnel_info))) te;
                te = add_param (GetParamId p4info ACTION_GENEVE_ENCAP_VLAN_POP
                         ACTION_GENEVE_ENCAP_VLAN_POP_PARAM_VNI)
                       (EncodeVniValue (ti_vni tunnel_info)) te
            in te)
         else te))"

definition EncodeV6VxlanEncapAndVlanPopTableEntry ::
    "TableEntry \<Rightarrow> tunnel_info \<Rightarrow> P4Info \<Rightarrow> bool \<Rightarrow> TableEntry" where
  "EncodeV6VxlanEncapAndVlanPopTableEntry table_entry tunnel_info p4info insert_entry =
     (let te = set_table_id (GetTableId p4info VXLAN_ENCAP_V6_VLAN_POP_MOD_TABLE) table_entry;
          te = add_exact (GetMatchFieldId p4info VXLAN_ENCAP_V6_VLAN_POP_MOD_TABLE
             VXLAN_ENCAP_V6_VLAN_POP_MOD_TABLE_KEY_VENDORMETA_MOD_DATA_PTR)
             (EncodeVniValue (ti_vni tunnel_info)) te
      in (if insert_entry then
           (let te = mutable_action te;
                te = set_action_id (GetActionId p4info ACTION_VXLAN_ENCAP_V6_VLAN_POP) te;
                te = add_param (GetParamId p4info ACTION_VXLAN_ENCAP_V6_VLAN_POP
                         ACTION_VXLAN_ENCAP_V6_VLAN_POP_PARAM_SRC_ADDR)
                       (CanonicalizeIpv6 (ip_mem (ti_local_ip tunnel_info))) te;
                te = add_param (GetParamId p4info ACTION_VXLAN_ENCAP_V6_VLAN_POP
                         ACTION_VXLAN_ENCAP_V6_VLAN_POP_PARAM_DST_ADDR)
                       (CanonicalizeIpv6 (ip_mem (ti_remote_ip tunnel_info))) te;
                te = add_param (GetParamId p4info ACTION_VXLAN_ENCAP_V6_VLAN_POP
                         ACTION_VXLAN_ENCAP_V6_VLAN_POP_PARAM_SRC_PORT)
                       (encode_port16 (htons (ti_dst_port tunnel_info) * 2)) te;
                te = add_param (GetParamId p4info ACTION_VXLAN_ENCAP_V6_VLAN_POP
                         ACTION_VXLAN_ENCAP_V6_VLAN_POP_PARAM_DST_PORT)
                       (encode_port16 (htons (ti_dst_port tunnel_info))) te;
                te = add_param (GetParamId p4info ACTION_VXLAN_ENCAP_V6_VLAN_POP
                         ACTION_VXLAN_ENCAP_V6_VLAN_POP_PARAM_VNI)
                       (EncodeVniValue (ti_vni tunnel_info)) te
            in te)
         else te))"

definition EncodeV6GeneveEncapAndVlanPopTableEntry ::
    "TableEntry \<Rightarrow> tunnel_info \<Rightarrow> P4Info \<Rightarrow> bool \<Rightarrow> TableEntry" where
  "EncodeV6GeneveEncapAndVlanPopTableEntry table_entry tunnel_info p4info insert_entry =
     (let te = set_table_id (GetTableId p4info GENEVE_ENCAP_V6_VLAN_POP_MOD_TABLE) table_entry;
          te = add_exact (GetMatchFieldId p4info GENEVE_ENCAP_V6_VLAN_POP_MOD_TABLE
             GENEVE_ENCAP_V6_VLAN_POP_MOD_TABLE_KEY_VENDORMETA_MOD_DATA_PTR)
             (EncodeVniValue (ti_vni tunnel_info)) te
      in (if insert_entry then
           (let te = mutable_action te;
                te = set_action_id (GetActionId p4info ACTION_GENEVE_ENCAP_V6_VLAN_POP) te;
                te = add_param (GetParamId p4info ACTION_GENEVE_ENCAP_V6_VLAN_POP
                         ACTION_GENEVE_ENCAP_V6_VLAN_POP_PARAM_SRC_ADDR)
                       (CanonicalizeIpv6 (ip_mem (ti_local_ip tunnel_info))) te;
                te = add_param (GetParamId p4info ACTION_GENEVE_ENCAP_V6_VLAN_POP
                         ACTION_GENEVE_ENCAP_V6_VLAN_POP_PARAM_DST_ADDR)
                       (CanonicalizeIpv6 (ip_mem (ti_remote_ip tunnel_info))) te;
                te = add_param (GetParamId p4info ACTION_GENEVE_ENCAP_V6_VLAN_POP
                         ACTION_GENEVE_ENCAP_V6_VLAN_POP_PARAM_SRC_PORT)
                       (encode_port16 (htons (ti_dst_port tunnel_info) * 2)) te;
                te = add_param (GetParamId p4info ACTION_GENEVE_ENCAP_V6_VLAN_POP
                         ACTION_GENEVE_ENCAP_V6_VLAN_POP_PARAM_DST_PORT)
                       (encode_port16 (htons (ti_dst_port tunnel_info))) te;
                te = add_param (GetParamId p4info ACTION_GENEVE_ENCAP_V6_VLAN_POP
                         ACTION_GENEVE_ENCAP_V6_VLAN_POP_PARAM_VNI)
                       (EncodeVniValue (ti_vni tunnel_info)) te
            in te)
         else te))"

definition EncodeRxTunnelTableEntry ::
    "TableEntry \<Rightarrow> tunnel_info \<Rightarrow> P4Info \<Rightarrow> bool \<Rightarrow> TableEntry" where
  "EncodeRxTunnelTableEntry table_entry tunnel_info p4info insert_entry =
     (let te = set_table_id (GetTableId p4info RX_IPV4_TUNNEL_SOURCE_PORT_TABLE) table_entry;
          te = add_exact (GetMatchFieldId p4info RX_IPV4_TUNNEL_SOURCE_PORT_TABLE
             RX_IPV4_TUNNEL_SOURCE_PORT_TABLE_KEY_VNI) (EncodeVniValue (ti_vni tunnel_info)) te;
          te = add_exact (GetMatchFieldId p4info RX_IPV4_TUNNEL_SOURCE_PORT_TABLE
             RX_IPV4_TUNNEL_SOURCE_PORT_TABLE_KEY_IPV4_SRC)
             (CanonicalizeIp (v4addr_s_addr (ti_remote_ip tunnel_info))) te
      in (if insert_entry then
           (let te = mutable_action te;
                te = set_action_id
                       (GetActionId p4info RX_IPV4_TUNNEL_SOURCE_PORT_TABLE_ACTION_SET_SRC_PORT) te;
                te = add_param (GetParamId p4info RX_IPV4_TUNNEL_SOURCE_PORT_TABLE_ACTION_SET_SRC_PORT
                         ACTION_SET_SRC_PORT)
                       (encode_port32 (ti_src_port tunnel_info)) te
            in te)
         else te))"

definition EncodeV6RxTunnelTableEntry ::
    "TableEntry \<Rightarrow> tunnel_info \<Rightarrow> P4Info \<Rightarrow> bool \<Rightarrow> TableEntry" where
  "EncodeV6RxTunnelTableEntry table_entry tunnel_info p4info insert_entry =
     (let te = set_table_id (GetTableId p4info RX_IPV6_TUNNEL_SOURCE_PORT_TABLE) table_entry;
          te = add_exact (GetMatchFieldId p4info RX_IPV6_TUNNEL_SOURCE_PORT_TABLE
             RX_IPV6_TUNNEL_SOURCE_PORT_TABLE_KEY_VNI) (EncodeVniValue (ti_vni tunnel_info)) te;
          te = add_exact (GetMatchFieldId p4info RX_IPV6_TUNNEL_SOURCE_PORT_TABLE
             RX_IPV6_TUNNEL_SOURCE_PORT_TABLE_KEY_IPV6_SRC)
             (CanonicalizeIpv6 (ip_mem (ti_remote_ip tunnel_info))) te
      in (if insert_entry then
           (let te = mutable_action te;
                te = set_action_id
                       (GetActionId p4info RX_IPV6_TUNNEL_SOURCE_PORT_TABLE_ACTION_SET_SRC_PORT) te;
                te = add_param (GetParamId p4info RX_IPV6_TUNNEL_SOURCE_PORT_TABLE_ACTION_SET_SRC_PORT
                         ACTION_SET_SRC_PORT)
                       (encode_port32 (ti_src_port tunnel_info)) te
            in te)
         else te))"

definition EncodeTunnelTermTableEntry ::
    "TableEntry \<Rightarrow> tunnel_info \<Rightarrow> P4Info \<Rightarrow> bool \<Rightarrow> TableEntry \<times> string list" where
  "EncodeTunnelTermTableEntry table_entry tunnel_info p4info insert_entry =
     (let te = add_exact (GetMatchFieldId p4info IPV4_TUNNEL_TERM_TABLE
             IPV4_TUNNEL_TERM_TABLE_KEY_IPV4_SRC)
             (CanonicalizeIp (v4addr_s_addr (ti_remote_ip tunnel_info))) table_entry;
          te = set_table_id (GetTableId p4info IPV4_TUNNEL_TERM_TABLE) te;
          te = add_exact (GetMatchFieldId p4info IPV4_TUNNEL_TERM_TABLE
             IPV4_TUNNEL_TERM_TABLE_KEY_BRIDGE_ID)
             (EncodeByteValue 1 [ucast (ti_bridge_id tunnel_info)]) te;
          te = add_exact (GetMatchFieldId p4info IPV4_TUNNEL_TERM_TABLE
             IPV4_TUNNEL_TERM_TABLE_KEY_VNI) (EncodeVniValue (ti_vni tunnel_info)) te
      in if insert_entry then
           (let te = mutable_action te
            in if pv_mode (ti_vlan_info tunnel_info) = P4_PORT_VLAN_NATIVE_UNTAGGED then
                 (if ti_tunnel_type tunnel_info = OVS_TUNNEL_VXLAN then
                    (let te = set_action_id
                           (GetActionId p4info ACTION_SET_VXLAN_DECAP_OUTER_HDR_AND_PUSH_VLAN) te;
                         te = add_param (GetParamId p4info ACTION_SET_VXLAN_DECAP_OUTER_HDR_AND_PUSH_VLAN
                                  ACTION_PARAM_TUNNEL_ID)
                                (EncodeTunnelId (ti_vni tunnel_info)) te
                     in (te, []))
                  else if ti_tunnel_type tunnel_info = OVS_TUNNEL_GENEVE then
                    (let te = set_action_id
                           (GetActionId p4info ACTION_SET_GENEVE_DECAP_OUTER_HDR_AND_PUSH_VLAN) te;
                         te = add_param (GetParamId p4info ACTION_SET_GENEVE_DECAP_OUTER_HDR_AND_PUSH_VLAN
                                  ACTION_PARAM_TUNNEL_ID)
                                (EncodeTunnelId (ti_vni tunnel_info)) te
                     in (te, []))
                  else (te, [''Unsupported tunnel type'']))
               else
                 (if ti_tunnel_type tunnel_info = OVS_TUNNEL_VXLAN then
                    (let te = set_action_id
                           (GetActionId p4info ACTION_SET_VXLAN_DECAP_OUTER_HDR) te;
                         te = add_param (GetParamId p4info ACTION_SET_VXLAN_DECAP_OUTER_HDR
                                  ACTION_PARAM_TUNNEL_ID)
                                (EncodeTunnelId (ti_vni tunnel_info)) te
                     in (te, []))
                  else if ti_tunnel_type tunnel_info = OVS_TUNNEL_GENEVE then
                    (let te = set_action_id
                           (GetActionId p4info ACTION_SET_GENEVE_DECAP_OUTER_HDR) te;
                         te = add_param (GetParamId p4info ACTION_SET_GENEVE_DECAP_OUTER_HDR
                                  ACTION_PARAM_TUNNEL_ID)
                                (EncodeTunnelId (ti_vni tunnel_info)) te
                     in (te, []))
                  else (te, [''Unsupported tunnel type''])))
         else (te, []))"

definition EncodeV6TunnelTermTableEntry ::
    "TableEntry \<Rightarrow> tunnel_info \<Rightarrow> P4Info \<Rightarrow> bool \<Rightarrow> TableEntry \<times> string list" where
  "EncodeV6TunnelTermTableEntry table_entry tunnel_info p4info insert_entry =
     (let te = set_table_id (GetTableId p4info IPV6_TUNNEL_TERM_TABLE) table_entry;
          te = add_exact (GetMatchFieldId p4info IPV6_TUNNEL_TERM_TABLE
             IPV6_TUNNEL_TERM_TABLE_KEY_BRIDGE_ID)
             (EncodeByteValue 1 [ucast (ti_bridge_id tunnel_info)]) te;
          te = add_exact (GetMatchFieldId p4info IPV6_TUNNEL_TERM_TABLE
             IPV6_TUNNEL_TERM_TABLE_KEY_IPV6_SRC)
             (CanonicalizeIpv6 (ip_mem (ti_remote_ip tunnel_info))) te;
          te = add_exact (GetMatchFieldId p4info IPV6_TUNNEL_TERM_TABLE
             IPV6_TUNNEL_TERM_TABLE_KEY_VNI) (EncodeVniValue (ti_vni tunnel_info)) te
      in if insert_entry then
           (let te = mutable_action te
            in if pv_mode (ti_vlan_info tunnel_info) = P4_PORT_VLAN_NATIVE_UNTAGGED then
                 (if ti_tunnel_type tunnel_info = OVS_TUNNEL_VXLAN then
                    (let te = set_action_id
                           (GetActionId p4info ACTION_SET_VXLAN_DECAP_OUTER_HDR_AND_PUSH_VLAN) te;
                         te = add_param (GetParamId p4info ACTION_SET_VXLAN_DECAP_OUTER_HDR_AND_PUSH_VLAN
                                  ACTION_PARAM_TUNNEL_ID)
                                (EncodeTunnelId (ti_vni tunnel_info)) te
                     in (te, []))
                  else if ti_tunnel_type tunnel_info = OVS_TUNNEL_GENEVE then
                    (let te = set_action_id
                           (GetActionId p4info ACTION_SET_GENEVE_DECAP_OUTER_HDR_AND_PUSH_VLAN) te;
                         te = add_param (GetParamId p4info ACTION_SET_GENEVE_DECAP_OUTER_HDR_AND_PUSH_VLAN
                                  ACTION_PARAM_TUNNEL_ID)
                                (EncodeTunnelId (ti_vni tunnel_info)) te
                     in (te, []))
                  else (te, [''Unsupported tunnel type'']))
               else
                 (if ti_tunnel_type tunnel_info = OVS_TUNNEL_VXLAN then
                    (let te = set_action_id
                           (GetActionId p4info ACTION_SET_VXLAN_DECAP_OUTER_HDR) te;
                         te = add_param (GetParamId p4info ACTION_SET_VXLAN_DECAP_OUTER_HDR
                                  ACTION_PARAM_TUNNEL_ID)
                                (EncodeTunnelId (ti_vni tunnel_info)) te
                     in (te, []))
                  else if ti_tunnel_type tunnel_info = OVS_TUNNEL_GENEVE then
                    (let te = set_action_id
                           (GetActionId p4info ACTION_SET_GENEVE_DECAP_OUTER_HDR) te;
                         te = add_param (GetParamId p4info ACTION_SET_GENEVE_DECAP_OUTER_HDR
                                  ACTION_PARAM_TUNNEL_ID)
                                (EncodeTunnelId (ti_vni tunnel_info)) te
                     in (te, []))
                  else (te, [''Unsupported tunnel type''])))
         else (te, []))"

definition EncodeVxlanDecapModAndVlanPushTableEntry ::
    "TableEntry \<Rightarrow> tunnel_info \<Rightarrow> P4Info \<Rightarrow> bool \<Rightarrow> TableEntry" where
  "EncodeVxlanDecapModAndVlanPushTableEntry table_entry tunnel_info p4info insert_entry =
     (let te = set_table_id (GetTableId p4info VXLAN_DECAP_AND_VLAN_PUSH_MOD_TABLE) table_entry;
          te = add_exact (GetMatchFieldId p4info VXLAN_DECAP_AND_VLAN_PUSH_MOD_TABLE
             VXLAN_DECAP_AND_VLAN_PUSH_MOD_TABLE_KEY_MOD_BLOB_PTR)
             (EncodeVniValue (ti_vni tunnel_info)) te
      in (if insert_entry then
           (let te = mutable_action te;
                te = set_action_id (GetActionId p4info ACTION_VXLAN_DECAP_AND_PUSH_VLAN) te;
                te = add_param (GetParamId p4info ACTION_VXLAN_DECAP_AND_PUSH_VLAN
                         ACTION_VXLAN_DECAP_AND_PUSH_VLAN_PARAM_PCP)
                       (EncodeByteValue 1 [1]) te;
                te = add_param (GetParamId p4info ACTION_VXLAN_DECAP_AND_PUSH_VLAN
                         ACTION_VXLAN_DECAP_AND_PUSH_VLAN_PARAM_DEI)
                       (EncodeByteValue 1 [0]) te;
                te = add_param (GetParamId p4info ACTION_VXLAN_DECAP_AND_PUSH_VLAN
                         ACTION_VXLAN_DECAP_AND_PUSH_VLAN_PARAM_VLAN_ID)
                       (EncodeByteValue 1 [pv_vlan (ti_vlan_info tunnel_info)]) te
            in te)
         else te))"

definition EncodeGeneveDecapModAndVlanPushTableEntry ::
    "TableEntry \<Rightarrow> tunnel_info \<Rightarrow> P4Info \<Rightarrow> bool \<Rightarrow> TableEntry" where
  "EncodeGeneveDecapModAndVlanPushTableEntry table_entry tunnel_info p4info insert_entry =
     (let te = set_table_id (GetTableId p4info GENEVE_DECAP_AND_VLAN_PUSH_MOD_TABLE) table_entry;
          te = add_exact (GetMatchFieldId p4info GENEVE_DECAP_AND_VLAN_PUSH_MOD_TABLE
             GENEVE_DECAP_AND_VLAN_PUSH_MOD_TABLE_KEY_MOD_BLOB_PTR)
             (EncodeVniValue (ti_vni tunnel_info)) te
      in (if insert_entry then
           (let te = mutable_action te;
                te = set_action_id (GetActionId p4info ACTION_GENEVE_DECAP_AND_PUSH_VLAN) te;
                te = add_param (GetParamId p4info ACTION_GENEVE_DECAP_AND_PUSH_VLAN
                         ACTION_GENEVE_DECAP_AND_PUSH_VLAN_PARAM_PCP)
                       (EncodeByteValue 1 [1]) te;
                te = add_param (GetParamId p4info ACTION_GENEVE_DECAP_AND_PUSH_VLAN
                         ACTION_GENEVE_DECAP_AND_PUSH_VLAN_PARAM_DEI)
                       (EncodeByteValue 1 [0]) te;
                te = add_param (GetParamId p4info ACTION_GENEVE_DECAP_AND_PUSH_VLAN
                         ACTION_GENEVE_DECAP_AND_PUSH_VLAN_PARAM_VLAN_ID)
                       (EncodeByteValue 1 [pv_vlan (ti_vlan_info tunnel_info)]) te
            in te)
         else te))"

definition EncodeVlanPushTableEntry ::
    "TableEntry \<Rightarrow> u16 \<Rightarrow> P4Info \<Rightarrow> bool \<Rightarrow> TableEntry" where
  "EncodeVlanPushTableEntry table_entry vlan_id p4info insert_entry =
     (let te = set_table_id (GetTableId p4info VLAN_PUSH_MOD_TABLE) table_entry;
          te = add_exact (GetMatchFieldId p4info VLAN_PUSH_MOD_TABLE
             VLAN_PUSH_MOD_KEY_MOD_BLOB_PTR) (EncodeByteValue 1 [ucast vlan_id]) te
      in (if insert_entry then
           (let te = mutable_action te;
                te = set_action_id (GetActionId p4info VLAN_PUSH_MOD_ACTION_VLAN_PUSH) te;
                te = add_param (GetParamId p4info VLAN_PUSH_MOD_ACTION_VLAN_PUSH
                         ACTION_VLAN_PUSH_PARAM_PCP)
                       (EncodeByteValue 1 [1]) te;
                te = add_param (GetParamId p4info VLAN_PUSH_MOD_ACTION_VLAN_PUSH
                         ACTION_VLAN_PUSH_PARAM_DEI)
                       (EncodeByteValue 1 [0]) te;
                te = add_param (GetParamId p4info VLAN_PUSH_MOD_ACTION_VLAN_PUSH
                         ACTION_VLAN_PUSH_PARAM_VLAN_ID)
                       (EncodeByteValue 1 [ucast vlan_id]) te
            in te)
         else te))"

definition EncodeVlanPopTableEntry ::
    "TableEntry \<Rightarrow> u16 \<Rightarrow> P4Info \<Rightarrow> bool \<Rightarrow> TableEntry" where
  "EncodeVlanPopTableEntry table_entry vlan_id p4info insert_entry =
     (let te = set_table_id (GetTableId p4info VLAN_POP_MOD_TABLE) table_entry;
          te = add_exact (GetMatchFieldId p4info VLAN_POP_MOD_TABLE
             VLAN_POP_MOD_KEY_MOD_BLOB_PTR) (EncodeByteValue 1 [ucast vlan_id]) te
      in (if insert_entry then
           (let te = mutable_action te;
                te = set_action_id (GetActionId p4info VLAN_POP_MOD_ACTION_VLAN_POP) te
            in te)
         else te))"

definition EncodeSrcPortTableEntry ::
    "TableEntry \<Rightarrow> src_port_info \<Rightarrow> P4Info \<Rightarrow> bool \<Rightarrow> TableEntry" where
  "EncodeSrcPortTableEntry table_entry sp p4info insert_entry =
     (let te = set_table_id (GetTableId p4info SOURCE_PORT_TO_BRIDGE_MAP_TABLE) table_entry;
          te = set_priority 1 te;
          te = add_ternary (GetMatchFieldId p4info SOURCE_PORT_TO_BRIDGE_MAP_TABLE
             SOURCE_PORT_TO_BRIDGE_MAP_TABLE_KEY_SRC_PORT)
             (encode_port32 (sp_src_port sp)) (EncodeByteValue 2 [0xff, 0xff]) te;
          te = add_ternary (GetMatchFieldId p4info SOURCE_PORT_TO_BRIDGE_MAP_TABLE
             SOURCE_PORT_TO_BRIDGE_MAP_TABLE_KEY_VID)
             (EncodeByteValue 2 [ucast (drop_bit 8 (sp_vlan_id sp)) AND 0x0f, ucast (sp_vlan_id sp) AND 0xff])
             (EncodeByteValue 2 [0x0f, 0xff]) te
      in (if insert_entry then
           (let te = mutable_action te;
                te = set_action_id
                       (GetActionId p4info SOURCE_PORT_TO_BRIDGE_MAP_TABLE_ACTION_SET_BRIDGE_ID) te;
                te = add_param (GetParamId p4info SOURCE_PORT_TO_BRIDGE_MAP_TABLE_ACTION_SET_BRIDGE_ID
                         ACTION_SET_BRIDGE_ID_PARAM_BRIDGE_ID)
                       (EncodeByteValue 1 [ucast (sp_bridge_id sp)]) te
            in te)
         else te))"

definition EncodeSrcIpMacMapTableEntry ::
    "TableEntry \<Rightarrow> ip_mac_map_info \<Rightarrow> P4Info \<Rightarrow> bool \<Rightarrow>
     DiagDetail \<Rightarrow> TableEntry \<times> DiagDetail" where
  "EncodeSrcIpMacMapTableEntry table_entry ip_info p4info insert_entry detail =
     (let te = set_table_id (GetTableId p4info SRC_IP_MAC_MAP_TABLE) table_entry;
          te = add_exact (GetMatchFieldId p4info SRC_IP_MAC_MAP_TABLE
             SRC_IP_MAC_MAP_TABLE_KEY_SRC_IP)
             (CanonicalizeIp (v4addr_s_addr (im_src_ip_addr ip_info))) te
      in ((if insert_entry then
           (let te = mutable_action te;
                te = set_action_id (GetActionId p4info SRC_IP_MAC_MAP_TABLE_ACTION_SMAC_MAP) te;
                te = add_param (GetParamId p4info SRC_IP_MAC_MAP_TABLE_ACTION_SMAC_MAP
                         ACTION_SET_SRC_MAC_HIGH)
                       (EncodeByteValue 2 [ucast (mac0 (im_src_mac_addr ip_info)) AND 0xff,
                          ucast (mac1 (im_src_mac_addr ip_info)) AND 0xff]) te;
                te = add_param (GetParamId p4info SRC_IP_MAC_MAP_TABLE_ACTION_SMAC_MAP
                         ACTION_SET_SRC_MAC_MID)
                       (EncodeByteValue 2 [ucast (mac2 (im_src_mac_addr ip_info)) AND 0xff,
                          ucast (mac3 (im_src_mac_addr ip_info)) AND 0xff]) te;
                te = add_param (GetParamId p4info SRC_IP_MAC_MAP_TABLE_ACTION_SMAC_MAP
                         ACTION_SET_SRC_MAC_LOW)
                       (EncodeByteValue 2 [ucast (mac4 (im_src_mac_addr ip_info)) AND 0xff,
                          ucast (mac5 (im_src_mac_addr ip_info)) AND 0xff]) te
            in te)
         else te),
          detail\<lparr>dd_table_id := LOG_SRC_IP_MAC_MAP_TABLE\<rparr>))"

definition EncodeDstIpMacMapTableEntry ::
    "TableEntry \<Rightarrow> ip_mac_map_info \<Rightarrow> P4Info \<Rightarrow> bool \<Rightarrow>
     DiagDetail \<Rightarrow> TableEntry \<times> DiagDetail" where
  "EncodeDstIpMacMapTableEntry table_entry ip_info p4info insert_entry detail =
     (let te = set_table_id (GetTableId p4info DST_IP_MAC_MAP_TABLE) table_entry;
          te = add_exact (GetMatchFieldId p4info DST_IP_MAC_MAP_TABLE
             DST_IP_MAC_MAP_TABLE_KEY_DST_IP)
             (CanonicalizeIp (v4addr_s_addr (im_dst_ip_addr ip_info))) te
      in ((if insert_entry then
           (let te = mutable_action te;
                te = set_action_id (GetActionId p4info DST_IP_MAC_MAP_TABLE_ACTION_DMAC_MAP) te;
                te = add_param (GetParamId p4info DST_IP_MAC_MAP_TABLE_ACTION_DMAC_MAP
                         ACTION_SET_DST_MAC_HIGH)
                       (EncodeByteValue 2 [ucast (mac0 (im_dst_mac_addr ip_info)) AND 0xff,
                          ucast (mac1 (im_dst_mac_addr ip_info)) AND 0xff]) te;
                te = add_param (GetParamId p4info DST_IP_MAC_MAP_TABLE_ACTION_DMAC_MAP
                         ACTION_SET_DST_MAC_MID)
                       (EncodeByteValue 2 [ucast (mac2 (im_dst_mac_addr ip_info)) AND 0xff,
                          ucast (mac3 (im_dst_mac_addr ip_info)) AND 0xff]) te;
                te = add_param (GetParamId p4info DST_IP_MAC_MAP_TABLE_ACTION_DMAC_MAP
                         ACTION_SET_DST_MAC_LOW)
                       (EncodeByteValue 2 [ucast (mac4 (im_dst_mac_addr ip_info)) AND 0xff,
                          ucast (mac5 (im_dst_mac_addr ip_info)) AND 0xff]) te
            in te)
         else te),
          detail\<lparr>dd_table_id := LOG_DST_IP_MAC_MAP_TABLE\<rparr>))"

definition EncodeTxAccVsiTableEntry :: "TableEntry \<Rightarrow> u32 \<Rightarrow> P4Info \<Rightarrow> TableEntry" where
  "EncodeTxAccVsiTableEntry table_entry sp p4info =
     (let te = set_table_id (GetTableId p4info TX_ACC_VSI_TABLE) table_entry;
          te = add_exact (GetMatchFieldId p4info TX_ACC_VSI_TABLE TX_ACC_VSI_TABLE_KEY_VSI)
             (EncodeByteValue 1 [sp - ES2K_VPORT_ID_OFFSET]) te
      in te)"

definition EncodeVxlanDecapModTableEntry ::
    "TableEntry \<Rightarrow> tunnel_info \<Rightarrow> P4Info \<Rightarrow> bool \<Rightarrow> TableEntry" where
  "EncodeVxlanDecapModTableEntry table_entry tunnel_info p4info insert_entry =
     (let te = set_table_id (GetTableId p4info VXLAN_DECAP_MOD_TABLE) table_entry;
          te = add_exact (GetMatchFieldId p4info VXLAN_DECAP_MOD_TABLE
             VXLAN_DECAP_MOD_TABLE_KEY_MOD_BLOB_PTR) (EncodeVniValue (ti_vni tunnel_info)) te
      in (if insert_entry then
           (let te = mutable_action te;
                te = set_action_id (GetActionId p4info ACTION_VXLAN_DECAP_OUTER_HDR) te
            in te)
         else te))"

definition EncodeGeneveDecapModTableEntry ::
    "TableEntry \<Rightarrow> tunnel_info \<Rightarrow> P4Info \<Rightarrow> bool \<Rightarrow> TableEntry" where
  "EncodeGeneveDecapModTableEntry table_entry tunnel_info p4info insert_entry =
     (let te = set_table_id (GetTableId p4info GENEVE_DECAP_MOD_TABLE) table_entry;
          te = add_exact (GetMatchFieldId p4info GENEVE_DECAP_MOD_TABLE
             GENEVE_DECAP_MOD_TABLE_KEY_MOD_BLOB_PTR) (EncodeVniValue (ti_vni tunnel_info)) te
      in (if insert_entry then
           (let te = mutable_action te;
                te = set_action_id (GetActionId p4info ACTION_GENEVE_DECAP_OUTER_HDR) te
            in te)
         else te))"

section \<open>Schemas and contracts\<close>

text \<open>The families of tunnel the FDB encoders attach an action for, and the tunnel types
  the termination encoders know.\<close>

definition same_ip_family :: "tunnel_info \<Rightarrow> bool" where
  "same_ip_family t \<longleftrightarrow>
     ip_family (ti_local_ip t) = ip_family (ti_remote_ip t) \<and>
     (ip_family (ti_local_ip t) = AF_INET \<or> ip_family (ti_local_ip t) = AF_INET6)"

definition known_tunnel_type :: "tunnel_info \<Rightarrow> bool" where
  "known_tunnel_type t \<longleftrightarrow>
     ti_tunnel_type t = OVS_TUNNEL_VXLAN \<or> ti_tunnel_type t = OVS_TUNNEL_GENEVE"

definition fdb_smac_schema :: entry_schema where [schema_defs]:
  "fdb_smac_schema = \<lparr>
     sc_table = L2_FWD_SMAC_TABLE,
     sc_keys =
       [L2_FWD_SMAC_TABLE_KEY_SA, L2_FWD_SMAC_TABLE_KEY_BRIDGE_ID],
     sc_actions =
       [(L2_FWD_SMAC_TABLE_ACTION_NO_ACTION, [])]\<rparr>"

definition fdb_tx_vlan_schema :: entry_schema where [schema_defs]:
  "fdb_tx_vlan_schema = \<lparr>
     sc_table = L2_FWD_TX_TABLE,
     sc_keys =
       [L2_FWD_TX_TABLE_KEY_DST_MAC, L2_FWD_TX_TABLE_KEY_BRIDGE_ID],
     sc_actions =
       [(L2_FWD_TX_TABLE_ACTION_REMOVE_VLAN_AND_FWD,
         [ACTION_REMOVE_VLAN_AND_FWD_PARAM_PORT_ID,
          ACTION_REMOVE_VLAN_AND_FWD_PARAM_VLAN_PTR]),
        (L2_FWD_TX_TABLE_ACTION_L2_FWD, [ACTION_L2_FWD_PARAM_PORT])]\<rparr>"

definition fdb_rx_vlan_schema :: entry_schema where [schema_defs]:
  "fdb_rx_vlan_schema = \<lparr>
     sc_table = L2_FWD_RX_TABLE,
     sc_keys =
       [L2_FWD_RX_TABLE_KEY_DST_MAC, L2_FWD_RX_TABLE_KEY_BRIDGE_ID],
     sc_actions =
       [(L2_FWD_RX_TABLE_ACTION_L2_FWD, [ACTION_L2_FWD_PARAM_PORT])]\<rparr>"

definition fdb_vxlan_schema :: entry_schema where [schema_defs]:
  "fdb_vxlan_schema = \<lparr>
     sc_table = L2_FWD_TX_TABLE,
     sc_keys =
       [L2_FWD_TX_TABLE_KEY_DST_MAC, L2_FWD_TX_TABLE_KEY_BRIDGE_ID],
     sc_actions =
       [(L2_FWD_TX_TABLE_ACTION_POP_VLAN_SET_VXLAN_UNDERLAY_V4,
         [ACTION_PARAM_TUNNEL_ID]),
        (L2_FWD_TX_TABLE_ACTION_SET_VXLAN_UNDERLAY_V4, [ACTION_PARAM_TUNNEL_ID]),
        (L2_FWD_TX_TABLE_ACTION_POP_VLAN_SET_VXLAN_UNDERLAY_V6,
         [ACTION_PARAM_TUNNEL_ID]),
        (L2_FWD_TX_TABLE_ACTION_SET_VXLAN_UNDERLAY_V6, [ACTION_PARAM_TUNNEL_ID])]\<rparr>"

definition fdb_geneve_schema :: entry_schema where [schema_defs]:
  "fdb_geneve_schema = \<lparr>
     sc_table = L2_FWD_TX_TABLE,
     sc_keys =
       [L2_FWD_TX_TABLE_KEY_DST_MAC, L2_FWD_TX_TABLE_KEY_BRIDGE_ID],
     sc_actions =
       [(L2_FWD_TX_TABLE_ACTION_POP_VLAN_SET_GENEVE_UNDERLAY_V4,
         [ACTION_PARAM_TUNNEL_ID]),
        (L2_FWD_TX_TABLE_ACTION_SET_GENEVE_UNDERLAY_V4, [ACTION_PARAM_TUNNEL_ID]),
        (L2_FWD_TX_TABLE_ACTION_POP_VLAN_SET_GENEVE_UNDERLAY_V6,
         [ACTION_PARAM_TUNNEL_ID]),
        (L2_FWD_TX_TABLE_ACTION_SET_GENEVE_UNDERLAY_V6, [ACTION_PARAM_TUNNEL_ID])]\<rparr>"

definition l2_to_tunnel_v4_schema :: entry_schema where [schema_defs]:
  "l2_to_tunnel_v4_schema = \<lparr>
     sc_table = L2_TO_TUNNEL_V4_TABLE,
     sc_keys =
       [L2_TO_TUNNEL_V4_KEY_DA],
     sc_actions =
       [(L2_TO_TUNNEL_V4_ACTION_SET_TUNNEL_V4,
         [ACTION_SET_TUNNEL_V4_PARAM_DST_ADDR])]\<rparr>"

definition l2_to_tunnel_v6_schema :: entry_schema where [schema_defs]:
  "l2_to_tunnel_v6_schema = \<lparr>
     sc_table = L2_TO_TUNNEL_V6_TABLE,
     sc_keys =
       [L2_TO_TUNNEL_V6_KEY_DA],
     sc_actions =
       [(L2_TO_TUNNEL_V6_ACTION_SET_TUNNEL_V6, tunnel_v6_param_name)]\<rparr>"

definition vxlan_encap_schema :: entry_schema where [schema_defs]:
  "vxlan_encap_schema = \<lparr>
     sc_table = VXLAN_ENCAP_MOD_TABLE,
     sc_keys =
       [VXLAN_ENCAP_MOD_TABLE_KEY_VENDORMETA_MOD_DATA_PTR],
     sc_actions =
       [(ACTION_VXLAN_ENCAP,
         [ACTION_VXLAN_ENCAP_PARAM_SRC_ADDR,
          ACTION_VXLAN_ENCAP_PARAM_DST_ADDR,
          ACTION_VXLAN_ENCAP_PARAM_SRC_PORT,
          ACTION_VXLAN_ENCAP_PARAM_DST_PORT,
          ACTION_VXLAN_ENCAP_PARAM_VNI])]\<rparr>"

definition geneve_encap_schema :: entry_schema where [schema_defs]:
  "geneve_encap_schema = \<lparr>
     sc_table = GENEVE_ENCAP_MOD_TABLE,
     sc_keys =
       [GENEVE_ENCAP_MOD_TABLE_KEY_VENDORMETA_MOD_DATA_PTR],
     sc_actions =
       [(ACTION_GENEVE_ENCAP,
         [ACTION_GENEVE_ENCAP_PARAM_SRC_ADDR,
          ACTION_GENEVE_ENCAP_PARAM_DST_ADDR,
          ACTION_GENEVE_ENCAP_PARAM_SRC_PORT,
          ACTION_GENEVE_ENCAP_PARAM_DST_PORT,
          ACTION_GENEVE_ENCAP_PARAM_VNI])]\<rparr>"

definition v6_vxlan_encap_schema :: entry_schema where [schema_defs]:
  "v6_vxlan_encap_schema = \<lparr>
     sc_table = VXLAN_ENCAP_V6_MOD_TABLE,
     sc_keys =
       [VXLAN_ENCAP_V6_MOD_TABLE_KEY_VENDORMETA_MOD_DATA_PTR],
     sc_actions =
       [(ACTION_VXLAN_ENCAP_V6,
         [ACTION_VXLAN_ENCAP_V6_PARAM_SRC_ADDR,
          ACTION_VXLAN_ENCAP_V6_PARAM_DST_ADDR,
          ACTION_VXLAN_ENCAP_V6_PARAM_SRC_PORT,
          ACTION_VXLAN_ENCAP_V6_PARAM_DST_PORT,
          ACTION_VXLAN_ENCAP_V6_PARAM_VNI])]\<rparr>"

definition v6_geneve_encap_schema :: entry_schema where [schema_defs]:
  "v6_geneve_encap_schema = \<lparr>
     sc_table = GENEVE_ENCAP_V6_MOD_TABLE,
     sc_keys =
       [GENEVE_ENCAP_V6_MOD_TABLE_KEY_VENDORMETA_MOD_DATA_PTR],
     sc_actions =
       [(ACTION_GENEVE_ENCAP_V6,
         [ACTION_GENEVE_ENCAP_V6_PARAM_SRC_ADDR,
          ACTION_GENEVE_ENCAP_V6_PARAM_DST_ADDR,
          ACTION_GENEVE_ENCAP_V6_PARAM_SRC_PORT,
          ACTION_GENEVE_ENCAP_V6_PARAM_DST_PORT,
          ACTION_GENEVE_ENCAP_V6_PARAM_VNI])]\<rparr>"

definition vxlan_encap_and_vlan_pop_schema :: entry_schema where [schema_defs]:
  "vxlan_encap_and_vlan_pop_schema = \<lparr>
     sc_table = VXLAN_ENCAP_VLAN_POP_MOD_TABLE,
     sc_keys =
       [VXLAN_ENCAP_VLAN_POP_MOD_TABLE_KEY_VENDORMETA_MOD_DATA_PTR],
     sc_actions =
       [(ACTION_VXLAN_ENCAP_VLAN_POP,
         [ACTION_VXLAN_ENCAP_VLAN_POP_PARAM_SRC_ADDR,
          ACTION_VXLAN_ENCAP_VLAN_POP_PARAM_DST_ADDR,
          ACTION_VXLAN_ENCAP_VLAN_POP_PARAM_SRC_PORT,
          ACTION_VXLAN_ENCAP_VLAN_POP_PARAM_DST_PORT,
          ACTION_VXLAN_ENCAP_VLAN_POP_PARAM_VNI])]\<rparr>"

definition geneve_encap_and_vlan_pop_schema :: entry_schema where [schema_defs]:
  "geneve_encap_and_vlan_pop_schema = \<lparr>
     sc_table = GENEVE_ENCAP_VLAN_POP_MOD_TABLE,
     sc_keys =
       [GENEVE_ENCAP_VLAN_POP_MOD_TABLE_KEY_VENDORMETA_MOD_DATA_PTR],
     sc_actions =
       [(ACTION_GENEVE_ENCAP_VLAN_POP,
         [ACTION_GENEVE_ENCAP_VLAN_POP_PARAM_SRC_ADDR,
          ACTION_GENEVE_ENCAP_VLAN_POP_PARAM_DST_ADDR,
          ACTION_GENEVE_ENCAP_VLAN_POP_PARAM_SRC_PORT,
          ACTION_GENEVE_ENCAP_VLAN_POP_PARAM_DST_PORT,
          ACTION_GENEVE_ENCAP_VLAN_POP_PARAM_VNI])]\<rparr>"

definition v6_vxlan_encap_and_vlan_pop_schema :: entry_schema where [schema_defs]:
  "v6_vxlan_encap_and_vlan_pop_schema = \<lparr>
     sc_table = VXLAN_ENCAP_V6_VLAN_POP_MOD_TABLE,
     sc_keys =
       [VXLAN_ENCAP_V6_VLAN_POP_MOD_TABLE_KEY_VENDORMETA_MOD_DATA_PTR],
     sc_actions =
       [(ACTION_VXLAN_ENCAP_V6_VLAN_POP,
         [ACTION_VXLAN_ENCAP_V6_VLAN_POP_PARAM_SRC_ADDR,
          ACTION_VXLAN_ENCAP_V6_VLAN_POP_PARAM_DST_ADDR,
          ACTION_VXLAN_ENCAP_V6_VLAN_POP_PARAM_SRC_PORT,
          ACTION_VXLAN_ENCAP_V6_VLAN_POP_PARAM_DST_PORT,
          ACTION_VXLAN_ENCAP_V6_VLAN_POP_PARAM_VNI])]\<rparr>"

definition v6_geneve_encap_and_vlan_pop_schema :: entry_schema where [schema_defs]:
  "v6_geneve_encap_and_vlan_pop_schema = \<lparr>
     sc_table = GENEVE_ENCAP_V6_VLAN_POP_MOD_TABLE,
     sc_keys =
       [GENEVE_ENCAP_V6_VLAN_POP_MOD_TABLE_KEY_VENDORMETA_MOD_DATA_PTR],
     sc_actions =
       [(ACTION_GENEVE_ENCAP_V6_VLAN_POP,
         [ACTION_GENEVE_ENCAP_V6_VLAN_POP_PARAM_SRC_ADDR,
          ACTION_GENEVE_ENCAP_V6_VLAN_POP_PARAM_DST_ADDR,
          ACTION_GENEVE_ENCAP_V6_VLAN_POP_PARAM_SRC_PORT,
          ACTION_GENEVE_ENCAP_V6_VLAN_POP_PARAM_DST_PORT,
          ACTION_GENEVE_ENCAP_V6_VLAN_POP_PARAM_VNI])]\<rparr>"

definition rx_tunnel_schema :: entry_schema where [schema_defs]:
  "rx_tunnel_schema = \<lparr>
     sc_table = RX_IPV4_TUNNEL_SOURCE_PORT_TABLE,
     sc_keys =
       [RX_IPV4_TUNNEL_SOURCE_PORT_TABLE_KEY_VNI,
        RX_IPV4_TUNNEL_SOURCE_PORT_TABLE_KEY_IPV4_SRC],
     sc_actions =
       [(RX_IPV4_TUNNEL_SOURCE_PORT_TABLE_ACTION_SET_SRC_PORT,
         [ACTION_SET_SRC_PORT])]\<rparr>"

definition v6_rx_tunnel_schema :: entry_schema where [schema_defs]:
  "v6_rx_tunnel_schema = \<lparr>
     sc_table = RX_IPV6_TUNNEL_SOURCE_PORT_TABLE,
     sc_keys =
       [RX_IPV6_TUNNEL_SOURCE_PORT_TABLE_KEY_VNI,
        RX_IPV6_TUNNEL_SOURCE_PORT_TABLE_KEY_IPV6_SRC],
     sc_actions =
       [(RX_IPV6_TUNNEL_SOURCE_PORT_TABLE_ACTION_SET_SRC_PORT,
         [ACTION_SET_SRC_PORT])]\<rparr>"

definition tunnel_term_schema :: entry_schema where [schema_defs]:
  "tunnel_term_schema = \<lparr>
     sc_table = IPV4_TUNNEL_TERM_TABLE,
     sc_keys =
       [IPV4_TUNNEL_TERM_TABLE_KEY_IPV4_SRC,
        IPV4_TUNNEL_TERM_TABLE_KEY_BRIDGE_ID,
        IPV4_TUNNEL_TERM_TABLE_KEY_VNI],
     sc_actions =
       [(ACTION_SET_VXLAN_DECAP_OUTER_HDR_AND_PUSH_VLAN, [ACTION_PARAM_TUNNEL_ID]),
        (ACTION_SET_GENEVE_DECAP_OUTER_HDR_AND_PUSH_VLAN, [ACTION_PARAM_TUNNEL_ID]),
        (ACTION_SET_VXLAN_DECAP_OUTER_HDR, [ACTION_PARAM_TUNNEL_ID]),
        (ACTION_SET_GENEVE_DECAP_OUTER_HDR, [ACTION_PARAM_TUNNEL_ID])]\<rparr>"

definition v6_tunnel_term_schema :: entry_schema where [schema_defs]:
  "v6_tunnel_term_schema = \<lparr>
     sc_table = IPV6_TUNNEL_TERM_TABLE,
     sc_keys =
       [IPV6_TUNNEL_TERM_TABLE_KEY_BRIDGE_ID,
        IPV6_TUNNEL_TERM_TABLE_KEY_IPV6_SRC,
        IPV6_TUNNEL_TERM_TABLE_KEY_VNI],
     sc_actions =
       [(ACTION_SET_VXLAN_DECAP_OUTER_HDR_AND_PUSH_VLAN, [ACTION_PARAM_TUNNEL_ID]),
        (ACTION_SET_GENEVE_DECAP_OUTER_HDR_AND_PUSH_VLAN, [ACTION_PARAM_TUNNEL_ID]),
        (ACTION_SET_VXLAN_DECAP_OUTER_HDR, [ACTION_PARAM_TUNNEL_ID]),
        (ACTION_SET_GENEVE_DECAP_OUTER_HDR, [ACTION_PARAM_TUNNEL_ID])]\<rparr>"

definition vxlan_decap_mod_and_vlan_push_schema :: entry_schema where [schema_defs]:
  "vxlan_decap_mod_and_vlan_push_schema = \<lparr>
     sc_table = VXLAN_DECAP_AND_VLAN_PUSH_MOD_TABLE,
     sc_keys =
       [VXLAN_DECAP_AND_VLAN_PUSH_MOD_TABLE_KEY_MOD_BLOB_PTR],
     sc_actions =
       [(ACTION_VXLAN_DECAP_AND_PUSH_VLAN,
         [ACTION_VXLAN_DECAP_AND_PUSH_VLAN_PARAM_PCP,
          ACTION_VXLAN_DECAP_AND_PUSH_VLAN_PARAM_DEI,
          ACTION_VXLAN_DECAP_AND_PUSH_VLAN_PARAM_VLAN_ID])]\<rparr>"

definition geneve_decap_mod_and_vlan_push_schema :: entry_schema where [schema_defs]:
  "geneve_decap_mod_and_vlan_push_schema = \<lparr>
     sc_table = GENEVE_DECAP_AND_VLAN_PUSH_MOD_TABLE,
     sc_keys =
       [GENEVE_DECAP_AND_VLAN_PUSH_MOD_TABLE_KEY_MOD_BLOB_PTR],
     sc_actions =
       [(ACTION_GENEVE_DECAP_AND_PUSH_VLAN,
         [ACTION_GENEVE_DECAP_AND_PUSH_VLAN_PARAM_PCP,
          ACTION_GENEVE_DECAP_AND_PUSH_VLAN_PARAM_DEI,
          ACTION_GENEVE_DECAP_AND_PUSH_VLAN_PARAM_VLAN_ID])]\<rparr>"

definition vlan_push_schema :: entry_schema where [schema_defs]:
  "vlan_push_schema = \<lparr>
     sc_table = VLAN_PUSH_MOD_TABLE,
     sc_keys =
       [VLAN_PUSH_MOD_KEY_MOD_BLOB_PTR],
     sc_actions =
       [(VLAN_PUSH_MOD_ACTION_VLAN_PUSH,
         [ACTION_VLAN_PUSH_PARAM_PCP,
          ACTION_VLAN_PUSH_PARAM_DEI,
          ACTION_VLAN_PUSH_PARAM_VLAN_ID])]\<rparr>"

definition vlan_pop_schema :: entry_schema where [schema_defs]:
  "vlan_pop_schema = \<lparr>
     sc_table = VLAN_POP_MOD_TABLE,
     sc_keys =
       [VLAN_POP_MOD_KEY_MOD_BLOB_PTR],
     sc_actions =
       [(VLAN_POP_MOD_ACTION_VLAN_POP, [])]\<rparr>"

definition src_port_schema :: entry_schema where [schema_defs]:
  "src_port_schema = \<lparr>
     sc_table = SOURCE_PORT_TO_BRIDGE_MAP_TABLE,
     sc_keys =
       [SOURCE_PORT_TO_BRIDGE_MAP_TABLE_KEY_SRC_PORT,
        SOURCE_PORT_TO_BRIDGE_MAP_TABLE_KEY_VID],
     sc_actions =
       [(SOURCE_PORT_TO_BRIDGE_MAP_TABLE_ACTION_SET_BRIDGE_ID,
         [ACTION_SET_BRIDGE_ID_PARAM_BRIDGE_ID])]\<rparr>"

definition src_ip_mac_map_schema :: entry_schema where [schema_defs]:
  "src_ip_mac_map_schema = \<lparr>
     sc_table = SRC_IP_MAC_MAP_TABLE,
     sc_keys =
       [SRC_IP_MAC_MAP_TABLE_KEY_SRC_IP],
     sc_actions =
       [(SRC_IP_MAC_MAP_TABLE_ACTION_SMAC_MAP,
         [ACTION_SET_SRC_MAC_HIGH,
          ACTION_SET_SRC_MAC_MID,
          ACTION_SET_SRC_MAC_LOW])]\<rparr>"

definition dst_ip_mac_map_schema :: entry_schema where [schema_defs]:
  "dst_ip_mac_map_schema = \<lparr>
     sc_table = DST_IP_MAC_MAP_TABLE,
     sc_keys =
       [DST_IP_MAC_MAP_TABLE_KEY_DST_IP],
     sc_actions =
       [(DST_IP_MAC_MAP_TABLE_ACTION_DMAC_MAP,
         [ACTION_SET_DST_MAC_HIGH,
          ACTION_SET_DST_MAC_MID,
          ACTION_SET_DST_MAC_LOW])]\<rparr>"

definition vxlan_decap_mod_schema :: entry_schema where [schema_defs]:
  "vxlan_decap_mod_schema = \<lparr>
     sc_table = VXLAN_DECAP_MOD_TABLE,
     sc_keys =
       [VXLAN_DECAP_MOD_TABLE_KEY_MOD_BLOB_PTR],
     sc_actions =
       [(ACTION_VXLAN_DECAP_OUTER_HDR, [])]\<rparr>"

definition geneve_decap_mod_schema :: entry_schema where [schema_defs]:
  "geneve_decap_mod_schema = \<lparr>
     sc_table = GENEVE_DECAP_MOD_TABLE,
     sc_keys =
       [GENEVE_DECAP_MOD_TABLE_KEY_MOD_BLOB_PTR],
     sc_actions =
       [(ACTION_GENEVE_DECAP_OUTER_HDR, [])]\<rparr>"

lemma es2k_schemas_wf [simp]:
  "schema_wf fdb_smac_schema"
  "schema_wf fdb_tx_vlan_schema"
  "schema_wf fdb_rx_vlan_schema"
  "schema_wf fdb_vxlan_schema"
  "schema_wf fdb_geneve_schema"
  "schema_wf l2_to_tunnel_v4_schema"
  "schema_wf l2_to_tunnel_v6_schema"
  "schema_wf vxlan_encap_schema"
  "schema_wf geneve_encap_schema"
  "schema_wf v6_vxlan_encap_schema"
  "schema_wf v6_geneve_encap_schema"
  "schema_wf vxlan_encap_and_vlan_pop_schema"
  "schema_wf geneve_encap_and_vlan_pop_schema"
  "schema_wf v6_vxlan_encap_and_vlan_pop_schema"
  "schema_wf v6_geneve_encap_and_vlan_pop_schema"
  "schema_wf rx_tunnel_schema"
  "schema_wf v6_rx_tunnel_schema"
  "schema_wf tunnel_term_schema"
  "schema_wf v6_tunnel_term_schema"
  "schema_wf vxlan_decap_mod_and_vlan_push_schema"
  "schema_wf geneve_decap_mod_and_vlan_push_schema"
  "schema_wf vlan_push_schema"
  "schema_wf vlan_pop_schema"
  "schema_wf src_port_schema"
  "schema_wf src_ip_mac_map_schema"
  "schema_wf dst_ip_mac_map_schema"
  "schema_wf vxlan_decap_mod_schema"
  "schema_wf geneve_decap_mod_schema"
  by (simp_all add: schema_wf_def schema_defs tunnel_v6_param_name_def p4_names)

interpretation fdb_smac: entry_encoder
    "\<lambda>te i p b. fst (EncodeFdbSmacTableEntry te i p b d)" fdb_smac_schema "\<lambda>_. True" for d
  by (unfold_locales; (rule es2k_schemas_wf)?;
      auto simp: EncodeFdbSmacTableEntry_def fdb_smac_schema_def
        encoder_simps)

interpretation fdb_tx_vlan: entry_encoder
    "\<lambda>te i p b. fst (EncodeFdbTxVlanTableEntry te i p b d)" fdb_tx_vlan_schema "\<lambda>_. True" for d
  by (unfold_locales; (rule es2k_schemas_wf)?;
      auto simp: EncodeFdbTxVlanTableEntry_def fdb_tx_vlan_schema_def EncodeL2FwdTxTablePrologue_def
        encoder_simps)

interpretation fdb_rx_vlan: entry_encoder
    "\<lambda>te i p b. fst (EncodeFdbRxVlanTableEntry te i p b d)" fdb_rx_vlan_schema "\<lambda>_. True" for d
  by (unfold_locales; (rule es2k_schemas_wf)?;
      auto simp: EncodeFdbRxVlanTableEntry_def fdb_rx_vlan_schema_def
        encoder_simps)

interpretation fdb_vxlan: entry_encoder
    "\<lambda>te i p b. fst (EncodeFdbTableEntryforV4VxlanTunnel te i p b d)" fdb_vxlan_schema "same_ip_family \<circ> ml_tnl_info" for d
  by (unfold_locales; (rule es2k_schemas_wf)?;
      auto simp: EncodeFdbTableEntryforV4VxlanTunnel_def fdb_vxlan_schema_def EncodeL2FwdTxTablePrologue_def same_ip_family_def
        encoder_simps)

interpretation fdb_geneve: entry_encoder
    "\<lambda>te i p b. fst (EncodeFdbTableEntryforV4GeneveTunnel te i p b d)" fdb_geneve_schema "same_ip_family \<circ> ml_tnl_info" for d
  by (unfold_locales; (rule es2k_schemas_wf)?;
      auto simp: EncodeFdbTableEntryforV4GeneveTunnel_def fdb_geneve_schema_def EncodeL2FwdTxTablePrologue_def same_ip_family_def
        encoder_simps)

interpretation l2_to_tunnel_v4: entry_encoder
    "\<lambda>te i p b. fst (EncodeL2ToTunnelV4 te i p b d)" l2_to_tunnel_v4_schema "\<lambda>_. True" for d
  by (unfold_locales; (rule es2k_schemas_wf)?;
      auto simp: EncodeL2ToTunnelV4_def l2_to_tunnel_v4_schema_def
        encoder_simps)

interpretation l2_to_tunnel_v6: entry_encoder
    "\<lambda>te i p b. fst (EncodeL2ToTunnelV6 te i p b d)" l2_to_tunnel_v6_schema "\<lambda>_. True" for d
  by (unfold_locales; (rule es2k_schemas_wf)?;
      auto simp: EncodeL2ToTunnelV6_def l2_to_tunnel_v6_schema_def tunnel_v6_param_name_def upt_0_4
        encoder_simps)

interpretation vxlan_encap: entry_encoder
    EncodeVxlanEncapTableEntry vxlan_encap_schema "\<lambda>_. True"
  by (unfold_locales; (rule es2k_schemas_wf)?;
      auto simp: EncodeVxlanEncapTableEntry_def vxlan_encap_schema_def
        encoder_simps)

interpretation geneve_encap: entry_encoder
    EncodeGeneveEncapTableEntry geneve_encap_schema "\<lambda>_. True"
  by (unfold_locales; (rule es2k_schemas_wf)?;
      auto simp: EncodeGeneveEncapTableEntry_def geneve_encap_schema_def
        encoder_simps)

interpretation v6_vxlan_encap: entry_encoder
    EncodeV6VxlanEncapTableEntry v6_vxlan_encap_schema "\<lambda>_. True"
  by (unfold_locales; (rule es2k_schemas_wf)?;
      auto simp: EncodeV6VxlanEncapTableEntry_def v6_vxlan_encap_schema_def
        encoder_simps)

interpretation v6_geneve_encap: entry_encoder
    EncodeV6GeneveEncapTableEntry v6_geneve_encap_schema "\<lambda>_. True"
  by (unfold_locales; (rule es2k_schemas_wf)?;
      auto simp: EncodeV6GeneveEncapTableEntry_def v6_geneve_encap_schema_def
        encoder_simps)

interpretation vxlan_encap_and_vlan_pop: entry_encoder
    EncodeVxlanEncapAndVlanPopTableEntry vxlan_encap_and_vlan_pop_schema "\<lambda>_. True"
  by (unfold_locales; (rule es2k_schemas_wf)?;
      auto simp: EncodeVxlanEncapAndVlanPopTableEntry_def vxlan_encap_and_vlan_pop_schema_def
        encoder_simps)

interpretation geneve_encap_and_vlan_pop: entry_encoder
    EncodeGeneveEncapAndVlanPopTableEntry geneve_encap_and_vlan_pop_schema "\<lambda>_. True"
  by (unfold_locales; (rule es2k_schemas_wf)?;
      auto simp: EncodeGeneveEncapAndVlanPopTableEntry_def geneve_encap_and_vlan_pop_schema_def
        encoder_simps)

interpretation v6_vxlan_encap_and_vlan_pop: entry_encoder
    EncodeV6VxlanEncapAndVlanPopTableEntry v6_vxlan_encap_and_vlan_pop_schema "\<lambda>_. True"
  by (unfold_locales; (rule es2k_schemas_wf)?;
      auto simp: EncodeV6VxlanEncapAndVlanPopTableEntry_def v6_vxlan_encap_and_vlan_pop_schema_def
        encoder_simps)

interpretation v6_geneve_encap_and_vlan_pop: entry_encoder
    EncodeV6GeneveEncapAndVlanPopTableEntry v6_geneve_encap_and_vlan_pop_schema "\<lambda>_. True"
  by (unfold_locales; (rule es2k_schemas_wf)?;
      auto simp: EncodeV6GeneveEncapAndVlanPopTableEntry_def v6_geneve_encap_and_vlan_pop_schema_def
        encoder_simps)

interpretation rx_tunnel: entry_encoder
    EncodeRxTunnelTableEntry rx_tunnel_schema "\<lambda>_. True"
  by (unfold_locales; (rule es2k_schemas_wf)?;
      auto simp: EncodeRxTunnelTableEntry_def rx_tunnel_schema_def
        encoder_simps)

interpretation v6_rx_tunnel: entry_encoder
    EncodeV6RxTunnelTableEntry v6_rx_tunnel_schema "\<lambda>_. True"
  by (unfold_locales; (rule es2k_schemas_wf)?;
      auto simp: EncodeV6RxTunnelTableEntry_def v6_rx_tunnel_schema_def
        encoder_simps)

interpretation tunnel_term: entry_encoder
    "\<lambda>te i p b. fst (EncodeTunnelTermTableEntry te i p b)" tunnel_term_schema known_tunnel_type
  by (unfold_locales; (rule es2k_schemas_wf)?;
      auto simp: EncodeTunnelTermTableEntry_def tunnel_term_schema_def known_tunnel_type_def
        encoder_simps)

interpretation v6_tunnel_term: entry_encoder
    "\<lambda>te i p b. fst (EncodeV6TunnelTermTableEntry te i p b)" v6_tunnel_term_schema known_tunnel_type
  by (unfold_locales; (rule es2k_schemas_wf)?;
      auto simp: EncodeV6TunnelTermTableEntry_def v6_tunnel_term_schema_def known_tunnel_type_def
        encoder_simps)

interpretation vxlan_decap_mod_and_vlan_push: entry_encoder
    EncodeVxlanDecapModAndVlanPushTableEntry vxlan_decap_mod_and_vlan_push_schema "\<lambda>_. True"
  by (unfold_locales; (rule es2k_schemas_wf)?;
      auto simp: EncodeVxlanDecapModAndVlanPushTableEntry_def vxlan_decap_mod_and_vlan_push_schema_def
        encoder_simps)

interpretation geneve_decap_mod_and_vlan_push: entry_encoder
    EncodeGeneveDecapModAndVlanPushTableEntry geneve_decap_mod_and_vlan_push_schema "\<lambda>_. True"
  by (unfold_locales; (rule es2k_schemas_wf)?;
      auto simp: EncodeGeneveDecapModAndVlanPushTableEntry_def geneve_decap_mod_and_vlan_push_schema_def
        encoder_simps)

interpretation vlan_push: entry_encoder
    EncodeVlanPushTableEntry vlan_push_schema "\<lambda>_. True"
  by (unfold_locales; (rule es2k_schemas_wf)?;
      auto simp: EncodeVlanPushTableEntry_def vlan_push_schema_def
        encoder_simps)

interpretation vlan_pop: entry_encoder
    EncodeVlanPopTableEntry vlan_pop_schema "\<lambda>_. True"
  by (unfold_locales; (rule es2k_schemas_wf)?;
      auto simp: EncodeVlanPopTableEntry_def vlan_pop_schema_def
        encoder_simps)

interpretation src_port: entry_encoder
    EncodeSrcPortTableEntry src_port_schema "\<lambda>_. True"
  by (unfold_locales; (rule es2k_schemas_wf)?;
      auto simp: EncodeSrcPortTableEntry_def src_port_schema_def
        encoder_simps)

interpretation src_ip_mac_map: entry_encoder
    "\<lambda>te i p b. fst (EncodeSrcIpMacMapTableEntry te i p b d)" src_ip_mac_map_schema "\<lambda>_. True" for d
  by (unfold_locales; (rule es2k_schemas_wf)?;
      auto simp: EncodeSrcIpMacMapTableEntry_def src_ip_mac_map_schema_def
        encoder_simps)

interpretation dst_ip_mac_map: entry_encoder
    "\<lambda>te i p b. fst (EncodeDstIpMacMapTableEntry te i p b d)" dst_ip_mac_map_schema "\<lambda>_. True" for d
  by (unfold_locales; (rule es2k_schemas_wf)?;
      auto simp: EncodeDstIpMacMapTableEntry_def dst_ip_mac_map_schema_def
        encoder_simps)

interpretation vxlan_decap_mod: entry_encoder
    EncodeVxlanDecapModTableEntry vxlan_decap_mod_schema "\<lambda>_. True"
  by (unfold_locales; (rule es2k_schemas_wf)?;
      auto simp: EncodeVxlanDecapModTableEntry_def vxlan_decap_mod_schema_def
        encoder_simps)

interpretation geneve_decap_mod: entry_encoder
    EncodeGeneveDecapModTableEntry geneve_decap_mod_schema "\<lambda>_. True"
  by (unfold_locales; (rule es2k_schemas_wf)?;
      auto simp: EncodeGeneveDecapModTableEntry_def geneve_decap_mod_schema_def
        encoder_simps)

end
