(* ===== verification/Vlan_Entry.thy ===== *)
theory Vlan_Entry
  imports Entry_Ops Es2k_Encoders
begin

text \<open>
  \<^verbatim>\<open>core/v3/do_config_vlan_entry.cc\<close>: the VLAN push and pop entries of a VLAN. A
  reference parameter of the source that the function does not change is a value here;
  the request is a local variable, initialized empty, and the pointer \<open>table_entry\<close>
  into it is the position the client returns.
\<close>

definition WriteVlanPushTableEntry ::
    "('c, 'e) ClientInterface \<Rightarrow> u16 \<Rightarrow> P4Info \<Rightarrow> bool \<Rightarrow> ('c, 'e) world \<Rightarrow>
     (('c, 'e) world, Status) result" where
  "WriteVlanPushTableEntry client vlan_id p4info insert_entry w = do {
     ((table_entry, write_request), w) \<leftarrow> ci_initWriteRequest client empty_WriteRequest insert_entry w;
     let write_request = put_write_entry table_entry
           (EncodeVlanPushTableEntry (write_entry table_entry write_request)
              vlan_id p4info insert_entry) write_request;
     ci_sendWriteRequest client write_request w
   }"

definition WriteVlanPopTableEntry ::
    "('c, 'e) ClientInterface \<Rightarrow> u16 \<Rightarrow> P4Info \<Rightarrow> bool \<Rightarrow> ('c, 'e) world \<Rightarrow>
     (('c, 'e) world, Status) result" where
  "WriteVlanPopTableEntry client vlan_id p4info insert_entry w = do {
     ((table_entry, write_request), w) \<leftarrow> ci_initWriteRequest client empty_WriteRequest insert_entry w;
     let write_request = put_write_entry table_entry
           (EncodeVlanPopTableEntry (write_entry table_entry write_request)
              vlan_id p4info insert_entry) write_request;
     ci_sendWriteRequest client write_request w
   }"

definition ConfigVlanEntry ::
    "('c, 'e) ClientInterface \<Rightarrow> u16 \<Rightarrow> P4Info \<Rightarrow> bool \<Rightarrow> ('c, 'e) world \<Rightarrow>
     (('c, 'e) world, Status) result" where
  "ConfigVlanEntry client vlan_id p4info insert_entry w = do {
     (status, w) \<leftarrow> WriteVlanPushTableEntry client vlan_id p4info insert_entry w;
     if \<not> ok status then Some (status, w)
     else WriteVlanPopTableEntry client vlan_id p4info insert_entry w
   }"

definition DoConfigVlanEntry ::
    "('c, 'e) ClientInterface \<Rightarrow> u16 \<Rightarrow> bool \<Rightarrow> string \<Rightarrow> ('c, 'e) world \<Rightarrow>
     (('c, 'e) world, Status) result" where
  "DoConfigVlanEntry client vlan_id insert_entry grpc_addr w = do {
     (status, w) \<leftarrow> ci_connect client grpc_addr w;
     if \<not> ok status then Some (status, w)
     else do {
       ((status, p4info), w) \<leftarrow> ci_getPipelineConfig client empty_P4Info w;
       if \<not> ok status then Some (status, w)
       else ConfigVlanEntry client vlan_id p4info insert_entry w
     }
   }"

section \<open>Lemmas\<close>

text \<open>The two entries of a VLAN, in the order they are written.\<close>

definition vlan_entries :: "u16 \<Rightarrow> P4Info \<Rightarrow> bool \<Rightarrow> TableEntry list" where
  "vlan_entries vlan_id p4info b =
     [EncodeVlanPushTableEntry empty_TableEntry vlan_id p4info b,
      EncodeVlanPopTableEntry empty_TableEntry vlan_id p4info b]"

lemma DoConfigVlanEntry_in_session:
  "DoConfigVlanEntry client v b addr =
     in_session client addr (\<lambda>p4info. ConfigVlanEntry client v p4info b)"
  by (rule ext) (simp add: DoConfigVlanEntry_def in_session_def)

context client_interface
begin

lemma WriteVlanPush:
  "ready (w_client w) \<Longrightarrow> WriteVlanPushTableEntry ci v p b w =
     send_entry b (EncodeVlanPushTableEntry empty_TableEntry v p b) w"
  unfolding WriteVlanPushTableEntry_def Let_def
  by (rule write_shape [where f = "\<lambda>te. EncodeVlanPushTableEntry te v p b"])

lemma WriteVlanPop:
  "ready (w_client w) \<Longrightarrow> WriteVlanPopTableEntry ci v p b w =
     send_entry b (EncodeVlanPopTableEntry empty_TableEntry v p b) w"
  unfolding WriteVlanPopTableEntry_def Let_def
  by (rule write_shape [where f = "\<lambda>te. EncodeVlanPopTableEntry te v p b"])

lemma ConfigVlanEntry_stays:
  assumes "ready (w_client w)"
  shows "runs (stays w) (ConfigVlanEntry ci v p b w)"
  unfolding ConfigVlanEntry_def WriteVlanPush [OF assms]
  by (rule stays_then [OF send_entry_stays [OF assms]])
    (simp add: WriteVlanPop send_entry_stays stays_refl)

lemma DoConfigVlanEntry_returns: "runs (\<lambda>_. True) (DoConfigVlanEntry ci v b addr w)"
  unfolding DoConfigVlanEntry_in_session
  by (intro in_session_returns runs_mono [OF ConfigVlanEntry_stays]) simp_all

end

lemma cl_ConfigVlanEntry:
  assumes "cl_session (w_client w) = Some s"
  shows "ConfigVlanEntry (Client_vtable g flags) v p b w =
    (let (st, e) = write_all g s b (vlan_entries v p b) (w_env w) in Some (st, w\<lparr>w_env := e\<rparr>))"
  using assms
  by (simp add: ConfigVlanEntry_def cl.WriteVlanPush cl.WriteVlanPop cl_simps vlan_entries_def
      Let_def split: prod.split)

end
