(* ===== verification/Src_Port_Entry.thy ===== *)
theory Src_Port_Entry
  imports Entry_Ops Es2k_Encoders
begin

text \<open>
  \<^verbatim>\<open>core/v3/tx_acc_vsi_table_entry.cc\<close>, \<^verbatim>\<open>do_config_src_port_entry.cc\<close>,
  \<^verbatim>\<open>do_config_tunnel_src_port_entry.cc\<close> and \<^verbatim>\<open>do_config_rx_tunnel_src_entry.cc\<close>: the
  source-port entries of the ES2K target. The host port of a VSI is read back from the
  \<open>tx_acc_vsi\<close> table and decoded from the big-endian bytes of an action parameter.
\<close>

section \<open>The TX ACC VSI table\<close>

definition ReadTxAccVsiTableEntry ::
    "('c, 'e) ClientInterface \<Rightarrow> u32 \<Rightarrow> P4Info \<Rightarrow> ('c, 'e) world \<Rightarrow>
     (('c, 'e) world, ReadResponse StatusOr) result" where
  "ReadTxAccVsiTableEntry client sp p4info w = do {
     ((table_entry, read_request), w) \<leftarrow> ci_initReadRequest client empty_ReadRequest w;
     let read_request = put_read_entry table_entry
           (EncodeTxAccVsiTableEntry (read_entry table_entry read_request) sp p4info) read_request;
     ci_sendReadRequest client read_request w
   }"

text \<open>The loop over the bytes of the parameter, and the two nested loops over the
  entities and their action's parameters; the first parameter with the identifier
  decides.\<close>

fun decode_host_sp :: "u32 \<Rightarrow> bytes \<Rightarrow> u32" where
  "decode_host_sp host_sp [] = host_sp"
| "decode_host_sp host_sp (b # val) =
     decode_host_sp (push_bit 8 host_sp OR (ucast b AND 0xff)) val"

fun find_port_param :: "u32 \<Rightarrow> Param list \<Rightarrow> u32 option" where
  "find_port_param param_id [] = None"
| "find_port_param param_id (param # params) =
     (if par_param_id param = param_id then Some (decode_host_sp 0 (par_value param))
      else find_port_param param_id params)"

fun find_port_entity :: "u32 \<Rightarrow> TableEntry list \<Rightarrow> u32 option" where
  "find_port_entity param_id [] = None"
| "find_port_entity param_id (table_entry # entities) =
     (case find_port_param param_id (act_params (the_action table_entry)) of
        Some host_sp \<Rightarrow> Some host_sp
      | None \<Rightarrow> find_port_entity param_id entities)"

definition GetTxAccVsiPort ::
    "('c, 'e) ClientInterface \<Rightarrow> P4Info \<Rightarrow> u32 \<Rightarrow> ('c, 'e) world \<Rightarrow>
     (('c, 'e) world, u32 StatusOr) result" where
  "GetTxAccVsiPort client p4info src_port w = do {
     (response_or_status, w) \<leftarrow> ReadTxAccVsiTableEntry client src_port p4info w;
     case response_or_status of
       Inl status \<Rightarrow> Some (Inl status, w)
     | Inr read_response \<Rightarrow>
         (let param_id = GetParamId p4info TX_ACC_VSI_TABLE_ACTION_L2_FWD_AND_BYPASS_BRIDGE
                           ACTION_L2_FWD_AND_BYPASS_BRIDGE_PARAM_PORT
          in case find_port_entity param_id (rs_entities read_response) of
               Some host_sp \<Rightarrow> Some (Inr host_sp, w)
             | None \<Rightarrow> Some (Inl (InternalError ''Missing port parameter''), w))
   }"

section \<open>Source port entries\<close>

definition WriteVsiSrcPortTableEntry ::
    "('c, 'e) ClientInterface \<Rightarrow> src_port_info \<Rightarrow> P4Info \<Rightarrow> bool \<Rightarrow> ('c, 'e) world \<Rightarrow>
     (('c, 'e) world, Status) result" where
  "WriteVsiSrcPortTableEntry client port_info p4info insert_entry w = do {
     ((table_entry, write_request), w) \<leftarrow> ci_initWriteRequest client empty_WriteRequest insert_entry w;
     let write_request = put_write_entry table_entry
           (EncodeSrcPortTableEntry (write_entry table_entry write_request)
              port_info p4info insert_entry) write_request;
     ci_sendWriteRequest client write_request w
   }"

definition ConfigSrcPortEntry ::
    "('c, 'e) ClientInterface \<Rightarrow> src_port_info \<Rightarrow> P4Info \<Rightarrow> bool \<Rightarrow> ('c, 'e) world \<Rightarrow>
     (('c, 'e) world, Status) result" where
  "ConfigSrcPortEntry client port_info p4info insert_entry w = do {
     (host_sp, w) \<leftarrow> GetTxAccVsiPort client p4info (sp_src_port port_info) w;
     case host_sp of
       Inl status \<Rightarrow> Some (status, w)
     | Inr port \<Rightarrow>
         WriteVsiSrcPortTableEntry client (port_info\<lparr>sp_src_port := port\<rparr>) p4info insert_entry w
   }"

definition DoConfigSrcPortEntry ::
    "('c, 'e) ClientInterface \<Rightarrow> src_port_info \<Rightarrow> bool \<Rightarrow> string \<Rightarrow> ('c, 'e) world \<Rightarrow>
     (('c, 'e) world, Status) result" where
  "DoConfigSrcPortEntry client port_info insert_entry grpc_addr w = do {
     (status, w) \<leftarrow> ci_connect client grpc_addr w;
     if \<not> ok status then Some (status, w)
     else do {
       ((status, p4info), w) \<leftarrow> ci_getPipelineConfig client empty_P4Info w;
       if \<not> ok status then Some (status, w)
       else ConfigSrcPortEntry client port_info p4info insert_entry w
     }
   }"

definition WriteTunnelSrcPortEntry ::
    "('c, 'e) ClientInterface \<Rightarrow> src_port_info \<Rightarrow> P4Info \<Rightarrow> bool \<Rightarrow> ('c, 'e) world \<Rightarrow>
     (('c, 'e) world, Status) result" where
  "WriteTunnelSrcPortEntry client port_info p4info insert_entry w = do {
     ((table_entry, write_request), w) \<leftarrow> ci_initWriteRequest client empty_WriteRequest insert_entry w;
     let write_request = put_write_entry table_entry
           (EncodeSrcPortTableEntry (write_entry table_entry write_request)
              port_info p4info insert_entry) write_request;
     ci_sendWriteRequest client write_request w
   }"

definition DoConfigTunnelSrcPortEntry ::
    "('c, 'e) ClientInterface \<Rightarrow> src_port_info \<Rightarrow> bool \<Rightarrow> string \<Rightarrow> ('c, 'e) world \<Rightarrow>
     (('c, 'e) world, Status) result" where
  "DoConfigTunnelSrcPortEntry client port_info insert_entry grpc_addr w = do {
     (status, w) \<leftarrow> ci_connect client grpc_addr w;
     if \<not> ok status then Some (status, w)
     else do {
       ((status, p4info), w) \<leftarrow> ci_getPipelineConfig client empty_P4Info w;
       if \<not> ok status then Some (status, w)
       else WriteTunnelSrcPortEntry client port_info p4info insert_entry w
     }
   }"

section \<open>Receive-side tunnel source port\<close>

definition PrepareRxTunnelSrcPortTableEntry ::
    "TableEntry \<Rightarrow> tunnel_info \<Rightarrow> P4Info \<Rightarrow> bool \<Rightarrow> TableEntry" where
  "PrepareRxTunnelSrcPortTableEntry table_entry tunnel_info p4info insert_entry =
     (if ip_family (ti_local_ip tunnel_info) = AF_INET \<and>
         ip_family (ti_remote_ip tunnel_info) = AF_INET then
        EncodeRxTunnelTableEntry table_entry tunnel_info p4info insert_entry
      else if ip_family (ti_local_ip tunnel_info) = AF_INET6 \<and>
         ip_family (ti_remote_ip tunnel_info) = AF_INET6 then
        EncodeV6RxTunnelTableEntry table_entry tunnel_info p4info insert_entry
      else table_entry)"

definition WriteRxTunnelSrcPortTableEntry ::
    "('c, 'e) ClientInterface \<Rightarrow> tunnel_info \<Rightarrow> P4Info \<Rightarrow> bool \<Rightarrow> ('c, 'e) world \<Rightarrow>
     (('c, 'e) world, Status) result" where
  "WriteRxTunnelSrcPortTableEntry client tunnel_info p4info insert_entry w = do {
     ((table_entry, write_request), w) \<leftarrow> ci_initWriteRequest client empty_WriteRequest insert_entry w;
     let write_request = put_write_entry table_entry
           (PrepareRxTunnelSrcPortTableEntry (write_entry table_entry write_request)
              tunnel_info p4info insert_entry) write_request;
     ci_sendWriteRequest client write_request w
   }"

definition DoConfigRxTunnelSrcEntry ::
    "('c, 'e) ClientInterface \<Rightarrow> tunnel_info \<Rightarrow> bool \<Rightarrow> string \<Rightarrow> ('c, 'e) world \<Rightarrow>
     (('c, 'e) world, Status) result" where
  "DoConfigRxTunnelSrcEntry client tunnel_info insert_entry grpc_addr w = do {
     (status, w) \<leftarrow> ci_connect client grpc_addr w;
     if \<not> ok status then Some (status, w)
     else do {
       ((status, p4info), w) \<leftarrow> ci_getPipelineConfig client empty_P4Info w;
       if \<not> ok status then Some (status, w)
       else WriteRxTunnelSrcPortTableEntry client tunnel_info p4info insert_entry w
     }
   }"

section \<open>Lemmas\<close>

text \<open>The decoding loop computes the big-endian value, modulo the width of a port.\<close>

lemma decode_step:
  "unat (push_bit 8 h OR (ucast (b :: u8) AND 0xff) :: u32) = (256 * unat h + unat b) mod 2 ^ 32"
proof -
  note m = ucast_byte_mask [of b]
  have "push_bit 8 h AND ucast b = 0"
    by (rule bit_word_eqI) (auto simp: bit_simps dest: bit_imp_le_length)
  then have "push_bit 8 h OR ucast b = push_bit 8 h + ucast b"
    by (rule disjunctive_add_eq_or [symmetric])
  also have "\<dots> = of_nat (256 * unat h + unat b)"
    by (simp add: push_bit_eq_mult)
  finally have "push_bit 8 h OR ucast b = of_nat (256 * unat h + unat b)" .
  then have "unat (push_bit 8 h OR ucast b) = take_bit 32 (256 * unat h + unat b)"
    by (simp only: unsigned_of_nat) simp
  then show ?thesis by (simp only: m take_bit_eq_mod)
qed

lemma be_acc_mod: "be_acc (a mod m) bs mod m = be_acc a bs mod (m :: nat)"
proof -
  have "(a mod m * 256 ^ length bs + be_acc 0 bs) mod m = (a * 256 ^ length bs + be_acc 0 bs) mod m"
    by (metis mod_add_left_eq mod_mult_left_eq)
  then show ?thesis by (metis be_acc_shift)
qed

lemma decode_host_sp_acc: "unat (decode_host_sp h bs) = be_acc (unat h) bs mod 2 ^ 32"
proof (induction bs arbitrary: h)
  case Nil
  show ?case using unsigned_less [where 'a = nat, of h] by simp
next
  case (Cons b bs)
  then show ?case by (simp only: decode_host_sp.simps decode_step be_acc.simps be_acc_mod)
qed

lemma decode_host_sp_value: "unat (decode_host_sp 0 bs) = be_value bs mod 2 ^ 32"
  by (simp add: decode_host_sp_acc be_value_def)

lemma DoConfigSrcPortEntry_in_session:
  "DoConfigSrcPortEntry client i b addr =
     in_session client addr (\<lambda>p4info. ConfigSrcPortEntry client i p4info b)"
  by (rule ext) (simp add: DoConfigSrcPortEntry_def in_session_def)

lemma DoConfigTunnelSrcPortEntry_in_session:
  "DoConfigTunnelSrcPortEntry client i b addr =
     in_session client addr (\<lambda>p4info. WriteTunnelSrcPortEntry client i p4info b)"
  by (rule ext) (simp add: DoConfigTunnelSrcPortEntry_def in_session_def)

lemma DoConfigRxTunnelSrcEntry_in_session:
  "DoConfigRxTunnelSrcEntry client i b addr =
     in_session client addr (\<lambda>p4info. WriteRxTunnelSrcPortTableEntry client i p4info b)"
  by (rule ext) (simp add: DoConfigRxTunnelSrcEntry_def in_session_def)

context client_interface
begin

lemma ReadTxAccVsi:
  "ready (w_client w) \<Longrightarrow> ReadTxAccVsiTableEntry ci sp p w =
     read_key (EncodeTxAccVsiTableEntry empty_TableEntry sp p) w"
  unfolding ReadTxAccVsiTableEntry_def Let_def
  by (rule read_shape [where f = "\<lambda>te. EncodeTxAccVsiTableEntry te sp p"])

lemma GetTxAccVsiPort_stays:
  "ready (w_client w) \<Longrightarrow> runs (stays w) (GetTxAccVsiPort ci p sp w)"
  unfolding GetTxAccVsiPort_def
  by (rule stays_then) (auto simp: ReadTxAccVsi read_key_stays stays_refl Let_def
      split: sum.splits option.splits)

lemma WriteVsiSrcPort:
  "ready (w_client w) \<Longrightarrow> WriteVsiSrcPortTableEntry ci i p b w =
     send_entry b (EncodeSrcPortTableEntry empty_TableEntry i p b) w"
  unfolding WriteVsiSrcPortTableEntry_def Let_def
  by (rule write_shape [where f = "\<lambda>te. EncodeSrcPortTableEntry te i p b"])

lemma WriteTunnelSrcPort:
  "ready (w_client w) \<Longrightarrow> WriteTunnelSrcPortEntry ci i p b w =
     send_entry b (EncodeSrcPortTableEntry empty_TableEntry i p b) w"
  unfolding WriteTunnelSrcPortEntry_def Let_def
  by (rule write_shape [where f = "\<lambda>te. EncodeSrcPortTableEntry te i p b"])

lemma WriteRxTunnelSrcPort:
  "ready (w_client w) \<Longrightarrow> WriteRxTunnelSrcPortTableEntry ci i p b w =
     send_entry b (PrepareRxTunnelSrcPortTableEntry empty_TableEntry i p b) w"
  unfolding WriteRxTunnelSrcPortTableEntry_def Let_def
  by (rule write_shape [where f = "\<lambda>te. PrepareRxTunnelSrcPortTableEntry te i p b"])

lemma ConfigSrcPortEntry_stays:
  "ready (w_client w) \<Longrightarrow> runs (stays w) (ConfigSrcPortEntry ci i p b w)"
  unfolding ConfigSrcPortEntry_def
  by (rule stays_then [OF GetTxAccVsiPort_stays])
    (auto simp: WriteVsiSrcPort send_entry_stays stays_refl split: sum.splits)

lemma DoConfigSrcPortEntry_returns: "runs (\<lambda>_. True) (DoConfigSrcPortEntry ci i b addr w)"
  unfolding DoConfigSrcPortEntry_in_session
  by (intro in_session_returns runs_mono [OF ConfigSrcPortEntry_stays]) simp_all

lemma DoConfigTunnelSrcPortEntry_returns:
  "runs (\<lambda>_. True) (DoConfigTunnelSrcPortEntry ci i b addr w)"
  unfolding DoConfigTunnelSrcPortEntry_in_session
  by (intro in_session_returns) (auto simp: WriteTunnelSrcPort intro: runs_mono [OF send_entry_stays])

lemma DoConfigRxTunnelSrcEntry_returns:
  "runs (\<lambda>_. True) (DoConfigRxTunnelSrcEntry ci t b addr w)"
  unfolding DoConfigRxTunnelSrcEntry_in_session
  by (intro in_session_returns)
    (auto simp: WriteRxTunnelSrcPort intro: runs_mono [OF send_entry_stays])

end

text \<open>The port lookup on the production client, as one read of the server.\<close>

definition port_param_id :: "P4Info \<Rightarrow> u32" where
  "port_param_id p = GetParamId p TX_ACC_VSI_TABLE_ACTION_L2_FWD_AND_BYPASS_BRIDGE
     ACTION_L2_FWD_AND_BYPASS_BRIDGE_PARAM_PORT"

definition server_port ::
    "'e grpc_env \<Rightarrow> OvsP4rtSession \<Rightarrow> P4Info \<Rightarrow> u32 \<Rightarrow> 'e \<Rightarrow> u32 StatusOr \<times> 'e" where
  "server_port g s p sp e =
     (case server_read g s (EncodeTxAccVsiTableEntry empty_TableEntry sp p) e of
        (Inl st, e) \<Rightarrow> (Inl st, e)
      | (Inr r, e) \<Rightarrow>
          (case find_port_entity (port_param_id p) (rs_entities r) of
             Some port \<Rightarrow> Inr port
           | None \<Rightarrow> Inl (InternalError ''Missing port parameter''), e))"

lemma cl_GetTxAccVsiPort:
  assumes "cl_session (w_client w) = Some s"
  shows "GetTxAccVsiPort (Client_vtable g flags) p sp w =
    (let (r, e) = server_port g s p sp (w_env w) in Some (r, w\<lparr>w_env := e\<rparr>))"
  using assms
  by (auto simp: GetTxAccVsiPort_def server_port_def port_param_id_def cl.ReadTxAccVsi cl_simps
      Let_def split: prod.splits sum.splits option.splits)

end
