(* ===== verification/Ip_Mac_Map_Entry.thy ===== *)
theory Ip_Mac_Map_Entry
  imports Entry_Ops Es2k_Encoders
begin

text \<open>
  \<^verbatim>\<open>core/v3/do_config_ip_mac_map_entry.cc\<close>: the entries that map the source and the
  destination IPv4 address of a virtual machine to its MAC address (ES2K). The
  \<open>goto try_dstip\<close> of the source skips the write of the source entry; it is the
  condition on that write here.
\<close>

definition INADDR_ANY :: u32 where "INADDR_ANY = 0"
definition INADDR_LOOPBACK :: u32 where "INADDR_LOOPBACK = 0x7f000001"

definition ValidIpAddr :: "u32 \<Rightarrow> bool" where
  "ValidIpAddr nw_addr \<longleftrightarrow>
     nw_addr \<noteq> 0 \<and> nw_addr \<noteq> INADDR_ANY \<and> nw_addr \<noteq> INADDR_LOOPBACK \<and> nw_addr \<noteq> 0xffffffff"

definition ReadVmSrcTableEntry ::
    "('c, 'e) ClientInterface \<Rightarrow> ip_mac_map_info \<Rightarrow> P4Info \<Rightarrow> ('c, 'e) world \<Rightarrow>
     (('c, 'e) world, ReadResponse StatusOr) result" where
  "ReadVmSrcTableEntry client ip_info p4info w = do {
     ((table_entry, read_request), w) \<leftarrow> ci_initReadRequest client empty_ReadRequest w;
     let (entry, detail) = EncodeSrcIpMacMapTableEntry (read_entry table_entry read_request)
           ip_info p4info False default_DiagDetail;
     ci_sendReadRequest client (put_read_entry table_entry entry read_request) w
   }"

definition ReadVmDstTableEntry ::
    "('c, 'e) ClientInterface \<Rightarrow> ip_mac_map_info \<Rightarrow> P4Info \<Rightarrow> ('c, 'e) world \<Rightarrow>
     (('c, 'e) world, ReadResponse StatusOr) result" where
  "ReadVmDstTableEntry client ip_info p4info w = do {
     ((table_entry, read_request), w) \<leftarrow> ci_initReadRequest client empty_ReadRequest w;
     let (entry, detail) = EncodeDstIpMacMapTableEntry (read_entry table_entry read_request)
           ip_info p4info False default_DiagDetail;
     ci_sendReadRequest client (put_read_entry table_entry entry read_request) w
   }"

definition WriteDstIpMacMapTableEntry ::
    "('c, 'e) ClientInterface \<Rightarrow> ip_mac_map_info \<Rightarrow> P4Info \<Rightarrow> bool \<Rightarrow> ('c, 'e) world \<Rightarrow>
     (('c, 'e) world, Status) result" where
  "WriteDstIpMacMapTableEntry client ip_info p4info insert_entry w = do {
     ((table_entry, write_request), w) \<leftarrow> ci_initWriteRequest client empty_WriteRequest insert_entry w;
     let (entry, detail) = EncodeDstIpMacMapTableEntry (write_entry table_entry write_request)
           ip_info p4info insert_entry default_DiagDetail;
     (status, w) \<leftarrow>
       ci_sendWriteRequest client (put_write_entry table_entry entry write_request) w;
     Some (status,
       if \<not> ok status
       then LogFailure insert_entry (getLogTableName detail) w
       else w)
   }"

definition WriteSrcIpMacMapTableEntry ::
    "('c, 'e) ClientInterface \<Rightarrow> ip_mac_map_info \<Rightarrow> P4Info \<Rightarrow> bool \<Rightarrow> ('c, 'e) world \<Rightarrow>
     (('c, 'e) world, Status) result" where
  "WriteSrcIpMacMapTableEntry client ip_info p4info insert_entry w = do {
     ((table_entry, write_request), w) \<leftarrow> ci_initWriteRequest client empty_WriteRequest insert_entry w;
     let (entry, detail) = EncodeSrcIpMacMapTableEntry (write_entry table_entry write_request)
           ip_info p4info insert_entry default_DiagDetail;
     (status, w) \<leftarrow>
       ci_sendWriteRequest client (put_write_entry table_entry entry write_request) w;
     Some (status,
       if \<not> ok status
       then LogFailure insert_entry (getLogTableName detail) w
       else w)
   }"

definition ConfigIpMacMapEntry ::
    "('c, 'e) ClientInterface \<Rightarrow> ip_mac_map_info \<Rightarrow> P4Info \<Rightarrow> bool \<Rightarrow> ('c, 'e) world \<Rightarrow>
     (('c, 'e) world, Status) result" where
  "ConfigIpMacMapEntry client ip_info p4info insert_entry w = do {
     (try_dstip, w) \<leftarrow>
       (if insert_entry then do {
          (status_or_read_response, w) \<leftarrow> ReadVmSrcTableEntry client ip_info p4info w;
          Some (status_or_ok status_or_read_response, w)
        } else Some (False, w));
     (_, w) \<leftarrow>
       (if \<not> try_dstip \<and> ValidIpAddr (v4addr_s_addr (im_src_ip_addr ip_info)) then
          WriteSrcIpMacMapTableEntry client ip_info p4info insert_entry w
        else Some (OkStatus, w));
     (found, w) \<leftarrow>
       (if insert_entry then do {
          (status_or_read_response, w) \<leftarrow> ReadVmDstTableEntry client ip_info p4info w;
          Some (status_or_ok status_or_read_response, w)
        } else Some (False, w));
     if found then Some (OkStatus, w)
     else if ValidIpAddr (v4addr_s_addr (im_src_ip_addr ip_info)) then do {
       (_, w) \<leftarrow> WriteDstIpMacMapTableEntry client ip_info p4info insert_entry w;
       Some (OkStatus, w)
     } else Some (OkStatus, w)
   }"

definition DoConfigIpMacMapEntry ::
    "('c, 'e) ClientInterface \<Rightarrow> ip_mac_map_info \<Rightarrow> bool \<Rightarrow> string \<Rightarrow> ('c, 'e) world \<Rightarrow>
     (('c, 'e) world, Status) result" where
  "DoConfigIpMacMapEntry client ip_info insert_entry grpc_addr w = do {
     (status, w) \<leftarrow> ci_connect client grpc_addr w;
     if \<not> ok status then Some (status, w)
     else do {
       ((status, p4info), w) \<leftarrow> ci_getPipelineConfig client empty_P4Info w;
       if \<not> ok status then Some (status, w)
       else ConfigIpMacMapEntry client ip_info p4info insert_entry w
     }
   }"

section \<open>Lemmas\<close>

lemma DoConfigIpMacMapEntry_in_session:
  "DoConfigIpMacMapEntry client i b addr =
     in_session client addr (\<lambda>p4info. ConfigIpMacMapEntry client i p4info b)"
  by (rule ext) (simp add: DoConfigIpMacMapEntry_def in_session_def)

context client_interface
begin

lemma ReadVmSrc:
  "ready (w_client w) \<Longrightarrow> ReadVmSrcTableEntry ci i p w =
     read_key (fst (EncodeSrcIpMacMapTableEntry empty_TableEntry i p False default_DiagDetail)) w"
  unfolding ReadVmSrcTableEntry_def Let_def
  by (rule read_detail_shape [where f = "\<lambda>te. EncodeSrcIpMacMapTableEntry te i p False default_DiagDetail"])

lemma ReadVmDst:
  "ready (w_client w) \<Longrightarrow> ReadVmDstTableEntry ci i p w =
     read_key (fst (EncodeDstIpMacMapTableEntry empty_TableEntry i p False default_DiagDetail)) w"
  unfolding ReadVmDstTableEntry_def Let_def
  by (rule read_detail_shape [where f = "\<lambda>te. EncodeDstIpMacMapTableEntry te i p False default_DiagDetail"])

lemma WriteSrcIpMacMap:
  "ready (w_client w) \<Longrightarrow> WriteSrcIpMacMapTableEntry ci i p b w =
     send_logged (LogFailure b) b
       (EncodeSrcIpMacMapTableEntry empty_TableEntry i p b default_DiagDetail) w"
  unfolding WriteSrcIpMacMapTableEntry_def Let_def
  by (rule write_logged_shape
      [where f = "\<lambda>te. EncodeSrcIpMacMapTableEntry te i p b default_DiagDetail"
         and log = "LogFailure b"])

lemma WriteSrcIpMacMap_stays:
  "ready (w_client w) \<Longrightarrow> runs (stays w) (WriteSrcIpMacMapTableEntry ci i p b w)"
  by (simp add: WriteSrcIpMacMap send_logged_stays)

lemma WriteDstIpMacMap:
  "ready (w_client w) \<Longrightarrow> WriteDstIpMacMapTableEntry ci i p b w =
     send_logged (LogFailure b) b
       (EncodeDstIpMacMapTableEntry empty_TableEntry i p b default_DiagDetail) w"
  unfolding WriteDstIpMacMapTableEntry_def Let_def
  by (rule write_logged_shape
      [where f = "\<lambda>te. EncodeDstIpMacMapTableEntry te i p b default_DiagDetail"
         and log = "LogFailure b"])

lemma WriteDstIpMacMap_stays:
  "ready (w_client w) \<Longrightarrow> runs (stays w) (WriteDstIpMacMapTableEntry ci i p b w)"
  by (simp add: WriteDstIpMacMap send_logged_stays)

lemma ConfigIpMacMapEntry_stays:
  "ready (w_client w) \<Longrightarrow> runs (stays w) (ConfigIpMacMapEntry ci i p b w)"
  unfolding ConfigIpMacMapEntry_def
  by (auto simp: ReadVmSrc ReadVmDst stays_refl
      intro!: stays_then read_key_stays WriteSrcIpMacMap_stays WriteDstIpMacMap_stays)

lemma DoConfigIpMacMapEntry_returns: "runs (\<lambda>_. True) (DoConfigIpMacMapEntry ci i b addr w)"
  unfolding DoConfigIpMacMapEntry_in_session
  by (intro in_session_returns runs_mono [OF ConfigIpMacMapEntry_stays]) simp_all

end

text \<open>A delete on the production client: both entries are removed, or neither, and the
  result is always OK.\<close>

lemma cl_ConfigIpMacMapEntry_delete:
  assumes "cl_session (w_client w) = Some s"
  shows "\<exists>w'. ConfigIpMacMapEntry (Client_vtable g flags) i p False w = Some (OkStatus, w') \<and>
    w_env w' =
      (if ValidIpAddr (v4addr_s_addr (im_src_ip_addr i)) then
         write_each g s False
           [fst (EncodeSrcIpMacMapTableEntry empty_TableEntry i p False default_DiagDetail),
            fst (EncodeDstIpMacMapTableEntry empty_TableEntry i p False default_DiagDetail)] (w_env w)
       else w_env w)"
  using assms
  by (auto simp: ConfigIpMacMapEntry_def cl.WriteSrcIpMacMap cl.WriteDstIpMacMap cl_simps Let_def
      split: prod.splits)

end
