(* ===== verification/Es2k_Tunnel_Entry.thy ===== *)
theory Es2k_Tunnel_Entry
  imports Entry_Ops Es2k_Encoders
begin

text \<open>
  \<^verbatim>\<open>core/v3/es2k_config_tunnel_entry.cc\<close>: the encapsulation, decapsulation and
  termination entries of a tunnel. A Prepare function returns the entry and the lines
  it prints on standard output; for a tunnel type it does not know it prints an error
  and leaves the entry as it was.
\<close>

section \<open>Encapsulation\<close>

definition PrepareV4EncapTableEntry ::
    "TableEntry \<Rightarrow> tunnel_info \<Rightarrow> P4Info \<Rightarrow> bool \<Rightarrow> TableEntry \<times> string list" where
  "PrepareV4EncapTableEntry table_entry tunnel_info p4info insert_entry =
     (if ti_tunnel_type tunnel_info = OVS_TUNNEL_VXLAN then
        (EncodeVxlanEncapTableEntry table_entry tunnel_info p4info insert_entry, [])
      else if ti_tunnel_type tunnel_info = OVS_TUNNEL_GENEVE then
        (EncodeGeneveEncapTableEntry table_entry tunnel_info p4info insert_entry, [])
      else (table_entry, [''ERROR: Unsupported tunnel type'']))"

definition PrepareV6EncapTableEntry ::
    "TableEntry \<Rightarrow> tunnel_info \<Rightarrow> P4Info \<Rightarrow> bool \<Rightarrow> TableEntry \<times> string list" where
  "PrepareV6EncapTableEntry table_entry tunnel_info p4info insert_entry =
     (if ti_tunnel_type tunnel_info = OVS_TUNNEL_VXLAN then
        (EncodeV6VxlanEncapTableEntry table_entry tunnel_info p4info insert_entry, [])
      else if ti_tunnel_type tunnel_info = OVS_TUNNEL_GENEVE then
        (EncodeV6GeneveEncapTableEntry table_entry tunnel_info p4info insert_entry, [])
      else (table_entry, [''ERROR: Unsupported tunnel type'']))"

definition PrepareV4EncapAndVlanPopTableEntry ::
    "TableEntry \<Rightarrow> tunnel_info \<Rightarrow> P4Info \<Rightarrow> bool \<Rightarrow> TableEntry \<times> string list" where
  "PrepareV4EncapAndVlanPopTableEntry table_entry tunnel_info p4info insert_entry =
     (if ti_tunnel_type tunnel_info = OVS_TUNNEL_VXLAN then
        (EncodeVxlanEncapAndVlanPopTableEntry table_entry tunnel_info p4info insert_entry, [])
      else if ti_tunnel_type tunnel_info = OVS_TUNNEL_GENEVE then
        (EncodeGeneveEncapAndVlanPopTableEntry table_entry tunnel_info p4info insert_entry, [])
      else (table_entry, [''ERROR: Unsupported tunnel type'']))"

definition PrepareV6EncapAndVlanPopTableEntry ::
    "TableEntry \<Rightarrow> tunnel_info \<Rightarrow> P4Info \<Rightarrow> bool \<Rightarrow> TableEntry \<times> string list" where
  "PrepareV6EncapAndVlanPopTableEntry table_entry tunnel_info p4info insert_entry =
     (if ti_tunnel_type tunnel_info = OVS_TUNNEL_VXLAN then
        (EncodeV6VxlanEncapAndVlanPopTableEntry table_entry tunnel_info p4info insert_entry, [])
      else if ti_tunnel_type tunnel_info = OVS_TUNNEL_GENEVE then
        (EncodeV6GeneveEncapAndVlanPopTableEntry table_entry tunnel_info p4info insert_entry, [])
      else (table_entry, [''ERROR: Unsupported tunnel type'']))"

definition PrepareEncapTableEntry ::
    "TableEntry \<Rightarrow> tunnel_info \<Rightarrow> P4Info \<Rightarrow> bool \<Rightarrow> TableEntry \<times> string list" where
  "PrepareEncapTableEntry table_entry tunnel_info p4info insert_entry =
     (if ip_family (ti_local_ip tunnel_info) = AF_INET \<and>
         ip_family (ti_remote_ip tunnel_info) = AF_INET then
        (if pv_mode (ti_vlan_info tunnel_info) = P4_PORT_VLAN_NATIVE_UNTAGGED then
           PrepareV4EncapAndVlanPopTableEntry table_entry tunnel_info p4info insert_entry
         else PrepareV4EncapTableEntry table_entry tunnel_info p4info insert_entry)
      else if ip_family (ti_local_ip tunnel_info) = AF_INET6 \<and>
         ip_family (ti_remote_ip tunnel_info) = AF_INET6 then
        (if pv_mode (ti_vlan_info tunnel_info) = P4_PORT_VLAN_NATIVE_UNTAGGED then
           PrepareV6EncapAndVlanPopTableEntry table_entry tunnel_info p4info insert_entry
         else PrepareV6EncapTableEntry table_entry tunnel_info p4info insert_entry)
      else (table_entry, []))"

definition WriteEncapTableEntry ::
    "('c, 'e) ClientInterface \<Rightarrow> tunnel_info \<Rightarrow> P4Info \<Rightarrow> bool \<Rightarrow> ('c, 'e) world \<Rightarrow>
     (('c, 'e) world, Status) result" where
  "WriteEncapTableEntry client tunnel_info p4info insert_entry w = do {
     ((table_entry, write_request), w) \<leftarrow> ci_initWriteRequest client empty_WriteRequest insert_entry w;
     let (entry, lines) = PrepareEncapTableEntry (write_entry table_entry write_request)
           tunnel_info p4info insert_entry;
     ci_sendWriteRequest client (put_write_entry table_entry entry write_request)
       (print_lines lines w)
   }"

section \<open>Decapsulation\<close>

definition PrepareDecapModTableEntry ::
    "TableEntry \<Rightarrow> tunnel_info \<Rightarrow> P4Info \<Rightarrow> bool \<Rightarrow> TableEntry \<times> string list" where
  "PrepareDecapModTableEntry table_entry tunnel_info p4info insert_entry =
     (if ti_tunnel_type tunnel_info = OVS_TUNNEL_VXLAN then
        (EncodeVxlanDecapModTableEntry table_entry tunnel_info p4info insert_entry, [])
      else if ti_tunnel_type tunnel_info = OVS_TUNNEL_GENEVE then
        (EncodeGeneveDecapModTableEntry table_entry tunnel_info p4info insert_entry, [])
      else (table_entry, [''ERROR: Unsupported tunnel type'']))"

definition PrepareDecapModAndVlanPushTableEntry ::
    "TableEntry \<Rightarrow> tunnel_info \<Rightarrow> P4Info \<Rightarrow> bool \<Rightarrow> TableEntry \<times> string list" where
  "PrepareDecapModAndVlanPushTableEntry table_entry tunnel_info p4info insert_entry =
     (if ti_tunnel_type tunnel_info = OVS_TUNNEL_VXLAN then
        (EncodeVxlanDecapModAndVlanPushTableEntry table_entry tunnel_info p4info insert_entry, [])
      else if ti_tunnel_type tunnel_info = OVS_TUNNEL_GENEVE then
        (EncodeGeneveDecapModAndVlanPushTableEntry table_entry tunnel_info p4info insert_entry, [])
      else (table_entry, [''ERROR: Unsupported tunnel type'']))"

definition PrepareDecapTableEntry ::
    "TableEntry \<Rightarrow> tunnel_info \<Rightarrow> P4Info \<Rightarrow> bool \<Rightarrow> TableEntry \<times> string list" where
  "PrepareDecapTableEntry table_entry tunnel_info p4info insert_entry =
     (if pv_mode (ti_vlan_info tunnel_info) = P4_PORT_VLAN_NATIVE_TAGGED then
        PrepareDecapModTableEntry table_entry tunnel_info p4info insert_entry
      else PrepareDecapModAndVlanPushTableEntry table_entry tunnel_info p4info insert_entry)"

definition WriteDecapTableEntry ::
    "('c, 'e) ClientInterface \<Rightarrow> tunnel_info \<Rightarrow> P4Info \<Rightarrow> bool \<Rightarrow> ('c, 'e) world \<Rightarrow>
     (('c, 'e) world, Status) result" where
  "WriteDecapTableEntry client tunnel_info p4info insert_entry w = do {
     ((table_entry, write_request), w) \<leftarrow> ci_initWriteRequest client empty_WriteRequest insert_entry w;
     let (entry, lines) = PrepareDecapTableEntry (write_entry table_entry write_request)
           tunnel_info p4info insert_entry;
     ci_sendWriteRequest client (put_write_entry table_entry entry write_request)
       (print_lines lines w)
   }"

section \<open>Termination\<close>

definition PrepareTunnelTermTableEntry ::
    "TableEntry \<Rightarrow> tunnel_info \<Rightarrow> P4Info \<Rightarrow> bool \<Rightarrow> TableEntry \<times> string list" where
  "PrepareTunnelTermTableEntry table_entry tunnel_info p4info insert_entry =
     (if ip_family (ti_local_ip tunnel_info) = AF_INET \<and>
         ip_family (ti_remote_ip tunnel_info) = AF_INET then
        EncodeTunnelTermTableEntry table_entry tunnel_info p4info insert_entry
      else if ip_family (ti_local_ip tunnel_info) = AF_INET6 \<and>
         ip_family (ti_remote_ip tunnel_info) = AF_INET6 then
        EncodeV6TunnelTermTableEntry table_entry tunnel_info p4info insert_entry
      else (table_entry, []))"

definition WriteTunnelTermTableEntry ::
    "('c, 'e) ClientInterface \<Rightarrow> tunnel_info \<Rightarrow> P4Info \<Rightarrow> bool \<Rightarrow> ('c, 'e) world \<Rightarrow>
     (('c, 'e) world, Status) result" where
  "WriteTunnelTermTableEntry client tunnel_info p4info insert_entry w = do {
     ((table_entry, write_request), w) \<leftarrow> ci_initWriteRequest client empty_WriteRequest insert_entry w;
     let (entry, lines) = PrepareTunnelTermTableEntry (write_entry table_entry write_request)
           tunnel_info p4info insert_entry;
     ci_sendWriteRequest client (put_write_entry table_entry entry write_request)
       (print_lines lines w)
   }"

section \<open>The tunnel entry\<close>

definition ConfigTunnelEntry ::
    "('c, 'e) ClientInterface \<Rightarrow> tunnel_info \<Rightarrow> P4Info \<Rightarrow> bool \<Rightarrow> ('c, 'e) world \<Rightarrow>
     (('c, 'e) world, Status) result" where
  "ConfigTunnelEntry client tunnel_info p4info insert_entry w = do {
     (status, w) \<leftarrow> WriteEncapTableEntry client tunnel_info p4info insert_entry w;
     if \<not> ok status then Some (status, w)
     else do {
       (status, w) \<leftarrow> WriteDecapTableEntry client tunnel_info p4info insert_entry w;
       if \<not> ok status then Some (status, w)
       else WriteTunnelTermTableEntry client tunnel_info p4info insert_entry w
     }
   }"

definition DoConfigTunnelEntry ::
    "('c, 'e) ClientInterface \<Rightarrow> tunnel_info \<Rightarrow> bool \<Rightarrow> string \<Rightarrow> ('c, 'e) world \<Rightarrow>
     (('c, 'e) world, Status) result" where
  "DoConfigTunnelEntry client tunnel_info insert_entry grpc_addr w = do {
     (status, w) \<leftarrow> ci_connect client grpc_addr w;
     if \<not> ok status then Some (status, w)
     else do {
       ((status, p4info), w) \<leftarrow> ci_getPipelineConfig client empty_P4Info w;
       if \<not> ok status then Some (status, w)
       else ConfigTunnelEntry client tunnel_info p4info insert_entry w
     }
   }"

section \<open>Lemmas\<close>

text \<open>The three entries of a tunnel, in the order they are written.\<close>

definition tunnel_entries :: "tunnel_info \<Rightarrow> P4Info \<Rightarrow> bool \<Rightarrow> TableEntry list" where
  "tunnel_entries t p b =
     [fst (PrepareEncapTableEntry empty_TableEntry t p b),
      fst (PrepareDecapTableEntry empty_TableEntry t p b),
      fst (PrepareTunnelTermTableEntry empty_TableEntry t p b)]"

lemma DoConfigTunnelEntry_in_session:
  "DoConfigTunnelEntry client i b addr =
     in_session client addr (\<lambda>p4info. ConfigTunnelEntry client i p4info b)"
  by (rule ext) (simp add: DoConfigTunnelEntry_def in_session_def)

text \<open>The Prepare functions print nothing for a tunnel type they know.\<close>

lemmas prepare_encap_defs = PrepareEncapTableEntry_def PrepareV4EncapTableEntry_def
  PrepareV6EncapTableEntry_def PrepareV4EncapAndVlanPopTableEntry_def
  PrepareV6EncapAndVlanPopTableEntry_def

lemmas prepare_decap_defs = PrepareDecapTableEntry_def PrepareDecapModTableEntry_def
  PrepareDecapModAndVlanPushTableEntry_def

lemma prepare_silent:
  assumes "known_tunnel_type t"
  shows "snd (PrepareEncapTableEntry te t p b) = []"
    and "snd (PrepareDecapTableEntry te t p b) = []"
    and "snd (PrepareTunnelTermTableEntry te t p b) = []"
  using assms
  by (auto simp: known_tunnel_type_def prepare_encap_defs prepare_decap_defs
      PrepareTunnelTermTableEntry_def EncodeTunnelTermTableEntry_def
      EncodeV6TunnelTermTableEntry_def Let_def)

context client_interface
begin

lemma WriteEncap:
  "ready (w_client w) \<Longrightarrow> WriteEncapTableEntry ci i p b w =
     send_entry b (fst (PrepareEncapTableEntry empty_TableEntry i p b))
       (print_lines (snd (PrepareEncapTableEntry empty_TableEntry i p b)) w)"
  unfolding WriteEncapTableEntry_def Let_def
  by (rule write_printed_shape [where f = "\<lambda>te. PrepareEncapTableEntry te i p b"])

lemma WriteDecap:
  "ready (w_client w) \<Longrightarrow> WriteDecapTableEntry ci i p b w =
     send_entry b (fst (PrepareDecapTableEntry empty_TableEntry i p b))
       (print_lines (snd (PrepareDecapTableEntry empty_TableEntry i p b)) w)"
  unfolding WriteDecapTableEntry_def Let_def
  by (rule write_printed_shape [where f = "\<lambda>te. PrepareDecapTableEntry te i p b"])

lemma WriteTunnelTerm:
  "ready (w_client w) \<Longrightarrow> WriteTunnelTermTableEntry ci i p b w =
     send_entry b (fst (PrepareTunnelTermTableEntry empty_TableEntry i p b))
       (print_lines (snd (PrepareTunnelTermTableEntry empty_TableEntry i p b)) w)"
  unfolding WriteTunnelTermTableEntry_def Let_def
  by (rule write_printed_shape [where f = "\<lambda>te. PrepareTunnelTermTableEntry te i p b"])

lemma send_printed_stays:
  "ready (w_client w) \<Longrightarrow> runs (stays w) (send_entry b te (print_lines ls w))"
  using send_entry_stays [of "print_lines ls w" b te] by (simp add: stays_def runs_def)

lemma ConfigTunnelEntry_stays:
  "ready (w_client w) \<Longrightarrow> runs (stays w) (ConfigTunnelEntry ci i p b w)"
  unfolding ConfigTunnelEntry_def
  by (auto simp: WriteEncap WriteDecap WriteTunnelTerm stays_refl
      intro!: stays_then send_printed_stays)

lemma DoConfigTunnelEntry_returns: "runs (\<lambda>_. True) (DoConfigTunnelEntry ci i b addr w)"
  unfolding DoConfigTunnelEntry_in_session
  by (intro in_session_returns runs_mono [OF ConfigTunnelEntry_stays]) simp_all

end

lemma cl_ConfigTunnelEntry:
  assumes "cl_session (w_client w) = Some s" and "known_tunnel_type t"
  shows "ConfigTunnelEntry (Client_vtable g flags) t p b w =
    (let (st, e) = write_all g s b (tunnel_entries t p b) (w_env w) in Some (st, w\<lparr>w_env := e\<rparr>))"
  using assms
  by (simp add: ConfigTunnelEntry_def cl.WriteEncap cl.WriteDecap cl.WriteTunnelTerm prepare_silent
      cl_simps tunnel_entries_def Let_def split: prod.split)

end
