(* ===== verification/Es2k_Fdb_Entry.thy ===== *)
theory Es2k_Fdb_Entry
  imports Src_Port_Entry
begin

text \<open>
  \<^verbatim>\<open>core/v3/es2k_config_fdb_entry.cc\<close>: the forwarding-database entries of a learned MAC
  address. A parameter passed by non-const reference is returned beside the result. A
  cast to \<open>void\<close> drops the status of a write.
\<close>

section \<open>Writing one entry\<close>

definition WriteFdbSmacTableEntry ::
    "('c, 'e) ClientInterface \<Rightarrow> mac_learning_info \<Rightarrow> P4Info \<Rightarrow> bool \<Rightarrow> ('c, 'e) world \<Rightarrow>
     (('c, 'e) world, Status) result" where
  "WriteFdbSmacTableEntry client learn_info p4info insert_entry w = do {
     ((table_entry, write_request), w) \<leftarrow> ci_initWriteRequest client empty_WriteRequest insert_entry w;
     let (entry, detail) = EncodeFdbSmacTableEntry (write_entry table_entry write_request)
           learn_info p4info insert_entry default_DiagDetail;
     (status, w) \<leftarrow>
       ci_sendWriteRequest client (put_write_entry table_entry entry write_request) w;
     Some (status,
       if \<not> ok status
       then LogFailureWithMacAddr insert_entry (getLogTableName detail) (ml_mac_addr learn_info) w
       else w)
   }"

definition PrepareL2TunnelTableEntry ::
    "TableEntry \<Rightarrow> mac_learning_info \<Rightarrow> P4Info \<Rightarrow> bool \<Rightarrow>
     DiagDetail \<Rightarrow> TableEntry \<times> DiagDetail" where
  "PrepareL2TunnelTableEntry table_entry learn_info p4info insert_entry detail =
     (if ip_family (ti_local_ip (ml_tnl_info learn_info)) = AF_INET6 \<and>
         ip_family (ti_remote_ip (ml_tnl_info learn_info)) = AF_INET6 then
        EncodeL2ToTunnelV6 table_entry learn_info p4info insert_entry detail
      else EncodeL2ToTunnelV4 table_entry learn_info p4info insert_entry detail)"

definition WriteL2TunnelTableEntry ::
    "('c, 'e) ClientInterface \<Rightarrow> mac_learning_info \<Rightarrow> P4Info \<Rightarrow> bool \<Rightarrow> ('c, 'e) world \<Rightarrow>
     (('c, 'e) world, Status) result" where
  "WriteL2TunnelTableEntry client learn_info p4info insert_entry w = do {
     ((table_entry, write_request), w) \<leftarrow> ci_initWriteRequest client empty_WriteRequest insert_entry w;
     let (entry, detail) = PrepareL2TunnelTableEntry (write_entry table_entry write_request)
           learn_info p4info insert_entry default_DiagDetail;
     (status, w) \<leftarrow>
       ci_sendWriteRequest client (put_write_entry table_entry entry write_request) w;
     Some (status,
       if \<not> ok status
       then LogFailureWithMacAddr insert_entry (getLogTableName detail) (ml_mac_addr learn_info) w
       else w)
   }"

definition WriteFdbTxVlanTableEntry ::
    "('c, 'e) ClientInterface \<Rightarrow> mac_learning_info \<Rightarrow> P4Info \<Rightarrow> bool \<Rightarrow> ('c, 'e) world \<Rightarrow>
     (('c, 'e) world, Status) result" where
  "WriteFdbTxVlanTableEntry client learn_info p4info insert_entry w = do {
     ((table_entry, write_request), w) \<leftarrow> ci_initWriteRequest client empty_WriteRequest insert_entry w;
     let (entry, detail) = EncodeFdbTxVlanTableEntry (write_entry table_entry write_request)
           learn_info p4info insert_entry default_DiagDetail;
     (status, w) \<leftarrow>
       ci_sendWriteRequest client (put_write_entry table_entry entry write_request) w;
     Some (status,
       if \<not> ok status
       then LogFailureWithMacAddr insert_entry (getLogTableName detail) (ml_mac_addr learn_info) w
       else w)
   }"

definition WriteFdbRxVlanTableEntry ::
    "('c, 'e) ClientInterface \<Rightarrow> mac_learning_info \<Rightarrow> P4Info \<Rightarrow> bool \<Rightarrow> ('c, 'e) world \<Rightarrow>
     (('c, 'e) world, Status) result" where
  "WriteFdbRxVlanTableEntry client learn_info p4info insert_entry w = do {
     ((table_entry, write_request), w) \<leftarrow> ci_initWriteRequest client empty_WriteRequest insert_entry w;
     let (entry, detail) = EncodeFdbRxVlanTableEntry (write_entry table_entry write_request)
           learn_info p4info insert_entry default_DiagDetail;
     (status, w) \<leftarrow>
       ci_sendWriteRequest client (put_write_entry table_entry entry write_request) w;
     Some (status,
       if \<not> ok status
       then LogFailureWithMacAddr insert_entry (getLogTableName detail) (ml_mac_addr learn_info) w
       else w)
   }"

definition PrepareFdbTunnelTableEntry ::
    "TableEntry \<Rightarrow> mac_learning_info \<Rightarrow> P4Info \<Rightarrow> bool \<Rightarrow>
     DiagDetail \<Rightarrow> TableEntry \<times> DiagDetail" where
  "PrepareFdbTunnelTableEntry table_entry learn_info p4info insert_entry detail =
     (if ti_tunnel_type (ml_tnl_info learn_info) = OVS_TUNNEL_VXLAN then
        EncodeFdbTableEntryforV4VxlanTunnel table_entry learn_info p4info insert_entry detail
      else if ti_tunnel_type (ml_tnl_info learn_info) = OVS_TUNNEL_GENEVE then
        EncodeFdbTableEntryforV4GeneveTunnel table_entry learn_info p4info insert_entry detail
      else if \<not> insert_entry then
        (EncodeL2FwdTxTablePrologue table_entry learn_info p4info, detail)
      else (table_entry, detail))"

definition WriteFdbTunnelTableEntry ::
    "('c, 'e) ClientInterface \<Rightarrow> mac_learning_info \<Rightarrow> P4Info \<Rightarrow> bool \<Rightarrow> ('c, 'e) world \<Rightarrow>
     (('c, 'e) world, Status) result" where
  "WriteFdbTunnelTableEntry client learn_info p4info insert_entry w = do {
     ((table_entry, write_request), w) \<leftarrow> ci_initWriteRequest client empty_WriteRequest insert_entry w;
     let (entry, detail) = PrepareFdbTunnelTableEntry (write_entry table_entry write_request)
           learn_info p4info insert_entry default_DiagDetail;
     (status, w) \<leftarrow>
       ci_sendWriteRequest client (put_write_entry table_entry entry write_request) w;
     Some (status,
       if \<not> ok status
       then LogFailureWithMacAddr insert_entry (getLogTableName detail) (ml_mac_addr learn_info) w
       else w)
   }"

section \<open>Reading one entry\<close>

definition ReadL2ToTunnelV4TableEntry ::
    "('c, 'e) ClientInterface \<Rightarrow> mac_learning_info \<Rightarrow> P4Info \<Rightarrow> ('c, 'e) world \<Rightarrow>
     (('c, 'e) world, ReadResponse StatusOr) result" where
  "ReadL2ToTunnelV4TableEntry client learn_info p4info w = do {
     ((table_entry, read_request), w) \<leftarrow> ci_initReadRequest client empty_ReadRequest w;
     let (entry, detail) = EncodeL2ToTunnelV4 (read_entry table_entry read_request)
           learn_info p4info False default_DiagDetail;
     ci_sendReadRequest client (put_read_entry table_entry entry read_request) w
   }"

definition ReadL2ToTunnelV6TableEntry ::
    "('c, 'e) ClientInterface \<Rightarrow> mac_learning_info \<Rightarrow> P4Info \<Rightarrow> ('c, 'e) world \<Rightarrow>
     (('c, 'e) world, ReadResponse StatusOr) result" where
  "ReadL2ToTunnelV6TableEntry client learn_info p4info w = do {
     ((table_entry, read_request), w) \<leftarrow> ci_initReadRequest client empty_ReadRequest w;
     let (entry, detail) = EncodeL2ToTunnelV6 (read_entry table_entry read_request)
           learn_info p4info False default_DiagDetail;
     ci_sendReadRequest client (put_read_entry table_entry entry read_request) w
   }"

definition PrepareFdbTableV4TunnelEntry ::
    "TableEntry \<Rightarrow> mac_learning_info \<Rightarrow> P4Info \<Rightarrow> bool \<Rightarrow>
     DiagDetail \<Rightarrow> bool \<Rightarrow> TableEntry \<times> DiagDetail" where
  "PrepareFdbTableV4TunnelEntry table_entry learn_info p4info insert_entry detail testing =
     (if ti_tunnel_type (ml_tnl_info learn_info) = OVS_TUNNEL_VXLAN then
        EncodeFdbTableEntryforV4VxlanTunnel table_entry learn_info p4info testing detail
      else if ti_tunnel_type (ml_tnl_info learn_info) = OVS_TUNNEL_GENEVE then
        EncodeFdbTableEntryforV4GeneveTunnel table_entry learn_info p4info testing detail
      else (table_entry, detail))"

definition ReadFdbTunnelTableEntry ::
    "('c, 'e) ClientInterface \<Rightarrow> mac_learning_info \<Rightarrow> P4Info \<Rightarrow> bool \<Rightarrow> ('c, 'e) world \<Rightarrow>
     (('c, 'e) world, ReadResponse StatusOr) result" where
  "ReadFdbTunnelTableEntry client learn_info p4info adding w = do {
     ((table_entry, read_request), w) \<leftarrow> ci_initReadRequest client empty_ReadRequest w;
     let (entry, detail) = PrepareFdbTableV4TunnelEntry
           (read_entry table_entry read_request) learn_info p4info False default_DiagDetail False;
     ci_sendReadRequest client (put_read_entry table_entry entry read_request) w
   }"

definition ReadFdbVlanTableEntry ::
    "('c, 'e) ClientInterface \<Rightarrow> mac_learning_info \<Rightarrow> P4Info \<Rightarrow> bool \<Rightarrow> ('c, 'e) world \<Rightarrow>
     (('c, 'e) world, ReadResponse StatusOr) result" where
  "ReadFdbVlanTableEntry client learn_info p4info adding w = do {
     ((table_entry, read_request), w) \<leftarrow> ci_initReadRequest client empty_ReadRequest w;
     let (entry, detail) = EncodeFdbTxVlanTableEntry (read_entry table_entry read_request)
           learn_info p4info False default_DiagDetail;
     ci_sendReadRequest client (put_read_entry table_entry entry read_request) w
   }"

section \<open>Completing the learned information\<close>

definition UpdateFdbTunnelInfo ::
    "('c, 'e) ClientInterface \<Rightarrow> mac_learning_info \<Rightarrow> P4Info \<Rightarrow> ('c, 'e) world \<Rightarrow>
     (('c, 'e) world, mac_learning_info) result" where
  "UpdateFdbTunnelInfo client learn_info p4info w = do {
     (status_or_read_response, w) \<leftarrow> ReadL2ToTunnelV4TableEntry client learn_info p4info w;
     let learn_info = (if status_or_ok status_or_read_response
                       then learn_info\<lparr>ml_is_tunnel := True\<rparr> else learn_info);
     if \<not> ml_is_tunnel learn_info then do {
       (status_or_read_response, w) \<leftarrow> ReadL2ToTunnelV6TableEntry client learn_info p4info w;
       let tnl_info = ml_tnl_info learn_info;
       let learn_info =
         (if status_or_ok status_or_read_response
          then learn_info\<lparr>ml_is_tunnel := True,
                 ml_tnl_info := tnl_info\<lparr>
                   ti_local_ip := (ti_local_ip tnl_info)\<lparr>ip_family := AF_INET6\<rparr>,
                   ti_remote_ip := (ti_remote_ip tnl_info)\<lparr>ip_family := AF_INET6\<rparr>\<rparr>\<rparr>
          else learn_info);
       Some (learn_info, w)
     }
     else Some (learn_info, w)
   }"

definition UpdateFdbSrcPortInfo ::
    "('c, 'e) ClientInterface \<Rightarrow> mac_learning_info \<Rightarrow> P4Info \<Rightarrow> ('c, 'e) world \<Rightarrow>
     (('c, 'e) world, Status \<times> mac_learning_info) result" where
  "UpdateFdbSrcPortInfo client learn_info p4info w = do {
     (host_sp, w) \<leftarrow> GetTxAccVsiPort client p4info (ml_src_port learn_info) w;
     case host_sp of
       Inl status \<Rightarrow> Some ((status, learn_info), w)
     | Inr port \<Rightarrow> Some ((OkStatus, learn_info\<lparr>ml_src_port := port\<rparr>), w)
   }"

section \<open>The FDB entry\<close>

definition ConfigFdbTunnelEntry ::
    "('c, 'e) ClientInterface \<Rightarrow> mac_learning_info \<Rightarrow> bool \<Rightarrow> P4Info \<Rightarrow> ('c, 'e) world \<Rightarrow>
     (('c, 'e) world, Status) result" where
  "ConfigFdbTunnelEntry client learn_info insert_entry p4info w = do {
     (exists, w) \<leftarrow>
       (if insert_entry then do {
          (status_or_read_response, w) \<leftarrow> ReadFdbTunnelTableEntry client learn_info p4info True w;
          Some (status_or_ok status_or_read_response, w)
        } else Some (False, w));
     if exists then Some (OkStatus, w)
     else do {
       (_, w) \<leftarrow> WriteFdbTunnelTableEntry client learn_info p4info insert_entry w;
       (_, w) \<leftarrow> WriteL2TunnelTableEntry client learn_info p4info insert_entry w;
       (_, w) \<leftarrow> WriteFdbSmacTableEntry client learn_info p4info insert_entry w;
       Some (OkStatus, w)
     }
   }"

text \<open>The early returns of the insert branch are the \<open>Inl\<close> results; \<open>Inr\<close> carries the
  updated \<open>learn_info\<close> on to the common part.\<close>

definition ConfigFdbVlanEntry ::
    "('c, 'e) ClientInterface \<Rightarrow> mac_learning_info \<Rightarrow> bool \<Rightarrow> P4Info \<Rightarrow> ('c, 'e) world \<Rightarrow>
     (('c, 'e) world, Status) result" where
  "ConfigFdbVlanEntry client learn_info insert_entry p4info w = do {
     (r, w) \<leftarrow>
       (if insert_entry then do {
          (status_or_read_response, w) \<leftarrow> ReadFdbVlanTableEntry client learn_info p4info True w;
          if status_or_ok status_or_read_response then Some (Inl OkStatus, w)
          else do {
            (_, w) \<leftarrow> WriteFdbRxVlanTableEntry client learn_info p4info insert_entry w;
            ((status, learn_info), w) \<leftarrow> UpdateFdbSrcPortInfo client learn_info p4info w;
            Some (if \<not> ok status then Inl status else Inr learn_info, w)
          }
        } else Some (Inr learn_info, w));
     case r of
       Inl status \<Rightarrow> Some (status, w)
     | Inr learn_info \<Rightarrow> do {
         (_, w) \<leftarrow> WriteFdbTxVlanTableEntry client learn_info p4info insert_entry w;
         (_, w) \<leftarrow> WriteFdbSmacTableEntry client learn_info p4info insert_entry w;
         Some (OkStatus, w)
       }
   }"

definition ConfigFdbEntry ::
    "('c, 'e) ClientInterface \<Rightarrow> mac_learning_info \<Rightarrow> P4Info \<Rightarrow> bool \<Rightarrow> ('c, 'e) world \<Rightarrow>
     (('c, 'e) world, Status) result" where
  "ConfigFdbEntry client learn_info p4info insert_entry w = do {
     (learn_info, w) \<leftarrow>
       (if \<not> insert_entry then UpdateFdbTunnelInfo client learn_info p4info w
        else Some (learn_info, w));
     if ml_is_tunnel learn_info then ConfigFdbTunnelEntry client learn_info insert_entry p4info w
     else ConfigFdbVlanEntry client learn_info insert_entry p4info w
   }"

definition DoConfigFdbEntry ::
    "('c, 'e) ClientInterface \<Rightarrow> mac_learning_info \<Rightarrow> bool \<Rightarrow> string \<Rightarrow> ('c, 'e) world \<Rightarrow>
     (('c, 'e) world, Status) result" where
  "DoConfigFdbEntry client learn_info insert_entry grpc_addr w = do {
     (status, w) \<leftarrow> ci_connect client grpc_addr w;
     if \<not> ok status then Some (status, w)
     else do {
       ((status, p4info), w) \<leftarrow> ci_getPipelineConfig client empty_P4Info w;
       if \<not> ok status then Some (status, w)
       else ConfigFdbEntry client learn_info p4info insert_entry w
     }
   }"

section \<open>Lemmas\<close>

lemma DoConfigFdbEntry_in_session:
  "DoConfigFdbEntry client i b addr =
     in_session client addr (\<lambda>p4info. ConfigFdbEntry client i p4info b)"
  by (rule ext) (simp add: DoConfigFdbEntry_def in_session_def)

text \<open>The entries written for a learned address, in order.\<close>

definition fdb_tunnel_entries :: "mac_learning_info \<Rightarrow> P4Info \<Rightarrow> bool \<Rightarrow> TableEntry list" where
  "fdb_tunnel_entries i p b =
     [fst (PrepareFdbTunnelTableEntry empty_TableEntry i p b default_DiagDetail),
      fst (PrepareL2TunnelTableEntry empty_TableEntry i p b default_DiagDetail),
      fst (EncodeFdbSmacTableEntry empty_TableEntry i p b default_DiagDetail)]"

definition fdb_rx_entry :: "mac_learning_info \<Rightarrow> P4Info \<Rightarrow> bool \<Rightarrow> TableEntry" where
  "fdb_rx_entry i p b = fst (EncodeFdbRxVlanTableEntry empty_TableEntry i p b default_DiagDetail)"

definition fdb_vlan_entries :: "mac_learning_info \<Rightarrow> P4Info \<Rightarrow> bool \<Rightarrow> TableEntry list" where
  "fdb_vlan_entries i p b =
     [fst (EncodeFdbTxVlanTableEntry empty_TableEntry i p b default_DiagDetail),
      fst (EncodeFdbSmacTableEntry empty_TableEntry i p b default_DiagDetail)]"

context client_interface
begin

lemma WriteFdbSmac:
  "ready (w_client w) \<Longrightarrow> WriteFdbSmacTableEntry ci i p b w =
     send_logged (\<lambda>t. LogFailureWithMacAddr b t (ml_mac_addr i)) b
       (EncodeFdbSmacTableEntry empty_TableEntry i p b default_DiagDetail) w"
  unfolding WriteFdbSmacTableEntry_def Let_def
  by (rule write_logged_shape
      [where f = "\<lambda>te. EncodeFdbSmacTableEntry te i p b default_DiagDetail"
         and log = "\<lambda>t. LogFailureWithMacAddr b t (ml_mac_addr i)"])

lemma WriteFdbSmac_stays:
  "ready (w_client w) \<Longrightarrow> runs (stays w) (WriteFdbSmacTableEntry ci i p b w)"
  by (simp add: WriteFdbSmac send_logged_stays)

lemma WriteL2Tunnel:
  "ready (w_client w) \<Longrightarrow> WriteL2TunnelTableEntry ci i p b w =
     send_logged (\<lambda>t. LogFailureWithMacAddr b t (ml_mac_addr i)) b
       (PrepareL2TunnelTableEntry empty_TableEntry i p b default_DiagDetail) w"
  unfolding WriteL2TunnelTableEntry_def Let_def
  by (rule write_logged_shape
      [where f = "\<lambda>te. PrepareL2TunnelTableEntry te i p b default_DiagDetail"
         and log = "\<lambda>t. LogFailureWithMacAddr b t (ml_mac_addr i)"])

lemma WriteL2Tunnel_stays:
  "ready (w_client w) \<Longrightarrow> runs (stays w) (WriteL2TunnelTableEntry ci i p b w)"
  by (simp add: WriteL2Tunnel send_logged_stays)

lemma WriteFdbTxVlan:
  "ready (w_client w) \<Longrightarrow> WriteFdbTxVlanTableEntry ci i p b w =
     send_logged (\<lambda>t. LogFailureWithMacAddr b t (ml_mac_addr i)) b
       (EncodeFdbTxVlanTableEntry empty_TableEntry i p b default_DiagDetail) w"
  unfolding WriteFdbTxVlanTableEntry_def Let_def
  by (rule write_logged_shape
      [where f = "\<lambda>te. EncodeFdbTxVlanTableEntry te i p b default_DiagDetail"
         and log = "\<lambda>t. LogFailureWithMacAddr b t (ml_mac_addr i)"])

lemma WriteFdbTxVlan_stays:
  "ready (w_client w) \<Longrightarrow> runs (stays w) (WriteFdbTxVlanTableEntry ci i p b w)"
  by (simp add: WriteFdbTxVlan send_logged_stays)

lemma WriteFdbRxVlan:
  "ready (w_client w) \<Longrightarrow> WriteFdbRxVlanTableEntry ci i p b w =
     send_logged (\<lambda>t. LogFailureWithMacAddr b t (ml_mac_addr i)) b
       (EncodeFdbRxVlanTableEntry empty_TableEntry i p b default_DiagDetail) w"
  unfolding WriteFdbRxVlanTableEntry_def Let_def
  by (rule write_logged_shape
      [where f = "\<lambda>te. EncodeFdbRxVlanTableEntry te i p b default_DiagDetail"
         and log = "\<lambda>t. LogFailureWithMacAddr b t (ml_mac_addr i)"])

lemma WriteFdbRxVlan_stays:
  "ready (w_client w) \<Longrightarrow> runs (stays w) (WriteFdbRxVlanTableEntry ci i p b w)"
  by (simp add: WriteFdbRxVlan send_logged_stays)

lemma WriteFdbTunnel:
  "ready (w_client w) \<Longrightarrow> WriteFdbTunnelTableEntry ci i p b w =
     send_logged (\<lambda>t. LogFailureWithMacAddr b t (ml_mac_addr i)) b
       (PrepareFdbTunnelTableEntry empty_TableEntry i p b default_DiagDetail) w"
  unfolding WriteFdbTunnelTableEntry_def Let_def
  by (rule write_logged_shape
      [where f = "\<lambda>te. PrepareFdbTunnelTableEntry te i p b default_DiagDetail"
         and log = "\<lambda>t. LogFailureWithMacAddr b t (ml_mac_addr i)"])

lemma WriteFdbTunnel_stays:
  "ready (w_client w) \<Longrightarrow> runs (stays w) (WriteFdbTunnelTableEntry ci i p b w)"
  by (simp add: WriteFdbTunnel send_logged_stays)

lemma ReadL2ToTunnelV4:
  "ready (w_client w) \<Longrightarrow> ReadL2ToTunnelV4TableEntry ci i p w =
     read_key (fst (EncodeL2ToTunnelV4 empty_TableEntry i p False default_DiagDetail)) w"
  unfolding ReadL2ToTunnelV4TableEntry_def Let_def
  by (rule read_detail_shape [where f = "\<lambda>te. EncodeL2ToTunnelV4 te i p False default_DiagDetail"])

lemma ReadL2ToTunnelV6:
  "ready (w_client w) \<Longrightarrow> ReadL2ToTunnelV6TableEntry ci i p w =
     read_key (fst (EncodeL2ToTunnelV6 empty_TableEntry i p False default_DiagDetail)) w"
  unfolding ReadL2ToTunnelV6TableEntry_def Let_def
  by (rule read_detail_shape [where f = "\<lambda>te. EncodeL2ToTunnelV6 te i p False default_DiagDetail"])

lemma ReadFdbVlan:
  "ready (w_client w) \<Longrightarrow> ReadFdbVlanTableEntry ci i p a w =
     read_key (fst (EncodeFdbTxVlanTableEntry empty_TableEntry i p False default_DiagDetail)) w"
  unfolding ReadFdbVlanTableEntry_def Let_def
  by (rule read_detail_shape [where f = "\<lambda>te. EncodeFdbTxVlanTableEntry te i p False default_DiagDetail"])

lemma ReadFdbTunnel:
  "ready (w_client w) \<Longrightarrow> ReadFdbTunnelTableEntry ci i p a w =
     read_key (fst (PrepareFdbTableV4TunnelEntry empty_TableEntry i p False default_DiagDetail False)) w"
  unfolding ReadFdbTunnelTableEntry_def Let_def
  by (rule read_detail_shape
      [where f = "\<lambda>te. PrepareFdbTableV4TunnelEntry te i p False default_DiagDetail False"])

lemmas fdb_stays = stays_then read_key_stays WriteFdbSmac_stays WriteL2Tunnel_stays
  WriteFdbTxVlan_stays WriteFdbRxVlan_stays WriteFdbTunnel_stays GetTxAccVsiPort_stays

lemma UpdateFdbTunnelInfo_stays:
  "ready (w_client w) \<Longrightarrow> runs (stays w) (UpdateFdbTunnelInfo ci i p w)"
  unfolding UpdateFdbTunnelInfo_def
  by (auto simp: ReadL2ToTunnelV4 ReadL2ToTunnelV6 stays_refl Let_def intro!: fdb_stays)

lemma UpdateFdbSrcPortInfo_stays:
  "ready (w_client w) \<Longrightarrow> runs (stays w) (UpdateFdbSrcPortInfo ci i p w)"
  unfolding UpdateFdbSrcPortInfo_def
  by (auto simp: stays_refl intro!: fdb_stays split: sum.split)

lemma ConfigFdbTunnelEntry_stays:
  "ready (w_client w) \<Longrightarrow> runs (stays w) (ConfigFdbTunnelEntry ci i b p w)"
  unfolding ConfigFdbTunnelEntry_def
  by (auto simp: ReadFdbTunnel stays_refl intro!: fdb_stays)

lemma ConfigFdbVlanEntry_stays:
  "ready (w_client w) \<Longrightarrow> runs (stays w) (ConfigFdbVlanEntry ci i b p w)"
  unfolding ConfigFdbVlanEntry_def
  by (auto simp: ReadFdbVlan stays_refl intro!: fdb_stays UpdateFdbSrcPortInfo_stays
      split: sum.split)

lemma ConfigFdbEntry_stays:
  "ready (w_client w) \<Longrightarrow> runs (stays w) (ConfigFdbEntry ci i p b w)"
  unfolding ConfigFdbEntry_def
  by (auto simp: stays_refl intro!: stays_then UpdateFdbTunnelInfo_stays
      ConfigFdbTunnelEntry_stays ConfigFdbVlanEntry_stays)

lemma DoConfigFdbEntry_returns: "runs (\<lambda>_. True) (DoConfigFdbEntry ci i b addr w)"
  unfolding DoConfigFdbEntry_in_session
  by (intro in_session_returns runs_mono [OF ConfigFdbEntry_stays]) simp_all

end

section \<open>The FDB operations on the production client\<close>

text \<open>The keys an insert looks up before it writes.\<close>

definition fdb_tunnel_key :: "mac_learning_info \<Rightarrow> P4Info \<Rightarrow> TableEntry" where
  "fdb_tunnel_key i p =
     fst (PrepareFdbTableV4TunnelEntry empty_TableEntry i p False default_DiagDetail False)"

definition fdb_vlan_key :: "mac_learning_info \<Rightarrow> P4Info \<Rightarrow> TableEntry" where
  "fdb_vlan_key i p = fst (EncodeFdbTxVlanTableEntry empty_TableEntry i p False default_DiagDetail)"

lemma cl_ConfigFdbTunnelEntry_insert:
  assumes "cl_session (w_client w) = Some s"
    and "server_read g s (fdb_tunnel_key i p) (w_env w) = (r, e)"
  shows "\<exists>w'. ConfigFdbTunnelEntry (Client_vtable g flags) i True p w = Some (OkStatus, w') \<and>
    w_client w' = w_client w \<and>
    w_env w' = (if status_or_ok r then e else write_each g s True (fdb_tunnel_entries i p True) e)"
  using assms
  by (simp add: ConfigFdbTunnelEntry_def cl.ReadFdbTunnel cl.WriteFdbTunnel cl.WriteL2Tunnel
      cl.WriteFdbSmac cl_simps fdb_tunnel_key_def fdb_tunnel_entries_def Let_def split: prod.split)

lemma cl_ConfigFdbTunnelEntry_delete:
  assumes "cl_session (w_client w) = Some s"
  shows "\<exists>w'. ConfigFdbTunnelEntry (Client_vtable g flags) i False p w = Some (OkStatus, w') \<and>
    w_client w' = w_client w \<and>
    w_env w' = write_each g s False (fdb_tunnel_entries i p False) (w_env w)"
  using assms
  by (simp add: ConfigFdbTunnelEntry_def cl.WriteFdbTunnel cl.WriteL2Tunnel
      cl.WriteFdbSmac cl_simps fdb_tunnel_entries_def Let_def split: prod.split)

lemma cl_ConfigFdbVlanEntry_delete:
  assumes "cl_session (w_client w) = Some s"
  shows "\<exists>w'. ConfigFdbVlanEntry (Client_vtable g flags) i False p w = Some (OkStatus, w') \<and>
    w_client w' = w_client w \<and>
    w_env w' = write_each g s False (fdb_vlan_entries i p False) (w_env w)"
  using assms
  by (simp add: ConfigFdbVlanEntry_def cl.WriteFdbTxVlan cl.WriteFdbSmac cl_simps
      fdb_vlan_entries_def Let_def split: prod.split)

text \<open>An insert of an address that is not in the table: the receive entry is written
  first, then the port is looked up, then the other two entries are written.\<close>

lemma cl_ConfigFdbVlanEntry_insert:
  assumes "cl_session (w_client w) = Some s"
    and "server_read g s (fdb_vlan_key i p) (w_env w) = (Inl st, e)"
    and "server_port g s p (ml_src_port i) (write_each g s True [fdb_rx_entry i p True] e) =
      (Inr port, e')"
  shows "\<exists>w'. ConfigFdbVlanEntry (Client_vtable g flags) i True p w = Some (OkStatus, w') \<and>
    w_client w' = w_client w \<and>
    w_env w' = write_each g s True (fdb_vlan_entries (i\<lparr>ml_src_port := port\<rparr>) p True) e'"
  using assms
  by (auto simp: ConfigFdbVlanEntry_def UpdateFdbSrcPortInfo_def cl.ReadFdbVlan cl.WriteFdbRxVlan
      cl_GetTxAccVsiPort cl.WriteFdbTxVlan cl.WriteFdbSmac cl_simps fdb_vlan_key_def
      fdb_vlan_entries_def fdb_rx_entry_def Let_def split: prod.splits)

text \<open>An address that is already in the table.\<close>

lemma cl_ConfigFdbVlanEntry_exists:
  assumes "cl_session (w_client w) = Some s"
    and "server_read g s (fdb_vlan_key i p) (w_env w) = (Inr r, e)"
  shows "ConfigFdbVlanEntry (Client_vtable g flags) i True p w = Some (OkStatus, w\<lparr>w_env := e\<rparr>)"
  using assms
  by (simp add: ConfigFdbVlanEntry_def cl.ReadFdbVlan cl_simps fdb_vlan_key_def Let_def)

text \<open>A delete first finds out whether the address was learned from a tunnel.\<close>

lemma cl_UpdateFdbTunnelInfo:
  assumes "cl_session (w_client w) = Some s"
    and "server_read g s (fst (EncodeL2ToTunnelV4 empty_TableEntry i p False default_DiagDetail))
      (w_env w) = (r, e)"
  shows "UpdateFdbTunnelInfo (Client_vtable g flags) i p w =
    (if status_or_ok r \<or> ml_is_tunnel i then Some (i\<lparr>ml_is_tunnel := True\<rparr>, w\<lparr>w_env := e\<rparr>)
     else (let (r', e') = server_read g s
                  (fst (EncodeL2ToTunnelV6 empty_TableEntry i p False default_DiagDetail)) e;
               t = ml_tnl_info i
           in Some (if status_or_ok r'
                    then i\<lparr>ml_is_tunnel := True, ml_tnl_info := t\<lparr>
                           ti_local_ip := (ti_local_ip t)\<lparr>ip_family := AF_INET6\<rparr>,
                           ti_remote_ip := (ti_remote_ip t)\<lparr>ip_family := AF_INET6\<rparr>\<rparr>\<rparr>
                    else i, w\<lparr>w_env := e'\<rparr>)))"
  using assms
  by (auto simp: UpdateFdbTunnelInfo_def cl.ReadL2ToTunnelV4 cl.ReadL2ToTunnelV6 cl_simps Let_def
      split: prod.split)

end
