(* ===== verification/Dpdk_Encoders.thy ===== *)
theory Dpdk_Encoders
  imports Entry_Encoder P4_Names Encode_Utils World
begin

text \<open>
  \<^verbatim>\<open>core/v3/dpdk_encoders.cc\<close>: the functions that fill in a table entry of the DPDK
  pipeline, with the name macros of \<^verbatim>\<open>core/dpdk/p4_name_mapping.h\<close>. The functions of
  both targets have the same C++ names (a build links one of the two files); the ones
  of this file carry the prefix \<open>dpdk_\<close>. \<open>EncodeByteValue(1, x)\<close> keeps the low byte
  of its argument.
\<close>

section \<open>Encoders\<close>

definition dpdk_EncodeL2FwdTxTablePrologue ::
    "TableEntry \<Rightarrow> mac_learning_info \<Rightarrow> P4Info \<Rightarrow> TableEntry" where
  "dpdk_EncodeL2FwdTxTablePrologue table_entry learn_info p4info =
     (let te = set_table_id (GetTableId p4info DPDK_L2_FWD_TX_TABLE) table_entry;
          te = add_exact
             (GetMatchFieldId p4info DPDK_L2_FWD_TX_TABLE DPDK_L2_FWD_TX_TABLE_KEY_DST_MAC)
             (CanonicalizeMac (ml_mac_addr learn_info)) te
      in te)"

definition dpdk_EncodeFdbTxVlanTableEntry ::
    "TableEntry \<Rightarrow> mac_learning_info \<Rightarrow> P4Info \<Rightarrow> bool \<Rightarrow>
     DiagDetail \<Rightarrow> TableEntry \<times> DiagDetail" where
  "dpdk_EncodeFdbTxVlanTableEntry table_entry learn_info p4info insert_entry detail =
     (let te = dpdk_EncodeL2FwdTxTablePrologue table_entry learn_info p4info
      in ((if insert_entry then
           (let te = mutable_action te;
                te = set_action_id (GetActionId p4info DPDK_L2_FWD_TX_TABLE_ACTION_L2_FWD) te;
                port_id = vi_vlan_id (ml_vln_info learn_info) - 1;
                te = add_param (GetParamId p4info DPDK_L2_FWD_TX_TABLE_ACTION_L2_FWD
                         DPDK_ACTION_L2_FWD_PARAM_PORT)
                       (EncodeByteValue 1 [port_id]) te
            in te)
         else te),
          detail\<lparr>dd_table_id := LOG_L2_FWD_TX_TABLE\<rparr>))"

definition dpdk_EncodeFdbRxVlanTableEntry ::
    "TableEntry \<Rightarrow> mac_learning_info \<Rightarrow> P4Info \<Rightarrow> bool \<Rightarrow>
     DiagDetail \<Rightarrow> TableEntry \<times> DiagDetail" where
  "dpdk_EncodeFdbRxVlanTableEntry table_entry learn_info p4info insert_entry detail =
     (let te = set_table_id (GetTableId p4info DPDK_L2_FWD_RX_WITH_TUNNEL_TABLE) table_entry;
          te = add_exact
             (GetMatchFieldId p4info DPDK_L2_FWD_RX_WITH_TUNNEL_TABLE
                DPDK_L2_FWD_TX_TABLE_KEY_DST_MAC)
             (CanonicalizeMac (ml_mac_addr learn_info)) te
      in ((if insert_entry then
           (let te = mutable_action te;
                te = set_action_id (GetActionId p4info DPDK_L2_FWD_TX_TABLE_ACTION_L2_FWD) te;
                port_id = vi_vlan_id (ml_vln_info learn_info) - 1;
                te = add_param (GetParamId p4info DPDK_L2_FWD_RX_TABLE_ACTION_L2_FWD
                         DPDK_ACTION_L2_FWD_PARAM_PORT)
                       (EncodeByteValue 1 [port_id]) te
            in te)
         else te),
          detail\<lparr>dd_table_id := LOG_L2_FWD_RX_WITH_TUNNEL_TABLE\<rparr>))"

definition dpdk_EncodeFdbTableEntryforV4VxlanTunnel ::
    "TableEntry \<Rightarrow> mac_learning_info \<Rightarrow> P4Info \<Rightarrow> bool \<Rightarrow>
     DiagDetail \<Rightarrow> TableEntry \<times> DiagDetail" where
  "dpdk_EncodeFdbTableEntryforV4VxlanTunnel table_entry learn_info p4info insert_entry detail =
     (let te = dpdk_EncodeL2FwdTxTablePrologue table_entry learn_info p4info
      in ((if insert_entry then
           (let te = mutable_action te;
                te = set_action_id (GetActionId p4info DPDK_L2_FWD_TX_TABLE_ACTION_SET_TUNNEL) te;
                te = add_param (GetParamId p4info DPDK_L2_FWD_TX_TABLE_ACTION_SET_TUNNEL
                         DPDK_ACTION_SET_TUNNEL_PARAM_TUNNEL_ID)
                       (EncodeByteValue 1 [ti_vni (ml_tnl_info learn_info)]) te;
                te = add_param (GetParamId p4info DPDK_L2_FWD_TX_TABLE_ACTION_SET_TUNNEL
                         DPDK_ACTION_SET_TUNNEL_PARAM_DST_ADDR)
                       (CanonicalizeIp (v4addr_s_addr (ti_remote_ip (ml_tnl_info learn_info)))) te
            in te)
         else te),
          detail\<lparr>dd_table_id := LOG_L2_FWD_TX_TABLE\<rparr>))"

definition dpdk_EncodeVxlanEncapTableEntry ::
    "TableEntry \<Rightarrow> tunnel_info \<Rightarrow> P4Info \<Rightarrow> bool \<Rightarrow> TableEntry" where
  "dpdk_EncodeVxlanEncapTableEntry table_entry tunnel_info p4info insert_entry =
     (let te = set_table_id (GetTableId p4info DPDK_VXLAN_ENCAP_MOD_TABLE) table_entry;
          te = add_exact
             (GetMatchFieldId p4info DPDK_VXLAN_ENCAP_MOD_TABLE
                DPDK_VXLAN_ENCAP_MOD_TABLE_KEY_VENDORMETA_MOD_DATA_PTR)
             (EncodeVniValue (ti_vni tunnel_info)) te
      in (if insert_entry then
           (let te = mutable_action te;
                te = set_action_id (GetActionId p4info DPDK_ACTION_VXLAN_ENCAP) te;
                te = add_param (GetParamId p4info DPDK_ACTION_VXLAN_ENCAP
                         DPDK_ACTION_VXLAN_ENCAP_PARAM_SRC_ADDR)
                       (CanonicalizeIp (v4addr_s_addr (ti_local_ip tunnel_info))) te;
                te = add_param (GetParamId p4info DPDK_ACTION_VXLAN_ENCAP
                         DPDK_ACTION_VXLAN_ENCAP_PARAM_DST_ADDR)
                       (CanonicalizeIp (v4addr_s_addr (ti_remote_ip tunnel_info))) te;
                te = add_param (GetParamId p4info DPDK_ACTION_VXLAN_ENCAP
                         DPDK_ACTION_VXLAN_ENCAP_PARAM_DST_PORT)
                       (encode_port16 (htons (ti_dst_port tunnel_info))) te;
                te = add_param (GetParamId p4info DPDK_ACTION_VXLAN_ENCAP
                         DPDK_ACTION_VXLAN_ENCAP_PARAM_VNI)
                       (EncodeVniValue (ti_vni tunnel_info)) te
            in te)
         else te))"

definition dpdk_EncodeTunnelTermTableEntry ::
    "TableEntry \<Rightarrow> tunnel_info \<Rightarrow> P4Info \<Rightarrow> bool \<Rightarrow> TableEntry" where
  "dpdk_EncodeTunnelTermTableEntry table_entry tunnel_info p4info insert_entry =
     (let te = add_exact
             (GetMatchFieldId p4info DPDK_IPV4_TUNNEL_TERM_TABLE
                DPDK_IPV4_TUNNEL_TERM_TABLE_KEY_IPV4_SRC)
             (CanonicalizeIp (v4addr_s_addr (ti_remote_ip tunnel_info))) table_entry;
          te = set_table_id (GetTableId p4info DPDK_IPV4_TUNNEL_TERM_TABLE) te;
          te = add_exact
             (GetMatchFieldId p4info DPDK_IPV4_TUNNEL_TERM_TABLE
                DPDK_IPV4_TUNNEL_TERM_TABLE_KEY_TUNNEL_TYPE)
             (EncodeByteValue 1 [DPDK_TUNNEL_TYPE_VXLAN]) te;
          te = add_exact
             (GetMatchFieldId p4info DPDK_IPV4_TUNNEL_TERM_TABLE
                DPDK_IPV4_TUNNEL_TERM_TABLE_KEY_IPV4_DST)
             (CanonicalizeIp (v4addr_s_addr (ti_local_ip tunnel_info))) te
      in (if insert_entry then
           (let te = mutable_action te;
                te = set_action_id (GetActionId p4info DPDK_ACTION_DECAP_OUTER_IPV4) te;
                te = add_param (GetParamId p4info DPDK_ACTION_DECAP_OUTER_IPV4
                         DPDK_ACTION_DECAP_OUTER_IPV4_PARAM_TUNNEL_ID)
                       (EncodeByteValue 1 [ti_vni tunnel_info]) te
            in te)
         else te))"

section \<open>Schemas and contracts\<close>

definition dpdk_fdb_tx_vlan_schema :: entry_schema where [schema_defs]:
  "dpdk_fdb_tx_vlan_schema = \<lparr>
     sc_table = DPDK_L2_FWD_TX_TABLE,
     sc_keys = [DPDK_L2_FWD_TX_TABLE_KEY_DST_MAC],
     sc_actions = [(DPDK_L2_FWD_TX_TABLE_ACTION_L2_FWD, [DPDK_ACTION_L2_FWD_PARAM_PORT])]\<rparr>"

definition dpdk_fdb_rx_vlan_schema :: entry_schema where [schema_defs]:
  "dpdk_fdb_rx_vlan_schema = \<lparr>
     sc_table = DPDK_L2_FWD_RX_WITH_TUNNEL_TABLE,
     sc_keys = [DPDK_L2_FWD_TX_TABLE_KEY_DST_MAC],
     sc_actions = [(DPDK_L2_FWD_TX_TABLE_ACTION_L2_FWD, [DPDK_ACTION_L2_FWD_PARAM_PORT])]\<rparr>"

definition dpdk_fdb_vxlan_schema :: entry_schema where [schema_defs]:
  "dpdk_fdb_vxlan_schema = \<lparr>
     sc_table = DPDK_L2_FWD_TX_TABLE,
     sc_keys = [DPDK_L2_FWD_TX_TABLE_KEY_DST_MAC],
     sc_actions =
       [(DPDK_L2_FWD_TX_TABLE_ACTION_SET_TUNNEL,
         [DPDK_ACTION_SET_TUNNEL_PARAM_TUNNEL_ID, DPDK_ACTION_SET_TUNNEL_PARAM_DST_ADDR])]\<rparr>"

definition dpdk_vxlan_encap_schema :: entry_schema where [schema_defs]:
  "dpdk_vxlan_encap_schema = \<lparr>
     sc_table = DPDK_VXLAN_ENCAP_MOD_TABLE,
     sc_keys = [DPDK_VXLAN_ENCAP_MOD_TABLE_KEY_VENDORMETA_MOD_DATA_PTR],
     sc_actions =
       [(DPDK_ACTION_VXLAN_ENCAP,
         [DPDK_ACTION_VXLAN_ENCAP_PARAM_SRC_ADDR,
          DPDK_ACTION_VXLAN_ENCAP_PARAM_DST_ADDR,
          DPDK_ACTION_VXLAN_ENCAP_PARAM_DST_PORT,
          DPDK_ACTION_VXLAN_ENCAP_PARAM_VNI])]\<rparr>"

definition dpdk_tunnel_term_schema :: entry_schema where [schema_defs]:
  "dpdk_tunnel_term_schema = \<lparr>
     sc_table = DPDK_IPV4_TUNNEL_TERM_TABLE,
     sc_keys =
       [DPDK_IPV4_TUNNEL_TERM_TABLE_KEY_IPV4_SRC,
        DPDK_IPV4_TUNNEL_TERM_TABLE_KEY_TUNNEL_TYPE,
        DPDK_IPV4_TUNNEL_TERM_TABLE_KEY_IPV4_DST],
     sc_actions = [(DPDK_ACTION_DECAP_OUTER_IPV4, [DPDK_ACTION_DECAP_OUTER_IPV4_PARAM_TUNNEL_ID])]\<rparr>"

definition dpdk_schemas :: "entry_schema list" where
  "dpdk_schemas =
     [dpdk_fdb_tx_vlan_schema, dpdk_fdb_rx_vlan_schema, dpdk_fdb_vxlan_schema,
      dpdk_vxlan_encap_schema, dpdk_tunnel_term_schema]"

lemma dpdk_schemas_wf:
  "schema_wf dpdk_fdb_tx_vlan_schema"
  "schema_wf dpdk_fdb_rx_vlan_schema"
  "schema_wf dpdk_fdb_vxlan_schema"
  "schema_wf dpdk_vxlan_encap_schema"
  "schema_wf dpdk_tunnel_term_schema"
  by (simp_all add: schema_wf_def schema_defs p4_names)

text \<open>The receive-side encoder looks its action up under the transmit table's macro and
  its parameter under the receive table's; both macros are the same action name.\<close>

lemma dpdk_l2_fwd_same:
  "DPDK_L2_FWD_RX_TABLE_ACTION_L2_FWD = DPDK_L2_FWD_TX_TABLE_ACTION_L2_FWD"
  by (simp add: p4_names)

interpretation dpdk_fdb_tx_vlan: entry_encoder
    "\<lambda>te i p b. fst (dpdk_EncodeFdbTxVlanTableEntry te i p b d)" dpdk_fdb_tx_vlan_schema
    "\<lambda>_. True" for d
  by (unfold_locales; (rule dpdk_schemas_wf)?;
      auto simp: dpdk_EncodeFdbTxVlanTableEntry_def dpdk_EncodeL2FwdTxTablePrologue_def
        dpdk_fdb_tx_vlan_schema_def encoder_simps)

interpretation dpdk_fdb_rx_vlan: entry_encoder
    "\<lambda>te i p b. fst (dpdk_EncodeFdbRxVlanTableEntry te i p b d)" dpdk_fdb_rx_vlan_schema
    "\<lambda>_. True" for d
  by (unfold_locales; (rule dpdk_schemas_wf)?;
      auto simp: dpdk_EncodeFdbRxVlanTableEntry_def dpdk_l2_fwd_same
        dpdk_fdb_rx_vlan_schema_def encoder_simps)

interpretation dpdk_fdb_vxlan: entry_encoder
    "\<lambda>te i p b. fst (dpdk_EncodeFdbTableEntryforV4VxlanTunnel te i p b d)" dpdk_fdb_vxlan_schema
    "\<lambda>_. True" for d
  by (unfold_locales; (rule dpdk_schemas_wf)?;
      auto simp: dpdk_EncodeFdbTableEntryforV4VxlanTunnel_def dpdk_EncodeL2FwdTxTablePrologue_def
        dpdk_fdb_vxlan_schema_def encoder_simps)

interpretation dpdk_vxlan_encap: entry_encoder
    dpdk_EncodeVxlanEncapTableEntry dpdk_vxlan_encap_schema "\<lambda>_. True"
  by (unfold_locales; (rule dpdk_schemas_wf)?;
      auto simp: dpdk_EncodeVxlanEncapTableEntry_def dpdk_vxlan_encap_schema_def encoder_simps)

interpretation dpdk_tunnel_term: entry_encoder
    dpdk_EncodeTunnelTermTableEntry dpdk_tunnel_term_schema "\<lambda>_. True"
  by (unfold_locales; (rule dpdk_schemas_wf)?;
      auto simp: dpdk_EncodeTunnelTermTableEntry_def dpdk_tunnel_term_schema_def encoder_simps)

end
