(* ===== verification/Dpdk_Entries.thy ===== *)
theory Dpdk_Entries
  imports Entry_Ops Dpdk_Encoders
begin

text \<open>
  \<^verbatim>\<open>core/v3/dpdk_config_fdb_entry.cc\<close> and \<^verbatim>\<open>core/v3/dpdk_config_tunnel_entry.cc\<close>: the
  FDB and the tunnel entry of the DPDK target, with the prefix \<open>dpdk_\<close> as in
  \<open>Dpdk_Encoders\<close>.
\<close>

section \<open>FDB entries\<close>

definition dpdk_WriteFdbTxVlanTableEntry ::
    "('c, 'e) ClientInterface \<Rightarrow> mac_learning_info \<Rightarrow> P4Info \<Rightarrow> bool \<Rightarrow> ('c, 'e) world \<Rightarrow>
     (('c, 'e) world, Status) result" where
  "dpdk_WriteFdbTxVlanTableEntry client learn_info p4info insert_entry w = do {
     ((table_entry, write_request), w) \<leftarrow> ci_initWriteRequest client empty_WriteRequest insert_entry w;
     let (entry, detail) = dpdk_EncodeFdbTxVlanTableEntry (write_entry table_entry write_request)
           learn_info p4info insert_entry default_DiagDetail;
     (status, w) \<leftarrow>
       ci_sendWriteRequest client (put_write_entry table_entry entry write_request) w;
     Some (status,
       if \<not> ok status
       then LogFailureWithMacAddr insert_entry (getLogTableName detail) (ml_mac_addr learn_info) w
       else w)
   }"

definition dpdk_WriteFdbRxVlanTableEntry ::
    "('c, 'e) ClientInterface \<Rightarrow> mac_learning_info \<Rightarrow> P4Info \<Rightarrow> bool \<Rightarrow> ('c, 'e) world \<Rightarrow>
     (('c, 'e) world, Status) result" where
  "dpdk_WriteFdbRxVlanTableEntry client learn_info p4info insert_entry w = do {
     ((table_entry, write_request), w) \<leftarrow> ci_initWriteRequest client empty_WriteRequest insert_entry w;
     let (entry, detail) = dpdk_EncodeFdbRxVlanTableEntry (write_entry table_entry write_request)
           learn_info p4info insert_entry default_DiagDetail;
     (status, w) \<leftarrow>
       ci_sendWriteRequest client (put_write_entry table_entry entry write_request) w;
     Some (status,
       if \<not> ok status
       then LogFailureWithMacAddr insert_entry (getLogTableName detail) (ml_mac_addr learn_info) w
       else w)
   }"

definition dpdk_WriteFdbTunnelTableEntry ::
    "('c, 'e) ClientInterface \<Rightarrow> mac_learning_info \<Rightarrow> P4Info \<Rightarrow> bool \<Rightarrow> ('c, 'e) world \<Rightarrow>
     (('c, 'e) world, Status) result" where
  "dpdk_WriteFdbTunnelTableEntry client learn_info p4info insert_entry w = do {
     ((table_entry, write_request), w) \<leftarrow> ci_initWriteRequest client empty_WriteRequest insert_entry w;
     let (entry, detail) = dpdk_EncodeFdbTableEntryforV4VxlanTunnel (write_entry table_entry write_request)
           learn_info p4info insert_entry default_DiagDetail;
     (status, w) \<leftarrow>
       ci_sendWriteRequest client (put_write_entry table_entry entry write_request) w;
     Some (status,
       if \<not> ok status
       then LogFailureWithMacAddr insert_entry (getLogTableName detail) (ml_mac_addr learn_info) w
       else w)
   }"

definition dpdk_ConfigFdbEntry ::
    "('c, 'e) ClientInterface \<Rightarrow> mac_learning_info \<Rightarrow> P4Info \<Rightarrow> bool \<Rightarrow> ('c, 'e) world \<Rightarrow>
     (('c, 'e) world, Status) result" where
  "dpdk_ConfigFdbEntry client learn_info p4info insert_entry w = 
     (if ml_is_tunnel learn_info then
        dpdk_WriteFdbTunnelTableEntry client learn_info p4info insert_entry w
      else if ml_is_vlan learn_info then do {
        (status, w) \<leftarrow> dpdk_WriteFdbTxVlanTableEntry client learn_info p4info insert_entry w;
        if \<not> ok status then Some (status, w)
        else dpdk_WriteFdbRxVlanTableEntry client learn_info p4info insert_entry w
      }
      else Some (OkStatus, w))"

definition dpdk_DoConfigFdbEntry ::
    "('c, 'e) ClientInterface \<Rightarrow> mac_learning_info \<Rightarrow> bool \<Rightarrow> string \<Rightarrow> ('c, 'e) world \<Rightarrow>
     (('c, 'e) world, Status) result" where
  "dpdk_DoConfigFdbEntry client learn_info insert_entry grpc_addr w = do {
     (status, w) \<leftarrow> ci_connect client grpc_addr w;
     if \<not> ok status then Some (status, w)
     else do {
       ((status, p4info), w) \<leftarrow> ci_getPipelineConfig client empty_P4Info w;
       if \<not> ok status then Some (status, w)
       else dpdk_ConfigFdbEntry client learn_info p4info insert_entry w
     }
   }"

section \<open>Tunnel entries\<close>

definition dpdk_PrepareV4EncapTableEntry ::
    "TableEntry \<Rightarrow> tunnel_info \<Rightarrow> P4Info \<Rightarrow> bool \<Rightarrow> TableEntry" where
  "dpdk_PrepareV4EncapTableEntry table_entry tunnel_info p4info insert_entry =
     dpdk_EncodeVxlanEncapTableEntry table_entry tunnel_info p4info insert_entry"

definition dpdk_WriteEncapTableEntry ::
    "('c, 'e) ClientInterface \<Rightarrow> tunnel_info \<Rightarrow> P4Info \<Rightarrow> bool \<Rightarrow> ('c, 'e) world \<Rightarrow>
     (('c, 'e) world, Status) result" where
  "dpdk_WriteEncapTableEntry client tunnel_info p4info insert_entry w = do {
     ((table_entry, write_request), w) \<leftarrow> ci_initWriteRequest client empty_WriteRequest insert_entry w;
     let write_request = put_write_entry table_entry
           (dpdk_PrepareV4EncapTableEntry (write_entry table_entry write_request)
              tunnel_info p4info insert_entry) write_request;
     ci_sendWriteRequest client write_request w
   }"

definition dpdk_WriteTunnelTermTableEntry ::
    "('c, 'e) ClientInterface \<Rightarrow> tunnel_info \<Rightarrow> P4Info \<Rightarrow> bool \<Rightarrow> ('c, 'e) world \<Rightarrow>
     (('c, 'e) world, Status) result" where
  "dpdk_WriteTunnelTermTableEntry client tunnel_info p4info insert_entry w = do {
     ((table_entry, write_request), w) \<leftarrow> ci_initWriteRequest client empty_WriteRequest insert_entry w;
     let write_request = put_write_entry table_entry
           (dpdk_EncodeTunnelTermTableEntry (write_entry table_entry write_request)
              tunnel_info p4info insert_entry) write_request;
     ci_sendWriteRequest client write_request w
   }"

definition dpdk_ConfigTunnelEntry ::
    "('c, 'e) ClientInterface \<Rightarrow> tunnel_info \<Rightarrow> P4Info \<Rightarrow> bool \<Rightarrow> ('c, 'e) world \<Rightarrow>
     (('c, 'e) world, Status) result" where
  "dpdk_ConfigTunnelEntry client tunnel_info p4info insert_entry w = do {
     (status, w) \<leftarrow> dpdk_WriteEncapTableEntry client tunnel_info p4info insert_entry w;
     if \<not> ok status then Some (status, w)
     else dpdk_WriteTunnelTermTableEntry client tunnel_info p4info insert_entry w
   }"

definition dpdk_DoConfigTunnelEntry ::
    "('c, 'e) ClientInterface \<Rightarrow> tunnel_info \<Rightarrow> bool \<Rightarrow> string \<Rightarrow> ('c, 'e) world \<Rightarrow>
     (('c, 'e) world, Status) result" where
  "dpdk_DoConfigTunnelEntry client tunnel_info insert_entry grpc_addr w = do {
     (status, w) \<leftarrow> ci_connect client grpc_addr w;
     if \<not> ok status then Some (status, w)
     else do {
       ((status, p4info), w) \<leftarrow> ci_getPipelineConfig client empty_P4Info w;
       if \<not> ok status then Some (status, w)
       else dpdk_ConfigTunnelEntry client tunnel_info p4info insert_entry w
     }
   }"

section \<open>Lemmas\<close>

text \<open>The entries of an FDB and of a tunnel configuration, in the order they are written.\<close>

definition dpdk_fdb_entries :: "mac_learning_info \<Rightarrow> P4Info \<Rightarrow> bool \<Rightarrow> TableEntry list" where
  "dpdk_fdb_entries i p b =
     (if ml_is_tunnel i then
        [fst (dpdk_EncodeFdbTableEntryforV4VxlanTunnel empty_TableEntry i p b default_DiagDetail)]
      else if ml_is_vlan i then
        [fst (dpdk_EncodeFdbTxVlanTableEntry empty_TableEntry i p b default_DiagDetail),
         fst (dpdk_EncodeFdbRxVlanTableEntry empty_TableEntry i p b default_DiagDetail)]
      else [])"

definition dpdk_tunnel_entries :: "tunnel_info \<Rightarrow> P4Info \<Rightarrow> bool \<Rightarrow> TableEntry list" where
  "dpdk_tunnel_entries t p b =
     [dpdk_EncodeVxlanEncapTableEntry empty_TableEntry t p b,
      dpdk_EncodeTunnelTermTableEntry empty_TableEntry t p b]"

lemma dpdk_DoConfigFdbEntry_in_session:
  "dpdk_DoConfigFdbEntry client i b addr =
     in_session client addr (\<lambda>p4info. dpdk_ConfigFdbEntry client i p4info b)"
  by (rule ext) (simp add: dpdk_DoConfigFdbEntry_def in_session_def)

lemma dpdk_DoConfigTunnelEntry_in_session:
  "dpdk_DoConfigTunnelEntry client i b addr =
     in_session client addr (\<lambda>p4info. dpdk_ConfigTunnelEntry client i p4info b)"
  by (rule ext) (simp add: dpdk_DoConfigTunnelEntry_def in_session_def)

context client_interface
begin

lemma dpdk_WriteFdbTxVlan:
  "ready (w_client w) \<Longrightarrow> dpdk_WriteFdbTxVlanTableEntry ci i p b w =
     send_logged (\<lambda>t. LogFailureWithMacAddr b t (ml_mac_addr i)) b
       (dpdk_EncodeFdbTxVlanTableEntry empty_TableEntry i p b default_DiagDetail) w"
  unfolding dpdk_WriteFdbTxVlanTableEntry_def Let_def
  by (rule write_logged_shape
      [where f = "\<lambda>te. dpdk_EncodeFdbTxVlanTableEntry te i p b default_DiagDetail"
         and log = "\<lambda>t. LogFailureWithMacAddr b t (ml_mac_addr i)"])

lemma dpdk_WriteFdbTxVlan_stays:
  "ready (w_client w) \<Longrightarrow> runs (stays w) (dpdk_WriteFdbTxVlanTableEntry ci i p b w)"
  by (simp add: dpdk_WriteFdbTxVlan send_logged_stays)

lemma dpdk_WriteFdbRxVlan:
  "ready (w_client w) \<Longrightarrow> dpdk_WriteFdbRxVlanTableEntry ci i p b w =
     send_logged (\<lambda>t. LogFailureWithMacAddr b t (ml_mac_addr i)) b
       (dpdk_EncodeFdbRxVlanTableEntry empty_TableEntry i p b default_DiagDetail) w"
  unfolding dpdk_WriteFdbRxVlanTableEntry_def Let_def
  by (rule write_logged_shape
      [where f = "\<lambda>te. dpdk_EncodeFdbRxVlanTableEntry te i p b default_DiagDetail"
         and log = "\<lambda>t. LogFailureWithMacAddr b t (ml_mac_addr i)"])

lemma dpdk_WriteFdbRxVlan_stays:
  "ready (w_client w) \<Longrightarrow> runs (stays w) (dpdk_WriteFdbRxVlanTableEntry ci i p b w)"
  by (simp add: dpdk_WriteFdbRxVlan send_logged_stays)

lemma dpdk_WriteFdbTunnel:
  "ready (w_client w) \<Longrightarrow> dpdk_WriteFdbTunnelTableEntry ci i p b w =
     send_logged (\<lambda>t. LogFailureWithMacAddr b t (ml_mac_addr i)) b
       (dpdk_EncodeFdbTableEntryforV4VxlanTunnel empty_TableEntry i p b default_DiagDetail) w"
  unfolding dpdk_WriteFdbTunnelTableEntry_def Let_def
  by (rule write_logged_shape
      [where f = "\<lambda>te. dpdk_EncodeFdbTableEntryforV4VxlanTunnel te i p b default_DiagDetail"
         and log = "\<lambda>t. LogFailureWithMacAddr b t (ml_mac_addr i)"])

lemma dpdk_WriteFdbTunnel_stays:
  "ready (w_client w) \<Longrightarrow> runs (stays w) (dpdk_WriteFdbTunnelTableEntry ci i p b w)"
  by (simp add: dpdk_WriteFdbTunnel send_logged_stays)

lemma dpdk_WriteEncap:
  "ready (w_client w) \<Longrightarrow> dpdk_WriteEncapTableEntry ci i p b w = send_entry b (dpdk_PrepareV4EncapTableEntry empty_TableEntry i p b) w"
  unfolding dpdk_WriteEncapTableEntry_def Let_def
  by (rule write_shape [where f = "\<lambda>te. dpdk_PrepareV4EncapTableEntry te i p b"])

lemma dpdk_WriteTunnelTerm:
  "ready (w_client w) \<Longrightarrow> dpdk_WriteTunnelTermTableEntry ci i p b w = send_entry b (dpdk_EncodeTunnelTermTableEntry empty_TableEntry i p b) w"
  unfolding dpdk_WriteTunnelTermTableEntry_def Let_def
  by (rule write_shape [where f = "\<lambda>te. dpdk_EncodeTunnelTermTableEntry te i p b"])

lemma dpdk_ConfigFdbEntry_stays:
  "ready (w_client w) \<Longrightarrow> runs (stays w) (dpdk_ConfigFdbEntry ci i p b w)"
  unfolding dpdk_ConfigFdbEntry_def
  by (auto simp: stays_refl intro!: stays_then dpdk_WriteFdbTxVlan_stays dpdk_WriteFdbRxVlan_stays
      dpdk_WriteFdbTunnel_stays)

lemma dpdk_DoConfigFdbEntry_returns: "runs (\<lambda>_. True) (dpdk_DoConfigFdbEntry ci i b addr w)"
  unfolding dpdk_DoConfigFdbEntry_in_session
  by (intro in_session_returns runs_mono [OF dpdk_ConfigFdbEntry_stays]) simp_all

lemma dpdk_ConfigTunnelEntry_stays:
  "ready (w_client w) \<Longrightarrow> runs (stays w) (dpdk_ConfigTunnelEntry ci i p b w)"
  unfolding dpdk_ConfigTunnelEntry_def
  by (auto simp: dpdk_WriteEncap dpdk_WriteTunnelTerm stays_refl intro!: stays_then send_entry_stays)

lemma dpdk_DoConfigTunnelEntry_returns: "runs (\<lambda>_. True) (dpdk_DoConfigTunnelEntry ci i b addr w)"
  unfolding dpdk_DoConfigTunnelEntry_in_session
  by (intro in_session_returns runs_mono [OF dpdk_ConfigTunnelEntry_stays]) simp_all

end

lemma cl_dpdk_ConfigTunnelEntry:
  assumes "cl_session (w_client w) = Some s"
  shows "dpdk_ConfigTunnelEntry (Client_vtable g flags) t p b w =
    (let (st, e) = write_all g s b (dpdk_tunnel_entries t p b) (w_env w)
     in Some (st, w\<lparr>w_env := e\<rparr>))"
  using assms
  by (simp add: dpdk_ConfigTunnelEntry_def cl.dpdk_WriteEncap cl.dpdk_WriteTunnelTerm
      dpdk_PrepareV4EncapTableEntry_def cl_simps dpdk_tunnel_entries_def Let_def split: prod.split)

lemma cl_dpdk_ConfigFdbEntry:
  assumes "cl_session (w_client w) = Some s"
  shows "\<exists>w'. dpdk_ConfigFdbEntry (Client_vtable g flags) i p b w =
      Some (fst (write_all g s b (dpdk_fdb_entries i p b) (w_env w)), w') \<and>
    w_client w' = w_client w \<and>
    w_env w' = snd (write_all g s b (dpdk_fdb_entries i p b) (w_env w))"
  using assms
  by (auto simp: dpdk_ConfigFdbEntry_def cl.dpdk_WriteFdbTxVlan cl.dpdk_WriteFdbRxVlan
      cl.dpdk_WriteFdbTunnel cl_simps dpdk_fdb_entries_def Let_def split: prod.split)

end
