(* ===== verification/Standard_Api.thy ===== *)
theory Standard_Api
  imports Vlan_Entry Src_Port_Entry Ip_Mac_Map_Entry Es2k_Tunnel_Entry Es2k_Fdb_Entry Dpdk_Entries
begin

text \<open>
  \<^verbatim>\<open>core/api/ovsp4rt_standard_api.cc\<close>: the seven functions of the C interface. Each
  creates a client on the stack, calls its \<open>DoConfig\<close> function and ignores the status.
  What the caller can observe is the environment and the lines on standard output. The
  build defines either \<open>DPDK_TARGET\<close> or \<open>ES2K_TARGET\<close>; five functions are empty on DPDK.
\<close>

datatype target = DPDK_TARGET | ES2K_TARGET

type_synonym 'e outside = "'e \<times> string list"

text \<open>\<open>Client client;\<close>, the call, \<open>.IgnoreError()\<close>, and the destruction of the client.\<close>

definition with_client ::
    "((Client, 'e) world \<Rightarrow> ((Client, 'e) world, Status) result) \<Rightarrow> 'e outside \<Rightarrow>
     'e outside option" where
  "with_client call io = do {
     (_, w) \<leftarrow> call \<lparr>w_client = Client_new, w_env = fst io, w_out = snd io\<rparr>;
     Some (w_env w, w_out w)
   }"

definition ovsp4rt_config_fdb_entry ::
    "target \<Rightarrow> 'e grpc_env \<Rightarrow> client_flags \<Rightarrow> mac_learning_info \<Rightarrow> bool \<Rightarrow> string \<Rightarrow>
     'e outside \<Rightarrow> 'e outside option" where
  "ovsp4rt_config_fdb_entry target g flags learn_info insert_entry grpc_addr io =
     (case target of
        DPDK_TARGET \<Rightarrow> 
          with_client (dpdk_DoConfigFdbEntry (Client_vtable g flags) learn_info insert_entry grpc_addr) io
      | ES2K_TARGET \<Rightarrow>
          with_client (DoConfigFdbEntry (Client_vtable g flags) learn_info insert_entry grpc_addr) io)"

definition ovsp4rt_config_tunnel_entry ::
    "target \<Rightarrow> 'e grpc_env \<Rightarrow> client_flags \<Rightarrow> tunnel_info \<Rightarrow> bool \<Rightarrow> string \<Rightarrow>
     'e outside \<Rightarrow> 'e outside option" where
  "ovsp4rt_config_tunnel_entry target g flags tunnel_info insert_entry grpc_addr io =
     (case target of
        DPDK_TARGET \<Rightarrow> 
          with_client (dpdk_DoConfigTunnelEntry (Client_vtable g flags) tunnel_info insert_entry grpc_addr) io
      | ES2K_TARGET \<Rightarrow>
          with_client (DoConfigTunnelEntry (Client_vtable g flags) tunnel_info insert_entry grpc_addr) io)"

definition ovsp4rt_config_rx_tunnel_src_entry ::
    "target \<Rightarrow> 'e grpc_env \<Rightarrow> client_flags \<Rightarrow> tunnel_info \<Rightarrow> bool \<Rightarrow> string \<Rightarrow>
     'e outside \<Rightarrow> 'e outside option" where
  "ovsp4rt_config_rx_tunnel_src_entry target g flags tunnel_info insert_entry grpc_addr io =
     (case target of
        DPDK_TARGET \<Rightarrow> Some io
      | ES2K_TARGET \<Rightarrow>
          with_client (DoConfigRxTunnelSrcEntry (Client_vtable g flags) tunnel_info insert_entry grpc_addr) io)"

definition ovsp4rt_config_vlan_entry ::
    "target \<Rightarrow> 'e grpc_env \<Rightarrow> client_flags \<Rightarrow> u16 \<Rightarrow> bool \<Rightarrow> string \<Rightarrow>
     'e outside \<Rightarrow> 'e outside option" where
  "ovsp4rt_config_vlan_entry target g flags vlan_id insert_entry grpc_addr io =
     (case target of
        DPDK_TARGET \<Rightarrow> Some io
      | ES2K_TARGET \<Rightarrow>
          with_client (DoConfigVlanEntry (Client_vtable g flags) vlan_id insert_entry grpc_addr) io)"

definition ovsp4rt_config_tunnel_src_port_entry ::
    "target \<Rightarrow> 'e grpc_env \<Rightarrow> client_flags \<Rightarrow> src_port_info \<Rightarrow> bool \<Rightarrow> string \<Rightarrow>
     'e outside \<Rightarrow> 'e outside option" where
  "ovsp4rt_config_tunnel_src_port_entry target g flags tnl_sp insert_entry grpc_addr io =
     (case target of
        DPDK_TARGET \<Rightarrow> Some io
      | ES2K_TARGET \<Rightarrow>
          with_client (DoConfigTunnelSrcPortEntry (Client_vtable g flags) tnl_sp insert_entry grpc_addr) io)"

definition ovsp4rt_config_src_port_entry ::
    "target \<Rightarrow> 'e grpc_env \<Rightarrow> client_flags \<Rightarrow> src_port_info \<Rightarrow> bool \<Rightarrow> string \<Rightarrow>
     'e outside \<Rightarrow> 'e outside option" where
  "ovsp4rt_config_src_port_entry target g flags vsi_sp insert_entry grpc_addr io =
     (case target of
        DPDK_TARGET \<Rightarrow> Some io
      | ES2K_TARGET \<Rightarrow>
          with_client (DoConfigSrcPortEntry (Client_vtable g flags) vsi_sp insert_entry grpc_addr) io)"

definition ovsp4rt_config_ip_mac_map_entry ::
    "target \<Rightarrow> 'e grpc_env \<Rightarrow> client_flags \<Rightarrow> ip_mac_map_info \<Rightarrow> bool \<Rightarrow> string \<Rightarrow>
     'e outside \<Rightarrow> 'e outside option" where
  "ovsp4rt_config_ip_mac_map_entry target g flags ip_info insert_entry grpc_addr io =
     (case target of
        DPDK_TARGET \<Rightarrow> Some io
      | ES2K_TARGET \<Rightarrow>
          with_client (DoConfigIpMacMapEntry (Client_vtable g flags) ip_info insert_entry grpc_addr) io)"

section \<open>Lemmas\<close>

lemma with_client_returns:
  assumes "\<And>w. runs (\<lambda>_. True) (call w)"
  shows "\<exists>io'. with_client call io = Some io'"
  using assms [of "\<lparr>w_client = Client_new, w_env = fst io, w_out = snd io\<rparr>"]
  by (auto simp: with_client_def runs_def)

end
