(* ===== verification/Journal.thy ===== *)
theory Journal
  imports Standard_Api
begin

text \<open>
  \<^verbatim>\<open>sidecar/journal\<close>, \<^verbatim>\<open>client/ovsp4rt_journal_client.cc\<close> and
  \<^verbatim>\<open>core/api/ovsp4rt_journal_api.cc\<close>: the journaling variant of the C interface. Its client
  prints every request and every answer as JSON, and a call starts with a record of its
  arguments.

  The JSON library and the JSON conversion of protobuf messages are code outside the
  repository: the functions the journal uses of them are the fields of \<open>json_lib\<close>, on a type
  of JSON values that is a parameter. Converting a value to text and parsing a text may
  throw an exception, and no function catches it: the result is \<open>None\<close>.
\<close>

section \<open>The libraries\<close>

text \<open>\<open>j_null\<close> is a new value; \<open>j_index j k\<close> is the value of \<open>j[k]\<close>, a new value where \<open>j\<close> has no
  \<open>k\<close>; \<open>j_assign j k v\<close> is \<open>j\<close> after \<open>j[k] = v\<close>; \<open>j_array\<close> is an initializer list of values,
  \<open>j_dump n\<close> is \<open>dump(n)\<close>. The \<open>pb\<close> functions are \<open>MessageToJsonString\<close> for the three messages.\<close>

record 'j json_lib =
  j_null :: 'j
  j_bool :: "bool \<Rightarrow> 'j"
  j_number :: "int \<Rightarrow> 'j"
  j_string :: "string \<Rightarrow> 'j"
  j_array :: "'j list \<Rightarrow> 'j"
  j_index :: "'j \<Rightarrow> string \<Rightarrow> 'j"
  j_assign :: "'j \<Rightarrow> string \<Rightarrow> 'j \<Rightarrow> 'j"
  j_parse :: "string \<Rightarrow> 'j option"
  j_dump :: "nat \<Rightarrow> 'j \<Rightarrow> string option"
  pb_ReadRequest :: "ReadRequest \<Rightarrow> Status \<times> string"
  pb_ReadResponse :: "ReadResponse \<Rightarrow> Status \<times> string"
  pb_WriteRequest :: "WriteRequest \<Rightarrow> Status \<times> string"

text \<open>An initializer list of pairs of a key and a value makes an object.\<close>

definition j_object :: "'j json_lib \<Rightarrow> (string \<times> 'j) list \<Rightarrow> 'j" where
  "j_object L members = foldl (\<lambda>json (k, v). j_assign L json k v) (j_null L) members"

section \<open>ovsp4rt\_encode\_inputs\<close>

definition LEARN_INFO_VERSION :: u32 where "LEARN_INFO_VERSION = 1"
definition PORT_INFO_VERSION :: u32 where "PORT_INFO_VERSION = 1"
definition TUNNEL_INFO_VERSION :: u32 where "TUNNEL_INFO_VERSION = 1"
definition VLAN_ID_VERSION :: u32 where "VLAN_ID_VERSION = 1"
definition IP_MAC_MAP_INFO_VERSION :: u32 where "IP_MAC_MAP_INFO_VERSION = 1"

definition u6_addr16 :: "u128 \<Rightarrow> nat \<Rightarrow> u16" where
  "u6_addr16 a i = ucast (drop_bit (16 * i) a)"

fun vlan_mode_value :: "p4_vlan_mode \<Rightarrow> int" where
  "vlan_mode_value P4_PORT_VLAN_ACCESS = 0"
| "vlan_mode_value P4_PORT_VLAN_TRUNK = 1"
| "vlan_mode_value P4_PORT_VLAN_NATIVE_TAGGED = 2"
| "vlan_mode_value P4_PORT_VLAN_NATIVE_UNTAGGED = 3"
| "vlan_mode_value P4_PORT_VLAN_DOT1Q_TUNNEL = 4"
| "vlan_mode_value P4_PORT_VLAN_UNSUPPORTED = 5"

subsection \<open>Structures\<close>

definition IpAddrToJson :: "'j json_lib \<Rightarrow> 'j \<Rightarrow> p4_ipaddr \<Rightarrow> 'j" where
  "IpAddrToJson L json info =
     (let json = j_assign L json ''family'' (j_number L (uint (ip_family info)));
          json = j_assign L json ''prefix_len'' (j_number L (uint (ip_prefix_len info)))
      in if ip_family info = AF_INET then
           j_assign L json ''ipv4_addr'' (j_array L [j_number L (uint (v4addr_s_addr info))])
         else if ip_family info = AF_INET6 then
           (let v6addr = u6_addr16 (ip_mem info)
            in j_assign L json ''ipv6_addr''
                 (j_array L (map (\<lambda>i. j_number L (uint (v6addr i))) [0, 1, 2, 3, 4, 5, 6, 7])))
         else json)"

definition MacAddrToJson :: "'j json_lib \<Rightarrow> 'j \<Rightarrow> mac_addr \<Rightarrow> 'j" where
  "MacAddrToJson L json mac_addr =
     j_array L (map (\<lambda>b. j_number L (uint b))
       [mac0 mac_addr, mac1 mac_addr, mac2 mac_addr, mac3 mac_addr, mac4 mac_addr, mac5 mac_addr])"

definition IpMacMapInfoToJson :: "'j json_lib \<Rightarrow> 'j \<Rightarrow> ip_mac_map_info \<Rightarrow> 'j" where
  "IpMacMapInfoToJson L json info =
     (let json = j_assign L json ''src_mac_addr''
            (MacAddrToJson L (j_index L json ''src_mac_addr'') (im_src_mac_addr info));
          json = j_assign L json ''dst_mac_addr''
            (MacAddrToJson L (j_index L json ''dst_mac_addr'') (im_dst_mac_addr info));
          json = j_assign L json ''src_ip_addr''
            (IpAddrToJson L (j_index L json ''src_ip_addr'') (im_src_ip_addr info));
          json = j_assign L json ''dst_ip_addr''
            (IpAddrToJson L (j_index L json ''dst_ip_addr'') (im_dst_ip_addr info))
      in json)"

definition PortVlanInfoToJson :: "'j json_lib \<Rightarrow> 'j \<Rightarrow> port_vlan_info \<Rightarrow> 'j" where
  "PortVlanInfoToJson L json info =
     (let json = j_assign L json ''port_vlan_mode'' (j_number L (vlan_mode_value (pv_mode info)));
          json = j_assign L json ''port_vlan'' (j_number L (uint (pv_vlan info)))
      in json)"

definition SrcPortInfoToJson :: "'j json_lib \<Rightarrow> 'j \<Rightarrow> src_port_info \<Rightarrow> 'j" where
  "SrcPortInfoToJson L json info =
     (let json = j_assign L json ''bridge_id'' (j_number L (uint (sp_bridge_id info)));
          json = j_assign L json ''vlan_id'' (j_number L (uint (sp_vlan_id info)));
          json = j_assign L json ''src_port'' (j_number L (uint (sp_src_port info)))
      in json)"

definition TunnelInfoToJson :: "'j json_lib \<Rightarrow> 'j \<Rightarrow> tunnel_info \<Rightarrow> 'j" where
  "TunnelInfoToJson L json info =
     (let json = j_assign L json ''ifindex'' (j_number L (uint (ti_ifindex info)));
          json = j_assign L json ''port_id'' (j_number L (uint (ti_port_id info)));
          json = j_assign L json ''src_port'' (j_number L (uint (ti_src_port info)));
          json = j_assign L json ''local_ip''
            (IpAddrToJson L (j_index L json ''local_ip'') (ti_local_ip info));
          json = j_assign L json ''remote_ip''
            (IpAddrToJson L (j_index L json ''remote_ip'') (ti_remote_ip info));
          json = j_assign L json ''dst_port'' (j_number L (uint (ti_dst_port info)));
          json = j_assign L json ''vni'' (j_number L (uint (ti_vni info)));
          json = j_assign L json ''vlan_info''
            (PortVlanInfoToJson L (j_index L json ''vlan_info'') (ti_vlan_info info));
          json = j_assign L json ''bridge_id'' (j_number L (uint (ti_bridge_id info)));
          json = j_assign L json ''tunnel_type'' (j_number L (uint (ti_tunnel_type info)))
      in json)"

definition VlanInfoToJson :: "'j json_lib \<Rightarrow> 'j \<Rightarrow> vlan_info \<Rightarrow> 'j" where
  "VlanInfoToJson L json info =
     j_assign L json ''vlan_id'' (j_number L (uint (vi_vlan_id info)))"

definition MacLearningInfoToJson :: "'j json_lib \<Rightarrow> 'j \<Rightarrow> mac_learning_info \<Rightarrow> 'j" where
  "MacLearningInfoToJson L json info =
     (let json = j_assign L json ''is_tunnel'' (j_bool L (ml_is_tunnel info));
          json = j_assign L json ''is_vlan'' (j_bool L (ml_is_vlan info));
          json = j_assign L json ''mac_addr''
            (MacAddrToJson L (j_index L json ''mac_addr'') (ml_mac_addr info));
          json = j_assign L json ''bridge_id'' (j_number L (uint (ml_bridge_id info)));
          json = j_assign L json ''src_port'' (j_number L (uint (ml_src_port info)));
          json = j_assign L json ''rx_src_port'' (j_number L (uint (ml_rx_src_port info)));
          json = j_assign L json ''vlan_info''
            (PortVlanInfoToJson L (j_index L json ''vlan_info'') (ml_vlan_info info))
      in if ml_is_tunnel info then
           j_assign L json ''tnl_info''
             (TunnelInfoToJson L (j_index L json ''tnl_info'') (ml_tnl_info info))
         else if ml_is_vlan info then
           j_assign L json ''vln_info''
             (VlanInfoToJson L (j_index L json ''vln_info'') (ml_vln_info info))
         else json)"

subsection \<open>The inputs of a call\<close>

text \<open>\<open>auto& params = json["params"]\<close> creates the member; \<open>params\<close> is what is behind the
  reference and is stored back at the end.\<close>

definition EncodeIpMacMapInfo :: "'j json_lib \<Rightarrow> string \<Rightarrow> ip_mac_map_info \<Rightarrow> bool \<Rightarrow> 'j" where
  "EncodeIpMacMapInfo L func_name info insert_entry =
     (let json = j_assign L (j_null L) ''func_name'' (j_string L func_name);
          json = j_assign L json ''version'' (j_number L (uint IP_MAC_MAP_INFO_VERSION));
          json = j_assign L json ''struct_name'' (j_string L ''ip_mac_map_info'');
          params = j_index L json ''params'';
          params = j_assign L params ''ip_mac_map_info''
            (IpMacMapInfoToJson L (j_index L params ''ip_mac_map_info'') info);
          params = j_assign L params ''insert_entry'' (j_bool L insert_entry)
      in j_assign L json ''params'' params)"

definition EncodeMacLearningInfo :: "'j json_lib \<Rightarrow> string \<Rightarrow> mac_learning_info \<Rightarrow> bool \<Rightarrow> 'j" where
  "EncodeMacLearningInfo L func_name info insert_entry =
     (let json = j_assign L (j_null L) ''func_name'' (j_string L func_name);
          json = j_assign L json ''version'' (j_number L (uint LEARN_INFO_VERSION));
          json = j_assign L json ''struct_name'' (j_string L ''mac_learning_info'');
          params = j_index L json ''params'';
          params = j_assign L params ''learn_info''
            (MacLearningInfoToJson L (j_index L params ''learn_info'') info);
          params = j_assign L params ''insert_entry'' (j_bool L insert_entry)
      in j_assign L json ''params'' params)"

definition EncodeSrcPortInfo :: "'j json_lib \<Rightarrow> string \<Rightarrow> src_port_info \<Rightarrow> bool \<Rightarrow> 'j" where
  "EncodeSrcPortInfo L func_name info insert_entry =
     (let json = j_assign L (j_null L) ''func_name'' (j_string L func_name);
          json = j_assign L json ''version'' (j_number L (uint PORT_INFO_VERSION));
          json = j_assign L json ''struct_name'' (j_string L ''src_port_info'');
          params = j_index L json ''params'';
          params = j_assign L params ''port_info''
            (SrcPortInfoToJson L (j_index L params ''port_info'') info);
          params = j_assign L params ''insert_entry'' (j_bool L insert_entry)
      in j_assign L json ''params'' params)"

text \<open>The tunnel is a member of the outer object, not of \<open>params\<close>.\<close>

definition EncodeTunnelInfo :: "'j json_lib \<Rightarrow> string \<Rightarrow> tunnel_info \<Rightarrow> bool \<Rightarrow> 'j" where
  "EncodeTunnelInfo L func_name info insert_entry =
     (let json = j_assign L (j_null L) ''func_name'' (j_string L func_name);
          json = j_assign L json ''version'' (j_number L (uint TUNNEL_INFO_VERSION));
          json = j_assign L json ''struct_name'' (j_string L ''tunnel_info'');
          params = j_index L json ''params'';
          json = j_assign L json ''tunnel_info''
            (TunnelInfoToJson L (j_index L json ''tunnel_info'') info);
          params = j_assign L params ''insert_entry'' (j_bool L insert_entry)
      in j_assign L json ''params'' params)"

definition EncodeVlanId :: "'j json_lib \<Rightarrow> string \<Rightarrow> u16 \<Rightarrow> bool \<Rightarrow> 'j" where
  "EncodeVlanId L func_name vlan_id insert_entry =
     (let json = j_assign L (j_null L) ''func_name'' (j_string L func_name);
          json = j_assign L json ''version'' (j_number L (uint VLAN_ID_VERSION));
          params = j_index L json ''params'';
          params = j_assign L params ''vlan_id'' (j_number L (uint vlan_id));
          params = j_assign L params ''insert_entry'' (j_bool L insert_entry)
      in j_assign L json ''params'' params)"

section \<open>ovsp4rt\_encode\_actions\<close>

definition READ_REQUEST_VERSION :: u32 where "READ_REQUEST_VERSION = 0"
definition READ_RESPONSE_VERSION :: u32 where "READ_RESPONSE_VERSION = 0"
definition WRITE_REQUEST_VERSION :: u32 where "WRITE_REQUEST_VERSION = 0"
definition WRITE_STATUS_VERSION :: u32 where "WRITE_STATUS_VERSION = 0"

definition EncodeStatus :: "'j json_lib \<Rightarrow> Status \<Rightarrow> 'j" where
  "EncodeStatus L status =
     j_object L [(''code'', j_number L (st_code status)),
                 (''message'', j_string L (st_message status))]"

text \<open>The argument is the outcome of \<open>MessageToJsonString\<close>.\<close>

definition EncodeProtobuf :: "'j json_lib \<Rightarrow> Status \<times> string \<Rightarrow> 'j option" where
  "EncodeProtobuf L conversion =
     (let (status, jsonString) = conversion
      in if ok status then j_parse L jsonString
         else Some (j_object L [(''EncodeProtobuf'', EncodeStatus L status)]))"

definition EncodeReadRequest :: "'j json_lib \<Rightarrow> ReadRequest \<Rightarrow> 'j option" where
  "EncodeReadRequest L request = do {
     let json = j_assign L (j_null L) ''action'' (j_string L ''ReadRequest'');
     let json = j_assign L json ''version'' (j_number L (uint READ_REQUEST_VERSION));
     message \<leftarrow> EncodeProtobuf L (pb_ReadRequest L request);
     Some (j_assign L json ''message'' message)
   }"

definition EncodeReadResponse :: "'j json_lib \<Rightarrow> ReadResponse StatusOr \<Rightarrow> 'j option" where
  "EncodeReadResponse L response = do {
     let json = j_assign L (j_null L) ''action'' (j_string L ''ReadResponse'');
     let json = j_assign L json ''version'' (j_number L (uint READ_RESPONSE_VERSION));
     case response of
       Inr r \<Rightarrow> do {
         message \<leftarrow> EncodeProtobuf L (pb_ReadResponse L r);
         Some (j_assign L json ''message'' message)
       }
     | Inl status \<Rightarrow> Some (j_assign L json ''status'' (EncodeStatus L status))
   }"

definition EncodeWriteRequest :: "'j json_lib \<Rightarrow> WriteRequest \<Rightarrow> 'j option" where
  "EncodeWriteRequest L request = do {
     let json = j_assign L (j_null L) ''action'' (j_string L ''WriteRequest'');
     let json = j_assign L json ''version'' (j_number L (uint WRITE_REQUEST_VERSION));
     message \<leftarrow> EncodeProtobuf L (pb_WriteRequest L request);
     Some (j_assign L json ''message'' message)
   }"

definition EncodeWriteStatus :: "'j json_lib \<Rightarrow> Status \<Rightarrow> 'j option" where
  "EncodeWriteStatus L status = do {
     let json = j_assign L (j_null L) ''action'' (j_string L ''WriteStatus'');
     let json = j_assign L json ''version'' (j_number L (uint WRITE_STATUS_VERSION));
     Some (j_assign L json ''status'' (EncodeStatus L status))
   }"

section \<open>Journal\<close>

text \<open>The two members are never used: a record is printed at once, and \<open>saveEntry\<close> is empty.\<close>

record 'j Journal =
  jn_input :: 'j
  jn_actions :: "'j list"

definition journalInputs ::
    "'j json_lib \<Rightarrow> 'j \<Rightarrow> ('c, 'e) world \<Rightarrow> ('c, 'e) world option" where
  "journalInputs L json w = do {
     s \<leftarrow> j_dump L 4 json;
     Some (print_line (''inputs: '' @ s) w)
   }"

definition journalAction ::
    "'j json_lib \<Rightarrow> 'j \<Rightarrow> ('c, 'e) world \<Rightarrow> ('c, 'e) world option" where
  "journalAction L json w = do {
     s \<leftarrow> j_dump L 4 json;
     Some (print_line (''actions: '' @ s) w)
   }"

text \<open>The overloads of \<open>recordInputs\<close>.\<close>

definition recordInputs_learn_info ::
    "'j json_lib \<Rightarrow> string \<Rightarrow> mac_learning_info \<Rightarrow> bool \<Rightarrow> ('c, 'e) world \<Rightarrow> ('c, 'e) world option" where
  "recordInputs_learn_info L func_name info insert_entry w =
     journalInputs L (EncodeMacLearningInfo L func_name info insert_entry) w"

definition recordInputs_ip_mac_map ::
    "'j json_lib \<Rightarrow> string \<Rightarrow> ip_mac_map_info \<Rightarrow> bool \<Rightarrow> ('c, 'e) world \<Rightarrow> ('c, 'e) world option" where
  "recordInputs_ip_mac_map L func_name info insert_entry w =
     journalInputs L (EncodeIpMacMapInfo L func_name info insert_entry) w"

definition recordInputs_tunnel ::
    "'j json_lib \<Rightarrow> string \<Rightarrow> tunnel_info \<Rightarrow> bool \<Rightarrow> ('c, 'e) world \<Rightarrow> ('c, 'e) world option" where
  "recordInputs_tunnel L func_name info insert_entry w =
     journalInputs L (EncodeTunnelInfo L func_name info insert_entry) w"

definition recordInputs_src_port ::
    "'j json_lib \<Rightarrow> string \<Rightarrow> src_port_info \<Rightarrow> bool \<Rightarrow> ('c, 'e) world \<Rightarrow> ('c, 'e) world option" where
  "recordInputs_src_port L func_name info insert_entry w =
     journalInputs L (EncodeSrcPortInfo L func_name info insert_entry) w"

definition recordInputs_vlan_id ::
    "'j json_lib \<Rightarrow> string \<Rightarrow> u16 \<Rightarrow> bool \<Rightarrow> ('c, 'e) world \<Rightarrow> ('c, 'e) world option" where
  "recordInputs_vlan_id L func_name vlan_id insert_entry w =
     journalInputs L (EncodeVlanId L func_name vlan_id insert_entry) w"

definition recordReadRequest ::
    "'j json_lib \<Rightarrow> ReadRequest \<Rightarrow> ('c, 'e) world \<Rightarrow> ('c, 'e) world option" where
  "recordReadRequest L request w = do {
     action \<leftarrow> EncodeReadRequest L request;
     journalAction L action w
   }"

definition recordReadResponse ::
    "'j json_lib \<Rightarrow> ReadResponse StatusOr \<Rightarrow> ('c, 'e) world \<Rightarrow> ('c, 'e) world option" where
  "recordReadResponse L response w = do {
     action \<leftarrow> EncodeReadResponse L response;
     journalAction L action w
   }"

definition recordWriteRequest ::
    "'j json_lib \<Rightarrow> WriteRequest \<Rightarrow> ('c, 'e) world \<Rightarrow> ('c, 'e) world option" where
  "recordWriteRequest L request w = do {
     action \<leftarrow> EncodeWriteRequest L request;
     journalAction L action w
   }"

definition recordWriteStatus ::
    "'j json_lib \<Rightarrow> Status \<Rightarrow> ('c, 'e) world \<Rightarrow> ('c, 'e) world option" where
  "recordWriteStatus L status w = do {
     action \<leftarrow> EncodeWriteStatus L status;
     journalAction L action w
   }"

section \<open>JournalClient\<close>

text \<open>A client with a journal; the two functions that send are overridden.\<close>

record 'j JournalClient = Client +
  jc_journal :: "'j Journal"

definition JournalClient_new :: "'j json_lib \<Rightarrow> 'j JournalClient" where
  "JournalClient_new L =
     \<lparr>cl_session = None, jc_journal = \<lparr>jn_input = j_null L, jn_actions = []\<rparr>\<rparr>"

definition JournalClient_sendReadRequest ::
    "'j json_lib \<Rightarrow> 'e grpc_env \<Rightarrow> ReadRequest \<Rightarrow> ('j JournalClient, 'e) world \<Rightarrow>
     (('j JournalClient, 'e) world, ReadResponse StatusOr) result" where
  "JournalClient_sendReadRequest L g request w = do {
     w \<leftarrow> recordReadRequest L request w;
     (response, w) \<leftarrow> Client_DoSendReadRequest g request w;
     w \<leftarrow> recordReadResponse L response w;
     Some (response, w)
   }"

definition JournalClient_sendWriteRequest ::
    "'j json_lib \<Rightarrow> 'e grpc_env \<Rightarrow> WriteRequest \<Rightarrow> ('j JournalClient, 'e) world \<Rightarrow>
     (('j JournalClient, 'e) world, Status) result" where
  "JournalClient_sendWriteRequest L g request w = do {
     w \<leftarrow> recordWriteRequest L request w;
     (status, w) \<leftarrow> Client_DoSendWriteRequest g request w;
     w \<leftarrow> recordWriteStatus L status w;
     Some (status, w)
   }"

definition JournalClient_vtable ::
    "'j json_lib \<Rightarrow> 'e grpc_env \<Rightarrow> client_flags \<Rightarrow> ('j JournalClient, 'e) ClientInterface" where
  "JournalClient_vtable L g flags = (Client_vtable g flags)\<lparr>
     ci_sendReadRequest := JournalClient_sendReadRequest L g,
     ci_sendWriteRequest := JournalClient_sendWriteRequest L g\<rparr>"

section \<open>The journaling C interface\<close>

text \<open>\<open>JournalClient client;\<close>, the record of the inputs, the call and \<open>.IgnoreError()\<close>.\<close>

definition with_journal_client ::
    "'j json_lib \<Rightarrow> (('j JournalClient, 'e) world \<Rightarrow> ('j JournalClient, 'e) world option) \<Rightarrow>
     (('j JournalClient, 'e) world \<Rightarrow> (('j JournalClient, 'e) world, Status) result) \<Rightarrow>
     'e outside \<Rightarrow> 'e outside option" where
  "with_journal_client L record_inputs call io = do {
     w \<leftarrow> record_inputs \<lparr>w_client = JournalClient_new L, w_env = fst io, w_out = snd io\<rparr>;
     (_, w) \<leftarrow> call w;
     Some (w_env w, w_out w)
   }"

definition journal_ovsp4rt_config_fdb_entry ::
    "target \<Rightarrow> 'j json_lib \<Rightarrow> 'e grpc_env \<Rightarrow> client_flags \<Rightarrow> mac_learning_info \<Rightarrow> bool \<Rightarrow> string \<Rightarrow>
     'e outside \<Rightarrow> 'e outside option" where
  "journal_ovsp4rt_config_fdb_entry target L g flags learn_info insert_entry grpc_addr io =
     with_journal_client L
       (recordInputs_learn_info L ''ovsp4rt_config_fdb_entry'' learn_info insert_entry)
       (case target of
          DPDK_TARGET \<Rightarrow> dpdk_DoConfigFdbEntry (JournalClient_vtable L g flags) learn_info insert_entry grpc_addr
        | ES2K_TARGET \<Rightarrow> DoConfigFdbEntry (JournalClient_vtable L g flags) learn_info insert_entry grpc_addr)
       io"

definition journal_ovsp4rt_config_tunnel_entry ::
    "target \<Rightarrow> 'j json_lib \<Rightarrow> 'e grpc_env \<Rightarrow> client_flags \<Rightarrow> tunnel_info \<Rightarrow> bool \<Rightarrow> string \<Rightarrow>
     'e outside \<Rightarrow> 'e outside option" where
  "journal_ovsp4rt_config_tunnel_entry target L g flags tunnel_info insert_entry grpc_addr io =
     with_journal_client L
       (recordInputs_tunnel L ''ovsp4rt_config_tunnel_entry'' tunnel_info insert_entry)
       (case target of
          DPDK_TARGET \<Rightarrow> dpdk_DoConfigTunnelEntry (JournalClient_vtable L g flags) tunnel_info insert_entry grpc_addr
        | ES2K_TARGET \<Rightarrow> DoConfigTunnelEntry (JournalClient_vtable L g flags) tunnel_info insert_entry grpc_addr)
       io"

definition journal_ovsp4rt_config_ip_mac_map_entry ::
    "target \<Rightarrow> 'j json_lib \<Rightarrow> 'e grpc_env \<Rightarrow> client_flags \<Rightarrow> ip_mac_map_info \<Rightarrow> bool \<Rightarrow> string \<Rightarrow>
     'e outside \<Rightarrow> 'e outside option" where
  "journal_ovsp4rt_config_ip_mac_map_entry target L g flags ip_info insert_entry grpc_addr io =
     (case target of
        DPDK_TARGET \<Rightarrow> Some io
      | ES2K_TARGET \<Rightarrow>
          with_journal_client L
            (recordInputs_ip_mac_map L ''ovsp4rt_config_ip_mac_map_entry'' ip_info insert_entry)
            (DoConfigIpMacMapEntry (JournalClient_vtable L g flags) ip_info insert_entry grpc_addr)
            io)"

definition journal_ovsp4rt_config_rx_tunnel_src_entry ::
    "target \<Rightarrow> 'j json_lib \<Rightarrow> 'e grpc_env \<Rightarrow> client_flags \<Rightarrow> tunnel_info \<Rightarrow> bool \<Rightarrow> string \<Rightarrow>
     'e outside \<Rightarrow> 'e outside option" where
  "journal_ovsp4rt_config_rx_tunnel_src_entry target L g flags tunnel_info insert_entry grpc_addr io =
     (case target of
        DPDK_TARGET \<Rightarrow> Some io
      | ES2K_TARGET \<Rightarrow>
          with_journal_client L
            (recordInputs_tunnel L ''ovsp4rt_config_rx_tunnel_src_entry'' tunnel_info insert_entry)
            (DoConfigRxTunnelSrcEntry (JournalClient_vtable L g flags) tunnel_info insert_entry grpc_addr)
            io)"

definition journal_ovsp4rt_config_src_port_entry ::
    "target \<Rightarrow> 'j json_lib \<Rightarrow> 'e grpc_env \<Rightarrow> client_flags \<Rightarrow> src_port_info \<Rightarrow> bool \<Rightarrow> string \<Rightarrow>
     'e outside \<Rightarrow> 'e outside option" where
  "journal_ovsp4rt_config_src_port_entry target L g flags vsi_sp insert_entry grpc_addr io =
     (case target of
        DPDK_TARGET \<Rightarrow> Some io
      | ES2K_TARGET \<Rightarrow>
          with_journal_client L
            (recordInputs_src_port L ''ovsp4rt_config_src_port_entry'' vsi_sp insert_entry)
            (DoConfigSrcPortEntry (JournalClient_vtable L g flags) vsi_sp insert_entry grpc_addr)
            io)"

definition journal_ovsp4rt_config_tunnel_src_port_entry ::
    "target \<Rightarrow> 'j json_lib \<Rightarrow> 'e grpc_env \<Rightarrow> client_flags \<Rightarrow> src_port_info \<Rightarrow> bool \<Rightarrow> string \<Rightarrow>
     'e outside \<Rightarrow> 'e outside option" where
  "journal_ovsp4rt_config_tunnel_src_port_entry target L g flags tnl_sp insert_entry grpc_addr io =
     (case target of
        DPDK_TARGET \<Rightarrow> Some io
      | ES2K_TARGET \<Rightarrow>
          with_journal_client L
            (recordInputs_src_port L ''ovsp4rt_config_tunnel_src_port_entry'' tnl_sp insert_entry)
            (DoConfigTunnelSrcPortEntry (JournalClient_vtable L g flags) tnl_sp insert_entry grpc_addr)
            io)"

definition journal_ovsp4rt_config_vlan_entry ::
    "target \<Rightarrow> 'j json_lib \<Rightarrow> 'e grpc_env \<Rightarrow> client_flags \<Rightarrow> u16 \<Rightarrow> bool \<Rightarrow> string \<Rightarrow>
     'e outside \<Rightarrow> 'e outside option" where
  "journal_ovsp4rt_config_vlan_entry target L g flags vlan_id insert_entry grpc_addr io =
     (case target of
        DPDK_TARGET \<Rightarrow> Some io
      | ES2K_TARGET \<Rightarrow>
          with_journal_client L
            (recordInputs_vlan_id L ''ovsp4rt_config_vlan_entry'' vlan_id insert_entry)
            (DoConfigVlanEntry (JournalClient_vtable L g flags) vlan_id insert_entry grpc_addr)
            io)"

end
