(* ===== verification/Client_Simulation.thy ===== *)
theory Client_Simulation
  imports Standard_Api
begin

text \<open>
  Two clients with the same behaviour. The code of \<^verbatim>\<open>core/v3\<close> sees its client only through
  \<open>ClientInterface\<close>; the locale \<open>client_simulation\<close> says what it takes for a second client to
  be as good as the first: a relation of the two states that every virtual function the
  code calls keeps, with equal results, and that printing one of the code's own lines keeps.
  Then every function of the code run with the second client simulates its run with the
  first.
\<close>

section \<open>The lines the code prints\<close>

text \<open>A log line has the prefix of \<open>ovsp4rt_log_message\<close>; the other lines are literals.\<close>

definition program_lines :: "string list" where
  "program_lines = [''Using insecure client credentials!'', ''ERROR: Unsupported tunnel type'',
     ''Unsupported tunnel type'']"

lemma prepare_lines:
  "set (snd (PrepareEncapTableEntry te t p b)) \<subseteq> set program_lines"
  "set (snd (PrepareDecapTableEntry te t p b)) \<subseteq> set program_lines"
  "set (snd (PrepareTunnelTermTableEntry te t p b)) \<subseteq> set program_lines"
  by (auto simp: prepare_encap_defs prepare_decap_defs PrepareTunnelTermTableEntry_def
      EncodeTunnelTermTableEntry_def EncodeV6TunnelTermTableEntry_def Let_def program_lines_def
      split: if_splits)

section \<open>The contract\<close>

locale client_simulation =
  fixes ci :: "('c, 'e) ClientInterface" and cj :: "('d, 'f) ClientInterface"
    and R :: "('c, 'e) world \<Rightarrow> ('d, 'f) world \<Rightarrow> bool"
    and printable :: "string \<Rightarrow> bool"
  assumes sim_connect: "R v w \<Longrightarrow> simulates (=) R (ci_connect ci addr v) (ci_connect cj addr w)"
    and sim_config:
      "R v w \<Longrightarrow> simulates (=) R (ci_getPipelineConfig ci p v) (ci_getPipelineConfig cj p w)"
    and sim_init_read:
      "R v w \<Longrightarrow> simulates (=) R (ci_initReadRequest ci rq v) (ci_initReadRequest cj rq w)"
    and sim_read:
      "R v w \<Longrightarrow> simulates (=) R (ci_sendReadRequest ci rq v) (ci_sendReadRequest cj rq w)"
    and sim_init_write:
      "R v w \<Longrightarrow> simulates (=) R (ci_initWriteRequest ci wq b v) (ci_initWriteRequest cj wq b w)"
    and sim_write:
      "R v w \<Longrightarrow> simulates (=) R (ci_sendWriteRequest ci wq v) (ci_sendWriteRequest cj wq w)"
    and sim_print: "R v w \<Longrightarrow> printable l \<Longrightarrow> R (print_line l v) (print_line l w)"
    and printable_log: "printable (''OVSP4RT '' @ l)"
    and printable_lines: "list_all printable program_lines"
begin

lemma sim_lines:
  "R v w \<Longrightarrow> set ls \<subseteq> set program_lines \<Longrightarrow> R (print_lines ls v) (print_lines ls w)"
proof (induction ls arbitrary: v w)
  case (Cons l ls)
  with printable_lines show ?case by (auto simp: list_all_iff intro!: Cons.IH sim_print)
qed simp

lemma sim_log:
  assumes "R v w"
  shows "R (LogFailure b t v) (LogFailure b t w)"
    and "R (LogFailureWithMacAddr b t m v) (LogFailureWithMacAddr b t m w)"
  unfolding LogFailure_def LogFailureWithMacAddr_def ovsp4rt_log_message_def
  by (intro sim_print assms printable_log)+

lemma sim_then:
  assumes "simulates (=) R m m'"
    and "\<And>r v w. R v w \<Longrightarrow> simulates (=) R (f (r, v)) (f' (r, w))"
  shows "simulates (=) R (m \<bind> f) (m' \<bind> f')"
  using assms by (auto intro: simulates_bind)

lemma sim_return: "R v w \<Longrightarrow> simulates (=) R (Some (r, v)) (Some (r, w))"
  by simp

text \<open>The shapes of a write and of a read.\<close>

lemma sim_write_shape:
  assumes "R v w"
  shows "simulates (=) R
    (ci_initWriteRequest ci empty_WriteRequest b v \<bind>
      (\<lambda>((k, rq), v). ci_sendWriteRequest ci (put_write_entry k (f (write_entry k rq)) rq) v))
    (ci_initWriteRequest cj empty_WriteRequest b w \<bind>
      (\<lambda>((k, rq), w). ci_sendWriteRequest cj (put_write_entry k (f (write_entry k rq)) rq) w))"
  using assms by (auto intro!: sim_then [OF sim_init_write] sim_write)

lemma sim_printed_shape:
  assumes "R v w" and "\<And>te. set (snd (f te)) \<subseteq> set program_lines"
  shows "simulates (=) R
    (ci_initWriteRequest ci empty_WriteRequest b v \<bind>
      (\<lambda>((k, rq), v). case f (write_entry k rq) of (te, lines) \<Rightarrow>
         ci_sendWriteRequest ci (put_write_entry k te rq) (print_lines lines v)))
    (ci_initWriteRequest cj empty_WriteRequest b w \<bind>
      (\<lambda>((k, rq), w). case f (write_entry k rq) of (te, lines) \<Rightarrow>
         ci_sendWriteRequest cj (put_write_entry k te rq) (print_lines lines w)))"
proof -
  have "R v w \<Longrightarrow> R (print_lines (snd (f te)) v) (print_lines (snd (f te)) w)" for te v w
    by (rule sim_lines [OF _ assms(2)])
  with assms(1) show ?thesis
    by (auto simp: case_prod_beta intro!: sim_then [OF sim_init_write] sim_write)
qed

lemma sim_logged_shape:
  assumes "R v w" and "\<And>t v w. R v w \<Longrightarrow> R (log t v) (log' t w)"
  shows "simulates (=) R
    (ci_initWriteRequest ci empty_WriteRequest b v \<bind>
      (\<lambda>((k, rq), v). case f (write_entry k rq) of (te, detail) \<Rightarrow>
         ci_sendWriteRequest ci (put_write_entry k te rq) v \<bind>
         (\<lambda>(status, v). Some (status, if \<not> ok status then log (getLogTableName detail) v else v))))
    (ci_initWriteRequest cj empty_WriteRequest b w \<bind>
      (\<lambda>((k, rq), w). case f (write_entry k rq) of (te, detail) \<Rightarrow>
         ci_sendWriteRequest cj (put_write_entry k te rq) w \<bind>
         (\<lambda>(status, w). Some (status, if \<not> ok status then log' (getLogTableName detail) w else w))))"
  using assms
  by (auto simp: case_prod_beta intro!: sim_then [OF sim_init_write] sim_then [OF sim_write])

lemma sim_read_shape:
  assumes "R v w"
  shows "simulates (=) R
    (ci_initReadRequest ci empty_ReadRequest v \<bind>
      (\<lambda>((k, rq), v). case f (read_entry k rq) of (te, detail) \<Rightarrow>
         ci_sendReadRequest ci (put_read_entry k te rq) v))
    (ci_initReadRequest cj empty_ReadRequest w \<bind>
      (\<lambda>((k, rq), w). case f (read_entry k rq) of (te, detail) \<Rightarrow>
         ci_sendReadRequest cj (put_read_entry k te rq) w))"
  using assms by (auto simp: case_prod_beta intro!: sim_then [OF sim_init_read] sim_read)

section \<open>The functions that send one request\<close>

lemma sim_fdb_writes:
  assumes "R v w"
  shows "simulates (=) R (WriteFdbSmacTableEntry ci i p b v) (WriteFdbSmacTableEntry cj i p b w)"
    and "simulates (=) R (WriteL2TunnelTableEntry ci i p b v) (WriteL2TunnelTableEntry cj i p b w)"
    and "simulates (=) R (WriteFdbTxVlanTableEntry ci i p b v) (WriteFdbTxVlanTableEntry cj i p b w)"
    and "simulates (=) R (WriteFdbRxVlanTableEntry ci i p b v) (WriteFdbRxVlanTableEntry cj i p b w)"
    and "simulates (=) R (WriteFdbTunnelTableEntry ci i p b v) (WriteFdbTunnelTableEntry cj i p b w)"
  unfolding WriteFdbSmacTableEntry_def WriteL2TunnelTableEntry_def WriteFdbTxVlanTableEntry_def
    WriteFdbRxVlanTableEntry_def WriteFdbTunnelTableEntry_def Let_def
  by (rule sim_logged_shape [OF assms], erule sim_log)+

lemma sim_dpdk_writes:
  assumes "R v w"
  shows "simulates (=) R (dpdk_WriteFdbTxVlanTableEntry ci i p b v) (dpdk_WriteFdbTxVlanTableEntry cj i p b w)"
    and "simulates (=) R (dpdk_WriteFdbRxVlanTableEntry ci i p b v) (dpdk_WriteFdbRxVlanTableEntry cj i p b w)"
    and "simulates (=) R (dpdk_WriteFdbTunnelTableEntry ci i p b v) (dpdk_WriteFdbTunnelTableEntry cj i p b w)"
    and "simulates (=) R (dpdk_WriteEncapTableEntry ci t p b v) (dpdk_WriteEncapTableEntry cj t p b w)"
    and "simulates (=) R (dpdk_WriteTunnelTermTableEntry ci t p b v) (dpdk_WriteTunnelTermTableEntry cj t p b w)"
  unfolding dpdk_WriteFdbTxVlanTableEntry_def dpdk_WriteFdbRxVlanTableEntry_def
    dpdk_WriteFdbTunnelTableEntry_def dpdk_WriteEncapTableEntry_def
    dpdk_WriteTunnelTermTableEntry_def Let_def
  by (rule sim_write_shape [OF assms] | rule sim_logged_shape [OF assms], erule sim_log)+

lemma sim_plain_writes:
  assumes "R v w"
  shows "simulates (=) R (WriteVlanPushTableEntry ci n p b v) (WriteVlanPushTableEntry cj n p b w)"
    and "simulates (=) R (WriteVlanPopTableEntry ci n p b v) (WriteVlanPopTableEntry cj n p b w)"
    and "simulates (=) R (WriteVsiSrcPortTableEntry ci sp p b v) (WriteVsiSrcPortTableEntry cj sp p b w)"
    and "simulates (=) R (WriteTunnelSrcPortEntry ci sp p b v) (WriteTunnelSrcPortEntry cj sp p b w)"
    and "simulates (=) R (WriteRxTunnelSrcPortTableEntry ci t p b v)
      (WriteRxTunnelSrcPortTableEntry cj t p b w)"
  unfolding WriteVlanPushTableEntry_def WriteVlanPopTableEntry_def WriteVsiSrcPortTableEntry_def
    WriteTunnelSrcPortEntry_def WriteRxTunnelSrcPortTableEntry_def Let_def
  by (rule sim_write_shape [OF assms])+

lemma sim_tunnel_writes:
  assumes "R v w"
  shows "simulates (=) R (WriteEncapTableEntry ci t p b v) (WriteEncapTableEntry cj t p b w)"
    and "simulates (=) R (WriteDecapTableEntry ci t p b v) (WriteDecapTableEntry cj t p b w)"
    and "simulates (=) R (WriteTunnelTermTableEntry ci t p b v) (WriteTunnelTermTableEntry cj t p b w)"
  unfolding WriteEncapTableEntry_def WriteDecapTableEntry_def WriteTunnelTermTableEntry_def Let_def
  by (rule sim_printed_shape [OF assms], rule prepare_lines)+

lemma sim_ip_mac_writes:
  assumes "R v w"
  shows "simulates (=) R (WriteSrcIpMacMapTableEntry ci m p b v) (WriteSrcIpMacMapTableEntry cj m p b w)"
    and "simulates (=) R (WriteDstIpMacMapTableEntry ci m p b v) (WriteDstIpMacMapTableEntry cj m p b w)"
  unfolding WriteSrcIpMacMapTableEntry_def WriteDstIpMacMapTableEntry_def Let_def
  by (rule sim_logged_shape [OF assms], erule sim_log)+

lemma sim_reads:
  assumes "R v w"
  shows "simulates (=) R (ReadL2ToTunnelV4TableEntry ci i p v) (ReadL2ToTunnelV4TableEntry cj i p w)"
    and "simulates (=) R (ReadL2ToTunnelV6TableEntry ci i p v) (ReadL2ToTunnelV6TableEntry cj i p w)"
    and "simulates (=) R (ReadFdbTunnelTableEntry ci i p a v) (ReadFdbTunnelTableEntry cj i p a w)"
    and "simulates (=) R (ReadFdbVlanTableEntry ci i p a v) (ReadFdbVlanTableEntry cj i p a w)"
    and "simulates (=) R (ReadVmSrcTableEntry ci m p v) (ReadVmSrcTableEntry cj m p w)"
    and "simulates (=) R (ReadVmDstTableEntry ci m p v) (ReadVmDstTableEntry cj m p w)"
  unfolding ReadL2ToTunnelV4TableEntry_def ReadL2ToTunnelV6TableEntry_def ReadFdbTunnelTableEntry_def
    ReadFdbVlanTableEntry_def ReadVmSrcTableEntry_def ReadVmDstTableEntry_def Let_def
  by (rule sim_read_shape [OF assms])+

lemma sim_read_port:
  assumes "R v w"
  shows "simulates (=) R (ReadTxAccVsiTableEntry ci sp p v) (ReadTxAccVsiTableEntry cj sp p w)"
  using assms unfolding ReadTxAccVsiTableEntry_def Let_def
  by (auto intro!: sim_then [OF sim_init_read] sim_read)

lemmas sim_writes = sim_fdb_writes sim_dpdk_writes sim_plain_writes sim_tunnel_writes
  sim_ip_mac_writes

section \<open>The Config functions\<close>

lemma sim_GetTxAccVsiPort:
  assumes "R v w"
  shows "simulates (=) R (GetTxAccVsiPort ci p sp v) (GetTxAccVsiPort cj p sp w)"
  unfolding GetTxAccVsiPort_def Let_def
  by (rule sim_then [OF sim_read_port [OF assms]]) (auto split: sum.split option.split)

lemma sim_UpdateFdbTunnelInfo:
  assumes "R v w"
  shows "simulates (=) R (UpdateFdbTunnelInfo ci i p v) (UpdateFdbTunnelInfo cj i p w)"
  unfolding UpdateFdbTunnelInfo_def Let_def
  by (rule sim_then [OF sim_reads(1) [OF assms]]) (auto intro!: sim_then [OF sim_reads(2)])

lemma sim_UpdateFdbSrcPortInfo:
  assumes "R v w"
  shows "simulates (=) R (UpdateFdbSrcPortInfo ci i p v) (UpdateFdbSrcPortInfo cj i p w)"
  unfolding UpdateFdbSrcPortInfo_def
  by (rule sim_then [OF sim_GetTxAccVsiPort [OF assms]]) (auto split: sum.split)

lemma sim_ConfigFdbTunnelEntry:
  assumes "R v w"
  shows "simulates (=) R (ConfigFdbTunnelEntry ci i b p v) (ConfigFdbTunnelEntry cj i b p w)"
  using assms unfolding ConfigFdbTunnelEntry_def
  by (auto intro!: sim_then [OF sim_reads(3)] sim_then [OF sim_fdb_writes(5)]
      sim_then [OF sim_fdb_writes(2)] sim_then [OF sim_fdb_writes(1)])

lemma sim_ConfigFdbVlanEntry:
  assumes "R v w"
  shows "simulates (=) R (ConfigFdbVlanEntry ci i b p v) (ConfigFdbVlanEntry cj i b p w)"
proof -
  have rest: "simulates (=) R
      (WriteFdbTxVlanTableEntry ci j p b v \<bind> (\<lambda>(_, v). WriteFdbSmacTableEntry ci j p b v \<bind>
        (\<lambda>(_, v). Some (OkStatus, v))))
      (WriteFdbTxVlanTableEntry cj j p b w \<bind> (\<lambda>(_, w). WriteFdbSmacTableEntry cj j p b w \<bind>
        (\<lambda>(_, w). Some (OkStatus, w))))" if "R v w" for j v w
    using that by (auto intro!: sim_then [OF sim_fdb_writes(3)] sim_then [OF sim_fdb_writes(1)])
  have first: "simulates (=) R
      (if b then ReadFdbVlanTableEntry ci i p True v \<bind> (\<lambda>(r, v).
         if status_or_ok r then Some (Inl OkStatus, v)
         else WriteFdbRxVlanTableEntry ci i p b v \<bind> (\<lambda>(_, v). UpdateFdbSrcPortInfo ci i p v \<bind>
           (\<lambda>((s, i), v). Some (if \<not> ok s then Inl s else Inr i, v))))
       else Some (Inr i, v))
      (if b then ReadFdbVlanTableEntry cj i p True w \<bind> (\<lambda>(r, w).
         if status_or_ok r then Some (Inl OkStatus, w)
         else WriteFdbRxVlanTableEntry cj i p b w \<bind> (\<lambda>(_, w). UpdateFdbSrcPortInfo cj i p w \<bind>
           (\<lambda>((s, i), w). Some (if \<not> ok s then Inl s else Inr i, w))))
       else Some (Inr i, w))"
    using assms
    by (auto intro!: sim_then [OF sim_reads(4)] sim_then [OF sim_fdb_writes(4)]
        sim_then [OF sim_UpdateFdbSrcPortInfo])
  show ?thesis
    unfolding ConfigFdbVlanEntry_def
    by (rule sim_then [OF first]) (auto intro!: rest split: sum.split)
qed

lemma sim_ConfigFdbEntry:
  assumes "R v w"
  shows "simulates (=) R (ConfigFdbEntry ci i p b v) (ConfigFdbEntry cj i p b w)"
  using assms unfolding ConfigFdbEntry_def
  by (auto intro!: sim_then [OF sim_UpdateFdbTunnelInfo] sim_ConfigFdbTunnelEntry
      sim_ConfigFdbVlanEntry)

lemma sim_ConfigSrcPortEntry:
  assumes "R v w"
  shows "simulates (=) R (ConfigSrcPortEntry ci sp p b v) (ConfigSrcPortEntry cj sp p b w)"
  unfolding ConfigSrcPortEntry_def
  by (rule sim_then [OF sim_GetTxAccVsiPort [OF assms]])
    (auto intro!: sim_plain_writes split: sum.split)

lemma sim_ConfigIpMacMapEntry:
  assumes "R v w"
  shows "simulates (=) R (ConfigIpMacMapEntry ci m p b v) (ConfigIpMacMapEntry cj m p b w)"
  using assms unfolding ConfigIpMacMapEntry_def
  by (auto intro!: sim_then [OF sim_reads(5)] sim_then [OF sim_reads(6)]
      sim_then [OF sim_ip_mac_writes(1)] sim_then [OF sim_ip_mac_writes(2)])

lemma sim_Config:
  assumes "R v w"
  shows "simulates (=) R (ConfigVlanEntry ci n p b v) (ConfigVlanEntry cj n p b w)"
    and "simulates (=) R (ConfigTunnelEntry ci t p b v) (ConfigTunnelEntry cj t p b w)"
    and "simulates (=) R (dpdk_ConfigFdbEntry ci i p b v) (dpdk_ConfigFdbEntry cj i p b w)"
    and "simulates (=) R (dpdk_ConfigTunnelEntry ci t p b v) (dpdk_ConfigTunnelEntry cj t p b w)"
  using assms
  unfolding ConfigVlanEntry_def ConfigTunnelEntry_def dpdk_ConfigFdbEntry_def
    dpdk_ConfigTunnelEntry_def
  by (auto intro!: sim_then [OF sim_plain_writes(1)] sim_plain_writes(2)
      sim_then [OF sim_tunnel_writes(1)] sim_then [OF sim_tunnel_writes(2)] sim_tunnel_writes(3)
      sim_then [OF sim_dpdk_writes(1)] sim_then [OF sim_dpdk_writes(4)] sim_dpdk_writes)

section \<open>The DoConfig functions\<close>

lemma sim_in_session:
  assumes "R v w" and "\<And>p v w. R v w \<Longrightarrow> simulates (=) R (f p v) (f' p w)"
  shows "simulates (=) R (in_session ci addr f v) (in_session cj addr f' w)"
  using assms unfolding in_session_def
  by (auto intro!: sim_then [OF sim_connect] sim_then [OF sim_config])

lemma sim_DoConfig:
  assumes "R v w"
  shows "simulates (=) R (DoConfigFdbEntry ci i b addr v) (DoConfigFdbEntry cj i b addr w)"
    and "simulates (=) R (DoConfigTunnelEntry ci t b addr v) (DoConfigTunnelEntry cj t b addr w)"
    and "simulates (=) R (DoConfigRxTunnelSrcEntry ci t b addr v) (DoConfigRxTunnelSrcEntry cj t b addr w)"
    and "simulates (=) R (DoConfigVlanEntry ci n b addr v) (DoConfigVlanEntry cj n b addr w)"
    and "simulates (=) R (DoConfigTunnelSrcPortEntry ci sp b addr v)
      (DoConfigTunnelSrcPortEntry cj sp b addr w)"
    and "simulates (=) R (DoConfigSrcPortEntry ci sp b addr v) (DoConfigSrcPortEntry cj sp b addr w)"
    and "simulates (=) R (DoConfigIpMacMapEntry ci m b addr v) (DoConfigIpMacMapEntry cj m b addr w)"
    and "simulates (=) R (dpdk_DoConfigFdbEntry ci i b addr v) (dpdk_DoConfigFdbEntry cj i b addr w)"
    and "simulates (=) R (dpdk_DoConfigTunnelEntry ci t b addr v) (dpdk_DoConfigTunnelEntry cj t b addr w)"
  unfolding DoConfigFdbEntry_in_session DoConfigTunnelEntry_in_session
    DoConfigRxTunnelSrcEntry_in_session DoConfigVlanEntry_in_session
    DoConfigTunnelSrcPortEntry_in_session DoConfigSrcPortEntry_in_session
    DoConfigIpMacMapEntry_in_session dpdk_DoConfigFdbEntry_in_session
    dpdk_DoConfigTunnelEntry_in_session
  by (auto intro!: sim_in_session assms sim_ConfigFdbEntry sim_Config sim_plain_writes
      sim_ConfigSrcPortEntry sim_ConfigIpMacMapEntry)

end

end
