(* ===== verification/Table_Server.thy ===== *)
theory Table_Server
  imports Entry_Ops
begin

text \<open>
  The abstract view of a P4Runtime server that the properties about whole API calls are
  stated against: the server holds a map from entry keys to entries. \<open>table_server\<close> is
  the behaviour the code relies on, as the P4Runtime specification documents it: an
  INSERT succeeds exactly when the server accepts the entry and its key is free, a
  DELETE exactly when the key is present, a failed write changes nothing, and a read of
  one key answers OK with the entry when it is present and an error otherwise (the
  code takes an OK answer to mean that the entry exists). \<open>accepts\<close> is the server's
  validation of an entry.

  The lemmas lift the contract to the sequences of writes of \<open>Entry_Ops\<close>.
\<close>

type_synonym tables = "entry_key \<Rightarrow> TableEntry option"

definition applicable :: "(TableEntry \<Rightarrow> bool) \<Rightarrow> bool \<Rightarrow> TableEntry \<Rightarrow> tables \<Rightarrow> bool" where
  "applicable accepts b te T \<longleftrightarrow>
     (if b then accepts te \<and> T (entry_key te) = None else T (entry_key te) \<noteq> None)"

definition apply_write :: "(TableEntry \<Rightarrow> bool) \<Rightarrow> bool \<Rightarrow> TableEntry \<Rightarrow> tables \<Rightarrow> tables" where
  "apply_write accepts b te T =
     (if applicable accepts b te T then T(entry_key te := (if b then Some te else None)) else T)"

definition table_server ::
    "'e grpc_env \<Rightarrow> nat \<Rightarrow> (TableEntry \<Rightarrow> bool) \<Rightarrow> ('e \<Rightarrow> tables) \<Rightarrow> bool" where
  "table_server g stub accepts tables \<longleftrightarrow>
     (\<forall>dev el b te e.
        case g_write g stub (single_write dev el b te) e of
          (st, e') \<Rightarrow> (ok st \<longleftrightarrow> applicable accepts b te (tables e)) \<and>
                      tables e' = apply_write accepts b te (tables e)) \<and>
     (\<forall>dev te e.
        case g_read g stub (single_read dev te) e of
          ((rs, st), e') \<Rightarrow>
            tables e' = tables e \<and>
            (ok st \<longleftrightarrow> tables e (entry_key te) \<noteq> None) \<and>
            (ok st \<longrightarrow> concat (map rs_entities rs) = [the (tables e (entry_key te))]))"

text \<open>Writing a list of entries until the first one that is not applicable.\<close>

fun apply_all ::
    "(TableEntry \<Rightarrow> bool) \<Rightarrow> bool \<Rightarrow> TableEntry list \<Rightarrow> tables \<Rightarrow> bool \<times> tables" where
  "apply_all accepts b [] T = (True, T)"
| "apply_all accepts b (te # tes) T =
     (if applicable accepts b te T then apply_all accepts b tes (apply_write accepts b te T)
      else (False, T))"

text \<open>What the entries of a list add to the tables.\<close>

definition added :: "TableEntry list \<Rightarrow> tables" where
  "added tes = map_of (map (\<lambda>te. (entry_key te, te)) tes)"

section \<open>Lemmas\<close>

lemma apply_write_not [simp]: "\<not> applicable accepts b te T \<Longrightarrow> apply_write accepts b te T = T"
  by (simp add: apply_write_def)

lemma table_server_write:
  assumes "table_server g stub accepts tables"
    and "g_write g stub (single_write dev el b te) e = (st, e')"
  shows "ok st \<longleftrightarrow> applicable accepts b te (tables e)"
    and "tables e' = apply_write accepts b te (tables e)"
proof -
  note assms(1) [unfolded table_server_def, THEN conjunct1, THEN spec [where x = dev],
      THEN spec [where x = el], THEN spec [where x = b], THEN spec [where x = te],
      THEN spec [where x = e]]
  with assms(2) show "ok st \<longleftrightarrow> applicable accepts b te (tables e)"
    and "tables e' = apply_write accepts b te (tables e)" by simp_all
qed

lemma table_server_read:
  assumes "table_server g stub accepts tables"
    and "g_read g stub (single_read dev te) e = ((rs, st), e')"
  shows "tables e' = tables e" and "ok st \<longleftrightarrow> tables e (entry_key te) \<noteq> None"
    and "ok st \<Longrightarrow> concat (map rs_entities rs) = [the (tables e (entry_key te))]"
proof -
  note assms(1) [unfolded table_server_def, THEN conjunct2, THEN spec [where x = dev],
      THEN spec [where x = te], THEN spec [where x = e]]
  with assms(2) show "tables e' = tables e" and "ok st \<longleftrightarrow> tables e (entry_key te) \<noteq> None"
    and "ok st \<Longrightarrow> concat (map rs_entities rs) = [the (tables e (entry_key te))]" by simp_all
qed

lemma server_write_tables:
  assumes "table_server g (ses_stub s) accepts tables"
  shows "ok (fst (server_write g s b te e)) \<longleftrightarrow> applicable accepts b te (tables e)"
    and "tables (snd (server_write g s b te e)) = apply_write accepts b te (tables e)"
  using table_server_write [OF assms]
  by (auto simp: server_write_def SendWriteRequest_def Let_def split: prod.splits)

lemma server_read_tables:
  assumes "table_server g (ses_stub s) accepts tables"
  shows "tables (snd (server_read g s te e)) = tables e"
    and "status_or_ok (fst (server_read g s te e)) \<longleftrightarrow> tables e (entry_key te) \<noteq> None"
proof -
  obtain rs st e' where r: "g_read g (ses_stub s) (single_read (ucast (ses_device_id s)) te) e =
    ((rs, st), e')" by (metis prod.exhaust)
  note t = table_server_read [OF assms r]
  from r t show "tables (snd (server_read g s te e)) = tables e"
    and "status_or_ok (fst (server_read g s te e)) \<longleftrightarrow> tables e (entry_key te) \<noteq> None"
    by (auto simp: server_read_def SendReadRequest_def)
qed

text \<open>The answer to a read of a present key holds exactly the entry.\<close>

lemma server_read_entry:
  assumes "table_server g (ses_stub s) accepts tables" and "tables e (entry_key te) = Some x"
  shows "\<exists>r e'. server_read g s te e = (Inr r, e') \<and> rs_entities r = [x] \<and> tables e' = tables e"
proof -
  obtain rs st e' where r: "g_read g (ses_stub s) (single_read (ucast (ses_device_id s)) te) e =
    ((rs, st), e')" by (metis prod.exhaust)
  note t = table_server_read [OF assms(1) r]
  from r t assms(2) show ?thesis
    by (simp add: server_read_def SendReadRequest_def foldl_MergeFrom empty_ReadResponse_def)
qed

text \<open>A read of an absent key is an error and leaves the tables alone.\<close>

lemma server_read_absent:
  assumes "table_server g (ses_stub s) accepts tables" and "tables e (entry_key te) = None"
  shows "\<exists>st e'. server_read g s te e = (Inl st, e') \<and> tables e' = tables e"
proof -
  have "\<not> status_or_ok (fst (server_read g s te e))"
    using assms by (simp add: server_read_tables(2) [OF assms(1)])
  moreover have "tables (snd (server_read g s te e)) = tables e"
    by (rule server_read_tables(1) [OF assms(1)])
  ultimately show ?thesis
    by (cases "server_read g s te e"; cases "fst (server_read g s te e)") auto
qed

text \<open>Writing every entry of a list, in terms of the tables.\<close>

lemma write_each_tables:
  assumes "table_server g (ses_stub s) accepts tables"
  shows "tables (write_each g s b tes e) = foldl (\<lambda>T te. apply_write accepts b te T) (tables e) tes"
  by (induction tes arbitrary: e) (simp_all add: server_write_tables(2) [OF assms])

text \<open>Inserting accepted entries with new, pairwise different keys adds them all.\<close>

lemma insert_all:
  assumes "distinct (map entry_key tes)" and "list_all accepts tes"
    and "list_all (\<lambda>te. T (entry_key te) = None) tes"
  shows "foldl (\<lambda>T te. apply_write accepts True te T) T tes =
    T ++ map_of (map (\<lambda>te. (entry_key te, te)) tes)"
  using assms
proof (induction tes arbitrary: T)
  case Nil
  then show ?case by simp
next
  case (Cons te tes)
  let ?T = "T(entry_key te \<mapsto> te)"
  have "list_all (\<lambda>te. ?T (entry_key te) = None) tes"
    using Cons.prems by (auto simp: list_all_iff image_iff)
  then have "foldl (\<lambda>T te. apply_write accepts True te T) ?T tes =
      ?T ++ map_of (map (\<lambda>te. (entry_key te, te)) tes)"
    using Cons.prems by (intro Cons.IH) auto
  moreover have "apply_write accepts True te T = ?T"
    using Cons.prems by (simp add: apply_write_def applicable_def)
  moreover have "?T ++ map_of (map (\<lambda>te. (entry_key te, te)) tes) =
      T ++ map_of (map (\<lambda>te. (entry_key te, te)) (te # tes))"
  proof -
    have "entry_key te \<notin> dom (map_of (map (\<lambda>te. (entry_key te, te)) tes))"
      using Cons.prems(1) by (auto simp: dom_map_of_conv_image_fst image_image)
    then show ?thesis by (simp add: map_add_upd_left)
  qed
  ultimately show ?case by (simp only: foldl.simps)
qed

text \<open>Deleting a list of entries clears their keys.\<close>

lemma delete_all:
  "foldl (\<lambda>T te. apply_write accepts False te T) T tes = T |` (- entry_key ` set tes)"
proof (induction tes arbitrary: T)
  case Nil
  then show ?case by simp
next
  case (Cons te tes)
  have "apply_write accepts False te T = T |` (- {entry_key te})"
    by (auto simp: apply_write_def applicable_def restrict_map_def fun_eq_iff)
  moreover have "- entry_key ` set tes \<inter> - {entry_key te} = - entry_key ` set (te # tes)"
    by auto
  ultimately show ?case using Cons by (simp add: Int_commute)
qed

text \<open>Removing exactly the added keys restores the map.\<close>

lemma add_then_clear:
  assumes "dom M = K" and "K \<inter> dom T = {}"
  shows "(T ++ M) |` (- K) = T"
proof
  fix k
  have "T k = None" if "k \<in> K" using that assms(2) by (auto simp: disjoint_iff domIff)
  moreover have "M k = None" if "k \<notin> K" using that assms(1) by auto
  ultimately show "((T ++ M) |` (- K)) k = T k"
    by (cases "k \<in> K") (simp_all add: map_add_def)
qed

lemma dom_added: "dom (added tes) = entry_key ` set tes"
  by (simp add: added_def dom_map_of_conv_image_fst image_image)

text \<open>Writing until the first failure, in terms of the tables.\<close>

lemma write_all_tables:
  assumes "table_server g (ses_stub s) accepts tables"
  shows "ok (fst (write_all g s b tes e)) = fst (apply_all accepts b tes (tables e)) \<and>
    tables (snd (write_all g s b tes e)) = snd (apply_all accepts b tes (tables e))"
proof (induction tes arbitrary: e)
  case Nil
  then show ?case by simp
next
  case (Cons te tes)
  obtain st e1 where w: "server_write g s b te e = (st, e1)" by fastforce
  have st: "ok st \<longleftrightarrow> applicable accepts b te (tables e)"
    and e1: "tables e1 = apply_write accepts b te (tables e)"
    using server_write_tables [OF assms, of b te e] by (simp_all add: w)
  show ?case
  proof (cases "tes = []")
    case True
    with w st e1 show ?thesis by simp
  next
    case False
    then obtain te' tes' where "tes = te' # tes'" by (cases tes) auto
    with Cons.IH [of e1] w st e1 show ?thesis by simp
  qed
qed

text \<open>Inserting new entries succeeds and adds them; deleting present entries succeeds and
  clears their keys.\<close>

lemma apply_all_insert:
  assumes "distinct (map entry_key tes)" and "list_all accepts tes"
    and "list_all (\<lambda>te. T (entry_key te) = None) tes"
  shows "apply_all accepts True tes T = (True, T ++ added tes)"
proof -
  have "apply_all accepts True tes T =
      (True, foldl (\<lambda>T te. apply_write accepts True te T) T tes)"
    using assms
  proof (induction tes arbitrary: T)
    case Nil
    then show ?case by simp
  next
    case (Cons te tes)
    have "list_all (\<lambda>t. apply_write accepts True te T (entry_key t) = None) tes"
      using Cons.prems by (auto simp: list_all_iff apply_write_def applicable_def image_iff)
    then show ?case using Cons.IH Cons.prems by (simp add: applicable_def)
  qed
  then show ?thesis using insert_all [OF assms] by (simp add: added_def)
qed

lemma apply_all_delete:
  assumes "distinct (map entry_key tes)" and "list_all (\<lambda>te. T (entry_key te) \<noteq> None) tes"
  shows "apply_all accepts False tes T = (True, T |` (- entry_key ` set tes))"
proof -
  have "apply_all accepts False tes T =
      (True, foldl (\<lambda>T te. apply_write accepts False te T) T tes)"
    using assms
  proof (induction tes arbitrary: T)
    case Nil
    then show ?case by simp
  next
    case (Cons te tes)
    have "list_all (\<lambda>t. apply_write accepts False te T (entry_key t) \<noteq> None) tes"
      using Cons.prems by (auto simp: list_all_iff apply_write_def applicable_def image_iff)
    then show ?case using Cons.IH Cons.prems by (simp add: applicable_def)
  qed
  then show ?thesis by (simp add: delete_all)
qed

text \<open>Inserting a list of entries and deleting entries with the same keys is the identity
  on the tables.\<close>

lemma apply_all_roundtrip:
  assumes "distinct (map entry_key tes)" and "list_all accepts tes"
    and "list_all (\<lambda>te. T (entry_key te) = None) tes"
    and "map entry_key dels = map entry_key tes"
  shows "apply_all accepts True tes T = (True, T ++ added tes)"
    and "apply_all accepts False dels (T ++ added tes) = (True, T)"
proof -
  show "apply_all accepts True tes T = (True, T ++ added tes)"
    using apply_all_insert [OF assms(1-3)] .
  have keys: "entry_key ` set dels = entry_key ` set tes"
    using assms(4) by (metis set_map)
  have "list_all (\<lambda>k. (T ++ added tes) k \<noteq> None) (map entry_key tes)"
  proof -
    have "added tes (entry_key te) \<noteq> None" if "te \<in> set tes" for te
      using that dom_added [of tes] by (metis domIff image_eqI)
    then show ?thesis by (auto simp: list_all_iff map_add_None)
  qed
  then have "list_all (\<lambda>te. (T ++ added tes) (entry_key te) \<noteq> None) dels"
    unfolding assms(4) [symmetric] by (simp add: list.pred_map comp_def)
  moreover have "(T ++ added tes) |` (- entry_key ` set dels) = T"
    unfolding keys using assms(3) by (intro add_then_clear dom_added) (auto simp: list_all_iff)
  ultimately show "apply_all accepts False dels (T ++ added tes) = (True, T)"
    using apply_all_delete [of dels "T ++ added tes" accepts] assms(1,4) by simp
qed

end
