(* ===== verification/Fdb_Server.thy ===== *)
theory Fdb_Server
  imports Es2k_Fdb_Entry Table_Server
begin

text \<open>
  The FDB operations of the ES2K target against a table server: which keys each entry
  has, what an insert adds to the tables, and what a later delete takes away again.
\<close>

section \<open>The keys of the FDB entries\<close>

definition mac_bridge_key ::
    "P4Info \<Rightarrow> string \<Rightarrow> string \<Rightarrow> string \<Rightarrow> mac_addr \<Rightarrow> u8 \<Rightarrow> entry_key" where
  "mac_bridge_key p tbl mac_field bridge_field mac bridge =
     (GetTableId p tbl,
      [\<lparr>fm_field_id = GetMatchFieldId p tbl mac_field, fm_match = Exact (CanonicalizeMac mac)\<rparr>,
       \<lparr>fm_field_id = GetMatchFieldId p tbl bridge_field, fm_match = Exact [bridge]\<rparr>], 0)"

definition mac_key :: "P4Info \<Rightarrow> string \<Rightarrow> string \<Rightarrow> mac_addr \<Rightarrow> entry_key" where
  "mac_key p tbl mac_field mac =
     (GetTableId p tbl,
      [\<lparr>fm_field_id = GetMatchFieldId p tbl mac_field, fm_match = Exact (CanonicalizeMac mac)\<rparr>], 0)"

definition tx_key :: "P4Info \<Rightarrow> mac_addr \<Rightarrow> u8 \<Rightarrow> entry_key" where
  "tx_key p =
     mac_bridge_key p L2_FWD_TX_TABLE L2_FWD_TX_TABLE_KEY_DST_MAC L2_FWD_TX_TABLE_KEY_BRIDGE_ID"

definition rx_key :: "P4Info \<Rightarrow> mac_addr \<Rightarrow> u8 \<Rightarrow> entry_key" where
  "rx_key p =
     mac_bridge_key p L2_FWD_RX_TABLE L2_FWD_RX_TABLE_KEY_DST_MAC L2_FWD_RX_TABLE_KEY_BRIDGE_ID"

definition smac_key :: "P4Info \<Rightarrow> mac_addr \<Rightarrow> u8 \<Rightarrow> entry_key" where
  "smac_key p =
     mac_bridge_key p L2_FWD_SMAC_TABLE L2_FWD_SMAC_TABLE_KEY_SA L2_FWD_SMAC_TABLE_KEY_BRIDGE_ID"

definition v4_key :: "P4Info \<Rightarrow> mac_addr \<Rightarrow> entry_key" where
  "v4_key p = mac_key p L2_TO_TUNNEL_V4_TABLE L2_TO_TUNNEL_V4_KEY_DA"

definition v6_key :: "P4Info \<Rightarrow> mac_addr \<Rightarrow> entry_key" where
  "v6_key p = mac_key p L2_TO_TUNNEL_V6_TABLE L2_TO_TUNNEL_V6_KEY_DA"

lemmas fdb_key_defs = tx_key_def rx_key_def smac_key_def v4_key_def v6_key_def
  mac_bridge_key_def mac_key_def

text \<open>The FDB tables of the pipeline.\<close>

definition es2k_fdb_schemas :: "entry_schema list" where
  "es2k_fdb_schemas =
     [fdb_smac_schema, fdb_tx_vlan_schema, fdb_rx_vlan_schema, fdb_vxlan_schema,
      fdb_geneve_schema, l2_to_tunnel_v4_schema, l2_to_tunnel_v6_schema]"

definition v6_tunnel :: "tunnel_info \<Rightarrow> bool" where
  "v6_tunnel t \<longleftrightarrow> ip_family (ti_local_ip t) = AF_INET6 \<and> ip_family (ti_remote_ip t) = AF_INET6"

section \<open>Keys of encoded entries\<close>

lemma entry_key_match_setters:
  "entry_key (set_table_id t te) = (t, te_match te, te_priority te)"
  "entry_key (add_exact f v te) =
     (te_table_id te, te_match te @ [\<lparr>fm_field_id = f, fm_match = Exact v\<rparr>], te_priority te)"
  by (simp_all add: msg_defs)

lemma te_match_setters [simp]:
  "te_match (set_table_id t te) = te_match te"
  "te_match (add_exact f v te) = te_match te @ [\<lparr>fm_field_id = f, fm_match = Exact v\<rparr>]"
  "te_priority (set_table_id t te) = te_priority te"
  "te_priority (add_exact f v te) = te_priority te"
  by (simp_all add: msg_defs)

lemma prologue_key:
  "entry_key (EncodeL2FwdTxTablePrologue empty_TableEntry i p) =
     tx_key p (ml_mac_addr i) (ml_bridge_id i)"
  by (simp add: EncodeL2FwdTxTablePrologue_def entry_key_match_setters fdb_key_defs Let_def)

lemma fdb_vlan_entry_keys:
  "entry_key (fst (EncodeFdbTxVlanTableEntry empty_TableEntry i p b d)) =
     tx_key p (ml_mac_addr i) (ml_bridge_id i)"
  "entry_key (fst (EncodeFdbRxVlanTableEntry empty_TableEntry i p b d)) =
     rx_key p (ml_mac_addr i) (ml_bridge_id i)"
  "entry_key (fst (EncodeFdbSmacTableEntry empty_TableEntry i p b d)) =
     smac_key p (ml_mac_addr i) (ml_bridge_id i)"
  by (simp_all add: EncodeFdbTxVlanTableEntry_def prologue_key EncodeFdbRxVlanTableEntry_def
      EncodeFdbSmacTableEntry_def entry_key_match_setters fdb_key_defs Let_def)

lemma l2_to_tunnel_keys:
  "entry_key (fst (EncodeL2ToTunnelV4 empty_TableEntry i p b d)) = v4_key p (ml_mac_addr i)"
  "entry_key (fst (EncodeL2ToTunnelV6 empty_TableEntry i p b d)) = v6_key p (ml_mac_addr i)"
proof -
  show "entry_key (fst (EncodeL2ToTunnelV4 empty_TableEntry i p b d)) = v4_key p (ml_mac_addr i)"
    by (simp add: EncodeL2ToTunnelV4_def entry_key_match_setters fdb_key_defs Let_def)
  have "entry_key (fst (EncodeL2ToTunnelV6 empty_TableEntry i p b d)) =
      entry_key (fst (EncodeL2ToTunnelV6 empty_TableEntry i p False d))"
    by (rule l2_to_tunnel_v6.key_flag)
  also have "\<dots> = v6_key p (ml_mac_addr i)"
    by (simp add: EncodeL2ToTunnelV6_def entry_key_match_setters fdb_key_defs Let_def)
  finally show "entry_key (fst (EncodeL2ToTunnelV6 empty_TableEntry i p b d)) =
      v6_key p (ml_mac_addr i)" .
qed

lemma PrepareL2Tunnel_key:
  "entry_key (fst (PrepareL2TunnelTableEntry empty_TableEntry i p b d)) =
     (if v6_tunnel (ml_tnl_info i) then v6_key p (ml_mac_addr i) else v4_key p (ml_mac_addr i))"
  by (simp add: PrepareL2TunnelTableEntry_def v6_tunnel_def l2_to_tunnel_keys)

lemma fdb_tunnel_encoder_keys:
  "entry_key (fst (EncodeFdbTableEntryforV4VxlanTunnel empty_TableEntry i p b d)) =
     tx_key p (ml_mac_addr i) (ml_bridge_id i)"
  "entry_key (fst (EncodeFdbTableEntryforV4GeneveTunnel empty_TableEntry i p b d)) =
     tx_key p (ml_mac_addr i) (ml_bridge_id i)"
proof -
  have "entry_key (fst (EncodeFdbTableEntryforV4VxlanTunnel empty_TableEntry i p b d)) =
      entry_key (fst (EncodeFdbTableEntryforV4VxlanTunnel empty_TableEntry i p False d))"
    by (rule fdb_vxlan.key_flag)
  then show "entry_key (fst (EncodeFdbTableEntryforV4VxlanTunnel empty_TableEntry i p b d)) =
      tx_key p (ml_mac_addr i) (ml_bridge_id i)"
    by (simp add: EncodeFdbTableEntryforV4VxlanTunnel_def prologue_key Let_def)
  have "entry_key (fst (EncodeFdbTableEntryforV4GeneveTunnel empty_TableEntry i p b d)) =
      entry_key (fst (EncodeFdbTableEntryforV4GeneveTunnel empty_TableEntry i p False d))"
    by (rule fdb_geneve.key_flag)
  then show "entry_key (fst (EncodeFdbTableEntryforV4GeneveTunnel empty_TableEntry i p b d)) =
      tx_key p (ml_mac_addr i) (ml_bridge_id i)"
    by (simp add: EncodeFdbTableEntryforV4GeneveTunnel_def prologue_key Let_def)
qed

lemma PrepareFdbTunnel_key:
  assumes "b \<longrightarrow> known_tunnel_type (ml_tnl_info i)"
  shows "entry_key (fst (PrepareFdbTunnelTableEntry empty_TableEntry i p b d)) =
    tx_key p (ml_mac_addr i) (ml_bridge_id i)"
  using assms
  by (auto simp: PrepareFdbTunnelTableEntry_def known_tunnel_type_def fdb_tunnel_encoder_keys
      prologue_key)

lemma fdb_tunnel_key_key:
  assumes "known_tunnel_type (ml_tnl_info i)"
  shows "entry_key (fdb_tunnel_key i p) = tx_key p (ml_mac_addr i) (ml_bridge_id i)"
  using assms
  by (auto simp: fdb_tunnel_key_def PrepareFdbTableV4TunnelEntry_def known_tunnel_type_def
      fdb_tunnel_encoder_keys)

section \<open>Different tables, different keys\<close>

lemma declares_in: "declares p sc \<Longrightarrow> sc_table sc \<in> set (table_names p)"
  by (auto simp: declares_def declares_table_def table_names_def list_ex_iff
      intro: rev_image_eqI)

lemma fdb_tables_in:
  assumes "list_all (declares p) es2k_fdb_schemas"
  shows "L2_FWD_TX_TABLE \<in> set (table_names p)" "L2_FWD_RX_TABLE \<in> set (table_names p)"
    "L2_FWD_SMAC_TABLE \<in> set (table_names p)" "L2_TO_TUNNEL_V4_TABLE \<in> set (table_names p)"
    "L2_TO_TUNNEL_V6_TABLE \<in> set (table_names p)"
proof -
  have "sc_table sc \<in> set (table_names p)" if "sc \<in> set es2k_fdb_schemas" for sc
    using that assms by (auto simp: list_all_iff intro: declares_in)
  then have "list_all (\<lambda>sc. sc_table sc \<in> set (table_names p)) es2k_fdb_schemas"
    by (simp add: list_all_iff)
  then show "L2_FWD_TX_TABLE \<in> set (table_names p)" "L2_FWD_RX_TABLE \<in> set (table_names p)"
    "L2_FWD_SMAC_TABLE \<in> set (table_names p)" "L2_TO_TUNNEL_V4_TABLE \<in> set (table_names p)"
    "L2_TO_TUNNEL_V6_TABLE \<in> set (table_names p)"
    by (simp_all add: es2k_fdb_schemas_def schema_defs)
qed

lemma fdb_keys_distinct:
  assumes "wf_p4info p" and "list_all (declares p) es2k_fdb_schemas"
  shows "distinct [tx_key p m br, rx_key p m br, smac_key p m br, v4_key p m, v6_key p m]"
  using GetTableId_inj [OF assms(1)] fdb_tables_in [OF assms(2)]
  by (simp add: fdb_key_defs) (simp add: p4_names)

section \<open>Inserting and deleting on a table server\<close>

definition fdb_absent :: "P4Info \<Rightarrow> tables \<Rightarrow> mac_addr \<Rightarrow> u8 \<Rightarrow> bool" where
  "fdb_absent p T m br \<longleftrightarrow>
     T (tx_key p m br) = None \<and> T (rx_key p m br) = None \<and> T (smac_key p m br) = None \<and>
     T (v4_key p m) = None \<and> T (v6_key p m) = None"

lemma tunnel_entry_keys:
  assumes "b \<longrightarrow> known_tunnel_type (ml_tnl_info i)"
  shows "map entry_key (fdb_tunnel_entries i p b) =
    [tx_key p (ml_mac_addr i) (ml_bridge_id i),
     if v6_tunnel (ml_tnl_info i) then v6_key p (ml_mac_addr i) else v4_key p (ml_mac_addr i),
     smac_key p (ml_mac_addr i) (ml_bridge_id i)]"
  using assms by (simp add: fdb_tunnel_entries_def PrepareFdbTunnel_key PrepareL2Tunnel_key
      fdb_vlan_entry_keys)

lemma vlan_entry_keys:
  "map entry_key (fdb_vlan_entries i p b) =
    [tx_key p (ml_mac_addr i) (ml_bridge_id i), smac_key p (ml_mac_addr i) (ml_bridge_id i)]"
  by (simp add: fdb_vlan_entries_def fdb_vlan_entry_keys)

text \<open>The hypotheses the results of this section share: a session with a table server and
  a well-formed pipeline with the FDB tables.\<close>

definition fdb_setting ::
    "'e grpc_env \<Rightarrow> OvsP4rtSession \<Rightarrow> (TableEntry \<Rightarrow> bool) \<Rightarrow> ('e \<Rightarrow> tables) \<Rightarrow> P4Info \<Rightarrow>
     ('a Client_scheme, 'e) world \<Rightarrow> bool" where
  "fdb_setting g s accepts tables p w \<longleftrightarrow>
     table_server g (ses_stub s) accepts tables \<and> cl_session (w_client w) = Some s \<and>
     wf_p4info p \<and> list_all (declares p) es2k_fdb_schemas"

text \<open>Insert of a tunnel address that is not in the tables.\<close>

lemma fdb_tunnel_insert_tables:
  assumes set: "fdb_setting g s accepts tables p w"
    and t: "ml_is_tunnel i" "known_tunnel_type (ml_tnl_info i)"
    and acc: "list_all accepts (fdb_tunnel_entries i p True)"
    and new: "fdb_absent p (tables (w_env w)) (ml_mac_addr i) (ml_bridge_id i)"
  shows "\<exists>w'. ConfigFdbEntry (Client_vtable g flags) i p True w = Some (OkStatus, w') \<and>
    w_client w' = w_client w \<and>
    tables (w_env w') = tables (w_env w) ++ added (fdb_tunnel_entries i p True)"
proof -
  let ?tes = "fdb_tunnel_entries i p True"
  have srv: "table_server g (ses_stub s) accepts tables" and ses: "cl_session (w_client w) = Some s"
    and wf: "wf_p4info p" and dec: "list_all (declares p) es2k_fdb_schemas"
    using set by (simp_all add: fdb_setting_def)
  have "tables (w_env w) (entry_key (fdb_tunnel_key i p)) = None"
    using new by (simp add: fdb_tunnel_key_key [OF t(2)] fdb_absent_def)
  then obtain st e where r: "server_read g s (fdb_tunnel_key i p) (w_env w) = (Inl st, e)"
    and e: "tables e = tables (w_env w)"
    using server_read_absent [OF srv] by blast
  have keys: "map entry_key ?tes =
    [tx_key p (ml_mac_addr i) (ml_bridge_id i),
     if v6_tunnel (ml_tnl_info i) then v6_key p (ml_mac_addr i) else v4_key p (ml_mac_addr i),
     smac_key p (ml_mac_addr i) (ml_bridge_id i)]"
    by (rule tunnel_entry_keys) (simp add: t)
  have "distinct (map entry_key ?tes)"
    unfolding keys using fdb_keys_distinct [OF wf dec, of "ml_mac_addr i" "ml_bridge_id i"] by auto
  moreover have "list_all (\<lambda>te. tables e (entry_key te) = None) ?tes"
  proof -
    have "list_all (\<lambda>k. tables e k = None) (map entry_key ?tes)"
      unfolding keys using new by (simp add: fdb_absent_def e)
    then show ?thesis by (simp add: list.pred_map comp_def)
  qed
  ultimately have "tables (write_each g s True ?tes e) = tables (w_env w) ++ added ?tes"
    using insert_all [OF _ acc] by (simp add: write_each_tables [OF srv] e added_def)
  then show ?thesis
    using cl_ConfigFdbTunnelEntry_insert [OF ses r, of flags] t(1)
    by (auto simp: ConfigFdbEntry_def)
qed

text \<open>Delete of an address whose tunnel entry is in the IPv4 table or, failing that, in
  the IPv6 table.\<close>

lemma fdb_tunnel_delete_tables:
  assumes set: "fdb_setting g s accepts tables p w"
    and j: "\<not> ml_is_tunnel j" "\<not> v6_tunnel (ml_tnl_info j)"
    and here: "six \<longleftrightarrow> tables (w_env w) (v4_key p (ml_mac_addr j)) = None"
      "six \<longrightarrow> tables (w_env w) (v6_key p (ml_mac_addr j)) \<noteq> None"
  shows "\<exists>w'. ConfigFdbEntry (Client_vtable g flags) j p False w = Some (OkStatus, w') \<and>
    w_client w' = w_client w \<and>
    tables (w_env w') = tables (w_env w) |`
      (- {tx_key p (ml_mac_addr j) (ml_bridge_id j),
          if six then v6_key p (ml_mac_addr j) else v4_key p (ml_mac_addr j),
          smac_key p (ml_mac_addr j) (ml_bridge_id j)})"
proof -
  have srv: "table_server g (ses_stub s) accepts tables" and ses: "cl_session (w_client w) = Some s"
    using set by (simp_all add: fdb_setting_def)
  let ?k4 = "fst (EncodeL2ToTunnelV4 empty_TableEntry j p False default_DiagDetail)"
  let ?k6 = "fst (EncodeL2ToTunnelV6 empty_TableEntry j p False default_DiagDetail)"
  obtain r e where r: "server_read g s ?k4 (w_env w) = (r, e)" by fastforce
  have r4: "tables e = tables (w_env w)" "status_or_ok r \<longleftrightarrow> \<not> six"
    using server_read_tables [OF srv, of ?k4 "w_env w"] here(1) by (simp_all add: r l2_to_tunnel_keys)
  obtain r' e' where r': "server_read g s ?k6 e = (r', e')" by fastforce
  have r6: "tables e' = tables (w_env w)" "six \<longrightarrow> status_or_ok r'"
    using server_read_tables [OF srv, of ?k6 e] here(2)
    by (simp_all add: r' l2_to_tunnel_keys r4(1))
  obtain j' w1 where u: "UpdateFdbTunnelInfo (Client_vtable g flags) j p w = Some (j', w1)"
    and j': "ml_is_tunnel j'" "ml_mac_addr j' = ml_mac_addr j" "ml_bridge_id j' = ml_bridge_id j"
      "v6_tunnel (ml_tnl_info j') \<longleftrightarrow> six"
    and w1: "w_client w1 = w_client w" "tables (w_env w1) = tables (w_env w)"
    using cl_UpdateFdbTunnelInfo [OF ses r, of flags] j r4 r6 r'
    by (cases six) (auto simp: v6_tunnel_def Let_def)
  obtain w' where w': "ConfigFdbTunnelEntry (Client_vtable g flags) j' False p w1 = Some (OkStatus, w')"
    "w_client w' = w_client w"
    "w_env w' = write_each g s False (fdb_tunnel_entries j' p False) (w_env w1)"
    using cl_ConfigFdbTunnelEntry_delete [of w1 s g flags j' p] ses w1(1) by auto
  have "entry_key ` set (fdb_tunnel_entries j' p False) =
      set (map entry_key (fdb_tunnel_entries j' p False))" by simp
  also have "\<dots> = {tx_key p (ml_mac_addr j) (ml_bridge_id j),
          if six then v6_key p (ml_mac_addr j) else v4_key p (ml_mac_addr j),
          smac_key p (ml_mac_addr j) (ml_bridge_id j)}"
    by (subst tunnel_entry_keys) (simp_all add: j')
  finally have "tables (w_env w') = tables (w_env w) |`
      (- {tx_key p (ml_mac_addr j) (ml_bridge_id j),
          if six then v6_key p (ml_mac_addr j) else v4_key p (ml_mac_addr j),
          smac_key p (ml_mac_addr j) (ml_bridge_id j)})"
    by (simp only: w'(3) write_each_tables [OF srv] delete_all w1(2))
  with u w'(1,2) j'(1) show ?thesis by (simp add: ConfigFdbEntry_def)
qed

end
