(* ===== verification/Demo.thy ===== *)
theory Demo
  imports "HOL-Library.AList" Fdb_Server Es2k_Tunnel_Entry Vlan_Entry Ip_Mac_Map_Entry Dpdk_Encoders
begin

text \<open>
  Concrete instances that show the hypotheses of the properties can hold: a pipeline
  description that declares the names of a list of schemas, a P4Runtime server that
  keeps its tables in an association list, a session with it and sample arguments.
\<close>

section \<open>A pipeline description\<close>

definition number :: "string list \<Rightarrow> NamedId list" where
  "number ns = map (\<lambda>(i, n). \<lparr>ni_id = word_of_nat i, ni_name = n\<rparr>) (List.enumerate 1 ns)"

definition keys_of :: "entry_schema list \<Rightarrow> string \<Rightarrow> string list" where
  "keys_of scs t = remdups (concat (map sc_keys (filter (\<lambda>sc. sc_table sc = t) scs)))"

definition params_of :: "(string \<times> string list) list \<Rightarrow> string \<Rightarrow> string list" where
  "params_of acts a = remdups (concat (map snd (filter (\<lambda>x. fst x = a) acts)))"

definition p4info_of :: "entry_schema list \<Rightarrow> P4Info" where
  "p4info_of scs =
     (let acts = concat (map sc_actions scs) in
      \<lparr>pi_tables =
         map (\<lambda>(i, t). \<lparr>tbl_preamble = \<lparr>pre_id = word_of_nat i, pre_name = t\<rparr>,
                        tbl_match_fields = number (keys_of scs t)\<rparr>)
           (List.enumerate 1 (remdups (map sc_table scs))),
       pi_actions =
         map (\<lambda>(i, a). \<lparr>pact_preamble = \<lparr>pre_id = word_of_nat i, pre_name = a\<rparr>,
                        pact_params = number (params_of acts a)\<rparr>)
           (List.enumerate 101 (remdups (map fst acts)))\<rparr>)"

text \<open>The table the host port of a VSI is read from.\<close>

definition tx_acc_vsi_schema :: entry_schema where
  "tx_acc_vsi_schema = \<lparr>
     sc_table = TX_ACC_VSI_TABLE,
     sc_keys = [TX_ACC_VSI_TABLE_KEY_VSI],
     sc_actions = [(TX_ACC_VSI_TABLE_ACTION_L2_FWD_AND_BYPASS_BRIDGE,
                    [ACTION_L2_FWD_AND_BYPASS_BRIDGE_PARAM_PORT])]\<rparr>"

definition demo_fdb_p4info :: P4Info where
  "demo_fdb_p4info = p4info_of (tx_acc_vsi_schema # es2k_fdb_schemas)"

section \<open>A server\<close>

type_synonym demo_tables = "(entry_key \<times> TableEntry) list"

definition demo_write :: "WriteRequest \<Rightarrow> demo_tables \<Rightarrow> Status \<times> demo_tables" where
  "demo_write rq T =
     (case wr_updates rq of
        [u] \<Rightarrow>
          (let te = upd_entry u; k = entry_key te in
           case upd_type u of
             INSERT \<Rightarrow> if map_of T k = None then (OkStatus, (k, te) # T)
                       else (\<lparr>st_code = 6, st_message = ''already exists''\<rparr>, T)
           | DELETE \<Rightarrow> if map_of T k = None then (\<lparr>st_code = 5, st_message = ''not found''\<rparr>, T)
                       else (OkStatus, AList.delete k T)
           | _ \<Rightarrow> (UnimplementedError ''write'', T))
      | _ \<Rightarrow> (UnimplementedError ''write'', T))"

definition demo_read :: "ReadRequest \<Rightarrow> demo_tables \<Rightarrow> (ReadResponse list \<times> Status) \<times> demo_tables" where
  "demo_read rq T =
     (case rr_entities rq of
        [te] \<Rightarrow> (case map_of T (entry_key te) of
                   None \<Rightarrow> (([], \<lparr>st_code = 5, st_message = ''not found''\<rparr>), T)
                 | Some x \<Rightarrow> (([\<lparr>rs_entities = [x]\<rparr>], OkStatus), T))
      | _ \<Rightarrow> (([], UnimplementedError ''read''), T))"

definition demo_server :: "P4Info \<Rightarrow> demo_tables grpc_env" where
  "demo_server p = \<lparr>
     g_now = (\<lambda>_. 1000), g_thread_self = (\<lambda>_. 7),
     g_lstat_regular = (\<lambda>_ _. False), g_path_exists = (\<lambda>_ _. False),
     g_read_role_config = (\<lambda>_ _. (OkStatus, [])),
     g_new_stub = (\<lambda>_ _ T. (0, T)), g_stream_channel = (\<lambda>_ T. (0, T)),
     g_stream_write = (\<lambda>_ _ T. (True, T)),
     g_stream_read = (\<lambda>_ T. (Some (kArbitration 1), T)),
     g_stream_finish = (\<lambda>_ T. T),
     g_get_config = (\<lambda>_ _ T. ((OkStatus, p), T)),
     g_read = (\<lambda>_. demo_read), g_write = (\<lambda>_. demo_write)\<rparr>"

definition demo_session :: OvsP4rtSession where
  "demo_session = \<lparr>ses_device_id = 1, ses_election_id = \<lparr>u128_high = 1000, u128_low = 7\<rparr>,
     ses_role_name = [], ses_stub = 0, ses_stream_channel = 0\<rparr>"

definition demo_world :: "demo_tables \<Rightarrow> (Client, demo_tables) world" where
  "demo_world T = \<lparr>w_client = \<lparr>cl_session = Some demo_session\<rparr>, w_env = T, w_out = []\<rparr>"

lemma demo_server_simps [simp]:
  "g_write (demo_server p) stub = demo_write" "g_read (demo_server p) stub = demo_read"
  by (simp_all add: demo_server_def)

lemma demo_world_simps [simp]:
  "w_env (demo_world T) = T" "cl_session (w_client (demo_world T)) = Some demo_session"
  "ses_stub demo_session = 0"
  by (simp_all add: demo_world_def demo_session_def)

text \<open>The server keeps the documented contract.\<close>

lemma not_ok_code [simp]: "\<not> ok \<lparr>st_code = numeral n, st_message = m\<rparr>"
  by (simp add: ok_def)

lemma demo_table_server: "table_server (demo_server p) stub (\<lambda>_. True) map_of"
  by (auto simp: table_server_def demo_write_def demo_read_def single_write_def single_read_def
      write_type_def applicable_def apply_write_def AList.delete_conv' Let_def
      split: option.split)

section \<open>Sample arguments\<close>

definition demo_mac :: mac_addr where
  "demo_mac = Mac 0x00 0x11 0x22 0x33 0x44 0x55"

definition demo_ip :: "u8 \<Rightarrow> u128 \<Rightarrow> p4_ipaddr" where
  "demo_ip family mem = \<lparr>ip_family = family, ip_prefix_len = 32, ip_mem = mem\<rparr>"

definition demo_tunnel :: "u8 \<Rightarrow> u8 \<Rightarrow> p4_vlan_mode \<Rightarrow> tunnel_info" where
  "demo_tunnel family type mode = \<lparr>
     ti_ifindex = 1, ti_port_id = 2, ti_src_port = 2048,
     ti_local_ip = demo_ip family 0x0100A8C0, ti_remote_ip = demo_ip family 0x0200A8C0,
     ti_dst_port = 0xB512, ti_vni = 0x123456,
     ti_vlan_info = \<lparr>pv_mode = mode, pv_vlan = 5\<rparr>,
     ti_bridge_id = 9, ti_tunnel_type = type\<rparr>"

definition demo_learn :: "bool \<Rightarrow> u8 \<Rightarrow> u8 \<Rightarrow> mac_learning_info" where
  "demo_learn tunnel family type = \<lparr>
     ml_is_tunnel = tunnel, ml_is_vlan = \<not> tunnel, ml_mac_addr = demo_mac, ml_bridge_id = 9,
     ml_src_port = 20, ml_rx_src_port = 33,
     ml_vlan_info = \<lparr>pv_mode = P4_PORT_VLAN_NATIVE_TAGGED, pv_vlan = 5\<rparr>,
     ml_tnl_info = demo_tunnel family type P4_PORT_VLAN_NATIVE_TAGGED\<rparr>"

lemma demo_learn_simps [simp]:
  "ml_is_tunnel (demo_learn tn f t) = tn" "ml_mac_addr (demo_learn tn f t) = demo_mac"
  "ml_bridge_id (demo_learn tn f t) = 9"
  "ml_tnl_info (demo_learn tn f t) = demo_tunnel f t P4_PORT_VLAN_NATIVE_TAGGED"
  "ti_tunnel_type (demo_tunnel f t m) = t" "pv_mode (ti_vlan_info (demo_tunnel f t m)) = m"
  "ip_family (ti_local_ip (demo_tunnel f t m)) = f" "ti_vni (demo_tunnel f t m) = 0x123456"
  "ip_family (ti_remote_ip (demo_tunnel f t m)) = f"
  by (simp_all add: demo_learn_def demo_tunnel_def demo_ip_def)

text \<open>The entry of VSI 4 (source port 20) in the tx_acc_vsi table, with host port 42.\<close>

definition demo_vsi_entry :: TableEntry where
  "demo_vsi_entry =
     add_param (port_param_id demo_fdb_p4info) [0, 42]
       (EncodeTxAccVsiTableEntry empty_TableEntry 20 demo_fdb_p4info)"

definition demo_vsi_tables :: demo_tables where
  "demo_vsi_tables =
     [(entry_key (EncodeTxAccVsiTableEntry empty_TableEntry 20 demo_fdb_p4info), demo_vsi_entry)]"

lemma demo_fdb_wf: "wf_p4info demo_fdb_p4info" and
  demo_fdb_declares: "list_all (declares demo_fdb_p4info) es2k_fdb_schemas"
  by code_simp+

lemma demo_vsi_port: "find_port_entity (port_param_id demo_fdb_p4info) [demo_vsi_entry] = Some 42"
  by code_simp

lemma demo_vsi_absent: "fdb_absent demo_fdb_p4info (map_of demo_vsi_tables) demo_mac 9"
  by code_simp

end
