(* ===== verification/Api_Server.thy ===== *)
theory Api_Server
  imports Standard_Api Demo
begin

text \<open>
  The environment a whole call of the C interface runs in when nothing goes wrong below
  it: \<open>healthy\<close> says that the connection, the arbitration and the pipeline query succeed and
  that the server is a table server. On such an environment a DoConfig function is its
  update with the server's pipeline.
\<close>

section \<open>A server that answers\<close>

text \<open>What a whole API call needs of its environment: opening the channel and the stream
  succeeds, the arbitration answer names the requested device, the pipeline is \<open>p\<close>, none
  of this touches the tables, and reads and writes behave as a table server.\<close>

definition healthy ::
    "'e grpc_env \<Rightarrow> client_flags \<Rightarrow> P4Info \<Rightarrow> (TableEntry \<Rightarrow> bool) \<Rightarrow> ('e \<Rightarrow> tables) \<Rightarrow> bool" where
  "healthy g flags p accepts tables \<longleftrightarrow>
     (\<forall>e. \<exists>c. arbitration_role_config g e = Inr c) \<and>
     (\<forall>addr c e. tables (snd (g_new_stub g addr c e)) = tables e) \<and>
     (\<forall>stub e. tables (snd (g_stream_channel g stub e)) = tables e) \<and>
     (\<forall>st rq e. fst (g_stream_write g st rq e) \<and> tables (snd (g_stream_write g st rq e)) = tables e) \<and>
     (\<forall>st e. fst (g_stream_read g st e) =
               Some (kArbitration (ucast (ucast (FLAGS_device_id flags) :: u32))) \<and>
             tables (snd (g_stream_read g st e)) = tables e) \<and>
     (\<forall>stub rq e. snd (fst (g_get_config g stub rq e)) = p \<and>
                  tables (snd (g_get_config g stub rq e)) = tables e) \<and>
     (\<forall>stub. table_server g stub accepts tables)"

lemma healthy_create:
  assumes "healthy g flags p accepts tables"
  shows "\<exists>s e'. Create g stub (ucast (FLAGS_device_id flags)) r el e = (Inr s, e') \<and>
    tables e' = tables e"
proof -
  let ?d = "ucast (FLAGS_device_id flags) :: u32"
  obtain s0 e0 where n: "OvsP4rtSession_new g ?d r stub el e = (s0, e0)" by fastforce
  then have d: "ses_device_id s0 = ?d" and t0: "tables e0 = tables e"
    using assms by (auto simp: OvsP4rtSession_new_def healthy_def split: prod.splits)
       (metis snd_conv)
  obtain c where c: "arbitration_role_config g e0 = Inr c"
    using assms unfolding healthy_def by metis
  obtain ok1 e1 where w: "g_stream_write g (ses_stream_channel s0)
      \<lparr>arb_device_id = ucast ?d, arb_role_name = r, arb_role_config = c,
       arb_election_id = ses_election_id s0\<rparr> e0 = (ok1, e1)" by fastforce
  then have w1: "ok1" "tables e1 = tables e0"
    using assms unfolding healthy_def by (metis fst_conv, metis snd_conv)
  obtain r2 e2 where rd: "g_stream_read g (ses_stream_channel s0) e1 = (r2, e2)" by fastforce
  then have r2: "r2 = Some (kArbitration (ucast ?d))" "tables e2 = tables e1"
    using assms unfolding healthy_def by (metis fst_conv, metis snd_conv)
  show ?thesis
    using n d t0 c w w1 rd r2 by (simp add: Create_def)
qed

lemma healthy_connect:
  assumes "healthy g flags p accepts tables"
  shows "\<exists>s w'. Client_connect g flags addr w = Some (OkStatus, w') \<and>
    cl_session (w_client w') = Some s \<and> tables (w_env w') = tables (w_env w)"
proof -
  obtain c w0 where c: "GenerateClientCredentials g w = (c, w0)" and e0: "w_env w0 = w_env w"
    by (metis credentials_frame(1) prod.collapse)
  obtain stub e1 where n: "g_new_stub g addr c (w_env w0) = (stub, e1)" by fastforce
  then have t1: "tables e1 = tables (w_env w)"
    using assms e0 unfolding healthy_def by (metis snd_conv)
  obtain s e2 where "Create g stub (ucast (FLAGS_device_id flags)) (FLAGS_role_name flags)
      (TimeBasedElectionId g (w_env w0) + ucast (g_thread_self g (w_env w0))) e1 = (Inr s, e2)"
    "tables e2 = tables e1"
    using healthy_create [OF assms] by blast
  with c n t1 show ?thesis by (simp add: Client_connect_def Create_addr_def)
qed

text \<open>On such a server a DoConfig function is its update with the server's pipeline.\<close>

lemma healthy_in_session:
  assumes "healthy g flags p accepts tables"
  shows "\<exists>s w'. cl_session (w_client w') = Some s \<and> tables (w_env w') = tables (w_env w) \<and>
    in_session (Client_vtable g flags) addr update w = update p w'"
proof -
  obtain s w1 where c: "Client_connect g flags addr w = Some (OkStatus, w1)"
    "cl_session (w_client w1) = Some s" "tables (w_env w1) = tables (w_env w)"
    using healthy_connect [OF assms] by blast
  let ?rq = "\<lparr>gc_device_id = ucast (ses_device_id s), gc_response_type = ''P4INFO_AND_COOKIE''\<rparr>"
  obtain st q e2 where g: "g_get_config g (ses_stub s) ?rq (w_env w1) = ((st, q), e2)"
    by (metis prod.exhaust)
  then have "q = p" "tables e2 = tables (w_env w1)"
    using assms unfolding healthy_def by (metis fst_conv snd_conv, metis snd_conv)
  with c g have "cl_session (w_client (w1\<lparr>w_env := e2\<rparr>)) = Some s \<and>
      tables (w_env (w1\<lparr>w_env := e2\<rparr>)) = tables (w_env w) \<and>
      in_session (Client_vtable g flags) addr update w = update p (w1\<lparr>w_env := e2\<rparr>)"
    by (simp add: in_session_def Client_vtable_def Client_getPipelineConfig_def
        GetForwardingPipelineConfig_def)
  then show ?thesis by blast
qed

lemma healthy_table_server: "healthy g flags p accepts tables \<Longrightarrow> table_server g stub accepts tables"
  by (simp add: healthy_def)

lemma demo_healthy: "healthy (demo_server p) default_flags p (\<lambda>_. True) map_of"
proof -
  have "arbitration_role_config (demo_server p) e = Inr None" for e
    by (simp add: arbitration_role_config_def demo_server_def)
  moreover have "(ucast (ucast (1 :: u64) :: u32) :: u64) = 1" by simp
  moreover have "table_server (demo_server p) stub (\<lambda>_. True) map_of" for stub
    by (rule demo_table_server)
  ultimately show ?thesis by (simp add: healthy_def) (simp add: demo_server_def default_flags_def)
qed

end
