(* ===== verification/Write_Invariant.thy ===== *)
theory Write_Invariant
  imports Standard_Api Table_Server
begin

text \<open>
  Invariants of the API code that depend only on the entries it writes. The locale
  \<open>write_invariant\<close> extends the contract of a client with a property \<open>inv\<close> of the state
  that a read keeps and that a write keeps when it is \<open>permitted\<close>; its lemmas say which
  entries have to be permitted for each Config function to keep \<open>inv\<close>, whatever the
  server answers. The instance is the production client, for every property of the server's
  tables that permitted writes keep.
\<close>

section \<open>The contract\<close>

locale write_invariant = client_interface ci ready dev elec
  for ci :: "('c, 'e) ClientInterface" and ready dev elec +
  fixes inv :: "('c, 'e) world \<Rightarrow> bool"
    and permitted :: "bool \<Rightarrow> TableEntry \<Rightarrow> bool"
  assumes inv_ready: "inv w \<Longrightarrow> ready (w_client w)"
    and inv_send: "inv w \<Longrightarrow> permitted b te \<Longrightarrow> runs inv (send_entry b te w)"
    and inv_read: "inv w \<Longrightarrow> runs inv (read_key te w)"
    and inv_output: "w_client w' = w_client w \<Longrightarrow> w_env w' = w_env w \<Longrightarrow> inv w' = inv w"
begin

lemma inv_log [simp]:
  "inv (LogFailure i t w) = inv w" "inv (LogFailureWithMacAddr i t m w) = inv w"
  "inv (print_line l w) = inv w" "inv (print_lines ls w) = inv w"
  by (rule inv_output; simp)+

lemma inv_then:
  assumes "runs inv m" and "\<And>r w. inv w \<Longrightarrow> runs inv (f (r, w))"
  shows "runs inv (m \<bind> f)"
  using assms by (rule runs_bind)

lemma inv_send_logged:
  assumes "inv w" and "permitted b (fst r)"
    and "\<And>t w. w_client (log t w) = w_client w" and "\<And>t w. w_env (log t w) = w_env w"
  shows "runs inv (send_logged log b r w)"
proof -
  have "inv (log t w') = inv w'" for t w'
    using assms(3,4) by (intro inv_output) simp_all
  then show ?thesis
    using inv_send [OF assms(1,2)] by (auto simp: send_logged_def runs_def)
qed

lemma inv_send_printed:
  "inv w \<Longrightarrow> permitted b te \<Longrightarrow> runs inv (send_entry b te (print_lines ls w))"
  by (rule inv_send) simp_all

lemmas inv_rules = inv_then inv_send inv_read inv_send_logged inv_send_printed

lemma ConfigVlanEntry_inv:
  assumes "inv w" and "list_all (permitted b) (vlan_entries v p b)"
  shows "runs inv (ConfigVlanEntry ci v p b w)"
  using assms unfolding ConfigVlanEntry_def
  by (auto simp: WriteVlanPush WriteVlanPop inv_ready vlan_entries_def intro!: inv_rules)

lemma GetTxAccVsiPort_inv:
  assumes "inv w"
  shows "runs inv (GetTxAccVsiPort ci p sp w)"
  using assms unfolding GetTxAccVsiPort_def
  by (auto simp: ReadTxAccVsi inv_ready Let_def intro!: inv_rules split: sum.split option.split)

lemma ConfigSrcPortEntry_inv:
  assumes "inv w"
    and "\<And>sp. permitted b (EncodeSrcPortTableEntry empty_TableEntry sp p b)"
  shows "runs inv (ConfigSrcPortEntry ci i p b w)"
  using assms unfolding ConfigSrcPortEntry_def
  by (auto simp: WriteVsiSrcPort inv_ready intro!: inv_rules GetTxAccVsiPort_inv split: sum.split)

lemma WriteTunnelSrcPortEntry_inv:
  assumes "inv w" and "permitted b (EncodeSrcPortTableEntry empty_TableEntry i p b)"
  shows "runs inv (WriteTunnelSrcPortEntry ci i p b w)"
  using assms by (simp add: WriteTunnelSrcPort inv_ready inv_send)

lemma WriteRxTunnelSrcPortTableEntry_inv:
  assumes "inv w" and "permitted b (PrepareRxTunnelSrcPortTableEntry empty_TableEntry t p b)"
  shows "runs inv (WriteRxTunnelSrcPortTableEntry ci t p b w)"
  using assms by (simp add: WriteRxTunnelSrcPort inv_ready inv_send)

lemma ConfigIpMacMapEntry_inv:
  assumes "inv w"
    and "permitted b (fst (EncodeSrcIpMacMapTableEntry empty_TableEntry i p b default_DiagDetail))"
    and "permitted b (fst (EncodeDstIpMacMapTableEntry empty_TableEntry i p b default_DiagDetail))"
  shows "runs inv (ConfigIpMacMapEntry ci i p b w)"
  using assms unfolding ConfigIpMacMapEntry_def
  by (auto simp: ReadVmSrc ReadVmDst WriteSrcIpMacMap WriteDstIpMacMap inv_ready intro!: inv_rules)

lemma ConfigTunnelEntry_inv:
  assumes "inv w" and "list_all (permitted b) (tunnel_entries t p b)"
  shows "runs inv (ConfigTunnelEntry ci t p b w)"
  using assms unfolding ConfigTunnelEntry_def
  by (auto simp: WriteEncap WriteDecap WriteTunnelTerm inv_ready tunnel_entries_def
      intro!: inv_rules)

lemma ConfigFdbTunnelEntry_inv:
  assumes "inv w" and "list_all (permitted b) (fdb_tunnel_entries i p b)"
  shows "runs inv (ConfigFdbTunnelEntry ci i b p w)"
  using assms unfolding ConfigFdbTunnelEntry_def
  by (auto simp: ReadFdbTunnel WriteFdbTunnel WriteL2Tunnel WriteFdbSmac inv_ready
      fdb_tunnel_entries_def intro!: inv_rules)

lemma UpdateFdbSrcPortInfo_inv:
  assumes "inv w"
  shows "\<exists>r w'. UpdateFdbSrcPortInfo ci i p w = Some (r, w') \<and> inv w' \<and>
    (\<exists>port. snd r = i\<lparr>ml_src_port := port\<rparr>)"
proof -
  obtain r w' where r: "GetTxAccVsiPort ci p (ml_src_port i) w = Some (r, w')" "inv w'"
    using GetTxAccVsiPort_inv [OF assms, of p "ml_src_port i"] unfolding runs_def by blast
  have "\<exists>port. i = i\<lparr>ml_src_port := port\<rparr>" by (rule exI [of _ "ml_src_port i"]) simp
  with r show ?thesis
    by (auto simp: UpdateFdbSrcPortInfo_def split: sum.split)
qed

lemma ConfigFdbVlanEntry_inv:
  assumes w: "inv w" and rx: "b \<Longrightarrow> permitted b (fdb_rx_entry i p b)"
    and tx: "\<And>port. list_all (permitted b) (fdb_vlan_entries (i\<lparr>ml_src_port := port\<rparr>) p b)"
  shows "runs inv (ConfigFdbVlanEntry ci i b p w)"
proof -
  have rest: "runs inv (WriteFdbTxVlanTableEntry ci j p b w \<bind>
      (\<lambda>(_, w). WriteFdbSmacTableEntry ci j p b w \<bind> (\<lambda>(_, w). Some (OkStatus, w))))"
    if "inv w" "list_all (permitted b) (fdb_vlan_entries j p b)" for j w
    using that
    by (auto simp: WriteFdbTxVlan WriteFdbSmac inv_ready fdb_vlan_entries_def intro!: inv_rules)
  have i: "list_all (permitted b) (fdb_vlan_entries i p b)"
    using tx [of "ml_src_port i"] by simp
  show ?thesis
  proof (cases b)
    case False
    then show ?thesis using rest [OF w i] by (simp add: ConfigFdbVlanEntry_def)
  next
    case True
    obtain r w1 where r: "ReadFdbVlanTableEntry ci i p True w = Some (r, w1)" "inv w1"
      using inv_read [OF w] ReadFdbVlan [OF inv_ready [OF w]] unfolding runs_def by metis
    have "runs inv (WriteFdbRxVlanTableEntry ci i p True w1)"
      using rx True r(2) by (auto simp: WriteFdbRxVlan inv_ready fdb_rx_entry_def intro!: inv_rules)
    then obtain r2 w2 where w2: "WriteFdbRxVlanTableEntry ci i p True w1 = Some (r2, w2)" "inv w2"
      by (auto simp: runs_def)
    obtain st port w3 where w3:
      "UpdateFdbSrcPortInfo ci i p w2 = Some ((st, i\<lparr>ml_src_port := port\<rparr>), w3)" "inv w3"
      using UpdateFdbSrcPortInfo_inv [OF w2(2), of i p] by (metis prod.collapse)
    show ?thesis
      using True r w2 w3 rest [OF w3(2) tx] by (simp add: ConfigFdbVlanEntry_def)
  qed
qed

text \<open>A delete may turn the learned address into one behind a tunnel.\<close>

lemma ConfigFdbEntry_inv:
  assumes w: "inv w"
    and tunnel: "\<And>j. (b \<longrightarrow> j = i \<and> ml_is_tunnel i) \<Longrightarrow> list_all (permitted b) (fdb_tunnel_entries j p b)"
    and rx: "b \<Longrightarrow> \<not> ml_is_tunnel i \<Longrightarrow> permitted b (fdb_rx_entry i p b)"
    and vlan: "\<And>j. (b \<longrightarrow> \<not> ml_is_tunnel i) \<Longrightarrow> list_all (permitted b) (fdb_vlan_entries j p b)"
  shows "runs inv (ConfigFdbEntry ci i p b w)"
proof (cases b)
  case True
  with assms show ?thesis
    by (cases "ml_is_tunnel i")
      (simp_all add: ConfigFdbEntry_def ConfigFdbTunnelEntry_inv ConfigFdbVlanEntry_inv)
next
  case False
  have "runs inv (UpdateFdbTunnelInfo ci i p w)"
    using w unfolding UpdateFdbTunnelInfo_def
    by (auto simp: ReadL2ToTunnelV4 ReadL2ToTunnelV6 inv_ready Let_def intro!: inv_rules)
  then show ?thesis
    using False tunnel vlan unfolding ConfigFdbEntry_def
    by (auto intro!: inv_then ConfigFdbTunnelEntry_inv ConfigFdbVlanEntry_inv)
qed

lemma dpdk_ConfigTunnelEntry_inv:
  assumes "inv w" and "list_all (permitted b) (dpdk_tunnel_entries t p b)"
  shows "runs inv (dpdk_ConfigTunnelEntry ci t p b w)"
  using assms unfolding dpdk_ConfigTunnelEntry_def
  by (auto simp: dpdk_WriteEncap dpdk_WriteTunnelTerm dpdk_PrepareV4EncapTableEntry_def inv_ready
      dpdk_tunnel_entries_def intro!: inv_rules)

lemma dpdk_ConfigFdbEntry_inv:
  assumes "inv w" and "list_all (permitted b) (dpdk_fdb_entries i p b)"
  shows "runs inv (dpdk_ConfigFdbEntry ci i p b w)"
  using assms unfolding dpdk_ConfigFdbEntry_def
  by (auto simp: dpdk_WriteFdbTxVlan dpdk_WriteFdbRxVlan dpdk_WriteFdbTunnel inv_ready
      dpdk_fdb_entries_def intro!: inv_rules)

end

section \<open>The production client\<close>

text \<open>What is assumed of the server here: a write request has its effect or none, whatever the
  answer says, and a read request has none, whatever the answer is.\<close>

definition write_effect :: "bool \<Rightarrow> TableEntry \<Rightarrow> tables \<Rightarrow> tables" where
  "write_effect b te T = T(entry_key te := (if b then Some te else None))"

definition entry_server :: "'e grpc_env \<Rightarrow> nat \<Rightarrow> ('e \<Rightarrow> tables) \<Rightarrow> bool" where
  "entry_server g stub tables \<longleftrightarrow>
     (\<forall>dev el b te e. tables (snd (g_write g stub (single_write dev el b te) e)) \<in>
        {tables e, write_effect b te (tables e)}) \<and>
     (\<forall>dev te e. tables (snd (g_read g stub (single_read dev te) e)) = tables e)"

lemma table_server_entries: "table_server g stub accepts tables \<Longrightarrow> entry_server g stub tables"
  by (auto simp: table_server_def entry_server_def apply_write_def write_effect_def case_prod_beta)

text \<open>A property of the tables that permitted writes keep, together with what a call needs
  of the client and the server.\<close>

definition tables_inv ::
    "'e grpc_env \<Rightarrow> ('e \<Rightarrow> tables) \<Rightarrow> (tables \<Rightarrow> bool) \<Rightarrow> (Client, 'e) world \<Rightarrow> bool" where
  "tables_inv g tables P w \<longleftrightarrow>
     (\<exists>s. cl_session (w_client w) = Some s \<and> entry_server g (ses_stub s) tables) \<and>
     P (tables (w_env w))"

definition kept_by :: "(tables \<Rightarrow> bool) \<Rightarrow> bool \<Rightarrow> TableEntry \<Rightarrow> bool" where
  "kept_by P b te \<longleftrightarrow> (\<forall>T. P T \<longrightarrow> P (write_effect b te T))"

lemma tables_inv_send:
  assumes "tables_inv g tables P w" and "kept_by P b te"
  shows "runs (tables_inv g tables P) (cl.send_entry g flags b te w)"
proof -
  from assms(1) obtain s where s: "cl_session (w_client w) = Some s"
    and srv: "entry_server g (ses_stub s) tables" and P: "P (tables (w_env w))"
    by (auto simp: tables_inv_def)
  have "tables (snd (server_write g s b te (w_env w))) \<in>
      {tables (w_env w), write_effect b te (tables (w_env w))}"
    using srv by (simp add: server_write_def SendWriteRequest_def entry_server_def case_prod_beta)
  then have "P (tables (snd (server_write g s b te (w_env w))))"
    using P assms(2) by (auto simp: kept_by_def)
  with s srv show ?thesis
    by (auto simp: cl_send_entry tables_inv_def Let_def split: prod.split)
qed

lemma tables_inv_read:
  assumes "tables_inv g tables P w"
  shows "runs (tables_inv g tables P) (cl.read_key g flags te w)"
proof -
  from assms(1) obtain s where s: "cl_session (w_client w) = Some s"
    and srv: "entry_server g (ses_stub s) tables" and P: "P (tables (w_env w))"
    by (auto simp: tables_inv_def)
  have "tables (snd (server_read g s te (w_env w))) = tables (w_env w)"
    using srv by (simp add: server_read_def SendReadRequest_def entry_server_def case_prod_beta)
  with s srv P show ?thesis
    by (auto simp: cl_read_key tables_inv_def Let_def split: prod.split)
qed

interpretation tb: write_invariant "Client_vtable g flags" Client_ready Client_dev Client_elec
    "tables_inv g tables P" "kept_by P"
  for g :: "'e grpc_env" and flags tables P
proof unfold_locales
  show "Client_ready (w_client w)" if "tables_inv g tables P w" for w
    using that by (auto simp: tables_inv_def Client_ready_def)
qed (simp_all add: tables_inv_send tables_inv_read, simp add: tables_inv_def)

end
