(* ===== verification/Api_Machine.thy ===== *)
theory Api_Machine
  imports Api_Server Write_Invariant
begin

text \<open>
  The library as a state machine: a state is what the callers of the C interface share
  (the environment with the server's tables, and the output), a step is one call. The
  lemmas reduce an invariant of the reachable states to the entries the calls write.
\<close>

section \<open>Calls and steps\<close>

datatype api_call =
    FdbCall mac_learning_info bool
  | TunnelCall tunnel_info bool
  | RxTunnelSrcCall tunnel_info bool
  | VlanCall u16 bool
  | TunnelSrcPortCall src_port_info bool
  | SrcPortCall src_port_info bool
  | IpMacMapCall ip_mac_map_info bool

fun perform ::
    "target \<Rightarrow> 'e grpc_env \<Rightarrow> client_flags \<Rightarrow> string \<Rightarrow> api_call \<Rightarrow> 'e outside \<Rightarrow>
     'e outside option" where
  "perform target g flags addr (FdbCall i b) = ovsp4rt_config_fdb_entry target g flags i b addr"
| "perform target g flags addr (TunnelCall t b) =
     ovsp4rt_config_tunnel_entry target g flags t b addr"
| "perform target g flags addr (RxTunnelSrcCall t b) =
     ovsp4rt_config_rx_tunnel_src_entry target g flags t b addr"
| "perform target g flags addr (VlanCall v b) = ovsp4rt_config_vlan_entry target g flags v b addr"
| "perform target g flags addr (TunnelSrcPortCall sp b) =
     ovsp4rt_config_tunnel_src_port_entry target g flags sp b addr"
| "perform target g flags addr (SrcPortCall sp b) =
     ovsp4rt_config_src_port_entry target g flags sp b addr"
| "perform target g flags addr (IpMacMapCall m b) =
     ovsp4rt_config_ip_mac_map_entry target g flags m b addr"

fun inserts :: "api_call \<Rightarrow> bool" where
  "inserts (FdbCall i b) = b"
| "inserts (TunnelCall t b) = b"
| "inserts (RxTunnelSrcCall t b) = b"
| "inserts (VlanCall v b) = b"
| "inserts (TunnelSrcPortCall sp b) = b"
| "inserts (SrcPortCall sp b) = b"
| "inserts (IpMacMapCall m b) = b"

inductive api_step ::
    "target \<Rightarrow> 'e grpc_env \<Rightarrow> client_flags \<Rightarrow> (api_call \<Rightarrow> bool) \<Rightarrow> 'e outside \<Rightarrow> 'e outside \<Rightarrow> bool"
  for target g flags allowed where
  call: "allowed c \<Longrightarrow> perform target g flags addr c io = Some io' \<Longrightarrow>
    api_step target g flags allowed io io'"

inductive_cases api_stepE: "api_step target g flags allowed io io'"

text \<open>The calls the library has encoders for: what an insert needs of its tunnel.\<close>

fun supported_call :: "api_call \<Rightarrow> bool" where
  "supported_call (FdbCall i b) =
     (b \<and> ml_is_tunnel i \<longrightarrow> known_tunnel_type (ml_tnl_info i) \<and> same_ip_family (ml_tnl_info i))"
| "supported_call (TunnelCall t b) = (b \<longrightarrow> known_tunnel_type t \<and> same_ip_family t)"
| "supported_call (RxTunnelSrcCall t b) = (b \<longrightarrow> same_ip_family t)"
| "supported_call _ = True"

section \<open>The entries a call may write\<close>

fun es2k_writes :: "P4Info \<Rightarrow> api_call \<Rightarrow> TableEntry set" where
  "es2k_writes p (FdbCall i b) =
     (if b then
        (if ml_is_tunnel i then set (fdb_tunnel_entries i p b)
         else insert (fdb_rx_entry i p b) (\<Union>j. set (fdb_vlan_entries j p b)))
      else (\<Union>j. set (fdb_tunnel_entries j p b)) \<union> (\<Union>j. set (fdb_vlan_entries j p b)))"
| "es2k_writes p (TunnelCall t b) = set (tunnel_entries t p b)"
| "es2k_writes p (RxTunnelSrcCall t b) = {PrepareRxTunnelSrcPortTableEntry empty_TableEntry t p b}"
| "es2k_writes p (VlanCall v b) = set (vlan_entries v p b)"
| "es2k_writes p (TunnelSrcPortCall sp b) = {EncodeSrcPortTableEntry empty_TableEntry sp p b}"
| "es2k_writes p (SrcPortCall sp b) = (\<Union>i. {EncodeSrcPortTableEntry empty_TableEntry i p b})"
| "es2k_writes p (IpMacMapCall m b) =
     {fst (EncodeSrcIpMacMapTableEntry empty_TableEntry m p b default_DiagDetail),
      fst (EncodeDstIpMacMapTableEntry empty_TableEntry m p b default_DiagDetail)}"

fun dpdk_writes :: "P4Info \<Rightarrow> api_call \<Rightarrow> TableEntry set" where
  "dpdk_writes p (FdbCall i b) = set (dpdk_fdb_entries i p b)"
| "dpdk_writes p (TunnelCall t b) = set (dpdk_tunnel_entries t p b)"
| "dpdk_writes p _ = {}"

definition call_writes :: "target \<Rightarrow> P4Info \<Rightarrow> api_call \<Rightarrow> TableEntry set" where
  "call_writes target p c =
     (case target of ES2K_TARGET \<Rightarrow> es2k_writes p c | DPDK_TARGET \<Rightarrow> dpdk_writes p c)"

section \<open>The environment of a call\<close>

text \<open>Nothing but writes changes the tables. Everything may fail: the channel, the stream, the
  arbitration, the pipeline query, reads and writes.\<close>

definition keeps_tables :: "'e grpc_env \<Rightarrow> ('e \<Rightarrow> tables) \<Rightarrow> bool" where
  "keeps_tables g tables \<longleftrightarrow>
     (\<forall>addr c e. tables (snd (g_new_stub g addr c e)) = tables e) \<and>
     (\<forall>stub e. tables (snd (g_stream_channel g stub e)) = tables e) \<and>
     (\<forall>st rq e. tables (snd (g_stream_write g st rq e)) = tables e) \<and>
     (\<forall>st e. tables (snd (g_stream_read g st e)) = tables e) \<and>
     (\<forall>st e. tables (g_stream_finish g st e) = tables e) \<and>
     (\<forall>stub rq e. tables (snd (g_get_config g stub rq e)) = tables e) \<and>
     (\<forall>stub. entry_server g stub tables)"

text \<open>The pipeline descriptions the server sends.\<close>

definition sends_pipeline :: "'e grpc_env \<Rightarrow> P4Info \<Rightarrow> bool" where
  "sends_pipeline g p \<longleftrightarrow> (\<exists>stub rq e. snd (fst (g_get_config g stub rq e)) = p)"

lemma keeps_tables_create:
  assumes "keeps_tables g tables" and "Create g stub d r el e = (res, e')"
  shows "tables e' = tables e"
proof -
  obtain s0 e0 where n: "OvsP4rtSession_new g d r stub el e = (s0, e0)" by fastforce
  then have "tables e0 = tables e"
    using assms(1) unfolding OvsP4rtSession_new_def keeps_tables_def by (auto split: prod.splits) (metis snd_conv)
  moreover have "\<And>st rq e b e'. g_stream_write g st rq e = (b, e') \<Longrightarrow> tables e' = tables e"
    "\<And>st e x e'. g_stream_read g st e = (x, e') \<Longrightarrow> tables e' = tables e"
    "\<And>st e. tables (g_stream_finish g st e) = tables e"
    using assms(1) unfolding keeps_tables_def by (metis snd_conv)+
  ultimately show ?thesis
    using assms(2) n
    by (auto simp: Create_def split: prod.splits sum.splits option.splits if_splits StreamMessageResponse.splits)
qed

lemma keeps_tables_connect:
  assumes "keeps_tables g tables"
  shows "\<exists>st w'. Client_connect g flags addr w = Some (st, w') \<and> tables (w_env w') = tables (w_env w) \<and>
    (ok st \<longrightarrow> (\<exists>s. cl_session (w_client w') = Some s))"
proof -
  obtain c w0 where c: "GenerateClientCredentials g w = (c, w0)" and e0: "w_env w0 = w_env w"
    by (metis credentials_frame(1) prod.collapse)
  obtain stub e1 where n: "g_new_stub g addr c (w_env w0) = (stub, e1)" by fastforce
  then have t1: "tables e1 = tables (w_env w)" using assms e0 unfolding keeps_tables_def by (metis snd_conv)
  obtain res e2 where r: "Create g stub (ucast (FLAGS_device_id flags)) (FLAGS_role_name flags)
      (TimeBasedElectionId g (w_env w0) + ucast (g_thread_self g (w_env w0))) e1 = (res, e2)"
    by fastforce
  have "tables e2 = tables (w_env w)" using keeps_tables_create [OF assms r] t1 by simp
  with c n r show ?thesis
    by (cases res) (auto simp: Client_connect_def Create_addr_def dest: Create_error)
qed

text \<open>A DoConfig function stops at a failure, or it is its update with a pipeline the server sent.\<close>

lemma keeps_tables_in_session:
  assumes "keeps_tables g tables"
  obtains (failed) st w' where "tables (w_env w') = tables (w_env w)"
      "in_session (Client_vtable g flags) addr update w = Some (st, w')"
    | (update) p s w' where "sends_pipeline g p" "cl_session (w_client w') = Some s"
      "tables (w_env w') = tables (w_env w)"
      "in_session (Client_vtable g flags) addr update w = update p w'"
proof -
  obtain st w1 where c: "Client_connect g flags addr w = Some (st, w1)" "tables (w_env w1) = tables (w_env w)"
    "ok st \<longrightarrow> (\<exists>s. cl_session (w_client w1) = Some s)"
    using keeps_tables_connect [OF assms] by blast
  show thesis
  proof (cases "ok st")
    case False
    with c show ?thesis by (intro failed [of w1 st]) (simp_all add: in_session_def Client_vtable_def)
  next
    case True
    with c obtain s where s: "cl_session (w_client w1) = Some s" by blast
    let ?rq = "\<lparr>gc_device_id = ucast (ses_device_id s), gc_response_type = ''P4INFO_AND_COOKIE''\<rparr>"
    obtain st' p e2 where g: "g_get_config g (ses_stub s) ?rq (w_env w1) = ((st', p), e2)"
      by (metis prod.exhaust)
    have "tables e2 = tables (w_env w1)" using assms g unfolding keeps_tables_def by (metis snd_conv)
    moreover have "sends_pipeline g p" using g unfolding sends_pipeline_def by (metis fst_conv snd_conv)
    ultimately show ?thesis
      using c s g True
      by (intro update [of p "w1\<lparr>w_env := e2\<rparr>" s])
        (simp_all add: in_session_def Client_vtable_def Client_getPipelineConfig_def
          GetForwardingPipelineConfig_def)
  qed
qed

lemma demo_keeps_tables: "keeps_tables (demo_server p) map_of"
  using table_server_entries [OF demo_table_server] unfolding keeps_tables_def by (simp add: demo_server_def)

lemma demo_sends_pipeline: "sends_pipeline (demo_server p) q \<longleftrightarrow> q = p"
  by (auto simp: sends_pipeline_def demo_server_def)

section \<open>Invariants of a call\<close>

text \<open>A property of the tables that holds before a call and that every entry the call may write
  keeps holds after it, and the call returns. The property may depend on the pipeline
  description the call gets.\<close>

lemma with_client_inv:
  assumes h: "keeps_tables g tables" and io: "\<And>p. P p (tables (fst io))"
    and update: "\<And>p w. sends_pipeline g p \<Longrightarrow> tables_inv g tables (P p) w \<Longrightarrow>
      runs (tables_inv g tables (P p)) (update p w)"
  shows "\<exists>io'. with_client (in_session (Client_vtable g flags) addr update) io = Some io' \<and>
    (\<exists>p. sends_pipeline g p \<and> P p (tables (fst io')))"
proof -
  let ?w = "\<lparr>w_client = Client_new, w_env = fst io, w_out = snd io\<rparr>"
  show ?thesis
    using h
  proof (cases rule: keeps_tables_in_session [where w = ?w and flags = flags and addr = addr
        and update = update])
    case (failed st w')
    moreover have "\<exists>p. sends_pipeline g p" unfolding sends_pipeline_def by blast
    ultimately show ?thesis using io by (auto simp: with_client_def)
  next
    case (update p s w')
    then have "tables_inv g tables (P p) w'"
      using io h by (auto simp: tables_inv_def keeps_tables_def)
    from assms(3) [OF update(1) this] obtain r w2 where "update p w' = Some (r, w2)"
      "tables_inv g tables (P p) w2" by (auto simp: runs_def)
    with update show ?thesis by (auto simp: with_client_def tables_inv_def)
  qed
qed

lemmas api_defs = ovsp4rt_config_fdb_entry_def ovsp4rt_config_tunnel_entry_def
  ovsp4rt_config_rx_tunnel_src_entry_def ovsp4rt_config_vlan_entry_def
  ovsp4rt_config_tunnel_src_port_entry_def ovsp4rt_config_src_port_entry_def
  ovsp4rt_config_ip_mac_map_entry_def

lemmas api_in_session = DoConfigFdbEntry_in_session DoConfigTunnelEntry_in_session
  DoConfigRxTunnelSrcEntry_in_session DoConfigVlanEntry_in_session
  DoConfigTunnelSrcPortEntry_in_session DoConfigSrcPortEntry_in_session
  DoConfigIpMacMapEntry_in_session dpdk_DoConfigFdbEntry_in_session
  dpdk_DoConfigTunnelEntry_in_session

text \<open>Every call returns.\<close>

lemma perform_returns: "\<exists>io'. perform target g flags addr c io = Some io'"
  by (cases target; cases c)
    (auto simp del: split_paired_Ex simp: api_defs intro!: with_client_returns
      cl.DoConfigFdbEntry_returns cl.dpdk_DoConfigFdbEntry_returns
      cl.DoConfigTunnelEntry_returns cl.dpdk_DoConfigTunnelEntry_returns
      cl.DoConfigRxTunnelSrcEntry_returns cl.DoConfigVlanEntry_returns
      cl.DoConfigTunnelSrcPortEntry_returns cl.DoConfigSrcPortEntry_returns
      cl.DoConfigIpMacMapEntry_returns)

lemma es2k_perform_inv:
  assumes h: "keeps_tables g tables" and io: "\<And>p. P p (tables (fst io))"
    and kept: "\<And>p te. sends_pipeline g p \<Longrightarrow> te \<in> es2k_writes p c \<Longrightarrow> kept_by (P p) (inserts c) te"
  shows "\<exists>io'. perform ES2K_TARGET g flags addr c io = Some io' \<and>
    (\<exists>p. sends_pipeline g p \<and> P p (tables (fst io')))"
  using kept
proof (cases c)
  case (FdbCall i b)
  have "runs (tables_inv g tables (P p)) (ConfigFdbEntry (Client_vtable g flags) i p b w)"
    if p: "sends_pipeline g p" and w: "tables_inv g tables (P p) w" for p w
  proof (rule tb.ConfigFdbEntry_inv [OF w])
    have kb: "kept_by (P p) b te" if "te \<in> es2k_writes p (FdbCall i b)" for te
      using kept [OF p] that FdbCall by simp
    show "list_all (kept_by (P p) b) (fdb_tunnel_entries j p b)"
      if "b \<longrightarrow> j = i \<and> ml_is_tunnel i" for j
      unfolding list_all_iff using that by (intro ballI kb) auto
    show "kept_by (P p) b (fdb_rx_entry i p b)" if "b" "\<not> ml_is_tunnel i"
      using that by (intro kb) auto
    show "list_all (kept_by (P p) b) (fdb_vlan_entries j p b)"
      if "b \<longrightarrow> \<not> ml_is_tunnel i" for j
      unfolding list_all_iff using that by (intro ballI kb) auto
  qed
  then show ?thesis
    unfolding FdbCall
    by (simp del: split_paired_Ex add: api_defs api_in_session with_client_inv [OF h, of P, OF io])
next
  case (TunnelCall t b)
  with kept show ?thesis
    by (auto simp del: split_paired_Ex simp: api_defs api_in_session list_all_iff
        intro!: with_client_inv [OF h, of P, OF io] tb.ConfigTunnelEntry_inv)
next
  case (RxTunnelSrcCall t b)
  with kept show ?thesis
    by (auto simp del: split_paired_Ex simp: api_defs api_in_session
        intro!: with_client_inv [OF h, of P, OF io] tb.WriteRxTunnelSrcPortTableEntry_inv)
next
  case (VlanCall v b)
  with kept show ?thesis
    by (auto simp del: split_paired_Ex simp: api_defs api_in_session list_all_iff
        intro!: with_client_inv [OF h, of P, OF io] tb.ConfigVlanEntry_inv)
next
  case (TunnelSrcPortCall sp b)
  with kept show ?thesis
    by (auto simp del: split_paired_Ex simp: api_defs api_in_session
        intro!: with_client_inv [OF h, of P, OF io] tb.WriteTunnelSrcPortEntry_inv)
next
  case (SrcPortCall sp b)
  with kept show ?thesis
    by (auto simp del: split_paired_Ex simp: api_defs api_in_session
        intro!: with_client_inv [OF h, of P, OF io] tb.ConfigSrcPortEntry_inv)
next
  case (IpMacMapCall m b)
  with kept show ?thesis
    by (auto simp del: split_paired_Ex simp: api_defs api_in_session
        intro!: with_client_inv [OF h, of P, OF io] tb.ConfigIpMacMapEntry_inv)
qed

lemma dpdk_perform_inv:
  assumes h: "keeps_tables g tables" and io: "\<And>p. P p (tables (fst io))"
    and kept: "\<And>p te. sends_pipeline g p \<Longrightarrow> te \<in> dpdk_writes p c \<Longrightarrow> kept_by (P p) (inserts c) te"
  shows "\<exists>io'. perform DPDK_TARGET g flags addr c io = Some io' \<and>
    (\<exists>p. sends_pipeline g p \<and> P p (tables (fst io')))"
proof -
  have sent: "\<exists>p. sends_pipeline g p" unfolding sends_pipeline_def by blast
  show ?thesis
  proof (cases c)
    case (FdbCall i b)
    with kept show ?thesis
      by (auto simp del: split_paired_Ex simp: api_defs api_in_session list_all_iff
          intro!: with_client_inv [OF h, of P, OF io] tb.dpdk_ConfigFdbEntry_inv)
  next
    case (TunnelCall t b)
    with kept show ?thesis
      by (auto simp del: split_paired_Ex simp: api_defs api_in_session list_all_iff
          intro!: with_client_inv [OF h, of P, OF io] tb.dpdk_ConfigTunnelEntry_inv)
  qed (use io sent in \<open>simp_all add: api_defs\<close>)
qed

lemma perform_inv:
  assumes "keeps_tables g tables" and "\<And>p. P p (tables (fst io))"
    and "\<And>p te. sends_pipeline g p \<Longrightarrow> te \<in> call_writes target p c \<Longrightarrow> kept_by (P p) (inserts c) te"
  shows "\<exists>io'. perform target g flags addr c io = Some io' \<and>
    (\<exists>p. sends_pipeline g p \<and> P p (tables (fst io')))"
  using assms es2k_perform_inv [OF assms(1), of P io c flags addr]
    dpdk_perform_inv [OF assms(1), of P io c flags addr]
  by (cases target) (simp_all add: call_writes_def)

text \<open>An invariant of the reachable states.\<close>

lemma reachable_inv:
  assumes h: "keeps_tables g tables"
    and run: "(api_step target g flags allowed)\<^sup>*\<^sup>* io io'" and io: "P (tables (fst io))"
    and kept: "\<And>p c te. sends_pipeline g p \<Longrightarrow> allowed c \<Longrightarrow> te \<in> call_writes target p c \<Longrightarrow>
      kept_by P (inserts c) te"
  shows "P (tables (fst io'))"
  using run
proof (induction rule: rtranclp_induct)
  case base
  show ?case by (rule io)
next
  case (step io1 io2)
  from step(2) obtain c addr where "allowed c" "perform target g flags addr c io1 = Some io2"
    by (rule api_stepE)
  with perform_inv [OF h, of "\<lambda>_. P" io1 target c flags addr] step.IH kept
  show ?case by auto
qed

end
