(* ===== verification/Trace.thy ===== *)
theory Trace
  imports Session
begin

text \<open>
  An environment that also keeps the list of the read and write requests it got, with its
  answers. The requests of a run are read off this list: it is the specification that the
  journal and the writes of concurrent threads are compared with.
\<close>

datatype rpc =
    ReadRpc ReadRequest "ReadResponse list \<times> Status"
  | WriteRpc WriteRequest Status

definition lift_env :: "('e \<Rightarrow> 'r \<times> 'e) \<Rightarrow> 'e \<times> rpc list \<Rightarrow> 'r \<times> ('e \<times> rpc list)" where
  "lift_env f x = (let (r, e) = f (fst x) in (r, (e, snd x)))"

definition traced :: "'e grpc_env \<Rightarrow> ('e \<times> rpc list) grpc_env" where
  "traced g = \<lparr>
     g_now = (\<lambda>x. g_now g (fst x)), g_thread_self = (\<lambda>x. g_thread_self g (fst x)),
     g_lstat_regular = (\<lambda>f x. g_lstat_regular g f (fst x)),
     g_path_exists = (\<lambda>f x. g_path_exists g f (fst x)),
     g_read_role_config = (\<lambda>f x. g_read_role_config g f (fst x)),
     g_new_stub = (\<lambda>a c. lift_env (g_new_stub g a c)),
     g_stream_channel = (\<lambda>s. lift_env (g_stream_channel g s)),
     g_stream_write = (\<lambda>s rq. lift_env (g_stream_write g s rq)),
     g_stream_read = (\<lambda>s. lift_env (g_stream_read g s)),
     g_stream_finish = (\<lambda>s x. (g_stream_finish g s (fst x), snd x)),
     g_get_config = (\<lambda>s rq. lift_env (g_get_config g s rq)),
     g_read = (\<lambda>s rq x. let (r, e) = g_read g s rq (fst x) in (r, (e, snd x @ [ReadRpc rq r]))),
     g_write = (\<lambda>s rq x. let (r, e) = g_write g s rq (fst x) in (r, (e, snd x @ [WriteRpc rq r])))\<rparr>"

lemma traced_Create:
  "Create (traced g) stub d r el x = lift_env (Create g stub d r el) x"
  by (simp add: Create_def OvsP4rtSession_new_def arbitration_role_config_def lift_env_def Let_def
      traced_def split: prod.split option.split StreamMessageResponse.split)

lemma traced_Create_addr:
  "Create_addr (traced g) a c d r el x = lift_env (Create_addr g a c d r el) x"
  unfolding Create_addr_def Let_def traced_Create
  by (simp add: traced_def lift_env_def case_prod_beta)

lemma traced_config:
  "GetForwardingPipelineConfig (traced g) s x = lift_env (GetForwardingPipelineConfig g s) x"
  by (simp add: GetForwardingPipelineConfig_def traced_def lift_env_def case_prod_beta Let_def)

text \<open>The write requests of a trace.\<close>

fun write_requests :: "rpc list \<Rightarrow> WriteRequest list" where
  "write_requests [] = []"
| "write_requests (WriteRpc rq st # rpcs) = rq # write_requests rpcs"
| "write_requests (ReadRpc rq r # rpcs) = write_requests rpcs"

lemma write_requests_append [simp]:
  "write_requests (xs @ ys) = write_requests xs @ write_requests ys"
  by (induction xs rule: write_requests.induct) simp_all

end
