(* ===== verification/Journal_Properties.thy ===== *)
theory Journal_Properties
  imports Journal Client_Simulation Api_Machine Trace
begin

text \<open>
  The journaling C interface against the standard one. \<open>traced\<close> is an environment that
  also keeps the list of the read and write requests it got with its answers; the journal
  of a call is compared with that list. The relation \<open>journaled\<close> between a run with the
  production client and a run with the journal client is an instance of
  \<open>client_simulation\<close>.
\<close>

section \<open>The lines of the journal\<close>

definition journal_line :: "string \<Rightarrow> bool" where
  "journal_line l \<longleftrightarrow> take 8 l = ''inputs: '' \<or> take 9 l = ''actions: ''"

text \<open>What \<open>SendReadRequest\<close> makes of the answer to a read.\<close>

definition read_result :: "ReadResponse list \<times> Status \<Rightarrow> ReadResponse StatusOr" where
  "read_result r = (if ok (snd r) then Inr (foldl MergeFrom empty_ReadResponse (fst r))
                    else Inl (GrpcStatusToAbslStatus (snd r)))"

definition action_line :: "'j json_lib \<Rightarrow> 'j option \<Rightarrow> string" where
  "action_line L action = ''actions: '' @ the (action \<bind> j_dump L 4)"

fun rpc_lines :: "'j json_lib \<Rightarrow> rpc \<Rightarrow> string list" where
  "rpc_lines L (ReadRpc rq r) =
     [action_line L (EncodeReadRequest L rq), action_line L (EncodeReadResponse L (read_result r))]"
| "rpc_lines L (WriteRpc rq st) =
     [action_line L (EncodeWriteRequest L rq),
      action_line L (EncodeWriteStatus L (GrpcStatusToAbslStatus st))]"

text \<open>The calls of the journaling interface and the records of their inputs.\<close>

fun inputs_json :: "'j json_lib \<Rightarrow> api_call \<Rightarrow> 'j" where
  "inputs_json L (FdbCall i b) = EncodeMacLearningInfo L ''ovsp4rt_config_fdb_entry'' i b"
| "inputs_json L (TunnelCall t b) = EncodeTunnelInfo L ''ovsp4rt_config_tunnel_entry'' t b"
| "inputs_json L (RxTunnelSrcCall t b) = EncodeTunnelInfo L ''ovsp4rt_config_rx_tunnel_src_entry'' t b"
| "inputs_json L (VlanCall n b) = EncodeVlanId L ''ovsp4rt_config_vlan_entry'' n b"
| "inputs_json L (TunnelSrcPortCall sp b) =
     EncodeSrcPortInfo L ''ovsp4rt_config_tunnel_src_port_entry'' sp b"
| "inputs_json L (SrcPortCall sp b) = EncodeSrcPortInfo L ''ovsp4rt_config_src_port_entry'' sp b"
| "inputs_json L (IpMacMapCall m b) = EncodeIpMacMapInfo L ''ovsp4rt_config_ip_mac_map_entry'' m b"

fun journal_perform ::
    "target \<Rightarrow> 'j json_lib \<Rightarrow> 'e grpc_env \<Rightarrow> client_flags \<Rightarrow> string \<Rightarrow> api_call \<Rightarrow> 'e outside \<Rightarrow>
     'e outside option" where
  "journal_perform target L g flags addr (FdbCall i b) =
     journal_ovsp4rt_config_fdb_entry target L g flags i b addr"
| "journal_perform target L g flags addr (TunnelCall t b) =
     journal_ovsp4rt_config_tunnel_entry target L g flags t b addr"
| "journal_perform target L g flags addr (RxTunnelSrcCall t b) =
     journal_ovsp4rt_config_rx_tunnel_src_entry target L g flags t b addr"
| "journal_perform target L g flags addr (VlanCall n b) =
     journal_ovsp4rt_config_vlan_entry target L g flags n b addr"
| "journal_perform target L g flags addr (TunnelSrcPortCall sp b) =
     journal_ovsp4rt_config_tunnel_src_port_entry target L g flags sp b addr"
| "journal_perform target L g flags addr (SrcPortCall sp b) =
     journal_ovsp4rt_config_src_port_entry target L g flags sp b addr"
| "journal_perform target L g flags addr (IpMacMapCall m b) =
     journal_ovsp4rt_config_ip_mac_map_entry target L g flags m b addr"

fun dpdk_implements :: "api_call \<Rightarrow> bool" where
  "dpdk_implements (FdbCall i b) = True"
| "dpdk_implements (TunnelCall t b) = True"
| "dpdk_implements _ = False"

definition inputs_lines :: "target \<Rightarrow> 'j json_lib \<Rightarrow> api_call \<Rightarrow> string list" where
  "inputs_lines target L c =
     (if target = ES2K_TARGET \<or> dpdk_implements c
      then [''inputs: '' @ the (j_dump L 4 (inputs_json L c))] else [])"

section \<open>What the journal needs of its libraries\<close>

text \<open>Converting and dumping throws no exception, where \<open>valid\<close> are the texts that the
  library can print, UTF-8 for example.\<close>

definition recordable :: "'j json_lib \<Rightarrow> 'j option \<Rightarrow> bool" where
  "recordable L action \<longleftrightarrow> (\<exists>s. action \<bind> j_dump L 4 = Some s)"

definition journals :: "'j json_lib \<Rightarrow> (string \<Rightarrow> bool) \<Rightarrow> bool" where
  "journals L valid \<longleftrightarrow> valid [] \<and>
     (\<forall>c. recordable L (Some (inputs_json L c))) \<and>
     (\<forall>rq. recordable L (EncodeReadRequest L rq)) \<and>
     (\<forall>r. recordable L (EncodeReadResponse L (Inr r))) \<and>
     (\<forall>rq. recordable L (EncodeWriteRequest L rq)) \<and>
     (\<forall>st. valid (st_message st) \<longrightarrow>
        recordable L (EncodeReadResponse L (Inl st)) \<and> recordable L (EncodeWriteStatus L st))"

text \<open>The messages in the server's answers are such texts.\<close>

definition answers_in :: "'e grpc_env \<Rightarrow> (string \<Rightarrow> bool) \<Rightarrow> bool" where
  "answers_in g valid \<longleftrightarrow>
     (\<forall>stub rq e. valid (st_message (fst (g_write g stub rq e)))) \<and>
     (\<forall>stub rq e. valid (st_message (snd (fst (g_read g stub rq e)))))"

section \<open>The simulation\<close>

text \<open>The lines of the journal are \<open>J\<close> and the lines for the trace; the other lines are those
  of the standard run.\<close>

definition journaled ::
    "'j json_lib \<Rightarrow> (string \<Rightarrow> bool) \<Rightarrow> 'e grpc_env \<Rightarrow> string list \<Rightarrow>
     (Client, 'e) world \<Rightarrow> ('j JournalClient, 'e \<times> rpc list) world \<Rightarrow> bool" where
  "journaled L valid g J v w \<longleftrightarrow> journals L valid \<and> answers_in g valid \<and>
     cl_session (w_client w) = cl_session (w_client v) \<and> fst (w_env w) = w_env v \<and>
     filter (\<lambda>l. \<not> journal_line l) (w_out w) = w_out v \<and>
     filter journal_line (w_out w) = J @ concat (map (rpc_lines L) (snd (w_env w)))"

lemma journal_record:
  assumes "recordable L action"
  shows "(action \<bind> (\<lambda>j. journalAction L j w)) = Some (print_line (action_line L action) w)"
  using assms by (auto simp: recordable_def journalAction_def action_line_def bind_eq_Some_conv)

lemma journal_record_then:
  assumes "recordable L action"
  shows "(action \<bind> (\<lambda>j. journalAction L j w \<bind> f)) = f (print_line (action_line L action) w)"
  using journal_record [OF assms, of w] by (metis Option.bind_assoc bind.bind_lunit)

lemma action_line_journal [simp]: "journal_line (action_line L a)"
  by (simp add: journal_line_def action_line_def)

lemma valid_absl: "valid [] \<Longrightarrow> valid (st_message st) \<Longrightarrow> valid (st_message (GrpcStatusToAbslStatus st))"
  by (simp add: GrpcStatusToAbslStatus_def absl_Status_def)

lemmas record_defs = recordReadRequest_def recordReadResponse_def recordWriteRequest_def
  recordWriteStatus_def

lemma SendWrite_answer:
  assumes "g_write g (ses_stub s) rq e = (st, e')"
  shows "SendWriteRequest g s rq e = (GrpcStatusToAbslStatus st, e')"
    and "SendWriteRequest (traced g) s rq (e, tr) =
      (GrpcStatusToAbslStatus st, (e', tr @ [WriteRpc rq st]))"
  using assms by (simp_all add: SendWriteRequest_def traced_def)

lemma SendRead_answer:
  assumes "g_read g (ses_stub s) rq e = (r, e')"
  shows "SendReadRequest g s rq e = (read_result r, e')"
    and "SendReadRequest (traced g) s rq (e, tr) = (read_result r, (e', tr @ [ReadRpc rq r]))"
  using assms
  by (simp_all add: SendReadRequest_def traced_def read_result_def Let_def case_prod_beta)

lemma journaled_write:
  assumes "journaled L valid g J v w"
  shows "simulates (=) (journaled L valid g J) (Client_DoSendWriteRequest g rq v)
    (JournalClient_sendWriteRequest L (traced g) rq w)"
proof (cases "cl_session (w_client v)")
  case None
  have "cl_session (w_client w) = None" using assms None by (simp add: journaled_def)
  moreover have "recordable L (EncodeWriteRequest L rq)"
    using assms by (simp add: journaled_def journals_def)
  ultimately show ?thesis
    using None
    by (simp add: Client_DoSendWriteRequest_def JournalClient_sendWriteRequest_def record_defs
        journal_record)
next
  case (Some s)
  obtain st e' where st: "g_write g (ses_stub s) rq (w_env v) = (st, e')" by fastforce
  obtain tr where env: "w_env w = (w_env v, tr)"
    using assms by (metis journaled_def prod.collapse)
  have "valid (st_message st)"
    using assms st by (simp add: journaled_def answers_in_def) (metis fst_conv)
  then have rec: "recordable L (EncodeWriteStatus L (GrpcStatusToAbslStatus st))"
    "recordable L (EncodeWriteRequest L rq)"
    using assms valid_absl [of valid st] by (auto simp: journaled_def journals_def)
  have "cl_session (w_client w) = Some s" using assms Some by (simp add: journaled_def)
  with rec st env Some assms show ?thesis
    by (auto simp: Client_DoSendWriteRequest_def JournalClient_sendWriteRequest_def record_defs
        journal_record_then SendWrite_answer journaled_def)
qed

lemma journaled_read:
  assumes "journaled L valid g J v w"
  shows "simulates (=) (journaled L valid g J) (Client_DoSendReadRequest g rq v)
    (JournalClient_sendReadRequest L (traced g) rq w)"
proof (cases "cl_session (w_client v)")
  case None
  have "cl_session (w_client w) = None" using assms None by (simp add: journaled_def)
  moreover have "recordable L (EncodeReadRequest L rq)"
    using assms by (simp add: journaled_def journals_def)
  ultimately show ?thesis
    using None
    by (simp add: Client_DoSendReadRequest_def JournalClient_sendReadRequest_def record_defs
        journal_record)
next
  case (Some s)
  obtain r e' where r: "g_read g (ses_stub s) rq (w_env v) = (r, e')" by fastforce
  obtain tr where env: "w_env w = (w_env v, tr)"
    using assms by (metis journaled_def prod.collapse)
  have "valid (st_message (snd r))"
    using assms r by (simp add: journaled_def answers_in_def) (metis fst_conv)
  then have rec: "recordable L (EncodeReadResponse L (read_result r))"
    "recordable L (EncodeReadRequest L rq)"
    using assms valid_absl [of valid "snd r"] by (auto simp: journaled_def journals_def read_result_def)
  have "cl_session (w_client w) = Some s" using assms Some by (simp add: journaled_def)
  with rec r env Some assms show ?thesis
    by (auto simp: Client_DoSendReadRequest_def JournalClient_sendReadRequest_def record_defs
        journal_record_then SendRead_answer journaled_def)
qed

lemma journaled_print:
  "journaled L valid g J v w \<Longrightarrow> \<not> journal_line l \<Longrightarrow>
   journaled L valid g J (print_line l v) (print_line l w)"
  by (simp add: journaled_def)

lemma journaled_connect:
  assumes "journaled L valid g J v w"
  shows "simulates (=) (journaled L valid g J) (Client_connect g flags addr v)
    (Client_connect (traced g) flags addr w)"
proof -
  have env: "fst (w_env w) = w_env v" using assms by (simp add: journaled_def)
  have line: "journaled L valid g J (print_line ''Using insecure client credentials!'' v)
      (print_line ''Using insecure client credentials!'' w)"
    by (rule journaled_print [OF assms]) (simp add: journal_line_def)
  obtain c v1 where c: "GenerateClientCredentials g v = (c, v1)" by fastforce
  then obtain w1 where w1: "GenerateClientCredentials (traced g) w = (c, w1)"
    "journaled L valid g J v1 w1" "w_env w1 = w_env w" "w_env v1 = w_env v"
    using assms env line
    by (auto simp: GenerateClientCredentials_def IsRegularFile_def traced_def split: if_splits)
  obtain r e where r: "Create_addr g addr c (ucast (FLAGS_device_id flags)) (FLAGS_role_name flags)
      (TimeBasedElectionId g (w_env v)) (w_env v) = (r, e)" by fastforce
  have t: "TimeBasedElectionId (traced g) (w_env w) = TimeBasedElectionId g (w_env v)"
    by (simp add: TimeBasedElectionId_def traced_def env)
  show ?thesis
    using c w1 r t env
    by (cases r) (auto simp: Client_connect_def traced_Create_addr lift_env_def journaled_def)
qed

lemma journaled_config:
  assumes "journaled L valid g J v w"
  shows "simulates (=) (journaled L valid g J) (Client_getPipelineConfig g p v)
    (Client_getPipelineConfig (traced g) p w)"
  using assms
  by (cases "cl_session (w_client v)")
    (auto simp: Client_getPipelineConfig_def traced_config lift_env_def journaled_def case_prod_beta)

lemma journaled_init:
  assumes "journaled L valid g J v w"
  shows "simulates (=) (journaled L valid g J) (Client_initReadRequest rq v) (Client_initReadRequest rq w)"
    and "simulates (=) (journaled L valid g J) (Client_initWriteRequest wq b v)
      (Client_initWriteRequest wq b w)"
  using assms
  by (cases "cl_session (w_client v)"; simp add: journaled_def Client_initReadRequest_def
      Client_initWriteRequest_def Client_initInsertRequest_def Client_initDeleteRequest_def)+

interpretation jc: client_simulation "Client_vtable g flags" "JournalClient_vtable L (traced g) flags"
  "journaled L valid g J" "\<lambda>l. \<not> journal_line l"
  for g :: "'e grpc_env" and flags and L :: "'j json_lib" and valid J
proof unfold_locales
  show "list_all (\<lambda>l. \<not> journal_line l) program_lines"
    by (simp add: program_lines_def journal_line_def)
qed (auto simp: Client_vtable_def JournalClient_vtable_def journal_line_def
    intro: journaled_connect journaled_config journaled_init journaled_read journaled_write
    journaled_print)

section \<open>Whole calls\<close>

lemma journaled_start:
  assumes "journals L valid" and "answers_in g valid" and "j_dump L 4 json = Some s"
  shows "\<exists>w. journalInputs L json \<lparr>w_client = JournalClient_new L, w_env = (e, []), w_out = []\<rparr> = Some w \<and>
    journaled L valid g [''inputs: '' @ s] \<lparr>w_client = Client_new, w_env = e, w_out = []\<rparr> w"
  using assms
  by (simp add: journalInputs_def journaled_def Client_new_def JournalClient_new_def journal_line_def)

lemma journal_call:
  assumes lib: "journals L valid" "answers_in g valid"
    and dump: "recordable L (Some json)"
    and sim: "\<And>v w. journaled L valid g [''inputs: '' @ the (j_dump L 4 json)] v w \<Longrightarrow>
      simulates (=) (journaled L valid g [''inputs: '' @ the (j_dump L 4 json)]) (call v) (jcall w)"
    and ret: "\<exists>io'. with_client call (e, []) = Some io'"
  shows "\<exists>e' out tr jout. with_client call (e, []) = Some (e', out) \<and>
    with_journal_client L (journalInputs L json) jcall ((e, []), []) = Some ((e', tr), jout) \<and>
    out = filter (\<lambda>l. \<not> journal_line l) jout \<and>
    filter journal_line jout =
      (''inputs: '' @ the (j_dump L 4 json)) # concat (map (rpc_lines L) tr)"
proof -
  let ?J = "[''inputs: '' @ the (j_dump L 4 json)]"
  let ?v = "\<lparr>w_client = Client_new, w_env = e, w_out = []\<rparr>"
  from dump have "j_dump L 4 json = Some (the (j_dump L 4 json))" by (auto simp: recordable_def)
  from journaled_start [OF lib this, of e] obtain w where
    w: "journalInputs L json \<lparr>w_client = JournalClient_new L, w_env = (e, []), w_out = []\<rparr> = Some w"
    "journaled L valid g ?J ?v w" by blast
  from ret obtain st v' where v': "call ?v = Some (st, v')"
    by (cases "call ?v") (auto simp: with_client_def)
  with sim [OF w(2)] obtain w' where w': "jcall w = Some (st, w')" "journaled L valid g ?J v' w'"
    by (cases "jcall w") (auto simp: simulates_def)
  with v' w(1) show ?thesis
    by (cases "w_env w'") (auto simp: with_client_def with_journal_client_def journaled_def)
qed

lemmas journal_api_defs = journal_ovsp4rt_config_fdb_entry_def
  journal_ovsp4rt_config_tunnel_entry_def journal_ovsp4rt_config_rx_tunnel_src_entry_def
  journal_ovsp4rt_config_vlan_entry_def journal_ovsp4rt_config_tunnel_src_port_entry_def
  journal_ovsp4rt_config_src_port_entry_def journal_ovsp4rt_config_ip_mac_map_entry_def

lemma record_inputs_eta:
  "recordInputs_learn_info L f i b = journalInputs L (EncodeMacLearningInfo L f i b)"
  "recordInputs_tunnel L f t b = journalInputs L (EncodeTunnelInfo L f t b)"
  "recordInputs_src_port L f sp b = journalInputs L (EncodeSrcPortInfo L f sp b)"
  "recordInputs_ip_mac_map L f m b = journalInputs L (EncodeIpMacMapInfo L f m b)"
  "recordInputs_vlan_id L f n b = journalInputs L (EncodeVlanId L f n b)"
  by (rule ext; simp add: recordInputs_learn_info_def recordInputs_tunnel_def
      recordInputs_src_port_def recordInputs_ip_mac_map_def recordInputs_vlan_id_def)+

text \<open>The DoConfig function of a call, for any client.\<close>

fun do_config ::
    "target \<Rightarrow> ('c, 'e) ClientInterface \<Rightarrow> string \<Rightarrow> api_call \<Rightarrow> ('c, 'e) world \<Rightarrow>
     (('c, 'e) world, Status) result" where
  "do_config ES2K_TARGET ci addr (FdbCall i b) = DoConfigFdbEntry ci i b addr"
| "do_config ES2K_TARGET ci addr (TunnelCall t b) = DoConfigTunnelEntry ci t b addr"
| "do_config ES2K_TARGET ci addr (RxTunnelSrcCall t b) = DoConfigRxTunnelSrcEntry ci t b addr"
| "do_config ES2K_TARGET ci addr (VlanCall n b) = DoConfigVlanEntry ci n b addr"
| "do_config ES2K_TARGET ci addr (TunnelSrcPortCall sp b) = DoConfigTunnelSrcPortEntry ci sp b addr"
| "do_config ES2K_TARGET ci addr (SrcPortCall sp b) = DoConfigSrcPortEntry ci sp b addr"
| "do_config ES2K_TARGET ci addr (IpMacMapCall m b) = DoConfigIpMacMapEntry ci m b addr"
| "do_config DPDK_TARGET ci addr (FdbCall i b) = dpdk_DoConfigFdbEntry ci i b addr"
| "do_config DPDK_TARGET ci addr (TunnelCall t b) = dpdk_DoConfigTunnelEntry ci t b addr"
| "do_config DPDK_TARGET ci addr c = (\<lambda>w. Some (OkStatus, w))"

lemma perform_do_config:
  assumes "target = ES2K_TARGET \<or> dpdk_implements c"
  shows "perform target g flags addr c io = with_client (do_config target (Client_vtable g flags) addr c) io"
    and "journal_perform target L g flags addr c jo =
      with_journal_client L (journalInputs L (inputs_json L c))
        (do_config target (JournalClient_vtable L g flags) addr c) jo"
  using assms
  by (cases target; cases c; simp add: api_defs journal_api_defs record_inputs_eta)+

lemma do_config_sim:
  assumes "journaled L valid g J v w"
  shows "simulates (=) (journaled L valid g J) (do_config target (Client_vtable g flags) addr c v)
    (do_config target (JournalClient_vtable L (traced g) flags) addr c w)"
  using jc.sim_DoConfig [OF assms] assms by (cases target; cases c) simp_all

lemma unimplemented:
  assumes "\<not> (target = ES2K_TARGET \<or> dpdk_implements c)"
  shows "perform target g flags addr c io = Some io"
    and "journal_perform target L g flags addr c jo = Some jo"
  using assms by (cases target; cases c; simp add: api_defs journal_api_defs)+

text \<open>C13: a call of the journaling interface does what the call of the standard interface
  does, and its journal is the truth. On a server whose messages the JSON library can print,
  for every call and both targets: both calls return and leave the same environment; the
  output of the standard call is the journaling call's without the lines of the journal; and
  these are one record of the inputs followed, for each request in the order the server got
  them, by a record of the request and a record of the server's answer. Where the target
  does not implement the call, nothing is recorded.\<close>

theorem journal_is_trace:
  assumes lib: "journals L valid" and server: "answers_in g valid"
  shows "\<exists>e' out tr jout. perform target g flags addr c (e, []) = Some (e', out) \<and>
    journal_perform target L (traced g) flags addr c ((e, []), []) = Some ((e', tr), jout) \<and>
    out = filter (\<lambda>l. \<not> journal_line l) jout \<and>
    filter journal_line jout = inputs_lines target L c @ concat (map (rpc_lines L) tr)"
proof (cases "target = ES2K_TARGET \<or> dpdk_implements c")
  case False
  then show ?thesis
    by (auto simp: unimplemented inputs_lines_def)
next
  case True
  have dump: "recordable L (Some (inputs_json L c))" using lib by (simp add: journals_def)
  have ret: "\<exists>io'. with_client (do_config target (Client_vtable g flags) addr c) (e, []) = Some io'"
    using perform_returns [of target g flags addr c "(e, [])"] by (simp only: perform_do_config [OF True])
  show ?thesis
    using journal_call [OF lib server dump do_config_sim ret] True
    by (simp add: perform_do_config [OF True] inputs_lines_def)
qed

end
