(* ===== verification/Journal_Inputs.thy ===== *)
theory Journal_Inputs
  imports "HOL-Library.AList" Journal_Properties
begin

text \<open>
  What the record of the inputs of a call says: it determines the call, up to the parts of
  the unions that are not in use. The JSON library is assumed to keep the members that
  are assigned; \<open>demo_json\<close> is such a library.
\<close>

section \<open>The contract of the JSON library\<close>

text \<open>\<open>is_obj\<close> are the values that are null or an object, the only ones on which \<open>[]\<close> is
  defined.\<close>

definition json_contract :: "'j json_lib \<Rightarrow> ('j \<Rightarrow> bool) \<Rightarrow> bool" where
  "json_contract L is_obj \<longleftrightarrow>
     is_obj (j_null L) \<and> (\<forall>k. j_index L (j_null L) k = j_null L) \<and>
     (\<forall>j k v. is_obj j \<longrightarrow> is_obj (j_assign L j k v)) \<and>
     (\<forall>j k v k'. is_obj j \<longrightarrow> j_index L (j_assign L j k v) k' = (if k' = k then v else j_index L j k')) \<and>
     inj (j_bool L) \<and> inj (j_number L) \<and> inj (j_string L) \<and> inj (j_array L)"

lemma json_simps:
  assumes "json_contract L is_obj"
  shows "is_obj (j_null L)" and "j_index L (j_null L) k = j_null L"
    and "is_obj j \<Longrightarrow> is_obj (j_assign L j k v)"
    and "is_obj j \<Longrightarrow> j_index L (j_assign L j k v) k' = (if k' = k then v else j_index L j k')"
    and "j_bool L b = j_bool L b' \<longleftrightarrow> b = b'" and "j_number L n = j_number L n' \<longleftrightarrow> n = n'"
    and "j_string L s = j_string L s' \<longleftrightarrow> s = s'" and "j_array L js = j_array L js' \<longleftrightarrow> js = js'"
  using assms by (auto simp: json_contract_def inj_eq)

section \<open>What is recorded\<close>

definition ip_seen :: "p4_ipaddr \<Rightarrow> p4_ipaddr" where
  "ip_seen a = a\<lparr>ip_mem :=
     if ip_family a = AF_INET then ucast (v4addr_s_addr a)
     else if ip_family a = AF_INET6 then ip_mem a else 0\<rparr>"

definition tunnel_seen :: "tunnel_info \<Rightarrow> tunnel_info" where
  "tunnel_seen t = t\<lparr>ti_local_ip := ip_seen (ti_local_ip t), ti_remote_ip := ip_seen (ti_remote_ip t)\<rparr>"

definition ip_mac_seen :: "ip_mac_map_info \<Rightarrow> ip_mac_map_info" where
  "ip_mac_seen m = m\<lparr>im_src_ip_addr := ip_seen (im_src_ip_addr m),
     im_dst_ip_addr := ip_seen (im_dst_ip_addr m)\<rparr>"

text \<open>Of the union of a learned address only the member in use counts.\<close>

definition blank_ip :: p4_ipaddr where
  "blank_ip = \<lparr>ip_family = 0, ip_prefix_len = 0, ip_mem = 0\<rparr>"

definition blank_tunnel :: tunnel_info where
  "blank_tunnel = \<lparr>ti_ifindex = 0, ti_port_id = 0, ti_src_port = 0, ti_local_ip = blank_ip,
     ti_remote_ip = blank_ip, ti_dst_port = 0, ti_vni = 0,
     ti_vlan_info = \<lparr>pv_mode = P4_PORT_VLAN_ACCESS, pv_vlan = 0\<rparr>, ti_bridge_id = 0,
     ti_tunnel_type = 0\<rparr>"

definition learn_seen :: "mac_learning_info \<Rightarrow> mac_learning_info" where
  "learn_seen i = i\<lparr>ml_tnl_info :=
     if ml_is_tunnel i then tunnel_seen (ml_tnl_info i)
     else if ml_is_vlan i then blank_tunnel\<lparr>ti_ifindex := vi_vlan_id (ml_vln_info i)\<rparr>
     else blank_tunnel\<rparr>"

fun call_seen :: "api_call \<Rightarrow> api_call" where
  "call_seen (FdbCall i b) = FdbCall (learn_seen i) b"
| "call_seen (TunnelCall t b) = TunnelCall (tunnel_seen t) b"
| "call_seen (RxTunnelSrcCall t b) = RxTunnelSrcCall (tunnel_seen t) b"
| "call_seen (VlanCall n b) = VlanCall n b"
| "call_seen (TunnelSrcPortCall sp b) = TunnelSrcPortCall sp b"
| "call_seen (SrcPortCall sp b) = SrcPortCall sp b"
| "call_seen (IpMacMapCall m b) = IpMacMapCall (ip_mac_seen m) b"

section \<open>The structures\<close>

lemma u6_addr16_inj:
  assumes "\<And>i. i < 8 \<Longrightarrow> u6_addr16 a i = u6_addr16 b i"
  shows "a = b"
proof (rule bit_word_eqI)
  fix n
  assume "n < LENGTH(128)"
  then have "u6_addr16 a (n div 16) = u6_addr16 b (n div 16)" by (intro assms) simp
  then have "bit (u6_addr16 a (n div 16)) (n mod 16) = bit (u6_addr16 b (n div 16)) (n mod 16)"
    by simp
  then show "bit a n = bit b n" by (simp add: u6_addr16_def bit_simps)
qed

lemma uint_eq: "uint a = uint b \<longleftrightarrow> a = (b :: 'a :: len word)"
  by (simp add: word_uint_eq_iff)

lemma ucast_v4 [simp]: "(ucast (ucast (x :: u32) :: u128) :: u32) = x"
  by (rule bit_word_eqI) (simp add: bit_simps)

lemma vlan_mode_value_eq: "vlan_mode_value a = vlan_mode_value b \<longleftrightarrow> a = b"
  by (cases a; cases b) simp_all

lemma ip_json:
  assumes c: "json_contract L is_obj"
  shows "IpAddrToJson L (j_null L) a = IpAddrToJson L (j_null L) b \<longleftrightarrow> ip_seen a = ip_seen b"
proof
  assume "ip_seen a = ip_seen b"
  moreover have "IpAddrToJson L (j_null L) (ip_seen x) = IpAddrToJson L (j_null L) x" for x
    by (simp add: IpAddrToJson_def ip_seen_def v4addr_s_addr_def)
  ultimately show "IpAddrToJson L (j_null L) a = IpAddrToJson L (j_null L) b" by metis
next
  assume eq: "IpAddrToJson L (j_null L) a = IpAddrToJson L (j_null L) b"
  have m: "j_index L (IpAddrToJson L (j_null L) a) k = j_index L (IpAddrToJson L (j_null L) b) k" for k
    by (simp only: eq)
  note J = IpAddrToJson_def Let_def json_simps [OF c] uint_eq
  have f: "ip_family a = ip_family b" "ip_prefix_len a = ip_prefix_len b"
    using m [of "''family''"] m [of "''prefix_len''"]
    by (auto simp: J split: if_splits)
  moreover have "v4addr_s_addr a = v4addr_s_addr b" if "ip_family a = AF_INET"
    using m [of "''ipv4_addr''"] f that by (simp add: J)
  moreover have "ip_mem a = ip_mem b" if "ip_family a = AF_INET6"
  proof (rule u6_addr16_inj)
    show "u6_addr16 (ip_mem a) i = u6_addr16 (ip_mem b) i" if "i < 8" for i
      using m [of "''ipv6_addr''"] f \<open>ip_family a = AF_INET6\<close> that
      by (auto simp: J less_Suc_eq numeral_eq_Suc)
  qed
  ultimately show "ip_seen a = ip_seen b" by (auto simp: ip_seen_def)
qed

lemma mac_json:
  assumes "json_contract L is_obj"
  shows "MacAddrToJson L j a = MacAddrToJson L j b \<longleftrightarrow> a = b"
  by (cases a; cases b) (auto simp: MacAddrToJson_def json_simps [OF assms] uint_eq)

lemma vlan_json:
  assumes c: "json_contract L is_obj"
  shows "PortVlanInfoToJson L (j_null L) a = PortVlanInfoToJson L (j_null L) b \<longleftrightarrow> a = b"
proof
  assume eq: "PortVlanInfoToJson L (j_null L) a = PortVlanInfoToJson L (j_null L) b"
  have m: "j_index L (PortVlanInfoToJson L (j_null L) a) k =
      j_index L (PortVlanInfoToJson L (j_null L) b) k" for k by (simp only: eq)
  from m [of "''port_vlan_mode''"] m [of "''port_vlan''"] show "a = b"
    by (simp add: PortVlanInfoToJson_def json_simps [OF c] vlan_mode_value_eq uint_eq
        port_vlan_info.equality)
qed simp

lemma tunnel_json:
  assumes c: "json_contract L is_obj"
  shows "TunnelInfoToJson L (j_null L) a = TunnelInfoToJson L (j_null L) b \<longleftrightarrow>
    tunnel_seen a = tunnel_seen b"
proof
  note J = TunnelInfoToJson_def Let_def json_simps [OF c] uint_eq ip_json [OF c] vlan_json [OF c]
  {
    assume s: "tunnel_seen a = tunnel_seen b"
    have ips: "IpAddrToJson L (j_null L) (ti_local_ip a) = IpAddrToJson L (j_null L) (ti_local_ip b)"
      "IpAddrToJson L (j_null L) (ti_remote_ip a) = IpAddrToJson L (j_null L) (ti_remote_ip b)"
      using s by (cases a; cases b; simp add: ip_json [OF c] tunnel_seen_def)+
    show "TunnelInfoToJson L (j_null L) a = TunnelInfoToJson L (j_null L) b"
      using s ips
      by (cases a; cases b) (simp add: TunnelInfoToJson_def Let_def json_simps [OF c] tunnel_seen_def)
  next
    assume eq: "TunnelInfoToJson L (j_null L) a = TunnelInfoToJson L (j_null L) b"
    have m: "j_index L (TunnelInfoToJson L (j_null L) a) k =
        j_index L (TunnelInfoToJson L (j_null L) b) k" for k by (simp only: eq)
    from m [of "''ifindex''"] m [of "''port_id''"] m [of "''src_port''"] m [of "''local_ip''"]
      m [of "''remote_ip''"] m [of "''dst_port''"] m [of "''vni''"] m [of "''vlan_info''"]
      m [of "''bridge_id''"] m [of "''tunnel_type''"]
    show "tunnel_seen a = tunnel_seen b" by (simp add: J tunnel_seen_def)
  }
qed

lemma src_port_json:
  assumes c: "json_contract L is_obj"
  shows "SrcPortInfoToJson L (j_null L) a = SrcPortInfoToJson L (j_null L) b \<longleftrightarrow> a = b"
proof
  assume eq: "SrcPortInfoToJson L (j_null L) a = SrcPortInfoToJson L (j_null L) b"
  have m: "j_index L (SrcPortInfoToJson L (j_null L) a) k =
      j_index L (SrcPortInfoToJson L (j_null L) b) k" for k by (simp only: eq)
  from m [of "''bridge_id''"] m [of "''vlan_id''"] m [of "''src_port''"] show "a = b"
    by (simp add: SrcPortInfoToJson_def Let_def json_simps [OF c] uint_eq src_port_info.equality)
qed simp

lemma ip_mac_json:
  assumes c: "json_contract L is_obj"
  shows "IpMacMapInfoToJson L (j_null L) a = IpMacMapInfoToJson L (j_null L) b \<longleftrightarrow>
    ip_mac_seen a = ip_mac_seen b"
proof
  assume s: "ip_mac_seen a = ip_mac_seen b"
  have "IpAddrToJson L (j_null L) (im_src_ip_addr a) = IpAddrToJson L (j_null L) (im_src_ip_addr b)"
    "IpAddrToJson L (j_null L) (im_dst_ip_addr a) = IpAddrToJson L (j_null L) (im_dst_ip_addr b)"
    using s by (cases a; cases b; simp add: ip_json [OF c] ip_mac_seen_def)+
  then show "IpMacMapInfoToJson L (j_null L) a = IpMacMapInfoToJson L (j_null L) b"
    using s
    by (cases a; cases b)
      (simp add: IpMacMapInfoToJson_def Let_def MacAddrToJson_def json_simps [OF c] ip_mac_seen_def)
next
  assume eq: "IpMacMapInfoToJson L (j_null L) a = IpMacMapInfoToJson L (j_null L) b"
  have m: "j_index L (IpMacMapInfoToJson L (j_null L) a) k =
      j_index L (IpMacMapInfoToJson L (j_null L) b) k" for k by (simp only: eq)
  from m [of "''src_mac_addr''"] m [of "''dst_mac_addr''"] m [of "''src_ip_addr''"]
    m [of "''dst_ip_addr''"]
  show "ip_mac_seen a = ip_mac_seen b"
    by (simp add: IpMacMapInfoToJson_def Let_def json_simps [OF c] mac_json [OF c] ip_json [OF c]
        ip_mac_seen_def)
qed

lemma learn_json:
  assumes c: "json_contract L is_obj"
  shows "MacLearningInfoToJson L (j_null L) a = MacLearningInfoToJson L (j_null L) b \<longleftrightarrow>
    learn_seen a = learn_seen b"
proof
  assume s: "learn_seen a = learn_seen b"
  have base: "ml_is_tunnel a = ml_is_tunnel b" "ml_is_vlan a = ml_is_vlan b"
    "ml_mac_addr a = ml_mac_addr b" "ml_bridge_id a = ml_bridge_id b"
    "ml_src_port a = ml_src_port b" "ml_rx_src_port a = ml_rx_src_port b"
    "ml_vlan_info a = ml_vlan_info b"
    using arg_cong [OF s, of ml_is_tunnel] arg_cong [OF s, of ml_is_vlan]
      arg_cong [OF s, of ml_mac_addr] arg_cong [OF s, of ml_bridge_id]
      arg_cong [OF s, of ml_src_port] arg_cong [OF s, of ml_rx_src_port]
      arg_cong [OF s, of ml_vlan_info]
    by (simp_all add: learn_seen_def)
  have "TunnelInfoToJson L (j_null L) (ml_tnl_info a) = TunnelInfoToJson L (j_null L) (ml_tnl_info b)"
    if "ml_is_tunnel a"
    using arg_cong [OF s, of ml_tnl_info] base that by (simp add: tunnel_json [OF c] learn_seen_def)
  moreover have "vi_vlan_id (ml_vln_info a) = vi_vlan_id (ml_vln_info b)"
    if "\<not> ml_is_tunnel a" "ml_is_vlan a"
    using arg_cong [OF s, of "\<lambda>i. ti_ifindex (ml_tnl_info i)"] base that
    by (simp add: learn_seen_def)
  ultimately show "MacLearningInfoToJson L (j_null L) a = MacLearningInfoToJson L (j_null L) b"
    using base
    by (cases "ml_is_tunnel a"; cases "ml_is_vlan a")
      (simp_all add: MacLearningInfoToJson_def VlanInfoToJson_def Let_def json_simps [OF c])
next
  assume eq: "MacLearningInfoToJson L (j_null L) a = MacLearningInfoToJson L (j_null L) b"
  have m: "j_index L (MacLearningInfoToJson L (j_null L) a) k =
      j_index L (MacLearningInfoToJson L (j_null L) b) k" for k by (simp only: eq)
  note J = MacLearningInfoToJson_def VlanInfoToJson_def Let_def json_simps [OF c] uint_eq
    mac_json [OF c] vlan_json [OF c] tunnel_json [OF c]
  have t: "ml_is_tunnel a = ml_is_tunnel b" "ml_is_vlan a = ml_is_vlan b"
    using m [of "''is_tunnel''"] m [of "''is_vlan''"] by (auto simp: J split: if_splits)
  have base: "ml_mac_addr a = ml_mac_addr b" "ml_bridge_id a = ml_bridge_id b"
    "ml_src_port a = ml_src_port b" "ml_rx_src_port a = ml_rx_src_port b"
    "ml_vlan_info a = ml_vlan_info b"
    using m [of "''mac_addr''"] m [of "''bridge_id''"] m [of "''src_port''"]
      m [of "''rx_src_port''"] m [of "''vlan_info''"] t
    by (auto simp: J split: if_splits)
  have "tunnel_seen (ml_tnl_info a) = tunnel_seen (ml_tnl_info b)" if "ml_is_tunnel a"
    using m [of "''tnl_info''"] t that by (simp add: J)
  moreover have "vi_vlan_id (ml_vln_info a) = vi_vlan_id (ml_vln_info b)"
    if "\<not> ml_is_tunnel a" "ml_is_vlan a"
    using m [of "''vln_info''"] t that
    by (simp add: J) (metis json_simps(1,4,6) [OF c] uint_eq)
  ultimately show "learn_seen a = learn_seen b"
    using t base by (simp add: learn_seen_def)
qed

section \<open>The record of a call\<close>

lemmas input_defs = EncodeMacLearningInfo_def EncodeTunnelInfo_def EncodeVlanId_def
  EncodeSrcPortInfo_def EncodeIpMacMapInfo_def

fun func_name :: "api_call \<Rightarrow> string" where
  "func_name (FdbCall i b) = ''ovsp4rt_config_fdb_entry''"
| "func_name (TunnelCall t b) = ''ovsp4rt_config_tunnel_entry''"
| "func_name (RxTunnelSrcCall t b) = ''ovsp4rt_config_rx_tunnel_src_entry''"
| "func_name (VlanCall n b) = ''ovsp4rt_config_vlan_entry''"
| "func_name (TunnelSrcPortCall sp b) = ''ovsp4rt_config_tunnel_src_port_entry''"
| "func_name (SrcPortCall sp b) = ''ovsp4rt_config_src_port_entry''"
| "func_name (IpMacMapCall m b) = ''ovsp4rt_config_ip_mac_map_entry''"

lemma record_members:
  assumes "json_contract L is_obj"
  shows "j_index L (inputs_json L c) ''func_name'' = j_string L (func_name c)"
    and "j_index L (j_index L (inputs_json L c) ''params'') ''insert_entry'' = j_bool L (inserts c)"
  by (cases c; simp add: input_defs Let_def json_simps [OF assms])+

lemma record_arguments:
  assumes "json_contract L is_obj"
  shows "j_index L (j_index L (inputs_json L (FdbCall i b)) ''params'') ''learn_info'' =
      MacLearningInfoToJson L (j_null L) i"
    and "j_index L (inputs_json L (TunnelCall t b)) ''tunnel_info'' = TunnelInfoToJson L (j_null L) t"
    and "j_index L (inputs_json L (RxTunnelSrcCall t b)) ''tunnel_info'' =
      TunnelInfoToJson L (j_null L) t"
    and "j_index L (j_index L (inputs_json L (VlanCall n b)) ''params'') ''vlan_id'' =
      j_number L (uint n)"
    and "j_index L (j_index L (inputs_json L (TunnelSrcPortCall sp b)) ''params'') ''port_info'' =
      SrcPortInfoToJson L (j_null L) sp"
    and "j_index L (j_index L (inputs_json L (SrcPortCall sp b)) ''params'') ''port_info'' =
      SrcPortInfoToJson L (j_null L) sp"
    and "j_index L (j_index L (inputs_json L (IpMacMapCall m b)) ''params'') ''ip_mac_map_info'' =
      IpMacMapInfoToJson L (j_null L) m"
  by (simp_all add: input_defs Let_def json_simps [OF assms])

text \<open>The record of a tunnel call has no tunnel among its parameters.\<close>

lemma tunnel_not_in_params:
  assumes "json_contract L is_obj"
  shows "j_index L (j_index L (inputs_json L (TunnelCall t b)) ''params'') ''tunnel_info'' = j_null L"
  by (simp add: input_defs Let_def json_simps [OF assms])

lemma func_name_cases:
  assumes "func_name c = func_name c'"
  obtains i b i' b' where "c = FdbCall i b" "c' = FdbCall i' b'"
  | t b t' b' where "c = TunnelCall t b" "c' = TunnelCall t' b'"
  | t b t' b' where "c = RxTunnelSrcCall t b" "c' = RxTunnelSrcCall t' b'"
  | n b n' b' where "c = VlanCall n b" "c' = VlanCall n' b'"
  | sp b sp' b' where "c = TunnelSrcPortCall sp b" "c' = TunnelSrcPortCall sp' b'"
  | sp b sp' b' where "c = SrcPortCall sp b" "c' = SrcPortCall sp' b'"
  | m b m' b' where "c = IpMacMapCall m b" "c' = IpMacMapCall m' b'"
  using assms by (cases c; cases c') simp_all

text \<open>C14: the record of the inputs of a call says exactly which call it was: two calls have
  the same record if and only if they are the same function with the same flag and their
  arguments agree in everything but the bytes of the unions that are not in use (the address
  beyond its family, and the tunnel of an address that is not behind one).\<close>

theorem journal_inputs_determine:
  assumes c: "json_contract L is_obj"
  shows "inputs_json L c = inputs_json L c' \<longleftrightarrow> call_seen c = call_seen c'"
proof
  assume "call_seen c = call_seen c'"
  then show "inputs_json L c = inputs_json L c'"
    by (cases c; cases c') (auto simp: input_defs Let_def json_simps [OF c]
        dest!: learn_json [OF c, THEN iffD2] tunnel_json [OF c, THEN iffD2]
        ip_mac_json [OF c, THEN iffD2])
next
  assume eq: "inputs_json L c = inputs_json L c'"
  have "func_name c = func_name c'" and b: "inserts c = inserts c'"
    using record_members [OF c, of c] record_members [OF c, of c'] eq
    by (simp_all add: json_simps [OF c])
  from this(1) show "call_seen c = call_seen c'"
  proof (cases rule: func_name_cases)
    case (1 i x i' x')
    from arg_cong [OF eq, of "\<lambda>j. j_index L (j_index L j ''params'') ''learn_info''"] have "learn_seen i = learn_seen i'"
      by (simp only: 1 record_arguments [OF c] learn_json [OF c])
    with b 1 show ?thesis by simp
  next
    case (2 t x t' x')
    from arg_cong [OF eq, of "\<lambda>j. j_index L j ''tunnel_info''"] have "tunnel_seen t = tunnel_seen t'"
      by (simp only: 2 record_arguments [OF c] tunnel_json [OF c])
    with b 2 show ?thesis by simp
  next
    case (3 t x t' x')
    from arg_cong [OF eq, of "\<lambda>j. j_index L j ''tunnel_info''"] have "tunnel_seen t = tunnel_seen t'"
      by (simp only: 3 record_arguments [OF c] tunnel_json [OF c])
    with b 3 show ?thesis by simp
  next
    case (4 n x n' x')
    from arg_cong [OF eq, of "\<lambda>j. j_index L (j_index L j ''params'') ''vlan_id''"] have "n = n'"
      by (simp only: 4 record_arguments [OF c] json_simps [OF c] uint_eq)
    with b 4 show ?thesis by simp
  next
    case (5 sp x sp' x')
    from arg_cong [OF eq, of "\<lambda>j. j_index L (j_index L j ''params'') ''port_info''"] have "sp = sp'"
      by (simp only: 5 record_arguments [OF c] src_port_json [OF c])
    with b 5 show ?thesis by simp
  next
    case (6 sp x sp' x')
    from arg_cong [OF eq, of "\<lambda>j. j_index L (j_index L j ''params'') ''port_info''"] have "sp = sp'"
      by (simp only: 6 record_arguments [OF c] src_port_json [OF c])
    with b 6 show ?thesis by simp
  next
    case (7 m x m' x')
    from arg_cong [OF eq, of "\<lambda>j. j_index L (j_index L j ''params'') ''ip_mac_map_info''"] have "ip_mac_seen m = ip_mac_seen m'"
      by (simp only: 7 record_arguments [OF c] ip_mac_json [OF c])
    with b 7 show ?thesis by simp
  qed
qed

section \<open>A JSON library\<close>

datatype json = JNull | JBool bool | JNumber int | JString string | JArray "json list"
  | JObject "(string \<times> json) list"

fun json_index :: "json \<Rightarrow> string \<Rightarrow> json" where
  "json_index (JObject ms) k = (case map_of ms k of Some v \<Rightarrow> v | None \<Rightarrow> JNull)"
| "json_index j k = JNull"

fun json_assign :: "json \<Rightarrow> string \<Rightarrow> json \<Rightarrow> json" where
  "json_assign (JObject ms) k v = JObject (AList.update k v ms)"
| "json_assign JNull k v = JObject [(k, v)]"
| "json_assign j k v = j"

fun json_obj :: "json \<Rightarrow> bool" where
  "json_obj JNull = True"
| "json_obj (JObject ms) = True"
| "json_obj j = False"

text \<open>A text for every value: the kinds and the keys of the members.\<close>

fun json_text :: "json \<Rightarrow> string" where
  "json_text JNull = ''null''"
| "json_text (JBool b) = (if b then ''true'' else ''false'')"
| "json_text (JNumber n) = ''number''"
| "json_text (JString s) = ''string '' @ s"
| "json_text (JArray js) = ''array''"
| "json_text (JObject ms) = ''object '' @ concat (map fst ms)"

definition demo_json :: "json json_lib" where
  "demo_json = \<lparr>j_null = JNull, j_bool = JBool, j_number = JNumber, j_string = JString,
     j_array = JArray, j_index = json_index, j_assign = json_assign,
     j_parse = (\<lambda>s. Some (JString s)), j_dump = (\<lambda>n j. Some (json_text j)),
     pb_ReadRequest = (\<lambda>rq. (OkStatus, ''read'')), pb_ReadResponse = (\<lambda>r. (OkStatus, ''response'')),
     pb_WriteRequest = (\<lambda>rq. (OkStatus, ''write''))\<rparr>"

lemma demo_json_contract: "json_contract demo_json json_obj"
proof -
  have "json_obj j \<Longrightarrow> json_obj (json_assign j k v)" for j k v by (cases j) simp_all
  moreover have "json_obj j \<Longrightarrow>
      json_index (json_assign j k v) k' = (if k' = k then v else json_index j k')" for j k v k'
    by (cases j) (auto simp: update_conv')
  ultimately show ?thesis by (auto simp: json_contract_def demo_json_def inj_def)
qed

lemma demo_json_journals: "journals demo_json (\<lambda>_. True)"
  by (auto simp: journals_def recordable_def demo_json_def EncodeReadRequest_def
      EncodeReadResponse_def EncodeWriteRequest_def EncodeWriteStatus_def EncodeProtobuf_def Let_def
      ok_def OkStatus_def)

theorem journal_is_trace_witness:
  "\<exists>e' out tr jout. perform DPDK_TARGET (demo_server empty_P4Info) default_flags ''a''
      (TunnelCall (demo_tunnel AF_INET OVS_TUNNEL_VXLAN P4_PORT_VLAN_NATIVE_TAGGED) True) ([], []) =
      Some (e', out) \<and>
    journal_perform DPDK_TARGET demo_json (traced (demo_server empty_P4Info)) default_flags ''a''
      (TunnelCall (demo_tunnel AF_INET OVS_TUNNEL_VXLAN P4_PORT_VLAN_NATIVE_TAGGED) True)
      (([], []), []) = Some ((e', tr), jout) \<and>
    out = filter (\<lambda>l. \<not> journal_line l) jout \<and>
    filter journal_line jout =
      ''inputs: object func_nameversionstruct_nametunnel_infoparams'' #
        concat (map (rpc_lines demo_json) tr)"
proof -
  have "inputs_lines DPDK_TARGET demo_json
      (TunnelCall (demo_tunnel AF_INET OVS_TUNNEL_VXLAN P4_PORT_VLAN_NATIVE_TAGGED) True) =
      [''inputs: object func_nameversionstruct_nametunnel_infoparams'']"
    by code_simp
  with journal_is_trace [OF demo_json_journals, where target = DPDK_TARGET and g = "demo_server empty_P4Info"
      and flags = default_flags and addr = "''a''" and e = "[]"
      and c = "TunnelCall (demo_tunnel AF_INET OVS_TUNNEL_VXLAN P4_PORT_VLAN_NATIVE_TAGGED) True"]
  show ?thesis by (simp del: perform.simps journal_perform.simps add: answers_in_def)
qed

theorem journal_inputs_determine_witness:
  "inputs_json demo_json (VlanCall 10 True) \<noteq> inputs_json demo_json (VlanCall 11 True) \<and>
   inputs_json demo_json (TunnelCall (demo_tunnel 0 OVS_TUNNEL_VXLAN P4_PORT_VLAN_ACCESS) True) =
     inputs_json demo_json (TunnelCall (tunnel_seen (demo_tunnel 0 OVS_TUNNEL_VXLAN P4_PORT_VLAN_ACCESS)) True)"
  using journal_inputs_determine [OF demo_json_contract, of "VlanCall 10 True" "VlanCall 11 True"]
    journal_inputs_determine [OF demo_json_contract,
      of "TunnelCall (demo_tunnel 0 OVS_TUNNEL_VXLAN P4_PORT_VLAN_ACCESS) True"
         "TunnelCall (tunnel_seen (demo_tunnel 0 OVS_TUNNEL_VXLAN P4_PORT_VLAN_ACCESS)) True"]
  by (simp del: inputs_json.simps) (simp add: tunnel_seen_def ip_seen_def v4addr_s_addr_def)

end
