(* ===== verification/Spies.thy ===== *)
theory Spies
  imports Journal_Inputs
begin

text \<open>
  \<^verbatim>\<open>sidecar/spies\<close> and \<^verbatim>\<open>sidecar/stubs\<close>: replacements of the C interface that a test links
  instead of the library. A stub does nothing; the spy of the FDB call prints its arguments
  as JSON, and the other spies are stubs. They take the target's place, so no target and no
  environment occurs in them: what a caller observes is the environment it has, unchanged,
  and the output.
\<close>

section \<open>Stubs\<close>

fun stub_perform :: "string \<Rightarrow> api_call \<Rightarrow> 'e outside \<Rightarrow> 'e outside option" where
  "stub_perform addr (FdbCall learn_info insert_entry) io = Some io"
| "stub_perform addr (IpMacMapCall learn_info insert_entry) io = Some io"
| "stub_perform addr (RxTunnelSrcCall tunnel_info insert_entry) io = Some io"
| "stub_perform addr (SrcPortCall vsi_sp insert_entry) io = Some io"
| "stub_perform addr (TunnelSrcPortCall tnl_sp insert_entry) io = Some io"
| "stub_perform addr (TunnelCall tunnel_info insert_entry) io = Some io"
| "stub_perform addr (VlanCall vlan_id insert_entry) io = Some io"

definition stub_str_to_tunnel_type :: "string option \<Rightarrow> u8" where
  "stub_str_to_tunnel_type tnl_type = OVS_TUNNEL_UNKNOWN"

section \<open>The spy of the FDB call\<close>

text \<open>The references \<open>fdb_info\<close>, \<open>vlan_info\<close>, \<open>tnl_info\<close>, \<open>local_ip\<close> and \<open>remote_ip\<close> into
  the object are values here, stored back where the last of them has been filled in.\<close>

definition spy_ip :: "'j json_lib \<Rightarrow> 'j \<Rightarrow> p4_ipaddr \<Rightarrow> 'j" where
  "spy_ip L ip learn_ip =
     (let ip = j_assign L ip ''family'' (j_number L (uint (ip_family learn_ip)));
          ip = j_assign L ip ''prefix_len'' (j_number L (uint (ip_prefix_len learn_ip)))
      in if ip_family learn_ip = AF_INET then
           j_assign L ip ''ipv4_addr'' (j_array L [j_number L (uint (v4addr_s_addr learn_ip))])
         else if ip_family learn_ip = AF_INET6 then
           (let v6addr = u6_addr16 (ip_mem learn_ip)
            in j_assign L ip ''ipv6_addr''
                 (j_array L (map (\<lambda>i. j_number L (uint (v6addr i))) [0, 1, 2, 3, 4, 5, 6, 7])))
         else ip)"

definition spy_json :: "'j json_lib \<Rightarrow> mac_learning_info \<Rightarrow> bool \<Rightarrow> 'j" where
  "spy_json L learn_info insert_entry =
     (let json_info = j_assign L (j_null L) ''name'' (j_string L ''ovsp4rt_config_fdb_entry'');
          json_info = j_assign L json_info ''version'' (j_number L 1);
          params = j_index L json_info ''params'';
          fdb_info = j_index L params ''learn_info'';
          fdb_info = j_assign L fdb_info ''is_tunnel'' (j_bool L (ml_is_tunnel learn_info));
          fdb_info = j_assign L fdb_info ''is_vlan'' (j_bool L (ml_is_vlan learn_info));
          fdb_info = j_assign L fdb_info ''mac_addr''
            (j_array L (map (\<lambda>b. j_number L (uint b))
              [mac0 (ml_mac_addr learn_info), mac1 (ml_mac_addr learn_info),
               mac2 (ml_mac_addr learn_info), mac3 (ml_mac_addr learn_info),
               mac4 (ml_mac_addr learn_info), mac5 (ml_mac_addr learn_info)]));
          fdb_info = j_assign L fdb_info ''bridge_id'' (j_number L (uint (ml_bridge_id learn_info)));
          fdb_info = j_assign L fdb_info ''src_port'' (j_number L (uint (ml_src_port learn_info)));
          fdb_info = j_assign L fdb_info ''rx_src_port''
            (j_number L (uint (ml_rx_src_port learn_info)));
          vlan_info = j_index L fdb_info ''vlan_info'';
          vlan_info = j_assign L vlan_info ''port_vlan_mode''
            (j_number L (vlan_mode_value (pv_mode (ml_vlan_info learn_info))));
          vlan_info = j_assign L vlan_info ''port_vlan''
            (j_number L (uint (pv_vlan (ml_vlan_info learn_info))));
          fdb_info = j_assign L fdb_info ''vlan_info'' vlan_info;
          tnl_info = j_index L fdb_info ''tnl_info'';
          tnl_info = j_assign L tnl_info ''ifindex''
            (j_number L (uint (ti_ifindex (ml_tnl_info learn_info))));
          tnl_info = j_assign L tnl_info ''port_id''
            (j_number L (uint (ti_port_id (ml_tnl_info learn_info))));
          tnl_info = j_assign L tnl_info ''src_port''
            (j_number L (uint (ti_src_port (ml_tnl_info learn_info))));
          tnl_info = j_assign L tnl_info ''local_ip''
            (spy_ip L (j_index L tnl_info ''local_ip'') (ti_local_ip (ml_tnl_info learn_info)));
          tnl_info = j_assign L tnl_info ''remote_ip''
            (spy_ip L (j_index L tnl_info ''remote_ip'') (ti_remote_ip (ml_tnl_info learn_info)));
          fdb_info = j_assign L fdb_info ''tnl_info'' tnl_info;
          params = j_assign L params ''learn_info'' fdb_info;
          params = j_assign L params ''insert_entry'' (j_bool L insert_entry)
      in j_assign L json_info ''params'' params)"

definition spy_config_fdb_entry ::
    "'j json_lib \<Rightarrow> mac_learning_info \<Rightarrow> bool \<Rightarrow> string \<Rightarrow> 'e outside \<Rightarrow> 'e outside option" where
  "spy_config_fdb_entry L learn_info insert_entry grpc_addr io = do {
     s \<leftarrow> j_dump L 2 (spy_json L learn_info insert_entry);
     Some (fst io, snd io @ [[], s])
   }"

fun spy_perform ::
    "'j json_lib \<Rightarrow> string \<Rightarrow> api_call \<Rightarrow> 'e outside \<Rightarrow> 'e outside option" where
  "spy_perform L addr (FdbCall learn_info insert_entry) io =
     spy_config_fdb_entry L learn_info insert_entry addr io"
| "spy_perform L addr (IpMacMapCall learn_info insert_entry) io = Some io"
| "spy_perform L addr (RxTunnelSrcCall tunnel_info insert_entry) io = Some io"
| "spy_perform L addr (SrcPortCall vsi_sp insert_entry) io = Some io"
| "spy_perform L addr (TunnelSrcPortCall tnl_sp insert_entry) io = Some io"
| "spy_perform L addr (TunnelCall tunnel_info insert_entry) io = Some io"
| "spy_perform L addr (VlanCall vlan_id insert_entry) io = Some io"

definition spy_str_to_tunnel_type :: "string option \<Rightarrow> u8" where
  "spy_str_to_tunnel_type tnl_type = OVS_TUNNEL_UNKNOWN"

section \<open>What the spy sees\<close>

text \<open>The part of a learned address the spy prints: of its tunnel neither the destination
  port, the VNI, the VLAN and the bridge nor the type, and of an address the member of its
  family.\<close>

definition spy_seen :: "mac_learning_info \<Rightarrow> mac_learning_info" where
  "spy_seen i = i\<lparr>ml_tnl_info := (tunnel_seen (ml_tnl_info i))\<lparr>ti_dst_port := 0, ti_vni := 0,
     ti_vlan_info := \<lparr>pv_mode = P4_PORT_VLAN_ACCESS, pv_vlan = 0\<rparr>, ti_bridge_id := 0,
     ti_tunnel_type := 0\<rparr>\<rparr>"

lemma spy_ip_eq: "spy_ip = IpAddrToJson"
  by (intro ext) (simp only: spy_ip_def IpAddrToJson_def)

lemma spy_seen_iff:
  "spy_seen a = spy_seen b \<longleftrightarrow>
     ml_is_tunnel a = ml_is_tunnel b \<and> ml_is_vlan a = ml_is_vlan b \<and>
     ml_mac_addr a = ml_mac_addr b \<and> ml_bridge_id a = ml_bridge_id b \<and>
     ml_src_port a = ml_src_port b \<and> ml_rx_src_port a = ml_rx_src_port b \<and>
     ml_vlan_info a = ml_vlan_info b \<and>
     ti_ifindex (ml_tnl_info a) = ti_ifindex (ml_tnl_info b) \<and>
     ti_port_id (ml_tnl_info a) = ti_port_id (ml_tnl_info b) \<and>
     ti_src_port (ml_tnl_info a) = ti_src_port (ml_tnl_info b) \<and>
     ip_seen (ti_local_ip (ml_tnl_info a)) = ip_seen (ti_local_ip (ml_tnl_info b)) \<and>
     ip_seen (ti_remote_ip (ml_tnl_info a)) = ip_seen (ti_remote_ip (ml_tnl_info b))"
  by (cases a; cases b; cases "ml_tnl_info a"; cases "ml_tnl_info b")
    (auto simp: spy_seen_def tunnel_seen_def)

lemma spy_members:
  assumes c: "json_contract L is_obj"
  shows "j_index L (j_index L (spy_json L i b) ''params'') ''insert_entry'' = j_bool L b"
    and "j_index L (j_index L (j_index L (spy_json L i b) ''params'') ''learn_info'') k =
      (if k = ''tnl_info'' then
         (let t = ml_tnl_info i;
              j = j_assign L (j_null L) ''ifindex'' (j_number L (uint (ti_ifindex t)));
              j = j_assign L j ''port_id'' (j_number L (uint (ti_port_id t)));
              j = j_assign L j ''src_port'' (j_number L (uint (ti_src_port t)));
              j = j_assign L j ''local_ip'' (IpAddrToJson L (j_null L) (ti_local_ip t))
          in j_assign L j ''remote_ip'' (IpAddrToJson L (j_null L) (ti_remote_ip t)))
       else if k = ''vlan_info'' then PortVlanInfoToJson L (j_null L) (ml_vlan_info i)
       else if k = ''rx_src_port'' then j_number L (uint (ml_rx_src_port i))
       else if k = ''src_port'' then j_number L (uint (ml_src_port i))
       else if k = ''bridge_id'' then j_number L (uint (ml_bridge_id i))
       else if k = ''mac_addr'' then MacAddrToJson L (j_null L) (ml_mac_addr i)
       else if k = ''is_vlan'' then j_bool L (ml_is_vlan i)
       else if k = ''is_tunnel'' then j_bool L (ml_is_tunnel i) else j_null L)"
  by (simp_all add: spy_json_def Let_def json_simps [OF c] spy_ip_eq PortVlanInfoToJson_def
      MacAddrToJson_def)

text \<open>The record the spy prints of an FDB call says exactly whether it inserts and what
  \<open>spy_seen\<close> keeps of the learned address: two calls have the same record if and only if they
  agree in these. So the VNI, the destination port, the type, the VLAN and the bridge of the
  tunnel, which decide what the library writes, are lost, although the spy is there to dump
  the parameters.\<close>

lemma spy_record_determines:
  assumes c: "json_contract L is_obj"
  shows "spy_json L i b = spy_json L i' b' \<longleftrightarrow> b = b' \<and> spy_seen i = spy_seen i'"
proof
  assume s: "b = b' \<and> spy_seen i = spy_seen i'"
  then have "IpAddrToJson L (j_null L) (ti_local_ip (ml_tnl_info i)) =
      IpAddrToJson L (j_null L) (ti_local_ip (ml_tnl_info i'))"
    "IpAddrToJson L (j_null L) (ti_remote_ip (ml_tnl_info i)) =
      IpAddrToJson L (j_null L) (ti_remote_ip (ml_tnl_info i'))"
    by (simp_all add: ip_json [OF c] spy_seen_iff)
  with s show "spy_json L i b = spy_json L i' b'"
    by (simp add: spy_json_def Let_def json_simps [OF c] spy_ip_eq spy_seen_iff)
next
  let ?p = "\<lambda>j. j_index L j ''params''"
  let ?l = "\<lambda>k j. j_index L (j_index L (?p j) ''learn_info'') k"
  assume eq: "spy_json L i b = spy_json L i' b'"
  have m: "?l k (spy_json L i b) = ?l k (spy_json L i' b')" for k by (simp only: eq)
  have t: "j_index L (?l ''tnl_info'' (spy_json L i b)) k = j_index L (?l ''tnl_info'' (spy_json L i' b')) k"
    for k by (simp only: eq)
  note S = spy_members [OF c] json_simps [OF c] Let_def uint_eq ip_json [OF c] vlan_json [OF c]
    mac_json [OF c]
  have "b = b'"
    using arg_cong [OF eq, of "\<lambda>j. j_index L (?p j) ''insert_entry''"] by (simp add: S)
  moreover have "spy_seen i = spy_seen i'"
    using m [of "''is_tunnel''"] m [of "''is_vlan''"] m [of "''mac_addr''"] m [of "''bridge_id''"]
      m [of "''src_port''"] m [of "''rx_src_port''"] m [of "''vlan_info''"] t [of "''ifindex''"]
      t [of "''port_id''"] t [of "''src_port''"] t [of "''local_ip''"] t [of "''remote_ip''"]
    by (simp add: S spy_seen_iff)
  ultimately show "b = b' \<and> spy_seen i = spy_seen i'" by simp
qed

theorem spy_record_determines_witness:
  "spy_json demo_json (demo_learn True AF_INET OVS_TUNNEL_VXLAN) True =
     spy_json demo_json
       ((demo_learn True AF_INET OVS_TUNNEL_VXLAN)\<lparr>ml_tnl_info :=
         (ml_tnl_info (demo_learn True AF_INET OVS_TUNNEL_VXLAN))\<lparr>ti_vni := 77\<rparr>\<rparr>) True \<and>
   spy_json demo_json (demo_learn True AF_INET OVS_TUNNEL_VXLAN) True \<noteq>
     spy_json demo_json ((demo_learn True AF_INET OVS_TUNNEL_VXLAN)\<lparr>ml_bridge_id := 8\<rparr>) True"
  using spy_record_determines [OF demo_json_contract]
  by (simp add: spy_seen_iff)

end
