(* ===== verification/Perf_Session.thy ===== *)
theory Perf_Session
  imports Session P4Info_Utils Encode_Utils
begin

text \<open>
  \<^verbatim>\<open>clients/p4rt_perf_test\<close>, the session, the credentials and the utilities: its own
  copies of what the sidecar has, with a session that carries no role, whose requests are
  stamped by the caller.

  The lemmas relate the copies to the sidecar's functions, so that their lemmas apply.
\<close>

section \<open>p4rt\_perf\_tls\_credentials\<close>

definition perf_IsRegularFile :: "'e grpc_env \<Rightarrow> string \<Rightarrow> 'e \<Rightarrow> bool" where
  "perf_IsRegularFile g filename e = g_lstat_regular g filename e"

text \<open>The credentials, and the lines printed.\<close>

definition perf_GenerateClientCredentials ::
    "'e grpc_env \<Rightarrow> 'e \<Rightarrow> Credentials \<times> string list" where
  "perf_GenerateClientCredentials g e =
     (if perf_IsRegularFile g ''/usr/share/stratum/certs/ca.crt'' e \<and>
         perf_IsRegularFile g ''/usr/share/stratum/certs/client.crt'' e \<and>
         perf_IsRegularFile g ''/usr/share/stratum/certs/client.key'' e
      then (TlsCredentials ''/usr/share/stratum/certs/client.key''
              ''/usr/share/stratum/certs/client.crt'' ''/usr/share/stratum/certs/ca.crt'' 1
              (''/usr/share/stratum/certs/ca.crt'' \<noteq> [] \<and>
               ''/usr/share/stratum/certs/client.key'' \<noteq> []), [])
      else (InsecureCredentials, [''Using insecure client credentials!'']))"

section \<open>p4rt\_perf\_util\<close>

fun perf_EncodeByteValue :: "nat \<Rightarrow> u32 list \<Rightarrow> bytes" where
  "perf_EncodeByteValue (Suc arg_count) (arg # args) =
     ucast arg # perf_EncodeByteValue arg_count args"
| "perf_EncodeByteValue _ _ = []"

definition perf_CanonicalizeIp :: "u32 \<Rightarrow> bytes" where
  "perf_CanonicalizeIp ipv4addr = perf_EncodeByteValue 4
     [ipv4addr AND 0xff, drop_bit 8 ipv4addr AND 0xff,
      drop_bit 16 ipv4addr AND 0xff, drop_bit 24 ipv4addr AND 0xff]"

definition perf_CanonicalizeIpv6 :: "u128 \<Rightarrow> bytes" where
  "perf_CanonicalizeIpv6 a = perf_EncodeByteValue 16
     [ucast (u6_addr8 a 0), ucast (u6_addr8 a 1), ucast (u6_addr8 a 2), ucast (u6_addr8 a 3),
      ucast (u6_addr8 a 4), ucast (u6_addr8 a 5), ucast (u6_addr8 a 6), ucast (u6_addr8 a 7),
      ucast (u6_addr8 a 8), ucast (u6_addr8 a 9), ucast (u6_addr8 a 10), ucast (u6_addr8 a 11),
      ucast (u6_addr8 a 12), ucast (u6_addr8 a 13), ucast (u6_addr8 a 14), ucast (u6_addr8 a 15)]"

definition perf_CanonicalizeMac :: "mac_addr \<Rightarrow> bytes" where
  "perf_CanonicalizeMac mac = perf_EncodeByteValue 6
     [ucast (mac0 mac) AND 0xff, ucast (mac1 mac) AND 0xff, ucast (mac2 mac) AND 0xff,
      ucast (mac3 mac) AND 0xff, ucast (mac4 mac) AND 0xff, ucast (mac5 mac) AND 0xff]"

fun perf_GetTableId_loop :: "P4Table list \<Rightarrow> string \<Rightarrow> u32" where
  "perf_GetTableId_loop [] t_name = -1"
| "perf_GetTableId_loop (table # tables) t_name =
     (let pre = tbl_preamble table in
      if pre_name pre = t_name then pre_id pre else perf_GetTableId_loop tables t_name)"

definition perf_GetTableId :: "P4Info \<Rightarrow> string \<Rightarrow> u32" where
  "perf_GetTableId p4info t_name = perf_GetTableId_loop (pi_tables p4info) t_name"

fun perf_GetActionId_loop :: "P4Action list \<Rightarrow> string \<Rightarrow> u32" where
  "perf_GetActionId_loop [] a_name = -1"
| "perf_GetActionId_loop (action # actions) a_name =
     (let pre = pact_preamble action in
      if pre_name pre = a_name then pre_id pre else perf_GetActionId_loop actions a_name)"

definition perf_GetActionId :: "P4Info \<Rightarrow> string \<Rightarrow> u32" where
  "perf_GetActionId p4info a_name = perf_GetActionId_loop (pi_actions p4info) a_name"

fun perf_GetParamId_loop :: "P4Action list \<Rightarrow> string \<Rightarrow> string \<Rightarrow> u32" where
  "perf_GetParamId_loop [] a_name param_name = -1"
| "perf_GetParamId_loop (action # actions) a_name param_name =
     (let pre = pact_preamble action in
      if pre_name pre \<noteq> a_name then perf_GetParamId_loop actions a_name param_name
      else (case find_id (pact_params action) param_name of
              Some i \<Rightarrow> i
            | None \<Rightarrow> perf_GetParamId_loop actions a_name param_name))"

definition perf_GetParamId :: "P4Info \<Rightarrow> string \<Rightarrow> string \<Rightarrow> u32" where
  "perf_GetParamId p4info a_name param_name =
     perf_GetParamId_loop (pi_actions p4info) a_name param_name"

fun perf_GetMatchFieldId_loop :: "P4Table list \<Rightarrow> string \<Rightarrow> string \<Rightarrow> u32" where
  "perf_GetMatchFieldId_loop [] t_name mf_name = -1"
| "perf_GetMatchFieldId_loop (table # tables) t_name mf_name =
     (let pre = tbl_preamble table in
      if pre_name pre \<noteq> t_name then perf_GetMatchFieldId_loop tables t_name mf_name
      else (case find_id (tbl_match_fields table) mf_name of
              Some i \<Rightarrow> i
            | None \<Rightarrow> perf_GetMatchFieldId_loop tables t_name mf_name))"

definition perf_GetMatchFieldId :: "P4Info \<Rightarrow> string \<Rightarrow> string \<Rightarrow> u32" where
  "perf_GetMatchFieldId p4info t_name mf_name =
     perf_GetMatchFieldId_loop (pi_tables p4info) t_name mf_name"

section \<open>p4rt\_perf\_session\<close>

definition perf_AbslStatusToGrpcStatus :: "Status \<Rightarrow> Status" where
  "perf_AbslStatusToGrpcStatus s = \<lparr>st_code = st_code s, st_message = st_message s\<rparr>"

definition perf_GrpcStatusToAbslStatus :: "Status \<Rightarrow> Status" where
  "perf_GrpcStatusToAbslStatus s = absl_Status (st_code s) (st_message s)"

definition perf_TimeBasedElectionId :: "'e grpc_env \<Rightarrow> 'e \<Rightarrow> u128" where
  "perf_TimeBasedElectionId g e = MakeUint128 (g_now g e) 0"

record P4rtSession =
  ps_device_id :: u32
  ps_election_id :: Uint128
  ps_stub :: nat
  ps_stream_channel :: nat

definition P4rtSession_new ::
    "'e grpc_env \<Rightarrow> u32 \<Rightarrow> nat \<Rightarrow> u128 \<Rightarrow> 'e \<Rightarrow> P4rtSession \<times> 'e" where
  "P4rtSession_new g device_id stub election_id e =
     (case g_stream_channel g stub e of
        (stream, e) \<Rightarrow>
          (\<lparr>ps_device_id = device_id,
            ps_election_id = \<lparr>u128_high = Uint128High64 election_id,
                              u128_low = Uint128Low64 election_id\<rparr>,
            ps_stub = stub,
            ps_stream_channel = stream\<rparr>, e))"

definition perf_arbitration :: "P4rtSession \<Rightarrow> u32 \<Rightarrow> Arbitration" where
  "perf_arbitration session device_id =
     \<lparr>arb_device_id = ucast device_id, arb_role_name = [], arb_role_config = None,
      arb_election_id = ps_election_id session\<rparr>"

definition perf_Create ::
    "'e grpc_env \<Rightarrow> nat \<Rightarrow> u32 \<Rightarrow> u128 \<Rightarrow> 'e \<Rightarrow> P4rtSession StatusOr \<times> 'e" where
  "perf_Create g stub device_id election_id e =
     (let (session, e) = P4rtSession_new g device_id stub election_id e;
          (written, e) = g_stream_write g (ps_stream_channel session)
                           (perf_arbitration session device_id) e
      in if \<not> written then
           (Inl (UnavailableError ''Unable to initiate P4RT connection for Write request, closing stream channel''),
            g_stream_finish g (ps_stream_channel session) e)
         else (case g_stream_read g (ps_stream_channel session) e of
             (None, e) \<Rightarrow>
               (Inl (InternalError ''No arbitration response received''),
                g_stream_finish g (ps_stream_channel session) e)
           | (Some kOther, e) \<Rightarrow> (Inl (InternalError ''No arbitration update received''), e)
           | (Some (kArbitration device), e) \<Rightarrow>
               if device \<noteq> ucast (ps_device_id session)
               then (Inl (InternalError ''Received device id doesn't match''), e)
               else (Inr session, e)))"

definition perf_Create_addr ::
    "'e grpc_env \<Rightarrow> string \<Rightarrow> Credentials \<Rightarrow> u32 \<Rightarrow> u128 \<Rightarrow> 'e \<Rightarrow> P4rtSession StatusOr \<times> 'e" where
  "perf_Create_addr g address credentials device_id election_id e =
     (let election_id = election_id + ucast (g_thread_self g e);
          (stub, e) = g_new_stub g address credentials e
      in perf_Create g stub device_id election_id e)"

text \<open>The status of the call is computed and dropped; the result is always OK.\<close>

definition perf_GetForwardingPipelineConfig ::
    "'e grpc_env \<Rightarrow> P4rtSession \<Rightarrow> 'e \<Rightarrow> (Status \<times> P4Info) \<times> 'e" where
  "perf_GetForwardingPipelineConfig g session e =
     (let request = \<lparr>gc_device_id = ucast (ps_device_id session),
                     gc_response_type = ''P4INFO_AND_COOKIE''\<rparr>;
          ((status, config), e) = g_get_config g (ps_stub session) request e
      in ((OkStatus, config), e))"

definition perf_SendReadRequest ::
    "'e grpc_env \<Rightarrow> P4rtSession \<Rightarrow> ReadRequest \<Rightarrow> 'e \<Rightarrow> ReadResponse StatusOr \<times> 'e" where
  "perf_SendReadRequest g session read_request e =
     (let ((partials, reader_status), e) = g_read g (ps_stub session) read_request e;
          response = foldl MergeFrom empty_ReadResponse partials
      in if \<not> ok reader_status then (Inl (perf_GrpcStatusToAbslStatus reader_status), e)
         else (Inr response, e))"

definition perf_SendWriteRequest ::
    "'e grpc_env \<Rightarrow> P4rtSession \<Rightarrow> WriteRequest \<Rightarrow> 'e \<Rightarrow> Status \<times> 'e" where
  "perf_SendWriteRequest g session write_request e =
     (let (status, e) = g_write g (ps_stub session) write_request e
      in (perf_GrpcStatusToAbslStatus status, e))"

text \<open>Setting up an update: the position of its entry, and the request. The request's
  device and election identifiers are the caller's to set.\<close>

definition perf_add_update :: "Update_Type \<Rightarrow> WriteRequest \<Rightarrow> nat \<times> WriteRequest" where
  "perf_add_update t req =
     (length (wr_updates req),
      req\<lparr>wr_updates := wr_updates req @ [\<lparr>upd_type = t, upd_entry = empty_TableEntry\<rparr>]\<rparr>)"

definition perf_SetupTableEntryToInsert :: "P4rtSession \<Rightarrow> WriteRequest \<Rightarrow> nat \<times> WriteRequest" where
  "perf_SetupTableEntryToInsert session req = perf_add_update INSERT req"

definition perf_SetupTableEntryToModify :: "P4rtSession \<Rightarrow> WriteRequest \<Rightarrow> nat \<times> WriteRequest" where
  "perf_SetupTableEntryToModify session req = perf_add_update MODIFY req"

definition perf_SetupTableEntryToDelete :: "P4rtSession \<Rightarrow> WriteRequest \<Rightarrow> nat \<times> WriteRequest" where
  "perf_SetupTableEntryToDelete session req = perf_add_update DELETE req"

section \<open>Lemmas\<close>

text \<open>The copies compute what the sidecar's functions compute.\<close>

lemma perf_EncodeByteValue_eq: "perf_EncodeByteValue n args = EncodeByteValue n args"
  by (induction n args rule: perf_EncodeByteValue.induct) simp_all

lemma perf_canonical_eq:
  "perf_CanonicalizeMac = CanonicalizeMac" "perf_CanonicalizeIp = CanonicalizeIp"
  "perf_CanonicalizeIpv6 = CanonicalizeIpv6"
  by (simp_all add: fun_eq_iff perf_CanonicalizeMac_def CanonicalizeMac_def perf_CanonicalizeIp_def
      CanonicalizeIp_def perf_CanonicalizeIpv6_def CanonicalizeIpv6_def perf_EncodeByteValue_eq
      del: EncodeByteValue_numeral)

lemma perf_table_loop_eq:
  "perf_GetTableId_loop ts n = GetTableId_loop ts n"
  "perf_GetMatchFieldId_loop ts n f = GetMatchFieldId_loop ts n f"
  by (induction ts) (simp_all add: Let_def split: option.split)

lemma perf_action_loop_eq:
  "perf_GetActionId_loop as n = GetActionId_loop as n"
  "perf_GetParamId_loop as n f = GetParamId_loop as n f"
  by (induction as) (simp_all add: Let_def split: option.split)

lemma perf_lookup_eq:
  "perf_GetTableId = GetTableId" "perf_GetActionId = GetActionId"
  "perf_GetParamId = GetParamId" "perf_GetMatchFieldId = GetMatchFieldId"
  by (simp_all add: fun_eq_iff perf_GetTableId_def GetTableId_def perf_GetActionId_def
      GetActionId_def perf_GetParamId_def GetParamId_def perf_GetMatchFieldId_def
      GetMatchFieldId_def perf_table_loop_eq perf_action_loop_eq)

lemma perf_credentials_eq:
  "fst (perf_GenerateClientCredentials g (w_env w)) = fst (GenerateClientCredentials g w)"
  "w_out (snd (GenerateClientCredentials g w)) =
     w_out w @ snd (perf_GenerateClientCredentials g (w_env w))"
  by (simp_all add: perf_GenerateClientCredentials_def GenerateClientCredentials_def
      perf_IsRegularFile_def IsRegularFile_def ca_cert_file_def client_cert_file_def
      client_key_file_def kFileRefreshIntervalSeconds_def)

text \<open>Writing the entry of the update just added.\<close>

lemma perf_add_update_entry:
  "perf_add_update t req = (p, req') \<Longrightarrow> write_entry p req' = empty_TableEntry"
  "perf_add_update t req = (p, req') \<Longrightarrow> put_write_entry p te req' =
     req\<lparr>wr_updates := wr_updates req @ [\<lparr>upd_type = t, upd_entry = te\<rparr>]\<rparr>"
  by (auto simp: perf_add_update_def write_entry_def put_write_entry_def)

end
