(* ===== verification/C_Strings.thy ===== *)
theory C_Strings
  imports Prelude
begin

text \<open>
  The strings of C: the classes and the values of characters, \<open>atoi\<close>, and strings as
  arrays of characters with a terminator, where a pointer is an index, an access outside
  the array is undefined behaviour, the result \<open>None\<close>, and the functions of the library
  require a terminated string.
\<close>

section \<open>Characters and numbers\<close>

definition is_digit :: "char \<Rightarrow> bool" where
  "is_digit c \<longleftrightarrow> 48 \<le> (of_char c :: nat) \<and> (of_char c :: nat) \<le> 57"

definition is_space :: "char \<Rightarrow> bool" where
  "is_space c \<longleftrightarrow> (of_char c :: nat) = 32 \<or> (9 \<le> (of_char c :: nat) \<and> (of_char c :: nat) \<le> 13)"

definition digits_value :: "string \<Rightarrow> int" where
  "digits_value ds = foldl (\<lambda>n c. 10 * n + (of_char c - 48)) 0 ds"

text \<open>\<open>atoi\<close>: white space, a sign, digits; undefined when no \<open>int\<close> holds the value.\<close>

definition atoi :: "string \<Rightarrow> int option" where
  "atoi s =
     (let s = dropWhile is_space s;
          negative = (s \<noteq> [] \<and> hd s = CHR ''-'');
          s = (if s \<noteq> [] \<and> (hd s = CHR ''-'' \<or> hd s = CHR ''+'') then tl s else s);
          n = digits_value (takeWhile is_digit s);
          v = (if negative then - n else n)
      in if - (2 ^ 31) \<le> v \<and> v < 2 ^ 31 then Some v else None)"

section \<open>Memory and strings\<close>

type_synonym cmem = "char list"

definition NUL :: char where "NUL = CHR 0x00"

definition load :: "cmem \<Rightarrow> nat \<Rightarrow> char option" where
  "load mem p = (if p < length mem then Some (mem ! p) else None)"

definition store :: "cmem \<Rightarrow> nat \<Rightarrow> char \<Rightarrow> cmem option" where
  "store mem p c = (if p < length mem then Some (mem[p := c]) else None)"

definition terminated :: "cmem \<Rightarrow> nat \<Rightarrow> bool" where
  "terminated mem p \<longleftrightarrow> NUL \<in> set (drop p mem)"

definition c_string :: "cmem \<Rightarrow> nat \<Rightarrow> string" where
  "c_string mem p = takeWhile (\<lambda>c. c \<noteq> NUL) (drop p mem)"

definition strspn :: "cmem \<Rightarrow> nat \<Rightarrow> string \<Rightarrow> nat option" where
  "strspn mem p accept =
     (if terminated mem p then Some (length (takeWhile (\<lambda>c. c \<in> set accept) (c_string mem p)))
      else None)"

definition strcspn :: "cmem \<Rightarrow> nat \<Rightarrow> string \<Rightarrow> nat option" where
  "strcspn mem p reject =
     (if terminated mem p then Some (length (takeWhile (\<lambda>c. c \<notin> set reject) (c_string mem p)))
      else None)"

section \<open>Lemmas\<close>

text \<open>A string of the memory, with what is before and behind it.\<close>

definition holds_string :: "cmem \<Rightarrow> nat \<Rightarrow> string \<Rightarrow> bool" where
  "holds_string mem p s \<longleftrightarrow> NUL \<notin> set s \<and> (\<exists>pre post. mem = pre @ s @ NUL # post \<and> p = length pre)"

lemma holds_stringI: "NUL \<notin> set s \<Longrightarrow> mem = pre @ s @ NUL # post \<Longrightarrow> holds_string mem (length pre) s"
  by (auto simp: holds_string_def)

lemma holds_c_string:
  assumes "holds_string mem p s"
  shows "c_string mem p = s" and "terminated mem p"
  using assms by (auto simp: holds_string_def c_string_def terminated_def takeWhile_tail)

lemma terminated_holds:
  assumes "terminated mem p"
  shows "holds_string mem p (c_string mem p)"
proof -
  have "NUL \<notin> set (c_string mem p)" by (auto simp: c_string_def dest: set_takeWhileD)
  moreover obtain post where "drop p mem = c_string mem p @ NUL # post"
  proof -
    have "dropWhile (\<lambda>c. c \<noteq> NUL) (drop p mem) \<noteq> []"
      using assms by (auto simp: terminated_def)
    from hd_dropWhile [OF this] this have "dropWhile (\<lambda>c. c \<noteq> NUL) (drop p mem) =
        NUL # tl (dropWhile (\<lambda>c. c \<noteq> NUL) (drop p mem))"
      by (cases "dropWhile (\<lambda>c. c \<noteq> NUL) (drop p mem)") auto
    with that takeWhile_dropWhile_id [of "\<lambda>c. c \<noteq> NUL" "drop p mem"] show thesis
      unfolding c_string_def by metis
  qed
  moreover have "p < length mem"
    using assms by (metis drop_all list.set(1) empty_iff not_le terminated_def)
  ultimately have "mem = take p mem @ c_string mem p @ NUL # post" "p = length (take p mem)"
    using append_take_drop_id [of p mem] by simp_all
  with \<open>NUL \<notin> _\<close> show ?thesis by (metis holds_stringI)
qed

lemma holds_load:
  assumes "holds_string mem p s" and "n \<le> length s"
  shows "load mem (p + n) = Some (if n < length s then s ! n else NUL)"
  using assms by (auto simp: holds_string_def load_def nth_append)

lemma holds_nth:
  assumes "holds_string mem p s" and "n < length s"
  shows "load mem (p + n) = Some (s ! n)" and "s ! n \<noteq> NUL" and "drop n s = s ! n # drop (Suc n) s"
proof -
  show "load mem (p + n) = Some (s ! n)" using holds_load [of mem p s n] assms by simp
  show "s ! n \<noteq> NUL" using assms nth_mem [of n s] by (metis holds_string_def)
  show "drop n s = s ! n # drop (Suc n) s" using assms(2) by (simp add: Cons_nth_drop_Suc)
qed

lemma holds_suffix:
  assumes "holds_string mem p s" and "n \<le> length s"
  shows "holds_string mem (p + n) (drop n s)"
proof -
  from assms obtain pre post where "mem = pre @ s @ NUL # post" "p = length pre" "NUL \<notin> set s"
    by (auto simp: holds_string_def)
  then have "mem = (pre @ take n s) @ drop n s @ NUL # post" "p + n = length (pre @ take n s)"
    using assms(2) by simp_all
  with \<open>NUL \<notin> set s\<close> show ?thesis by (metis holds_stringI in_set_dropD)
qed

text \<open>Cutting a string by a terminator leaves its two parts.\<close>

lemma holds_store:
  assumes h: "holds_string mem p s" and n: "n \<le> length s"
  shows "\<exists>mem'. store mem (p + n) NUL = Some mem' \<and> holds_string mem' p (take n s) \<and>
    length mem' = length mem \<and> (\<forall>i. i \<noteq> p + n \<longrightarrow> mem' ! i = mem ! i) \<and>
    (n < length s \<longrightarrow> holds_string mem' (p + Suc n) (drop (Suc n) s)) \<and> (n = length s \<longrightarrow> mem' = mem)"
proof -
  from h obtain pre post where m: "mem = pre @ s @ NUL # post" "p = length pre" "NUL \<notin> set s"
    by (auto simp: holds_string_def)
  let ?mem = "mem[p + n := NUL]"
  have lt: "p + n < length mem" using m n by simp
  have cut: "?mem = pre @ take n s @ NUL # drop (Suc n) (s @ NUL # post)"
    using upd_conv_take_nth_drop [OF lt, of NUL] m n by simp
  have "holds_string ?mem p (take n s)"
    using holds_stringI [OF _ cut] m(2,3) by (auto dest: in_set_takeD)
  moreover have "holds_string ?mem (p + Suc n) (drop (Suc n) s)" if "n < length s"
  proof -
    have "?mem = (pre @ take n s @ [NUL]) @ drop (Suc n) s @ NUL # post" using cut that by simp
    moreover have "p + Suc n = length (pre @ take n s @ [NUL])" using m(2) that by simp
    ultimately show ?thesis using m(3) by (metis holds_stringI in_set_dropD)
  qed
  moreover have "?mem = mem" if "n = length s"
    using m that by (simp add: list_update_append)
  ultimately show ?thesis using lt by (auto simp: store_def)
qed

text \<open>What a string of the memory depends on.\<close>

lemma holds_string_iff:
  "holds_string mem p s \<longleftrightarrow> NUL \<notin> set s \<and> p + length s < length mem \<and>
     take (length s) (drop p mem) = s \<and> mem ! (p + length s) = NUL"
proof
  assume r: "NUL \<notin> set s \<and> p + length s < length mem \<and> take (length s) (drop p mem) = s \<and>
    mem ! (p + length s) = NUL"
  then have "mem = take p mem @ s @ NUL # drop (Suc (p + length s)) mem"
    using append_take_drop_id [of p mem] append_take_drop_id [of "length s" "drop p mem"]
      Cons_nth_drop_Suc [of "p + length s" mem] by (metis drop_drop add.commute)
  moreover have "p = length (take p mem)" using r by simp
  ultimately show "holds_string mem p s" using r by (metis holds_stringI)
qed (auto simp: holds_string_def nth_append)

lemma holds_frame:
  assumes "holds_string mem p s" and "length mem' = length mem"
    and "\<And>i. p \<le> i \<Longrightarrow> i \<le> p + length s \<Longrightarrow> mem' ! i = mem ! i"
  shows "holds_string mem' p s"
proof -
  have lt: "p + length s < length mem" using assms(1) by (simp add: holds_string_iff)
  then have "take (length s) (drop p mem') = take (length s) (drop p mem)"
    by (intro nth_equalityI) (simp_all add: assms(2,3))
  with assms show ?thesis by (simp add: holds_string_iff)
qed

end
