(* ===== verification/Perf_Test.thy ===== *)
theory Perf_Test
  imports Perf_Session C_Strings
begin

text \<open>
  \<^verbatim>\<open>clients/p4rt_perf_test\<close>, the test itself: the division of the entries among the
  threads, the batch of one thread, and what \<open>main\<close> does before it starts the threads.

  A thread sees the environment through its own \<open>grpc_env\<close>, since \<open>pthread_self()\<close> depends
  on the thread. \<open>perf_state\<close> is what the threads share: the environment, the two output
  streams and the array \<open>thread_data\<close>. The clock readings around the write request, the
  field \<open>time_taken\<close> and the throughput computed from it are floating-point statistics
  and left out. The flags are never parsed by \<open>main\<close>, so they have their default values.
  Undefined behaviour (a division by zero, an index outside an array, \<open>atoi\<close> of a number
  that no \<open>int\<close> holds) is the result \<open>None\<close>.

  The lemmas show that the threads' ranges partition the entries, and what a thread's
  batch contains.
\<close>

section \<open>p4rt\_perf\_test.h\<close>

definition ADD :: u32 where "ADD = 1"
definition DEL :: u32 where "DEL = 2"
definition SIMPLE_L2_DEMO :: u32 where "SIMPLE_L2_DEMO = 1"
definition SUCCESS :: int where "SUCCESS = 0"
definition INVALID_ARG :: int where "INVALID_ARG = 1"
definition INTERNAL_ERR :: int where "INTERNAL_ERR = 2"

record ThreadInfo =
  ti_tid :: u32
  ti_core_id :: u32
  ti_start :: u64
  ti_num_entries :: u64
  ti_oper :: u32
  ti_status :: int

record TestParams =
  tp_num_threads :: u32
  tp_oper :: u32
  tp_tot_num_entries :: u64
  tp_profile :: u32

definition default_TestParams :: TestParams where
  "default_TestParams = \<lparr>tp_num_threads = 1, tp_oper = 0, tp_tot_num_entries = 1000000,
     tp_profile = SIMPLE_L2_DEMO\<rparr>"

record SimpleL2DemoMacInfo =
  dst_mac :: mac_addr
  src_mac :: mac_addr

section \<open>The shared state\<close>

definition MAX_THREADS :: nat where "MAX_THREADS = 8"
definition CORE_BASE :: nat where "CORE_BASE = 20"

definition perf_FLAGS_grpc_addr :: string where "perf_FLAGS_grpc_addr = ''localhost:9559''"
definition perf_FLAGS_device_id :: u64 where "perf_FLAGS_device_id = 1"

record 'e perf_state =
  pf_env :: 'e
  pf_out :: "string list"
  pf_err :: "string list"
  pf_thread_data :: "ThreadInfo list"

definition put_out :: "string list \<Rightarrow> 'e perf_state \<Rightarrow> 'e perf_state" where
  "put_out ls s = s\<lparr>pf_out := pf_out s @ ls\<rparr>"

definition put_err :: "string list \<Rightarrow> 'e perf_state \<Rightarrow> 'e perf_state" where
  "put_err ls s = s\<lparr>pf_err := pf_err s @ ls\<rparr>"

definition set_thread_status :: "nat \<Rightarrow> int \<Rightarrow> 'e perf_state \<Rightarrow> 'e perf_state" where
  "set_thread_status tid v s =
     s\<lparr>pf_thread_data := (pf_thread_data s)[tid := (pf_thread_data s ! tid)\<lparr>ti_status := v\<rparr>]\<rparr>"

text \<open>A global array is zero before \<open>main\<close> starts.\<close>

definition zero_ThreadInfo :: ThreadInfo where
  "zero_ThreadInfo = \<lparr>ti_tid = 0, ti_core_id = 0, ti_start = 0, ti_num_entries = 0, ti_oper = 0,
     ti_status = 0\<rparr>"

text \<open>Decimal output of an unsigned number, \<open>std::cout << n\<close> and \<open>printf("%u", n)\<close>.\<close>

fun decimal :: "nat \<Rightarrow> string" where
  "decimal n = (if n < 10 then [''0123456789'' ! n]
                else decimal (n div 10) @ [''0123456789'' ! (n mod 10)])"

declare decimal.simps [simp del]

section \<open>PopulateThreadInfo\<close>

definition thread_info :: "TestParams \<Rightarrow> u64 \<Rightarrow> nat \<Rightarrow> ThreadInfo \<Rightarrow> ThreadInfo" where
  "thread_info params entries_per_thread index t =
     t\<lparr>ti_tid := of_nat index,
       ti_start := of_nat index * entries_per_thread,
       ti_num_entries := entries_per_thread,
       ti_oper := tp_oper params,
       ti_core_id := of_nat (CORE_BASE + index)\<rparr>"

text \<open>The loop from \<open>index\<close> for the \<open>n\<close> threads that are left.\<close>

fun populate_loop ::
    "TestParams \<Rightarrow> u64 \<Rightarrow> nat \<Rightarrow> nat \<Rightarrow> ThreadInfo list \<Rightarrow> ThreadInfo list option" where
  "populate_loop params entries_per_thread index 0 td = Some td"
| "populate_loop params entries_per_thread index (Suc n) td =
     (if index < length td
      then populate_loop params entries_per_thread (Suc index) n
             (td[index := thread_info params entries_per_thread index (td ! index)])
      else None)"

definition thread_data_line :: "ThreadInfo \<Rightarrow> string" where
  "thread_data_line t = ''Thread data - Core: '' @ decimal (unat (ti_core_id t)) @
     '' start_index: '' @ decimal (unat (ti_start t)) @
     '' num_entries: '' @ decimal (unat (ti_num_entries t))"

definition PopulateThreadInfo ::
    "TestParams \<Rightarrow> ThreadInfo list \<Rightarrow> (ThreadInfo list \<times> string list) option" where
  "PopulateThreadInfo params td =
     (if tp_num_threads params = 0 then None
      else do {
        let entries_per_thread = tp_tot_num_entries params div ucast (tp_num_threads params);
        let rem_rules = tp_tot_num_entries params mod ucast (tp_num_threads params);
        td \<leftarrow> populate_loop params entries_per_thread 0 (unat (tp_num_threads params)) td;
        let last = unat (tp_num_threads params) - 1;
        let td = td[last := (td ! last)\<lparr>ti_num_entries := ti_num_entries (td ! last) + rem_rules\<rparr>];
        Some (td, map thread_data_line (take (unat (tp_num_threads params)) td))
      })"

section \<open>p4rt\_perf\_simple\_l2\_demo\<close>

definition PrepareSimpleL2DemoTableEntry ::
    "TableEntry \<Rightarrow> SimpleL2DemoMacInfo \<Rightarrow> P4Info \<Rightarrow> bool \<Rightarrow> TableEntry" where
  "PrepareSimpleL2DemoTableEntry table_entry mac_info p4info insert_entry =
     (let te = set_table_id (perf_GetTableId p4info ''my_control.e_fwd'') table_entry;
          te = add_exact (perf_GetMatchFieldId p4info ''my_control.e_fwd''
                            ''hdrs.mac[vmeta.common.depth].da'')
                 (perf_CanonicalizeMac (dst_mac mac_info)) te;
          te = add_exact (perf_GetMatchFieldId p4info ''my_control.e_fwd''
                            ''hdrs.mac[vmeta.common.depth].sa'')
                 (perf_CanonicalizeMac (src_mac mac_info)) te
      in if insert_entry then
           (let te = set_action_id (perf_GetActionId p4info ''my_control.send'') (mutable_action te)
            in add_param (perf_GetParamId p4info ''my_control.send'' ''port'')
                 (perf_EncodeByteValue 1 [1]) te)
         else te)"

text \<open>The six low bytes of a number; the last one is stored without the mask for the
  source address.\<close>

definition mac_of_count :: "u64 \<Rightarrow> mac_addr" where
  "mac_of_count src_int =
     Mac (ucast (drop_bit 40 src_int AND 0xFF)) (ucast (drop_bit 32 src_int AND 0xFF))
       (ucast (drop_bit 24 src_int AND 0xFF)) (ucast (drop_bit 16 src_int AND 0xFF))
       (ucast (drop_bit 8 src_int AND 0xFF)) (ucast src_int)"

definition masked_mac_of_count :: "u64 \<Rightarrow> mac_addr" where
  "masked_mac_of_count src_int =
     Mac (ucast (drop_bit 40 src_int AND 0xFF)) (ucast (drop_bit 32 src_int AND 0xFF))
       (ucast (drop_bit 24 src_int AND 0xFF)) (ucast (drop_bit 16 src_int AND 0xFF))
       (ucast (drop_bit 8 src_int AND 0xFF)) (ucast (src_int AND 0xFF))"

definition demo_mac_info :: "u64 \<Rightarrow> SimpleL2DemoMacInfo" where
  "demo_mac_info count =
     \<lparr>dst_mac = masked_mac_of_count (count + 1), src_mac = mac_of_count count\<rparr>"

definition setup_for ::
    "u32 \<Rightarrow> P4rtSession \<Rightarrow> WriteRequest \<Rightarrow> (nat \<times> WriteRequest) option" where
  "setup_for oper session req =
     (if oper = ADD then Some (perf_SetupTableEntryToInsert session req)
      else if oper = DEL then Some (perf_SetupTableEntryToDelete session req)
      else None)"

text \<open>The loop with \<open>n\<close> entries left; \<open>Inl\<close> is the early return.\<close>

fun l2_demo_loop ::
    "nat \<Rightarrow> u32 \<Rightarrow> P4rtSession \<Rightarrow> P4Info \<Rightarrow> u64 \<Rightarrow> WriteRequest \<Rightarrow> int + u64 \<times> WriteRequest" where
  "l2_demo_loop 0 oper session p4info count req = Inr (count, req)"
| "l2_demo_loop (Suc n) oper session p4info count req =
     (case setup_for oper session req of
        None \<Rightarrow> Inl INVALID_ARG
      | Some (p, req) \<Rightarrow>
          l2_demo_loop n oper session p4info (count + 1)
            (put_write_entry p
               (PrepareSimpleL2DemoTableEntry (write_entry p req) (demo_mac_info count) p4info
                  (oper = ADD)) req))"

definition SimpleL2DemoTest ::
    "'e grpc_env \<Rightarrow> P4rtSession \<Rightarrow> P4Info \<Rightarrow> ThreadInfo \<Rightarrow> 'e perf_state \<Rightarrow> int \<times> 'e perf_state" where
  "SimpleL2DemoTest g session p4info t_data s =
     (let req = empty_WriteRequest\<lparr>wr_device_id := ucast (ps_device_id session),
                  wr_election_id := ps_election_id session\<rparr>
      in case l2_demo_loop (unat (ti_num_entries t_data)) (ti_oper t_data) session p4info
                (ti_start t_data + 1) req of
           Inl err \<Rightarrow> (err, put_err [''Invalid operation''] s)
         | Inr (count, req) \<Rightarrow>
             (let (sts, e) = perf_SendWriteRequest g session req (pf_env s)
              in (SUCCESS,
                  put_out [''count: '' @ decimal (unat (count - 1))] (s\<lparr>pf_env := e\<rparr>))))"

section \<open>RunPerfTest\<close>

definition RunPerfTest ::
    "'e grpc_env \<Rightarrow> TestParams \<Rightarrow> nat \<Rightarrow> 'e perf_state \<Rightarrow> 'e perf_state" where
  "RunPerfTest g params tid s =
     (let s = set_thread_status tid SUCCESS s;
          (credentials, ls) = perf_GenerateClientCredentials g (pf_env s);
          s = put_out ls s;
          (status_or_session, e) = perf_Create_addr g perf_FLAGS_grpc_addr credentials
             (ucast perf_FLAGS_device_id) (perf_TimeBasedElectionId g (pf_env s)) (pf_env s);
          s = s\<lparr>pf_env := e\<rparr>
      in case status_or_session of
           Inl status \<Rightarrow>
             set_thread_status tid INTERNAL_ERR
               (put_err [''Failure to create session. Error: '' @ st_message status] s)
         | Inr session \<Rightarrow>
             (let ((status, p4info), e) = perf_GetForwardingPipelineConfig g session (pf_env s);
                  s = s\<lparr>pf_env := e\<rparr>
              in if \<not> ok status then
                   set_thread_status tid INTERNAL_ERR
                     (put_err [''Failure to get forwarding pipeline. Error: '' @
                               st_message status] s)
                 else if tp_profile params = SIMPLE_L2_DEMO then
                   (let (r, s) = SimpleL2DemoTest g session p4info (pf_thread_data s ! tid) s
                    in set_thread_status tid r s)
                 else set_thread_status tid INVALID_ARG (put_err [''Unsupported profile''] s)))"

section \<open>The start of main\<close>

text \<open>What \<open>getopt\<close> returns for the command line, option by option: the option character
  (\<open>?\<close> for an option it does not know) and its argument. \<open>Inl\<close> is the return of \<open>main\<close>.\<close>

fun parse_options :: "TestParams \<Rightarrow> (char \<times> string) list \<Rightarrow> (int + TestParams) option" where
  "parse_options params [] = Some (Inr params)"
| "parse_options params ((option, optarg) # opts) =
     (if option = CHR ''t'' then do {
        v \<leftarrow> atoi optarg;
        parse_options (params\<lparr>tp_num_threads := word_of_int v\<rparr>) opts
      } else if option = CHR ''o'' then do {
        v \<leftarrow> atoi optarg;
        parse_options (params\<lparr>tp_oper := word_of_int v\<rparr>) opts
      } else if option = CHR ''n'' then do {
        v \<leftarrow> atoi optarg;
        parse_options (params\<lparr>tp_tot_num_entries := word_of_int v\<rparr>) opts
      } else if option = CHR ''p'' then do {
        v \<leftarrow> atoi optarg;
        parse_options (params\<lparr>tp_profile := word_of_int v\<rparr>) opts
      } else Some (Inl INVALID_ARG))"

definition profileToStr :: "(u32 \<times> string) list" where
  "profileToStr = [(SIMPLE_L2_DEMO, ''simple_l2_demo'')]"

definition PrintUsage :: "string \<Rightarrow> 'e perf_state \<Rightarrow> 'e perf_state" where
  "PrintUsage name s =
     put_out ([''t: num of threads (optional, default: 1, max: 8)'',
        ''o: operation (ADD=1, DEL=2) (mandatory)'',
        ''n: num of entries (optional, default: 1000000, max: max of uint64)'',
        ''p: test profile (optional, default:SIMPLE_L2_DEMO(1))'',
        ''   Supported profiles:''] @
        map (\<lambda>(k, v). ''   '' @ decimal (unat k) @ '' : '' @ v) profileToStr)
       (put_err [''Usage: '' @ name @ '' -t <value> -o <value> -n <value> -p <value>''] s)"

definition ValidateInput :: "string \<Rightarrow> TestParams \<Rightarrow> 'e perf_state \<Rightarrow> int \<times> 'e perf_state" where
  "ValidateInput name params s =
     (if tp_oper params = 0 then
        (INVALID_ARG, PrintUsage name (put_err [''Operation not set''] s))
      else if tp_oper params \<noteq> ADD \<and> tp_oper params \<noteq> DEL then
        (INVALID_ARG, PrintUsage name (put_err [''Invalid Operation''] s))
      else if tp_num_threads params > of_nat MAX_THREADS then
        (INVALID_ARG, PrintUsage name
           (put_err [''Number of threads greater than max allowed: '' @ decimal MAX_THREADS] s))
      else if map_of profileToStr (tp_profile params) = None then
        (INVALID_ARG, PrintUsage name (put_err [''Not a supported profile''] s))
      else (SUCCESS, s))"

definition banner :: "TestParams \<Rightarrow> string list" where
  "banner params =
     [''Total num of entries: '' @ decimal (unat (tp_tot_num_entries params)),
      ''Number of threads: '' @ decimal (unat (tp_num_threads params)),
      ''Operation: '' @ decimal (unat (tp_oper params)),
      ''Test Profile: '' @ decimal (unat (tp_profile params))]"

text \<open>\<open>main\<close> up to the creation of the first thread: \<open>Inl\<close> with the exit status, or the
  parameters and the state the threads start from.\<close>

definition main_setup ::
    "string \<Rightarrow> (char \<times> string) list \<Rightarrow> 'e \<Rightarrow>
     (int \<times> 'e perf_state + TestParams \<times> 'e perf_state) option" where
  "main_setup name opts e = do {
     let s = \<lparr>pf_env = e, pf_out = [], pf_err = [],
              pf_thread_data = replicate MAX_THREADS zero_ThreadInfo\<rparr>;
     r \<leftarrow> parse_options default_TestParams opts;
     case r of
       Inl status \<Rightarrow> Some (Inl (status, PrintUsage name s))
     | Inr params \<Rightarrow>
         (let (status, s) = ValidateInput name params s
          in if status \<noteq> SUCCESS then Some (Inl (status, s))
             else do {
               let s = put_out (banner params) s;
               (td, ls) \<leftarrow> PopulateThreadInfo params (pf_thread_data s);
               Some (Inr (params, put_out ls (s\<lparr>pf_thread_data := td\<rparr>)))
             })
   }"

text \<open>The status of the last thread that failed.\<close>

fun join_status :: "int \<Rightarrow> ThreadInfo list \<Rightarrow> int" where
  "join_status status [] = status"
| "join_status status (t # ts) =
     join_status (if ti_status t \<noteq> SUCCESS then ti_status t else status) ts"

section \<open>The update of one entry and the entries of one thread\<close>

definition demo_update :: "u32 \<Rightarrow> P4Info \<Rightarrow> u64 \<Rightarrow> Update" where
  "demo_update oper p c =
     \<lparr>upd_type = (if oper = ADD then INSERT else DELETE),
      upd_entry = PrepareSimpleL2DemoTableEntry empty_TableEntry (demo_mac_info c) p (oper = ADD)\<rparr>"

definition thread_counts :: "ThreadInfo \<Rightarrow> u64 list" where
  "thread_counts t = map (\<lambda>j. ti_start t + 1 + of_nat j) [0..<unat (ti_num_entries t)]"

definition valid_params :: "TestParams \<Rightarrow> bool" where
  "valid_params params \<longleftrightarrow> (tp_oper params = ADD \<or> tp_oper params = DEL) \<and>
     0 < tp_num_threads params \<and> unat (tp_num_threads params) \<le> MAX_THREADS \<and>
     tp_profile params = SIMPLE_L2_DEMO"

section \<open>Lemmas on the shared state\<close>

lemma put_frame [simp]:
  "pf_env (put_out ls s) = pf_env s" "pf_env (put_err ls s) = pf_env s"
  "pf_env (set_thread_status tid v s) = pf_env s"
  "pf_thread_data (put_out ls s) = pf_thread_data s"
  "pf_thread_data (put_err ls s) = pf_thread_data s"
  "pf_thread_data (set_thread_status tid v s) =
     (pf_thread_data s)[tid := (pf_thread_data s ! tid)\<lparr>ti_status := v\<rparr>]"
  by (simp_all add: put_out_def put_err_def set_thread_status_def)

section \<open>Lemmas on the division of the entries\<close>

lemma populate_loop_nth:
  assumes "index + n \<le> length td"
  shows "\<exists>td'. populate_loop params q index n td = Some td' \<and> length td' = length td \<and>
    (\<forall>i<length td. td' ! i =
       (if index \<le> i \<and> i < index + n then thread_info params q i (td ! i) else td ! i))"
  using assms
proof (induction n arbitrary: index td)
  case 0
  then show ?case by auto
next
  case (Suc n)
  let ?td = "td[index := thread_info params q index (td ! index)]"
  from Suc.prems have "Suc index + n \<le> length ?td" by simp
  from Suc.IH [OF this] obtain td' where td': "populate_loop params q (Suc index) n ?td = Some td'"
    "length td' = length td"
    and nth: "\<forall>i<length td. td' ! i =
      (if Suc index \<le> i \<and> i < Suc index + n then thread_info params q i (?td ! i) else ?td ! i)"
    by auto
  have "td' ! i = (if index \<le> i \<and> i < index + Suc n then thread_info params q i (td ! i) else td ! i)"
    if "i < length td" for i
    using nth that by (cases "i = index") auto
  with td' Suc.prems show ?case by simp
qed

text \<open>What the threads get, thread by thread.\<close>

definition divided :: "TestParams \<Rightarrow> ThreadInfo list \<Rightarrow> bool" where
  "divided params td \<longleftrightarrow> length td = MAX_THREADS \<and>
     (\<forall>i<unat (tp_num_threads params).
        ti_start (td ! i) = of_nat (i * (unat (tp_tot_num_entries params) div unat (tp_num_threads params))) \<and>
        unat (ti_num_entries (td ! i)) =
          unat (tp_tot_num_entries params) div unat (tp_num_threads params) +
          (if Suc i = unat (tp_num_threads params)
           then unat (tp_tot_num_entries params) mod unat (tp_num_threads params) else 0) \<and>
        ti_oper (td ! i) = tp_oper params)"

lemma unat_u32_u64: "unat (ucast (x :: u32) :: u64) = unat x"
proof -
  have "unat x < 2 ^ 64" using unsigned_less [where 'a = nat, of x] by simp
  moreover have "unat (ucast x :: u64) = take_bit 64 (unat x)" by (simp add: unsigned_ucast_eq)
  ultimately show ?thesis by (simp add: take_bit_eq_mod)
qed

lemma PopulateThreadInfo_divided:
  assumes v: "valid_params params"
  shows "\<exists>td ls. PopulateThreadInfo params (replicate MAX_THREADS zero_ThreadInfo) = Some (td, ls) \<and>
    divided params td \<and> (\<forall>i<MAX_THREADS. ti_status (td ! i) = SUCCESS)"
proof -
  let ?n = "unat (tp_num_threads params)" and ?tot = "unat (tp_tot_num_entries params)"
  let ?q = "tp_tot_num_entries params div ucast (tp_num_threads params)"
  let ?r = "tp_tot_num_entries params mod ucast (tp_num_threads params)"
  have n: "0 < ?n" "?n \<le> MAX_THREADS"
    using v by (simp_all add: valid_params_def word_less_nat_alt)
  have q: "unat ?q = ?tot div ?n" "unat ?r = ?tot mod ?n"
    by (simp_all add: unat_div_distrib unat_mod_distrib unat_u32_u64)
  have qr: "unat (?q + ?r) = ?tot div ?n + ?tot mod ?n"
  proof -
    have "?tot div ?n + ?tot mod ?n \<le> ?tot"
      using n(1) by (metis add_le_mono1 div_mult_mod_eq mult.commute mult_le_mono1 nat_mult_1 Suc_leI One_nat_def)
    also have "?tot < 2 ^ 64"
      using unsigned_less [where 'a = nat, of "tp_tot_num_entries params"] by simp
    finally show ?thesis using q by (simp add: unat_word_ariths)
  qed
  obtain td where td: "populate_loop params ?q 0 ?n (replicate MAX_THREADS zero_ThreadInfo) = Some td"
    "length td = MAX_THREADS"
    and nth: "\<forall>i<MAX_THREADS. td ! i =
      (if i < ?n then thread_info params ?q i zero_ThreadInfo else zero_ThreadInfo)"
    using populate_loop_nth [of 0 ?n "replicate MAX_THREADS zero_ThreadInfo" params ?q] n by auto
  have start: "of_nat i * ?q = of_nat (i * (?tot div ?n))" for i
    by (simp flip: q)
  let ?td = "td[?n - 1 := (td ! (?n - 1))\<lparr>ti_num_entries := ti_num_entries (td ! (?n - 1)) + ?r\<rparr>]"
  have "divided params ?td"
    unfolding divided_def
  proof (intro conjI allI impI)
    show "length ?td = MAX_THREADS" using td(2) by simp
    fix i assume i: "i < ?n"
    then have t: "td ! i = thread_info params ?q i zero_ThreadInfo" "i < length td"
      "td ! (?n - 1) = thread_info params ?q (?n - 1) zero_ThreadInfo"
      using nth n td(2) by simp_all
    show "ti_start (?td ! i) = of_nat (i * (?tot div ?n))"
      using t i start [of i] by (cases "i = ?n - 1") (simp_all add: thread_info_def nth_list_update)
    show "unat (ti_num_entries (?td ! i)) = ?tot div ?n + (if Suc i = ?n then ?tot mod ?n else 0)"
      using t i q qr by (cases "i = ?n - 1") (auto simp: thread_info_def nth_list_update)
    show "ti_oper (?td ! i) = tp_oper params"
      using t i by (cases "i = ?n - 1") (simp_all add: thread_info_def nth_list_update)
  qed
  moreover have "ti_status (?td ! i) = SUCCESS" if "i < MAX_THREADS" for i
    using nth that td(2) n
    by (cases "i = ?n - 1") (auto simp: nth_list_update thread_info_def zero_ThreadInfo_def SUCCESS_def)
  moreover have "tp_num_threads params \<noteq> 0" using n(1) by auto
  ultimately show ?thesis using td(1) by (simp add: PopulateThreadInfo_def Let_def)
qed

text \<open>The entries of the threads, one after the other, are the entries from 1 to the total.\<close>

lemma concat_upt_blocks: "concat (map (\<lambda>i. [i * q..<i * q + q]) [0..<n]) = [0..<n * (q :: nat)]"
proof (induction n)
  case 0
  then show ?case by simp
next
  case (Suc n)
  have "[0..<n * q] @ [n * q..<n * q + q] = [0..<n * q + q]"
    by (rule upt_add_eq_append [symmetric]) simp
  with Suc show ?case by (simp add: add.commute)
qed

lemma divided_counts:
  assumes "divided params td" and "i < unat (tp_num_threads params)"
  defines "n \<equiv> unat (tp_num_threads params)" and "tot \<equiv> unat (tp_tot_num_entries params)"
  shows "thread_counts (td ! i) =
    map (\<lambda>j. of_nat (Suc j)) [i * (tot div n)..<i * (tot div n) + tot div n + (if Suc i = n then tot mod n else 0)]"
proof -
  have "ti_start (td ! i) = of_nat (i * (tot div n))"
    "unat (ti_num_entries (td ! i)) = tot div n + (if Suc i = n then tot mod n else 0)"
    using assms by (simp_all add: divided_def)
  moreover have "map (\<lambda>j. of_nat (i * (tot div n)) + 1 + of_nat j) [0..<tot div n + x] =
      map (\<lambda>j. of_nat (Suc j) :: u64) [i * (tot div n)..<i * (tot div n) + tot div n + x]" for x
    by (rule nth_equalityI) (simp_all add: add.assoc add.commute add.left_commute)
  ultimately show ?thesis unfolding thread_counts_def by (simp only:)
qed

lemma divided_partition:
  assumes d: "divided params td" and v: "valid_params params"
  shows "concat (map (\<lambda>i. thread_counts (td ! i)) [0..<unat (tp_num_threads params)]) =
    map of_nat [1..<Suc (unat (tp_tot_num_entries params))]"
proof -
  let ?n = "unat (tp_num_threads params)" and ?tot = "unat (tp_tot_num_entries params)"
  let ?q = "?tot div ?n"
  obtain k where k: "?n = Suc k"
    using v by (cases ?n) (auto simp: valid_params_def word_less_nat_alt)
  have "map (\<lambda>i. thread_counts (td ! i)) [0..<k] =
      map (\<lambda>i. map (\<lambda>j. of_nat (Suc j)) [i * ?q..<i * ?q + ?q]) [0..<k]"
    using k by (intro map_cong refl) (simp add: divided_counts [OF d])
  then have "concat (map (\<lambda>i. thread_counts (td ! i)) [0..<k]) = map (\<lambda>j. of_nat (Suc j)) [0..<k * ?q]"
    by (simp only: concat_upt_blocks [symmetric] map_concat map_map o_def)
  moreover have "thread_counts (td ! k) = map (\<lambda>j. of_nat (Suc j)) [k * ?q..<?tot]"
  proof -
    have "k * ?q + ?q + ?tot mod ?n = ?tot"
      using div_mult_mod_eq [of ?tot ?n] by (simp add: k algebra_simps)
    with k show ?thesis by (simp add: divided_counts [OF d])
  qed
  moreover have "[0..<k * ?q] @ [k * ?q..<?tot] = [0..<?tot]"
  proof -
    have "k * ?q \<le> ?n * ?q" by (rule mult_le_mono1) (simp add: k)
    also have "\<dots> \<le> ?tot" using div_times_less_eq_dividend [of ?tot ?n] by (simp only: mult.commute)
    finally have "k * ?q \<le> ?tot" .
    then show ?thesis using upt_add_eq_append [of 0 "k * ?q" "?tot - k * ?q"] by simp
  qed
  moreover have "concat (map (\<lambda>i. thread_counts (td ! i)) [0..<?n]) =
      concat (map (\<lambda>i. thread_counts (td ! i)) [0..<k]) @ thread_counts (td ! k)"
    by (simp add: k)
  ultimately have "concat (map (\<lambda>i. thread_counts (td ! i)) [0..<?n]) = map (\<lambda>j. of_nat (Suc j)) [0..<?tot]"
    by (simp only: map_append [symmetric])
  then show ?thesis by (simp only: One_nat_def map_Suc_upt [symmetric] map_map o_def)
qed

section \<open>Lemmas on a batch\<close>

lemma l2_demo_loop_batch:
  assumes "oper = ADD \<or> oper = DEL"
  shows "l2_demo_loop n oper session p count req =
    Inr (count + of_nat n,
         req\<lparr>wr_updates := wr_updates req @
           map (\<lambda>j. demo_update oper p (count + of_nat j)) [0..<n]\<rparr>)"
proof (induction n arbitrary: count req)
  case 0
  then show ?case by simp
next
  case (Suc n)
  let ?t = "if oper = ADD then INSERT else DELETE"
  let ?te = "PrepareSimpleL2DemoTableEntry empty_TableEntry (demo_mac_info count) p (oper = ADD)"
  let ?req = "req\<lparr>wr_updates := wr_updates req @ [demo_update oper p count]\<rparr>"
  obtain i req' where add: "perf_add_update ?t req = (i, req')" by fastforce
  then have "setup_for oper session req = Some (i, req')"
    using assms by (auto simp: setup_for_def perf_SetupTableEntryToInsert_def
        perf_SetupTableEntryToDelete_def split: if_splits)
  moreover have "put_write_entry i ?te req' = ?req"
    using perf_add_update_entry(2) [OF add, of ?te] by (simp add: demo_update_def)
  ultimately have "l2_demo_loop (Suc n) oper session p count req =
      l2_demo_loop n oper session p (count + 1) ?req"
    using perf_add_update_entry(1) [OF add] by simp
  also have "\<dots> = Inr (count + 1 + of_nat n,
      ?req\<lparr>wr_updates := wr_updates ?req @
        map (\<lambda>j. demo_update oper p (count + 1 + of_nat j)) [0..<n]\<rparr>)"
    by (rule Suc.IH)
  also have "map (\<lambda>j. demo_update oper p (count + 1 + of_nat j)) [0..<n] =
      map (\<lambda>j. demo_update oper p (count + of_nat j)) [Suc 0..<Suc n]"
    by (simp only: map_Suc_upt [symmetric] map_map o_def of_nat_Suc add.assoc)
  finally show ?case by (simp add: upt_conv_Cons add.assoc del: upt_Suc)
qed

end
