(* ===== verification/Runs.thy ===== *)
theory Runs
  imports Main
begin

text \<open>
  Runs of a step relation that always come to an end: the interface between a state
  machine and its termination argument. A machine provides an invariant its steps keep, a
  measure its steps decrease, and a step from every state of the invariant that is not
  final; then every run is short, and can be continued to a final state.
\<close>

locale kept_invariant =
  fixes step :: "'s \<Rightarrow> 's \<Rightarrow> bool" and inv :: "'s \<Rightarrow> bool"
  assumes step_inv: "inv s \<Longrightarrow> step s s' \<Longrightarrow> inv s'"
begin

lemma run_inv: "step\<^sup>*\<^sup>* s s' \<Longrightarrow> inv s \<Longrightarrow> inv s'"
  by (induction rule: rtranclp_induct) (auto intro: step_inv)

end

locale ending_runs = kept_invariant +
  fixes final :: "'s \<Rightarrow> bool" and work :: "'s \<Rightarrow> nat"
  assumes progress: "inv s \<Longrightarrow> \<not> final s \<Longrightarrow> \<exists>s'. step s s'"
    and decrease: "inv s \<Longrightarrow> step s s' \<Longrightarrow> work s' < work s"
begin

lemma run_length: "(step ^^ k) s s' \<Longrightarrow> inv s \<Longrightarrow> k + work s' \<le> work s"
proof (induction k arbitrary: s')
  case 0
  then show ?case by simp
next
  case (Suc k)
  then obtain t where t: "(step ^^ k) s t" "step t s'" by auto
  then have "inv t" using Suc.prems by (meson relpowp_imp_rtranclp run_inv)
  with t Suc show ?case using decrease [of t s'] by fastforce
qed

lemma can_finish: "inv s \<Longrightarrow> \<exists>s'. step\<^sup>*\<^sup>* s s' \<and> final s'"
proof (induction "work s" arbitrary: s rule: less_induct)
  case less
  show ?case
  proof (cases "final s")
    case True
    then show ?thesis by blast
  next
    case False
    then obtain t where t: "step s t" using progress less.prems by blast
    with less obtain s' where "step\<^sup>*\<^sup>* t s'" "final s'"
      using decrease step_inv by blast
    with t show ?thesis by (blast intro: converse_rtranclp_into_rtranclp)
  qed
qed

end

end
