(* ===== verification/Perf_Machine.thy ===== *)
theory Perf_Machine
  imports Perf_Test Trace Runs "HOL-Library.Multiset"
begin

text \<open>
  The threads of \<^verbatim>\<open>p4rt_perf_test\<close> running concurrently. A thread's step is one call of
  the environment with the computation up to the next one, so that the requests of
  different threads interleave in any order; \<open>main\<close> creates the threads one by one, then
  joins them in order. A call of the environment returns here; \<open>Perf_Election\<close> restricts the
  steps by the one wait the code guards against, that for an arbitration in vain.

  The lemmas are the invariants of the machine: which threads run, what a thread may
  change, and what has been written.
\<close>

section \<open>Thread steps\<close>

datatype thread_pc =
    T_Created
  | T_Start
  | T_Channel nat u128
  | T_Arbitrate P4rtSession
  | T_Await P4rtSession
  | T_Config P4rtSession
  | T_Test P4rtSession P4Info
  | T_Done

definition no_session :: "nat \<Rightarrow> Status \<Rightarrow> 'e perf_state \<Rightarrow> thread_pc \<times> 'e perf_state" where
  "no_session tid status s =
     (T_Done, set_thread_status tid INTERNAL_ERR
        (put_err [''Failure to create session. Error: '' @ st_message status] s))"

fun thread_step ::
    "'e grpc_env \<Rightarrow> TestParams \<Rightarrow> nat \<Rightarrow> thread_pc \<Rightarrow> 'e perf_state \<Rightarrow> thread_pc \<times> 'e perf_state" where
  "thread_step g params tid T_Created s = (T_Created, s)"
| "thread_step g params tid T_Start s =
     (let s = set_thread_status tid SUCCESS s;
          (credentials, ls) = perf_GenerateClientCredentials g (pf_env s);
          s = put_out ls s;
          election_id = perf_TimeBasedElectionId g (pf_env s) + ucast (g_thread_self g (pf_env s));
          (stub, e) = g_new_stub g perf_FLAGS_grpc_addr credentials (pf_env s)
      in (T_Channel stub election_id, s\<lparr>pf_env := e\<rparr>))"
| "thread_step g params tid (T_Channel stub election_id) s =
     (let (session, e) = P4rtSession_new g (ucast perf_FLAGS_device_id) stub election_id (pf_env s)
      in (T_Arbitrate session, s\<lparr>pf_env := e\<rparr>))"
| "thread_step g params tid (T_Arbitrate session) s =
     (let (written, e) = g_stream_write g (ps_stream_channel session)
                           (perf_arbitration session (ucast perf_FLAGS_device_id)) (pf_env s)
      in if \<not> written then
           no_session tid
             (UnavailableError ''Unable to initiate P4RT connection for Write request, closing stream channel'')
             (s\<lparr>pf_env := g_stream_finish g (ps_stream_channel session) e\<rparr>)
         else (T_Await session, s\<lparr>pf_env := e\<rparr>))"
| "thread_step g params tid (T_Await session) s =
     (case g_stream_read g (ps_stream_channel session) (pf_env s) of
        (None, e) \<Rightarrow>
          no_session tid (InternalError ''No arbitration response received'')
            (s\<lparr>pf_env := g_stream_finish g (ps_stream_channel session) e\<rparr>)
      | (Some kOther, e) \<Rightarrow>
          no_session tid (InternalError ''No arbitration update received'') (s\<lparr>pf_env := e\<rparr>)
      | (Some (kArbitration device), e) \<Rightarrow>
          if device \<noteq> ucast (ps_device_id session)
          then no_session tid (InternalError ''Received device id doesn't match'') (s\<lparr>pf_env := e\<rparr>)
          else (T_Config session, s\<lparr>pf_env := e\<rparr>))"
| "thread_step g params tid (T_Config session) s =
     (let ((status, p4info), e) = perf_GetForwardingPipelineConfig g session (pf_env s)
      in if \<not> ok status then
           (T_Done, set_thread_status tid INTERNAL_ERR
              (put_err [''Failure to get forwarding pipeline. Error: '' @ st_message status]
                 (s\<lparr>pf_env := e\<rparr>)))
         else (T_Test session p4info, s\<lparr>pf_env := e\<rparr>))"
| "thread_step g params tid (T_Test session p4info) s =
     (if tp_profile params = SIMPLE_L2_DEMO then
        (let (r, s) = SimpleL2DemoTest g session p4info (pf_thread_data s ! tid) s
         in (T_Done, set_thread_status tid r s))
      else (T_Done, set_thread_status tid INVALID_ARG (put_err [''Unsupported profile''] s)))"
| "thread_step g params tid T_Done s = (T_Done, s)"

section \<open>The machine\<close>

datatype main_pc = M_Spawn nat | M_Join nat | M_Exit int

record 'e perf_machine =
  pm_state :: "'e perf_state"
  pm_threads :: "thread_pc list"
  pm_main :: main_pc

definition perf_start :: "'e perf_state \<Rightarrow> 'e perf_machine" where
  "perf_start s = \<lparr>pm_state = s, pm_threads = replicate MAX_THREADS T_Created, pm_main = M_Spawn 0\<rparr>"

definition thread_error_lines :: "ThreadInfo list \<Rightarrow> string list" where
  "thread_error_lines ts =
     map (\<lambda>(i, t). ''Thread: '' @ decimal i @ '' exited with error'')
       (filter (\<lambda>(i, t). ti_status t \<noteq> SUCCESS) (enumerate 0 ts))"

text \<open>The parameter \<open>g\<close> gives each thread its view of the environment. Setting a thread's
  affinity may fail, with a message and no other effect.\<close>

inductive perf_step ::
    "(nat \<Rightarrow> 'e grpc_env) \<Rightarrow> TestParams \<Rightarrow> 'e perf_machine \<Rightarrow> 'e perf_machine \<Rightarrow> bool"
  for g params where
  spawn: "pm_main m = M_Spawn k \<Longrightarrow> k < unat (tp_num_threads params) \<Longrightarrow>
    ls = [] \<or> ls = [''setting affinity failed. Moving on''] \<Longrightarrow>
    perf_step g params m
      (m\<lparr>pm_threads := (pm_threads m)[k := T_Start], pm_main := M_Spawn (Suc k),
         pm_state := put_out ls (pm_state m)\<rparr>)"
| spawned: "pm_main m = M_Spawn k \<Longrightarrow> \<not> k < unat (tp_num_threads params) \<Longrightarrow>
    perf_step g params m (m\<lparr>pm_main := M_Join 0\<rparr>)"
| thread: "tid < length (pm_threads m) \<Longrightarrow> pm_threads m ! tid = pc \<Longrightarrow>
    pc \<noteq> T_Created \<Longrightarrow> pc \<noteq> T_Done \<Longrightarrow>
    thread_step (g tid) params tid pc (pm_state m) = (pc', s') \<Longrightarrow>
    perf_step g params m (m\<lparr>pm_threads := (pm_threads m)[tid := pc'], pm_state := s'\<rparr>)"
| join: "pm_main m = M_Join k \<Longrightarrow> k < unat (tp_num_threads params) \<Longrightarrow>
    pm_threads m ! k = T_Done \<Longrightarrow> perf_step g params m (m\<lparr>pm_main := M_Join (Suc k)\<rparr>)"
| exit: "pm_main m = M_Join k \<Longrightarrow> \<not> k < unat (tp_num_threads params) \<Longrightarrow>
    ts = take (unat (tp_num_threads params)) (pf_thread_data (pm_state m)) \<Longrightarrow>
    perf_step g params m
      (m\<lparr>pm_main := M_Exit (join_status SUCCESS ts),
         pm_state := put_out [''Num of entries added: '' @ decimal (unat (tp_tot_num_entries params))]
           (put_err (thread_error_lines ts) (pm_state m))\<rparr>)"

inductive_cases perf_stepE: "perf_step g params m m'"

fun exited :: "'e perf_machine \<Rightarrow> bool" where
  "exited m = (case pm_main m of M_Exit _ \<Rightarrow> True | _ \<Rightarrow> False)"

section \<open>A thread alone\<close>

text \<open>The steps of a thread with no other thread in between are the function it runs.\<close>

lemma thread_steps_RunPerfTest:
  "((\<lambda>(pc, s). thread_step g params tid pc s) ^^ 6) (T_Start, s) =
     (T_Done, RunPerfTest g params tid s)"
  by (simp add: numeral_eq_Suc RunPerfTest_def perf_Create_addr_def perf_Create_def Let_def
      no_session_def perf_GetForwardingPipelineConfig_def
      split: prod.splits option.splits StreamMessageResponse.splits if_splits)

section \<open>Which threads run\<close>

fun spawned_threads :: "nat \<Rightarrow> main_pc \<Rightarrow> nat" where
  "spawned_threads n (M_Spawn k) = k"
| "spawned_threads n _ = n"

fun joined_threads :: "nat \<Rightarrow> main_pc \<Rightarrow> nat" where
  "joined_threads n (M_Spawn k) = 0"
| "joined_threads n (M_Join k) = k"
| "joined_threads n (M_Exit st) = n"

definition threads_inv :: "TestParams \<Rightarrow> 'e perf_machine \<Rightarrow> bool" where
  "threads_inv params m \<longleftrightarrow>
     valid_params params \<and> divided params (pf_thread_data (pm_state m)) \<and>
     length (pm_threads m) = MAX_THREADS \<and>
     spawned_threads (unat (tp_num_threads params)) (pm_main m) \<le> unat (tp_num_threads params) \<and>
     joined_threads (unat (tp_num_threads params)) (pm_main m) \<le> unat (tp_num_threads params) \<and>
     (\<forall>i<MAX_THREADS. pm_threads m ! i = T_Created \<longleftrightarrow>
        spawned_threads (unat (tp_num_threads params)) (pm_main m) \<le> i) \<and>
     (\<forall>i<joined_threads (unat (tp_num_threads params)) (pm_main m). pm_threads m ! i = T_Done)"

text \<open>A thread writes the status of its own record, and nothing else of the array.\<close>

lemma thread_step_data:
  assumes "thread_step g params tid pc s = (pc', s')"
  shows "\<exists>v. pf_thread_data s' =
    (pf_thread_data s)[tid := (pf_thread_data s ! tid)\<lparr>ti_status := v\<rparr>]"
proof -
  have same: "\<exists>v. xs = xs[i := (xs ! i)\<lparr>ti_status := v\<rparr>]" for xs :: "ThreadInfo list" and i
    by (rule exI [of _ "ti_status (xs ! i)"]) simp
  show ?thesis
    using assms same [of "pf_thread_data s" tid]
    by (cases pc) (auto simp: Let_def no_session_def SimpleL2DemoTest_def
        split: prod.splits option.splits StreamMessageResponse.splits if_splits sum.splits)
qed

lemma status_update_nth [simp]:
  "ti_start (td[tid := (td ! tid)\<lparr>ti_status := v\<rparr>] ! i) = ti_start (td ! i)"
  "ti_num_entries (td[tid := (td ! tid)\<lparr>ti_status := v\<rparr>] ! i) = ti_num_entries (td ! i)"
  "ti_oper (td[tid := (td ! tid)\<lparr>ti_status := v\<rparr>] ! i) = ti_oper (td ! i)"
proof -
  have "td[tid := (td ! tid)\<lparr>ti_status := v\<rparr>] ! i = td ! i \<or>
      td[tid := (td ! tid)\<lparr>ti_status := v\<rparr>] ! i = (td ! i)\<lparr>ti_status := v\<rparr>"
    by (cases "i = tid"; cases "tid < length td") (simp_all add: list_update_beyond)
  then show "ti_start (td[tid := (td ! tid)\<lparr>ti_status := v\<rparr>] ! i) = ti_start (td ! i)"
    "ti_num_entries (td[tid := (td ! tid)\<lparr>ti_status := v\<rparr>] ! i) = ti_num_entries (td ! i)"
    "ti_oper (td[tid := (td ! tid)\<lparr>ti_status := v\<rparr>] ! i) = ti_oper (td ! i)"
    by (auto simp del: nth_list_update)
qed

lemma divided_status [simp]:
  "divided params (td[tid := (td ! tid)\<lparr>ti_status := v\<rparr>]) = divided params td"
  by (simp add: divided_def)

lemma thread_step_divided:
  "thread_step g params tid pc s = (pc', s') \<Longrightarrow>
   divided p (pf_thread_data s') = divided p (pf_thread_data s)"
  by (drule thread_step_data) auto

lemma thread_step_running:
  assumes "thread_step g params tid pc s = (pc', s')" and "pc \<noteq> T_Created"
  shows "pc' \<noteq> T_Created"
  using assms by (cases pc) (auto simp: Let_def no_session_def
      split: prod.splits option.splits StreamMessageResponse.splits if_splits)

lemma valid_num_threads:
  "valid_params params \<Longrightarrow> 0 < unat (tp_num_threads params) \<and> unat (tp_num_threads params) \<le> MAX_THREADS"
  by (simp add: valid_params_def word_less_nat_alt)

lemma threads_inv_start:
  assumes "valid_params params" and "divided params (pf_thread_data s)"
  shows "threads_inv params (perf_start s)"
  using assms by (simp add: threads_inv_def perf_start_def)

lemma threads_inv_step:
  assumes inv: "threads_inv params m" and step: "perf_step g params m m'"
  shows "threads_inv params m'"
  using step
proof cases
  case (spawn k ls)
  then show ?thesis
    using inv valid_num_threads [of params]
    by (auto simp: threads_inv_def nth_list_update less_Suc_eq_le)
next
  case (spawned k)
  then show ?thesis using inv by (auto simp: threads_inv_def)
next
  case (thread tid pc pc' s')
  then show ?thesis
    using inv thread_step_divided [OF thread(6), of params] thread_step_running [OF thread(6)]
    by (auto simp: threads_inv_def nth_list_update)
next
  case (join k)
  then show ?thesis using inv by (auto simp: threads_inv_def less_Suc_eq)
next
  case (exit k ts)
  then show ?thesis using inv by (auto simp: threads_inv_def)
qed

section \<open>Progress\<close>

fun pc_work :: "thread_pc \<Rightarrow> nat" where
  "pc_work T_Created = 7"
| "pc_work T_Start = 6"
| "pc_work (T_Channel _ _) = 5"
| "pc_work (T_Arbitrate _) = 4"
| "pc_work (T_Await _) = 3"
| "pc_work (T_Config _) = 2"
| "pc_work (T_Test _ _) = 1"
| "pc_work T_Done = 0"

fun main_work :: "nat \<Rightarrow> main_pc \<Rightarrow> nat" where
  "main_work n (M_Spawn k) = 2 + n + (n - k)"
| "main_work n (M_Join k) = 1 + (n - k)"
| "main_work n (M_Exit _) = 0"

definition perf_work :: "TestParams \<Rightarrow> 'e perf_machine \<Rightarrow> nat" where
  "perf_work params m = main_work (unat (tp_num_threads params)) (pm_main m) +
     (\<Sum>i<unat (tp_num_threads params). pc_work (pm_threads m ! i))"

lemma thread_step_work:
  assumes "thread_step g params tid pc s = (pc', s')" and "pc \<noteq> T_Created" and "pc \<noteq> T_Done"
  shows "pc_work pc' < pc_work pc"
  using assms by (cases pc) (auto simp: Let_def no_session_def
      split: prod.splits option.splits StreamMessageResponse.splits if_splits)

lemma sum_update_less:
  assumes "tid < n" and "n \<le> length xs" and "f x < f (xs ! tid)"
  shows "(\<Sum>i<n. f (xs[tid := x] ! i)) < (\<Sum>i<n. f (xs ! i) :: nat)"
  using assms by (intro sum_strict_mono_ex1) (auto simp: nth_list_update)

lemma perf_work_step:
  assumes inv: "threads_inv params m" and step: "perf_step g params m m'"
  shows "perf_work params m' < perf_work params m"
  using step
proof cases
  case (spawn k ls)
  then have "pm_threads m ! k = T_Created" "k < length (pm_threads m)"
    "unat (tp_num_threads params) \<le> length (pm_threads m)"
    using inv valid_num_threads [of params] by (auto simp: threads_inv_def)
  with spawn show ?thesis
    using sum_update_less [of k "unat (tp_num_threads params)" "pm_threads m" pc_work T_Start]
    by (simp add: perf_work_def)
next
  case (spawned k)
  then show ?thesis by (simp add: perf_work_def)
next
  case (thread tid pc pc' s')
  then have "tid < unat (tp_num_threads params)" "unat (tp_num_threads params) \<le> length (pm_threads m)"
    using inv valid_num_threads [of params] by (auto simp: threads_inv_def not_le)
  with thread show ?thesis
    using sum_update_less [of tid "unat (tp_num_threads params)" "pm_threads m" pc_work pc']
      thread_step_work [OF thread(6)]
    by (simp add: perf_work_def)
next
  case (join k)
  then show ?thesis by (simp add: perf_work_def)
next
  case (exit k ts)
  then show ?thesis by (simp add: perf_work_def)
qed

lemma perf_progress:
  assumes inv: "threads_inv params m" and "\<not> exited m"
  shows "\<exists>m'. perf_step g params m m'"
proof (cases "pm_main m")
  case (M_Spawn k)
  then show ?thesis by (blast intro: perf_step.spawn perf_step.spawned)
next
  case (M_Join k)
  show ?thesis
  proof (cases "k < unat (tp_num_threads params) \<and> pm_threads m ! k \<noteq> T_Done")
    case True
    moreover have "pm_threads m ! k \<noteq> T_Created" "k < length (pm_threads m)"
      using True M_Join inv valid_num_threads [of params] by (auto simp: threads_inv_def)
    ultimately show ?thesis by (metis perf_step.thread prod.exhaust)
  next
    case False
    with M_Join show ?thesis by (blast intro: perf_step.join perf_step.exit)
  qed
next
  case (M_Exit st)
  with assms show ?thesis by simp
qed

interpretation perf_runs: ending_runs "perf_step g params" "threads_inv params" exited "perf_work params"
  for g params
  by unfold_locales (auto intro: threads_inv_step perf_progress perf_work_step)

end
