(* ===== verification/Perf_Writes.thy ===== *)
theory Perf_Writes
  imports Perf_Machine
begin

text \<open>
  What the threads of \<^verbatim>\<open>p4rt_perf_test\<close> have written, in every interleaving: the write
  requests in the trace of the environment are those of the threads that are done with
  status \<open>SUCCESS\<close>, one request each, with the entries of the thread's range.
\<close>

section \<open>The invariant\<close>

abbreviation written_updates :: "('e \<times> rpc list) perf_machine \<Rightarrow> Update list" where
  "written_updates m \<equiv> concat (map wr_updates (write_requests (snd (pf_env (pm_state m)))))"

definition wrote :: "'e perf_machine \<Rightarrow> nat set" where
  "wrote m = {i. i < MAX_THREADS \<and> pm_threads m ! i = T_Done \<and>
     ti_status (pf_thread_data (pm_state m) ! i) = SUCCESS}"

definition batch :: "u32 \<Rightarrow> P4Info \<Rightarrow> ThreadInfo \<Rightarrow> Update list" where
  "batch oper p t = map (demo_update oper p) (thread_counts t)"

text \<open>\<open>ps\<close> gives each thread the pipeline description it was sent.\<close>

definition writes_inv :: "(nat \<Rightarrow> P4Info) \<Rightarrow> TestParams \<Rightarrow> ('e \<times> rpc list) perf_machine \<Rightarrow> bool" where
  "writes_inv ps params m \<longleftrightarrow>
     (\<forall>i<MAX_THREADS. \<forall>session q. pm_threads m ! i = T_Test session q \<longrightarrow> q = ps i) \<and>
     (\<forall>i<MAX_THREADS. pm_threads m ! i = T_Done \<longrightarrow>
        ti_status (pf_thread_data (pm_state m) ! i) \<in> {SUCCESS, INTERNAL_ERR}) \<and>
     mset (written_updates m) =
       (\<Sum>i\<in>wrote m. mset (batch (tp_oper params) (ps i) (pf_thread_data (pm_state m) ! i))) \<and>
     length (write_requests (snd (pf_env (pm_state m)))) = card (wrote m)"

text \<open>The descriptions in the answers to the pipeline query, of calls that failed too.\<close>

definition answered :: "(nat \<Rightarrow> 'e grpc_env) \<Rightarrow> P4Info \<Rightarrow> bool" where
  "answered g p \<longleftrightarrow> (\<exists>tid stub rq e. snd (fst (g_get_config (g tid) stub rq e)) = p)"

section \<open>What a step writes\<close>

text \<open>Before the test, a step writes nothing, and a thread that stops has failed.\<close>

lemma thread_step_silent:
  assumes "thread_step (traced g) params tid pc s = (pc', s')" and "\<forall>session q. pc \<noteq> T_Test session q"
    and "pc \<noteq> T_Done" and "tid < length (pf_thread_data s)"
  shows "snd (pf_env s') = snd (pf_env s) \<and>
    (pc' = T_Done \<longrightarrow> ti_status (pf_thread_data s' ! tid) = INTERNAL_ERR)"
  using assms by (cases pc) (auto simp: Let_def no_session_def traced_def lift_env_def P4rtSession_new_def
      perf_GetForwardingPipelineConfig_def
      split: prod.splits option.splits StreamMessageResponse.splits if_splits)

lemma thread_step_config:
  assumes "thread_step (traced (g tid)) params tid pc s = (T_Test session q, s')"
  shows "answered g q"
proof (cases pc)
  case (T_Config ses)
  then show ?thesis
    using assms by (auto simp: answered_def perf_GetForwardingPipelineConfig_def traced_def lift_env_def Let_def
        case_prod_beta split: if_splits)
qed (use assms in \<open>auto simp: Let_def no_session_def
      split: prod.splits option.splits StreamMessageResponse.splits if_splits\<close>)

text \<open>The test writes the thread's batch in one request, whatever the answer is.\<close>

lemma thread_step_test:
  assumes "thread_step (traced g) params tid (T_Test session p) s = (pc', s')"
    and v: "valid_params params" and "ti_oper (pf_thread_data s ! tid) = tp_oper params"
    and "tid < length (pf_thread_data s)"
  shows "pc' = T_Done \<and> ti_status (pf_thread_data s' ! tid) = SUCCESS \<and>
    (\<exists>rq st. snd (pf_env s') = snd (pf_env s) @ [WriteRpc rq st] \<and>
       wr_updates rq = batch (tp_oper params) p (pf_thread_data s ! tid))"
proof -
  have oper: "tp_oper params = ADD \<or> tp_oper params = DEL" and "tp_profile params = SIMPLE_L2_DEMO"
    using v by (auto simp: valid_params_def)
  with assms show ?thesis
    by (auto simp: SimpleL2DemoTest_def l2_demo_loop_batch perf_SendWriteRequest_def traced_def Let_def
        batch_def thread_counts_def o_def empty_WriteRequest_def split: prod.splits)
qed

section \<open>The invariant is kept\<close>

lemma thread_step_batch:
  "thread_step g params tid pc s = (pc', s') \<Longrightarrow>
   batch oper p (pf_thread_data s' ! i) = batch oper p (pf_thread_data s ! i)"
  by (drule thread_step_data) (auto simp: batch_def thread_counts_def)

lemma thread_step_other_status:
  "thread_step g params tid pc s = (pc', s') \<Longrightarrow> i \<noteq> tid \<Longrightarrow>
   ti_status (pf_thread_data s' ! i) = ti_status (pf_thread_data s ! i)"
  by (drule thread_step_data) auto

lemma writes_inv_start:
  "snd (pf_env s) = [] \<Longrightarrow> writes_inv ps params (perf_start s)"
proof -
  assume "snd (pf_env s) = []"
  moreover have "wrote (perf_start s) = {}" by (auto simp: wrote_def perf_start_def)
  ultimately show ?thesis by (simp add: writes_inv_def) (simp add: perf_start_def)
qed

text \<open>Steps that leave every thread that ran where it is.\<close>

lemma writes_inv_frame:
  assumes "writes_inv ps params m" and "length (pm_threads m) = MAX_THREADS"
    and "\<And>i. i < MAX_THREADS \<Longrightarrow> pm_threads m' ! i = pm_threads m ! i \<or>
      pm_threads m ! i = T_Created \<and> pm_threads m' ! i = T_Start"
    and "pf_thread_data (pm_state m') = pf_thread_data (pm_state m)"
    and "pf_env (pm_state m') = pf_env (pm_state m)"
  shows "writes_inv ps params m'"
proof -
  have same: "pm_threads m' ! i = pc \<longleftrightarrow> pm_threads m ! i = pc"
    if "i < MAX_THREADS" "pc \<noteq> T_Created" "pc \<noteq> T_Start" for i pc
    using assms(3) [OF that(1)] that by auto
  then have "wrote m' = wrote m" by (auto simp: wrote_def assms(4))
  with assms same show ?thesis by (simp add: writes_inv_def)
qed

lemma writes_inv_thread:
  assumes inv: "threads_inv params m" and w: "writes_inv ps params m"
    and tid: "tid < length (pm_threads m)" and run: "pm_threads m ! tid \<noteq> T_Created"
    "pm_threads m ! tid \<noteq> T_Done"
    and step: "thread_step (traced g) params tid (pm_threads m ! tid) (pm_state m) = (pc', s')"
    and ps': "ps' = (case pc' of T_Test session q \<Rightarrow> ps(tid := q) | _ \<Rightarrow> ps)"
  shows "writes_inv ps' params (m\<lparr>pm_threads := (pm_threads m)[tid := pc'], pm_state := s'\<rparr>)"
    (is "writes_inv ps' params ?m")
proof -
  let ?td = "pf_thread_data (pm_state m)"
  have len: "length (pm_threads m) = MAX_THREADS" "length ?td = MAX_THREADS"
    using inv by (simp_all add: threads_inv_def divided_def)
  have tid': "tid < unat (tp_num_threads params)" "tid < length ?td"
    using inv tid run len by (auto simp: threads_inv_def not_le)
  have ps: "i \<noteq> tid \<Longrightarrow> ps' i = ps i" for i by (simp add: ps' split: thread_pc.split)
  have q: "pm_threads ?m ! i = T_Test session q \<Longrightarrow> q = ps' i" if "i < MAX_THREADS" for i session q
    using w that len ps by (cases "i = tid") (auto simp: ps' writes_inv_def)
  note other = thread_step_other_status [OF step] and batch = thread_step_batch [OF step]
  have conclude: "writes_inv ps' params ?m"
    if stop: "pc' = T_Done \<longrightarrow> ti_status (pf_thread_data s' ! tid) \<in> {SUCCESS, INTERNAL_ERR}"
      and "mset (written_updates ?m) =
        (\<Sum>i\<in>wrote ?m. mset (batch (tp_oper params) (ps' i) (?td ! i)))"
      and "length (write_requests (snd (pf_env s'))) = card (wrote ?m)"
    unfolding writes_inv_def
  proof (intro conjI allI impI)
    fix i assume "i < MAX_THREADS" "pm_threads ?m ! i = T_Done"
    then show "ti_status (pf_thread_data (pm_state ?m) ! i) \<in> {SUCCESS, INTERNAL_ERR}"
      using stop w other [of i] len(1) by (cases "i = tid") (auto simp: writes_inv_def)
  qed (use that q in \<open>simp_all add: batch\<close>)
  have notin: "tid \<notin> wrote m" using run by (simp add: wrote_def)
  have fin: "finite (wrote m)" by (simp add: wrote_def)
  have sum: "(\<Sum>i\<in>wrote m. mset (batch (tp_oper params) (ps' i) (?td ! i))) =
      (\<Sum>i\<in>wrote m. mset (batch (tp_oper params) (ps i) (?td ! i)))"
    using notin ps by (intro sum.cong) (auto, metis)
  show ?thesis
  proof (cases "\<exists>session q. pm_threads m ! tid = T_Test session q")
    case True
    then obtain session where pc: "pm_threads m ! tid = T_Test session (ps tid)"
      using w len tid by (auto simp: writes_inv_def)
    have "ti_oper (?td ! tid) = tp_oper params"
      using inv tid'(1) by (simp add: threads_inv_def divided_def)
    from thread_step_test [OF step [unfolded pc] _ this tid'(2)] inv
    obtain rq st where r: "pc' = T_Done" "ti_status (pf_thread_data s' ! tid) = SUCCESS"
      "snd (pf_env s') = snd (pf_env (pm_state m)) @ [WriteRpc rq st]"
      "wr_updates rq = batch (tp_oper params) (ps tid) (?td ! tid)"
      by (auto simp: threads_inv_def)
    have "wrote ?m = insert tid (wrote m)"
      using r(1,2) tid len other by (auto simp: wrote_def nth_list_update split: if_splits)
    moreover have "ps' = ps" using r(1) by (simp add: ps')
    ultimately show ?thesis
      using w r notin fin by (intro conclude) (simp_all add: writes_inv_def)
  next
    case False
    with thread_step_silent [OF step _ run(2) tid'(2)]
    have r: "snd (pf_env s') = snd (pf_env (pm_state m))"
      "pc' = T_Done \<Longrightarrow> ti_status (pf_thread_data s' ! tid) = INTERNAL_ERR"
      by auto
    have "wrote ?m = wrote m"
      using r(2) notin tid len other
      by (auto simp: wrote_def nth_list_update SUCCESS_def INTERNAL_ERR_def split: if_splits)
    then show ?thesis
      using w r sum by (intro conclude) (simp_all add: writes_inv_def)
  qed
qed

definition perf_inv :: "(nat \<Rightarrow> 'e grpc_env) \<Rightarrow> TestParams \<Rightarrow> ('e \<times> rpc list) perf_machine \<Rightarrow> bool" where
  "perf_inv g params m \<longleftrightarrow> threads_inv params m \<and>
     (\<exists>ps. (\<forall>i. answered g (ps i)) \<and> writes_inv ps params m) \<and>
     (\<forall>st. pm_main m = M_Exit st \<longrightarrow>
        st = join_status SUCCESS (take (unat (tp_num_threads params)) (pf_thread_data (pm_state m))))"

lemma perf_inv_step:
  assumes inv: "perf_inv g params m" and step: "perf_step (\<lambda>tid. traced (g tid)) params m m'"
  shows "perf_inv g params m'"
proof -
  have t: "threads_inv params m'" using inv step by (auto simp: perf_inv_def intro: threads_inv_step)
  have len: "length (pm_threads m) = MAX_THREADS" using inv by (simp add: perf_inv_def threads_inv_def)
  obtain ps where ps: "\<And>i. answered g (ps i)" and w: "writes_inv ps params m"
    using inv by (auto simp: perf_inv_def)
  have frame: "perf_inv g params m'"
    if "writes_inv ps params m'" "\<And>st. pm_main m' = M_Exit st \<Longrightarrow>
      st = join_status SUCCESS (take (unat (tp_num_threads params)) (pf_thread_data (pm_state m')))"
    using that t ps by (auto simp: perf_inv_def)
  show ?thesis
    using step
  proof cases
    case (spawn k ls)
    have k: "k < MAX_THREADS"
      using inv spawn(3) valid_num_threads [of params] by (simp add: perf_inv_def threads_inv_def)
    then have created: "pm_threads m ! k = T_Created"
      using spawn(2) inv by (simp add: perf_inv_def threads_inv_def)
    have "writes_inv ps params m'"
      by (rule writes_inv_frame [OF w len]) (auto simp: spawn(1) len k created nth_list_update)
    with spawn show ?thesis by (intro frame) simp_all
  next
    case (thread tid pc pc' s')
    have exit: "pm_main m \<noteq> M_Exit st" for st
    proof
      assume main: "pm_main m = M_Exit st"
      have "pm_threads m ! tid = T_Created \<longleftrightarrow> unat (tp_num_threads params) \<le> tid"
        using inv thread(2) len main by (simp add: perf_inv_def threads_inv_def)
      with thread have "pm_threads m ! tid = T_Done"
        using inv main by (simp add: perf_inv_def threads_inv_def)
      with thread show False by simp
    qed
    let ?ps = "case pc' of T_Test session q \<Rightarrow> ps(tid := q) | _ \<Rightarrow> ps"
    have "threads_inv params m" using inv by (simp add: perf_inv_def)
    from writes_inv_thread [OF this w thread(2) _ _ _ refl] thread
    have "writes_inv ?ps params m'" by simp
    moreover have "answered g (?ps i)" for i
      using ps thread_step_config [of g tid params pc "pm_state m" _ _ s'] thread(6)
      by (auto split: thread_pc.split)
    ultimately show ?thesis using t thread(1) exit by (auto simp: perf_inv_def)
  next
    case (exit k ts)
    have "writes_inv ps params m'"
      by (rule writes_inv_frame [OF w len]) (simp_all add: exit)
    with exit show ?thesis by (intro frame) simp_all
  next
    case (spawned k)
    have "writes_inv ps params m'"
      by (rule writes_inv_frame [OF w len]) (simp_all add: spawned)
    with spawned show ?thesis by (intro frame) simp_all
  next
    case (join k)
    have "writes_inv ps params m'"
      by (rule writes_inv_frame [OF w len]) (simp_all add: join)
    with join show ?thesis by (intro frame) simp_all
  qed
qed

end
