(* ===== verification/Perf_Election.thy ===== *)
theory Perf_Election
  imports Perf_Machine
begin

text \<open>
  The election ids of the threads of \<^verbatim>\<open>p4rt_perf_test\<close>. According to the comment in \<open>Create\<close> a
  thread that asks for the mastership with the election id of another session gets stuck,
  which is why the id of the thread is added to the time. The machine is restricted here
  accordingly: a thread whose election id is in use does not get an answer. The invariant is
  that there is no such thread, so that the machine still comes to an end.
\<close>

section \<open>Threads that get stuck\<close>

fun session_of :: "thread_pc \<Rightarrow> P4rtSession option" where
  "session_of (T_Arbitrate session) = Some session"
| "session_of (T_Await session) = Some session"
| "session_of (T_Config session) = Some session"
| "session_of (T_Test session p4info) = Some session"
| "session_of _ = None"

text \<open>A thread waits for the answer to its arbitration request, and the session of another thread
  has its election id.\<close>

definition stuck :: "'e perf_machine \<Rightarrow> nat \<Rightarrow> bool" where
  "stuck m tid \<longleftrightarrow> (\<exists>session. pm_threads m ! tid = T_Await session \<and>
     (\<exists>j < length (pm_threads m). j \<noteq> tid \<and>
        (\<exists>other. session_of (pm_threads m ! j) = Some other \<and>
           ps_election_id other = ps_election_id session)))"

definition contended_step ::
    "(nat \<Rightarrow> 'e grpc_env) \<Rightarrow> TestParams \<Rightarrow> 'e perf_machine \<Rightarrow> 'e perf_machine \<Rightarrow> bool" where
  "contended_step g params m m' \<longleftrightarrow> perf_step g params m m' \<and>
     (\<forall>tid < length (pm_threads m). stuck m tid \<longrightarrow> pm_threads m' ! tid = pm_threads m ! tid)"

section \<open>Election ids\<close>

text \<open>Threads that run at the same time have different thread ids.\<close>

definition own_thread_ids :: "(nat \<Rightarrow> 'e grpc_env) \<Rightarrow> bool" where
  "own_thread_ids g \<longleftrightarrow> (\<forall>i<MAX_THREADS. \<forall>j<MAX_THREADS. \<forall>e e'. i \<noteq> j \<longrightarrow>
     g_thread_self (g i) e \<noteq> g_thread_self (g j) e')"

fun own_election :: "'e grpc_env \<Rightarrow> thread_pc \<Rightarrow> bool" where
  "own_election g (T_Channel stub election_id) \<longleftrightarrow> (\<exists>e. Uint128Low64 election_id = g_thread_self g e)"
| "own_election g pc \<longleftrightarrow> (\<forall>session. session_of pc = Some session \<longrightarrow>
     (\<exists>e. u128_low (ps_election_id session) = g_thread_self g e))"

lemma own_election_session:
  "own_election g pc \<Longrightarrow> session_of pc = Some session \<Longrightarrow>
   \<exists>e. u128_low (ps_election_id session) = g_thread_self g e"
  by (cases pc) auto

lemma own_election_step:
  assumes "thread_step g params tid pc s = (pc', s')" and "own_election g pc"
  shows "own_election g pc'"
  using assms
  by (cases pc) (auto simp: Let_def no_session_def P4rtSession_new_def perf_TimeBasedElectionId_def
      MakeUint128_add Uint128_halves
      split: prod.splits option.splits StreamMessageResponse.splits if_splits)

definition election_inv :: "(nat \<Rightarrow> 'e grpc_env) \<Rightarrow> TestParams \<Rightarrow> 'e perf_machine \<Rightarrow> bool" where
  "election_inv g params m \<longleftrightarrow> threads_inv params m \<and>
     (\<forall>i<MAX_THREADS. own_election (g i) (pm_threads m ! i))"

lemma election_inv_step:
  assumes inv: "election_inv g params m" and step: "perf_step g params m m'"
  shows "election_inv g params m'"
proof -
  have t: "threads_inv params m" and own: "\<And>i. i < MAX_THREADS \<Longrightarrow> own_election (g i) (pm_threads m ! i)"
    using inv by (simp_all add: election_inv_def)
  have len: "length (pm_threads m) = MAX_THREADS" using t by (simp add: threads_inv_def)
  have "own_election (g i) (pm_threads m' ! i)" if "i < MAX_THREADS" for i
    using step
  proof cases
    case (thread tid pc pc' s')
    then show ?thesis
      using own [OF that] own_election_step [OF thread(6)] len that by (cases "i = tid") auto
  next
    case (spawn k ls)
    then show ?thesis using own [OF that] len that by (cases "i = k") auto
  qed (use own [OF that] in simp_all)
  then show ?thesis using threads_inv_step [OF t step] by (simp add: election_inv_def)
qed

lemma never_stuck:
  assumes "election_inv g params m" and "own_thread_ids g" and "tid < length (pm_threads m)"
  shows "\<not> stuck m tid"
proof
  assume "stuck m tid"
  then obtain session j other where s: "pm_threads m ! tid = T_Await session" "j < length (pm_threads m)"
    "j \<noteq> tid" "session_of (pm_threads m ! j) = Some other" "ps_election_id other = ps_election_id session"
    by (auto simp: stuck_def)
  have len: "length (pm_threads m) = MAX_THREADS" using assms(1) by (simp add: election_inv_def threads_inv_def)
  then have own: "own_election (g tid) (pm_threads m ! tid)" "own_election (g j) (pm_threads m ! j)"
    using assms(1,3) s(2) by (simp_all add: election_inv_def)
  obtain e where "u128_low (ps_election_id session) = g_thread_self (g tid) e"
    using own_election_session [OF own(1)] s(1) by auto
  moreover obtain e' where "u128_low (ps_election_id other) = g_thread_self (g j) e'"
    using own_election_session [OF own(2) s(4)] by auto
  ultimately show False using assms(2,3) s(2,3,5) len unfolding own_thread_ids_def by metis
qed

definition contended_inv :: "(nat \<Rightarrow> 'e grpc_env) \<Rightarrow> TestParams \<Rightarrow> 'e perf_machine \<Rightarrow> bool" where
  "contended_inv g params m \<longleftrightarrow> election_inv g params m \<and> own_thread_ids g"

lemma contended_step_eq:
  "contended_inv g params m \<Longrightarrow> contended_step g params m m' = perf_step g params m m'"
  using never_stuck by (auto simp: contended_step_def contended_inv_def)

interpretation contended: ending_runs "contended_step g params" "contended_inv g params" exited
    "perf_work params"
  for g params
proof unfold_locales
  show "contended_inv g params m \<Longrightarrow> contended_step g params m m' \<Longrightarrow> contended_inv g params m'" for m m'
    using election_inv_step by (auto simp: contended_step_eq) (auto simp: contended_inv_def)
  show "contended_inv g params m \<Longrightarrow> \<not> exited m \<Longrightarrow> \<exists>m'. contended_step g params m m'" for m
    using perf_progress by (auto simp: contended_step_eq contended_inv_def election_inv_def simp del: exited.simps)
  show "contended_inv g params m \<Longrightarrow> contended_step g params m m' \<Longrightarrow> perf_work params m' < perf_work params m"
    for m m'
    using perf_work_step by (auto simp: contended_step_eq) (auto simp: contended_inv_def election_inv_def)
qed

lemma contended_inv_start:
  assumes "valid_params params" and "divided params (pf_thread_data s)" and "own_thread_ids g"
  shows "contended_inv g params (perf_start s)"
  using assms threads_inv_start [OF assms(1,2)]
  by (simp add: contended_inv_def election_inv_def perf_start_def)

end
