(* ===== verification/Perf_Properties.thy ===== *)
theory Perf_Properties
  imports Perf_Writes Perf_Election
begin

text \<open>
  Properties of \<^verbatim>\<open>p4rt_perf_test\<close>: what it writes in every interleaving of its threads,
  that it comes to an end, what its exit status tells, which command lines it rejects, and
  which entries are different to the server.
\<close>

section \<open>The start\<close>

lemma ValidateInput_status:
  "fst (ValidateInput name params s) = SUCCESS \<longleftrightarrow>
     (tp_oper params = ADD \<or> tp_oper params = DEL) \<and>
     unat (tp_num_threads params) \<le> MAX_THREADS \<and> tp_profile params = SIMPLE_L2_DEMO"
  "fst (ValidateInput name params s) = SUCCESS \<or> fst (ValidateInput name params s) = INVALID_ARG"
  "fst (ValidateInput name params s) = SUCCESS \<Longrightarrow> snd (ValidateInput name params s) = s"
  by (auto simp: ValidateInput_def SUCCESS_def INVALID_ARG_def ADD_def DEL_def profileToStr_def
      SIMPLE_L2_DEMO_def MAX_THREADS_def word_less_nat_alt not_less split: if_splits)

lemma PopulateThreadInfo_none: "tp_num_threads params = 0 \<Longrightarrow> PopulateThreadInfo params td = None"
  by (simp add: PopulateThreadInfo_def)

lemma main_setup_params:
  assumes "parse_options default_TestParams opts = Some (Inr params)"
  shows "main_setup name opts e =
    (let (status, s) = ValidateInput name params
           \<lparr>pf_env = e, pf_out = [], pf_err = [],
            pf_thread_data = replicate MAX_THREADS zero_ThreadInfo\<rparr>
     in if status \<noteq> SUCCESS then Some (Inl (status, s))
        else do {
          (td, ls) \<leftarrow> PopulateThreadInfo params (pf_thread_data s);
          Some (Inr (params, put_out ls (put_out (banner params) s\<lparr>pf_thread_data := td\<rparr>)))
        })"
  using assms by (simp add: main_setup_def Let_def cong: if_cong)

lemma main_setup_valid:
  assumes "main_setup name opts e = Some (Inr (params, s))"
  shows "valid_params params" and "divided params (pf_thread_data s)" and "pf_env s = e"
    and "\<And>i. i < MAX_THREADS \<Longrightarrow> ti_status (pf_thread_data s ! i) = SUCCESS"
proof -
  from assms obtain r where "parse_options default_TestParams opts = Some r" "r = Inr params"
    by (auto simp: main_setup_def Let_def split: sum.splits Option.bind_splits if_splits prod.splits)
  then have parsed: "parse_options default_TestParams opts = Some (Inr params)" by simp
  let ?s = "\<lparr>pf_env = e, pf_out = [], pf_err = [],
    pf_thread_data = replicate MAX_THREADS zero_ThreadInfo\<rparr>"
  note run = assms [unfolded main_setup_params [OF parsed]]
  then have valid: "fst (ValidateInput name params ?s) = SUCCESS"
    by (auto simp: case_prod_beta split: if_splits)
  from run have "tp_num_threads params \<noteq> 0"
    by (auto simp: case_prod_beta PopulateThreadInfo_none split: if_splits)
  then show v: "valid_params params"
    using valid by (simp add: ValidateInput_status(1) valid_params_def word_neq_0_conv)
  show "divided params (pf_thread_data s)" "pf_env s = e"
    "\<And>i. i < MAX_THREADS \<Longrightarrow> ti_status (pf_thread_data s ! i) = SUCCESS"
    using run valid ValidateInput_status(3) [OF valid] PopulateThreadInfo_divided [OF v]
    by (auto simp: case_prod_beta put_out_def split: if_splits)
qed

section \<open>The end\<close>

lemma join_status_fails: "st \<noteq> SUCCESS \<Longrightarrow> join_status st ts \<noteq> SUCCESS"
  by (induction ts arbitrary: st) auto

lemma join_status_iff:
  "join_status SUCCESS ts = SUCCESS \<longleftrightarrow> (\<forall>t\<in>set ts. ti_status t = SUCCESS)"
  by (induction ts) (auto simp: join_status_fails)

lemma join_status_in: "join_status st ts = st \<or> (\<exists>t\<in>set ts. join_status st ts = ti_status t)"
proof (induction ts arbitrary: st)
  case (Cons t ts)
  show ?case using Cons.IH [of "if ti_status t \<noteq> SUCCESS then ti_status t else st"] by auto
qed simp

section \<open>Reachable states\<close>

lemma perf_run_inv:
  assumes "main_setup name opts (e, []) = Some (Inr (params, s))"
    and run: "(perf_step (\<lambda>tid. traced (g tid)) params)\<^sup>*\<^sup>* (perf_start s) m"
  shows "perf_inv g params m"
  using run
proof (induction rule: rtranclp_induct)
  case base
  have "pm_main (perf_start s) = M_Spawn 0" by (simp add: perf_start_def)
  moreover have "\<exists>p. answered g p" unfolding answered_def by blast
  then obtain p where "answered g p" ..
  then have "\<exists>ps. (\<forall>i. answered g (ps i)) \<and> writes_inv ps params (perf_start s)"
    using main_setup_valid(3) [OF assms(1)] by (intro exI [of _ "\<lambda>_. p"]) (simp add: writes_inv_start)
  ultimately show ?case
    using main_setup_valid(1,2) [OF assms(1)] by (simp add: perf_inv_def threads_inv_start)
next
  case (step m m')
  then show ?case by (blast intro: perf_inv_step)
qed

lemma wrote_bound:
  assumes "threads_inv params m"
  shows "wrote m \<subseteq> {..<unat (tp_num_threads params)}"
proof
  fix i assume "i \<in> wrote m"
  then have "i < spawned_threads (unat (tp_num_threads params)) (pm_main m)"
    using assms by (force simp: wrote_def threads_inv_def not_le)
  also have "\<dots> \<le> unat (tp_num_threads params)" using assms by (simp add: threads_inv_def)
  finally show "i \<in> {..<unat (tp_num_threads params)}" by simp
qed

text \<open>The numbers of the entries, and whose they are.\<close>

definition entry_numbers :: "TestParams \<Rightarrow> u64 list" where
  "entry_numbers params = map of_nat [1..<Suc (unat (tp_tot_num_entries params))]"

lemma thread_numbers:
  assumes "threads_inv params m"
  shows "concat (map (\<lambda>i. thread_counts (pf_thread_data (pm_state m) ! i)) [0..<unat (tp_num_threads params)]) =
    entry_numbers params"
  unfolding entry_numbers_def using assms by (intro divided_partition) (simp_all add: threads_inv_def)

lemma all_batches:
  assumes "threads_inv params m"
  shows "(\<Sum>i<unat (tp_num_threads params). mset (map f (thread_counts (pf_thread_data (pm_state m) ! i)))) =
    mset (map f (entry_numbers params))"
proof -
  have "(\<Sum>i<k. mset (map f (thread_counts (pf_thread_data (pm_state m) ! i)))) =
      mset (map f (concat (map (\<lambda>i. thread_counts (pf_thread_data (pm_state m) ! i)) [0..<k])))" for k
    by (induction k) simp_all
  then show ?thesis using thread_numbers [OF assms] by (simp only:)
qed

lemma unat_small:
  assumes "n \<le> unat (x :: u64)"
  shows "unat (of_nat n :: u64) = n"
proof -
  have "n < 2 ^ 64" using assms unsigned_less [where 'a = nat, of x] by simp
  then have "take_bit 64 n = n" by (rule take_bit_nat_eq_self)
  then show ?thesis by (simp add: unsigned_of_nat)
qed

lemma distinct_numbers: "distinct (entry_numbers params)"
  unfolding entry_numbers_def distinct_map
proof (intro conjI inj_onI)
  fix a b :: nat
  assume a: "a \<in> set [1..<Suc (unat (tp_tot_num_entries params))]" "b \<in> set [1..<Suc (unat (tp_tot_num_entries params))]"
    and eq: "(of_nat a :: u64) = of_nat b"
  have ab: "a \<le> unat (tp_tot_num_entries params)" "b \<le> unat (tp_tot_num_entries params)"
    using a unfolding set_upt atLeastLessThan_iff less_Suc_eq_le by simp_all
  show "a = b"
    using arg_cong [OF eq, of unat] unfolding unat_small [OF ab(1)] unat_small [OF ab(2)] .
qed simp

text \<open>What a thread is given can be read off the numbers of its entries.\<close>

lemma owner_of_number:
  assumes "distinct (concat (map xs [0..<n]))"
  shows "\<exists>f. (\<forall>i<n. \<forall>c\<in>set (xs i). f c = ps i) \<and> range f \<subseteq> range ps"
  using assms
proof (induction n)
  case 0
  show ?case by (rule exI [of _ "\<lambda>_. ps 0"]) auto
next
  case (Suc n)
  then obtain f where f: "\<forall>i<n. \<forall>c\<in>set (xs i). f c = ps i" "range f \<subseteq> range ps" by auto
  have "set (xs i) \<inter> set (xs n) = {}" if "i < n" for i using Suc.prems that by fastforce
  then have "\<forall>i<Suc n. \<forall>c\<in>set (xs i). (if c \<in> set (xs n) then ps n else f c) = ps i"
    using f(1) by (auto simp: less_Suc_eq)
  moreover have "range (\<lambda>c. if c \<in> set (xs n) then ps n else f c) \<subseteq> range ps" using f(2) by auto
  ultimately show ?case by (intro exI conjI)
qed

text \<open>At the exit every thread is done, so those that wrote are those without an error.\<close>

lemma wrote_exit:
  assumes inv: "threads_inv params m" and "pm_main m = M_Exit st"
  shows "wrote m = {i. i < unat (tp_num_threads params) \<and>
    ti_status (pf_thread_data (pm_state m) ! i) = SUCCESS}"
  using assms wrote_bound [OF inv] valid_num_threads [of params]
  by (auto simp: wrote_def threads_inv_def)

lemma exit_status:
  assumes inv: "perf_inv g params m" and ex: "pm_main m = M_Exit st"
  shows "(st = SUCCESS \<or> st = INTERNAL_ERR) \<and>
    (st = SUCCESS \<longleftrightarrow> wrote m = {..<unat (tp_num_threads params)})"
proof -
  let ?n = "unat (tp_num_threads params)" and ?td = "pf_thread_data (pm_state m)"
  have t: "threads_inv params m" and st: "st = join_status SUCCESS (take ?n ?td)"
    using inv ex by (simp_all add: perf_inv_def)
  have len: "length ?td = MAX_THREADS" "?n \<le> MAX_THREADS"
    using t valid_num_threads [of params] by (simp_all add: threads_inv_def divided_def)
  have set: "set (take ?n ?td) = (\<lambda>i. ?td ! i) ` {..<?n}"
    using len nth_image [of ?n ?td] by (simp add: atLeast0LessThan)
  have two: "ti_status (?td ! i) \<in> {SUCCESS, INTERNAL_ERR}" if "i < ?n" for i
  proof -
    obtain ps where "writes_inv ps params m" using inv by (auto simp: perf_inv_def)
    then show ?thesis using t ex that len by (auto simp: writes_inv_def threads_inv_def)
  qed
  have "st = SUCCESS \<or> (\<exists>i<?n. st = ti_status (?td ! i))"
    using join_status_in [of SUCCESS "take ?n ?td"] unfolding st set by blast
  then have "st = SUCCESS \<or> st = INTERNAL_ERR" using two by blast
  moreover have "st = SUCCESS \<longleftrightarrow> wrote m = {..<?n}"
    unfolding st join_status_iff set wrote_exit [OF t ex] by auto
  ultimately show ?thesis by simp
qed

section \<open>A server that answers every arbitration\<close>

definition arbitrates :: "'e grpc_env \<Rightarrow> bool" where
  "arbitrates g \<longleftrightarrow> (\<forall>ch a e. fst (g_stream_write g ch a e)) \<and>
     (\<forall>ch e. fst (g_stream_read g ch e) = Some (kArbitration (ucast perf_FLAGS_device_id)))"

fun pc_device_ok :: "thread_pc \<Rightarrow> bool" where
  "pc_device_ok (T_Arbitrate session) = (ps_device_id session = ucast perf_FLAGS_device_id)"
| "pc_device_ok (T_Await session) = (ps_device_id session = ucast perf_FLAGS_device_id)"
| "pc_device_ok _ = True"

lemma thread_step_arbitrated:
  assumes "thread_step g params tid pc s = (pc', s')" and "arbitrates g" and "pc_device_ok pc"
    and "valid_params params" and "ti_oper (pf_thread_data s ! tid) = tp_oper params"
    and "tid < length (pf_thread_data s)" and "ti_status (pf_thread_data s ! tid) = SUCCESS"
  shows "pc_device_ok pc' \<and> ti_status (pf_thread_data s' ! tid) = SUCCESS"
proof -
  have dev: "ucast (ucast perf_FLAGS_device_id :: u32) = perf_FLAGS_device_id"
    by (simp add: perf_FLAGS_device_id_def)
  have oper: "tp_oper params = ADD \<or> tp_oper params = DEL" and "tp_profile params = SIMPLE_L2_DEMO"
    using assms(4) by (auto simp: valid_params_def)
  with assms dev show ?thesis
  proof (cases pc)
    case (T_Await session)
    moreover obtain e where "g_stream_read g (ps_stream_channel session) (pf_env s) =
        (Some (kArbitration (ucast perf_FLAGS_device_id)), e)"
      using assms(2) by (metis arbitrates_def prod.collapse)
    ultimately show ?thesis using assms dev by auto
  next
    case (T_Arbitrate session)
    then show ?thesis using assms by (auto simp: arbitrates_def case_prod_beta Let_def)
  qed (auto simp: Let_def P4rtSession_new_def perf_GetForwardingPipelineConfig_def
      SimpleL2DemoTest_def l2_demo_loop_batch split: prod.splits if_splits)
qed

definition no_error :: "'e perf_machine \<Rightarrow> bool" where
  "no_error m \<longleftrightarrow> (\<forall>i<MAX_THREADS. pc_device_ok (pm_threads m ! i) \<and>
     ti_status (pf_thread_data (pm_state m) ! i) = SUCCESS)"

lemma no_error_step:
  assumes inv: "threads_inv params m" and ok: "no_error m" and g: "\<And>tid. arbitrates (g tid)"
    and step: "perf_step g params m m'"
  shows "no_error m'"
  using step
proof cases
  case (thread tid pc pc' s')
  have len: "length (pm_threads m) = MAX_THREADS" "length (pf_thread_data (pm_state m)) = MAX_THREADS"
    using inv by (simp_all add: threads_inv_def divided_def)
  then have tid: "tid < MAX_THREADS" "tid < unat (tp_num_threads params)"
    using inv thread(2-4) by (auto simp: threads_inv_def not_le)
  have "pc_device_ok pc' \<and> ti_status (pf_thread_data s' ! tid) = SUCCESS"
    using inv ok thread(3) tid len
    by (intro thread_step_arbitrated [OF thread(6) g]) (auto simp: no_error_def threads_inv_def divided_def)
  moreover have "ti_status (pf_thread_data s' ! i) = SUCCESS" if "i \<noteq> tid" "i < MAX_THREADS" for i
    using thread_step_other_status [OF thread(6) that(1)] ok that(2) by (simp add: no_error_def)
  ultimately have "pc_device_ok ((pm_threads m)[tid := pc'] ! i) \<and>
      ti_status (pf_thread_data s' ! i) = SUCCESS" if "i < MAX_THREADS" for i
    using ok len that by (cases "i = tid") (auto simp: no_error_def)
  then show ?thesis by (simp add: no_error_def thread(1))
next
  case (spawn k ls)
  then show ?thesis
    using inv ok valid_num_threads [of params]
    by (auto simp: no_error_def threads_inv_def nth_list_update)
qed (use ok in \<open>simp_all add: no_error_def\<close>)

text \<open>With such a server the program exits with status \<open>SUCCESS\<close>, whatever becomes of the
  entries it writes.\<close>

lemma arbitrated_exit:
  assumes "main_setup name opts (e, []) = Some (Inr (params, s))"
    and run: "(perf_step (\<lambda>tid. traced (g tid)) params)\<^sup>*\<^sup>* (perf_start s) m"
    and "pm_main m = M_Exit st" and g: "\<And>tid. arbitrates (g tid)"
  shows "st = SUCCESS"
proof -
  have tg: "arbitrates (traced (g tid))" for tid
    using g [of tid] by (auto simp: arbitrates_def traced_def lift_env_def case_prod_beta Let_def)
  have "no_error m \<and> threads_inv params m"
    using run
  proof (induction rule: rtranclp_induct)
    case base
    show ?case
      using main_setup_valid(4) [OF assms(1)] threads_inv_start [OF main_setup_valid(1,2) [OF assms(1)]]
      by (simp add: no_error_def perf_start_def)
  next
    case (step m m')
    then show ?case
      using no_error_step [of params m "\<lambda>tid. traced (g tid)" m', OF _ _ tg] threads_inv_step by blast
  qed
  moreover have inv: "perf_inv g params m" by (rule perf_run_inv [OF assms(1,2)])
  ultimately have "wrote m = {..<unat (tp_num_threads params)}"
    using wrote_exit [of params m st] assms(3) valid_num_threads [of params]
    by (auto simp: no_error_def threads_inv_def)
  with exit_status [OF inv assms(3)] show ?thesis by simp
qed

section \<open>Entries and numbers\<close>

lemma mac_of_count_bytes:
  "mac_of_count c = Mac (ucast (drop_bit 40 c)) (ucast (drop_bit 32 c)) (ucast (drop_bit 24 c))
     (ucast (drop_bit 16 c)) (ucast (drop_bit 8 c)) (ucast c)"
  "masked_mac_of_count c = mac_of_count c"
proof -
  have mask: "(ucast (x AND 0xFF :: u64) :: u8) = ucast x" for x
  proof -
    have "(x AND 0xFF :: u64) = take_bit 8 x"
      using take_bit_eq_mask [of 8 x] by (simp add: mask_numeral)
    then show ?thesis by (simp only:) (rule bit_word_eqI, simp add: bit_simps)
  qed
  show "mac_of_count c = Mac (ucast (drop_bit 40 c)) (ucast (drop_bit 32 c)) (ucast (drop_bit 24 c))
     (ucast (drop_bit 16 c)) (ucast (drop_bit 8 c)) (ucast c)"
    "masked_mac_of_count c = mac_of_count c"
    by (simp_all only: mac_of_count_def masked_mac_of_count_def mask)
qed

lemma low_bytes_eq:
  "(ucast (drop_bit k c) :: u8) = ucast (drop_bit k d) \<longleftrightarrow>
     (\<forall>j<8. bit (c :: u64) (k + j) = bit d (k + j))"
  by (auto simp: bit_eq_iff bit_simps)

lemma mac_of_count_eq:
  "mac_of_count c = mac_of_count d \<longleftrightarrow> unat c mod 2 ^ 48 = unat d mod 2 ^ 48"
proof -
  have "mac_of_count c = mac_of_count d \<longleftrightarrow> (\<forall>k\<in>{40, 32, 24, 16, 8, 0}. \<forall>j<8. bit c (k + j) = bit d (k + j))"
    unfolding mac_of_count_bytes(1) mac_addr.inject
    using low_bytes_eq [of 40 c d] low_bytes_eq [of 32 c d] low_bytes_eq [of 24 c d]
      low_bytes_eq [of 16 c d] low_bytes_eq [of 8 c d] low_bytes_eq [of 0 c d] by simp
  also have "\<dots> \<longleftrightarrow> (\<forall>n<48. bit c n = bit d n)"
  proof
    assume bits: "\<forall>k\<in>{40, 32, 24, 16, 8, 0}. \<forall>j<8. bit c (k + j) = bit d (k + j)"
    show "\<forall>n<48. bit c n = bit d n"
    proof (intro allI impI)
      fix n :: nat assume "n < 48"
      then have "n div 8 * 8 \<in> {40, 32, 24, 16, 8, 0}" "n mod 8 < 8" by auto
      with bits have "bit c (n div 8 * 8 + n mod 8) = bit d (n div 8 * 8 + n mod 8)" by blast
      then show "bit c n = bit d n" by simp
    qed
  qed auto
  also have "\<dots> \<longleftrightarrow> take_bit 48 c = take_bit 48 d"
  proof
    assume eq: "take_bit 48 c = take_bit 48 d"
    have "bit (take_bit 48 c) n = bit (take_bit 48 d) n" for n by (simp only: eq)
    then show "\<forall>n<48. bit c n = bit d n" unfolding bit_take_bit_iff by blast
  qed (auto simp: bit_eq_iff bit_take_bit_iff)
  also have "\<dots> \<longleftrightarrow> unat c mod 2 ^ 48 = unat d mod 2 ^ 48"
    by (simp only: word_unat_eq_iff unsigned_take_bit_eq take_bit_eq_mod [of 48 "unat _"])
  finally show ?thesis .
qed

lemma demo_key:
  "entry_key (upd_entry (demo_update oper p c)) =
    (perf_GetTableId p ''my_control.e_fwd'',
     [\<lparr>fm_field_id = perf_GetMatchFieldId p ''my_control.e_fwd'' ''hdrs.mac[vmeta.common.depth].da'',
       fm_match = Exact (CanonicalizeMac (mac_of_count (c + 1)))\<rparr>,
      \<lparr>fm_field_id = perf_GetMatchFieldId p ''my_control.e_fwd'' ''hdrs.mac[vmeta.common.depth].sa'',
       fm_match = Exact (CanonicalizeMac (mac_of_count c))\<rparr>], 0)"
  by (simp add: demo_update_def PrepareSimpleL2DemoTableEntry_def Let_def demo_mac_info_def
      mac_of_count_bytes(2) perf_canonical_eq) (simp add: msg_defs)

lemma demo_key_number:
  "entry_key (upd_entry (demo_update oper p c)) = entry_key (upd_entry (demo_update oper' q d)) \<Longrightarrow>
   unat c mod 2 ^ 48 = unat d mod 2 ^ 48"
  by (simp add: demo_key CanonicalizeMac_inj mac_of_count_eq)

text \<open>The entries of two numbers have the same key, so that the server takes them for
  the same entry, exactly when the numbers agree modulo \<open>2 ^ 48\<close>: the entries of a test with
  up to \<open>2 ^ 48\<close> entries are different ones.\<close>

lemma demo_entry_keys:
  "entry_key (upd_entry (demo_update oper p c)) = entry_key (upd_entry (demo_update oper' p d)) \<longleftrightarrow>
     unat c mod 2 ^ 48 = unat d mod 2 ^ 48"
proof -
  have "unat c mod 2 ^ 48 = unat d mod 2 ^ 48 \<Longrightarrow> unat (c + 1) mod 2 ^ 48 = unat (d + 1) mod 2 ^ 48"
  proof -
    assume "unat c mod 2 ^ 48 = unat d mod 2 ^ 48"
    then have "(unat c + 1) mod 2 ^ 48 = (unat d + 1) mod 2 ^ 48" by (rule mod_add_cong) simp
    moreover have "unat (x + 1) mod 2 ^ 48 = (unat x + 1) mod 2 ^ 48" for x :: u64
      by (simp add: unat_word_ariths mod_mod_cancel)
    ultimately show ?thesis by simp
  qed
  then show ?thesis by (auto simp: demo_key CanonicalizeMac_inj mac_of_count_eq)
qed

lemma distinct_mset_mono_list: "mset xs \<subseteq># mset ys \<Longrightarrow> distinct ys \<Longrightarrow> distinct xs"
  unfolding distinct_count_atmost_1
proof
  fix a
  assume sub: "mset xs \<subseteq># mset ys" and ys: "\<forall>a. count (mset ys) a = (if a \<in> set ys then 1 else 0)"
  have "count (mset ys) a \<le> 1" using spec [OF ys, of a] by simp
  then have "count (mset xs) a \<le> 1" by (rule order_trans [OF mset_subset_eq_count [OF sub]])
  then show "count (mset xs) a = (if a \<in> set xs then 1 else 0)"
    using count_greater_zero_iff [of "mset xs" a] by (simp add: count_eq_zero_iff le_Suc_eq)
qed

lemma distinct_keys:
  assumes "unat (tp_tot_num_entries params) \<le> 2 ^ 48"
  shows "distinct (map (\<lambda>u. entry_key (upd_entry u)) (map (\<lambda>c. demo_update oper (ps c) c) (entry_numbers params)))"
proof -
  have small: "1 \<le> unat c \<and> unat c \<le> 2 ^ 48" if c: "c \<in> set (entry_numbers params)" for c
  proof -
    obtain n where n: "c = of_nat n" "1 \<le> n" "n \<le> unat (tp_tot_num_entries params)"
      using c unfolding entry_numbers_def set_map set_upt by auto
    then have "unat c = n" using unat_small by simp
    with n assms show ?thesis by simp
  qed
  have "c = d" if "c \<in> set (entry_numbers params)" "d \<in> set (entry_numbers params)"
    "unat c mod 2 ^ 48 = unat d mod 2 ^ 48" for c d
  proof -
    have "unat c = unat d"
      using that(3) small [OF that(1)] small [OF that(2)]
      by (cases "unat c = 2 ^ 48"; cases "unat d = 2 ^ 48") auto
    then show ?thesis by (simp add: word_unat_eq_iff)
  qed
  then have "inj_on ((\<lambda>u. entry_key (upd_entry u)) \<circ> (\<lambda>c. demo_update oper (ps c) c)) (set (entry_numbers params))"
    by (auto intro!: inj_onI dest!: demo_key_number)
  with distinct_numbers show ?thesis unfolding map_map by (simp add: distinct_map)
qed

section \<open>Properties\<close>

text \<open>C15: however the threads interleave, and whatever the server answers, with one pipeline
  description or with several and whether or not the query has failed: what has been written
  are entries with the numbers from 1 to the requested total, each number at most once, built
  from a pipeline description that the server has sent; when the program exits with status
  \<open>SUCCESS\<close> every number has been written exactly once. Up to a total of \<open>2 ^ 48\<close> no two of the
  entries have the same key. (A negative total is a number near \<open>2 ^ 64\<close>.)\<close>

theorem perf_writes_once:
  assumes "main_setup name opts (e, []) = Some (Inr (params, s))"
    and "(perf_step (\<lambda>tid. traced (g tid)) params)\<^sup>*\<^sup>* (perf_start s) m"
  shows "\<exists>ps. (\<forall>c. answered g (ps c)) \<and>
    mset (written_updates m) \<subseteq># mset (map (\<lambda>c. demo_update (tp_oper params) (ps c) c) (entry_numbers params)) \<and>
    (pm_main m = M_Exit SUCCESS \<longrightarrow>
       mset (written_updates m) = mset (map (\<lambda>c. demo_update (tp_oper params) (ps c) c) (entry_numbers params))) \<and>
    distinct (entry_numbers params) \<and>
    (unat (tp_tot_num_entries params) \<le> 2 ^ 48 \<longrightarrow>
       distinct (map (\<lambda>u. entry_key (upd_entry u)) (written_updates m)))"
proof -
  let ?n = "unat (tp_num_threads params)" and ?td = "pf_thread_data (pm_state m)"
  have inv: "perf_inv g params m" by (rule perf_run_inv [OF assms])
  then obtain ps where t: "threads_inv params m" and ps: "\<And>i. answered g (ps i)"
    and w: "mset (written_updates m) = (\<Sum>i\<in>wrote m. mset (batch (tp_oper params) (ps i) (?td ! i)))"
    by (auto simp: perf_inv_def writes_inv_def)
  have "distinct (concat (map (\<lambda>i. thread_counts (?td ! i)) [0..<?n]))"
    by (simp only: thread_numbers [OF t] distinct_numbers)
  from owner_of_number [OF this, of ps] obtain pn where
    pn: "\<And>i c. i < ?n \<Longrightarrow> c \<in> set (thread_counts (?td ! i)) \<Longrightarrow> pn c = ps i" "range pn \<subseteq> range ps" by blast
  let ?up = "\<lambda>c. demo_update (tp_oper params) (pn c) c"
  let ?f = "\<lambda>i. mset (map ?up (thread_counts (?td ! i)))"
  have batch: "mset (batch (tp_oper params) (ps i) (?td ! i)) = ?f i" if "i < ?n" for i
    using pn(1) [OF that] by (simp add: batch_def cong: map_cong)
  have w: "mset (written_updates m) = (\<Sum>i\<in>wrote m. ?f i)"
    unfolding w using wrote_bound [OF t] by (intro sum.cong) (auto simp del: mset_map intro!: batch)
  have all: "mset (map ?up (entry_numbers params)) = (\<Sum>i<?n. ?f i)" by (rule all_batches [OF t, symmetric])
  have "(\<Sum>i<?n. ?f i) = (\<Sum>i\<in>wrote m. ?f i) + (\<Sum>i\<in>{..<?n} - wrote m. ?f i)"
    using wrote_bound [OF t] by (simp add: sum.subset_diff add.commute)
  then have sub: "mset (written_updates m) \<subseteq># mset (map ?up (entry_numbers params))"
    by (simp only: w all mset_subset_eq_add_left)
  moreover have "mset (written_updates m) = mset (map ?up (entry_numbers params))" if "pm_main m = M_Exit SUCCESS"
    unfolding w all using exit_status [OF inv that] by simp
  moreover have "answered g (pn c)" for c using ps pn(2) by (metis rangeE rangeI subsetD)
  moreover have "distinct (map (\<lambda>u. entry_key (upd_entry u)) (written_updates m))"
    if "unat (tp_tot_num_entries params) \<le> 2 ^ 48"
    using image_mset_subseteq_mono [OF sub, of "\<lambda>u. entry_key (upd_entry u)"]
    by (intro distinct_mset_mono_list [OF _ distinct_keys [OF that]]) (simp only: mset_map)
  ultimately show ?thesis using distinct_numbers by blast
qed

text \<open>C16: a thread that asks for the mastership with the election id of another thread's session
  would get stuck, but no thread does: if threads have different thread ids, and the calls
  of the environment return in all other cases, the program takes at most \<open>9 n + 2\<close> steps
  with \<open>n\<close> threads, has a next step until it exits, and can exit. Without the thread id two
  threads that are created within one second would wait for ever.\<close>

theorem perf_finishes:
  assumes "main_setup name opts e = Some (Inr (params, s))" and "own_thread_ids g"
    and "(contended_step g params ^^ k) (perf_start s) m"
  shows "k \<le> 9 * unat (tp_num_threads params) + 2 \<and>
    (\<not> exited m \<longrightarrow> (\<exists>m'. contended_step g params m m')) \<and>
    (\<exists>m'. (contended_step g params)\<^sup>*\<^sup>* m m' \<and> exited m') \<and>
    (\<forall>tid < length (pm_threads m). \<not> stuck m tid)"
proof -
  have start: "contended_inv g params (perf_start s)"
    by (rule contended_inv_start [OF main_setup_valid(1,2) [OF assms(1)] assms(2)])
  have "perf_work params (perf_start s) = 9 * unat (tp_num_threads params) + 2"
    using valid_num_threads [OF main_setup_valid(1) [OF assms(1)]]
    by (simp add: perf_work_def perf_start_def)
  moreover have "k + perf_work params m \<le> perf_work params (perf_start s)"
    by (rule contended.run_length [OF assms(3) start])
  moreover have inv: "contended_inv g params m"
    by (rule contended.run_inv [OF relpowp_imp_rtranclp [OF assms(3)] start])
  moreover from this have "\<not> stuck m tid" if "tid < length (pm_threads m)" for tid
    using never_stuck [of g params m, OF _ _ that] by (simp add: contended_inv_def)
  ultimately show ?thesis
    using contended.progress [OF inv] contended.can_finish [OF inv] by (simp del: exited.simps)
qed

text \<open>C17: the exit status is \<open>SUCCESS\<close> or \<open>INTERNAL_ERR\<close>, and it is \<open>SUCCESS\<close> exactly when
  every thread got a session and sent its write request; the server's answers to the
  requests, errors included, do not matter.\<close>

theorem perf_exit_status:
  assumes "main_setup name opts (e, []) = Some (Inr (params, s))"
    and "(perf_step (\<lambda>tid. traced (g tid)) params)\<^sup>*\<^sup>* (perf_start s) m" and "pm_main m = M_Exit st"
  shows "(st = SUCCESS \<or> st = INTERNAL_ERR) \<and>
    (st = SUCCESS \<longleftrightarrow>
       length (write_requests (snd (pf_env (pm_state m)))) = unat (tp_num_threads params))"
proof -
  have inv: "perf_inv g params m" by (rule perf_run_inv [OF assms(1,2)])
  then have t: "threads_inv params m"
    and len: "length (write_requests (snd (pf_env (pm_state m)))) = card (wrote m)"
    by (auto simp: perf_inv_def writes_inv_def)
  have "wrote m = {..<unat (tp_num_threads params)} \<longleftrightarrow>
      card (wrote m) = unat (tp_num_threads params)"
    using card_subset_eq [OF _ wrote_bound [OF t]] by fastforce
  with exit_status [OF inv assms(3)] len show ?thesis by auto
qed

text \<open>C18: a command line that parses is rejected with \<open>INVALID_ARG\<close> when the operation is not
  ADD or DEL, when there are more than 8 threads, or when the profile is unknown. It runs into
  a division by zero when there are no threads, which the validation accepts. Otherwise the
  test starts.\<close>

theorem perf_command_line:
  assumes "parse_options default_TestParams opts = Some (Inr params)"
  shows "(main_setup name opts e = None \<longleftrightarrow>
      (tp_oper params = ADD \<or> tp_oper params = DEL) \<and> tp_num_threads params = 0 \<and>
      tp_profile params = SIMPLE_L2_DEMO) \<and>
    ((\<exists>s. main_setup name opts e = Some (Inl (INVALID_ARG, s))) \<longleftrightarrow>
      \<not> ((tp_oper params = ADD \<or> tp_oper params = DEL) \<and>
         unat (tp_num_threads params) \<le> MAX_THREADS \<and> tp_profile params = SIMPLE_L2_DEMO)) \<and>
    ((\<exists>s. main_setup name opts e = Some (Inr (params, s))) \<longleftrightarrow> valid_params params)"
proof -
  let ?s = "\<lparr>pf_env = e, pf_out = [], pf_err = [],
    pf_thread_data = replicate MAX_THREADS zero_ThreadInfo\<rparr>"
  note eq = main_setup_params [OF assms, of name e]
  note status = ValidateInput_status [of name params ?s]
  show ?thesis
  proof (cases "fst (ValidateInput name params ?s) = SUCCESS")
    case False
    then obtain s' where "ValidateInput name params ?s = (INVALID_ARG, s')" "INVALID_ARG \<noteq> SUCCESS"
      using status(2) by (cases "ValidateInput name params ?s") auto
    then have "main_setup name opts e = Some (Inl (INVALID_ARG, s'))" by (simp add: eq)
    then show ?thesis using False status(1) by (simp add: valid_params_def)
  next
    case True
    then have accepted: "ValidateInput name params ?s = (SUCCESS, ?s)"
      using status(3) by (simp add: prod_eq_iff)
    show ?thesis
    proof (cases "tp_num_threads params = 0")
      case True
      with accepted have "main_setup name opts e = None" by (simp add: eq PopulateThreadInfo_none)
      then show ?thesis using True status(1) accepted by (simp add: valid_params_def)
    next
      case False
      then have v: "valid_params params"
        using accepted status(1) by (simp add: valid_params_def word_neq_0_conv)
      with PopulateThreadInfo_divided [OF v] accepted
      have "\<exists>s. main_setup name opts e = Some (Inr (params, s))" by (auto simp: eq)
      then show ?thesis using False v by (auto simp: valid_params_def)
    qed
  qed
qed

section \<open>Witnesses\<close>

text \<open>Two threads and five entries, with a server that rejects every write.\<close>

definition perf_demo_opts :: "(char \<times> string) list" where
  "perf_demo_opts = [(CHR ''o'', ''1''), (CHR ''n'', ''5''), (CHR ''t'', ''2'')]"

definition perf_demo_params :: TestParams where
  "perf_demo_params = \<lparr>tp_num_threads = 2, tp_oper = ADD, tp_tot_num_entries = 5,
     tp_profile = SIMPLE_L2_DEMO\<rparr>"

definition rejecting :: "nat \<Rightarrow> unit grpc_env" where
  "rejecting tid = \<lparr>g_now = (\<lambda>e. 1700000000), g_thread_self = (\<lambda>e. of_nat tid),
     g_lstat_regular = (\<lambda>f e. False), g_path_exists = (\<lambda>f e. False),
     g_read_role_config = (\<lambda>f e. (OkStatus, [])),
     g_new_stub = (\<lambda>a c e. (tid, e)), g_stream_channel = (\<lambda>s e. (s, e)),
     g_stream_write = (\<lambda>s rq e. (True, e)), g_stream_read = (\<lambda>s e. (Some (kArbitration 1), e)),
     g_stream_finish = (\<lambda>s e. e), g_get_config = (\<lambda>s rq e. ((OkStatus, empty_P4Info), e)),
     g_read = (\<lambda>s rq e. (([], OkStatus), e)),
     g_write = (\<lambda>s rq e. (\<lparr>st_code = 7, st_message = ''not primary''\<rparr>, e))\<rparr>"

lemma perf_demo_parse: "parse_options default_TestParams perf_demo_opts = Some (Inr perf_demo_params)"
  by code_simp

lemma perf_demo_valid: "valid_params perf_demo_params"
  by (simp add: valid_params_def perf_demo_params_def MAX_THREADS_def)

lemma rejecting_server: "arbitrates (rejecting tid)" "own_thread_ids (\<lambda>tid. traced (rejecting tid))"
  "answered rejecting p \<longleftrightarrow> p = empty_P4Info"
proof -
  have "(of_nat i :: u64) \<noteq> of_nat j" if "i < MAX_THREADS" "j < MAX_THREADS" "i \<noteq> j" for i j
    using that unat_small [of i 8] unat_small [of j 8] by (auto simp: MAX_THREADS_def)
  then show "own_thread_ids (\<lambda>tid. traced (rejecting tid))"
    by (simp add: own_thread_ids_def rejecting_def traced_def lift_env_def)
qed (auto simp: answered_def arbitrates_def rejecting_def perf_FLAGS_device_id_def)

lemma main_setup_starts:
  assumes "parse_options default_TestParams opts = Some (Inr params)" and "valid_params params"
  shows "\<exists>s. main_setup name opts e = Some (Inr (params, s))"
proof -
  let ?s = "\<lparr>pf_env = e, pf_out = [], pf_err = [],
    pf_thread_data = replicate MAX_THREADS zero_ThreadInfo\<rparr>"
  have "fst (ValidateInput name params ?s) = SUCCESS"
    using assms(2) by (simp add: ValidateInput_status(1) valid_params_def)
  then have "ValidateInput name params ?s = (SUCCESS, ?s)"
    using ValidateInput_status(3) by (simp add: prod_eq_iff)
  with PopulateThreadInfo_divided [OF assms(2)] show ?thesis
    by (auto simp: main_setup_params [OF assms(1)])
qed

lemma perf_demo_run:
  obtains s m where "main_setup name perf_demo_opts ((), []) = Some (Inr (perf_demo_params, s))"
    "(perf_step (\<lambda>tid. traced (rejecting tid)) perf_demo_params)\<^sup>*\<^sup>* (perf_start s) m"
    "pm_main m = M_Exit SUCCESS"
proof -
  obtain s where s: "main_setup name perf_demo_opts ((), [] :: rpc list) = Some (Inr (perf_demo_params, s))"
    using main_setup_starts [OF perf_demo_parse perf_demo_valid, of name "((), [])"] by auto
  have "threads_inv perf_demo_params (perf_start s)"
    by (rule threads_inv_start [OF main_setup_valid(1,2) [OF s]])
  then obtain m where m: "(perf_step (\<lambda>tid. traced (rejecting tid)) perf_demo_params)\<^sup>*\<^sup>* (perf_start s) m"
    "exited m"
    using perf_runs.can_finish by blast
  then obtain st where "pm_main m = M_Exit st" by (cases "pm_main m") auto
  with arbitrated_exit [OF s m(1)] rejecting_server(1) m(1) s that show thesis
    by blast
qed

theorem perf_writes_once_witness:
  "\<exists>s m. main_setup ''p4rt_perf_test'' perf_demo_opts ((), []) = Some (Inr (perf_demo_params, s)) \<and>
     (perf_step (\<lambda>tid. traced (rejecting tid)) perf_demo_params)\<^sup>*\<^sup>* (perf_start s) m \<and>
     mset (written_updates m) =
       mset (map (demo_update ADD empty_P4Info) [1, 2, 3, 4, 5]) \<and>
     distinct (map (\<lambda>u. entry_key (upd_entry u)) (written_updates m))"
proof -
  obtain s m where sm: "main_setup ''p4rt_perf_test'' perf_demo_opts ((), []) = Some (Inr (perf_demo_params, s))"
    "(perf_step (\<lambda>tid. traced (rejecting tid)) perf_demo_params)\<^sup>*\<^sup>* (perf_start s) m"
    "pm_main m = M_Exit SUCCESS"
    by (rule perf_demo_run)
  have n: "entry_numbers perf_demo_params = [1, 2, 3, 4, 5]"
    by (simp add: entry_numbers_def perf_demo_params_def upt_rec)
  have o: "tp_oper perf_demo_params = ADD" "unat (tp_tot_num_entries perf_demo_params) \<le> 2 ^ 48"
    by (simp_all add: perf_demo_params_def)
  obtain ps where ps: "\<And>c. answered rejecting (ps c)"
    "mset (written_updates m) = mset (map (\<lambda>c. demo_update ADD (ps c) c) [1, 2, 3, 4, 5])"
    "distinct (map (\<lambda>u. entry_key (upd_entry u)) (written_updates m))"
    using perf_writes_once [OF sm(1,2)] sm(3) o unfolding n o(1) by blast
  have "ps = (\<lambda>_. empty_P4Info)" using ps(1) by (simp add: rejecting_server(3) fun_eq_iff)
  with ps sm(1,2) show ?thesis by (intro exI conjI) simp_all
qed

theorem perf_finishes_witness:
  "\<exists>s. main_setup ''p4rt_perf_test'' perf_demo_opts ((), []) = Some (Inr (perf_demo_params, s)) \<and>
     (\<exists>m. (contended_step (\<lambda>tid. traced (rejecting tid)) perf_demo_params)\<^sup>*\<^sup>* (perf_start s) m \<and> exited m)"
proof -
  obtain s where s: "main_setup ''p4rt_perf_test'' perf_demo_opts ((), [] :: rpc list) =
      Some (Inr (perf_demo_params, s))"
    using main_setup_starts [OF perf_demo_parse perf_demo_valid, of _ "((), [])"] by auto
  have "(contended_step (\<lambda>tid. traced (rejecting tid)) perf_demo_params ^^ 0) (perf_start s) (perf_start s)"
    by simp
  from perf_finishes [OF s rejecting_server(2) this] s show ?thesis by (intro exI [of _ s] conjI) simp_all
qed

theorem perf_exit_status_witness:
  "\<exists>s m. main_setup ''p4rt_perf_test'' perf_demo_opts ((), []) = Some (Inr (perf_demo_params, s)) \<and>
     (perf_step (\<lambda>tid. traced (rejecting tid)) perf_demo_params)\<^sup>*\<^sup>* (perf_start s) m \<and>
     pm_main m = M_Exit SUCCESS \<and> length (write_requests (snd (pf_env (pm_state m)))) = 2"
proof -
  obtain s m where sm: "main_setup ''p4rt_perf_test'' perf_demo_opts ((), []) = Some (Inr (perf_demo_params, s))"
    "(perf_step (\<lambda>tid. traced (rejecting tid)) perf_demo_params)\<^sup>*\<^sup>* (perf_start s) m"
    "pm_main m = M_Exit SUCCESS"
    by (rule perf_demo_run)
  with perf_exit_status [OF sm]
  have "length (write_requests (snd (pf_env (pm_state m)))) = 2" by (simp add: perf_demo_params_def)
  with sm show ?thesis by (intro exI conjI)
qed

theorem perf_command_line_witness:
  "main_setup ''p4rt_perf_test'' [(CHR ''o'', ''2''), (CHR ''t'', ''0'')] () = None"
proof -
  let ?p = "\<lparr>tp_num_threads = 0, tp_oper = DEL, tp_tot_num_entries = 1000000, tp_profile = SIMPLE_L2_DEMO\<rparr>"
  have "parse_options default_TestParams [(CHR ''o'', ''2''), (CHR ''t'', ''0'')] = Some (Inr ?p)"
    by code_simp
  from perf_command_line [OF this, of "''p4rt_perf_test''" "()"] show ?thesis by simp
qed

end
