(* ===== verification/Gnmi_Parser.thy ===== *)
theory Gnmi_Parser
  imports C_Strings
begin

text \<open>
  \<^verbatim>\<open>clients/gnmi-ctl/gnmi_ctl_utils.c\<close>: the parser of the gnmi-ctl parameters, on the memory
  it changes. The argument is an array of characters; a pointer is an index into it, an
  access outside of it is undefined behaviour, the result \<open>None\<close>. \<open>int level\<close> counts the open
  parentheses and is unbounded here: a command-line argument is shorter than \<open>2 ^ 31\<close>.

  \<open>parse_kv\<close> is the parser on the text itself; the lemmas show that the C code computes it
  in place, without an access outside the string.
\<close>

text \<open>The delimiters: a comma or white space, and these with the beginnings of a value.\<close>

definition blanks :: string where
  "blanks = [CHR '','', CHR '' '', CHR 0x09, CHR 0x0D, CHR 0x0A]"

definition key_ends :: string where
  "key_ends = [CHR '':'', CHR ''='', CHR ''(''] @ blanks"

section \<open>parse\_value\<close>

text \<open>The inner loop: \<open>Inl n\<close> is the return at the end of the string, \<open>Inr n\<close> the end of the
  loop.\<close>

function paren_loop :: "cmem \<Rightarrow> nat \<Rightarrow> nat \<Rightarrow> int \<Rightarrow> (nat + nat) option" where
  "paren_loop mem s n level =
     (case load mem (s + n) of
        None \<Rightarrow> None
      | Some c \<Rightarrow>
          if c = NUL then Some (Inl n)
          else (let level = (if c = CHR ''('' then level + 1
                             else if c = CHR '')'' then level - 1 else level)
                in if level > 0 then paren_loop mem s (n + 1) level else Some (Inr (n + 1))))"
  by pat_completeness auto

termination
  by (relation "measure (\<lambda>(mem, s, n, level). length mem - (s + n))")
    (auto simp: load_def split: if_splits)

declare paren_loop.simps [simp del]

lemma paren_loop_advances: "paren_loop mem s n level = Some (Inr m) \<Longrightarrow> n < m \<and> s + n < length mem"
proof (induction mem s n level arbitrary: m rule: paren_loop.induct)
  case (1 mem s n level)
  note unfolded = 1(2) [unfolded paren_loop.simps [of mem s n level]]
  then obtain c where c: "load mem (s + n) = Some c" "c \<noteq> NUL"
    by (auto split: option.splits if_splits)
  let ?l = "if c = CHR ''('' then level + 1 else if c = CHR '')'' then level - 1 else level"
  have "n < m"
  proof (cases "?l > 0")
    case True
    with unfolded c have "paren_loop mem s (n + 1) ?l = Some (Inr m)" by simp
    from 1(1) [OF c refl True this] show ?thesis by simp
  next
    case False
    with unfolded c show ?thesis by auto
  qed
  with c(1) show ?case by (simp add: load_def split: if_splits)
qed

function parse_value_loop :: "cmem \<Rightarrow> nat \<Rightarrow> string \<Rightarrow> nat \<Rightarrow> nat option" where
  "parse_value_loop mem s delimiters n =
     (case load mem (s + n) of
        None \<Rightarrow> None
      | Some c \<Rightarrow>
          if c = NUL \<or> c \<in> set delimiters then Some n
          else if c = CHR ''('' then
            (case paren_loop mem s n 0 of
               None \<Rightarrow> None
             | Some (Inl m) \<Rightarrow> Some m
             | Some (Inr m) \<Rightarrow> parse_value_loop mem s delimiters m)
          else parse_value_loop mem s delimiters (n + 1))"
  by pat_completeness auto

termination
  by (relation "measure (\<lambda>(mem, s, delimiters, n). length mem - (s + n))")
    (auto simp: load_def dest: paren_loop_advances split: if_splits)

declare parse_value_loop.simps [simp del]

definition parse_value :: "cmem \<Rightarrow> nat \<Rightarrow> string \<Rightarrow> nat option" where
  "parse_value mem s delimiters = parse_value_loop mem s delimiters 0"

section \<open>client\_parse\_key\_value\<close>

text \<open>The length and the delimiter of a value of the form \<open>(x)->y\<close>.\<close>

definition parse_arrow :: "cmem \<Rightarrow> char \<Rightarrow> nat \<Rightarrow> nat \<Rightarrow> char \<Rightarrow> (nat \<times> char) option" where
  "parse_arrow mem key_delim val value_len value_delim =
     (if key_delim = CHR ''('' \<and> value_delim = CHR '')'' then do {
        c1 \<leftarrow> load mem (val + value_len + 1);
        if c1 = CHR ''-'' then do {
          c2 \<leftarrow> load mem (val + value_len + 2);
          if c2 = CHR ''>'' then do {
            n \<leftarrow> parse_value mem (val + value_len) blanks;
            d \<leftarrow> load mem (val + (value_len + n));
            Some (value_len + n, d)
          } else Some (value_len, value_delim)
        } else Some (value_len, value_delim)
      } else Some (value_len, value_delim))"

text \<open>The value is cut out in place; it begins at \<open>*stringp\<close>.\<close>

definition take_value ::
    "cmem \<Rightarrow> nat \<Rightarrow> char \<Rightarrow> nat \<Rightarrow> (nat \<times> (nat \<times> nat) option \<times> cmem) option" where
  "take_value mem key key_delim stringp = do {
     let value_delims = (if key_delim = CHR ''('' then [CHR '')''] else blanks);
     let val = stringp;
     value_len \<leftarrow> parse_value mem val value_delims;
     value_delim \<leftarrow> load mem (val + value_len);
     (value_len, value_delim) \<leftarrow> parse_arrow mem key_delim val value_len value_delim;
     mem \<leftarrow> store mem (val + value_len) NUL;
     Some (stringp + value_len + (if value_delim \<noteq> NUL then 1 else 0), Some (key, val), mem)
   }"

text \<open>The result is the new \<open>*stringp\<close>, the pointers to the key and the value, \<open>None\<close> when
  there are no more, and the memory.\<close>

definition client_parse_key_value ::
    "cmem \<Rightarrow> nat \<Rightarrow> (nat \<times> (nat \<times> nat) option \<times> cmem) option" where
  "client_parse_key_value mem stringp = do {
     n \<leftarrow> strspn mem stringp blanks;
     let stringp = stringp + n;
     c \<leftarrow> load mem stringp;
     if c = NUL then Some (stringp, None, mem)
     else do {
       let key = stringp;
       key_len \<leftarrow> strcspn mem key key_ends;
       key_delim \<leftarrow> load mem (key + key_len);
       mem \<leftarrow> store mem (key + key_len) NUL;
       let stringp = stringp + key_len + (if key_delim \<noteq> NUL then 1 else 0);
       if key_delim \<noteq> CHR '':'' \<and> key_delim \<noteq> CHR ''='' \<and> key_delim \<noteq> CHR ''('' then
         Some (stringp, Some (key, key + key_len), mem)
       else take_value mem key key_delim stringp
     }
   }"

section \<open>The parser on the text\<close>

text \<open>The length of a value that ends at a delimiter outside of parentheses, with \<open>level\<close> open
  parentheses at the start.\<close>

fun value_length :: "string \<Rightarrow> nat \<Rightarrow> string \<Rightarrow> nat" where
  "value_length ds level [] = 0"
| "value_length ds 0 (c # cs) =
     (if c \<in> set ds then 0
      else if c = CHR ''('' then Suc (value_length ds 1 cs) else Suc (value_length ds 0 cs))"
| "value_length ds (Suc k) (c # cs) =
     (if c = CHR ''('' then Suc (value_length ds (Suc (Suc k)) cs)
      else if c = CHR '')'' then Suc (value_length ds k cs)
      else Suc (value_length ds (Suc k) cs))"

definition arrow_length :: "string \<Rightarrow> nat" where
  "arrow_length r =
     (let n = value_length '')'' 0 r
      in if take 3 (drop n r) = '')->'' then n + value_length blanks 0 (drop n r) else n)"

definition split_value :: "nat \<Rightarrow> string \<Rightarrow> string \<times> string" where
  "split_value n r = (take n r, drop (Suc n) r)"

definition parse_kv :: "string \<Rightarrow> ((string \<times> string) \<times> string) option" where
  "parse_kv s =
     (let s = dropWhile (\<lambda>c. c \<in> set blanks) s;
          k = takeWhile (\<lambda>c. c \<notin> set key_ends) s
      in if s = [] then None
         else (case drop (length k) s of
             [] \<Rightarrow> Some ((k, []), [])
           | d # r \<Rightarrow>
               if d = CHR '':'' \<or> d = CHR ''='' then
                 (let (v, r) = split_value (value_length blanks 0 r) r in Some ((k, v), r))
               else if d = CHR ''('' then
                 (let (v, r) = split_value (arrow_length r) r in Some ((k, v), r))
               else Some ((k, []), r)))"

section \<open>Lemmas\<close>

lemma value_length_le: "value_length ds k s \<le> length s"
  by (induction ds k s rule: value_length.induct) simp_all

lemma paren_loop_value:
  assumes h: "holds_string mem p s" and "n \<le> length s"
  shows "(\<exists>m. paren_loop mem p n (int (Suc j)) = Some (Inl m) \<and>
       m = n + value_length ds (Suc j) (drop n s)) \<or>
     (\<exists>m\<le>length s. paren_loop mem p n (int (Suc j)) = Some (Inr m) \<and> n < m \<and>
       n + value_length ds (Suc j) (drop n s) = m + value_length ds 0 (drop m s))"
  using assms(2)
proof (induction "length s - n" arbitrary: n j)
  case 0
  then have "load mem (p + n) = Some NUL" using holds_load [OF h, of n] by simp
  then have "paren_loop mem p n (int (Suc j)) = Some (Inl n)"
    by (simp add: paren_loop.simps)
  with 0 show ?case by simp
next
  case (Suc d)
  then have n: "n < length s" by simp
  note c = holds_nth [OF h n]
  have IH: "(\<exists>m. paren_loop mem p (Suc n) (int (Suc i)) = Some (Inl m) \<and>
       m = Suc n + value_length ds (Suc i) (drop (Suc n) s)) \<or>
     (\<exists>m\<le>length s. paren_loop mem p (Suc n) (int (Suc i)) = Some (Inr m) \<and> Suc n < m \<and>
       Suc n + value_length ds (Suc i) (drop (Suc n) s) = m + value_length ds 0 (drop m s))" for i
    using Suc.hyps(1) [of "Suc n" i] Suc.hyps(2) n by simp
  note step = paren_loop.simps [of mem p n "int (Suc j)"]
  consider "s ! n = CHR ''(''" | "s ! n = CHR '')''" "j = 0" | i where "s ! n = CHR '')''" "j = Suc i"
    | "s ! n \<noteq> CHR ''(''" "s ! n \<noteq> CHR '')''"
    by (cases j) auto
  then show ?case
  proof cases
    case 1
    then have "paren_loop mem p n (int (Suc j)) = paren_loop mem p (Suc n) (int (Suc (Suc j)))"
      using c step by (simp add: add.commute)
    with 1 c IH [of "Suc j"] show ?thesis by auto
  next
    case 2
    then have "paren_loop mem p n (int (Suc j)) = Some (Inr (Suc n))" using c step by simp
    with 2 c n show ?thesis by auto
  next
    case (3 i)
    then have "paren_loop mem p n (int (Suc j)) = paren_loop mem p (Suc n) (int (Suc i))"
      using c step by simp
    with 3 c IH [of i] show ?thesis by auto
  next
    case 4
    then have "paren_loop mem p n (int (Suc j)) = paren_loop mem p (Suc n) (int (Suc j))"
      using c step by simp
    with 4 c IH [of j] show ?thesis by auto
  qed
qed

lemma parse_value_loop_value:
  assumes h: "holds_string mem p s" and "n \<le> length s"
  shows "parse_value_loop mem p ds n = Some (n + value_length ds 0 (drop n s))"
  using assms(2)
proof (induction "length s - n" arbitrary: n rule: less_induct)
  case less
  note step = parse_value_loop.simps [of mem p ds n]
  show ?case
  proof (cases "n = length s")
    case True
    then show ?thesis using step holds_load [OF h, of n] by simp
  next
    case False
    with less.prems have n: "n < length s" by simp
    note c = holds_nth [OF h n]
    have IH: "parse_value_loop mem p ds m = Some (m + value_length ds 0 (drop m s))"
      if "n < m" "m \<le> length s" for m
      using less.hyps [of m] that n by simp
    show ?thesis
    proof (cases "s ! n \<in> set ds")
      case True
      then show ?thesis using step c by simp
    next
      case nds: False
      show ?thesis
      proof (cases "s ! n = CHR ''(''")
        case False
        then show ?thesis using step c nds IH [of "Suc n"] n by simp
      next
        case True
        then have "paren_loop mem p n 0 = paren_loop mem p (Suc n) (int (Suc 0))"
          using c paren_loop.simps [of mem p n 0] by simp
        moreover have "value_length ds 0 (drop n s) = Suc (value_length ds (Suc 0) (drop (Suc n) s))"
          using True c nds by simp
        ultimately show ?thesis
          using paren_loop_value [OF h, of "Suc n" 0 ds] n step c nds True IH by auto
      qed
    qed
  qed
qed

lemma parse_value_value:
  "holds_string mem p s \<Longrightarrow> parse_value mem p ds = Some (value_length ds 0 s)"
  using parse_value_loop_value [of mem p s 0 ds] by (simp add: parse_value_def)

text \<open>The character behind the first \<open>n\<close>, the terminator at the end.\<close>

definition char_at :: "string \<Rightarrow> nat \<Rightarrow> char" where
  "char_at s n = (if n < length s then s ! n else NUL)"

lemma NUL_neq [simp]: "NUL \<noteq> CHR ''(''" "NUL \<noteq> CHR '')''" "NUL \<noteq> CHR '':''" "NUL \<noteq> CHR ''=''"
  "NUL \<noteq> CHR ''-''" "NUL \<noteq> CHR ''>''"
  by (simp_all add: NUL_def)

lemma take3_iff:
  "take 3 (drop n r) = [a, b, c] \<longleftrightarrow> n + 2 < length r \<and> r ! n = a \<and> r ! (n + 1) = b \<and> r ! (n + 2) = c"
proof (cases "n + 2 < length r")
  case True
  then have "drop n r = r ! n # r ! (n + 1) # r ! (n + 2) # drop (n + 3) r"
    by (simp add: Cons_nth_drop_Suc eval_nat_numeral)
  then show ?thesis using True by (simp add: numeral_3_eq_3)
next
  case False
  then have "length (take 3 (drop n r)) \<noteq> length [a, b, c]" by auto
  then show ?thesis using False by metis
qed

lemma parse_arrow_value:
  assumes h: "holds_string mem val r" and n: "n = value_length '')'' 0 r"
  shows "parse_arrow mem (CHR ''('') val n (char_at r n) =
    Some (arrow_length r, char_at r (arrow_length r))"
proof (cases "take 3 (drop n r) = '')->''")
  case True
  then have t: "n + 2 < length r" "r ! n = CHR '')''" "r ! (n + 1) = CHR ''-''" "r ! (n + 2) = CHR ''>''"
    by (simp_all add: take3_iff)
  let ?m = "value_length blanks 0 (drop n r)"
  have "load mem (val + (n + 1)) = Some (CHR ''-'')" "load mem (val + (n + 2)) = Some (CHR ''>'')"
    using holds_load [OF h, of "n + 1"] holds_load [OF h, of "n + 2"] t by simp_all
  moreover have "parse_value mem (val + n) blanks = Some ?m"
    using parse_value_value [OF holds_suffix [OF h]] t by simp
  moreover have "n + ?m \<le> length r"
    using value_length_le [of blanks 0 "drop n r"] t by simp
  then have "load mem (val + (n + ?m)) = Some (char_at r (n + ?m))"
    using holds_load [OF h, of "n + ?m"] by (simp add: char_at_def)
  ultimately show ?thesis
    using True t by (simp add: parse_arrow_def arrow_length_def n [symmetric] char_at_def add.assoc)
next
  case False
  then have len: "arrow_length r = n" by (simp add: arrow_length_def n [symmetric])
  show ?thesis
  proof (cases "char_at r n = CHR '')''")
    case True
    then have n1: "n < length r" "r ! n = CHR '')''" by (auto simp: char_at_def split: if_splits)
    then have l1: "load mem (val + (n + 1)) = Some (char_at r (n + 1))"
      using holds_load [OF h, of "n + 1"] by (simp add: char_at_def)
    show ?thesis
    proof (cases "char_at r (n + 1) = CHR ''-''")
      case True
      then have n2: "n + 1 < length r" "r ! (n + 1) = CHR ''-''" by (auto simp: char_at_def split: if_splits)
      then have l2: "load mem (val + (n + 2)) = Some (char_at r (n + 2))"
        using holds_load [OF h, of "n + 2"] by (simp add: char_at_def)
      have "char_at r (n + 2) \<noteq> CHR ''>''"
        using False n1 n2 by (auto simp: take3_iff char_at_def split: if_splits)
      with l1 l2 n1 n2 len show ?thesis by (simp add: parse_arrow_def char_at_def add.assoc)
    next
      case False
      with l1 n1 len show ?thesis by (simp add: parse_arrow_def char_at_def add.assoc)
    qed
  next
    case False
    then show ?thesis by (simp add: parse_arrow_def len)
  qed
qed

text \<open>The part of the function after the key: the value, cut out of \<open>r\<close>.\<close>

definition value_part :: "char \<Rightarrow> string \<Rightarrow> nat" where
  "value_part d r = (if d = CHR ''('' then arrow_length r else value_length blanks 0 r)"

lemma arrow_length_le: "arrow_length r \<le> length r"
  using value_length_le [of "'')''" 0 r] value_length_le [of blanks 0 "drop (value_length '')'' 0 r) r"]
  by (auto simp: arrow_length_def Let_def)

lemma value_part_le: "value_part d r \<le> length r"
  using arrow_length_le value_length_le by (simp add: value_part_def)

lemma value_part_parsed:
  assumes h: "holds_string mem val r" and d: "d = CHR '':'' \<or> d = CHR ''='' \<or> d = CHR ''(''"
  shows "\<exists>n c. parse_value mem val (if d = CHR ''('' then [CHR '')''] else blanks) = Some n \<and>
    load mem (val + n) = Some c \<and>
    parse_arrow mem d val n c = Some (value_part d r, char_at r (value_part d r))"
proof (cases "d = CHR ''(''")
  case True
  let ?n = "value_length '')'' 0 r"
  have "load mem (val + ?n) = Some (char_at r ?n)"
    using holds_load [OF h, of ?n] value_length_le [of "'')''" 0 r] by (simp add: char_at_def)
  with True show ?thesis
    using parse_value_value [OF h, of "'')''"] parse_arrow_value [OF h refl] by (simp add: value_part_def)
next
  case False
  let ?n = "value_length blanks 0 r"
  have "load mem (val + ?n) = Some (char_at r ?n)"
    using holds_load [OF h, of ?n] value_length_le [of blanks 0 r] by (simp add: char_at_def)
  with False show ?thesis
    using parse_value_value [OF h, of blanks] by (simp add: parse_arrow_def value_part_def)
qed

lemma take_value_parsed:
  assumes h: "holds_string mem val r" and d: "d = CHR '':'' \<or> d = CHR ''='' \<or> d = CHR ''(''"
  shows "\<exists>p' mem'. take_value mem key d val = Some (p', Some (key, val), mem') \<and>
    holds_string mem' val (take (value_part d r) r) \<and>
    holds_string mem' p' (drop (Suc (value_part d r)) r) \<and> val \<le> p' \<and>
    length mem' = length mem \<and> (\<forall>i. i < val \<or> val + length r \<le> i \<longrightarrow> mem' ! i = mem ! i)"
proof -
  let ?m = "value_part d r"
  have m: "?m \<le> length r" by (rule value_part_le)
  obtain mem' where st: "store mem (val + ?m) NUL = Some mem'"
    and hv: "holds_string mem' val (take ?m r)" and len: "length mem' = length mem"
    and fr: "\<forall>i. i \<noteq> val + ?m \<longrightarrow> mem' ! i = mem ! i"
    and rest: "?m < length r \<longrightarrow> holds_string mem' (val + Suc ?m) (drop (Suc ?m) r)"
    and eq: "?m = length r \<longrightarrow> mem' = mem"
    using holds_store [OF h m] by auto
  let ?p' = "val + ?m + (if char_at r ?m \<noteq> NUL then 1 else 0)"
  have "take_value mem key d val = Some (?p', Some (key, val), mem')"
    using value_part_parsed [OF h d] st by (auto simp: take_value_def Let_def)
  moreover have "holds_string mem' ?p' (drop (Suc ?m) r)"
  proof (cases "?m < length r")
    case True
    then show ?thesis using rest holds_nth(2) [OF h True] by (simp add: char_at_def)
  next
    case False
    then show ?thesis using m eq holds_suffix [OF h, of ?m] by (simp add: char_at_def)
  qed
  moreover have "mem' ! i = mem ! i" if "i < val \<or> val + length r \<le> i" for i
  proof (cases "?m = length r")
    case False
    with m that have "i \<noteq> val + ?m" by auto
    then show ?thesis using fr by simp
  qed (simp add: eq)
  ultimately show ?thesis using hv len by auto
qed

lemma parse_kv_cases:
  assumes "s1 = dropWhile (\<lambda>c. c \<in> set blanks) s" and "k = takeWhile (\<lambda>c. c \<notin> set key_ends) s1"
    and "s1 \<noteq> []" and "length k < length s1"
    and "d = s1 ! length k" and "r = drop (Suc (length k)) s1"
  shows "parse_kv s =
    (if d = CHR '':'' \<or> d = CHR ''='' \<or> d = CHR ''(''
     then Some ((k, take (value_part d r) r), drop (Suc (value_part d r)) r)
     else Some ((k, []), r))"
proof -
  have "drop (length k) s1 = d # r" using assms by (simp add: Cons_nth_drop_Suc)
  then show ?thesis
    using assms(1-3) by (auto simp: parse_kv_def Let_def value_part_def split_value_def)
qed

text \<open>The in-place parser computes \<open>parse_kv\<close>: it returns without an access outside the memory;
  the key, the value and the rest are strings of the memory; nothing outside the parsed
  string has changed.\<close>

definition parsed :: "cmem \<Rightarrow> nat \<Rightarrow> string \<Rightarrow> ((string \<times> string) \<times> string) option \<Rightarrow>
    (nat \<times> (nat \<times> nat) option \<times> cmem) option \<Rightarrow> bool" where
  "parsed mem p s spec result \<longleftrightarrow>
     (case spec of
        None \<Rightarrow> result = Some (p + length s, None, mem)
      | Some ((k, v), r) \<Rightarrow>
          \<exists>p' key val mem'. result = Some (p', Some (key, val), mem') \<and>
            holds_string mem' key k \<and> holds_string mem' val v \<and> holds_string mem' p' r \<and>
            p \<le> key \<and> key \<le> val \<and> val \<le> p' \<and> length mem' = length mem \<and>
            (\<forall>i. i < p \<or> p + length s \<le> i \<longrightarrow> mem' ! i = mem ! i))"

lemma parsedI:
  assumes "result = Some (p', Some (key, val), mem')" and "holds_string mem' key k"
    and "holds_string mem' val v" and "holds_string mem' p' r"
    and "p \<le> key" and "key \<le> val" and "val \<le> p'" and "length mem' = length mem"
    and "\<And>i. i < p \<or> p + length s \<le> i \<Longrightarrow> mem' ! i = mem ! i"
  shows "parsed mem p s (Some ((k, v), r)) result"
  using assms by (simp add: parsed_def)

text \<open>The case of a key that is followed by a delimiter.\<close>

lemma client_parse_delimited:
  assumes h: "holds_string mem key s1" and ne: "k = take (length k) s1" and lt: "length k < length s1"
    and c: "client_parse_key_value mem p = do {
      mem1 \<leftarrow> store mem (key + length k) NUL;
      if s1 ! length k \<noteq> CHR '':'' \<and> s1 ! length k \<noteq> CHR ''='' \<and> s1 ! length k \<noteq> CHR ''('' then
        Some (key + Suc (length k), Some (key, key + length k), mem1)
      else take_value mem1 key (s1 ! length k) (key + Suc (length k)) }"
    and p: "p \<le> key" "p + length s = key + length s1"
    and d: "d = s1 ! length k" and r: "r = drop (Suc (length k)) s1"
  shows "parsed mem p s
    (if d = CHR '':'' \<or> d = CHR ''='' \<or> d = CHR ''(''
     then Some ((k, take (value_part d r) r), drop (Suc (value_part d r)) r)
     else Some ((k, []), r)) (client_parse_key_value mem p)"
proof -
  obtain mem1 where st: "store mem (key + length k) NUL = Some mem1"
    and hk: "holds_string mem1 key k" and len1: "length mem1 = length mem"
    and fr1: "\<forall>i. i \<noteq> key + length k \<longrightarrow> mem1 ! i = mem ! i"
    and hr: "holds_string mem1 (key + Suc (length k)) r"
    using holds_store [OF h, of "length k"] lt ne r by auto
  show ?thesis
  proof (cases "d = CHR '':'' \<or> d = CHR ''='' \<or> d = CHR ''(''")
    case False
    have "parsed mem p s (Some ((k, []), r)) (client_parse_key_value mem p)"
    proof (rule parsedI [OF _ hk _ hr])
      show "client_parse_key_value mem p = Some (key + Suc (length k), Some (key, key + length k), mem1)"
        using c st False d by simp
      show "holds_string mem1 (key + length k) []" using holds_suffix [OF hk, of "length k"] by simp
    qed (use p len1 fr1 lt in auto)
    with False show ?thesis by simp
  next
    case True
    obtain p' mem2 where t: "take_value mem1 key d (key + Suc (length k)) =
        Some (p', Some (key, key + Suc (length k)), mem2)"
      and hv: "holds_string mem2 (key + Suc (length k)) (take (value_part d r) r)"
      and hp: "holds_string mem2 p' (drop (Suc (value_part d r)) r)" and le: "key + Suc (length k) \<le> p'"
      and len2: "length mem2 = length mem1"
      and fr2: "\<forall>i. i < key + Suc (length k) \<or> key + Suc (length k) + length r \<le> i \<longrightarrow> mem2 ! i = mem1 ! i"
      using take_value_parsed [OF hr True, of key] by blast
    have hk2: "holds_string mem2 key k" by (rule holds_frame [OF hk len2]) (use fr2 in simp)
    have "parsed mem p s (Some ((k, take (value_part d r) r), drop (Suc (value_part d r)) r))
        (client_parse_key_value mem p)"
    proof (rule parsedI [OF _ hk2 hv hp])
      show "client_parse_key_value mem p = Some (p', Some (key, key + Suc (length k)), mem2)"
        using c st True d t by auto
    qed (use p len1 len2 fr1 fr2 le lt r in auto)
    with True show ?thesis by simp
  qed
qed

lemma client_parse_key_value_parsed:
  assumes h: "holds_string mem p s"
  shows "parsed mem p s (parse_kv s) (client_parse_key_value mem p)"
proof -
  define n where "n = length (takeWhile (\<lambda>c. c \<in> set blanks) s)"
  define s1 where "s1 = dropWhile (\<lambda>c. c \<in> set blanks) s"
  define k where "k = takeWhile (\<lambda>c. c \<notin> set key_ends) s1"
  have s1: "s1 = drop n s" by (simp add: s1_def n_def dropWhile_eq_drop)
  have n_le: "n \<le> length s" by (simp add: n_def length_takeWhile_le)
  have h1: "holds_string mem (p + n) s1" using holds_suffix [OF h n_le] s1 by simp
  have span: "strspn mem p blanks = Some n" using holds_c_string [OF h] by (simp add: strspn_def n_def)
  have key: "strcspn mem (p + n) key_ends = Some (length k)"
    using holds_c_string [OF h1] by (simp add: strcspn_def k_def)
  have k_le: "length k \<le> length s1" by (simp add: k_def length_takeWhile_le)
  have k: "k = take (length k) s1" by (simp add: k_def takeWhile_eq_take [symmetric])
  have end_eq: "p + length s = p + n + length s1" using s1 n_le by simp
  show ?thesis
  proof (cases "s1 = []")
    case True
    then have "load mem (p + n) = Some NUL" using holds_load [OF h1, of 0] by simp
    with True span end_eq show ?thesis
      by (simp add: parsed_def parse_kv_def client_parse_key_value_def s1_def [symmetric])
  next
    case ne: False
    then have first: "load mem (p + n) = Some (s1 ! 0)" "s1 ! 0 \<noteq> NUL"
      using holds_nth [OF h1, of 0] by simp_all
    have delim: "load mem (p + n + length k) = Some (char_at s1 (length k))"
      using holds_load [OF h1 k_le] by (simp add: char_at_def)
    show ?thesis
    proof (cases "length k = length s1")
      case True
      then have spec: "parse_kv s = Some ((k, []), [])"
        using ne by (simp add: parse_kv_def s1_def [symmetric] k_def [symmetric])
      have "store mem (p + n + length k) NUL = Some mem" "holds_string mem (p + n) k"
        using holds_store [OF h1 k_le] True k by auto
      with span first key delim True show ?thesis
        unfolding spec using holds_suffix [OF \<open>holds_string mem (p + n) k\<close>, of "length k"]
        by (intro parsedI) (auto simp: client_parse_key_value_def char_at_def Let_def)
    next
      case False
      with k_le have lt: "length k < length s1" by simp
      then have d: "char_at s1 (length k) = s1 ! length k" "s1 ! length k \<noteq> NUL"
        using holds_nth(2) [OF h1 lt] by (simp_all add: char_at_def)
      show ?thesis
        unfolding parse_kv_cases [OF s1_def k_def ne lt refl refl]
      proof (rule client_parse_delimited [OF h1 k lt])
        show "client_parse_key_value mem p = do {
            mem1 \<leftarrow> store mem (p + n + length k) NUL;
            if s1 ! length k \<noteq> CHR '':'' \<and> s1 ! length k \<noteq> CHR ''='' \<and> s1 ! length k \<noteq> CHR ''('' then
              Some (p + n + Suc (length k), Some (p + n, p + n + length k), mem1)
            else take_value mem1 (p + n) (s1 ! length k) (p + n + Suc (length k)) }"
          using span first key delim d
          by (simp add: client_parse_key_value_def Let_def cong: if_cong)
      qed (use end_eq in simp_all)
    qed
  qed
qed

end
