(* ===== verification/Gnmi_Ctl.thy ===== *)
theory Gnmi_Ctl
  imports Gnmi_Parser P4Runtime
begin

text \<open>
  \<^verbatim>\<open>clients/gnmi-ctl/gnmi_ctl.cc\<close>: from the parameters on the command line to gNMI requests.

  The two regular expressions are written out as the matchers they stand for: neither of
  them leaves a choice to the order in which the alternatives are tried. A buffer is the
  string it holds; a write that does not fit into it is undefined behaviour, the result
  \<open>None\<close>, like an exception that ends the process and a loop that does not end. The gNMI server behind the channel is the
  parameter \<open>gnmi_env\<close>, with the credentials and the set-up of signals.
\<close>

section \<open>Messages\<close>

record PathElem =
  pe_name :: string
  pe_key :: "(string \<times> string) list"

type_synonym gnmi_path = "PathElem list"

text \<open>The value of an update; floats are the bits of their representation.\<close>

datatype TypedValue =
    StringVal string
  | IntVal int
  | UintVal u64
  | BoolVal bool
  | FloatVal u32
  | ProtoBytes string
  | BytesVal string
  | ValueNotSet

record gnmi_update =
  gu_path :: gnmi_path
  gu_val :: TypedValue

record SetRequest =
  sr_delete :: "gnmi_path list"
  sr_replace :: "gnmi_update list"
  sr_update :: "gnmi_update list"

record GetRequest =
  gr_path :: "gnmi_path list"
  gr_encoding :: string
  gr_type :: string

datatype SubscriptionMode = ON_CHANGE | SAMPLE u64

record SubscribeRequest =
  sub_mode :: string
  sub_updates_only :: bool
  sub_subscriptions :: "(SubscriptionMode \<times> gnmi_path) list"

section \<open>Flags\<close>

record gnmi_flags =
  FLAGS_interval :: u64
  FLAGS_replace :: bool
  FLAGS_get_type :: string
  FLAGS_root_node :: string
  FLAGS_device_key :: string
  FLAGS_device_type_virtual_interface :: string
  FLAGS_name_key :: string
  FLAGS_subtree_config :: string

definition default_gnmi_flags :: gnmi_flags where
  "default_gnmi_flags = \<lparr>FLAGS_interval = 5000, FLAGS_replace = False, FLAGS_get_type = ''ALL'',
     FLAGS_root_node = ''/interfaces/'', FLAGS_device_key = ''device'',
     FLAGS_device_type_virtual_interface = ''virtual-interface'', FLAGS_name_key = ''name'',
     FLAGS_subtree_config = ''config''\<rparr>"

text \<open>The flags of the certificates, \<^verbatim>\<open>clients/client_cert_options.cc\<close>.\<close>

record cert_flags =
  FLAGS_ca_cert_file :: string
  FLAGS_server_key_file :: string
  FLAGS_server_cert_file :: string
  FLAGS_client_key_file :: string
  FLAGS_client_cert_file :: string

definition DEFAULT_CERTS_DIR :: string where
  "DEFAULT_CERTS_DIR = ''/usr/share/stratum/certs/''"

definition set_client_cert_defaults :: cert_flags where
  "set_client_cert_defaults =
     \<lparr>FLAGS_ca_cert_file = DEFAULT_CERTS_DIR @ ''ca.crt'',
      FLAGS_server_key_file = DEFAULT_CERTS_DIR @ ''stratum.key'',
      FLAGS_server_cert_file = DEFAULT_CERTS_DIR @ ''stratum.crt'',
      FLAGS_client_key_file = DEFAULT_CERTS_DIR @ ''client.key'',
      FLAGS_client_cert_file = DEFAULT_CERTS_DIR @ ''client.crt''\<rparr>"

text \<open>The flags behind the channel.\<close>

record channel_flags =
  FLAGS_grpc_use_insecure_mode :: bool
  FLAGS_grpc_addr :: string
  FLAGS_certs :: cert_flags

definition default_channel_flags :: channel_flags where
  "default_channel_flags =
     \<lparr>FLAGS_grpc_use_insecure_mode = False, FLAGS_grpc_addr = ''localhost:9339'',
      FLAGS_certs = set_client_cert_defaults\<rparr>"

section \<open>Paths\<close>

text \<open>\<open>regex_match\<close> of \<open>[key=value]\<close>; the submatches are empty when it does not match.\<close>

definition match_key :: "string \<Rightarrow> string \<times> string" where
  "match_key s =
     (case s of
        [] \<Rightarrow> ([], [])
      | c # t \<Rightarrow>
          (let k = takeWhile (\<lambda>c. c \<noteq> CHR ''='') t;
               u = drop (length k) t;
               v = takeWhile (\<lambda>c. c \<noteq> CHR '']'') (tl u)
           in if c = CHR ''['' \<and> k \<noteq> [] \<and> u \<noteq> [] \<and> v \<noteq> [] \<and> drop (length v) (tl u) = '']''
              then (k, v) else ([], [])))"

definition add_path_elem :: "string \<Rightarrow> string \<Rightarrow> PathElem" where
  "add_path_elem elem_name elem_kv =
     \<lparr>pe_name = elem_name, pe_key = (if elem_kv \<noteq> [] then [match_key elem_kv] else [])\<rparr>"

text \<open>The optional group of the path expression, with the text behind it.\<close>

definition match_group :: "string \<Rightarrow> string \<times> string" where
  "match_group s =
     (case s of
        [] \<Rightarrow> ([], [])
      | c # t \<Rightarrow>
          (let k = takeWhile (\<lambda>c. c \<noteq> CHR ''='') t;
               u = drop (length k) t;
               v = takeWhile (\<lambda>c. c \<noteq> CHR '']'') (tl u);
               w = drop (length v) (tl u)
           in if c = CHR ''['' \<and> k \<noteq> [] \<and> u \<noteq> [] \<and> v \<noteq> [] \<and> w \<noteq> []
              then (''['' @ k @ ''='' @ v @ '']'', tl w) else ([], s)))"

text \<open>A match of the path expression at the beginning of the text.\<close>

definition match_elem :: "string \<Rightarrow> ((string \<times> string) \<times> string) option" where
  "match_elem s =
     (case s of
        [] \<Rightarrow> None
      | c # t \<Rightarrow>
          (let n = takeWhile (\<lambda>c. c \<noteq> CHR ''/'' \<and> c \<noteq> CHR ''['') t
           in if c = CHR ''/'' \<and> n \<noteq> []
              then (let (kv, rest) = match_group (drop (length n) t) in Some ((n, kv), rest))
              else None))"

lemma match_group_length: "length (snd (match_group s)) \<le> length s"
  by (auto simp: match_group_def Let_def split: list.split)

lemma match_elem_length: "match_elem s = Some (m, rest) \<Longrightarrow> length rest < length s"
proof (cases s)
  case (Cons c t)
  let ?n = "takeWhile (\<lambda>c. c \<noteq> CHR ''/'' \<and> c \<noteq> CHR ''['') t"
  assume "match_elem s = Some (m, rest)"
  then have "rest = snd (match_group (drop (length ?n) t))"
    by (simp add: Cons match_elem_def case_prod_beta Let_def split: if_splits)
  then have "length rest \<le> length (drop (length ?n) t)" by (simp only: match_group_length)
  then show ?thesis using Cons by simp
qed (simp add: match_elem_def)

text \<open>The iterator over all matches.\<close>

function path_matches :: "string \<Rightarrow> (string \<times> string) list" where
  "path_matches s =
     (if s = [] then []
      else (case match_elem s of
          None \<Rightarrow> path_matches (tl s)
        | Some (m, rest) \<Rightarrow> m # path_matches rest))"
  by pat_completeness auto

termination
  by (relation "measure length") (auto dest: match_elem_length)

declare path_matches.simps [simp del]

definition build_gnmi_path :: "string \<Rightarrow> gnmi_path" where
  "build_gnmi_path path_str = map (\<lambda>(n, kv). add_path_elem n kv) (path_matches path_str)"

section \<open>Requests\<close>

text \<open>\<open>valid_type\<close> are the names that \<open>DataType_Parse\<close> knows.\<close>

definition build_gnmi_get_req :: "(string \<Rightarrow> bool) \<Rightarrow> gnmi_flags \<Rightarrow> string \<Rightarrow> GetRequest \<times> string" where
  "build_gnmi_get_req valid_type flags path =
     (let valid = valid_type (FLAGS_get_type flags)
      in (\<lparr>gr_path = [build_gnmi_path path], gr_encoding = ''PROTO'',
           gr_type = (if valid then FLAGS_get_type flags else ''ALL'')\<rparr>,
          if valid then [] else
            ''Invalid gNMI get data type: '' @ FLAGS_get_type flags @
            '' , use ALL as data type.'' @ [CHR 0x0A]))"

text \<open>Where \<open>strtol(s, &check, 10)\<close> stops: behind the digits, or at the start without any.\<close>

definition strtol_rest :: "string \<Rightarrow> string" where
  "strtol_rest s =
     (let t = dropWhile is_space s;
          t = (if t \<noteq> [] \<and> (hd t = CHR ''-'' \<or> hd t = CHR ''+'') then tl t else t)
      in if t \<noteq> [] \<and> is_digit (hd t) then dropWhile is_digit t else s)"

text \<open>\<open>stoull\<close>: an exception without digits and above \<open>2 ^ 64\<close>; a minus sign negates modulo
  \<open>2 ^ 64\<close>.\<close>

definition stoull :: "string \<Rightarrow> u64 option" where
  "stoull s =
     (let t = dropWhile is_space s;
          negative = (t \<noteq> [] \<and> hd t = CHR ''-'');
          t = (if t \<noteq> [] \<and> (hd t = CHR ''-'' \<or> hd t = CHR ''+'') then tl t else t);
          n = digits_value (takeWhile is_digit t)
      in if t = [] \<or> \<not> is_digit (hd t) \<or> 2 ^ 64 \<le> n then None
         else Some (word_of_int (if negative then - n else n)))"

definition set_value :: "string \<Rightarrow> TypedValue option" where
  "set_value val =
     (if strtol_rest val \<noteq> [] then Some (StringVal val)
      else do { n \<leftarrow> stoull val; Some (IntVal (sint n)) })"

definition empty_SetRequest :: SetRequest where
  "empty_SetRequest = \<lparr>sr_delete = [], sr_replace = [], sr_update = []\<rparr>"

definition build_gnmi_set_req :: "gnmi_flags \<Rightarrow> string \<Rightarrow> string \<Rightarrow> SetRequest option" where
  "build_gnmi_set_req flags path val = do {
     v \<leftarrow> set_value val;
     let update = \<lparr>gu_path = build_gnmi_path path, gu_val = v\<rparr>;
     Some (if FLAGS_replace flags then empty_SetRequest\<lparr>sr_replace := [update]\<rparr>
           else empty_SetRequest\<lparr>sr_update := [update]\<rparr>)
   }"

definition build_gnmi_del_req :: "string \<Rightarrow> SetRequest" where
  "build_gnmi_del_req path = empty_SetRequest\<lparr>sr_delete := [build_gnmi_path path]\<rparr>"

definition build_gnmi_sub_onchange_req :: "string \<Rightarrow> SubscribeRequest" where
  "build_gnmi_sub_onchange_req path =
     \<lparr>sub_mode = ''STREAM'', sub_updates_only = True,
      sub_subscriptions = [(ON_CHANGE, build_gnmi_path path)]\<rparr>"

definition build_gnmi_sub_sample_req :: "string \<Rightarrow> u64 \<Rightarrow> SubscribeRequest" where
  "build_gnmi_sub_sample_req path interval =
     \<lparr>sub_mode = ''STREAM'', sub_updates_only = True,
      sub_subscriptions = [(SAMPLE interval, build_gnmi_path path)]\<rparr>"

section \<open>Parameters\<close>

definition MAX_STR_LENGTH :: nat where "MAX_STR_LENGTH = 128"

text \<open>The whole of \<open>dst\<close> after the copy.\<close>

definition client_strzcpy :: "string \<Rightarrow> nat \<Rightarrow> cmem" where
  "client_strzcpy src sz =
     (if sz > 0 then take (sz - 1) src @ replicate (sz - length (take (sz - 1) src)) NUL
      else [])"

text \<open>\<open>snprintf\<close> or \<open>strcpy\<close> of \<open>t\<close> behind the string \<open>s\<close> of a buffer, with a size that cuts off
  nothing.\<close>

definition append_buffer :: "string \<Rightarrow> string \<Rightarrow> string option" where
  "append_buffer s t = (if length s + length t < MAX_STR_LENGTH then Some (s @ t) else None)"

text \<open>A key and a value read from the parameters, as strings.\<close>

definition next_pair ::
    "cmem \<Rightarrow> nat \<Rightarrow> (nat \<times> (string \<times> string) option \<times> cmem) option" where
  "next_pair mem p = do {
     (p, kv, mem) \<leftarrow> client_parse_key_value mem p;
     Some (p, map_option (\<lambda>(k, v). (c_string mem k, c_string mem v)) kv, mem)
   }"

record node_state =
  ns_path :: nat
  ns_mem :: cmem
  ns_node_path :: string
  ns_vhost_dev :: bool
  ns_out :: string

text \<open>The two blocks of the loop of \<open>extract_interface_node\<close>: \<open>Inl\<close> is the return of \<open>-1\<close>.\<close>

definition extract_device ::
    "gnmi_flags \<Rightarrow> string \<Rightarrow> string \<Rightarrow> int \<Rightarrow> node_state \<Rightarrow>
     (node_state + int \<times> node_state) option" where
  "extract_device flags key val found_node st =
     (if key = FLAGS_device_key flags then do {
        node_path \<leftarrow> append_buffer (ns_node_path st) (FLAGS_device_type_virtual_interface flags);
        let st = st\<lparr>ns_node_path := node_path\<rparr>;
        if val \<noteq> ''virtual-device'' \<and> val \<noteq> ''physical-device'' then Some (Inl st)
        else if val = ''virtual-device'' then
          Some (Inr (found_node + 1,
            st\<lparr>ns_out := ns_out st @ ''setting vhost_dev = true.'', ns_vhost_dev := True\<rparr>))
        else Some (Inr (found_node + 1, st))
      } else Some (Inr (found_node, st)))"

definition extract_name ::
    "gnmi_flags \<Rightarrow> string \<Rightarrow> string \<Rightarrow> int \<Rightarrow> node_state \<Rightarrow> (int \<times> node_state) option" where
  "extract_name flags key val found_node st =
     (if key = FLAGS_name_key flags then do {
        node_path \<leftarrow> append_buffer (ns_node_path st) (''[name='' @ val @ '']/'');
        Some (found_node + 1, st\<lparr>ns_node_path := node_path\<rparr>)
      } else Some (found_node, st))"

lemma store_length: "store mem p c = Some mem' \<Longrightarrow> length mem' = length mem \<and> p < length mem"
  by (auto simp: store_def split: if_splits)

lemma take_value_bound:
  "take_value mem key d p = Some (p', kv, mem') \<Longrightarrow>
   length mem' = length mem \<and> p \<le> p' \<and> p' \<le> length mem"
  by (auto simp: take_value_def Let_def bind_eq_Some_conv dest!: store_length)

lemma client_parse_advances:
  assumes "client_parse_key_value mem p = Some (p', Some kv, mem')"
  shows "length mem' = length mem \<and> p < p' \<and> p' \<le> length mem"
proof -
  obtain n c where n: "strspn mem p blanks = Some n" "load mem (p + n) = Some c" "c \<noteq> NUL"
    using assms by (auto simp: client_parse_key_value_def Let_def bind_eq_Some_conv split: if_splits)
  from assms n obtain key_len delim mem1 where
    s: "load mem (p + n + key_len) = Some delim" "store mem (p + n + key_len) NUL = Some mem1"
    and r: "(if delim \<noteq> CHR '':'' \<and> delim \<noteq> CHR ''='' \<and> delim \<noteq> CHR ''('' then
        Some (p + n + key_len + (if delim \<noteq> NUL then 1 else 0), Some (p + n, p + n + key_len), mem1)
      else take_value mem1 (p + n) delim (p + n + key_len + (if delim \<noteq> NUL then 1 else 0))) =
      Some (p', Some kv, mem')"
    unfolding client_parse_key_value_def Let_def bind_eq_Some_conv by (auto simp only: option.inject if_False bind_eq_Some_conv)
  let ?q = "p + n + key_len + (if delim \<noteq> NUL then 1 else 0)"
  have "key_len = 0 \<Longrightarrow> delim \<noteq> NUL" using s(1) n by auto
  then have "p < ?q" by (cases key_len) auto
  moreover have "length mem1 = length mem" "?q \<le> length mem" using store_length [OF s(2)] by auto
  moreover have "mem' = mem1 \<and> p' = ?q \<or> length mem' = length mem1 \<and> ?q \<le> p' \<and> p' \<le> length mem1"
  proof (cases "delim \<noteq> CHR '':'' \<and> delim \<noteq> CHR ''='' \<and> delim \<noteq> CHR ''(''")
    case True
    with r show ?thesis by simp
  next
    case False
    with r have "take_value mem1 (p + n) delim ?q = Some (p', Some kv, mem')" by (simp only: if_False)
    then show ?thesis using take_value_bound by blast
  qed
  ultimately show ?thesis by auto
qed

lemma next_pair_advances:
  "next_pair mem p = Some (p', Some kv, mem') \<Longrightarrow>
   length mem' = length mem \<and> p < p' \<and> p' \<le> length mem"
  by (auto simp: next_pair_def bind_eq_Some_conv dest: client_parse_advances)

lemma extract_frame:
  "extract_device flags key val n st = Some (Inr (m, st')) \<Longrightarrow>
   ns_mem st' = ns_mem st \<and> ns_path st' = ns_path st"
  "extract_name flags key val n st = Some (m, st') \<Longrightarrow>
   ns_mem st' = ns_mem st \<and> ns_path st' = ns_path st"
  by (auto simp: extract_device_def extract_name_def Let_def bind_eq_Some_conv split: if_splits)

function extract_interface_node :: "gnmi_flags \<Rightarrow> int \<Rightarrow> node_state \<Rightarrow> (bool \<times> node_state) option" where
  "extract_interface_node flags found_node st =
     (case next_pair (ns_mem st) (ns_path st) of
        None \<Rightarrow> None
      | Some (p, None, mem) \<Rightarrow> Some (True, st\<lparr>ns_path := p, ns_mem := mem\<rparr>)
      | Some (p, Some (key, val), mem) \<Rightarrow>
          (let st = st\<lparr>ns_path := p, ns_mem := mem\<rparr>
           in case extract_device flags key val found_node st of
                None \<Rightarrow> None
              | Some (Inl st) \<Rightarrow> Some (True, st)
              | Some (Inr (found_node, st)) \<Rightarrow>
                  (case extract_name flags key val found_node st of
                     None \<Rightarrow> None
                   | Some (found_node, st) \<Rightarrow>
                       if found_node = 2 then Some (False, st)
                       else extract_interface_node flags found_node st)))"
  by pat_completeness auto

termination
  by (relation "measure (\<lambda>(flags, n, st). length (ns_mem st) - ns_path st)")
    (auto dest!: extract_frame next_pair_advances)

declare extract_interface_node.simps [simp del]

text \<open>The result: \<open>flag\<close>, the pointer, the memory, the node path and the configuration value,
  which is empty before.\<close>

definition traverse_params ::
    "gnmi_flags \<Rightarrow> cmem \<Rightarrow> nat \<Rightarrow> string \<Rightarrow> (bool \<times> nat \<times> cmem \<times> string \<times> string) option" where
  "traverse_params flags mem p node_path = do {
     (p, kv, mem) \<leftarrow> next_pair mem p;
     case kv of
       None \<Rightarrow> Some (False, p, mem, node_path, [])
     | Some (key, val) \<Rightarrow>
         if val \<noteq> [] then do {
           node_path \<leftarrow> append_buffer node_path (FLAGS_subtree_config flags @ ''/'' @ key);
           config_value \<leftarrow> append_buffer [] val;
           Some (True, p, mem, node_path, config_value)
         } else if key \<noteq> [] then do {
           node_path \<leftarrow> append_buffer node_path (FLAGS_subtree_config flags @ ''/'' @ key);
           Some (True, p, mem, node_path, [])
         } else Some (False, p, mem, node_path, [])
   }"

section \<open>Commands\<close>

record ('e, 'r) gnmi_env =
  gn_create_pipe :: "'e \<Rightarrow> Status \<times> 'e"
  gn_signal :: "'e \<Rightarrow> bool \<times> 'e"
  gn_pthread_create :: "'e \<Rightarrow> bool \<times> 'e"
  gn_credentials :: "cert_flags \<Rightarrow> 'e \<Rightarrow> (Status + nat) \<times> 'e"
  gn_create_channel :: "string \<Rightarrow> nat option \<Rightarrow> 'e \<Rightarrow> 'e"
  gn_capabilities :: "'e \<Rightarrow> (Status \<times> 'r) \<times> 'e"
  gn_get :: "GetRequest \<Rightarrow> 'e \<Rightarrow> (Status \<times> 'r) \<times> 'e"
  gn_set :: "SetRequest \<Rightarrow> 'e \<Rightarrow> (Status \<times> 'r) \<times> 'e"
  gn_stream_write :: "SubscribeRequest \<Rightarrow> 'e \<Rightarrow> bool \<times> 'e"
  gn_stream_read :: "'e \<Rightarrow> 'r option \<times> 'e"
  gn_stream_finish :: "'e \<Rightarrow> Status \<times> 'e"
  gn_debug_string :: "'r \<Rightarrow> string"
  gn_data_type :: "string \<Rightarrow> bool"

text \<open>The result of \<open>Main\<close>: a status, or the error \<open>ERR_INVALID_PARAM\<close> with a message.\<close>

datatype cmd_result = Returned Status | InvalidParam string

text \<open>The environment and the text printed so far.\<close>

type_synonym 'e cmd_state = "'e \<times> string"

definition line :: "string \<Rightarrow> string" where
  "line s = s @ [CHR 0x0A]"

text \<open>\<open>RETURN_IF_GRPC_ERROR\<close>: a cancelled call is no error.\<close>

definition grpc_error :: "Status \<Rightarrow> bool" where
  "grpc_error status \<longleftrightarrow> \<not> ok status \<and> st_code status \<noteq> 1"

definition PRINT_MSG :: "string \<Rightarrow> string \<Rightarrow> string" where
  "PRINT_MSG debug_string prompt = line prompt @ line debug_string"

lemma traverse_advances:
  "traverse_params flags mem p s = Some (True, p', mem', path, val) \<Longrightarrow>
   length mem' = length mem \<and> p < p' \<and> p' \<le> length mem"
  by (auto simp: traverse_params_def bind_eq_Some_conv dest: next_pair_advances
      split: option.splits if_splits)

function set_loop ::
    "('e, 'r) gnmi_env \<Rightarrow> gnmi_flags \<Rightarrow> string \<Rightarrow> bool \<Rightarrow> cmem \<Rightarrow> nat \<Rightarrow> 'e \<Rightarrow>
     (Status option \<times> 'e) option" where
  "set_loop g flags buffer vhost_device mem p e =
     (case traverse_params flags mem p buffer of
        None \<Rightarrow> None
      | Some (params, p', mem', path1, config_value) \<Rightarrow>
          (let config_value =
                 (if (config_value = ''link'' \<or> config_value = ''LINK'') \<and> vhost_device
                  then ''vhost'' else config_value)
           in if \<not> params then Some (None, e)
              else (case build_gnmi_set_req flags path1 config_value of
                  None \<Rightarrow> None
                | Some req \<Rightarrow>
                    (let ((status, resp), e) = gn_set g req e
                     in if grpc_error status then Some (Some status, e)
                        else set_loop g flags buffer vhost_device mem' p' e))))"
  by pat_completeness auto

termination
  by (relation "measure (\<lambda>(g, flags, buffer, v, mem, p, e). length mem - p)")
    (auto dest!: traverse_advances)

declare set_loop.simps [simp del]

definition kUsage :: string where
  "kUsage = concat (map line
     [''usage: gnmi-ctl [Options] {get,set,cap,sub-onchange,sub-sample} parameters'', [],
      ''Basic gNMI CLI'', [],
      ''positional arguments:'',
      ''  {get,set,cap,sub-onchange,sub-sample}         gNMI command'',
      ''  parameter                                     gNMI config parameters'', [],
      ''parameters:'',
      ''  \"device:<type>,name=<name>,<key:value>\"'', [],
      ''example:'',
      ''   gnmi-ctl set \"device:<type>,name=<name>,<key:value>,<key:value>,...\"'',
      ''   gnmi-ctl get \"device:<type>,name=<name>,key\"''])"

text \<open>One request with its answer printed.\<close>

definition one_request ::
    "('e, 'r) gnmi_env \<Rightarrow> ('e \<Rightarrow> (Status \<times> 'r) \<times> 'e) \<Rightarrow> string \<Rightarrow> 'e cmd_state \<Rightarrow>
     cmd_result \<times> 'e cmd_state" where
  "one_request g call prompt st =
     (let ((status, resp), e) = call (fst st)
      in if grpc_error status then (Returned status, (e, snd st))
         else (Returned OkStatus, (e, snd st @ PRINT_MSG (gn_debug_string g resp) prompt)))"

text \<open>\<open>while (stream_reader_writer->Read(&resp)) PRINT_MSG(resp, "RESPONSE")\<close>: a stream that the server
  never ends is read for ever, the result \<open>None\<close>.\<close>

partial_function (option) read_responses ::
    "('e \<Rightarrow> 'r option \<times> 'e) \<Rightarrow> ('r \<Rightarrow> string) \<Rightarrow> 'e cmd_state \<Rightarrow> 'e cmd_state option" where
  "read_responses read msg_text st =
     (case read (fst st) of
        (None, e) \<Rightarrow> Some (e, snd st)
      | (Some resp, e) \<Rightarrow>
          read_responses read msg_text (e, snd st @ PRINT_MSG (msg_text resp) ''RESPONSE''))"

text \<open>Whether the request could be written is not checked.\<close>

definition subscribe ::
    "('e, 'r) gnmi_env \<Rightarrow> SubscribeRequest \<Rightarrow> 'e cmd_state \<Rightarrow> (cmd_result \<times> 'e cmd_state) option" where
  "subscribe g req st = do {
     let (_, e) = gn_stream_write g req (fst st);
     (e, out) \<leftarrow> read_responses (gn_stream_read g) (gn_debug_string g) (e, snd st);
     let (status, e) = gn_stream_finish g e;
     Some (Returned (if grpc_error status then status else OkStatus), (e, out))
   }"

text \<open>The commands with parameters, after \<open>extract_interface_node\<close> has succeeded: \<open>path\<close> is the
  rest of the parameters.\<close>

definition run_command ::
    "('e, 'r) gnmi_env \<Rightarrow> gnmi_flags \<Rightarrow> string \<Rightarrow> node_state \<Rightarrow> 'e cmd_state \<Rightarrow>
     (cmd_result \<times> 'e cmd_state) option" where
  "run_command g flags cmd ns st =
     (let buffer = ns_node_path ns; mem = ns_mem ns; path = ns_path ns
      in if cmd = ''get'' then do {
           (params, p, mem, path1, config_value) \<leftarrow> traverse_params flags mem path buffer;
           let (req, out) = build_gnmi_get_req (gn_data_type g) flags path1;
           Some (one_request g (gn_get g req) ''Get Response from Server'' (fst st, snd st @ out))
         } else if cmd = ''set'' then do {
           (r, e) \<leftarrow> set_loop g flags buffer (ns_vhost_dev ns) mem path (fst st);
           Some (case r of
               Some status \<Rightarrow> (Returned status, (e, snd st))
             | None \<Rightarrow> (Returned OkStatus, (e, snd st @ line ''Set request, successful...!!!'')))
         } else if cmd = ''del'' then
           Some (one_request g (gn_set g (build_gnmi_del_req (c_string mem path))) ''RESPONSE'' st)
         else if cmd = ''sub-onchange'' then
           subscribe g (build_gnmi_sub_onchange_req (c_string mem path)) st
         else if cmd = ''sub-sample'' then
           subscribe g (build_gnmi_sub_sample_req (c_string mem path) (FLAGS_interval flags)) st
         else Some (InvalidParam (''Unknown command: '' @ cmd), st))"

text \<open>Signals and the channel: \<open>Inl\<close> is an early return. What the handler and the thread that
  are installed here do is in \<open>Client_Cancel\<close>.\<close>

definition gnmi_setup ::
    "('e, 'r) gnmi_env \<Rightarrow> channel_flags \<Rightarrow> 'e \<Rightarrow> (Status \<times> 'e) + 'e" where
  "gnmi_setup g ch e =
     (let (status, e) = gn_create_pipe g e
      in if \<not> ok status then Inl (status, e)
         else (let (signal_set, e) = gn_signal g e
               in if \<not> signal_set then Inl (InternalError [], e)
                  else (let (created, e) = gn_pthread_create g e
                        in if \<not> created then Inl (InternalError [], e)
                           else if FLAGS_grpc_use_insecure_mode ch then
                             Inr (gn_create_channel g (FLAGS_grpc_addr ch) None e)
                           else (case gn_credentials g (FLAGS_certs ch) e of
                               (Inl status, e) \<Rightarrow> Inl (status, e)
                             | (Inr cred, e) \<Rightarrow>
                                 Inr (gn_create_channel g (FLAGS_grpc_addr ch) (Some cred) e)))))"

text \<open>\<open>Main\<close>, the arguments without the name of the program and the flags.\<close>

definition gnmi_Main ::
    "('e, 'r) gnmi_env \<Rightarrow> gnmi_flags \<Rightarrow> channel_flags \<Rightarrow> string list \<Rightarrow> 'e \<Rightarrow>
     (cmd_result \<times> 'e cmd_state) option" where
  "gnmi_Main g flags ch args e =
     (case args of
        [] \<Rightarrow> Some (InvalidParam ''Invalid number of arguments.'', (e, line kUsage))
      | cmd # params \<Rightarrow>
          (case gnmi_setup g ch e of
             Inl (status, e) \<Rightarrow> Some (Returned status, (e, []))
           | Inr e \<Rightarrow>
               if cmd = ''cap'' then
                 Some (one_request g (gn_capabilities g) ''RESPONSE'' (e, PRINT_MSG [] ''REQUEST''))
               else (case params of
                   [] \<Rightarrow> Some (Returned OkStatus, (e, line (''Missing path for '' @ cmd @ '' request'')))
                 | text # _ \<Rightarrow> do {
                     let buffer = c_string (client_strzcpy (FLAGS_root_node flags) MAX_STR_LENGTH) 0;
                     (failed, ns) \<leftarrow> extract_interface_node flags 0
                       \<lparr>ns_path = 0, ns_mem = text @ [NUL], ns_node_path = buffer,
                        ns_vhost_dev = False, ns_out = []\<rparr>;
                     if failed then
                       Some (Returned OkStatus, (e, ns_out ns @ line ''Invalid device and name information''))
                     else run_command g flags cmd ns (e, ns_out ns)
                   })))"

text \<open>The exit status: an error code of gRPC or \<open>ERR_INVALID_PARAM\<close>.\<close>

datatype exit_status = ErrorCode int | ERR_INVALID_PARAM

definition gnmi_main ::
    "('e, 'r) gnmi_env \<Rightarrow> gnmi_flags \<Rightarrow> channel_flags \<Rightarrow> string list \<Rightarrow> 'e \<Rightarrow> exit_status option" where
  "gnmi_main g flags ch args e =
     map_option (\<lambda>(r, st). case r of
         Returned status \<Rightarrow> ErrorCode (st_code status)
       | InvalidParam msg \<Rightarrow> ERR_INVALID_PARAM) (gnmi_Main g flags ch args e)"

end
