(* ===== verification/Sgnmi_Cli.thy ===== *)
theory Sgnmi_Cli
  imports Gnmi_Ctl
begin

text \<open>
  \<^verbatim>\<open>clients/sgnmi_cli/sgnmi_cli.cc\<close>: the secure gNMI client, with the messages and the certificate
  flags of \<open>Gnmi_Ctl\<close>.

  What is outside the repository is the parameter \<open>sgnmi_env\<close>: the two uses of RE2, the parser
  of the flags, the set-up of signals and credentials, the channel, the gNMI server, the text
  of messages, files, and the conversion of a text to a float. A result \<open>None\<close> is a loop that
  does not end. An exception is a value, since \<open>main\<close> catches it. Interrupts and the
  clean-up at the end of \<open>Main\<close> are in \<open>Client_Cancel\<close>; log lines are left out.
\<close>

section \<open>Flags\<close>

record sgnmi_flags =
  sg_grpc_use_insecure_mode :: bool
  sg_grpc_addr :: string
  sg_bool_val :: string
  sg_int_val :: string
  sg_uint_val :: string
  sg_string_val :: string
  sg_float_val :: string
  sg_proto_bytes :: string
  sg_bytes_val_file :: string
  sg_replace :: bool
  sg_get_type :: string
  sg_interval :: u64

definition default_sgnmi_flags :: "string \<Rightarrow> sgnmi_flags" where
  "default_sgnmi_flags kLocalStratumUrl =
     \<lparr>sg_grpc_use_insecure_mode = False, sg_grpc_addr = kLocalStratumUrl, sg_bool_val = [],
      sg_int_val = [], sg_uint_val = [], sg_string_val = [], sg_float_val = [], sg_proto_bytes = [],
      sg_bytes_val_file = [], sg_replace = False, sg_get_type = ''ALL'', sg_interval = 5000\<rparr>"

section \<open>The environment\<close>

datatype gnmi_request =
    CapabilityRequest
  | Get GetRequest
  | Set SetRequest
  | Subscribe SubscribeRequest

record ('e, 'r) sgnmi_env =
  sg_consume :: "string \<Rightarrow> ((string \<times> string) \<times> string) option"
  sg_full_match :: "string \<Rightarrow> (string \<times> string) option"
  sg_init_google :: "cert_flags \<Rightarrow> string list \<Rightarrow> sgnmi_flags \<times> cert_flags \<times> string list"
  sg_create_pipe :: "'e \<Rightarrow> Status \<times> 'e"
  sg_signal :: "'e \<Rightarrow> bool \<times> 'e"
  sg_pthread_create :: "'e \<Rightarrow> bool \<times> 'e"
  sg_credentials :: "cert_flags \<Rightarrow> 'e \<Rightarrow> (Status + nat) \<times> 'e"
  sg_create_channel :: "string \<Rightarrow> nat option \<Rightarrow> 'e \<Rightarrow> 'e"
  sg_call :: "gnmi_request \<Rightarrow> 'e \<Rightarrow> (Status \<times> 'r) \<times> 'e"
  sg_stream_write :: "SubscribeRequest \<Rightarrow> 'e \<Rightarrow> bool \<times> 'e"
  sg_stream_read :: "'e \<Rightarrow> 'r option \<times> 'e"
  sg_stream_finish :: "'e \<Rightarrow> Status \<times> 'e"
  sg_request_text :: "gnmi_request \<Rightarrow> string"
  sg_response_text :: "'r \<Rightarrow> string"
  sg_data_type :: "string \<Rightarrow> bool"
  sg_read_file :: "string \<Rightarrow> 'e \<Rightarrow> string"
  sg_stof :: "string \<Rightarrow> u32 option"

section \<open>Paths\<close>

definition StringToBool :: "string \<Rightarrow> bool" where
  "StringToBool str \<longleftrightarrow> str = ''y'' \<or> str = ''true'' \<or> str = ''t'' \<or> str = ''yes'' \<or> str = ''1''"

text \<open>A match that fails leaves the key and the value empty.\<close>

definition AddPathElem :: "('e, 'r) sgnmi_env \<Rightarrow> string \<Rightarrow> string \<Rightarrow> PathElem" where
  "AddPathElem g elem_name elem_kv =
     \<lparr>pe_name = elem_name,
      pe_key = (if elem_kv \<noteq> [] then
          (case sg_full_match g elem_kv of Some kv \<Rightarrow> [kv] | None \<Rightarrow> [([], [])])
        else [])\<rparr>"

partial_function (option) BuildGnmiPath :: "('e, 'r) sgnmi_env \<Rightarrow> string \<Rightarrow> gnmi_path option" where
  "BuildGnmiPath g input =
     (case sg_consume g input of
        None \<Rightarrow> Some []
      | Some ((elem_name, elem_kv), rest) \<Rightarrow> do {
          path \<leftarrow> BuildGnmiPath g rest;
          Some (AddPathElem g elem_name elem_kv # path)
        })"

section \<open>Requests\<close>

definition BuildGnmiGetRequest ::
    "('e, 'r) sgnmi_env \<Rightarrow> sgnmi_flags \<Rightarrow> string \<Rightarrow> (GetRequest \<times> string) option" where
  "BuildGnmiGetRequest g flags path = do {
     p \<leftarrow> BuildGnmiPath g path;
     let valid = sg_data_type g (sg_get_type flags);
     Some (\<lparr>gr_path = [p], gr_encoding = ''PROTO'',
            gr_type = (if valid then sg_get_type flags else ''ALL'')\<rparr>,
           if valid then [] else
             line (''Invalid gNMI get data type: '' @ sg_get_type flags @ '' , use ALL as data type.''))
   }"

text \<open>\<open>stoll\<close>: an exception without digits and for a number that \<open>long long\<close> does not hold.\<close>

definition stoll :: "string \<Rightarrow> int option" where
  "stoll s =
     (let t = dropWhile is_space s;
          negative = (t \<noteq> [] \<and> hd t = CHR ''-'');
          t = (if t \<noteq> [] \<and> (hd t = CHR ''-'' \<or> hd t = CHR ''+'') then tl t else t);
          n = digits_value (takeWhile is_digit t);
          v = (if negative then - n else n)
      in if t = [] \<or> \<not> is_digit (hd t) \<or> v < - (2 ^ 63) \<or> 2 ^ 63 \<le> v then None else Some v)"

datatype sg_exception = invalid_number string

text \<open>The value of the update with the text that is printed, or an exception.\<close>

definition flag_value ::
    "('e, 'r) sgnmi_env \<Rightarrow> sgnmi_flags \<Rightarrow> 'e \<Rightarrow> sg_exception + TypedValue \<times> string" where
  "flag_value g flags e =
     (let number = (\<lambda>s r. case r of Some v \<Rightarrow> Inr (v, []) | None \<Rightarrow> Inl (invalid_number s))
      in if sg_bool_val flags \<noteq> [] then Inr (BoolVal (StringToBool (sg_bool_val flags)), [])
         else if sg_int_val flags \<noteq> [] then
           number (sg_int_val flags) (map_option IntVal (stoll (sg_int_val flags)))
         else if sg_uint_val flags \<noteq> [] then
           number (sg_uint_val flags) (map_option UintVal (stoull (sg_uint_val flags)))
         else if sg_float_val flags \<noteq> [] then
           number (sg_float_val flags) (map_option FloatVal (sg_stof g (sg_float_val flags)))
         else if sg_proto_bytes flags \<noteq> [] then Inr (ProtoBytes (sg_proto_bytes flags), [])
         else if sg_string_val flags \<noteq> [] then Inr (StringVal (sg_string_val flags), [])
         else if sg_bytes_val_file flags \<noteq> [] then
           Inr (BytesVal (sg_read_file g (sg_bytes_val_file flags) e), [])
         else Inr (ValueNotSet, line ''No typed value set''))"

definition BuildGnmiSetRequest ::
    "('e, 'r) sgnmi_env \<Rightarrow> sgnmi_flags \<Rightarrow> string \<Rightarrow> 'e \<Rightarrow> (sg_exception + SetRequest \<times> string) option" where
  "BuildGnmiSetRequest g flags path e = do {
     p \<leftarrow> BuildGnmiPath g path;
     Some (case flag_value g flags e of
         Inl x \<Rightarrow> Inl x
       | Inr (v, out) \<Rightarrow>
           (let update = \<lparr>gu_path = p, gu_val = v\<rparr>
            in Inr (if sg_replace flags then empty_SetRequest\<lparr>sr_replace := [update]\<rparr>
                    else empty_SetRequest\<lparr>sr_update := [update]\<rparr>, out)))
   }"

definition BuildGnmiDeleteRequest :: "('e, 'r) sgnmi_env \<Rightarrow> string \<Rightarrow> SetRequest option" where
  "BuildGnmiDeleteRequest g path = do {
     p \<leftarrow> BuildGnmiPath g path;
     Some (empty_SetRequest\<lparr>sr_delete := [p]\<rparr>)
   }"

definition BuildGnmiSubOnchangeRequest :: "('e, 'r) sgnmi_env \<Rightarrow> string \<Rightarrow> SubscribeRequest option" where
  "BuildGnmiSubOnchangeRequest g path = do {
     p \<leftarrow> BuildGnmiPath g path;
     Some \<lparr>sub_mode = ''STREAM'', sub_updates_only = True, sub_subscriptions = [(ON_CHANGE, p)]\<rparr>
   }"

definition BuildGnmiSubSampleRequest ::
    "('e, 'r) sgnmi_env \<Rightarrow> string \<Rightarrow> u64 \<Rightarrow> SubscribeRequest option" where
  "BuildGnmiSubSampleRequest g path interval = do {
     p \<leftarrow> BuildGnmiPath g path;
     Some \<lparr>sub_mode = ''STREAM'', sub_updates_only = True, sub_subscriptions = [(SAMPLE interval, p)]\<rparr>
   }"

section \<open>Commands\<close>

text \<open>The request is printed and sent, and the answer printed.\<close>

definition sg_exchange ::
    "('e, 'r) sgnmi_env \<Rightarrow> gnmi_request \<Rightarrow> 'e cmd_state \<Rightarrow> cmd_result \<times> 'e cmd_state" where
  "sg_exchange g req st =
     (let out = snd st @ PRINT_MSG (sg_request_text g req) ''REQUEST'';
          ((status, resp), e) = sg_call g req (fst st)
      in if grpc_error status then (Returned status, (e, out))
         else (Returned OkStatus, (e, out @ PRINT_MSG (sg_response_text g resp) ''RESPONSE'')))"

definition sg_subscribe ::
    "('e, 'r) sgnmi_env \<Rightarrow> SubscribeRequest \<Rightarrow> 'e cmd_state \<Rightarrow> (cmd_result \<times> 'e cmd_state) option" where
  "sg_subscribe g req st =
     (let out = snd st @ PRINT_MSG (sg_request_text g (Subscribe req)) ''REQUEST'';
          (written, e) = sg_stream_write g req (fst st)
      in if \<not> written then Some (Returned (InternalError ''Cannot write request.''), (e, out))
         else do {
           (e, out) \<leftarrow> read_responses (sg_stream_read g) (sg_response_text g) (e, out);
           let (status, e) = sg_stream_finish g e;
           Some (Returned (if grpc_error status then status else OkStatus), (e, out))
         })"

definition sg_command ::
    "('e, 'r) sgnmi_env \<Rightarrow> sgnmi_flags \<Rightarrow> string \<Rightarrow> string \<Rightarrow> 'e cmd_state \<Rightarrow>
     (sg_exception \<times> 'e cmd_state + cmd_result \<times> 'e cmd_state) option" where
  "sg_command g flags cmd path st =
     (if cmd = ''get'' then do {
        (req, out) \<leftarrow> BuildGnmiGetRequest g flags path;
        Some (Inr (sg_exchange g (Get req) (fst st, snd st @ out)))
      } else if cmd = ''set'' then do {
        r \<leftarrow> BuildGnmiSetRequest g flags path (fst st);
        Some (case r of
            Inl x \<Rightarrow> Inl (x, st)
          | Inr (req, out) \<Rightarrow> Inr (sg_exchange g (Set req) (fst st, snd st @ out)))
      } else if cmd = ''del'' then do {
        req \<leftarrow> BuildGnmiDeleteRequest g path;
        Some (Inr (sg_exchange g (Set req) st))
      } else if cmd = ''sub-onchange'' then do {
        req \<leftarrow> BuildGnmiSubOnchangeRequest g path;
        map_option Inr (sg_subscribe g req st)
      } else if cmd = ''sub-sample'' then do {
        req \<leftarrow> BuildGnmiSubSampleRequest g path (sg_interval flags);
        map_option Inr (sg_subscribe g req st)
      } else Some (Inr (InvalidParam (''Unknown command: '' @ cmd), st)))"

text \<open>Signals and the channel: \<open>Inl\<close> is an early return.\<close>

definition sg_setup ::
    "('e, 'r) sgnmi_env \<Rightarrow> sgnmi_flags \<Rightarrow> cert_flags \<Rightarrow> 'e \<Rightarrow> (Status \<times> 'e) + 'e" where
  "sg_setup g flags certs e =
     (let (status, e) = sg_create_pipe g e
      in if \<not> ok status then Inl (status, e)
         else (let (signal_set, e) = sg_signal g e
               in if \<not> signal_set then Inl (InternalError [], e)
                  else (let (created, e) = sg_pthread_create g e
                        in if \<not> created then Inl (InternalError [], e)
                           else if sg_grpc_use_insecure_mode flags then
                             Inr (sg_create_channel g (sg_grpc_addr flags) None e)
                           else (case sg_credentials g certs e of
                               (Inl status, e) \<Rightarrow> Inl (status, e)
                             | (Inr cred, e) \<Rightarrow>
                                 Inr (sg_create_channel g (sg_grpc_addr flags) (Some cred) e)))))"

definition sgnmi_kUsage :: string where
  "sgnmi_kUsage = concat (map line
     [''usage: sgnmi_cli [--help] [Options] COMMAND PATH'', [],
      ''Secure gNMI CLI'', [],
      ''positional arguments:'',
      ''  COMMAND                  gNMI command'',
      ''                           (get,set,cap,del,sub-onchange,sub-sample)'',
      ''  PATH                     gNMI path'', [],
      ''optional arguments:'',
      ''  --helpshort              show help message and exit'',
      ''  --help                   show help on all flags and exit'',
      ''  --grpc_addr GRPC_ADDR    gNMI server address'',
      ''  --ca_cert_file FILE      CA certificate'',
      ''  --client_cert_file FILE  gRPC Client certificate'',
      ''  --client_key_file FILE   gRPC Client key'',
      ''  --grpc_use_insecure_mode Insecure mode (default: false)'', [],
      ''[get request only]'',
      ''  --get-type TYPE          Use specific data type for get request'',
      ''                           (ALL,CONFIG,STATE,OPERATIONAL)'', [],
      ''[set request only]'',
      ''  --bool_val BOOL_VAL      Set boolean value'',
      ''  --int_val INT_VAL        Set int value (64-bit)'',
      ''  --uint_val UINT_VAL      Set uint value (64-bit)'',
      ''  --string_val STRING_VAL  Set string value'',
      ''  --float_val FLOAT_VAL    Set float value'',
      ''  --proto_bytes PROTO_VAL  Set protobuf bytes value'',
      ''  --bytes_val_file FILE    Send file as bytes value'',
      ''  --replace                Replace instead of updating'', [],
      ''[sample subscribe only]'',
      ''  --interval INTERVAL      Sample subscribe poll interval in ms''])"

text \<open>\<open>Main\<close>, the arguments without the name of the program.\<close>

definition sgnmi_Main ::
    "('e, 'r) sgnmi_env \<Rightarrow> string list \<Rightarrow> 'e \<Rightarrow>
     (sg_exception \<times> 'e cmd_state + cmd_result \<times> 'e cmd_state) option" where
  "sgnmi_Main g argv e =
     (let (flags, certs, args) = sg_init_google g set_client_cert_defaults argv
      in case args of
           [] \<Rightarrow> Some (Inr (InvalidParam ''Invalid number of arguments.'', (e, line sgnmi_kUsage)))
         | cmd # params \<Rightarrow>
             (case sg_setup g flags certs e of
                Inl (status, e) \<Rightarrow> Some (Inr (Returned status, (e, [])))
              | Inr e \<Rightarrow>
                  if cmd = ''cap'' then Some (Inr (sg_exchange g CapabilityRequest (e, [])))
                  else (case params of
                      [] \<Rightarrow> Some (Inr (InvalidParam (''Missing path for '' @ cmd @ '' request.''), (e, [])))
                    | path # _ \<Rightarrow> sg_command g flags cmd path (e, []))))"

text \<open>An exception becomes \<open>INTERNAL\<close>.\<close>

definition sgnmi_main :: "('e, 'r) sgnmi_env \<Rightarrow> string list \<Rightarrow> 'e \<Rightarrow> exit_status option" where
  "sgnmi_main g argv e =
     map_option (\<lambda>r. case r of
         Inl x \<Rightarrow> ErrorCode 13
       | Inr (Returned status, st) \<Rightarrow> ErrorCode (st_code status)
       | Inr (InvalidParam msg, st) \<Rightarrow> ERR_INVALID_PARAM) (sgnmi_Main g argv e)"

end
