(* ===== verification/Gnmi_Properties.thy ===== *)
theory Gnmi_Properties
  imports Gnmi_Ctl
begin

text \<open>
  Properties of gnmi-ctl: the parser works in place inside its string, paths are built from
  what is written, a set command sends one request for each pair, and where the buffers and
  the other commands go wrong.
\<close>

section \<open>Pairs\<close>

definition clean_key :: "string \<Rightarrow> bool" where
  "clean_key k \<longleftrightarrow> k \<noteq> [] \<and> NUL \<notin> set k \<and> list_all (\<lambda>c. c \<notin> set key_ends) k"

definition clean_value :: "string \<Rightarrow> bool" where
  "clean_value v \<longleftrightarrow> v \<noteq> [] \<and> NUL \<notin> set v \<and> list_all (\<lambda>c. c \<notin> set blanks \<and> c \<noteq> CHR ''('') v"

fun pairs_text :: "char \<Rightarrow> (string \<times> string) list \<Rightarrow> string" where
  "pairs_text sep [] = []"
| "pairs_text sep [(k, v)] = k @ sep # v"
| "pairs_text sep ((k, v) # p # ps) = k @ sep # v @ CHR '','' # pairs_text sep (p # ps)"

lemma value_length_clean:
  assumes "list_all (\<lambda>c. c \<notin> set blanks \<and> c \<noteq> CHR ''('') v"
    and "rest = [] \<or> (\<exists>r. rest = CHR '','' # r)"
  shows "value_length blanks 0 (v @ rest) = length v"
  using assms(1)
proof (induction v)
  case Nil
  then show ?case using assms(2) by (auto simp: blanks_def)
qed simp

lemma key_ends_blanks: "c \<in> set blanks \<Longrightarrow> c \<in> set key_ends"
  by (simp add: key_ends_def)

lemma parse_kv_item:
  assumes k: "clean_key k" and v: "clean_value v" and sep: "sep = CHR '':'' \<or> sep = CHR ''=''"
    and rest: "rest = [] \<or> (\<exists>r. rest = CHR '','' # r)"
  shows "parse_kv (k @ sep # v @ rest) = Some ((k, v), tl rest)"
proof -
  let ?s = "k @ sep # v @ rest"
  have "dropWhile (\<lambda>c. c \<in> set blanks) ?s = ?s"
    using k key_ends_blanks by (cases k) (auto simp: clean_key_def)
  moreover have "sep \<in> set key_ends" using sep by (auto simp: key_ends_def)
  then have "takeWhile (\<lambda>c. c \<notin> set key_ends) ?s = k"
    using k by (simp add: clean_key_def takeWhile_tail list_all_iff)
  moreover have "value_length blanks 0 (v @ rest) = length v"
    using v rest by (intro value_length_clean) (auto simp: clean_value_def)
  ultimately show ?thesis
    using sep k rest by (auto simp: parse_kv_def split_value_def clean_key_def)
qed

lemma parse_kv_pairs:
  assumes "clean_key k" and "clean_value v" and "sep = CHR '':'' \<or> sep = CHR ''=''"
  shows "parse_kv (pairs_text sep ((k, v) # ps)) = Some ((k, v), pairs_text sep ps)"
  using parse_kv_item [OF assms, of "[]"] parse_kv_item [OF assms, of "CHR '','' # pairs_text sep ps"]
  by (cases ps) auto

lemma next_pair_parsed:
  assumes "holds_string mem p s"
  shows "case parse_kv s of
      None \<Rightarrow> next_pair mem p = Some (p + length s, None, mem)
    | Some ((k, v), r) \<Rightarrow> \<exists>p' mem'. next_pair mem p = Some (p', Some (k, v), mem') \<and> holds_string mem' p' r"
  using client_parse_key_value_parsed [OF assms]
  by (auto simp: parsed_def next_pair_def holds_c_string split: option.splits)

lemma next_pair_pairs:
  assumes "holds_string mem p (pairs_text sep ((k, v) # ps))"
    and "clean_key k" and "clean_value v" and "sep = CHR '':'' \<or> sep = CHR ''=''"
  shows "\<exists>p' mem'. next_pair mem p = Some (p', Some (k, v), mem') \<and>
    holds_string mem' p' (pairs_text sep ps)"
  using next_pair_parsed [OF assms(1)] parse_kv_pairs [OF assms(2-4), of ps] by simp

lemma next_pair_end: "holds_string mem p [] \<Longrightarrow> next_pair mem p = Some (p, None, mem)"
  using next_pair_parsed [of mem p "[]"] by (simp add: parse_kv_def)

section \<open>Paths\<close>

definition path_name :: "string \<Rightarrow> bool" where
  "path_name n \<longleftrightarrow> n \<noteq> [] \<and> CHR ''/'' \<notin> set n \<and> CHR ''['' \<notin> set n"

definition path_key :: "string \<Rightarrow> string \<Rightarrow> bool" where
  "path_key k v \<longleftrightarrow> k \<noteq> [] \<and> CHR ''='' \<notin> set k \<and> v \<noteq> [] \<and> CHR '']'' \<notin> set v"

fun wf_elem :: "PathElem \<Rightarrow> bool" where
  "wf_elem e = (path_name (pe_name e) \<and>
     (case pe_key e of [] \<Rightarrow> True | [(k, v)] \<Rightarrow> path_key k v | _ \<Rightarrow> False))"

definition key_text :: "(string \<times> string) list \<Rightarrow> string" where
  "key_text kvs = concat (map (\<lambda>(k, v). ''['' @ k @ ''='' @ v @ '']'') kvs)"

definition elem_text :: "PathElem \<Rightarrow> string" where
  "elem_text e = ''/'' @ pe_name e @ key_text (pe_key e)"

definition path_text :: "gnmi_path \<Rightarrow> string" where
  "path_text es = concat (map elem_text es)"

lemma match_key_text:
  assumes "path_key k v"
  shows "match_key (''['' @ k @ ''='' @ v @ '']'') = (k, v)"
proof -
  have "takeWhile (\<lambda>c. c \<noteq> CHR ''='') (k @ CHR ''='' # v @ '']'') = k"
    "takeWhile (\<lambda>c. c \<noteq> CHR '']'') (v @ '']'') = v"
    using assms by (auto simp: path_key_def takeWhile_tail)
  with assms show ?thesis by (simp add: match_key_def path_key_def Let_def)
qed

lemma match_group_text:
  assumes "path_key k v"
  shows "match_group (''['' @ k @ ''='' @ v @ '']'' @ r) = (''['' @ k @ ''='' @ v @ '']'', r)"
proof -
  have "takeWhile (\<lambda>c. c \<noteq> CHR ''='') (k @ CHR ''='' # v @ CHR '']'' # r) = k"
    "takeWhile (\<lambda>c. c \<noteq> CHR '']'') (v @ CHR '']'' # r) = v"
    using assms by (auto simp: path_key_def takeWhile_tail)
  with assms show ?thesis by (simp add: match_group_def path_key_def Let_def)
qed

lemma match_elem_text:
  assumes e: "wf_elem e" and r: "r = [] \<or> (\<exists>t. r = CHR ''/'' # t)"
  shows "match_elem (elem_text e @ r) = Some ((pe_name e, key_text (pe_key e)), r)"
proof -
  have "takeWhile (\<lambda>c. c \<noteq> CHR ''/'' \<and> c \<noteq> CHR ''['') (pe_name e @ t) = pe_name e"
    if "t = [] \<or> (\<exists>u. t = CHR ''/'' # u) \<or> (\<exists>u. t = CHR ''['' # u)" for t
    using e that by (auto simp: path_name_def takeWhile_tail takeWhile_eq_all_conv)
  moreover have "key_text (pe_key e) @ r = [] \<or> (\<exists>u. key_text (pe_key e) @ r = CHR ''/'' # u) \<or>
      (\<exists>u. key_text (pe_key e) @ r = CHR ''['' # u)"
    using e r by (auto simp: key_text_def split: list.splits)
  ultimately have n: "takeWhile (\<lambda>c. c \<noteq> CHR ''/'' \<and> c \<noteq> CHR ''['')
      (pe_name e @ key_text (pe_key e) @ r) = pe_name e" by blast
  moreover have "match_group (key_text (pe_key e) @ r) = (key_text (pe_key e), r)"
  proof (cases "pe_key e")
    case Nil
    then show ?thesis using r by (auto simp: key_text_def match_group_def)
  next
    case (Cons kv kvs)
    with e obtain k v where "pe_key e = [(k, v)]" "path_key k v"
      by (cases kv) (auto split: list.splits)
    then show ?thesis using match_group_text [of k v r] by (simp add: key_text_def)
  qed
  ultimately show ?thesis
    using e by (simp add: match_elem_def elem_text_def path_name_def)
qed

lemma path_text_start: "path_text es = [] \<or> (\<exists>t. path_text es = CHR ''/'' # t)"
  by (cases es) (auto simp: path_text_def elem_text_def)

lemma path_matches_text:
  "list_all wf_elem es \<Longrightarrow>
   path_matches (path_text es) = map (\<lambda>e. (pe_name e, key_text (pe_key e))) es"
proof (induction es)
  case Nil
  then show ?case by (simp add: path_text_def path_matches.simps)
next
  case (Cons e es)
  have "match_elem (path_text (e # es)) = Some ((pe_name e, key_text (pe_key e)), path_text es)"
    using match_elem_text [of e "path_text es"] Cons.prems path_text_start [of es]
    by (simp add: path_text_def)
  moreover have "path_text (e # es) \<noteq> []" by (simp add: path_text_def elem_text_def)
  ultimately show ?case using Cons by (simp add: path_matches.simps [of "path_text (e # es)"])
qed

lemma add_path_elem_text:
  assumes e: "wf_elem e"
  shows "add_path_elem (pe_name e) (key_text (pe_key e)) = e"
proof (cases "pe_key e")
  case Nil
  then show ?thesis by (simp add: add_path_elem_def key_text_def)
next
  case (Cons kv kvs)
  with e obtain k v where kv: "pe_key e = [(k, v)]" "path_key k v"
    by (cases kv) (auto split: list.splits)
  then have "match_key (key_text (pe_key e)) = (k, v)" "key_text (pe_key e) \<noteq> []"
    using match_key_text [of k v] by (simp_all add: key_text_def)
  with kv show ?thesis by (simp add: add_path_elem_def)
qed

lemma build_gnmi_path_text:
  assumes "list_all wf_elem es"
  shows "build_gnmi_path (path_text es) = es"
proof -
  have "add_path_elem (pe_name e) (key_text (pe_key e)) = e" if "e \<in> set es" for e
    using assms that by (intro add_path_elem_text) (simp add: list_all_iff)
  then show ?thesis
    using path_matches_text [OF assms] by (simp add: build_gnmi_path_def map_idI)
qed

section \<open>The device and its name\<close>

definition interface_path :: "string \<Rightarrow> gnmi_path" where
  "interface_path name =
     [\<lparr>pe_name = ''interfaces'', pe_key = []\<rparr>,
      \<lparr>pe_name = ''virtual-interface'', pe_key = [(''name'', name)]\<rparr>]"

definition device_types :: "string list" where
  "device_types = [''virtual-device'', ''physical-device'']"

lemma clean_device:
  "clean_key ''device''" "clean_key ''name''" "d \<in> set device_types \<Longrightarrow> clean_value d"
  by (auto simp: clean_key_def clean_value_def device_types_def key_ends_def blanks_def NUL_def)

lemma extract_device_name:
  assumes h: "holds_string (ns_mem st) (ns_path st)
      (pairs_text sep ((''device'', d) # (''name'', name) # ps))"
    and d: "d \<in> set device_types" and name: "clean_value name"
    and sep: "sep = CHR '':'' \<or> sep = CHR ''=''" and root: "ns_node_path st = ''/interfaces/''"
  shows "if length name \<le> 90 then
      \<exists>st'. extract_interface_node default_gnmi_flags 0 st = Some (False, st') \<and>
        ns_node_path st' = path_text (interface_path name) @ ''/'' \<and>
        ns_vhost_dev st' = (d = ''virtual-device'' \<or> ns_vhost_dev st) \<and>
        holds_string (ns_mem st') (ns_path st') (pairs_text sep ps)
    else extract_interface_node default_gnmi_flags 0 st = None"
proof -
  obtain p1 mem1 where n1: "next_pair (ns_mem st) (ns_path st) = Some (p1, Some (''device'', d), mem1)"
    and h1: "holds_string mem1 p1 (pairs_text sep ((''name'', name) # ps))"
    using next_pair_pairs [OF h clean_device(1,3) sep] d by blast
  obtain p2 mem2 where n2: "next_pair mem1 p1 = Some (p2, Some (''name'', name), mem2)"
    and h2: "holds_string mem2 p2 (pairs_text sep ps)"
    using next_pair_pairs [OF h1 clean_device(2) name sep] by blast
  let ?out = "if d = ''virtual-device'' then ''setting vhost_dev = true.'' else []"
  let ?st1 = "st\<lparr>ns_path := p1, ns_mem := mem1, ns_node_path := ''/interfaces/virtual-interface'',
    ns_out := ns_out st @ ?out, ns_vhost_dev := d = ''virtual-device'' \<or> ns_vhost_dev st\<rparr>"
  have "extract_interface_node default_gnmi_flags 0 st = extract_interface_node default_gnmi_flags 1 ?st1"
    using n1 d root by (subst extract_interface_node.simps)
      (auto simp: extract_device_def extract_name_def default_gnmi_flags_def append_buffer_def
        MAX_STR_LENGTH_def device_types_def)
  moreover have "extract_interface_node default_gnmi_flags 1 ?st1 =
    (if length name \<le> 90
     then Some (False, ?st1\<lparr>ns_path := p2, ns_mem := mem2,
       ns_node_path := ''/interfaces/virtual-interface[name='' @ name @ '']/''\<rparr>)
     else None)"
    using n2 by (subst extract_interface_node.simps)
      (auto simp: extract_device_def extract_name_def default_gnmi_flags_def append_buffer_def
        MAX_STR_LENGTH_def)
  ultimately show ?thesis
    using h2 by (simp add: path_text_def interface_path_def elem_text_def key_text_def)
qed

section \<open>The loop of a set command\<close>

definition config_path :: "string \<Rightarrow> string \<Rightarrow> gnmi_path" where
  "config_path name key = interface_path name @
     [\<lparr>pe_name = ''config'', pe_key = []\<rparr>, \<lparr>pe_name = key, pe_key = []\<rparr>]"

definition port_type :: "bool \<Rightarrow> string \<Rightarrow> string" where
  "port_type vhost_device v = (if (v = ''link'' \<or> v = ''LINK'') \<and> vhost_device then ''vhost'' else v)"

definition update_request :: "bool \<Rightarrow> string \<Rightarrow> string \<times> string \<Rightarrow> SetRequest" where
  "update_request vhost_device name kv = empty_SetRequest\<lparr>sr_update :=
     [\<lparr>gu_path = config_path name (fst kv), gu_val = the (set_value (port_type vhost_device (snd kv)))\<rparr>]\<rparr>"

definition interface_name :: "string \<Rightarrow> bool" where
  "interface_name name \<longleftrightarrow> clean_value name \<and> CHR '']'' \<notin> set name"

text \<open>A pair that a set command can send: it fits the buffers, and its value is a text or a
  number that 64 bits hold.\<close>

definition settable :: "string \<Rightarrow> bool \<Rightarrow> string \<times> string \<Rightarrow> bool" where
  "settable name vhost_device kv \<longleftrightarrow>
     clean_key (fst kv) \<and> path_name (fst kv) \<and> clean_value (snd kv) \<and>
     length name + length (fst kv) < 84 \<and> length (snd kv) < MAX_STR_LENGTH \<and>
     set_value (port_type vhost_device (snd kv)) \<noteq> None"

definition send_all :: "('e, 'r) gnmi_env \<Rightarrow> SetRequest list \<Rightarrow> 'e \<Rightarrow> 'e" where
  "send_all g reqs e = foldl (\<lambda>e req. snd (gn_set g req e)) e reqs"

lemma set_loop_pairs:
  assumes "holds_string mem p (pairs_text sep ps)" and sep: "sep = CHR '':'' \<or> sep = CHR ''=''"
    and "list_all (settable name vh) ps" and name: "interface_name name"
    and ok: "\<And>req e. \<not> grpc_error (fst (fst (gn_set g req e)))"
  shows "set_loop g default_gnmi_flags (path_text (interface_path name) @ ''/'') vh mem p e =
    Some (None, send_all g (map (update_request vh name) ps) e)"
  using assms(1,3)
proof (induction ps arbitrary: mem p e)
  case Nil
  then have "next_pair mem p = Some (p, None, mem)" using next_pair_end by simp
  then show ?case by (subst set_loop.simps) (simp add: traverse_params_def send_all_def)
next
  case (Cons kv ps)
  obtain k v where kv: "kv = (k, v)" by (cases kv)
  with Cons.prems have s: "clean_key k" "path_name k" "clean_value v" "length name + length k < 84"
    "length v < MAX_STR_LENGTH" "set_value (port_type vh v) \<noteq> None"
    by (simp_all add: settable_def)
  obtain p' mem' where n: "next_pair mem p = Some (p', Some (k, v), mem')"
    and h': "holds_string mem' p' (pairs_text sep ps)"
    using next_pair_pairs [OF _ s(1,3) sep] Cons.prems(1) kv by blast
  let ?path = "path_text (interface_path name) @ ''/config/'' @ k"
  have path: "?path = path_text (config_path name k)"
    by (simp add: path_text_def config_path_def interface_path_def elem_text_def key_text_def)
  have "length ?path < MAX_STR_LENGTH"
    using s(4) by (simp add: path_text_def interface_path_def elem_text_def key_text_def MAX_STR_LENGTH_def)
  then have t: "traverse_params default_gnmi_flags mem p (path_text (interface_path name) @ ''/'') =
      Some (True, p', mem', ?path, v)"
    using n s(3,5) by (simp add: traverse_params_def append_buffer_def default_gnmi_flags_def
        clean_value_def MAX_STR_LENGTH_def)
  have "list_all wf_elem (config_path name k)"
    using name s(2)
    by (auto simp: config_path_def interface_path_def path_name_def path_key_def interface_name_def
        clean_value_def)
  then have b: "build_gnmi_set_req default_gnmi_flags ?path (port_type vh v) =
      Some (update_request vh name (k, v))"
    using s(6) path build_gnmi_path_text
    by (auto simp: build_gnmi_set_req_def update_request_def default_gnmi_flags_def)
  obtain st r e' where r: "gn_set g (update_request vh name (k, v)) e = ((st, r), e')" "\<not> grpc_error st"
    using ok [of "update_request vh name (k, v)" e] by (metis fst_conv prod.collapse)
  have "set_loop g default_gnmi_flags (path_text (interface_path name) @ ''/'') vh mem p e =
      set_loop g default_gnmi_flags (path_text (interface_path name) @ ''/'') vh mem' p' e'"
    using t b r by (subst set_loop.simps) (simp add: port_type_def Let_def)
  also have "\<dots> = Some (None, send_all g (map (update_request vh name) ps) e')"
    using Cons.IH [OF h'] Cons.prems(2) by simp
  finally show ?case using r(1) kv by (simp add: send_all_def)
qed

section \<open>Whole commands\<close>

lemma NUL_pairs_text:
  assumes "list_all (\<lambda>(k, v). clean_key k \<and> clean_value v) ps" and "sep = CHR '':'' \<or> sep = CHR ''=''"
  shows "NUL \<notin> set (pairs_text sep ps)"
  using assms by (induction sep ps rule: pairs_text.induct)
    (auto simp: clean_key_def clean_value_def NUL_def)

lemma argument_string: "NUL \<notin> set s \<Longrightarrow> holds_string (s @ [NUL]) 0 s"
  using holds_stringI [of s "s @ [NUL]" "[]" "[]"] by simp

lemma root_buffer: "c_string (client_strzcpy ''/interfaces/'' MAX_STR_LENGTH) 0 = ''/interfaces/''"
  by (simp add: client_strzcpy_def MAX_STR_LENGTH_def c_string_def NUL_def)

abbreviation start_node :: "string \<Rightarrow> node_state" where
  "start_node text \<equiv> \<lparr>ns_path = 0, ns_mem = text @ [NUL], ns_node_path = ''/interfaces/'',
     ns_vhost_dev = False, ns_out = []\<rparr>"

lemma gnmi_Main_params:
  assumes "gnmi_setup g ch e0 = Inr e" and "cmd \<noteq> ''cap''"
  shows "gnmi_Main g default_gnmi_flags ch [cmd, text] e0 = do {
    (failed, ns) \<leftarrow> extract_interface_node default_gnmi_flags 0 (start_node text);
    if failed then
      Some (Returned OkStatus, (e, ns_out ns @ line ''Invalid device and name information''))
    else run_command g default_gnmi_flags cmd ns (e, ns_out ns)
  }"
proof -
  have "FLAGS_root_node default_gnmi_flags = ''/interfaces/''" by (simp add: default_gnmi_flags_def)
  with assms root_buffer show ?thesis by (simp add: gnmi_Main_def Let_def cong: if_cong)
qed

text \<open>A command whose parameters begin with the device and the name.\<close>

lemma gnmi_Main_interface:
  assumes "gnmi_setup g ch e0 = Inr e" and "cmd \<noteq> ''cap''" and sep: "sep = CHR '':'' \<or> sep = CHR ''=''"
    and d: "d \<in> set device_types" and name: "clean_value name"
    and ps: "list_all (\<lambda>(k, v). clean_key k \<and> clean_value v) ps"
  defines "text \<equiv> pairs_text sep ((''device'', d) # (''name'', name) # ps)"
  shows "if length name \<le> 90 then
      \<exists>ns. gnmi_Main g default_gnmi_flags ch [cmd, text] e0 =
          run_command g default_gnmi_flags cmd ns (e, ns_out ns) \<and>
        ns_node_path ns = path_text (interface_path name) @ ''/'' \<and>
        ns_vhost_dev ns = (d = ''virtual-device'') \<and>
        holds_string (ns_mem ns) (ns_path ns) (pairs_text sep ps)
    else gnmi_Main g default_gnmi_flags ch [cmd, text] e0 = None"
proof -
  have "holds_string (text @ [NUL]) 0 text"
    using NUL_pairs_text [of "(''device'', d) # (''name'', name) # ps" sep] d name ps sep clean_device
    unfolding text_def by (intro argument_string) simp
  then have "holds_string (ns_mem (start_node text)) (ns_path (start_node text))
      (pairs_text sep ((''device'', d) # (''name'', name) # ps))"
    by (simp add: text_def)
  from extract_device_name [OF this d name sep] show ?thesis
    unfolding gnmi_Main_params [OF assms(1,2)] by (auto split: if_splits)
qed

section \<open>Properties\<close>

text \<open>C19: on a terminated string the parser of a key and its value returns, without an access
  outside the memory. It finds what the parser on the text finds: the key, the value and the
  rest of the text are strings of the memory afterwards, and nothing outside the string that
  was parsed has changed.\<close>

theorem client_parse_in_place:
  assumes "terminated mem p"
  shows "case parse_kv (c_string mem p) of
      None \<Rightarrow> client_parse_key_value mem p = Some (p + length (c_string mem p), None, mem)
    | Some ((k, v), r) \<Rightarrow>
        \<exists>p' key val mem'. client_parse_key_value mem p = Some (p', Some (key, val), mem') \<and>
          terminated mem' key \<and> c_string mem' key = k \<and>
          terminated mem' val \<and> c_string mem' val = v \<and>
          terminated mem' p' \<and> c_string mem' p' = r \<and>
          p \<le> key \<and> key \<le> val \<and> val \<le> p' \<and> length mem' = length mem \<and>
          (\<forall>i. i < p \<or> p + length (c_string mem p) \<le> i \<longrightarrow> mem' ! i = mem ! i)"
proof (cases "parse_kv (c_string mem p)")
  case None
  then show ?thesis
    using client_parse_key_value_parsed [OF terminated_holds [OF assms]] by (simp add: parsed_def)
next
  case (Some kvr)
  obtain k v r where kvr: "kvr = ((k, v), r)" by (metis surj_pair)
  from client_parse_key_value_parsed [OF terminated_holds [OF assms]] Some kvr
  obtain p' key val mem' where "client_parse_key_value mem p = Some (p', Some (key, val), mem')"
    and h: "holds_string mem' key k" "holds_string mem' val v" "holds_string mem' p' r"
    and "p \<le> key" "key \<le> val" "val \<le> p'" "length mem' = length mem"
      "\<forall>i. i < p \<or> p + length (c_string mem p) \<le> i \<longrightarrow> mem' ! i = mem ! i"
    by (auto simp: parsed_def)
  with holds_c_string [OF h(1)] holds_c_string [OF h(2)] holds_c_string [OF h(3)] Some kvr
  show ?thesis by auto
qed

text \<open>Building a path from the text of a path gives its elements back, with the key of each
  element, when the names have no slash and no bracket and the key and its value are not
  empty and end where they should.\<close>

lemma gnmi_path_roundtrip:
  assumes "list_all wf_elem es"
  shows "build_gnmi_path (path_text es) = es"
  by (rule build_gnmi_path_text [OF assms])

text \<open>C20: a set command whose parameters are a device, a name and further pairs that fit the
  buffers sends one update for each of these pairs, in their order, to the configuration of
  the named interface, and succeeds when the server accepts them and the set-up of signals and
  channel succeeds. On a virtual device the
  values \<open>link\<close> and \<open>LINK\<close> are sent as \<open>vhost\<close>.\<close>

theorem gnmi_set_pairs:
  assumes "sep = CHR '':'' \<or> sep = CHR ''=''" and "d \<in> set device_types" and "interface_name name"
    and "length name \<le> 90" and "list_all (settable name (d = ''virtual-device'')) ps"
    and "\<And>req e. \<not> grpc_error (fst (fst (gn_set g req e)))"
    and "gnmi_setup g ch e0 = Inr e"
  shows "\<exists>out. gnmi_Main g default_gnmi_flags ch
      [''set'', pairs_text sep ((''device'', d) # (''name'', name) # ps)] e0 =
    Some (Returned OkStatus,
      (send_all g (map (update_request (d = ''virtual-device'') name) ps) e, out))"
proof -
  let ?text = "pairs_text sep ((''device'', d) # (''name'', name) # ps)"
  have "list_all (\<lambda>(k, v). clean_key k \<and> clean_value v) ps"
    using assms(5) by (auto simp: list_all_iff settable_def)
  then obtain ns where m: "gnmi_Main g default_gnmi_flags ch [''set'', ?text] e0 =
      run_command g default_gnmi_flags ''set'' ns (e, ns_out ns)"
    and ns: "ns_node_path ns = path_text (interface_path name) @ ''/''"
      "ns_vhost_dev ns = (d = ''virtual-device'')"
    and h: "holds_string (ns_mem ns) (ns_path ns) (pairs_text sep ps)"
    using gnmi_Main_interface [OF assms(7), of "''set''" sep d name ps] assms(1-4) by (auto simp: interface_name_def)
  from set_loop_pairs [OF h assms(1,5,3,6)] show ?thesis
    unfolding m run_command_def Let_def ns by simp
qed

text \<open>C21: the path of the interface overflows its buffer of 128 bytes exactly when the name has
  more than 90 characters; nothing checks its length.\<close>

theorem gnmi_name_overflow:
  assumes "sep = CHR '':'' \<or> sep = CHR ''=''" and "d \<in> set device_types" and "clean_value name"
  shows "extract_interface_node default_gnmi_flags 0
      (start_node (pairs_text sep [(''device'', d), (''name'', name)])) = None \<longleftrightarrow> 90 < length name"
proof -
  let ?text = "pairs_text sep [(''device'', d), (''name'', name)]"
  have "holds_string (?text @ [NUL]) 0 ?text"
    using NUL_pairs_text [of "[(''device'', d), (''name'', name)]" sep] assms clean_device
    by (intro argument_string) simp
  then have h: "holds_string (ns_mem (start_node ?text)) (ns_path (start_node ?text)) ?text" by simp
  from extract_device_name [OF h assms(2,3,1)] show ?thesis by (auto split: if_splits)
qed

text \<open>C22: a delete command does not use the path of the interface: it builds the path from the
  text behind the name. The pairs of that text make no path element, so that the delete is
  sent for the empty path, the root of the tree, once the set-up has succeeded.\<close>

theorem gnmi_del_root:
  assumes "sep = CHR '':'' \<or> sep = CHR ''=''" and "d \<in> set device_types" and "clean_value name"
    and "length name \<le> 90" and "list_all (\<lambda>(k, v). clean_key k \<and> clean_value v) ps"
    and "CHR ''/'' \<notin> set (pairs_text sep ps)"
    and "gnmi_setup g ch e0 = Inr e"
  shows "\<exists>r out. gnmi_Main g default_gnmi_flags ch
      [''del'', pairs_text sep ((''device'', d) # (''name'', name) # ps)] e0 =
    Some (r, (snd (gn_set g (empty_SetRequest\<lparr>sr_delete := [[]]\<rparr>) e), out))"
proof -
  let ?text = "pairs_text sep ((''device'', d) # (''name'', name) # ps)"
  obtain ns where m: "gnmi_Main g default_gnmi_flags ch [''del'', ?text] e0 =
      run_command g default_gnmi_flags ''del'' ns (e, ns_out ns)"
    and h: "holds_string (ns_mem ns) (ns_path ns) (pairs_text sep ps)"
    using gnmi_Main_interface [OF assms(7), of "''del''" sep d name ps] assms(1-5) by auto
  have "path_matches s = []" if "CHR ''/'' \<notin> set s" for s
    using that
  proof (induction s rule: path_matches.induct)
    case (1 s)
    then have "match_elem s = None" by (cases s) (auto simp: match_elem_def)
    with 1 show ?case by (subst path_matches.simps) (cases s, auto)
  qed
  then have "build_gnmi_path (c_string (ns_mem ns) (ns_path ns)) = []"
    using assms(6) holds_c_string [OF h] by (simp add: build_gnmi_path_def)
  then show ?thesis
    unfolding m run_command_def Let_def
    by (auto simp: build_gnmi_del_req_def one_request_def case_prod_beta)
qed

section \<open>Witnesses\<close>

text \<open>A server that accepts every request and remembers the set requests.\<close>

definition recording :: "(SetRequest list, unit) gnmi_env" where
  "recording = \<lparr>gn_create_pipe = (\<lambda>e. (OkStatus, e)), gn_signal = (\<lambda>e. (True, e)),
     gn_pthread_create = (\<lambda>e. (True, e)), gn_credentials = (\<lambda>certs e. (Inr 0, e)),
     gn_create_channel = (\<lambda>addr cred e. e),
     gn_capabilities = (\<lambda>e. ((OkStatus, ()), e)), gn_get = (\<lambda>rq e. ((OkStatus, ()), e)),
     gn_set = (\<lambda>rq e. ((OkStatus, ()), e @ [rq])), gn_stream_write = (\<lambda>rq e. (True, e)),
     gn_stream_read = (\<lambda>e. (None, e)), gn_stream_finish = (\<lambda>e. (OkStatus, e)),
     gn_debug_string = (\<lambda>r. []), gn_data_type = (\<lambda>t. t = ''ALL'')\<rparr>"

lemma recording_setup: "gnmi_setup recording ch e = Inr e"
  by (simp add: gnmi_setup_def recording_def)

theorem client_parse_in_place_witness:
  "\<exists>p' key val mem'. client_parse_key_value (''a=(b,c),d'' @ [NUL]) 0 = Some (p', Some (key, val), mem') \<and>
     c_string mem' key = ''a'' \<and> c_string mem' val = ''(b,c)'' \<and> c_string mem' p' = ''d''"
proof -
  have t: "terminated (''a=(b,c),d'' @ [NUL]) 0" by code_simp
  have s: "parse_kv (c_string (''a=(b,c),d'' @ [NUL]) 0) = Some ((''a'', ''(b,c)''), ''d'')" by code_simp
  from client_parse_in_place [OF t] show ?thesis unfolding s by auto
qed

theorem gnmi_path_roundtrip_witness:
  "build_gnmi_path ''/interfaces/virtual-interface[name=net/0]/config/mtu'' = config_path ''net/0'' ''mtu''"
proof -
  have "list_all wf_elem (config_path ''net/0'' ''mtu'')" by code_simp
  moreover have "path_text (config_path ''net/0'' ''mtu'') =
      ''/interfaces/virtual-interface[name=net/0]/config/mtu''" by code_simp
  ultimately show ?thesis using gnmi_path_roundtrip by metis
qed

theorem gnmi_set_pairs_witness:
  "\<exists>out. gnmi_Main recording default_gnmi_flags default_channel_flags
      [''set'', ''device:virtual-device,name:net0,port-type:LINK,mtu:1500''] [] =
    Some (Returned OkStatus,
      ([empty_SetRequest\<lparr>sr_update := [\<lparr>gu_path = config_path ''net0'' ''port-type'', gu_val = StringVal ''vhost''\<rparr>]\<rparr>,
        empty_SetRequest\<lparr>sr_update := [\<lparr>gu_path = config_path ''net0'' ''mtu'', gu_val = IntVal 1500\<rparr>]\<rparr>], out))"
proof -
  let ?ps = "[(''port-type'', ''LINK''), (''mtu'', ''1500'')]"
  have ps: "list_all (settable ''net0'' (''virtual-device'' = ''virtual-device'')) ?ps"
    "interface_name ''net0''" by code_simp+
  have arg: "pairs_text (CHR '':'') ((''device'', ''virtual-device'') # (''name'', ''net0'') # ?ps) =
      ''device:virtual-device,name:net0,port-type:LINK,mtu:1500''" by code_simp
  have v: "set_value (port_type True ''LINK'') = Some (StringVal ''vhost'')"
    "set_value (port_type True ''1500'') = Some (IntVal 1500)" by code_simp+
  have g: "\<not> grpc_error (fst (fst (gn_set recording req e)))" for req e
    by (simp add: recording_def grpc_error_def)
  have "send_all recording (map (update_request True ''net0'') ?ps) [] =
      map (update_request True ''net0'') ?ps"
    by (simp add: send_all_def recording_def)
  moreover have "length ''net0'' \<le> (90 :: nat)" "''virtual-device'' \<in> set device_types"
    by (simp_all add: device_types_def)
  ultimately show ?thesis
    using gnmi_set_pairs [of "CHR '':''" "''virtual-device''" "''net0''" ?ps recording _ "[]" "[]"] ps g v recording_setup
    unfolding arg by (simp add: update_request_def)
qed

theorem gnmi_name_overflow_witness:
  "extract_interface_node default_gnmi_flags 0
     (start_node (pairs_text (CHR '':'') [(''device'', ''physical-device''), (''name'', replicate 91 (CHR ''x''))])) = None"
proof -
  have "clean_value (replicate 91 (CHR ''x''))"
    by (simp add: clean_value_def list_all_iff blanks_def NUL_def)
  with gnmi_name_overflow [of "CHR '':''" "''physical-device''" "replicate 91 (CHR ''x'')"]
  show ?thesis by (simp add: device_types_def)
qed

theorem gnmi_del_root_witness:
  "\<exists>r out. gnmi_Main recording default_gnmi_flags default_channel_flags
      [''del'', ''device:physical-device,name:net0,mtu:1500''] [] =
     Some (r, ([empty_SetRequest\<lparr>sr_delete := [[]]\<rparr>], out))"
proof -
  let ?ps = "[(''mtu'', ''1500'')]"
  have ps: "list_all (\<lambda>(k, v). clean_key k \<and> clean_value v) ?ps" "clean_value ''net0''"
    "CHR ''/'' \<notin> set (pairs_text (CHR '':'') ?ps)" by code_simp+
  have arg: "pairs_text (CHR '':'') ((''device'', ''physical-device'') # (''name'', ''net0'') # ?ps) =
      ''device:physical-device,name:net0,mtu:1500''" by code_simp
  show ?thesis
    using gnmi_del_root [of "CHR '':''" "''physical-device''" "''net0''" ?ps recording _ "[]" "[]"] ps recording_setup
    unfolding arg by (simp add: device_types_def recording_def)
qed

end
