(* ===== verification/Sgnmi_Properties.thy ===== *)
theory Sgnmi_Properties
  imports Sgnmi_Cli Gnmi_Properties
begin

text \<open>
  Properties of sgnmi_cli: it returns, it sends for a pair what gnmi-ctl sends, and it takes
  the beginning of a path that is not well-formed for the whole path.
\<close>

section \<open>Paths\<close>

definition ascii :: "string \<Rightarrow> bool" where
  "ascii s \<longleftrightarrow> list_all (\<lambda>c. (of_char c :: nat) < 128) s"

text \<open>What RE2 documents of the two expressions on text of one byte per character: they match
  the longest names, keys and values, from the left.\<close>

definition re2_ok :: "('e, 'r) sgnmi_env \<Rightarrow> bool" where
  "re2_ok g \<longleftrightarrow> (\<forall>s. ascii s \<longrightarrow> sg_consume g s = match_elem s \<and>
     sg_full_match g s = (if match_key s = ([], []) then None else Some (match_key s)))"

lemma match_group_parts: "fst (match_group s) @ snd (match_group s) = s"
proof (cases s)
  case (Cons c t)
  define k where "k = takeWhile (\<lambda>c. c \<noteq> CHR ''='') t"
  define u where "u = dropWhile (\<lambda>c. c \<noteq> CHR ''='') t"
  define v where "v = takeWhile (\<lambda>c. c \<noteq> CHR '']'') (tl u)"
  define w where "w = dropWhile (\<lambda>c. c \<noteq> CHR '']'') (tl u)"
  have "t = k @ CHR ''='' # tl u" if "u \<noteq> []"
    using that hd_dropWhile [of "\<lambda>c. c \<noteq> CHR ''=''" t] takeWhile_dropWhile_id [of "\<lambda>c. c \<noteq> CHR ''=''" t]
    unfolding k_def u_def by (metis list.collapse)
  moreover have "tl u = v @ CHR '']'' # tl w" if "w \<noteq> []"
    using that hd_dropWhile [of "\<lambda>c. c \<noteq> CHR '']''" "tl u"]
      takeWhile_dropWhile_id [of "\<lambda>c. c \<noteq> CHR '']''" "tl u"]
    unfolding v_def w_def by (metis list.collapse)
  moreover have "match_group s = (if c = CHR ''['' \<and> k \<noteq> [] \<and> u \<noteq> [] \<and> v \<noteq> [] \<and> w \<noteq> []
      then (''['' @ k @ ''='' @ v @ '']'', tl w) else ([], s))"
    unfolding k_def u_def v_def w_def
    by (simp only: match_group_def Cons list.case Let_def dropWhile_eq_drop)
  ultimately show ?thesis using Cons by simp
qed (simp add: match_group_def)

lemma match_elem_parts: "match_elem s = Some ((n, kv), rest) \<Longrightarrow> s = CHR ''/'' # n @ kv @ rest"
  using match_group_parts
  by (auto simp: match_elem_def Let_def dropWhile_eq_drop [symmetric] split: list.splits if_splits prod.splits)
    (metis fst_conv snd_conv takeWhile_dropWhile_id)

lemma ascii_append [simp]: "ascii (s @ t) \<longleftrightarrow> ascii s \<and> ascii t"
  and ascii_Cons: "ascii (c # s) \<longleftrightarrow> (of_char c :: nat) < 128 \<and> ascii s"
  by (simp_all add: ascii_def)

lemma ascii_match:
  assumes "match_elem s = Some ((n, kv), rest)" and "ascii s"
  shows "ascii kv" and "ascii rest"
  using match_elem_parts [OF assms(1)] assms(2) by (auto simp: ascii_Cons)

lemma AddPathElem_eq:
  assumes "re2_ok g" and "ascii kv"
  shows "AddPathElem g n kv = add_path_elem n kv"
  using assms by (auto simp: AddPathElem_def add_path_elem_def re2_ok_def)

lemma BuildGnmiPath_code:
  assumes "re2_ok g" and "ascii s"
  shows "BuildGnmiPath g s =
    (case match_elem s of
       None \<Rightarrow> Some []
     | Some ((n, kv), rest) \<Rightarrow> do { path \<leftarrow> BuildGnmiPath g rest; Some (add_path_elem n kv # path) })"
  using assms ascii_match(1) [of s] AddPathElem_eq [OF assms(1)]
  by (subst BuildGnmiPath.simps) (auto simp: re2_ok_def split: option.split)


text \<open>Text that begins with a slash and no name.\<close>

definition no_elem :: "string \<Rightarrow> bool" where
  "no_elem rest \<longleftrightarrow> (case rest of [] \<Rightarrow> True | c # u \<Rightarrow> c = CHR ''/'' \<and>
     (case u of [] \<Rightarrow> True | d # _ \<Rightarrow> d = CHR ''/'' \<or> d = CHR ''[''))"

lemma match_no_elem: "no_elem rest \<Longrightarrow> match_elem rest = None"
  by (auto simp: no_elem_def match_elem_def split: list.splits)

lemma BuildGnmiPath_prefix:
  assumes "re2_ok g" and "list_all wf_elem es" and "ascii (path_text es @ rest)" and "no_elem rest"
  shows "BuildGnmiPath g (path_text es @ rest) = Some es"
  using assms(2,3)
proof (induction es)
  case Nil
  then show ?case
    using BuildGnmiPath_code [OF assms(1), of rest] match_no_elem [OF assms(4)] by (simp add: path_text_def)
next
  case (Cons e es)
  have split: "path_text (e # es) @ rest = elem_text e @ path_text es @ rest" by (simp add: path_text_def)
  have "path_text es @ rest = [] \<or> (\<exists>t. path_text es @ rest = CHR ''/'' # t)"
    using path_text_start [of es] assms(4) by (cases rest) (auto simp: no_elem_def)
  then have "match_elem (path_text (e # es) @ rest) =
      Some ((pe_name e, key_text (pe_key e)), path_text es @ rest)"
    using match_elem_text [of e "path_text es @ rest"] Cons.prems(1) split by simp
  then show ?case
    using BuildGnmiPath_code [OF assms(1) Cons.prems(2)] Cons split add_path_elem_text [of e] by simp
qed

section \<open>Numbers\<close>

lemma stoll_range: "stoll s = Some n \<Longrightarrow> - (2 ^ 63) \<le> n \<and> n < 2 ^ 63"
  by (auto simp: stoll_def Let_def split: if_splits)

lemma stoll_stoull:
  assumes "stoll s = Some n"
  shows "stoull s = Some (word_of_int n)"
proof -
  define t where "t = dropWhile is_space s"
  define u where "u = (if t \<noteq> [] \<and> (hd t = CHR ''-'' \<or> hd t = CHR ''+'') then tl t else t)"
  define m where "m = digits_value (takeWhile is_digit u)"
  have "u \<noteq> [] \<and> is_digit (hd u)" "n = (if t \<noteq> [] \<and> hd t = CHR ''-'' then - m else m)"
    "- (2 ^ 63) \<le> n" "n < 2 ^ 63"
    using assms unfolding stoll_def Let_def t_def [symmetric] u_def [symmetric] m_def [symmetric]
    by (auto split: if_splits)
  moreover from this have "m < 2 ^ 64" by (auto split: if_splits)
  ultimately show ?thesis
    unfolding stoull_def Let_def t_def [symmetric] u_def [symmetric] m_def [symmetric] by auto
qed

lemma set_value_number:
  assumes "strtol_rest v = []" and "stoll v = Some n"
  shows "set_value v = Some (IntVal n)"
proof -
  have "signed_take_bit 63 n = n"
    using stoll_range [OF assms(2)] by (intro signed_take_bit_int_eq_self) auto
  then show ?thesis
    using assms stoll_stoull [OF assms(2)] by (simp add: set_value_def signed_of_int)
qed

section \<open>Properties\<close>

lemma sgnmi_Main_command:
  assumes "sg_init_google g set_client_cert_defaults argv = (flags, certs, [cmd, path])" and "cmd \<noteq> ''cap''"
    and "sg_setup g flags certs e = Inr e'"
  shows "sgnmi_Main g argv e = sg_command g flags cmd path (e', [])"
  using assms by (simp add: sgnmi_Main_def)











text \<open>C23: for a pair of a key and a value, sgnmi_cli with the path of the configuration and the
  value as int_val, when it is a number that long long holds, or as string_val, when it is not a
  number, builds the update
  request that gnmi-ctl sends for the pair.\<close>

theorem sgnmi_set_same:
  assumes "re2_ok g" and "interface_name name" and "path_name k" and "ascii name" and "ascii k" and "v \<noteq> []"
    and "flags = (default_sgnmi_flags url)\<lparr>sg_int_val := v\<rparr> \<and> strtol_rest v = [] \<and> stoll v \<noteq> None \<or>
      flags = (default_sgnmi_flags url)\<lparr>sg_string_val := v\<rparr> \<and> strtol_rest v \<noteq> []"
  shows "BuildGnmiSetRequest g flags (path_text (config_path name k)) e =
      Some (Inr (update_request False name (k, v), [])) \<and>
    build_gnmi_set_req default_gnmi_flags (path_text (config_path name k)) v =
      Some (update_request False name (k, v))"
proof -
  have wf: "list_all wf_elem (config_path name k)"
    using assms(2,3) by (auto simp: config_path_def interface_path_def path_name_def path_key_def
        interface_name_def clean_value_def)
  have "ascii (path_text (config_path name k) @ [])"
    using assms(4,5) by (simp add: path_text_def config_path_def interface_path_def elem_text_def key_text_def
        ascii_Cons ascii_def)
  then have p: "BuildGnmiPath g (path_text (config_path name k)) = Some (config_path name k)"
    using BuildGnmiPath_prefix [OF assms(1) wf, of "[]"] by (simp add: no_elem_def)
  have v: "\<exists>x. set_value v = Some x \<and> flag_value g flags e = Inr (x, []) \<and> \<not> sg_replace flags"
    using assms(6,7) set_value_number [of v]
    by (auto simp: flag_value_def default_sgnmi_flags_def set_value_def)
  then show ?thesis
    using p build_gnmi_path_text [OF wf]
    by (auto simp: BuildGnmiSetRequest_def build_gnmi_set_req_def update_request_def port_type_def
        default_gnmi_flags_def)
qed

text \<open>A path is read up to the first place that is not well-formed and the rest is ignored
  without a message: with a second slash after some elements, a delete command deletes
  what these elements name, and with two slashes at the beginning the empty path, the root.\<close>

lemma sgnmi_del_prefix:
  assumes "re2_ok g" and "list_all wf_elem es" and "ascii (path_text es @ ''//'' @ t)"
    and "sg_init_google g set_client_cert_defaults argv = (flags, certs, [''del'', path_text es @ ''//'' @ t])"
    and "sg_setup g flags certs e = Inr e'"
  shows "sgnmi_Main g argv e =
    Some (Inr (sg_exchange g (Set (empty_SetRequest\<lparr>sr_delete := [es]\<rparr>)) (e', [])))"
proof -
  have "BuildGnmiPath g (path_text es @ ''//'' @ t) = Some es"
    using BuildGnmiPath_prefix [OF assms(1-3)] by (simp add: no_elem_def)
  then show ?thesis
    using sgnmi_Main_command [OF assms(4) _ assms(5)] by (simp add: sg_command_def BuildGnmiDeleteRequest_def)
qed

section \<open>A concrete client\<close>

text \<open>The environment remembers the requests it gets.\<close>

definition demo_sgnmi :: "(gnmi_request list, unit) sgnmi_env" where
  "demo_sgnmi =
     \<lparr>sg_consume = match_elem,
      sg_full_match = (\<lambda>s. if match_key s = ([], []) then None else Some (match_key s)),
      sg_init_google = (\<lambda>certs argv. ((default_sgnmi_flags ''localhost:9339'')\<lparr>sg_int_val := ''x12''\<rparr>, certs, argv)),
      sg_create_pipe = (\<lambda>e. (OkStatus, e)), sg_signal = (\<lambda>e. (True, e)), sg_pthread_create = (\<lambda>e. (True, e)),
      sg_credentials = (\<lambda>certs e. (Inr 0, e)), sg_create_channel = (\<lambda>addr cred e. e),
      sg_call = (\<lambda>req e. ((OkStatus, ()), e @ [req])),
      sg_stream_write = (\<lambda>req e. (True, e @ [Subscribe req])), sg_stream_read = (\<lambda>e. (None, e)),
      sg_stream_finish = (\<lambda>e. (OkStatus, e)), sg_request_text = (\<lambda>_. []), sg_response_text = (\<lambda>_. []),
      sg_data_type = (\<lambda>s. s = ''ALL''), sg_read_file = (\<lambda>_ _. []), sg_stof = (\<lambda>_. None)\<rparr>"

lemma demo_re2: "re2_ok demo_sgnmi"
  by (simp add: re2_ok_def demo_sgnmi_def)

lemma demo_setup: "sg_setup demo_sgnmi (fst (sg_init_google demo_sgnmi certs argv)) certs' e = Inr e"
  by (simp add: sg_setup_def demo_sgnmi_def default_sgnmi_flags_def)


theorem sgnmi_set_same_witness:
  "BuildGnmiSetRequest demo_sgnmi ((default_sgnmi_flags [])\<lparr>sg_int_val := ''1500''\<rparr>)
      (path_text (config_path ''net0'' ''mtu'')) [] =
      Some (Inr (update_request False ''net0'' (''mtu'', ''1500''), [])) \<and>
   build_gnmi_set_req default_gnmi_flags (path_text (config_path ''net0'' ''mtu'')) ''1500'' =
      Some (update_request False ''net0'' (''mtu'', ''1500''))"
proof (rule sgnmi_set_same [OF demo_re2])
  show "interface_name ''net0''" "path_name ''mtu''" "ascii ''net0''" "ascii ''mtu''" by code_simp+
  have "strtol_rest ''1500'' = []" "stoll ''1500'' \<noteq> None" by code_simp+
  then show "(default_sgnmi_flags [])\<lparr>sg_int_val := ''1500''\<rparr> =
        (default_sgnmi_flags [])\<lparr>sg_int_val := ''1500''\<rparr> \<and> strtol_rest ''1500'' = [] \<and> stoll ''1500'' \<noteq> None \<or>
      (default_sgnmi_flags [])\<lparr>sg_int_val := ''1500''\<rparr> =
        (default_sgnmi_flags [])\<lparr>sg_string_val := ''1500''\<rparr> \<and> strtol_rest ''1500'' \<noteq> []"
    by simp
qed simp

theorem sgnmi_del_prefix_witness:
  "sgnmi_Main demo_sgnmi [''del'', ''/interfaces//mtu''] [] =
     Some (Inr (sg_exchange demo_sgnmi
       (Set (empty_SetRequest\<lparr>sr_delete := [[\<lparr>pe_name = ''interfaces'', pe_key = []\<rparr>]]\<rparr>)) ([], [])))"
proof -
  let ?es = "[\<lparr>pe_name = ''interfaces'', pe_key = []\<rparr>]"
  obtain flags certs where i: "sg_init_google demo_sgnmi set_client_cert_defaults [''del'', ''/interfaces//mtu''] =
      (flags, certs, [''del'', ''/interfaces//mtu''])" and f: "flags = fst (sg_init_google demo_sgnmi certs [])"
    by (simp add: demo_sgnmi_def)
  have t: "path_text ?es @ ''//'' @ ''mtu'' = ''/interfaces//mtu''" by code_simp
  have "list_all wf_elem ?es" "ascii (path_text ?es @ ''//'' @ ''mtu'')" by code_simp+
  from sgnmi_del_prefix [OF demo_re2 this, unfolded t, OF i demo_setup [of certs "[]" certs "[]", folded f]]
  show ?thesis .
qed

end
