(* ===== verification/Client_Cancel.thy ===== *)
theory Client_Cancel
  imports Sgnmi_Cli Runs
begin

text \<open>
  \<^verbatim>\<open>clients/gnmi-ctl/gnmi_ctl.cc\<close> and \<^verbatim>\<open>clients/sgnmi_cli/sgnmi_cli.cc\<close>: what a client does about
  SIGINT. Both files have the same text for it. \<open>Main\<close> makes a pipe, installs a handler that
  writes the signal into it, and starts a thread that waits at the other end to cancel the
  context behind \<open>ctx_\<close>; a clean-up that runs whenever \<open>Main\<close> is left wakes up the thread,
  joins it and closes the pipe. Where the files differ is the context of the calls.

  The process is a state machine: the main thread, the second thread and the handler take
  steps in any order. What a call of the server returns, and whether it ever does, is
  open. Of gRPC it is assumed that a call on a cancelled context can return: with the status
  CANCELLED, and \<open>Read\<close> and \<open>Write\<close> with false. A write of one \<open>int\<close> into the pipe is atomic.
\<close>

section \<open>State\<close>

text \<open>The context that \<open>ctx_\<close> points to, declared at the start of \<open>Main\<close>, and contexts declared
  next to a call.\<close>

datatype rpc_ctx = Main_ctx | Call_ctx nat

datatype rpc_op =
    UnaryCall rpc_ctx
  | StreamWrite rpc_ctx
  | StreamRead rpc_ctx
  | StreamFinish rpc_ctx

text \<open>Where the main thread is; from \<open>Writing\<close> on, in the clean-up, with the result of \<open>Main\<close>.
  \<open>Killed\<close> is the default action of SIGINT.\<close>

datatype main_phase =
    CreatingPipe
  | InstallingHandler
  | CreatingThread
  | Connecting
  | Calling "rpc_op list"
  | Writing cmd_result
  | Joining cmd_result
  | ClosingWrite cmd_result
  | ClosingRead cmd_result
  | Cancelling_ctx cmd_result
  | Exited cmd_result
  | Killed

datatype thread_phase = NotStarted | Reading | Cancelling | Ended

record cancel_state =
  cc_main :: main_phase
  cc_thread :: thread_phase
  cc_pipe :: "int list"
  cc_write_fd :: bool
  cc_read_fd :: bool
  cc_handler :: bool
  cc_ctx_alive :: bool
  cc_cancelled :: "rpc_ctx list"
  cc_fault :: bool

definition client_start :: cancel_state where
  "client_start = \<lparr>cc_main = CreatingPipe, cc_thread = NotStarted, cc_pipe = [],
     cc_write_fd = False, cc_read_fd = False, cc_handler = False, cc_ctx_alive = True,
     cc_cancelled = [], cc_fault = False\<rparr>"

section \<open>The handler, the thread and the clean-up\<close>

definition SIGINT :: int where "SIGINT = 2"

text \<open>\<open>write(pipe_write_fd_, &signal, sizeof(signal))\<close>; on a closed descriptor it fails, which
  nobody checks.\<close>

definition write_signal :: "int \<Rightarrow> cancel_state \<Rightarrow> cancel_state" where
  "write_signal signal s =
     (if cc_write_fd s then s\<lparr>cc_pipe := cc_pipe s @ [signal]\<rparr> else s)"

definition HandleSignal :: "int \<Rightarrow> cancel_state \<Rightarrow> cancel_state" where
  "HandleSignal signal s = write_signal signal s"

text \<open>\<open>TryCancel()\<close> of the context of \<open>Main\<close>: a fault where it does not exist any more.\<close>

definition TryCancel :: "cancel_state \<Rightarrow> cancel_state" where
  "TryCancel s =
     (if cc_ctx_alive s then s\<lparr>cc_cancelled := Main_ctx # cc_cancelled s\<rparr>
      else s\<lparr>cc_fault := True\<rparr>)"

text \<open>One step of the thread, \<open>None\<close> where it is blocked, has ended or was not started. \<open>read\<close>
  waits for a signal, returns 0 at the end of a pipe without a writer, and fails on a closed
  descriptor; \<open>ctx_\<close> is set before the thread exists.\<close>

definition ContextCancelThreadFunc :: "cancel_state \<Rightarrow> cancel_state option" where
  "ContextCancelThreadFunc s =
     (case cc_thread s of
        NotStarted \<Rightarrow> None
      | Reading \<Rightarrow>
          (if \<not> cc_read_fd s then Some (s\<lparr>cc_thread := Ended\<rparr>)
           else case cc_pipe s of
               signal_value # rest \<Rightarrow> Some (s\<lparr>cc_pipe := rest, cc_thread := Cancelling\<rparr>)
             | [] \<Rightarrow> if cc_write_fd s then None else Some (s\<lparr>cc_thread := Ended\<rparr>))
      | Cancelling \<Rightarrow> Some ((TryCancel s)\<lparr>cc_thread := Ended\<rparr>)
      | Ended \<Rightarrow> None)"

text \<open>The function behind \<open>cleaner\<close>, one step at a time; \<open>pthread_join\<close> waits for the thread. With
  the last step \<open>Main\<close> is left and its context destroyed.\<close>

definition cleaner :: "cancel_state \<Rightarrow> cancel_state option" where
  "cleaner s =
     (case cc_main s of
        Writing r \<Rightarrow> Some ((write_signal SIGINT s)\<lparr>cc_main := Joining r\<rparr>)
      | Joining r \<Rightarrow>
          if cc_thread s = Ended then Some (s\<lparr>cc_main := ClosingWrite r\<rparr>) else None
      | ClosingWrite r \<Rightarrow> Some (s\<lparr>cc_write_fd := False, cc_main := ClosingRead r\<rparr>)
      | ClosingRead r \<Rightarrow> Some (s\<lparr>cc_read_fd := False, cc_main := Cancelling_ctx r\<rparr>)
      | Cancelling_ctx r \<Rightarrow> Some ((TryCancel s)\<lparr>cc_ctx_alive := False, cc_main := Exited r\<rparr>)
      | _ \<Rightarrow> None)"

section \<open>Calls\<close>

fun op_ctx :: "rpc_op \<Rightarrow> rpc_ctx" where
  "op_ctx (UnaryCall c) = c"
| "op_ctx (StreamWrite c) = c"
| "op_ctx (StreamRead c) = c"
| "op_ctx (StreamFinish c) = c"

datatype answer = Replied Status | Done bool

text \<open>What \<open>Main\<close> does with the answer: an error other than CANCELLED is returned, a stream is
  read until \<open>Read\<close> is false, and whether \<open>Write\<close> is checked depends on the client.\<close>

fun after_call :: "bool \<Rightarrow> rpc_op \<Rightarrow> rpc_op list \<Rightarrow> answer \<Rightarrow> main_phase option" where
  "after_call checked (UnaryCall c) ops (Replied status) =
     Some (if grpc_error status then Writing (Returned status) else Calling ops)"
| "after_call checked (StreamFinish c) ops (Replied status) =
     Some (if grpc_error status then Writing (Returned status) else Calling ops)"
| "after_call checked (StreamWrite c) ops (Done b) =
     Some (if checked \<and> \<not> b then Writing (Returned (InternalError ''Cannot write request.''))
           else Calling ops)"
| "after_call checked (StreamRead c) ops (Done b) =
     Some (Calling (if b then StreamRead c # ops else ops))"
| "after_call checked op ops _ = None"

definition CANCELLED :: Status where
  "CANCELLED = absl_Status 1 ''CANCELLED''"

fun cancelled_answer :: "rpc_op \<Rightarrow> answer" where
  "cancelled_answer (UnaryCall c) = Replied CANCELLED"
| "cancelled_answer (StreamFinish c) = Replied CANCELLED"
| "cancelled_answer (StreamWrite c) = Done False"
| "cancelled_answer (StreamRead c) = Done False"

text \<open>The calls of a command, its parameters on the command line being \<open>params\<close>, and the result of
  \<open>Main\<close> when none of them fails. Without a command \<open>Main\<close> returns before it makes the pipe. In gnmi-ctl
  every command declares a context of its own, which hides the one of \<open>Main\<close>; \<open>updates\<close> is the
  number of update requests, nothing where the device or the name is invalid.\<close>

definition gnmi_ctl_calls ::
    "string \<Rightarrow> string list \<Rightarrow> nat option \<Rightarrow> rpc_op list \<times> cmd_result" where
  "gnmi_ctl_calls cmd params updates =
     (if cmd = ''cap'' then ([UnaryCall (Call_ctx 0)], Returned OkStatus)
      else if params = [] then ([], Returned OkStatus)
      else (case updates of
          None \<Rightarrow> ([], Returned OkStatus)
        | Some n \<Rightarrow>
            if cmd = ''get'' \<or> cmd = ''del'' then
              ([UnaryCall (Call_ctx 0)], Returned OkStatus)
            else if cmd = ''set'' then
              (map (\<lambda>i. UnaryCall (Call_ctx i)) [0..<n], Returned OkStatus)
            else if cmd = ''sub-onchange'' \<or> cmd = ''sub-sample'' then
              ([StreamWrite (Call_ctx 0), StreamRead (Call_ctx 0), StreamFinish (Call_ctx 0)],
               Returned OkStatus)
            else ([], InvalidParam (''Unknown command: '' @ cmd))))"

text \<open>sgnmi_cli calls with the context of \<open>Main\<close>; \<open>throws\<close> is an exception while it builds the
  request, which \<open>main\<close> turns into an internal error after the clean-up.\<close>

definition sgnmi_calls :: "string \<Rightarrow> string list \<Rightarrow> bool \<Rightarrow> rpc_op list \<times> cmd_result" where
  "sgnmi_calls cmd params throws =
     (if cmd = ''cap'' then ([UnaryCall Main_ctx], Returned OkStatus)
      else if params = [] then ([], InvalidParam (''Missing path for '' @ cmd @ '' request.''))
      else if cmd = ''get'' \<or> cmd = ''set'' \<or> cmd = ''del'' then
        (if throws then ([], Returned (InternalError ''exception''))
         else ([UnaryCall Main_ctx], Returned OkStatus))
      else if cmd = ''sub-onchange'' \<or> cmd = ''sub-sample'' then
        ([StreamWrite Main_ctx, StreamRead Main_ctx, StreamFinish Main_ctx], Returned OkStatus)
      else ([], InvalidParam (''Unknown command: '' @ cmd)))"

section \<open>Steps\<close>

text \<open>A step is an answer of the server, the arrival of SIGINT, or a step of the process. The
  thread may still run when \<open>Main\<close> has been left.\<close>

fun ended :: "main_phase \<Rightarrow> bool" where
  "ended (Exited r) = True"
| "ended Killed = True"
| "ended _ = False"

datatype step_kind = Server | Interrupt | Local

inductive client_step ::
    "bool \<Rightarrow> rpc_op list \<times> cmd_result \<Rightarrow> step_kind \<Rightarrow> cancel_state \<Rightarrow> cancel_state \<Rightarrow> bool"
  for checked calls where
  pipe_made: "cc_main s = CreatingPipe \<Longrightarrow>
    client_step checked calls Local s
      (s\<lparr>cc_main := InstallingHandler, cc_write_fd := True, cc_read_fd := True\<rparr>)"
| pipe_failed: "cc_main s = CreatingPipe \<Longrightarrow> \<not> ok status \<Longrightarrow>
    client_step checked calls Local s (s\<lparr>cc_main := Exited (Returned status), cc_ctx_alive := False\<rparr>)"
| handler_installed: "cc_main s = InstallingHandler \<Longrightarrow>
    client_step checked calls Local s (s\<lparr>cc_main := CreatingThread, cc_handler := True\<rparr>)"
| handler_failed: "cc_main s = InstallingHandler \<Longrightarrow> \<not> ok status \<Longrightarrow>
    client_step checked calls Local s (s\<lparr>cc_main := Exited (Returned status), cc_ctx_alive := False\<rparr>)"
| thread_created: "cc_main s = CreatingThread \<Longrightarrow>
    client_step checked calls Local s (s\<lparr>cc_main := Connecting, cc_thread := Reading\<rparr>)"
| thread_failed: "cc_main s = CreatingThread \<Longrightarrow> \<not> ok status \<Longrightarrow>
    client_step checked calls Local s (s\<lparr>cc_main := Exited (Returned status), cc_ctx_alive := False\<rparr>)"
| connected: "cc_main s = Connecting \<Longrightarrow>
    client_step checked calls Local s (s\<lparr>cc_main := Calling (fst calls)\<rparr>)"
| no_credentials: "cc_main s = Connecting \<Longrightarrow> \<not> ok status \<Longrightarrow>
    client_step checked calls Local s (s\<lparr>cc_main := Writing (Returned status)\<rparr>)"
| answered: "cc_main s = Calling (op # ops) \<Longrightarrow> after_call checked op ops a = Some m \<Longrightarrow>
    client_step checked calls Server s (s\<lparr>cc_main := m\<rparr>)"
| cancelled: "cc_main s = Calling (op # ops) \<Longrightarrow> op_ctx op \<in> set (cc_cancelled s) \<Longrightarrow>
    after_call checked op ops (cancelled_answer op) = Some m \<Longrightarrow>
    client_step checked calls Local s (s\<lparr>cc_main := m\<rparr>)"
| returned: "cc_main s = Calling [] \<Longrightarrow>
    client_step checked calls Local s (s\<lparr>cc_main := Writing (snd calls)\<rparr>)"
| cleaned: "cleaner s = Some s' \<Longrightarrow> client_step checked calls Local s s'"
| thread: "ContextCancelThreadFunc s = Some s' \<Longrightarrow> cc_main s \<noteq> Killed \<Longrightarrow>
    client_step checked calls Local s s'"
| interrupted: "cc_handler s \<Longrightarrow> \<not> ended (cc_main s) \<Longrightarrow>
    client_step checked calls Interrupt s (HandleSignal SIGINT s)"
| killed: "\<not> cc_handler s \<Longrightarrow> \<not> ended (cc_main s) \<Longrightarrow>
    client_step checked calls Interrupt s (s\<lparr>cc_main := Killed\<rparr>)"

definition any_step :: "bool \<Rightarrow> rpc_op list \<times> cmd_result \<Rightarrow> cancel_state \<Rightarrow> cancel_state \<Rightarrow> bool" where
  "any_step checked calls s s' \<longleftrightarrow> (\<exists>k. client_step checked calls k s s')"

definition local_step :: "bool \<Rightarrow> rpc_op list \<times> cmd_result \<Rightarrow> cancel_state \<Rightarrow> cancel_state \<Rightarrow> bool" where
  "local_step checked calls s s' \<longleftrightarrow> client_step checked calls Local s s'"

text \<open>Steps without an answer of the server, with any number of interrupts.\<close>

definition unanswered_step ::
    "bool \<Rightarrow> rpc_op list \<times> cmd_result \<Rightarrow> cancel_state \<Rightarrow> cancel_state \<Rightarrow> bool" where
  "unanswered_step checked calls s s' \<longleftrightarrow> (\<exists>k. k \<noteq> Server \<and> client_step checked calls k s s')"

end
