(* ===== verification/Cancel_Properties.thy ===== *)
theory Cancel_Properties
  imports "HOL-Library.Sublist" Client_Cancel
begin

text \<open>
  What SIGINT does to the two clients: the invariant of the pipe, the thread and the context,
  which both share; that sgnmi_cli ends; and that gnmi-ctl does not.
\<close>

section \<open>The invariant\<close>

fun phase_inv :: "main_phase \<Rightarrow> cancel_state \<Rightarrow> bool" where
  "phase_inv CreatingPipe s \<longleftrightarrow>
     cc_thread s = NotStarted \<and> \<not> cc_write_fd s \<and> \<not> cc_read_fd s \<and> \<not> cc_handler s \<and> cc_ctx_alive s"
| "phase_inv InstallingHandler s \<longleftrightarrow>
     cc_thread s = NotStarted \<and> cc_write_fd s \<and> cc_read_fd s \<and> \<not> cc_handler s \<and> cc_ctx_alive s"
| "phase_inv CreatingThread s \<longleftrightarrow>
     cc_thread s = NotStarted \<and> cc_write_fd s \<and> cc_read_fd s \<and> cc_handler s \<and> cc_ctx_alive s"
| "phase_inv (Joining r) s \<longleftrightarrow>
     cc_thread s \<noteq> NotStarted \<and> cc_write_fd s \<and> cc_read_fd s \<and> cc_handler s \<and> cc_ctx_alive s \<and>
     (cc_thread s = Reading \<longrightarrow> cc_pipe s \<noteq> [])"
| "phase_inv (ClosingWrite r) s \<longleftrightarrow>
     cc_thread s = Ended \<and> cc_write_fd s \<and> cc_read_fd s \<and> cc_handler s \<and> cc_ctx_alive s"
| "phase_inv (ClosingRead r) s \<longleftrightarrow>
     cc_thread s = Ended \<and> \<not> cc_write_fd s \<and> cc_read_fd s \<and> cc_handler s \<and> cc_ctx_alive s"
| "phase_inv (Cancelling_ctx r) s \<longleftrightarrow>
     cc_thread s = Ended \<and> \<not> cc_write_fd s \<and> \<not> cc_read_fd s \<and> cc_handler s \<and> cc_ctx_alive s"
| "phase_inv (Exited r) s \<longleftrightarrow>
     (cc_thread s = Ended \<and> \<not> cc_write_fd s \<and> \<not> cc_read_fd s \<or>
      cc_thread s = NotStarted \<and> cc_write_fd s = cc_read_fd s)"
| "phase_inv Killed s \<longleftrightarrow> cc_thread s = NotStarted"
| "phase_inv _ s \<longleftrightarrow>
     cc_thread s \<noteq> NotStarted \<and> cc_write_fd s \<and> cc_read_fd s \<and> cc_handler s \<and> cc_ctx_alive s"

definition cancel_inv :: "cancel_state \<Rightarrow> bool" where
  "cancel_inv s \<longleftrightarrow> phase_inv (cc_main s) s \<and> \<not> cc_fault s \<and> set (cc_cancelled s) \<subseteq> {Main_ctx} \<and>
     (cc_thread s = Ended \<longrightarrow> Main_ctx \<in> set (cc_cancelled s))"

lemmas cancel_defs = cancel_inv_def ContextCancelThreadFunc_def cleaner_def TryCancel_def
  HandleSignal_def write_signal_def

lemma cancel_inv_start: "cancel_inv client_start"
  by (simp add: cancel_inv_def client_start_def)

lemma phase_inv_after_call:
  "after_call checked op ops a = Some m \<Longrightarrow> phase_inv m s \<longleftrightarrow> phase_inv (Calling ops) s"
  by (induction checked op ops a rule: after_call.induct) (auto split: if_splits)

lemma phase_inv_main [simp]: "phase_inv m (s\<lparr>cc_main := m'\<rparr>) = phase_inv m s"
  by (cases m) simp_all

lemma cleaner_inv: "cleaner s = Some s' \<Longrightarrow> cancel_inv s \<Longrightarrow> cancel_inv s'"
  by (cases "cc_main s") (auto simp: cancel_defs split: if_splits)

lemma thread_inv: "ContextCancelThreadFunc s = Some s' \<Longrightarrow> cancel_inv s \<Longrightarrow> cancel_inv s'"
  by (cases "cc_main s"; cases "cc_thread s") (auto simp: cancel_defs split: if_splits list.splits)

lemma interrupt_inv: "cancel_inv s \<Longrightarrow> \<not> ended (cc_main s) \<Longrightarrow> cancel_inv (HandleSignal SIGINT s)"
  by (cases "cc_main s") (auto simp: cancel_defs)

lemma killed_inv:
  "cancel_inv s \<Longrightarrow> \<not> cc_handler s \<Longrightarrow> \<not> ended (cc_main s) \<Longrightarrow> cancel_inv (s\<lparr>cc_main := Killed\<rparr>)"
  by (cases "cc_main s") (auto simp: cancel_inv_def)

lemma cancel_inv_step:
  assumes "cancel_inv s" and "client_step checked calls k s s'"
  shows "cancel_inv s'"
  using assms(2)
proof (cases rule: client_step.cases)
  case (answered op ops a m)
  with assms(1) show ?thesis by (simp add: cancel_inv_def phase_inv_after_call [OF answered(4)])
next
  case (cancelled op ops m)
  with assms(1) show ?thesis by (simp add: cancel_inv_def phase_inv_after_call [OF cancelled(5)])
next
  case cleaned
  then show ?thesis using assms(1) by (simp add: cleaner_inv)
next
  case thread
  then show ?thesis using assms(1) by (simp add: thread_inv)
next
  case interrupted
  then show ?thesis using assms(1) by (simp add: interrupt_inv)
next
  case killed
  then show ?thesis using assms(1) by (simp add: killed_inv)
qed (use assms(1) in \<open>auto simp: cancel_inv_def\<close>)

interpretation clients: kept_invariant "any_step checked calls" cancel_inv
  by unfold_locales (auto simp: any_step_def intro: cancel_inv_step)


section \<open>Interrupts end a client that calls with the context of \<open>Main\<close>\<close>

text \<open>A signal has reached the pipe, and the thread has not started or has something to read, or
  is past reading.\<close>

definition signalled :: "cancel_state \<Rightarrow> bool" where
  "signalled s \<longleftrightarrow> cc_pipe s \<noteq> [] \<or> cc_thread s = Cancelling \<or> cc_thread s = Ended"

text \<open>The calls that are left are the last ones of the command.\<close>

fun calls_left :: "rpc_op list \<Rightarrow> main_phase \<Rightarrow> bool" where
  "calls_left calls (Calling ops) = suffix ops calls"
| "calls_left calls _ = True"

text \<open>The steps that are left when no call waits any more.\<close>

fun main_work :: "nat \<Rightarrow> main_phase \<Rightarrow> nat" where
  "main_work n CreatingPipe = n + 12"
| "main_work n InstallingHandler = n + 11"
| "main_work n CreatingThread = n + 10"
| "main_work n Connecting = n + 7"
| "main_work n (Calling ops) = length ops + 6"
| "main_work n (Writing r) = 5"
| "main_work n (Joining r) = 4"
| "main_work n (ClosingWrite r) = 3"
| "main_work n (ClosingRead r) = 2"
| "main_work n (Cancelling_ctx r) = 1"
| "main_work n _ = 0"

fun thread_work :: "thread_phase \<Rightarrow> nat" where
  "thread_work Reading = 2"
| "thread_work Cancelling = 1"
| "thread_work _ = 0"

definition cancel_work :: "rpc_op list \<times> cmd_result \<Rightarrow> cancel_state \<Rightarrow> nat" where
  "cancel_work calls s = main_work (length (fst calls)) (cc_main s) + thread_work (cc_thread s)"

definition ending_inv :: "rpc_op list \<times> cmd_result \<Rightarrow> cancel_state \<Rightarrow> bool" where
  "ending_inv calls s \<longleftrightarrow> cancel_inv s \<and> signalled s \<and> calls_left (fst calls) (cc_main s) \<and>
     list_all (\<lambda>op. op_ctx op = Main_ctx) (fst calls)"

lemma after_cancelled:
  assumes "after_call checked op ops (cancelled_answer op) = Some m"
  shows "main_work n m < length ops + 7"
  using assms by (cases op) (auto split: if_splits)

lemma cancelled_returns: "\<exists>m. after_call checked op ops (cancelled_answer op) = Some m"
  by (cases op) simp_all

lemma thread_work_step:
  assumes "ContextCancelThreadFunc s = Some s'"
  shows "thread_work (cc_thread s') < thread_work (cc_thread s)" and "cc_main s' = cc_main s"
    and "signalled s \<Longrightarrow> signalled s'"
  using assms
  by (cases "cc_thread s"; auto simp: cancel_defs signalled_def split: if_splits list.splits)+

lemma cleaner_work:
  assumes "cleaner s = Some s'"
  shows "main_work n (cc_main s') < main_work n (cc_main s)" and "cc_thread s' = cc_thread s"
    and "signalled s \<Longrightarrow> signalled s'" and "calls_left calls (cc_main s')"
  using assms
  by (cases "cc_main s"; auto simp: cancel_defs signalled_def split: if_splits)+

lemma local_work:
  assumes "local_step checked calls s s'"
  shows "cancel_work calls s' < cancel_work calls s"
  using assms [unfolded local_step_def]
  by (cases rule: client_step.cases)
    (auto simp: cancel_work_def cleaner_work thread_work_step add.commute dest: after_cancelled)


lemma calls_left_after:
  "after_call checked op ops a = Some m \<Longrightarrow> calls_left calls (Calling (op # ops)) \<Longrightarrow> calls_left calls m"
  by (induction checked op ops a rule: after_call.induct)
    (auto split: if_splits dest: suffix_ConsD)

lemma calls_left_step:
  assumes "client_step checked calls k s s'" and "calls_left (fst calls) (cc_main s)"
  shows "calls_left (fst calls) (cc_main s')"
  using assms(1)
proof (cases rule: client_step.cases)
  case (answered op ops a m)
  with assms(2) calls_left_after [OF answered(4)] show ?thesis by simp
next
  case (cancelled op ops m)
  with assms(2) calls_left_after [OF cancelled(5)] show ?thesis by simp
qed (use assms(2) in \<open>auto simp: cleaner_work thread_work_step HandleSignal_def write_signal_def\<close>)

lemma calls_left_reach:
  "(any_step checked calls)\<^sup>*\<^sup>* client_start s \<Longrightarrow> calls_left (fst calls) (cc_main s)"
  by (induction rule: rtranclp_induct) (auto simp: any_step_def client_start_def intro: calls_left_step)

lemma ending_inv_step:
  assumes "ending_inv calls s" and step: "local_step checked calls s s'"
  shows "ending_inv calls s'"
proof -
  have "cancel_inv s'"
    using assms(1)
    by (intro cancel_inv_step [OF _ step [unfolded local_step_def]]) (simp add: ending_inv_def)
  moreover from step [unfolded local_step_def] have "signalled s'"
  proof (cases rule: client_step.cases)
    case cleaned
    with assms(1) show ?thesis by (simp add: ending_inv_def cleaner_work)
  next
    case thread
    with assms(1) show ?thesis by (simp add: ending_inv_def thread_work_step)
  qed (use assms(1) in \<open>auto simp: ending_inv_def cancel_inv_def signalled_def\<close>)
  moreover have "calls_left (fst calls) (cc_main s')"
    using assms(1) by (intro calls_left_step [OF step [unfolded local_step_def]]) (simp add: ending_inv_def)
  ultimately show ?thesis using assms(1) by (simp add: ending_inv_def)
qed


lemma local_stepI:
  "client_step checked calls Local s s' \<Longrightarrow> \<exists>s'. local_step checked calls s s'"
  by (auto simp: local_step_def)

lemma thread_runs:
  assumes "signalled s" and "cc_thread s = Reading \<or> cc_thread s = Cancelling"
  shows "\<exists>s'. ContextCancelThreadFunc s = Some s'"
  using assms by (auto simp: ContextCancelThreadFunc_def signalled_def neq_Nil_conv split: list.splits)

lemma ending_progress:
  assumes inv: "ending_inv calls s" and run: "\<not> ended (cc_main s)"
  shows "\<exists>s'. local_step checked calls s s'"
proof (cases "cc_thread s = Reading \<or> cc_thread s = Cancelling")
  case True
  then obtain s' where "ContextCancelThreadFunc s = Some s'"
    using thread_runs inv by (auto simp: ending_inv_def)
  then show ?thesis by (rule local_stepI [OF client_step.thread]) (use run in auto)
next
  case False
  note simps = ending_inv_def cancel_inv_def cleaner_def
  consider "cc_main s = CreatingPipe" | "cc_main s = InstallingHandler" | "cc_main s = CreatingThread"
    | "cc_main s = Connecting" | ops where "cc_main s = Calling ops"
    | s' where "cleaner s = Some s'"
    using False inv run by (cases "cc_main s"; cases "cc_thread s") (auto simp: simps)
  then show ?thesis
  proof cases
    case (5 ops)
    show ?thesis
    proof (cases ops)
      case Nil
      with 5 show ?thesis by (blast intro: local_stepI client_step.returned)
    next
      case (Cons op rest)
      with 5 False inv have "op_ctx op \<in> set (cc_cancelled s)"
        by (cases "cc_thread s") (auto simp: simps suffix_def)
      with 5 Cons show ?thesis
        using cancelled_returns [of checked op rest] by (blast intro: local_stepI client_step.cancelled)
    qed
  qed (blast intro: local_stepI client_step.intros)+
qed

interpretation ending: ending_runs "local_step checked calls" "ending_inv calls"
    "\<lambda>s. ended (cc_main s)" "cancel_work calls"
  by unfold_locales (auto intro: ending_inv_step ending_progress local_work)


section \<open>Properties\<close>

lemma any_reach_inv: "(any_step checked calls)\<^sup>*\<^sup>* client_start s \<Longrightarrow> cancel_inv s"
  by (rule clients.run_inv [OF _ cancel_inv_start])

text \<open>C25: in both clients, whatever the order of the steps and the number of interrupts: the
  context of \<open>Main\<close> is never cancelled after it was destroyed; once the thread was started,
  \<open>Main\<close> is left only after the thread has ended and both ends of the pipe are closed; and the
  clean-up is never stuck, the join included.\<close>

theorem client_cleanup:
  assumes "(any_step checked calls)\<^sup>*\<^sup>* client_start s"
  shows "\<not> cc_fault s \<and>
    (cc_main s = Exited r \<and> cc_thread s \<noteq> NotStarted \<longrightarrow>
       cc_thread s = Ended \<and> \<not> cc_write_fd s \<and> \<not> cc_read_fd s) \<and>
    (cc_main s = Joining r \<longrightarrow> (\<exists>s'. local_step checked calls s s')) \<and>
    (cc_write_fd s \<and> cc_read_fd s \<or> cc_thread s = NotStarted \<or> cc_thread s = Ended)"
proof -
  have inv: "cancel_inv s" by (rule any_reach_inv [OF assms])
  have "\<exists>s'. local_step checked calls s s'" if j: "cc_main s = Joining r"
  proof (cases "cc_thread s = Ended")
    case True
    with j have "cleaner s = Some (s\<lparr>cc_main := ClosingWrite r\<rparr>)" by (simp add: cleaner_def)
    then show ?thesis by (rule local_stepI [OF client_step.cleaned])
  next
    case False
    with inv j have "signalled s" "cc_thread s = Reading \<or> cc_thread s = Cancelling"
      by (cases "cc_thread s"; simp add: cancel_inv_def signalled_def)+
    then obtain s' where "ContextCancelThreadFunc s = Some s'" using thread_runs by blast
    then show ?thesis by (rule local_stepI [OF client_step.thread]) (simp add: j)
  qed
  moreover have "cc_write_fd s \<and> cc_read_fd s \<or> cc_thread s = NotStarted \<or> cc_thread s = Ended"
    using inv by (cases "cc_main s") (auto simp: cancel_inv_def)
  ultimately show ?thesis using inv by (auto simp: cancel_inv_def)
qed

lemma sgnmi_main_ctx: "list_all (\<lambda>op. op_ctx op = Main_ctx) (fst (sgnmi_calls cmd params throws))"
  and sgnmi_few_calls: "length (fst (sgnmi_calls cmd params throws)) \<le> 3"
  by (simp_all add: sgnmi_calls_def)

text \<open>C26: an interrupt ends sgnmi_cli. From every state it can reach in which a signal is in the
  pipe or has been read, and without an answer of the server from then on, there are at most
  15 steps of the process, there is always a next one until it ends, and it can end.\<close>

theorem sgnmi_interrupt_ends:
  assumes "(any_step True (sgnmi_calls cmd params throws))\<^sup>*\<^sup>* client_start s" and "signalled s"
    and run: "(local_step True (sgnmi_calls cmd params throws) ^^ k) s s'"
  shows "k \<le> 15 \<and> (\<not> ended (cc_main s') \<longrightarrow> (\<exists>t. local_step True (sgnmi_calls cmd params throws) s' t)) \<and>
    (\<exists>t. (local_step True (sgnmi_calls cmd params throws))\<^sup>*\<^sup>* s' t \<and> ended (cc_main t))"
proof -
  let ?calls = "sgnmi_calls cmd params throws"
  have inv: "ending_inv ?calls s"
    using assms(1,2) any_reach_inv calls_left_reach sgnmi_main_ctx by (simp add: ending_inv_def)
  have "k + cancel_work ?calls s' \<le> cancel_work ?calls s" by (rule ending.run_length [OF run inv])
  moreover have "cancel_work ?calls s \<le> 15"
    using sgnmi_few_calls [of cmd params throws] any_reach_inv [OF assms(1)] calls_left_reach [OF assms(1)]
    by (cases "cc_main s"; cases "cc_thread s") (auto simp: cancel_work_def cancel_inv_def dest: suffix_length_le)
  moreover have "ending_inv ?calls s'"
    by (rule ending.run_inv [OF relpowp_imp_rtranclp [OF run] inv])
  ultimately show ?thesis using ending.progress ending.can_finish by auto
qed


lemma gnmi_ctl_own_ctx:
  "list_all (\<lambda>op. op_ctx op \<noteq> Main_ctx) (fst (gnmi_ctl_calls cmd params updates))"
  by (simp add: gnmi_ctl_calls_def list_all_iff split: option.split)

lemma unanswered_stays:
  assumes "unanswered_step checked calls s s'" and "cancel_inv s" and "cc_main s = Calling (op # ops)"
    and "op_ctx op \<noteq> Main_ctx"
  shows "cancel_inv s' \<and> cc_main s' = cc_main s"
proof -
  obtain k where k: "k \<noteq> Server" "client_step checked calls k s s'"
    using assms(1) by (auto simp: unanswered_step_def)
  from k(2) have "cc_main s' = cc_main s"
    by (cases rule: client_step.cases)
      (use assms k(1) in \<open>auto simp: cancel_inv_def cleaner_def thread_work_step HandleSignal_def
        write_signal_def\<close>)
  with cancel_inv_step [OF assms(2) k(2)] show ?thesis by simp
qed

text \<open>C27: an interrupt does not end gnmi-ctl. Once it waits in a call, of any command, it stays
  in this call until the server answers, however many interrupts arrive: the context that
  the thread cancels is not the context of the call. A subscription, whose server does not end
  it, cannot be left with SIGINT.\<close>

theorem gnmi_ctl_interrupt_lost:
  assumes "(any_step False (gnmi_ctl_calls cmd params updates))\<^sup>*\<^sup>* client_start s"
    and "cc_main s = Calling (op # ops)"
    and "(unanswered_step False (gnmi_ctl_calls cmd params updates))\<^sup>*\<^sup>* s s'"
  shows "cc_main s' = Calling (op # ops)"
proof -
  have "op_ctx op \<noteq> Main_ctx"
    using calls_left_reach [OF assms(1)] assms(2) gnmi_ctl_own_ctx [of cmd params updates]
    by (auto simp: suffix_def)
  with assms(3,2) any_reach_inv [OF assms(1)] have "cancel_inv s' \<and> cc_main s' = Calling (op # ops)"
    by (induction rule: rtranclp_induct) (use unanswered_stays in fastforce)+
  then show ?thesis ..
qed

section \<open>Runs of the clients\<close>

text \<open>A client that waits for the server, before and after an interrupt has reached the pipe.\<close>

definition waiting :: "rpc_op list \<Rightarrow> cancel_state" where
  "waiting ops = client_start\<lparr>cc_main := Calling ops, cc_thread := Reading, cc_write_fd := True,
     cc_read_fd := True, cc_handler := True\<rparr>"

lemma any_stepI: "client_step checked calls k s s' \<Longrightarrow> any_step checked calls s s'"
  by (auto simp: any_step_def)

lemma unanswered_stepI:
  "client_step checked calls Interrupt s s' \<Longrightarrow> unanswered_step checked calls s s'"
  by (auto simp: unanswered_step_def)

lemma waiting_reach: "(any_step checked calls)\<^sup>*\<^sup>* client_start (waiting (fst calls))"
proof -
  let ?s1 = "client_start\<lparr>cc_main := InstallingHandler, cc_write_fd := True, cc_read_fd := True\<rparr>"
  let ?s2 = "?s1\<lparr>cc_main := CreatingThread, cc_handler := True\<rparr>"
  let ?s3 = "?s2\<lparr>cc_main := Connecting, cc_thread := Reading\<rparr>"
  have "(any_step checked calls)\<^sup>*\<^sup>* client_start ?s1"
    by (intro r_into_rtranclp any_stepI, rule client_step.pipe_made) (simp add: client_start_def)
  also have "(any_step checked calls)\<^sup>*\<^sup>* ?s1 ?s2"
    by (intro r_into_rtranclp any_stepI, rule client_step.handler_installed) simp
  also have "(any_step checked calls)\<^sup>*\<^sup>* ?s2 ?s3"
    by (intro r_into_rtranclp any_stepI, rule client_step.thread_created) simp
  also have "(any_step checked calls)\<^sup>*\<^sup>* ?s3 (?s3\<lparr>cc_main := Calling (fst calls)\<rparr>)"
    by (intro r_into_rtranclp any_stepI, rule client_step.connected) simp
  also have "?s3\<lparr>cc_main := Calling (fst calls)\<rparr> = waiting (fst calls)"
    by (simp add: waiting_def client_start_def)
  finally show ?thesis .
qed

lemma waiting_interrupted:
  "client_step checked calls Interrupt (waiting ops) (waiting ops\<lparr>cc_pipe := [SIGINT]\<rparr>)"
  using client_step.interrupted [of "waiting ops" checked calls]
  by (simp add: waiting_def client_start_def HandleSignal_def write_signal_def)

theorem client_cleanup_witness:
  "\<not> cc_fault (waiting [UnaryCall Main_ctx])"
  using client_cleanup [OF waiting_reach [of True "([UnaryCall Main_ctx], Returned OkStatus)"]] by simp

theorem sgnmi_interrupt_ends_witness:
  "\<exists>t. (local_step True (sgnmi_calls ''sub-onchange'' [''/a''] False))\<^sup>*\<^sup>*
      (waiting (fst (sgnmi_calls ''sub-onchange'' [''/a''] False))\<lparr>cc_pipe := [SIGINT]\<rparr>) t \<and>
    ended (cc_main t)"
proof -
  let ?calls = "sgnmi_calls ''sub-onchange'' [''/a''] False"
  let ?s = "waiting (fst ?calls)\<lparr>cc_pipe := [SIGINT]\<rparr>"
  have "(any_step True ?calls)\<^sup>*\<^sup>* client_start ?s"
    by (rule rtranclp.rtrancl_into_rtrancl [OF waiting_reach any_stepI [OF waiting_interrupted]])
  moreover have "signalled ?s" by (simp add: signalled_def)
  ultimately show ?thesis
    using sgnmi_interrupt_ends [of "''sub-onchange''" "[''/a'']" False ?s 0 ?s] by simp
qed

theorem gnmi_ctl_interrupt_lost_witness:
  "cc_main (waiting (fst (gnmi_ctl_calls ''get'' [''device:physical-device''] (Some 0)))
     \<lparr>cc_pipe := [SIGINT]\<rparr>) = Calling [UnaryCall (Call_ctx 0)]"
proof -
  let ?calls = "gnmi_ctl_calls ''get'' [''device:physical-device''] (Some 0)"
  have "cc_main (waiting (fst ?calls)) = Calling [UnaryCall (Call_ctx 0)]"
    by (simp add: waiting_def gnmi_ctl_calls_def)
  moreover have "unanswered_step False ?calls (waiting (fst ?calls))
      (waiting (fst ?calls)\<lparr>cc_pipe := [SIGINT]\<rparr>)"
    by (rule unanswered_stepI [OF waiting_interrupted])
  ultimately show ?thesis
    by (rule gnmi_ctl_interrupt_lost [OF waiting_reach _ r_into_rtranclp])
qed

end
