(* ===== verification/Posix.thy ===== *)
theory Posix
  imports C_Strings
begin

text \<open>
  Processes and the system calls of \<^verbatim>\<open>src/infrap4d/daemon\<close>. A program is a tree: it returns,
  it ends the process, or it makes a system call and goes on with what the call returned; a
  program that calls forever is an infinite tree. The state of the system has the processes
  with their descriptors and the pipes between them, and \<open>os_step\<close> is one call of one process,
  the end of a process or a signal. The calls do what POSIX says of them; where it leaves a
  choice (an error, an interruption, a short read) so does the relation.

  A process number is the position of the process in the order of creation, from one.
\<close>

section \<open>Programs\<close>

datatype wait_status = Exited nat | Signaled int

datatype syscall =
    Pipe
  | Fork
  | Close int
  | Read int nat
  | Write int string
  | Waitpid int
  | Setsid
  | Open string
  | Dup2 int int
  | Raise int
  | Print string
  | Callback nat nat
  | CreateThread string
  | StratumMain

text \<open>What a call gives back: its result, \<open>errno\<close> and the objects behind its pointers.\<close>

record answer =
  a_ret :: int
  a_errno :: int
  a_data :: string
  a_fds :: "int \<times> int"
  a_status :: wait_status

definition returned :: "int \<Rightarrow> answer" where
  "returned r = \<lparr>a_ret = r, a_errno = 0, a_data = [], a_fds = (0, 0), a_status = Exited 0\<rparr>"

definition failed :: "int \<Rightarrow> answer" where
  "failed e = (returned (- 1))\<lparr>a_errno := e\<rparr>"

datatype ending = Exit int | Abort

codatatype 'a prog =
    Return 'a
  | Halt ending
  | Sys syscall "answer \<Rightarrow> 'a prog"

primcorec and_then :: "'a prog \<Rightarrow> ('a \<Rightarrow> 'b prog) \<Rightarrow> 'b prog" where
  "and_then m f =
     (case m of
        Return x \<Rightarrow> f x
      | Halt e \<Rightarrow> Halt e
      | Sys c k \<Rightarrow> Sys c (\<lambda>a. and_then (k a) f))"

lemma and_then_simps [simp]:
  "and_then (Return x) f = f x"
  "and_then (Halt e) f = Halt e"
  "and_then (Sys c k) f = Sys c (\<lambda>a. and_then (k a) f)"
  by (subst and_then.code; simp)+

lemma and_then_assoc: "and_then (and_then m f) h = and_then m (\<lambda>x. and_then (f x) h)"
  by (coinduction arbitrary: m rule: prog.coinduct_strong) (case_tac m; auto simp: rel_fun_def)

definition EINTR :: int where "EINTR = 4"
definition EBADF :: int where "EBADF = 9"
definition ECHILD :: int where "ECHILD = 10"
definition EPROTO :: int where "EPROTO = 71"
definition EOF :: int where "EOF = - 1"
definition SIGABRT :: int where "SIGABRT = 6"
definition SIGPIPE :: int where "SIGPIPE = 13"

definition interrupted :: "answer \<Rightarrow> bool" where
  "interrupted a \<longleftrightarrow> a_ret a = - 1 \<and> a_errno a = EINTR"

fun WIFEXITED :: "wait_status \<Rightarrow> bool" where
  "WIFEXITED (Exited n) = True"
| "WIFEXITED (Signaled sig) = False"

fun WEXITSTATUS :: "wait_status \<Rightarrow> int" where
  "WEXITSTATUS (Exited n) = int n"
| "WEXITSTATUS (Signaled sig) = 0"

fun ending_status :: "ending \<Rightarrow> wait_status" where
  "ending_status (Exit n) = Exited (nat (n mod 256))"
| "ending_status Abort = Signaled SIGABRT"

section \<open>Descriptors\<close>

datatype os_file = ReadEnd nat | WriteEnd nat | DevNull | OtherFile string

type_synonym fd_table = "os_file option list"

definition lowest_fd :: "fd_table \<Rightarrow> nat" where
  "lowest_fd fds = length (takeWhile (\<lambda>f. f \<noteq> None) fds)"

definition put_fd :: "nat \<Rightarrow> os_file \<Rightarrow> fd_table \<Rightarrow> fd_table" where
  "put_fd i f fds =
     (if i < length fds then fds[i := Some f] else fds @ replicate (i - length fds) None @ [Some f])"

definition file_at :: "fd_table \<Rightarrow> int \<Rightarrow> os_file option" where
  "file_at fds fd = (if 0 \<le> fd \<and> nat fd < length fds then fds ! nat fd else None)"

definition close_fd :: "int \<Rightarrow> fd_table \<Rightarrow> fd_table" where
  "close_fd fd fds = (if 0 \<le> fd then fds[nat fd := None] else fds)"

section \<open>The system\<close>

datatype proc_state = Running "unit prog" | Zombie wait_status | Reaped wait_status

record process =
  pr_state :: proc_state
  pr_fds :: fd_table
  pr_parent :: int
  pr_leader :: bool

record os =
  os_procs :: "process list"
  os_pipes :: "string list"
  os_out :: "string list"
  os_events :: "(nat \<times> syscall \<times> answer) list"
  os_writes :: "(nat \<times> nat) list"

text \<open>\<open>os_events\<close> is the history of the calls, \<open>os_writes\<close> that of the bytes in pipes: which process
  put some into which pipe.\<close>

definition has_end :: "os_file \<Rightarrow> os \<Rightarrow> bool" where
  "has_end f s \<longleftrightarrow> list_ex (\<lambda>p. Some f \<in> set (pr_fds p)) (os_procs s)"

definition put_proc :: "nat \<Rightarrow> process \<Rightarrow> os \<Rightarrow> os" where
  "put_proc i p s = s\<lparr>os_procs := (os_procs s)[i := p]\<rparr>"

definition put_pipe :: "nat \<Rightarrow> string \<Rightarrow> os \<Rightarrow> os" where
  "put_pipe n buf s = s\<lparr>os_pipes := (os_pipes s)[n := buf]\<rparr>"

text \<open>The end of a process closes its descriptors.\<close>

definition die :: "wait_status \<Rightarrow> process \<Rightarrow> process" where
  "die st p = p\<lparr>pr_state := Zombie st, pr_fds := []\<rparr>"

definition status_of :: "process \<Rightarrow> wait_status option" where
  "status_of p = (case pr_state p of Running _ \<Rightarrow> None | Zombie st \<Rightarrow> Some st | Reaped st \<Rightarrow> Some st)"

text \<open>The calls that leave the process alone: process \<open>i\<close>, which is \<open>p\<close>, makes the call, gets the
  answer and becomes \<open>p'\<close>.\<close>

inductive kernel :: "os \<Rightarrow> nat \<Rightarrow> process \<Rightarrow> syscall \<Rightarrow> answer \<Rightarrow> process \<Rightarrow> os \<Rightarrow> bool"
  for s i p where
  pipe_made: "r = lowest_fd (pr_fds p) \<Longrightarrow> fds = put_fd r (ReadEnd (length (os_pipes s))) (pr_fds p) \<Longrightarrow>
    w = lowest_fd fds \<Longrightarrow>
    kernel s i p Pipe ((returned 0)\<lparr>a_fds := (int r, int w)\<rparr>)
      (p\<lparr>pr_fds := put_fd w (WriteEnd (length (os_pipes s))) fds\<rparr>)
      (s\<lparr>os_pipes := os_pipes s @ [[]]\<rparr>)"
| pipe_fails: "0 < e \<Longrightarrow> kernel s i p Pipe ((failed e)\<lparr>a_fds := fds\<rparr>) p s"
| closed: "kernel s i p (Close fd) (returned r) (p\<lparr>pr_fds := close_fd fd (pr_fds p)\<rparr>) s"
| read_pipe: "file_at (pr_fds p) fd = Some (ReadEnd n) \<Longrightarrow> 0 < m \<Longrightarrow> m \<le> len \<Longrightarrow>
    m \<le> length (os_pipes s ! n) \<Longrightarrow>
    kernel s i p (Read fd len) ((returned (int m))\<lparr>a_data := take m (os_pipes s ! n)\<rparr>) p
      (put_pipe n (drop m (os_pipes s ! n)) s)"
| read_end: "file_at (pr_fds p) fd = Some (ReadEnd n) \<Longrightarrow> os_pipes s ! n = [] \<Longrightarrow>
    \<not> has_end (WriteEnd n) s \<Longrightarrow> kernel s i p (Read fd len) (returned 0) p s"
| read_file: "file_at (pr_fds p) fd = Some f \<Longrightarrow> f = DevNull \<and> data = [] \<or> f = OtherFile name \<Longrightarrow>
    length data \<le> len \<Longrightarrow>
    kernel s i p (Read fd len) ((returned (int (length data)))\<lparr>a_data := data\<rparr>) p s"
| read_fails: "file_at (pr_fds p) fd = None \<or> file_at (pr_fds p) fd = Some (WriteEnd n) \<Longrightarrow>
    kernel s i p (Read fd len) (failed EBADF) p s"
| read_interrupted: "kernel s i p (Read fd len) (failed EINTR) p s"
| write_pipe: "file_at (pr_fds p) fd = Some (WriteEnd n) \<Longrightarrow> has_end (ReadEnd n) s \<Longrightarrow>
    0 < m \<Longrightarrow> m \<le> length data \<Longrightarrow>
    kernel s i p (Write fd data) (returned (int m)) p
      (put_pipe n (os_pipes s ! n @ take m data) (s\<lparr>os_writes := os_writes s @ [(i, n)]\<rparr>))"
| write_file: "file_at (pr_fds p) fd = Some f \<Longrightarrow> f = DevNull \<or> f = OtherFile name \<Longrightarrow>
    m \<le> length data \<Longrightarrow> kernel s i p (Write fd data) (returned (int m)) p s"
| write_fails: "file_at (pr_fds p) fd = None \<or> file_at (pr_fds p) fd = Some (ReadEnd n) \<Longrightarrow>
    kernel s i p (Write fd data) (failed EBADF) p s"
| write_interrupted: "kernel s i p (Write fd data) (failed EINTR) p s"
| waited: "j < length (os_procs s) \<Longrightarrow> j \<noteq> i \<Longrightarrow> q = os_procs s ! j \<Longrightarrow> pr_parent q = int (Suc i) \<Longrightarrow>
    pr_state q = Zombie st \<Longrightarrow>
    kernel s i p (Waitpid (int (Suc j))) ((returned (int (Suc j)))\<lparr>a_status := st\<rparr>) p
      (put_proc j (q\<lparr>pr_state := Reaped st\<rparr>) s)"
| waitpid_fails: "\<not> (\<exists>j < length (os_procs s). pid = int (Suc j) \<and> pr_parent (os_procs s ! j) = int (Suc i) \<and>
      (\<forall>st. pr_state (os_procs s ! j) \<noteq> Reaped st)) \<Longrightarrow>
    kernel s i p (Waitpid pid) (failed ECHILD) p s"
| waitpid_interrupted: "kernel s i p (Waitpid pid) (failed EINTR) p s"
| session: "kernel s i p Setsid (returned r) (p\<lparr>pr_leader := True\<rparr>) s"
| opened: "fd = lowest_fd (pr_fds p) \<Longrightarrow>
    kernel s i p (Open name) (returned (int fd))
      (p\<lparr>pr_fds := put_fd fd (if name = ''/dev/null'' then DevNull else OtherFile name) (pr_fds p)\<rparr>) s"
| open_fails: "0 < e \<Longrightarrow> kernel s i p (Open name) (failed e) p s"
| duplicated: "file_at (pr_fds p) old = Some f \<Longrightarrow> 0 \<le> new \<Longrightarrow>
    kernel s i p (Dup2 old new) (returned new) (p\<lparr>pr_fds := put_fd (nat new) f (pr_fds p)\<rparr>) s"
| dup2_fails: "0 < e \<Longrightarrow> kernel s i p (Dup2 old new) (failed e) p s"
| raised: "kernel s i p (Raise sig) (returned 0) p s"
| printed: "kernel s i p (Print line) (returned r) p (s\<lparr>os_out := os_out s @ [line]\<rparr>)"
| callback: "kernel s i p (Callback cb aux) (returned r) p s"
| thread: "kernel s i p (CreateThread name) (returned r) p s"
| stratum: "kernel s i p StratumMain (returned r) p s"

definition log_event :: "nat \<Rightarrow> syscall \<Rightarrow> answer \<Rightarrow> os \<Rightarrow> os" where
  "log_event i c a s = s\<lparr>os_events := os_events s @ [(i, c, a)]\<rparr>"

definition running :: "os \<Rightarrow> nat \<Rightarrow> unit prog \<Rightarrow> bool" where
  "running s i m \<longleftrightarrow> i < length (os_procs s) \<and> pr_state (os_procs s ! i) = Running m"

text \<open>A step of process \<open>i\<close>, and a signal from outside.\<close>

inductive proc_step :: "nat \<Rightarrow> os \<Rightarrow> os \<Rightarrow> bool" for i s where
  call: "running s i (Sys c k) \<Longrightarrow> p = os_procs s ! i \<Longrightarrow> kernel s i p c a p' s' \<Longrightarrow>
    proc_step i s (log_event i c a (put_proc i (p'\<lparr>pr_state := Running (k a)\<rparr>) s'))"
| forked: "running s i (Sys Fork k) \<Longrightarrow> p = os_procs s ! i \<Longrightarrow>
    a = returned (int (Suc (length (os_procs s)))) \<Longrightarrow>
    child = p\<lparr>pr_state := Running (k (returned 0)), pr_parent := int (Suc i), pr_leader := False\<rparr> \<Longrightarrow>
    proc_step i s (log_event i Fork a
      (s\<lparr>os_procs := (os_procs s)[i := p\<lparr>pr_state := Running (k a)\<rparr>] @ [child]\<rparr>))"
| fork_fails: "running s i (Sys Fork k) \<Longrightarrow> 0 < e \<Longrightarrow>
    proc_step i s (log_event i Fork (failed e)
      (put_proc i ((os_procs s ! i)\<lparr>pr_state := Running (k (failed e))\<rparr>) s))"
| halt: "running s i (Halt e) \<Longrightarrow>
    proc_step i s (put_proc i (die (ending_status e) (os_procs s ! i)) s)"
| broken_pipe: "running s i (Sys (Write fd data) k) \<Longrightarrow>
    file_at (pr_fds (os_procs s ! i)) fd = Some (WriteEnd n) \<Longrightarrow> \<not> has_end (ReadEnd n) s \<Longrightarrow>
    proc_step i s (put_proc i (die (Signaled SIGPIPE) (os_procs s ! i)) s)"
| raised: "running s i (Sys (Raise sig) k) \<Longrightarrow>
    proc_step i s (put_proc i (die (Signaled sig) (os_procs s ! i)) s)"

inductive os_step :: "os \<Rightarrow> os \<Rightarrow> bool" where
  proc: "proc_step i s s' \<Longrightarrow> os_step s s'"
| kill: "running s i m \<Longrightarrow> os_step s (put_proc i (die (Signaled sig) (os_procs s ! i)) s)"

inductive_cases os_stepE: "os_step s s'"
inductive_cases proc_stepE: "proc_step i s s'"
inductive_cases kernel_pipeE: "kernel s i p Pipe a p' s'"
inductive_cases kernel_closeE: "kernel s i p (Close fd) a p' s'"
inductive_cases kernel_readE: "kernel s i p (Read fd len) a p' s'"
inductive_cases kernel_writeE: "kernel s i p (Write fd data) a p' s'"
inductive_cases kernel_waitpidE: "kernel s i p (Waitpid pid) a p' s'"
inductive_cases kernel_printE: "kernel s i p (Print l) a p' s'"
inductive_cases kernel_setsidE: "kernel s i p Setsid a p' s'"
inductive_cases kernel_forkE [elim!]: "kernel s i p Fork a p' s'"

text \<open>A program started by a shell: one process with its descriptors, in a session of the shell.\<close>

definition boot :: "fd_table \<Rightarrow> int prog \<Rightarrow> os" where
  "boot fds m =
     \<lparr>os_procs = [\<lparr>pr_state = Running (and_then m (\<lambda>r. Halt (Exit r))), pr_fds = fds, pr_parent = 0,
        pr_leader = False\<rparr>],
      os_pipes = [], os_out = [], os_events = [], os_writes = []\<rparr>"

section \<open>What a step leaves alone\<close>

lemmas os_defs = put_proc_def put_pipe_def log_event_def running_def die_def

text \<open>The other processes, but for a zombie whose parent waits for it.\<close>

definition others_kept :: "nat \<Rightarrow> os \<Rightarrow> os \<Rightarrow> bool" where
  "others_kept i s s' \<longleftrightarrow> length (os_procs s) \<le> length (os_procs s') \<and>
     (\<forall>j < length (os_procs s). j \<noteq> i \<longrightarrow> os_procs s' ! j = os_procs s ! j \<or>
        (\<exists>st. pr_state (os_procs s ! j) = Zombie st \<and> pr_parent (os_procs s ! j) = int (Suc i) \<and>
          os_procs s' ! j = (os_procs s ! j)\<lparr>pr_state := Reaped st\<rparr>))"

lemma kernel_others:
  "kernel s i p c a p' s' \<Longrightarrow> length (os_procs s') = length (os_procs s) \<and> others_kept i s s'"
  by (erule kernel.cases) (auto simp: others_kept_def os_defs nth_list_update)

lemma put_others:
  "others_kept i s s' \<Longrightarrow> length (os_procs s') = length (os_procs s) \<Longrightarrow> others_kept i s (put_proc i p s')"
  by (simp add: others_kept_def put_proc_def)

lemma others_log [simp]: "others_kept i s (log_event j c a s') = others_kept i s s'"
  by (simp add: others_kept_def log_event_def)

lemma others_refl [simp]: "others_kept i s s"
  by (simp add: others_kept_def)

lemma proc_step_others:
  assumes "proc_step i s s'"
  shows "i < length (os_procs s) \<and> others_kept i s s'"
  using assms
proof (cases rule: proc_step.cases)
  case (forked k p a child)
  then show ?thesis by (auto simp: others_kept_def os_defs nth_append)
qed (auto simp: running_def intro!: put_others dest: kernel_others)

text \<open>The parent of a process does not change.\<close>

lemma kernel_parent: "kernel s i p c a p' s' \<Longrightarrow> pr_parent p' = pr_parent p"
  by (erule kernel.cases) auto

lemma kernel_procs:
  "kernel s i p c a p' s' \<Longrightarrow> i < length (os_procs s) \<Longrightarrow> os_procs s' ! i = os_procs s ! i"
  by (erule kernel.cases) (auto simp: os_defs)

lemma proc_step_parent:
  assumes "proc_step i s s'"
  shows "pr_parent (os_procs s' ! i) = pr_parent (os_procs s ! i)"
  using assms
proof (cases rule: proc_step.cases)
  case (call c k p a p' s1)
  with kernel_parent [OF call(4)] kernel_others [OF call(4)] show ?thesis by (simp add: os_defs)
qed (auto simp: os_defs nth_append)

lemma kernel_events: "kernel s i p c a p' s' \<Longrightarrow> os_events s' = os_events s"
  by (erule kernel.cases) (auto simp: os_defs)

lemma proc_step_events:
  "proc_step i s s' \<Longrightarrow> os_events s' = os_events s \<or> (\<exists>c a. os_events s' = os_events s @ [(i, c, a)])"
  by (erule proc_step.cases) (auto simp: os_defs dest: kernel_events)

text \<open>Pipes: what is in a pipe was written by some process through the other end of that pipe.\<close>

definition written :: "nat \<Rightarrow> nat \<Rightarrow> os \<Rightarrow> bool" where
  "written n i s \<longleftrightarrow> (i, n) \<in> set (os_writes s)"

lemma update_drop_empty: "xs ! n = [] \<Longrightarrow> xs[k := drop m (xs ! k)] ! n = []"
  by (cases "k < length xs") (auto simp: nth_list_update list_update_beyond)

lemma update_nonempty: "xs[k := v] ! n \<noteq> [] \<Longrightarrow> xs ! n = [] \<Longrightarrow> n = k"
  by (cases "n = k") simp_all

lemma kernel_pipes:
  "kernel s i p c a p' s' \<Longrightarrow> n < length (os_pipes s') \<Longrightarrow> os_pipes s' ! n \<noteq> [] \<Longrightarrow>
   n < length (os_pipes s) \<and> os_pipes s ! n \<noteq> [] \<or> written n i s'"
  by (erule kernel.cases)
    (auto simp: os_defs nth_append written_def update_drop_empty dest: update_nonempty split: if_splits)

lemma proc_step_pipes:
  assumes "proc_step i s s'" and n: "n < length (os_pipes s')" "os_pipes s' ! n \<noteq> []"
  shows "n < length (os_pipes s) \<and> os_pipes s ! n \<noteq> [] \<or> written n i s'"
  using assms(1)
proof (cases rule: proc_step.cases)
  case (call c k p a p' s1)
  with n kernel_pipes [OF call(4)] show ?thesis by (auto simp: os_defs written_def)
qed (use n in \<open>simp_all add: os_defs\<close>)

lemma kernel_writes:
  "kernel s i p c a p' s' \<Longrightarrow> os_writes s' = os_writes s \<or>
     (\<exists>n fd data. c = Write fd data \<and> file_at (pr_fds p) fd = Some (WriteEnd n) \<and>
        os_writes s' = os_writes s @ [(i, n)])"
  by (erule kernel.cases) (auto simp: os_defs)

lemma proc_step_writes:
  "proc_step i s s' \<Longrightarrow> os_writes s' = os_writes s \<or> (\<exists>n. os_writes s' = os_writes s @ [(i, n)])"
  by (erule proc_step.cases) (auto simp: os_defs dest!: kernel_writes)

lemma kernel_more_pipes: "kernel s i p c a p' s' \<Longrightarrow> length (os_pipes s) \<le> length (os_pipes s')"
  by (erule kernel.cases) (auto simp: os_defs)

lemma proc_step_more_pipes: "proc_step i s s' \<Longrightarrow> length (os_pipes s) \<le> length (os_pipes s')"
  by (erule proc_step.cases) (auto simp: os_defs dest: kernel_more_pipes)

text \<open>Statuses are one byte.\<close>

definition byte_status :: "process \<Rightarrow> bool" where
  "byte_status p \<longleftrightarrow> (case status_of p of Some (Exited n) \<Rightarrow> n < 256 | _ \<Rightarrow> True)"

lemma byte_status_simps [simp]:
  "byte_status (p\<lparr>pr_state := Running m\<rparr>)"
  "byte_status (p\<lparr>pr_state := Running m, pr_parent := pp, pr_leader := b\<rparr>)"
  "byte_status (die (ending_status e) p)" "byte_status (die (Signaled sig) p)"
  by (auto simp: byte_status_def status_of_def die_def nat_less_iff) (cases e; simp add: nat_less_iff)

lemma byte_status_reaped: "byte_status p \<Longrightarrow> pr_state p = Zombie st \<Longrightarrow> byte_status (p\<lparr>pr_state := Reaped st\<rparr>)"
  by (simp add: byte_status_def status_of_def)

lemma kernel_byte_status:
  "kernel s i p c a p' s' \<Longrightarrow> list_all byte_status (os_procs s) \<Longrightarrow> list_all byte_status (os_procs s')"
  by (erule kernel.cases)
    (auto simp: os_defs list_all_iff dest!: set_update_subset_insert [THEN subsetD]
      intro!: byte_status_reaped)

lemma proc_step_byte_status:
  "proc_step i s s' \<Longrightarrow> list_all byte_status (os_procs s) \<Longrightarrow> list_all byte_status (os_procs s')"
  by (erule proc_step.cases)
    (auto simp: put_proc_def log_event_def list_all_iff dest!: set_update_subset_insert [THEN subsetD]
      dest: kernel_byte_status [unfolded list_all_iff])

text \<open>All of it, for a step or a signal.\<close>

definition killed :: "nat \<Rightarrow> os \<Rightarrow> os \<Rightarrow> bool" where
  "killed i s s' \<longleftrightarrow>
     (\<exists>m sig. running s i m \<and> s' = put_proc i (die (Signaled sig) (os_procs s ! i)) s)"

definition stepped :: "nat \<Rightarrow> os \<Rightarrow> os \<Rightarrow> bool" where
  "stepped i s s' \<longleftrightarrow> i < length (os_procs s) \<and> others_kept i s s' \<and>
     pr_parent (os_procs s' ! i) = pr_parent (os_procs s ! i) \<and>
     (os_events s' = os_events s \<or> (\<exists>c a. os_events s' = os_events s @ [(i, c, a)])) \<and>
     (\<forall>n < length (os_pipes s'). os_pipes s' ! n \<noteq> [] \<longrightarrow>
        n < length (os_pipes s) \<and> os_pipes s ! n \<noteq> [] \<or> written n i s') \<and>
     (os_writes s' = os_writes s \<or> (\<exists>n. os_writes s' = os_writes s @ [(i, n)])) \<and>
     length (os_pipes s) \<le> length (os_pipes s') \<and>
     (list_all byte_status (os_procs s) \<longrightarrow> list_all byte_status (os_procs s'))"

lemma proc_step_stepped:
  assumes "proc_step i s s'"
  shows "stepped i s s'"
  unfolding stepped_def
  using proc_step_others [OF assms] proc_step_parent [OF assms] proc_step_events [OF assms]
    proc_step_pipes [OF assms] proc_step_writes [OF assms] proc_step_more_pipes [OF assms]
    proc_step_byte_status [OF assms]
  by (intro conjI) simp_all

lemma killed_stepped: "killed i s s' \<Longrightarrow> stepped i s s'"
  by (auto simp: killed_def stepped_def put_proc_def running_def others_kept_def list_all_iff
      dest!: set_update_subset_insert [THEN subsetD]) (simp add: die_def)

lemma os_stepD: "os_step s s' \<Longrightarrow> \<exists>i. stepped i s s' \<and> (proc_step i s s' \<or> killed i s s')"
  by (elim os_stepE) (blast intro: proc_step_stepped, metis killed_def killed_stepped)

lemma stepped_length: "stepped i s s' \<Longrightarrow> i < length (os_procs s) \<and> length (os_procs s) \<le> length (os_procs s')"
  by (simp add: stepped_def others_kept_def)

lemma stepped_other:
  assumes "stepped i s s'" and "j < length (os_procs s)" and "j \<noteq> i"
  shows "os_procs s' ! j = os_procs s ! j \<or>
    (\<exists>st. pr_state (os_procs s ! j) = Zombie st \<and> pr_parent (os_procs s ! j) = int (Suc i) \<and>
      os_procs s' ! j = (os_procs s ! j)\<lparr>pr_state := Reaped st\<rparr>)"
  using assms by (simp add: stepped_def others_kept_def)

lemma stepped_parent:
  assumes "stepped i s s'" and "j < length (os_procs s)"
  shows "pr_parent (os_procs s' ! j) = pr_parent (os_procs s ! j)"
proof (cases "j = i")
  case True
  then show ?thesis using assms(1) by (simp add: stepped_def)
next
  case False
  then show ?thesis using stepped_other [OF assms] by auto
qed

text \<open>The step of a process that makes a call which cannot end it.\<close>

fun plain_call :: "syscall \<Rightarrow> bool" where
  "plain_call Fork = False"
| "plain_call (Write fd data) = False"
| "plain_call (Raise sig) = False"
| "plain_call c = True"

lemma proc_step_call:
  assumes "proc_step i s s'" and "pr_state (os_procs s ! i) = Running (Sys c k)" and "plain_call c"
  obtains a p' s1 where "kernel s i (os_procs s ! i) c a p' s1"
    and "s' = log_event i c a (put_proc i (p'\<lparr>pr_state := Running (k a)\<rparr>) s1)"
  using assms by (auto elim!: proc_step.cases simp: running_def)

lemma proc_step_halt:
  assumes "proc_step i s s'" and "pr_state (os_procs s ! i) = Running (Halt e)"
  shows "s' = put_proc i (die (ending_status e) (os_procs s ! i)) s"
  using assms by (auto elim!: proc_step.cases simp: running_def)

lemma proc_step_fork:
  assumes "proc_step i s s'" and "pr_state (os_procs s ! i) = Running (Sys Fork k)"
  obtains (ok) a child where "a = returned (int (Suc (length (os_procs s))))"
      "child = (os_procs s ! i)\<lparr>pr_state := Running (k (returned 0)), pr_parent := int (Suc i),
         pr_leader := False\<rparr>"
      "s' = log_event i Fork a (s\<lparr>os_procs :=
         (os_procs s)[i := (os_procs s ! i)\<lparr>pr_state := Running (k a)\<rparr>] @ [child]\<rparr>)"
    | (fails) e where "0 < e"
      "s' = log_event i Fork (failed e)
         (put_proc i ((os_procs s ! i)\<lparr>pr_state := Running (k (failed e))\<rparr>) s)"
  using assms by (auto elim!: proc_step.cases simp: running_def)

lemma proc_step_running:
  "proc_step i s s' \<Longrightarrow> \<exists>c k e. pr_state (os_procs s ! i) = Running (Sys c k) \<or>
     pr_state (os_procs s ! i) = Running (Halt e)"
  by (auto elim!: proc_step.cases simp: running_def)

end
