(* ===== verification/Daemon.thy ===== *)
theory Daemon
  imports Posix
begin

text \<open>
  The daemon library of infrap4d (\<^verbatim>\<open>src/infrap4d/daemon\<close>) and the two main programs that use it
  (\<^verbatim>\<open>src/infrap4d\<close>), as programs of system calls. The static variables are a record that the
  functions take and return. The server itself, \<^verbatim>\<open>stratum::hal::tdi::Main\<close>, and the threads of
  krnlmon are calls whose answer is open.
\<close>

section \<open>Variables\<close>

text \<open>Functions and what they are given are numbers.\<close>

record hook =
  hk_hook_cb :: "nat option"
  hk_cancel_cb :: "nat option"
  hk_aux :: nat
  hk_run_at_exit :: bool

record daemon_vars =
  infrap4d_detach :: bool
  infrap4d_detached :: bool
  infrap4d_pidfile :: "string option"
  infrap4d_daemonize_fd :: int
  infrap4d_save_fds :: "bool list"
  null_fd :: int
  infrap4d_hooks :: "hook list"
  infrap4d_stored_sig_nr :: int

definition SIG_ATOMIC_MAX :: int where "SIG_ATOMIC_MAX = 2 ^ 31 - 1"

definition daemon_init :: daemon_vars where
  "daemon_init =
     \<lparr>infrap4d_detach = True, infrap4d_detached = False, infrap4d_pidfile = None,
      infrap4d_daemonize_fd = - 1, infrap4d_save_fds = [False, False, False], null_fd = 0,
      infrap4d_hooks = [], infrap4d_stored_sig_nr = SIG_ATOMIC_MAX\<rparr>"

section \<open>\<^verbatim>\<open>daemon.c\<close>\<close>

text \<open>A failed assertion aborts.\<close>

definition daemon_save_fd :: "int \<Rightarrow> daemon_vars \<Rightarrow> daemon_vars prog" where
  "daemon_save_fd fd v =
     (if fd = 0 \<or> fd = 1 \<or> fd = 2
      then Return (v\<lparr>infrap4d_save_fds := (infrap4d_save_fds v)[nat fd := True]\<rparr>)
      else Halt Abort)"

definition get_null_fd :: "daemon_vars \<Rightarrow> (int \<times> daemon_vars) prog" where
  "get_null_fd v =
     (if null_fd v = 0 then
        Sys (Open ''/dev/null'') (\<lambda>a.
          let fd = (if a_ret a < 0 then - a_errno a else a_ret a)
          in Return (fd, v\<lparr>null_fd := fd\<rparr>))
      else Return (null_fd v, v))"

fun replace_fds :: "int \<Rightarrow> int list \<Rightarrow> daemon_vars \<Rightarrow> daemon_vars prog" where
  "replace_fds null [] v = Return v"
| "replace_fds null (fd # fds) v =
     (if \<not> infrap4d_save_fds v ! nat fd
      then Sys (Dup2 null fd) (\<lambda>_. replace_fds null fds v)
      else replace_fds null fds v)"

definition daemon_close_standard_fds :: "daemon_vars \<Rightarrow> daemon_vars prog" where
  "daemon_close_standard_fds v =
     and_then (get_null_fd v) (\<lambda>(null, v).
       if null \<ge> 0 then replace_fds null [0, 1, 2] v else Return v)"

section \<open>\<^verbatim>\<open>fatal-signal.c\<close>\<close>

fun cancel_hooks :: "hook list \<Rightarrow> unit prog" where
  "cancel_hooks [] = Return ()"
| "cancel_hooks (h # hs) =
     (case hk_cancel_cb h of
        Some cb \<Rightarrow> Sys (Callback cb (hk_aux h)) (\<lambda>_. cancel_hooks hs)
      | None \<Rightarrow> cancel_hooks hs)"

definition daemon_fatal_signal_fork :: "daemon_vars \<Rightarrow> daemon_vars prog" where
  "daemon_fatal_signal_fork v =
     and_then (cancel_hooks (infrap4d_hooks v)) (\<lambda>_.
       let v = v\<lparr>infrap4d_hooks := []\<rparr>
       in if infrap4d_stored_sig_nr v \<noteq> SIG_ATOMIC_MAX
          then Sys (Raise (infrap4d_stored_sig_nr v)) (\<lambda>_. Return v)
          else Return v)"

section \<open>\<^verbatim>\<open>daemon-unix.c\<close>\<close>

text \<open>The loop of \<open>read_fully\<close>: \<open>p\<close> is what has been read so far, \<open>len\<close> what is left to read.\<close>

primcorec read_fully_loop :: "int \<Rightarrow> nat \<Rightarrow> string \<Rightarrow> (int \<times> string) prog" where
  "read_fully_loop fd len p =
     (if len > 0 then
        Sys (Read fd len) (\<lambda>a.
          if a_ret a > 0 then read_fully_loop fd (len - nat (a_ret a)) (p @ a_data a)
          else if a_ret a = 0 then Return (EOF, p)
          else if a_errno a \<noteq> EINTR then Return (a_errno a, p)
          else read_fully_loop fd len p)
      else Return (0, p))"

definition read_fully :: "int \<Rightarrow> nat \<Rightarrow> (int \<times> string) prog" where
  "read_fully fd len = read_fully_loop fd len []"

text \<open>The loop of \<open>write_fully\<close>: \<open>p\<close> is what is left to write.\<close>

primcorec write_fully_loop :: "int \<Rightarrow> string \<Rightarrow> nat \<Rightarrow> (int \<times> nat) prog" where
  "write_fully_loop fd p bytes_written =
     (if p \<noteq> [] then
        Sys (Write fd p) (\<lambda>a.
          if a_ret a > 0 then
            write_fully_loop fd (drop (nat (a_ret a)) p) (bytes_written + nat (a_ret a))
          else if a_ret a = 0 then Return (EPROTO, bytes_written)
          else if a_errno a \<noteq> EINTR then Return (a_errno a, bytes_written)
          else write_fully_loop fd p bytes_written)
      else Return (0, bytes_written))"

definition write_fully :: "int \<Rightarrow> string \<Rightarrow> (int \<times> nat) prog" where
  "write_fully fd p = write_fully_loop fd p 0"

definition fork_and_clean_up :: "daemon_vars \<Rightarrow> (int \<times> daemon_vars) prog" where
  "fork_and_clean_up v =
     Sys Fork (\<lambda>a.
       let pid = a_ret a
       in if pid < 0 then Sys (Print ''fork failed'') (\<lambda>_. Return (pid, v))
          else if pid > 0 then and_then (daemon_fatal_signal_fork v) (\<lambda>v. Return (pid, v))
          else Return (pid, v))"

primcorec waitpid_loop :: "int \<Rightarrow> answer prog" where
  "waitpid_loop pid =
     Sys (Waitpid pid) (\<lambda>a.
       if a_ret a = - 1 \<and> a_errno a = EINTR then waitpid_loop pid else Return a)"

text \<open>The parent after a failed read: the value of \<open>ret\<close>.\<close>

definition startup_failed :: "int \<Rightarrow> int prog" where
  "startup_failed pid =
     and_then (waitpid_loop pid) (\<lambda>a.
       if a_ret a = pid then
         if WIFEXITED (a_status a) \<and> WEXITSTATUS (a_status a) \<noteq> 0
         then Halt (Exit (WEXITSTATUS (a_status a)))
         else Return (- 1)
       else Halt Abort)"

text \<open>The result is \<open>ret\<close>, with \<open>*fdp\<close> and \<open>*child_pid\<close>. If the pipe could not be made the two
  descriptors are whatever was in \<open>fds\<close>.\<close>

definition fork_and_wait_for_startup :: "int \<Rightarrow> daemon_vars \<Rightarrow> (int \<times> int \<times> int \<times> daemon_vars) prog" where
  "fork_and_wait_for_startup fdp v =
     Sys Pipe (\<lambda>a.
       let (fds0, fds1) = a_fds a;
           forked = and_then (fork_and_clean_up v) (\<lambda>(pid, v).
             if pid > 0 then
               Sys (Close fds1) (\<lambda>_.
                 and_then (read_fully fds0 1) (\<lambda>(r, _).
                   and_then (if r \<noteq> 0 then startup_failed pid else Return 0) (\<lambda>ret.
                     Return (ret, fds0, pid, v))))
             else if pid = 0 then Sys (Close fds0) (\<lambda>_. Return (0, fds1, pid, v))
             else Return (0, fdp, pid, v))
       in if a_ret a \<noteq> 0 then Sys (Print ''failed to create pipe '') (\<lambda>_. forked) else forked)"

definition fork_notify_startup :: "int \<Rightarrow> unit prog" where
  "fork_notify_startup fd =
     (if fd \<noteq> - 1 then
        and_then (write_fully fd [NUL]) (\<lambda>(error, _).
          if error \<noteq> 0 then Sys (Print ''pipe write failed '') (\<lambda>_. Return ()) else Return ())
      else Return ())"

definition daemonize_start :: "bool \<Rightarrow> daemon_vars \<Rightarrow> daemon_vars prog" where
  "daemonize_start access_datapath v =
     (let v = v\<lparr>infrap4d_daemonize_fd := - 1\<rparr>
      in if infrap4d_detach v then
           and_then (fork_and_wait_for_startup (infrap4d_daemonize_fd v) v) (\<lambda>(ret, fd, pid, v).
             let v = v\<lparr>infrap4d_daemonize_fd := fd\<rparr>;
                 rest = (if pid > 0 then Halt (Exit 0) else Sys Setsid (\<lambda>_. Return v))
             in if ret \<noteq> 0
                then Sys (Print ''could not detach from foreground session '') (\<lambda>_. rest)
                else rest)
         else Return v)"

definition daemonize_post_detach :: "daemon_vars \<Rightarrow> daemon_vars prog" where
  "daemonize_post_detach v =
     (if infrap4d_detach v then daemon_close_standard_fds v else Return v)"

definition daemonize_complete :: "daemon_vars \<Rightarrow> daemon_vars prog" where
  "daemonize_complete v =
     (let v = v\<lparr>infrap4d_pidfile := None\<rparr>
      in if \<not> infrap4d_detached v then
           (let v = v\<lparr>infrap4d_detached := True\<rparr>
            in and_then (fork_notify_startup (infrap4d_daemonize_fd v)) (\<lambda>_. daemonize_post_detach v))
         else Return v)"

section \<open>The main programs\<close>

definition stratum_main :: "int prog" where
  "stratum_main =
     Sys StratumMain (\<lambda>status. if a_ret status \<noteq> 0 then Return (a_ret status) else Return 0)"

definition detached :: "bool \<Rightarrow> daemon_vars \<Rightarrow> daemon_vars prog" where
  "detached FLAGS_detach v =
     (if FLAGS_detach then and_then (daemonize_start False v) daemonize_complete else Return v)"

definition infrap4d_lite_main :: "bool \<Rightarrow> int prog" where
  "infrap4d_lite_main FLAGS_detach =
     and_then (detached FLAGS_detach daemon_init) (\<lambda>_. stratum_main)"

definition infrap4d_main :: "bool \<Rightarrow> bool \<Rightarrow> int prog" where
  "infrap4d_main FLAGS_detach FLAGS_disable_krnlmon =
     and_then (detached FLAGS_detach daemon_init) (\<lambda>_.
       if \<not> FLAGS_disable_krnlmon then
         Sys (CreateThread ''krnlmon_create_main_thread'') (\<lambda>_.
           Sys (CreateThread ''krnlmon_create_shutdown_thread'') (\<lambda>_. stratum_main))
       else stratum_main)"

lemmas loop_code = read_fully_loop.code write_fully_loop.code waitpid_loop.code

end
