(* ===== verification/Daemon_Machine.thy ===== *)
theory Daemon_Machine
  imports Daemon Runs
begin

text \<open>
  The process that calls \<open>daemonize_start\<close> and the child it forks: where the parent is, what it
  knows of the child, and what the steps of other processes leave alone.
\<close>

section \<open>Control points\<close>

text \<open>What is left of the programs; \<open>body\<close> is what follows \<open>daemonize_start\<close>.\<close>

definition body_prog :: "(daemon_vars \<Rightarrow> int prog) \<Rightarrow> daemon_vars \<Rightarrow> unit prog" where
  "body_prog body v = and_then (body v) (\<lambda>r. Halt (Exit r))"

definition parent_wait :: "int \<Rightarrow> unit prog" where
  "parent_wait pid =
     and_then (waitpid_loop pid) (\<lambda>a.
       if a_ret a = pid then
         if WIFEXITED (a_status a) \<and> WEXITSTATUS (a_status a) \<noteq> 0
         then Halt (Exit (WEXITSTATUS (a_status a)))
         else Sys (Print ''could not detach from foreground session '') (\<lambda>_. Halt (Exit 0))
       else Halt Abort)"

definition parent_read :: "int \<Rightarrow> int \<Rightarrow> unit prog" where
  "parent_read r pid =
     and_then (read_fully r 1) (\<lambda>(e, _). if e \<noteq> 0 then parent_wait pid else Halt (Exit 0))"

definition child_start :: "(daemon_vars \<Rightarrow> int prog) \<Rightarrow> int \<Rightarrow> unit prog" where
  "child_start body w =
     Sys Setsid (\<lambda>_. body_prog body (daemon_init\<lparr>infrap4d_daemonize_fd := w\<rparr>))"

definition forking :: "(daemon_vars \<Rightarrow> int prog) \<Rightarrow> int \<Rightarrow> int \<Rightarrow> answer \<Rightarrow> unit prog" where
  "forking body r w a =
     (if a_ret a > 0 then Sys (Close w) (\<lambda>_. parent_read r (a_ret a))
      else if a_ret a = 0 then Sys (Close r) (\<lambda>_. child_start body w)
      else Sys (Print ''fork failed'') (\<lambda>_. child_start body (- 1)))"

definition start_prog :: "(daemon_vars \<Rightarrow> int prog) \<Rightarrow> unit prog" where
  "start_prog body =
     Sys Pipe (\<lambda>a.
       if a_ret a \<noteq> 0
       then Sys (Print ''failed to create pipe '') (\<lambda>_. Sys Fork (forking body (fst (a_fds a)) (snd (a_fds a))))
       else Sys Fork (forking body (fst (a_fds a)) (snd (a_fds a))))"

lemma if_and_then: "and_then (if b then m else m') f = (if b then and_then m f else and_then m' f)"
  by simp

lemma start_prog_eq:
  "and_then (and_then (daemonize_start b daemon_init) body) (\<lambda>r. Halt (Exit r)) = start_prog body"
  by (auto simp: daemonize_start_def fork_and_wait_for_startup_def fork_and_clean_up_def
      daemon_fatal_signal_fork_def startup_failed_def read_fully_def Let_def daemon_init_def
      start_prog_def forking_def parent_read_def parent_wait_def child_start_def body_prog_def
      and_then_assoc if_and_then split_def fun_eq_iff cong: if_cong)

lemma loops_done:
  "read_fully_loop fd 0 q = Return (0, q)" "write_fully_loop fd [] n = Return (0, n)"
  by (subst read_fully_loop.code write_fully_loop.code; simp)+

lemma parent_wait_code:
  "parent_wait pid = Sys (Waitpid pid) (\<lambda>a.
     if a_ret a = - 1 \<and> a_errno a = EINTR then parent_wait pid
     else if a_ret a = pid then
       if WIFEXITED (a_status a) \<and> WEXITSTATUS (a_status a) \<noteq> 0
       then Halt (Exit (WEXITSTATUS (a_status a)))
       else Sys (Print ''could not detach from foreground session '') (\<lambda>_. Halt (Exit 0))
     else Halt Abort)"
  unfolding parent_wait_def by (subst waitpid_loop.code) (simp add: fun_eq_iff)

lemma parent_read_code:
  "parent_read r pid = Sys (Read r 1) (\<lambda>a.
     if a_ret a > 0 then Halt (Exit 0)
     else if a_ret a = 0 then parent_wait pid
     else if a_errno a = EINTR then parent_read r pid
     else if a_errno a \<noteq> 0 then parent_wait pid else Halt (Exit 0))"
  unfolding parent_read_def read_fully_def
  by (subst read_fully_loop.code) (auto simp: fun_eq_iff EOF_def Suc_le_eq loops_done)

section \<open>The parent\<close>

text \<open>The pipe of \<open>fork_and_wait_for_startup\<close> is the first one, number 0.\<close>

definition notified :: "os \<Rightarrow> bool" where
  "notified s \<longleftrightarrow> (\<exists>j. j \<noteq> 0 \<and> written 0 j s)"

definition child_failed :: "os \<Rightarrow> bool" where
  "child_failed s \<longleftrightarrow> status_of (os_procs s ! 1) = Some (Exited 0) \<or>
     (\<exists>sig. status_of (os_procs s ! 1) = Some (Signaled sig))"

definition has_child :: "os \<Rightarrow> bool" where
  "has_child s \<longleftrightarrow> 2 \<le> length (os_procs s) \<and> pr_parent (os_procs s ! 1) = 1"

definition child_left :: "os \<Rightarrow> bool" where
  "child_left s \<longleftrightarrow> has_child s \<and> (\<forall>st. pr_state (os_procs s ! 1) \<noteq> Reaped st)"

text \<open>What the exit status of the parent says.\<close>

definition says :: "os \<Rightarrow> nat \<Rightarrow> bool" where
  "says s n \<longleftrightarrow> has_child s \<and>
     (if n = 0 then notified s \<or> child_failed s else status_of (os_procs s ! 1) = Some (Exited n))"

definition reads_pipe :: "int \<Rightarrow> int \<Rightarrow> process \<Rightarrow> bool" where
  "reads_pipe r w p \<longleftrightarrow> file_at (pr_fds p) r = Some (ReadEnd 0) \<and> 0 \<le> w \<and> r \<noteq> w"

inductive parent_phase :: "(daemon_vars \<Rightarrow> int prog) \<Rightarrow> os \<Rightarrow> process \<Rightarrow> bool" for body s p where
  starting: "length (os_procs s) = 1 \<Longrightarrow> os_pipes s = [] \<Longrightarrow> pr_state p = Running (start_prog body) \<Longrightarrow>
    parent_phase body s p"
| forking: "length (os_procs s) = 1 \<Longrightarrow> os_pipes s \<noteq> [] \<Longrightarrow> reads_pipe r w p \<Longrightarrow>
    pr_state p = Running (Sys Fork (forking body r w)) \<Longrightarrow> parent_phase body s p"
| closing: "child_left s \<Longrightarrow> os_pipes s \<noteq> [] \<Longrightarrow> reads_pipe r w p \<Longrightarrow>
    pr_state p = Running (Sys (Close w) (\<lambda>_. parent_read r 2)) \<Longrightarrow> parent_phase body s p"
| reading: "child_left s \<Longrightarrow> os_pipes s \<noteq> [] \<Longrightarrow> reads_pipe r w p \<Longrightarrow>
    pr_state p = Running (parent_read r 2) \<Longrightarrow> parent_phase body s p"
| waiting: "child_left s \<Longrightarrow> pr_state p = Running (parent_wait 2) \<Longrightarrow> parent_phase body s p"
| telling: "says s 0 \<Longrightarrow> pr_state p = Running (Sys (Print l) (\<lambda>_. Halt (Exit 0))) \<Longrightarrow>
    parent_phase body s p"
| exiting: "says s n \<Longrightarrow> n < 256 \<Longrightarrow> pr_state p = Running (Halt (Exit (int n))) \<Longrightarrow> parent_phase body s p"
| ended: "says s n \<Longrightarrow> status_of p = Some (Exited n) \<Longrightarrow> parent_phase body s p"
| signaled: "status_of p = Some (Signaled sig) \<Longrightarrow> parent_phase body s p"

definition parent_inv :: "(daemon_vars \<Rightarrow> int prog) \<Rightarrow> os \<Rightarrow> bool" where
  "parent_inv body s \<longleftrightarrow> os_procs s \<noteq> [] \<and> pr_parent (os_procs s ! 0) = 0 \<and>
     list_all byte_status (os_procs s) \<and>
     (os_pipes s \<noteq> [] \<and> os_pipes s ! 0 \<noteq> [] \<longrightarrow> notified s) \<and> (\<forall>n. \<not> written n 0 s) \<and> parent_phase body s (os_procs s ! 0)"

text \<open>Runs in which the first process got its pipe and its child.\<close>

definition got_child :: "os \<Rightarrow> bool" where
  "got_child s \<longleftrightarrow> (\<forall>(i, c, a) \<in> set (os_events s). i = 0 \<and> (c = Pipe \<or> c = Fork) \<longrightarrow> 0 \<le> a_ret a)"

lemma got_child_log [simp]:
  "got_child (log_event i c a s) \<longleftrightarrow> got_child s \<and> (i = 0 \<and> (c = Pipe \<or> c = Fork) \<longrightarrow> 0 \<le> a_ret a)"
  by (auto simp: got_child_def log_event_def)

text \<open>Steps of other processes.\<close>

lemma stepped_events:
  assumes "stepped i s s'"
  obtains ev where "os_events s' = os_events s @ ev" and "\<forall>x \<in> set ev. fst x = i"
proof -
  have "os_events s' = os_events s \<or> (\<exists>c a. os_events s' = os_events s @ [(i, c, a)])"
    using assms by (simp add: stepped_def)
  then show thesis using that [of "[]"] that by fastforce
qed

lemma written_mono: "stepped i s s' \<Longrightarrow> written n j s \<Longrightarrow> written n j s'"
  by (auto simp: written_def stepped_def)

lemma written_other: "stepped i s s' \<Longrightarrow> j \<noteq> i \<Longrightarrow> written n j s' = written n j s"
  by (auto simp: written_def stepped_def)

lemma notified_mono: "stepped i s s' \<Longrightarrow> notified s \<Longrightarrow> notified s'"
  by (auto simp: notified_def intro: written_mono)

lemma has_child_mono: "stepped i s s' \<Longrightarrow> has_child s \<Longrightarrow> has_child s'"
  using stepped_parent [of i s s' 1] stepped_length [of i s s'] by (simp add: has_child_def)

lemma status_mono:
  assumes "stepped i s s'" and "proc_step i s s' \<or> killed i s s'" and "j < length (os_procs s)"
    and "status_of (os_procs s ! j) = Some st"
  shows "status_of (os_procs s' ! j) = Some st"
proof -
  have "i \<noteq> j" using assms(2,4)
    by (auto simp: killed_def running_def status_of_def elim: proc_step.cases)
  then show ?thesis using assms(1,3,4)
    using stepped_other [OF assms(1,3)] by (auto simp: status_of_def)
qed

lemma says_mono:
  assumes "stepped i s s'" and "proc_step i s s' \<or> killed i s s'" and "says s n"
  shows "says s' n"
proof -
  have "1 < length (os_procs s)" using assms(3) by (simp add: says_def has_child_def)
  then show ?thesis
    using assms(3) status_mono [OF assms(1,2)] notified_mono [OF assms(1)] has_child_mono [OF assms(1)]
    by (auto simp: says_def child_failed_def split: if_splits)
qed

lemma child_left_mono:
  assumes "stepped i s s'" and "proc_step i s s' \<or> killed i s s'" and "child_left s" and "i \<noteq> 0"
  shows "child_left s'"
proof -
  have l: "1 < length (os_procs s)" and p: "pr_parent (os_procs s ! 1) = 1" 
    using assms(3) by (simp_all add: child_left_def has_child_def)
  have "pr_state (os_procs s' ! 1) \<noteq> Reaped st" for st
  proof (cases "i = 1")
    case True
    then show ?thesis using assms(2)
      by (auto simp: killed_def os_defs nth_append elim!: proc_step.cases dest: kernel_others)
  next
    case False
    then have "os_procs s' ! 1 = os_procs s ! 1"
      using stepped_other [OF assms(1) l] p \<open>i \<noteq> 0\<close> by auto
    then show ?thesis using assms(3) by (simp add: child_left_def)
  qed
  then show ?thesis using assms(3) has_child_mono [OF assms(1)] by (simp add: child_left_def)
qed

lemma parent_inv_other:
  assumes st: "stepped i s s'" and r: "proc_step i s s' \<or> killed i s s'" and i: "i \<noteq> 0"
    and inv: "parent_inv body s"
  shows "parent_inv body s'"
proof -
  have p0: "os_procs s' ! 0 = os_procs s ! 0" and ne: "os_procs s' \<noteq> []"
    using stepped_other [OF st, of 0] stepped_length [OF st] inv i by (auto simp: parent_inv_def)
  have two: "length (os_procs s) \<noteq> 1" using st i by (auto simp: stepped_def)
  have pipes: "os_pipes s \<noteq> [] \<Longrightarrow> os_pipes s' \<noteq> []" using st by (auto simp: stepped_def)
  have "parent_phase body s (os_procs s ! 0)" using inv by (simp add: parent_inv_def)
  then have "parent_phase body s' (os_procs s' ! 0)"
    unfolding p0
    by (cases rule: parent_phase.cases)
      (use two pipes says_mono [OF st r] child_left_mono [OF st r _ i] in \<open>auto intro: parent_phase.intros\<close>)
  moreover have "notified s'" if "os_pipes s' \<noteq> []" "os_pipes s' ! 0 \<noteq> []"
  proof -
    have "0 < length (os_pipes s) \<and> os_pipes s ! 0 \<noteq> [] \<or> written 0 i s'"
      using st that unfolding stepped_def by blast
    then show ?thesis
      using inv notified_mono [OF st] i by (auto simp: parent_inv_def notified_def)
  qed
  ultimately show ?thesis
    using inv st written_other [OF st, of 0] i p0 ne by (auto simp: parent_inv_def stepped_def)
qed

text \<open>Steps of the parent.\<close>

lemma lowest_fd_free:
  "lowest_fd fds < length fds \<Longrightarrow> fds ! lowest_fd fds = None" "lowest_fd fds \<le> length fds"
  using nth_length_takeWhile [of "\<lambda>f. f \<noteq> None" fds] by (auto simp: lowest_fd_def length_takeWhile_le)

lemma file_at_put:
  assumes "i \<le> length fds"
  shows "file_at (put_fd i f fds) (int j) = (if j = i then Some f else file_at fds (int j))"
  using assms by (auto simp: file_at_def put_fd_def nth_append nth_list_update)

lemma pipe_reads:
  assumes "r = lowest_fd fds" and "fds' = put_fd r (ReadEnd n) fds" and "w = lowest_fd fds'"
  shows "r \<noteq> w" and "file_at (put_fd w (WriteEnd n) fds') (int r) = Some (ReadEnd n)"
    and "file_at (put_fd w (WriteEnd n) fds') (int w) = Some (WriteEnd n)"
proof -
  have r: "file_at fds' (int r) = Some (ReadEnd n)" 
    using file_at_put [OF lowest_fd_free(2)] assms by simp
  show ne: "r \<noteq> w"
  proof
    assume "r = w"
    with r lowest_fd_free(1) [of fds'] assms(3) show False by (auto simp: file_at_def split: if_splits)
  qed
  show "file_at (put_fd w (WriteEnd n) fds') (int r) = Some (ReadEnd n)"
    "file_at (put_fd w (WriteEnd n) fds') (int w) = Some (WriteEnd n)"
    using file_at_put [of w fds' "WriteEnd n"] lowest_fd_free(2) [of fds'] assms(3) r ne by auto
qed

lemma parent_call_plain:
  assumes "parent_phase body s p" and "pr_state p = Running (Sys c k)"
  shows "plain_call c \<or> c = Fork"
  using assms
  by (cases rule: parent_phase.cases)
    (auto simp: start_prog_def parent_read_code [of _ 2] parent_wait_code [of 2] status_of_def)

lemma notified_kept [simp]:
  "notified (put_proc i p s) = notified s" "notified (put_pipe n buf s) = notified s"
  "written m i (put_proc j p s) = written m i s" "written m i (put_pipe n buf s) = written m i s"
  by (simp_all add: notified_def written_def put_proc_def put_pipe_def)

lemma starting_step:
  assumes st: "proc_step 0 s s'" and g: "got_child s'" and one: "length (os_procs s) = 1"
    and e: "os_pipes s = []" and p: "pr_state (os_procs s ! 0) = Running (start_prog body)"
  shows "parent_phase body s' (os_procs s' ! 0)"
  using st p
proof (elim proc_step_call)
  fix a p' s1
  assume k: "kernel s 0 (os_procs s ! 0) Pipe a p' s1"
    and s': "s' = log_event 0 Pipe a (put_proc 0 (p'\<lparr>pr_state := Running
      (if a_ret a \<noteq> 0 then Sys (Print ''failed to create pipe '')
          (\<lambda>_. Sys Fork (forking body (fst (a_fds a)) (snd (a_fds a))))
       else Sys Fork (forking body (fst (a_fds a)) (snd (a_fds a))))\<rparr>) s1)"
  from k show ?thesis
  proof (cases rule: kernel.cases)
    case (pipe_made r fds w)
    then have "reads_pipe (int r) (int w) (os_procs s' ! 0)"
      using pipe_reads [of r _ fds 0 w] one e s' by (simp add: reads_pipe_def os_defs)
    then show ?thesis
      by (rule parent_phase.forking [rotated 2])
        (use pipe_made one s' in \<open>simp_all add: os_defs returned_def\<close>)
  next
    case (pipe_fails e fds)
    then show ?thesis using g s' by (simp add: failed_def returned_def)
  qed
qed (simp_all add: start_prog_def)

lemma forking_step:
  assumes st: "proc_step 0 s s'" and g: "got_child s'" and one: "length (os_procs s) = 1"
    and e: "os_pipes s \<noteq> []" and r: "reads_pipe r w (os_procs s ! 0)"
    and p: "pr_state (os_procs s ! 0) = Running (Sys Fork (forking body r w))"
  shows "parent_phase body s' (os_procs s' ! 0)"
  using st p
proof (cases rule: proc_step_fork)
  case (ok a child)
  have "child_left s'" using ok one by (simp add: child_left_def has_child_def os_defs nth_append)
  then show ?thesis
    by (rule parent_phase.closing)
      (use ok one e r in \<open>auto simp: os_defs forking_def returned_def reads_pipe_def nth_append\<close>)
next
  case (fails e)
  then show ?thesis using g by (simp add: failed_def returned_def)
qed

lemma kernel_quiet:
  assumes "kernel s i p c a p' s1" and "\<And>pid. c \<noteq> Waitpid pid"
  shows "os_procs s1 = os_procs s"
  using assms by cases (auto simp: put_pipe_def)

lemma child_left_cong: "os_procs s' ! 1 = os_procs s ! 1 \<Longrightarrow> length (os_procs s') = length (os_procs s) \<Longrightarrow>
  child_left s' = child_left s"
  by (simp add: child_left_def has_child_def)

lemma closing_step:
  assumes st: "proc_step 0 s s'" and c: "child_left s" and e: "os_pipes s \<noteq> []"
    and r: "reads_pipe r w (os_procs s ! 0)"
    and p: "pr_state (os_procs s ! 0) = Running (Sys (Close w) (\<lambda>_. parent_read r 2))"
  shows "parent_phase body s' (os_procs s' ! 0)"
proof -
  obtain a p' s1 where k: "kernel s 0 (os_procs s ! 0) (Close w) a p' s1"
    and s': "s' = log_event 0 (Close w) a (put_proc 0 (p'\<lparr>pr_state := Running (parent_read r 2)\<rparr>) s1)"
    using proc_step_call [OF st p] by auto
  have l: "2 \<le> length (os_procs s)" "os_procs s \<noteq> []"
    using c by (auto simp: child_left_def has_child_def)
  have k': "p' = (os_procs s ! 0)\<lparr>pr_fds := close_fd w (pr_fds (os_procs s ! 0))\<rparr>" "s1 = s"
    using k by (auto elim: kernel.cases)
  have "child_left s'" using c child_left_cong [of s' s] s' k' by (simp add: os_defs)
  moreover have "reads_pipe r w (os_procs s' ! 0)"
    using r s' k' l by (auto simp: reads_pipe_def os_defs file_at_def close_fd_def split: if_splits)
  ultimately show ?thesis
    using s' k' e l by (intro parent_phase.reading [of s' r w]) (simp_all add: os_defs)
qed

lemma reading_step:
  assumes st: "proc_step 0 s s'" and c: "child_left s" and e: "os_pipes s \<noteq> []"
    and r: "reads_pipe r w (os_procs s ! 0)"
    and n: "os_pipes s ! 0 \<noteq> [] \<longrightarrow> notified s"
    and p: "pr_state (os_procs s ! 0) = Running (parent_read r 2)"
  shows "parent_phase body s' (os_procs s' ! 0)"
proof -
  let ?k = "\<lambda>a. if a_ret a > 0 then Halt (Exit 0) else if a_ret a = 0 then parent_wait 2
     else if a_errno a = EINTR then parent_read r 2
     else if a_errno a \<noteq> 0 then parent_wait 2 else Halt (Exit 0)"
  obtain a p' s1 where k: "kernel s 0 (os_procs s ! 0) (Read r 1) a p' s1"
    and s': "s' = log_event 0 (Read r 1) a (put_proc 0 (p'\<lparr>pr_state := Running (?k a)\<rparr>) s1)"
    by (rule proc_step_call [OF st trans [OF p arg_cong [OF parent_read_code, of Running]]]) auto
  have l: "2 \<le> length (os_procs s)" "os_procs s \<noteq> []"
    using c by (auto simp: child_left_def has_child_def)
  have c': "child_left s'"
    using c kernel_quiet [OF k] child_left_cong [of s' s] s' by (simp add: os_defs)
  from k show ?thesis
  proof (cases rule: kernel.cases)
    case (read_pipe n m)
    then have "os_pipes s ! 0 \<noteq> []" using r by (auto simp: reads_pipe_def)
    then have "notified s'"
      using n stepped_def notified_mono [OF proc_step_stepped [OF st]] by blast
    then have "says s' 0" using c' by (simp add: says_def child_left_def)
    then show ?thesis
      by (rule parent_phase.exiting) (use read_pipe s' l in \<open>simp_all add: os_defs returned_def\<close>)
  next
    case (read_end n)
    then show ?thesis
      using c' s' l by (intro parent_phase.waiting) (simp_all add: os_defs returned_def)
  next
    case read_interrupted
    show ?thesis
      by (rule parent_phase.reading [OF c', of r w])
        (use read_interrupted s' l e r in \<open>simp_all add: os_defs failed_def returned_def EINTR_def reads_pipe_def\<close>)
  qed (use r in \<open>auto simp: reads_pipe_def\<close>)
qed

lemma waiting_step:
  assumes st: "proc_step 0 s s'" and c: "child_left s" and b: "byte_status (os_procs s ! 1)"
    and p: "pr_state (os_procs s ! 0) = Running (parent_wait 2)"
  shows "parent_phase body s' (os_procs s' ! 0)"
proof -
  let ?k = "\<lambda>a. if a_ret a = - 1 \<and> a_errno a = EINTR then parent_wait 2
     else if a_ret a = 2 then
       if WIFEXITED (a_status a) \<and> WEXITSTATUS (a_status a) \<noteq> 0
       then Halt (Exit (WEXITSTATUS (a_status a)))
       else Sys (Print ''could not detach from foreground session '') (\<lambda>_. Halt (Exit 0))
     else Halt Abort"
  obtain a p' s1 where k: "kernel s 0 (os_procs s ! 0) (Waitpid 2) a p' s1"
    and s': "s' = log_event 0 (Waitpid 2) a (put_proc 0 (p'\<lparr>pr_state := Running (?k a)\<rparr>) s1)"
    by (rule proc_step_call [OF st trans [OF p arg_cong [OF parent_wait_code, of Running]]]) auto
  have l: "2 \<le> length (os_procs s)" "os_procs s \<noteq> []" "pr_parent (os_procs s ! 1) = 1"
    using c by (auto simp: child_left_def has_child_def)
  from k show ?thesis
  proof (cases rule: kernel.cases)
    case (waited j q st)
    then have j: "j = 1" by simp
    have "has_child s'" "status_of (os_procs s' ! 1) = Some st"
      using waited j s' l by (simp_all add: has_child_def os_defs status_of_def)
    moreover have "pr_state (os_procs s' ! 0) = Running (?k a)" "a_ret a = 2" "a_status a = st"
      using waited s' l by (simp_all add: os_defs returned_def)
    moreover have "st = Exited n \<Longrightarrow> n < 256" for n
      using b waited j by (simp add: byte_status_def status_of_def)
    ultimately show ?thesis
      using parent_phase.telling [of s'] parent_phase.exiting [of s' "nat (WEXITSTATUS st)"]
      by (cases st) (auto simp: says_def child_failed_def split: if_splits cong: if_cong)
  next
    case waitpid_fails
    then show ?thesis using c by (auto simp: child_left_def has_child_def)
  next
    case waitpid_interrupted
    then have "child_left s'" using c child_left_cong [of s' s] s' by (simp add: os_defs)
    then show ?thesis
      by (rule parent_phase.waiting)
        (use waitpid_interrupted s' l in \<open>auto simp: os_defs failed_def returned_def\<close>)
  qed
qed

lemma parent_phase_step:
  assumes st: "proc_step 0 s s'" and g: "got_child s'" and inv: "parent_inv body s"
  shows "parent_phase body s' (os_procs s' ! 0)"
proof -
  note m = says_mono [OF proc_step_stepped [OF st] disjI1 [OF st]]
  have ne: "os_procs s \<noteq> []" using inv by (simp add: parent_inv_def)
  have "parent_phase body s (os_procs s ! 0)" using inv by (simp add: parent_inv_def)
  then show ?thesis
  proof (cases rule: parent_phase.cases)
    case starting
    then show ?thesis using starting_step [OF st g] by blast
  next
    case (forking r w)
    then show ?thesis using forking_step [OF st g] by blast
  next
    case (closing r w)
    then show ?thesis using closing_step [OF st] by blast
  next
    case (reading r w)
    then have "os_pipes s ! 0 \<noteq> [] \<longrightarrow> notified s" using inv by (auto simp: parent_inv_def)
    with reading show ?thesis using reading_step [OF st] by blast
  next
    case waiting
    then have "byte_status (os_procs s ! 1)"
      using inv by (auto simp: parent_inv_def list_all_length child_left_def has_child_def)
    with waiting show ?thesis using waiting_step [OF st] by blast
  next
    case (telling l)
    obtain a p' s1 where k: "kernel s 0 (os_procs s ! 0) (Print l) a p' s1"
      and s': "s' = log_event 0 (Print l) a (put_proc 0 (p'\<lparr>pr_state := Running (Halt (Exit 0))\<rparr>) s1)"
      by (rule proc_step_call [OF st telling(2)]) auto
    then show ?thesis
      using m [OF telling(1)] ne kernel_quiet [OF k]
      by (intro parent_phase.exiting [of s' 0]) (simp_all add: os_defs)
  next
    case (exiting n)
    then have "s' = put_proc 0 (die (Exited n) (os_procs s ! 0)) s"
      using proc_step_halt [OF st] by simp
    then show ?thesis
      using m [OF exiting(1)] ne by (intro parent_phase.ended) (simp_all add: os_defs status_of_def)
  qed (use proc_step_running [OF st] in \<open>auto simp: status_of_def\<close>)
qed

lemma parent_not_written:
  assumes st: "proc_step 0 s s'" and inv: "parent_inv body s"
  shows "\<not> written n 0 s'"
proof -
  have ph: "parent_phase body s (os_procs s ! 0)" and w: "\<not> written n 0 s"
    using inv by (simp_all add: parent_inv_def)
  from st show ?thesis
  proof (cases rule: proc_step.cases)
    case (call c k p a p' s1)
    then have "plain_call c" using parent_call_plain [OF ph] by (auto simp: running_def)
    with w call show ?thesis
      using kernel_writes [OF call(4)] by (auto simp: written_def os_defs)
  qed (use w in \<open>simp_all add: written_def os_defs\<close>)
qed

lemma parent_inv_step:
  assumes inv: "parent_inv body s" and st: "os_step s s'" and g: "got_child s'"
  shows "parent_inv body s'"
proof -
  obtain i where i: "stepped i s s'" "proc_step i s s' \<or> killed i s s'" using os_stepD [OF st] by blast
  show ?thesis
  proof (cases "i = 0")
    case True
    have ne: "os_procs s \<noteq> []" using inv by (simp add: parent_inv_def)
    have "parent_phase body s' (os_procs s' ! 0) \<and> (\<forall>n. \<not> written n 0 s')" using i(2) unfolding True
    proof
      assume "proc_step 0 s s'"
      then show ?thesis using parent_phase_step g inv parent_not_written by blast
    next
      assume "killed 0 s s'"
      then show ?thesis
        using inv ne by (auto simp: killed_def os_defs status_of_def parent_inv_def written_def
            intro: parent_phase.signaled)
    qed
    moreover from this have "notified s'" if "os_pipes s' \<noteq> []" "os_pipes s' ! 0 \<noteq> []"
      using that i(1) inv notified_mono [OF i(1)] unfolding True
      by (auto simp: stepped_def parent_inv_def)
    moreover have "os_procs s' \<noteq> []" "pr_parent (os_procs s' ! 0) = 0" "list_all byte_status (os_procs s')"
      using inv i(1) stepped_length [OF i(1)] unfolding True by (auto simp: parent_inv_def stepped_def)
    ultimately show ?thesis by (simp add: parent_inv_def)
  next
    case False
    then show ?thesis using parent_inv_other i inv by blast
  qed
qed

lemma parent_inv_boot:
  "parent_inv body (boot fds (and_then (daemonize_start b daemon_init) body))"
  by (auto simp: parent_inv_def boot_def start_prog_eq byte_status_def status_of_def written_def
      intro: parent_phase.starting)

lemma got_child_mono: "os_step s s' \<Longrightarrow> got_child s' \<Longrightarrow> got_child s"
  by (drule os_stepD) (auto simp: got_child_def elim!: stepped_events)

text \<open>The machine of the runs that interest us.\<close>

definition start_step :: "os \<Rightarrow> os \<Rightarrow> bool" where
  "start_step s s' \<longleftrightarrow> os_step s s' \<and> got_child s'"

interpretation parent: kept_invariant start_step "parent_inv body"
  by unfold_locales (auto simp: start_step_def intro: parent_inv_step)

lemma start_steps:
  assumes "os_step\<^sup>*\<^sup>* s s'" and "got_child s'"
  shows "start_step\<^sup>*\<^sup>* s s'"
  using assms
proof (induction rule: rtranclp_induct)
  case (step t u)
  then show ?case using got_child_mono by (auto simp: start_step_def intro: rtranclp.rtrancl_into_rtrancl)
qed simp

lemma parent_reachable:
  assumes "os_step\<^sup>*\<^sup>* (boot fds (and_then (daemonize_start b daemon_init) body)) s" and "got_child s"
  shows "parent_inv body s"
  using parent.run_inv [OF start_steps [OF assms] parent_inv_boot] .

end
