(* ===== verification/Daemon_Child.thy ===== *)
theory Daemon_Child
  imports Daemon_Machine
begin

text \<open>
  A child that calls \<open>daemonize_complete\<close> first: the parent hears of it, or it was killed
  before.
\<close>

section \<open>Control points\<close>

definition completing :: "(daemon_vars \<Rightarrow> int prog) \<Rightarrow> daemon_vars \<Rightarrow> int prog" where
  "completing rest v = and_then (daemonize_complete v) rest"

definition child_done :: "(daemon_vars \<Rightarrow> int prog) \<Rightarrow> int \<Rightarrow> unit prog" where
  "child_done rest w =
     and_then (daemonize_post_detach (daemon_init\<lparr>infrap4d_daemonize_fd := w, infrap4d_detached := True\<rparr>))
       (body_prog rest)"

definition child_notify :: "(daemon_vars \<Rightarrow> int prog) \<Rightarrow> int \<Rightarrow> unit prog" where
  "child_notify rest w = body_prog (completing rest) (daemon_init\<lparr>infrap4d_daemonize_fd := w\<rparr>)"

lemma child_notify_code:
  assumes "0 \<le> w"
  shows "child_notify rest w = Sys (Write w [NUL]) (\<lambda>a.
    if a_ret a > 0 then child_done rest w
    else if a_ret a = 0 \<or> a_errno a \<noteq> EINTR \<and> a_errno a \<noteq> 0
    then Sys (Print ''pipe write failed '') (\<lambda>_. child_done rest w)
    else if a_errno a \<noteq> EINTR then child_done rest w
    else child_notify rest w)"
  using assms
  unfolding child_notify_def body_prog_def completing_def daemonize_complete_def
    fork_notify_startup_def write_fully_def
  by (subst write_fully_loop.code)
    (auto simp: Let_def and_then_assoc if_and_then fun_eq_iff loops_done EPROTO_def drop_Cons'
      child_done_def body_prog_def [abs_def] daemon_init_def Suc_le_eq)

lemma child_start_code: "child_start (completing rest) w = Sys Setsid (\<lambda>_. child_notify rest w)"
  by (simp add: child_start_def child_notify_def)

section \<open>Where the two processes are\<close>

definition plain_fds :: "fd_table \<Rightarrow> bool" where
  "plain_fds fds \<longleftrightarrow> list_all (\<lambda>f. \<forall>n. f \<noteq> Some (ReadEnd n) \<and> f \<noteq> Some (WriteEnd n)) fds"

text \<open>The two ends of the first pipe, each at one descriptor.\<close>

definition pipe_ends :: "int \<Rightarrow> int \<Rightarrow> fd_table \<Rightarrow> bool" where
  "pipe_ends r w fds \<longleftrightarrow> 0 \<le> r \<and> 0 \<le> w \<and> r \<noteq> w \<and>
     (\<forall>j. file_at fds j = Some (ReadEnd 0) \<longleftrightarrow> j = r) \<and> (\<forall>j. file_at fds j = Some (WriteEnd 0) \<longleftrightarrow> j = w)"

definition write_end :: "int \<Rightarrow> fd_table \<Rightarrow> bool" where
  "write_end w fds \<longleftrightarrow> 0 \<le> w \<and> (\<forall>j. file_at fds j \<noteq> Some (ReadEnd 0)) \<and>
     (\<forall>j. file_at fds j = Some (WriteEnd 0) \<longleftrightarrow> j = w)"

definition read_end_at :: "int \<Rightarrow> fd_table \<Rightarrow> bool" where
  "read_end_at r fds \<longleftrightarrow> 0 \<le> r \<and> (\<forall>j. file_at fds j \<noteq> Some (WriteEnd 0)) \<and>
     (\<forall>j. file_at fds j = Some (ReadEnd 0) \<longleftrightarrow> j = r)"

text \<open>The parent until it has heard, and the child until it has said something, with the number of
  calls up to there.\<close>

inductive parent_busy :: "nat \<Rightarrow> process \<Rightarrow> bool" where
  "pipe_ends r w (pr_fds p) \<Longrightarrow> pr_state p = Running (Sys (Close w) (\<lambda>_. parent_read r 2)) \<Longrightarrow> parent_busy 2 p"
| "read_end_at r (pr_fds p) \<Longrightarrow> pr_state p = Running (parent_read r 2) \<Longrightarrow> parent_busy 1 p"

inductive child_busy :: "(daemon_vars \<Rightarrow> int prog) \<Rightarrow> nat \<Rightarrow> process \<Rightarrow> bool" for rest where
  "pipe_ends r w (pr_fds p) \<Longrightarrow>
   pr_state p = Running (Sys (Close r) (\<lambda>_. child_start (completing rest) w)) \<Longrightarrow> child_busy rest 3 p"
| "write_end w (pr_fds p) \<Longrightarrow> pr_state p = Running (child_start (completing rest) w) \<Longrightarrow> child_busy rest 2 p"
| "write_end w (pr_fds p) \<Longrightarrow> pr_state p = Running (child_notify rest w) \<Longrightarrow> child_busy rest 1 p"

definition dead_by_signal :: "process \<Rightarrow> bool" where
  "dead_by_signal p \<longleftrightarrow> (\<exists>sig. status_of p = Some (Signaled sig))"

inductive start_phase :: "(daemon_vars \<Rightarrow> int prog) \<Rightarrow> os \<Rightarrow> bool" for rest s where
  one: "length (os_procs s) = 1 \<Longrightarrow> os_pipes s = [] \<Longrightarrow> plain_fds (pr_fds (os_procs s ! 0)) \<Longrightarrow>
    pr_state (os_procs s ! 0) = Running (start_prog (completing rest)) \<Longrightarrow> start_phase rest s"
| piped: "length (os_procs s) = 1 \<Longrightarrow> os_pipes s = [[]] \<Longrightarrow> pipe_ends r w (pr_fds (os_procs s ! 0)) \<Longrightarrow>
    pr_state (os_procs s ! 0) = Running (Sys Fork (forking (completing rest) r w)) \<Longrightarrow> start_phase rest s"
| two: "length (os_procs s) = 2 \<Longrightarrow> length (os_pipes s) = 1 \<Longrightarrow> os_pipes s ! 0 = [] \<Longrightarrow>
    parent_busy n (os_procs s ! 0) \<Longrightarrow> child_busy rest m (os_procs s ! 1) \<Longrightarrow> start_phase rest s"
| crashed: "2 \<le> length (os_procs s) \<Longrightarrow> dead_by_signal (os_procs s ! 1) \<Longrightarrow> start_phase rest s"
| told: "os_pipes s \<noteq> [] \<Longrightarrow> os_pipes s ! 0 \<noteq> [] \<Longrightarrow> parent_busy n (os_procs s ! 0) \<Longrightarrow> notified s \<Longrightarrow>
    (\<forall>j < length (os_procs s). 0 < j \<longrightarrow> (\<forall>fd. file_at (pr_fds (os_procs s ! j)) fd \<noteq> Some (ReadEnd 0))) \<Longrightarrow>
    start_phase rest s"
| heard: "notified s \<Longrightarrow> pr_state (os_procs s ! 0) = Running (Halt (Exit 0)) \<Longrightarrow> start_phase rest s"
| gone: "dead_by_signal (os_procs s ! 0) \<Longrightarrow> start_phase rest s"
| over: "status_of (os_procs s ! 0) = Some (Exited 0) \<Longrightarrow> notified s \<Longrightarrow> start_phase rest s"

section \<open>Descriptors\<close>

lemma file_at_put_int:
  "i \<le> length fds \<Longrightarrow> file_at (put_fd i f fds) j = (if j = int i then Some f else file_at fds j)"
  by (auto simp: file_at_def put_fd_def nth_append nth_list_update)

lemma file_at_close:
  "0 \<le> fd \<Longrightarrow> file_at (close_fd fd fds) j = (if j = fd then None else file_at fds j)"
  by (auto simp: file_at_def close_fd_def nth_list_update)

lemma plain_file_at: "plain_fds fds \<Longrightarrow> file_at fds j \<noteq> Some (ReadEnd n) \<and> file_at fds j \<noteq> Some (WriteEnd n)"
  by (auto simp: plain_fds_def file_at_def list_all_length)

lemma pipe_ends_made:
  assumes "plain_fds fds" and "r = lowest_fd fds" and "fds' = put_fd r (ReadEnd 0) fds" and "w = lowest_fd fds'"
  shows "pipe_ends (int r) (int w) (put_fd w (WriteEnd 0) fds')"
  using assms plain_file_at [OF assms(1)] pipe_reads(1) [OF assms(2-4)]
  by (auto simp: pipe_ends_def file_at_put_int lowest_fd_free(2) split: if_splits)

lemma pipe_ends_close:
  assumes "pipe_ends r w fds"
  shows "read_end_at r (close_fd w fds)" and "write_end w (close_fd r fds)"
  using assms by (auto simp: pipe_ends_def read_end_at_def write_end_def file_at_close)

lemma file_at_has_end:
  "i < length (os_procs s) \<Longrightarrow> file_at (pr_fds (os_procs s ! i)) fd = Some f \<Longrightarrow> has_end f s"
  by (auto simp: has_end_def list_ex_length file_at_def split: if_splits)
    (metis nth_mem)

lemma busy_fds:
  "parent_busy n p \<Longrightarrow> \<exists>r. file_at (pr_fds p) r = Some (ReadEnd 0)"
  "child_busy rest n p \<Longrightarrow> \<exists>w. file_at (pr_fds p) w = Some (WriteEnd 0)"
  by (auto elim!: parent_busy.cases child_busy.cases simp: pipe_ends_def read_end_at_def write_end_def)

lemma busy_running: "parent_busy n p \<Longrightarrow> status_of p = None"
  by (auto elim!: parent_busy.cases simp: status_of_def)

text \<open>A process does not come to the ends of an old pipe.\<close>

lemma file_at_putD: "file_at (put_fd i f fds) j = Some g \<Longrightarrow> g = f \<or> file_at fds j = Some g"
  by (auto simp: file_at_def put_fd_def nth_append nth_list_update nth_Cons' split: if_splits)

lemma file_at_closeD: "file_at (close_fd fd fds) j = Some g \<Longrightarrow> file_at fds j = Some g"
  by (cases "nat fd = nat j") (auto simp: file_at_def close_fd_def nth_list_update split: if_splits)

lemma kernel_fds:
  assumes "kernel s i p c a p' s'" and "os_pipes s \<noteq> []" and "\<forall>fd. file_at (pr_fds p) fd \<noteq> Some (ReadEnd 0)"
  shows "file_at (pr_fds p') fd \<noteq> Some (ReadEnd 0)"
  using assms by cases (auto dest!: file_at_putD file_at_closeD split: if_splits)

lemma kernel_keeps_data:
  assumes "kernel s i p c a p' s'" and "os_pipes s \<noteq> []" and "os_pipes s ! 0 \<noteq> []"
    and "\<forall>fd. file_at (pr_fds p) fd \<noteq> Some (ReadEnd 0)"
  shows "os_pipes s' \<noteq> [] \<and> os_pipes s' ! 0 \<noteq> []"
  using assms
proof cases
  case (read_pipe fd n m len)
  then have "n \<noteq> 0" using assms(4) by metis
  with read_pipe assms(2,3) show ?thesis by (simp add: put_pipe_def)
next
  case (write_pipe fd n m data)
  with assms(2,3) show ?thesis by (cases "n = 0") (simp_all add: put_pipe_def)
qed (auto simp: nth_append put_proc_def)

section \<open>Steps\<close>

lemma start_phase_kill:
  assumes "killed i s s'" and "start_phase rest s"
  shows "start_phase rest s'"
proof -
  note k = killed_stepped [OF assms(1)]
  have s': "dead_by_signal (os_procs s' ! i)" "i < length (os_procs s)" "os_pipes s' = os_pipes s"
    "\<And>j. j \<noteq> i \<Longrightarrow> os_procs s' ! j = os_procs s ! j" "length (os_procs s') = length (os_procs s)"
    "pr_fds (os_procs s' ! i) = []"
    using assms(1) by (auto simp: killed_def os_defs dead_by_signal_def status_of_def)
  show ?thesis
  proof (cases "i = 0")
    case True
    then show ?thesis using s' by (intro start_phase.gone) simp
  next
    case False
    with assms(2) show ?thesis
    proof cases
      case two
      then have "i = 1" using s' False by simp
      then show ?thesis using s' two by (intro start_phase.crashed) simp_all
    next
      case crashed
      then show ?thesis using s' by (intro start_phase.crashed) (cases "i = 1"; simp)+
    next
      case told
      show ?thesis
      proof (rule start_phase.told)
        show "\<forall>j<length (os_procs s'). 0 < j \<longrightarrow> (\<forall>fd. file_at (pr_fds (os_procs s' ! j)) fd \<noteq> Some (ReadEnd 0))"
          using told(5) s' by (metis file_at_def length_0_conv less_nat_zero_code option.distinct(1))
      qed (use told s' False notified_mono [OF k] in simp_all)
    qed (use s' False notified_mono [OF k] in \<open>auto intro: start_phase.intros\<close>)
  qed
qed

lemma one_step:
  assumes st: "proc_step 0 s s'" and g: "got_child s'" and one: "length (os_procs s) = 1" "os_pipes s = []"
    and f: "plain_fds (pr_fds (os_procs s ! 0))"
    and p: "pr_state (os_procs s ! 0) = Running (start_prog (completing rest))"
  shows "\<exists>r w. length (os_procs s') = 1 \<and> os_pipes s' = [[]] \<and> pipe_ends r w (pr_fds (os_procs s' ! 0)) \<and>
    pr_state (os_procs s' ! 0) = Running (Sys Fork (forking (completing rest) r w))"
proof -
  obtain a p' s1 where k: "kernel s 0 (os_procs s ! 0) Pipe a p' s1"
    and s': "s' = log_event 0 Pipe a (put_proc 0 (p'\<lparr>pr_state := Running
      (if a_ret a \<noteq> 0 then Sys (Print ''failed to create pipe '')
          (\<lambda>_. Sys Fork (forking (completing rest) (fst (a_fds a)) (snd (a_fds a))))
       else Sys Fork (forking (completing rest) (fst (a_fds a)) (snd (a_fds a))))\<rparr>) s1)"
    by (rule proc_step_call [OF st p [unfolded start_prog_def]]) auto
  from k show ?thesis
  proof (cases rule: kernel.cases)
    case (pipe_made r fds w)
    then have "pipe_ends (int r) (int w) (pr_fds (os_procs s' ! 0))"
      using pipe_ends_made [OF f pipe_made(4), of fds w] one s' by (simp add: os_defs)
    then show ?thesis
      using pipe_made one s'
      by (intro exI [of _ "int r"] exI [of _ "int w"]) (simp add: os_defs returned_def)
  next
    case (pipe_fails e fds)
    then show ?thesis using g s' by (simp add: failed_def returned_def)
  qed
qed

lemma piped_step:
  assumes st: "proc_step 0 s s'" and g: "got_child s'" and one: "length (os_procs s) = 1" "os_pipes s = [[]]"
    and f: "pipe_ends r w (pr_fds (os_procs s ! 0))"
    and p: "pr_state (os_procs s ! 0) = Running (Sys Fork (forking (completing rest) r w))"
  shows "length (os_procs s') = 2 \<and> os_pipes s' = [[]] \<and> parent_busy 2 (os_procs s' ! 0) \<and>
    child_busy rest 3 (os_procs s' ! 1)"
  using st p
proof (cases rule: proc_step_fork)
  case (ok a child)
  then have "parent_busy 2 (os_procs s' ! 0)" "child_busy rest 3 (os_procs s' ! 1)"
    using f one by (auto simp: os_defs nth_append forking_def returned_def
        intro: parent_busy.intros child_busy.intros)
  then show ?thesis using ok one by (simp add: os_defs)
next
  case (fails e)
  then show ?thesis using g by (simp add: failed_def returned_def)
qed

text \<open>Interrupted calls.\<close>

definition interruption :: "os \<Rightarrow> os \<Rightarrow> bool" where
  "interruption s s' \<longleftrightarrow> (\<exists>i c. os_events s' = os_events s @ [(i, c, failed EINTR)])"

lemma parent_busy_step:
  assumes st: "proc_step 0 s s'" and b: "parent_busy n (os_procs s ! 0)" and ne: "os_procs s \<noteq> []"
  shows "(\<exists>m. parent_busy m (os_procs s' ! 0) \<and> (m < n \<or> interruption s s')) \<and> os_pipes s' = os_pipes s \<and>
      (\<exists>p. os_procs s' = (os_procs s)[0 := p]) \<or>
    os_pipes s ! 0 \<noteq> [] \<and> pr_state (os_procs s' ! 0) = Running (Halt (Exit 0)) \<or>
    os_pipes s ! 0 = [] \<and> \<not> has_end (WriteEnd 0) s"
  using b
proof cases
  case (1 r w)
  obtain a p' s1 where k: "kernel s 0 (os_procs s ! 0) (Close w) a p' s1"
    and s': "s' = log_event 0 (Close w) a (put_proc 0 (p'\<lparr>pr_state := Running (parent_read r 2)\<rparr>) s1)"
    by (rule proc_step_call [OF st 1(3)]) auto
  then have "p' = (os_procs s ! 0)\<lparr>pr_fds := close_fd w (pr_fds (os_procs s ! 0))\<rparr>" "s1 = s"
    by (auto elim: kernel.cases)
  then show ?thesis
    using s' ne 1(1) pipe_ends_close(1) [OF 1(2)] by (auto simp: os_defs intro!: exI [of _ 1] parent_busy.intros(2))
next
  case (2 r)
  let ?k = "\<lambda>a. if a_ret a > 0 then Halt (Exit 0) else if a_ret a = 0 then parent_wait 2
     else if a_errno a = EINTR then parent_read r 2
     else if a_errno a \<noteq> 0 then parent_wait 2 else Halt (Exit 0)"
  obtain a p' s1 where k: "kernel s 0 (os_procs s ! 0) (Read r 1) a p' s1"
    and s': "s' = log_event 0 (Read r 1) a (put_proc 0 (p'\<lparr>pr_state := Running (?k a)\<rparr>) s1)"
    by (rule proc_step_call [OF st trans [OF 2(3) arg_cong [OF parent_read_code, of Running]]]) auto
  have r: "file_at (pr_fds (os_procs s ! 0)) r = Some (ReadEnd 0)" using 2(2) by (simp add: read_end_at_def)
  from k show ?thesis
  proof (cases rule: kernel.cases)
    case (read_pipe n m)
    then show ?thesis using r s' ne by (auto simp: os_defs returned_def)
  next
    case (read_end n)
    then show ?thesis using r by auto
  next
    case read_interrupted
    then have "s' = log_event 0 (Read r 1) (failed EINTR)
        (put_proc 0 ((os_procs s ! 0)\<lparr>pr_state := Running (parent_read r 2)\<rparr>) s)"
      using s' by (simp add: failed_def returned_def EINTR_def)
    then show ?thesis
      using ne 2 by (auto simp: os_defs interruption_def intro!: exI [of _ 1] parent_busy.intros(2))
  qed (use r in auto)
qed

lemma notify_step:
  assumes st: "proc_step 1 s s'" and l: "1 < length (os_procs s)" and e: "os_pipes s \<noteq> []"
    and w: "write_end w (pr_fds (os_procs s ! 1))"
    and p: "pr_state (os_procs s ! 1) = Running (child_notify rest w)"
  shows "child_busy rest 1 (os_procs s' ! 1) \<and> interruption s s' \<and> os_pipes s' = os_pipes s \<and>
      (\<exists>p. os_procs s' = (os_procs s)[1 := p]) \<or>
    dead_by_signal (os_procs s' ! 1) \<and> \<not> has_end (ReadEnd 0) s \<or>
    os_pipes s' \<noteq> [] \<and> os_pipes s' ! 0 \<noteq> [] \<and> written 0 1 s' \<and>
      (\<exists>p. os_procs s' = (os_procs s)[1 := p] \<and> pr_fds p = pr_fds (os_procs s ! 1) \<and>
        pr_state p = Running (child_done rest w))"
proof -
  have f: "file_at (pr_fds (os_procs s ! 1)) w = Some (WriteEnd 0)" "0 \<le> w"
    using w by (simp_all add: write_end_def)
  note p' = trans [OF p arg_cong [OF child_notify_code [OF f(2)], of Running]]
  from st show ?thesis
  proof (cases rule: proc_step.cases)
    case (call c k q a q' s1)
    then have c: "c = Write w [NUL]" "k (failed EINTR) = child_notify rest w"
      "\<And>m. 0 < m \<Longrightarrow> k (returned (int m)) = child_done rest w"
      and q: "q = os_procs s ! 1"
      using p' by (auto simp: running_def failed_def returned_def)
    from call(4) show ?thesis
      unfolding c q
    proof (cases rule: kernel.cases)
      case (write_pipe n m)
      then have "written 0 1 s'" using call(1) c f by (simp add: os_defs written_def)
      with write_pipe show ?thesis using call(1) c f e l by (auto simp: os_defs)
    next
      case write_interrupted
      then show ?thesis
        using call(1) c l w child_busy.intros(3) [of w "q'\<lparr>pr_state := Running (child_notify rest w)\<rparr>" rest]
        by (auto simp: os_defs interruption_def)
    qed (use f in auto)
  qed (use l p' f in \<open>auto simp: os_defs running_def dead_by_signal_def status_of_def\<close>)
qed

lemma child_busy_step:
  assumes st: "proc_step 1 s s'" and b: "child_busy rest n (os_procs s ! 1)"
    and l: "1 < length (os_procs s)" and e: "os_pipes s \<noteq> []"
  shows "(\<exists>m. child_busy rest m (os_procs s' ! 1) \<and> (m < n \<or> interruption s s')) \<and> os_pipes s' = os_pipes s \<and>
      (\<exists>p. os_procs s' = (os_procs s)[1 := p]) \<or>
    dead_by_signal (os_procs s' ! 1) \<and> \<not> has_end (ReadEnd 0) s \<or>
    os_pipes s' \<noteq> [] \<and> os_pipes s' ! 0 \<noteq> [] \<and> written 0 1 s' \<and> 0 < n \<and>
      (\<exists>p w. os_procs s' = (os_procs s)[1 := p] \<and> (\<forall>fd. file_at (pr_fds p) fd \<noteq> Some (ReadEnd 0)) \<and>
        pr_state p = Running (child_done rest w))"
  using b
proof cases
  case (1 r w)
  obtain a p' s1 where k: "kernel s 1 (os_procs s ! 1) (Close r) a p' s1"
    and s': "s' = log_event 1 (Close r) a (put_proc 1 (p'\<lparr>pr_state := Running (child_start (completing rest) w)\<rparr>) s1)"
    by (rule proc_step_call [OF st 1(3)]) auto
  then have "p' = (os_procs s ! 1)\<lparr>pr_fds := close_fd r (pr_fds (os_procs s ! 1))\<rparr>" "s1 = s"
    by (auto elim: kernel.cases)
  then show ?thesis
    using s' l 1(1) pipe_ends_close(2) [OF 1(2)]
    by (auto simp: os_defs intro!: exI [of _ 2] child_busy.intros(2))
next
  case (2 w)
  obtain a p' s1 where k: "kernel s 1 (os_procs s ! 1) Setsid a p' s1"
    and s': "s' = log_event 1 Setsid a (put_proc 1 (p'\<lparr>pr_state := Running (child_notify rest w)\<rparr>) s1)"
    by (rule proc_step_call [OF st 2(3) [unfolded child_start_code]]) auto
  then have "p' = (os_procs s ! 1)\<lparr>pr_leader := True\<rparr>" "s1 = s" by (auto elim: kernel.cases)
  then show ?thesis using s' l 2 by (auto simp: os_defs intro!: exI [of _ 1] child_busy.intros(3))
next
  case (3 w)
  then show ?thesis
    using notify_step [OF st l e 3(2,3)] by (auto simp: write_end_def)
qed

lemma told_step:
  assumes st: "proc_step i s s'" and i: "i \<noteq> 0" and e: "os_pipes s \<noteq> []" "os_pipes s ! 0 \<noteq> []"
    and f: "\<forall>j < length (os_procs s). 0 < j \<longrightarrow> (\<forall>fd. file_at (pr_fds (os_procs s ! j)) fd \<noteq> Some (ReadEnd 0))"
  shows "os_pipes s' \<noteq> [] \<and> os_pipes s' ! 0 \<noteq> [] \<and>
    (\<forall>j < length (os_procs s'). 0 < j \<longrightarrow> (\<forall>fd. file_at (pr_fds (os_procs s' ! j)) fd \<noteq> Some (ReadEnd 0)))"
proof -
  have l: "i < length (os_procs s)" using proc_step_others [OF st] by simp
  have nil: "file_at [] fd = None" for fd by (simp add: file_at_def)
  from st show ?thesis
  proof (cases rule: proc_step.cases)
    case (call c k p a p' s1)
    have "\<forall>fd. file_at (pr_fds p) fd \<noteq> Some (ReadEnd 0)" using call f i l by simp
    then have d: "os_pipes s1 \<noteq> [] \<and> os_pipes s1 ! 0 \<noteq> []"
      "\<forall>fd. file_at (pr_fds p') fd \<noteq> Some (ReadEnd 0)"
      using kernel_keeps_data [OF call(4) e] kernel_fds [OF call(4) e(1)] by blast+
    have "pr_fds (os_procs s1 ! j) = pr_fds (os_procs s ! j)" if "j < length (os_procs s)" "j \<noteq> i" for j
      using kernel_others [OF call(4)] that by (fastforce simp: others_kept_def)
    then show ?thesis
      using call d f kernel_others [OF call(4)] by (auto simp: os_defs nth_list_update)
  next
    case (forked k p a child)
    then show ?thesis
      using e f i l by (auto simp: os_defs nth_append nth_list_update less_Suc_eq)
  qed (use e f i l nil in \<open>auto simp: os_defs nth_list_update\<close>)
qed

lemma start_phase_proc:
  assumes st: "proc_step i s s'" and g: "got_child s'" and ph: "start_phase rest s" and ne: "os_procs s \<noteq> []"
  shows "start_phase rest s'"
proof -
  note k = proc_step_stepped [OF st]
  note keep = status_mono [OF k disjI1 [OF st]] and ntf = notified_mono [OF k]
  have l: "i < length (os_procs s)" using stepped_length [OF k] by simp
  have p0: "os_procs s' ! 0 = os_procs s ! 0" if "i \<noteq> 0" "status_of (os_procs s ! 0) = None"
    using stepped_other [OF k, of 0] that ne by (auto simp: status_of_def)
  note busy = busy_running [of _ "os_procs s ! 0"]
  from ph show ?thesis
  proof cases
    case one
    then show ?thesis using one_step [OF _ g, of s rest] st l start_phase.piped by auto
  next
    case (piped r w)
    then show ?thesis using piped_step [OF _ g, of s r w rest] st l start_phase.two [of s' 2 rest 3] by auto
  next
    case (two n m)
    then have e: "os_pipes s \<noteq> []" by auto
    consider "i = 0" | "i = 1" using l two(1) by linarith
    then show ?thesis
    proof cases
      case 1
      have "has_end (WriteEnd 0) s"
        using busy_fds(2) [OF two(5)] two(1) file_at_has_end [of 1 s] by auto
      then show ?thesis
        using parent_busy_step [OF st [unfolded 1] two(4) ne] two start_phase.two [of s'] by auto
    next
      case 2
      have "parent_busy n (os_procs s' ! 0)" using p0 busy [OF two(4)] two(4) 2 by simp
      have l1: "1 < length (os_procs s)" using two(1) by simp
      consider (busy) m' p where "os_pipes s' = os_pipes s" "os_procs s' = (os_procs s)[1 := p]"
          "child_busy rest m' (os_procs s' ! 1)"
        | (dead) "dead_by_signal (os_procs s' ! 1)"
        | (said) p where "os_pipes s' \<noteq> []" "os_pipes s' ! 0 \<noteq> []" "written 0 1 s'"
          "os_procs s' = (os_procs s)[1 := p]" "\<forall>fd. file_at (pr_fds p) fd \<noteq> Some (ReadEnd 0)"
        using child_busy_step [OF st [unfolded 2] two(5) l1 e] by blast
      then show ?thesis
      proof cases
        case busy
        then show ?thesis using two by (intro start_phase.two) simp_all
      next
        case dead
        then show ?thesis using l1 stepped_length [OF k] by (intro start_phase.crashed) simp_all
      next
        case said
        then show ?thesis
          using two \<open>parent_busy n (os_procs s' ! 0)\<close>
          by (intro start_phase.told) (auto simp: notified_def less_2_cases_iff)
      qed
    qed
  next
    case crashed
    then show ?thesis
      using keep [of 1] stepped_length [OF k] by (auto simp: dead_by_signal_def intro!: start_phase.crashed)
  next
    case (told n)
    show ?thesis
    proof (cases "i = 0")
      case True
      consider (busy) m p where "parent_busy m (os_procs s' ! 0)" "os_pipes s' = os_pipes s"
          "os_procs s' = (os_procs s)[0 := p]"
        | (heard) "pr_state (os_procs s' ! 0) = Running (Halt (Exit 0))"
        using parent_busy_step [OF st [unfolded True] told(3) ne] told(2) by blast
      then show ?thesis
      proof cases
        case busy
        then show ?thesis using told ntf by (intro start_phase.told) simp_all
      next
        case heard
        then show ?thesis using told ntf by (intro start_phase.heard) simp_all
      qed
    next
      case False
      then show ?thesis
        using told_step [OF st False told(1,2,5)] told p0 busy [OF told(3)] ntf
        by (intro start_phase.told [of s' n]) auto
    qed
  next
    case heard
    show ?thesis
    proof (cases "i = 0")
      case True
      then show ?thesis
        using proc_step_halt [OF st] heard ntf ne
        by (intro start_phase.over) (simp_all add: os_defs status_of_def)
    next
      case False
      then show ?thesis using heard p0 ntf by (intro start_phase.heard) (simp_all add: status_of_def)
    qed
  next
    case gone
    then show ?thesis using keep [of 0] ne by (auto simp: dead_by_signal_def intro!: start_phase.gone)
  next
    case over
    then show ?thesis using keep [of 0] ne ntf by (auto intro!: start_phase.over)
  qed
qed

definition start_inv :: "(daemon_vars \<Rightarrow> int prog) \<Rightarrow> os \<Rightarrow> bool" where
  "start_inv rest s \<longleftrightarrow> parent_inv (completing rest) s \<and> start_phase rest s"

lemma start_inv_step:
  assumes "start_inv rest s" and "start_step s s'"
  shows "start_inv rest s'"
proof -
  have i: "parent_inv (completing rest) s" "start_phase rest s" and st: "os_step s s'" and g: "got_child s'"
    using assms by (simp_all add: start_inv_def start_step_def)
  have ne: "os_procs s \<noteq> []" using i(1) by (simp add: parent_inv_def)
  have "start_phase rest s'"
    using os_stepD [OF st] start_phase_proc [OF _ g i(2) ne] start_phase_kill [OF _ i(2)] by blast
  then show ?thesis using parent_inv_step [OF i(1) st g] by (simp add: start_inv_def)
qed

interpretation starting: kept_invariant start_step "start_inv rest"
  by unfold_locales (rule start_inv_step)

lemma start_inv_boot:
  assumes "plain_fds fds"
  shows "start_inv rest (boot fds (and_then (daemonize_start b daemon_init) (completing rest)))"
proof -
  have "start_phase rest (boot fds (and_then (daemonize_start b daemon_init) (completing rest)))"
    using assms by (intro start_phase.one) (simp_all add: boot_def start_prog_eq)
  then show ?thesis using parent_inv_boot by (simp add: start_inv_def)
qed

lemma start_reachable:
  assumes "os_step\<^sup>*\<^sup>* (boot fds (and_then (daemonize_start b daemon_init) (completing rest))) s"
    and "got_child s" and "plain_fds fds"
  shows "start_inv rest s"
  using starting.run_inv [OF start_steps [OF assms(1,2)] start_inv_boot [OF assms(3)]] .

text \<open>Both main programs have this form.\<close>

definition infrap4d_rest :: "bool \<Rightarrow> daemon_vars \<Rightarrow> int prog" where
  "infrap4d_rest disable_krnlmon v =
     (if \<not> disable_krnlmon then
        Sys (CreateThread ''krnlmon_create_main_thread'') (\<lambda>_.
          Sys (CreateThread ''krnlmon_create_shutdown_thread'') (\<lambda>_. stratum_main))
      else stratum_main)"

lemma infrap4d_main_eq:
  "infrap4d_main True d = and_then (daemonize_start False daemon_init) (completing (infrap4d_rest d))"
  "infrap4d_lite_main True = and_then (daemonize_start False daemon_init) (completing (infrap4d_rest True))"
  by (simp_all add: infrap4d_main_def infrap4d_lite_main_def detached_def completing_def [abs_def]
      infrap4d_rest_def [abs_def] and_then_assoc)

end
