(* ===== verification/Daemon_Liveness.thy ===== *)
theory Daemon_Liveness
  imports Daemon_Child
begin

text \<open>
  Runs in which no call is interrupted and no signal arrives: how long they are, and that the
  parent does not wait forever.
\<close>

text \<open>A program of at most \<open>n\<close> calls that cannot end the process before it exits.\<close>

inductive tame :: "nat \<Rightarrow> unit prog \<Rightarrow> bool" where
  tame_exit: "tame (Suc n) (Halt (Exit r))"
| tame_call: "plain_call c \<Longrightarrow> (\<And>a. tame n (k a)) \<Longrightarrow> tame (Suc n) (Sys c k)"

lemma tame_mono: "tame n m \<Longrightarrow> n \<le> n' \<Longrightarrow> tame n' m"
proof (induction arbitrary: n' rule: tame.induct)
  case (tame_exit n r)
  then show ?case using tame.tame_exit by (metis Suc_le_D)
next
  case (tame_call c n k)
  then obtain n'' where "n' = Suc n''" "n \<le> n''" by (metis Suc_le_D Suc_le_mono)
  with tame_call show ?case by (auto intro: tame.tame_call)
qed

definition child_tail :: "nat \<Rightarrow> process \<Rightarrow> bool" where
  "child_tail n p \<longleftrightarrow> (\<exists>m. pr_state p = Running m \<and> tame n m) \<or> (\<exists>r. status_of p = Some (Exited r))"

definition quiet_step :: "os \<Rightarrow> os \<Rightarrow> bool" where
  "quiet_step s s' \<longleftrightarrow> (\<exists>i. proc_step i s s') \<and> got_child s' \<and> \<not> interruption s s'"

text \<open>The phases of such a run, with a bound on what is left: \<open>T\<close> is the bound of the child after
  it has notified its parent.\<close>

inductive quiet_phase :: "(daemon_vars \<Rightarrow> int prog) \<Rightarrow> nat \<Rightarrow> os \<Rightarrow> nat \<Rightarrow> bool" for rest T s where
  one: "length (os_procs s) = 1 \<Longrightarrow> os_pipes s = [] \<Longrightarrow> plain_fds (pr_fds (os_procs s ! 0)) \<Longrightarrow>
    pr_state (os_procs s ! 0) = Running (start_prog (completing rest)) \<Longrightarrow> quiet_phase rest T s (8 + T)"
| piped: "length (os_procs s) = 1 \<Longrightarrow> os_pipes s = [[]] \<Longrightarrow> pipe_ends r w (pr_fds (os_procs s ! 0)) \<Longrightarrow>
    pr_state (os_procs s ! 0) = Running (Sys Fork (forking (completing rest) r w)) \<Longrightarrow>
    quiet_phase rest T s (7 + T)"
| two: "length (os_procs s) = 2 \<Longrightarrow> length (os_pipes s) = 1 \<Longrightarrow> os_pipes s ! 0 = [] \<Longrightarrow>
    parent_busy n (os_procs s ! 0) \<Longrightarrow> child_busy rest m (os_procs s ! 1) \<Longrightarrow>
    quiet_phase rest T s (Suc n + m + T)"
| told: "length (os_procs s) = 2 \<Longrightarrow> os_pipes s \<noteq> [] \<Longrightarrow> os_pipes s ! 0 \<noteq> [] \<Longrightarrow> notified s \<Longrightarrow>
    \<forall>fd. file_at (pr_fds (os_procs s ! 1)) fd \<noteq> Some (ReadEnd 0) \<Longrightarrow>
    parent_busy n (os_procs s ! 0) \<Longrightarrow> child_tail t (os_procs s ! 1) \<Longrightarrow> quiet_phase rest T s (Suc n + t)"
| heard: "length (os_procs s) = 2 \<Longrightarrow> notified s \<Longrightarrow> pr_state (os_procs s ! 0) = Running (Halt (Exit 0)) \<Longrightarrow>
    child_tail t (os_procs s ! 1) \<Longrightarrow> quiet_phase rest T s (Suc t)"
| over: "length (os_procs s) = 2 \<Longrightarrow> notified s \<Longrightarrow> status_of (os_procs s ! 0) = Some (Exited 0) \<Longrightarrow>
    child_tail t (os_procs s ! 1) \<Longrightarrow> quiet_phase rest T s t"

lemma child_tail_step:
  assumes st: "proc_step 1 s s'" and c: "child_tail t (os_procs s ! 1)" and l: "length (os_procs s) = 2"
  obtains t' where "t' < t" and "child_tail t' (os_procs s' ! 1)" and "length (os_procs s') = 2"
proof -
  obtain m where m: "pr_state (os_procs s ! 1) = Running m" "tame t m"
    using c proc_step_running [OF st] by (auto simp: child_tail_def status_of_def)
  from m(2) show thesis
  proof cases
    case (tame_exit n r)
    then have "s' = put_proc 1 (die (Exited (nat (r mod 256))) (os_procs s ! 1)) s"
      using proc_step_halt [OF st] m by simp
    then show ?thesis
      using l tame_exit that [of n] by (auto simp: os_defs child_tail_def status_of_def)
  next
    case (tame_call c n k)
    obtain a p' s1 where k: "kernel s 1 (os_procs s ! 1) c a p' s1"
      "s' = log_event 1 c a (put_proc 1 (p'\<lparr>pr_state := Running (k a)\<rparr>) s1)"
      by (rule proc_step_call [OF st m(1) [unfolded tame_call(2)] tame_call(3)])
    then show ?thesis
      using that [of n] tame_call l kernel_others [OF k(1)] by (auto simp: os_defs child_tail_def)
  qed
qed

lemma parent_alone:
  assumes "proc_step 1 s s'" and "length (os_procs s) = 2" and "status_of (os_procs s ! 0) = None"
  shows "os_procs s' ! 0 = os_procs s ! 0"
  using stepped_other [OF proc_step_stepped [OF assms(1)], of 0] assms by (auto simp: status_of_def)

lemma child_alone:
  assumes "proc_step 0 s s'" and "length (os_procs s) = 2" and "child_tail t (os_procs s ! 1)"
    and "length (os_procs s') = 2"
  shows "child_tail t (os_procs s' ! 1)"
  using stepped_other [OF proc_step_stepped [OF assms(1)], of 1] assms(2-)
  by (auto simp: child_tail_def status_of_def)

lemma two_quiet:
  assumes st: "proc_step i s s'" and q: "\<not> interruption s s'"
    and two: "length (os_procs s) = 2" "length (os_pipes s) = 1" "os_pipes s ! 0 = []"
      "parent_busy n (os_procs s ! 0)" "child_busy rest m (os_procs s ! 1)"
    and T: "\<And>w. tame T (child_done rest w)"
  shows "\<exists>k < Suc n + m + T. quiet_phase rest T s' k"
proof -
  have ne: "os_procs s \<noteq> []" "os_pipes s \<noteq> []" and l: "1 < length (os_procs s)" using two by auto
  have w: "has_end (WriteEnd 0) s" "has_end (ReadEnd 0) s"
    using busy_fds(2) [OF two(5)] busy_fds(1) [OF two(4)] file_at_has_end [of 1 s] file_at_has_end [of 0 s] two(1)
    by auto
  have "i < length (os_procs s)" using proc_step_others [OF st] by simp
  then consider "i = 0" | "i = 1" using two(1) by linarith
  then show ?thesis
  proof cases
    case 1
    then obtain k p where k: "parent_busy k (os_procs s' ! 0)" "k < n" "os_pipes s' = os_pipes s"
      "os_procs s' = (os_procs s)[0 := p]"
      using parent_busy_step [OF st [unfolded 1] two(4) ne(1)] two(3) w q by blast
    then have "quiet_phase rest T s' (Suc k + m + T)" using two by (intro quiet_phase.two) simp_all
    with k show ?thesis by (intro exI conjI) auto
  next
    case 2
    have p0: "parent_busy n (os_procs s' ! 0)"
      using parent_alone [OF st [unfolded 2] two(1)] busy_running [OF two(4)] two(4) by simp
    consider (busy) k p where "child_busy rest k (os_procs s' ! 1)" "k < m" "os_pipes s' = os_pipes s"
        "os_procs s' = (os_procs s)[1 := p]"
      | (said) p w where "os_pipes s' \<noteq> []" "os_pipes s' ! 0 \<noteq> []" "written 0 1 s'" "0 < m"
        "os_procs s' = (os_procs s)[1 := p]" "\<forall>fd. file_at (pr_fds p) fd \<noteq> Some (ReadEnd 0)"
        "pr_state p = Running (child_done rest w)"
      using child_busy_step [OF st [unfolded 2] two(5) l ne(2)] w q by blast
    then show ?thesis
    proof cases
      case busy
      then have "quiet_phase rest T s' (Suc n + k + T)" using two p0 by (intro quiet_phase.two) simp_all
      with busy show ?thesis by (intro exI conjI) auto
    next
      case (said p w)
      have "child_tail T (os_procs s' ! 1)" using said l T by (auto simp: child_tail_def)
      then have "quiet_phase rest T s' (Suc n + T)"
        using said two p0 l by (intro quiet_phase.told) (auto simp: notified_def)
      with said show ?thesis by (intro exI conjI) auto
    qed
  qed
qed

lemma told_quiet:
  assumes st: "proc_step i s s'" and q: "\<not> interruption s s'"
    and told: "length (os_procs s) = 2" "os_pipes s \<noteq> []" "os_pipes s ! 0 \<noteq> []" "notified s"
      "\<forall>fd. file_at (pr_fds (os_procs s ! 1)) fd \<noteq> Some (ReadEnd 0)"
      "parent_busy n (os_procs s ! 0)" "child_tail t (os_procs s ! 1)"
  shows "\<exists>k < Suc n + t. quiet_phase rest T s' k"
proof -
  have ne: "os_procs s \<noteq> []" using told(1) by auto
  have n': "notified s'" using notified_mono [OF proc_step_stepped [OF st]] told(4) .
  have "i < length (os_procs s)" using proc_step_others [OF st] by simp
  then consider "i = 0" | "i = 1" using told(1) by linarith
  then show ?thesis
  proof cases
    case 1
    have n: "0 < n" using told(6) by (auto elim: parent_busy.cases)
    have len: "length (os_procs s') = 2"
      using told(1,6) st [unfolded 1] by (auto elim!: proc_step.cases parent_busy.cases
        simp: os_defs parent_read_code [of _ 2] dest: kernel_others)
    have c: "child_tail t (os_procs s' ! 1)" using child_alone [OF st [unfolded 1] told(1,7) len] .
    consider (busy) k p where "parent_busy k (os_procs s' ! 0)" "k < n" "os_pipes s' = os_pipes s"
        "os_procs s' = (os_procs s)[0 := p]"
      | (heard) "pr_state (os_procs s' ! 0) = Running (Halt (Exit 0))"
      using parent_busy_step [OF st [unfolded 1] told(6) ne] told(3) q by blast
    then show ?thesis
    proof cases
      case busy
      then have "quiet_phase rest T s' (Suc k + t)" using told c n' by (intro quiet_phase.told) simp_all
      with busy show ?thesis by (intro exI conjI) auto
    next
      case heard
      then have "quiet_phase rest T s' (Suc t)" using c n' len by (intro quiet_phase.heard) simp_all
      with n show ?thesis by (intro exI conjI) auto
    qed
  next
    case 2
    obtain t' where t': "t' < t" "child_tail t' (os_procs s' ! 1)" "length (os_procs s') = 2"
      using child_tail_step [OF st [unfolded 2] told(7,1)] .
    have f: "os_pipes s' \<noteq> [] \<and> os_pipes s' ! 0 \<noteq> [] \<and>
      (\<forall>j < length (os_procs s'). 0 < j \<longrightarrow> (\<forall>fd. file_at (pr_fds (os_procs s' ! j)) fd \<noteq> Some (ReadEnd 0)))"
      by (rule told_step [OF st _ told(2,3)]) (use 2 told(1,5) in \<open>auto simp: less_2_cases_iff\<close>)
    have "os_procs s' ! 0 = os_procs s ! 0"
      using parent_alone [OF st [unfolded 2] told(1)] busy_running [OF told(6)] by simp
    then have "quiet_phase rest T s' (Suc n + t')"
      using f t' told n' by (intro quiet_phase.told) auto
    with t' show ?thesis by (intro exI conjI) auto
  qed
qed

lemma quiet_phase_step:
  assumes st: "quiet_step s s'" and ph: "quiet_phase rest T s n" and T: "\<And>w. tame T (child_done rest w)"
  shows "\<exists>k < n. quiet_phase rest T s' k"
proof -
  obtain i where i: "proc_step i s s'" and g: "got_child s'" and q: "\<not> interruption s s'"
    using st by (auto simp: quiet_step_def)
  have l: "i < length (os_procs s)" using proc_step_others [OF i] by simp
  have n': "notified s \<Longrightarrow> notified s'" using notified_mono [OF proc_step_stepped [OF i]] .
  note keep = status_mono [OF proc_step_stepped [OF i] disjI1 [OF i]]
  from ph show ?thesis
  proof cases
    case one
    then have "i = 0" using l by simp
    with one one_step [OF _ g, of s rest] i show ?thesis
      using quiet_phase.piped [of s' _ _ rest T] by (intro exI [of _ "7 + T"]) auto
  next
    case (piped r w)
    then have "i = 0" using l by simp
    with piped piped_step [OF _ g, of s r w rest] i show ?thesis
      using quiet_phase.two [of s' 2 rest 3 T] by (intro exI [of _ "6 + T"]) auto
  next
    case (two n m)
    then show ?thesis using two_quiet [OF i q _ _ _ _ _ T] by blast
  next
    case (told n t)
    then show ?thesis using told_quiet [OF i q] by blast
  next
    case (heard t)
    consider "i = 0" | "i = 1" using l heard by linarith
    then show ?thesis
    proof cases
      case 1
      then have s': "s' = put_proc 0 (die (Exited 0) (os_procs s ! 0)) s"
        using proc_step_halt [of 0 s s'] i heard by simp
      then have "quiet_phase rest T s' t"
        using heard n' by (intro quiet_phase.over) (auto simp: os_defs status_of_def)
      with heard show ?thesis by auto
    next
      case 2
      obtain t' where t': "t' < t" "child_tail t' (os_procs s' ! 1)" "length (os_procs s') = 2"
        using child_tail_step [OF i [unfolded 2]] heard by blast
      then have "quiet_phase rest T s' (Suc t')"
        using heard n' parent_alone [OF i [unfolded 2]] by (intro quiet_phase.heard) (auto simp: status_of_def)
      with t' heard show ?thesis by auto
    qed
  next
    case (over)
    then have "i \<noteq> 0" using proc_step_running [OF i] by (intro notI) (auto simp: status_of_def)
    then have 1: "i = 1" using l over by linarith
    obtain t' where t': "t' < n" "child_tail t' (os_procs s' ! 1)" "length (os_procs s') = 2"
      using child_tail_step [OF i [unfolded 1]] over by blast
    then have "quiet_phase rest T s' t'"
      using over n' keep [of 0] by (intro quiet_phase.over) auto
    with t' show ?thesis by auto
  qed
qed

lemma call_step:
  assumes "running s i (Sys c k)" and "kernel s i (os_procs s ! i) c a p' s1"
    and "got_child s" and "\<not> interrupted a" and "i = 0 \<and> (c = Pipe \<or> c = Fork) \<longrightarrow> 0 \<le> a_ret a"
  shows "\<exists>s'. quiet_step s s'"
proof -
  let ?s' = "log_event i c a (put_proc i (p'\<lparr>pr_state := Running (k a)\<rparr>) s1)"
  have e: "os_events s1 = os_events s" using kernel_events [OF assms(2)] .
  have "proc_step i s ?s'" using proc_step.call [OF assms(1) refl assms(2)] .
  moreover have "got_child ?s'" using assms(3,5) e by (auto simp: got_child_def put_proc_def log_event_def)
  moreover have "a \<noteq> failed EINTR"
    using assms(4) by (auto simp: interrupted_def failed_def returned_def)
  then have "\<not> interruption s ?s'" using e by (auto simp: interruption_def os_defs)
  ultimately show ?thesis by (auto simp: quiet_step_def)
qed

text \<open>The parent can close and, if there is something to read, read.\<close>

lemma parent_progress:
  assumes b: "parent_busy n (os_procs s ! 0)" and ne: "os_procs s \<noteq> []" and g: "got_child s"
    and d: "n \<noteq> 1 \<or> os_pipes s ! 0 \<noteq> []"
  shows "\<exists>s'. quiet_step s s'"
  using b
proof cases
  case (1 r w)
  then have r: "running s 0 (Sys (Close w) (\<lambda>_. parent_read r 2))" using ne by (simp add: running_def)
  show ?thesis
    by (rule call_step [OF r closed [of _ _ _ _ 0] g]) (simp_all add: interrupted_def returned_def)
next
  case (2 r)
  have r: "running s 0 (Sys (Read r 1) (\<lambda>a.
     if a_ret a > 0 then Halt (Exit 0) else if a_ret a = 0 then parent_wait 2
     else if a_errno a = EINTR then parent_read r 2
     else if a_errno a \<noteq> 0 then parent_wait 2 else Halt (Exit 0)))"
    using trans [OF 2(3) arg_cong [OF parent_read_code, of Running]] ne by (simp add: running_def)
  have "file_at (pr_fds (os_procs s ! 0)) r = Some (ReadEnd 0)" using 2(2) by (simp add: read_end_at_def)
  then show ?thesis
    by (rule call_step [OF r read_pipe [of _ _ 0 1] g])
      (use 2(1) d in \<open>auto simp: interrupted_def returned_def Suc_le_eq\<close>)
qed

lemma child_progress:
  assumes b: "child_busy rest n (os_procs s ! 1)" and l: "1 < length (os_procs s)" and g: "got_child s"
    and e: "has_end (ReadEnd 0) s"
  shows "\<exists>s'. quiet_step s s'"
  using b
proof cases
  case (1 r w)
  then have r: "running s 1 (Sys (Close r) (\<lambda>_. child_start (completing rest) w))" using l by (simp add: running_def)
  show ?thesis
    by (rule call_step [OF r closed [of _ _ _ _ 0] g]) (simp_all add: interrupted_def returned_def)
next
  case (2 w)
  then have r: "running s 1 (Sys Setsid (\<lambda>_. child_notify rest w))"
    using l by (simp add: running_def child_start_code)
  show ?thesis
    by (rule call_step [OF r session [of _ _ _ 0] g]) (simp_all add: interrupted_def returned_def)
next
  case (3 w)
  then have w: "0 \<le> w" "file_at (pr_fds (os_procs s ! 1)) w = Some (WriteEnd 0)"
    by (simp_all add: write_end_def)
  obtain k where r: "running s 1 (Sys (Write w [NUL]) k)"
    using trans [OF 3(3) arg_cong [OF child_notify_code [OF w(1)], of Running]] l
    by (auto simp: running_def)
  show ?thesis
    by (rule call_step [OF r write_pipe [OF w(2) e, of 1] g]) (simp_all add: interrupted_def returned_def)
qed

lemma quiet_progress:
  assumes ph: "quiet_phase rest T s n" and g: "got_child s" and alive: "status_of (os_procs s ! 0) = None"
  shows "\<exists>s'. quiet_step s s'"
proof -
  from ph show ?thesis
  proof cases
    case one
    then have "running s 0 (start_prog (completing rest))" by (simp add: running_def)
    then show ?thesis unfolding start_prog_def
      by (rule call_step [OF _ pipe_made [OF refl refl refl] g])
        (simp_all add: interrupted_def returned_def)
  next
    case (piped r w)
    then have r: "running s 0 (Sys Fork (forking (completing rest) r w))" by (simp add: running_def)
    show ?thesis
      unfolding quiet_step_def
      by (rule exI, intro conjI, rule exI, rule proc_step.forked [OF r refl refl refl])
        (use g in \<open>auto simp: got_child_def log_event_def interruption_def returned_def failed_def\<close>)
  next
    case (heard t)
    let ?s' = "put_proc 0 (die (ending_status (Exit 0)) (os_procs s ! 0)) s"
    have "running s 0 (Halt (Exit 0))" using heard by (simp add: running_def)
    from proc_step.halt [OF this] have "quiet_step s ?s'"
      using g by (auto simp: quiet_step_def got_child_def put_proc_def interruption_def)
    then show ?thesis by blast
  next
    case (told n t)
    then show ?thesis using parent_progress [OF told(7) _ g] by fastforce
  next
    case (two n m)
    show ?thesis
    proof (cases "n = 1")
      case True
      have "has_end (ReadEnd 0) s"
        using busy_fds(1) [OF two(5)] file_at_has_end [of 0 s] two(2) by auto
      then show ?thesis using child_progress [OF two(6) _ g] two(2) by simp
    next
      case False
      then show ?thesis using parent_progress [OF two(5) _ g] two(2) by fastforce
    qed
  qed (use alive in simp)
qed

section \<open>The machine\<close>

text \<open>What the two main programs do after the notification takes at most eight calls.\<close>

lemma tame_stratum: "tame 2 (and_then stratum_main (\<lambda>r. Halt (Exit r)))"
  by (auto simp: stratum_main_def numeral_2_eq_2 if_and_then intro!: tame.intros)

lemma tame_rest: "tame 4 (body_prog (infrap4d_rest d) v)"
  using tame_mono [OF tame_stratum, of 4] tame_stratum
  by (auto simp: body_prog_def infrap4d_rest_def numeral_eq_Suc intro!: tame.intros)

lemma tame_done: "tame 8 (child_done (infrap4d_rest d) w)"
proof -
  have "tame n (body_prog (infrap4d_rest d) v)" if "4 \<le> n" for n v
    using tame_mono [OF tame_rest that] .
  then have "tame (Suc (Suc (Suc (Suc (Suc (Suc (Suc (Suc 0)))))))) (child_done (infrap4d_rest d) w)"
    by (auto simp: child_done_def daemonize_post_detach_def daemon_close_standard_fds_def get_null_fd_def
        daemon_init_def Let_def if_and_then intro!: tame.intros)
  then show ?thesis by (simp add: numeral_eq_Suc)
qed

definition quiet_inv :: "bool \<Rightarrow> os \<Rightarrow> bool" where
  "quiet_inv d s \<longleftrightarrow> got_child s \<and> (\<exists>n. quiet_phase (infrap4d_rest d) 8 s n)"

definition quiet_work :: "bool \<Rightarrow> os \<Rightarrow> nat" where
  "quiet_work d s = (LEAST n. quiet_phase (infrap4d_rest d) 8 s n)"

lemma quiet_work_phase: "quiet_inv d s \<Longrightarrow> quiet_phase (infrap4d_rest d) 8 s (quiet_work d s)"
  unfolding quiet_inv_def quiet_work_def by (metis LeastI)

lemma quiet_step_work:
  assumes "quiet_inv d s" and "quiet_step s s'"
  shows "quiet_inv d s' \<and> quiet_work d s' < quiet_work d s"
proof -
  obtain k where k: "k < quiet_work d s" "quiet_phase (infrap4d_rest d) 8 s' k"
    using quiet_phase_step [OF assms(2) quiet_work_phase [OF assms(1)] tame_done] by blast
  then have "quiet_work d s' \<le> k" by (simp add: quiet_work_def Least_le)
  then show ?thesis using k assms(2) by (auto simp: quiet_inv_def quiet_step_def)
qed

interpretation quiet: ending_runs quiet_step "quiet_inv d" "\<lambda>s. status_of (os_procs s ! 0) \<noteq> None" "quiet_work d"
proof unfold_locales
  fix s s'
  show "quiet_inv d s \<Longrightarrow> quiet_step s s' \<Longrightarrow> quiet_inv d s'" using quiet_step_work by blast
  show "quiet_inv d s \<Longrightarrow> quiet_step s s' \<Longrightarrow> quiet_work d s' < quiet_work d s" using quiet_step_work by blast
next
  fix s
  show "quiet_inv d s \<Longrightarrow> \<not> status_of (os_procs s ! 0) \<noteq> None \<Longrightarrow> \<exists>s'. quiet_step s s'"
    using quiet_progress quiet_work_phase unfolding quiet_inv_def by blast
qed

lemma quiet_boot:
  assumes "plain_fds fds"
  shows "quiet_inv d (boot fds (infrap4d_main True d))" "quiet_work d (boot fds (infrap4d_main True d)) \<le> 16"
proof -
  let ?s = "boot fds (infrap4d_main True d)"
  have "quiet_phase (infrap4d_rest d) 8 ?s (8 + 8)"
    using assms by (intro quiet_phase.one) (simp_all add: boot_def infrap4d_main_eq start_prog_eq)
  then show "quiet_inv d ?s" "quiet_work d ?s \<le> 16"
    by (auto simp: quiet_inv_def quiet_work_def got_child_def boot_def intro: Least_le)
qed

lemma quiet_over:
  assumes "quiet_inv d s" and "status_of (os_procs s ! 0) \<noteq> None"
  shows "status_of (os_procs s ! 0) = Some (Exited 0) \<and> notified s"
  using quiet_work_phase [OF assms(1)] assms(2) busy_running
  by cases (auto simp: status_of_def)

lemma quiet_os_step: "quiet_step s s' \<Longrightarrow> os_step s s'"
  by (auto simp: quiet_step_def intro: os_step.proc)

end
