(* ===== verification/Daemon_Fds.thy ===== *)
theory Daemon_Fds
  imports Daemon_Child
begin

text \<open>
  Where the standard descriptors of infrap4d lead when it starts the server. The condition is
  a property of a program and the descriptors it has, the weakest one that every call keeps
  and that gives \<^verbatim>\<open>/dev/null\<close> at the call of the server.
\<close>

section \<open>Programs that replace the standard descriptors first\<close>

definition std_null :: "fd_table \<Rightarrow> bool" where
  "std_null fds \<longleftrightarrow> list_all (\<lambda>fd. file_at fds fd = Some DevNull) [0, 1, 2]"

text \<open>A call that has not failed to open or to duplicate a file.\<close>

fun worked :: "syscall \<Rightarrow> answer \<Rightarrow> bool" where
  "worked (Open name) a = (0 \<le> a_ret a)"
| "worked (Dup2 old new) a = (0 \<le> a_ret a)"
| "worked c a = True"

coinductive covered :: "fd_table \<Rightarrow> unit prog \<Rightarrow> bool" where
  halted: "covered fds (Halt e)"
| returns: "covered fds (Return x)"
| call: "(c = StratumMain \<longrightarrow> std_null fds) \<Longrightarrow> (c = Fork \<longrightarrow> (\<forall>a. covered fds (k a))) \<Longrightarrow>
    (\<forall>s i p a p' s'. kernel s i p c a p' s' \<longrightarrow> pr_fds p = fds \<longrightarrow> worked c a \<longrightarrow> covered (pr_fds p') (k a)) \<Longrightarrow>
    covered fds (Sys c k)"

inductive_cases covered_SysE: "covered fds (Sys c k)"

text \<open>A program that does not start the server, and returns only what \<open>Q\<close> allows.\<close>

coinductive serverless :: "('a \<Rightarrow> bool) \<Rightarrow> 'a prog \<Rightarrow> bool" for Q where
  "Q x \<Longrightarrow> serverless Q (Return x)"
| "serverless Q (Halt e)"
| "c \<noteq> StratumMain \<Longrightarrow> (\<forall>a. serverless Q (k a)) \<Longrightarrow> serverless Q (Sys c k)"

inductive_simps serverless_simps [simp]:
  "serverless Q (Return x)" "serverless Q (Halt e)" "serverless Q (Sys c k)"

lemma serverless_then:
  assumes "serverless Q m" and "\<And>x. Q x \<Longrightarrow> serverless R (f x)"
  shows "serverless R (and_then m f)"
  using assms(1)
proof (coinduction arbitrary: m)
  case serverless
  then show ?case
  proof cases
    case (1 x)
    from assms(2) [OF 1(2)] show ?thesis unfolding 1 by cases auto
  qed auto
qed

lemma serverless_covered:
  assumes "serverless Q m" and "\<And>x fds. Q x \<Longrightarrow> covered fds (f x)"
  shows "covered fds (and_then m f)"
  using assms(1)
proof (coinduction arbitrary: m fds)
  case covered
  then show ?case
  proof cases
    case (1 x)
    from assms(2) [OF 1(2), of fds] show ?thesis unfolding 1 by cases auto
  qed auto
qed

lemma serverless_mono: "serverless Q m \<Longrightarrow> (\<And>x. Q x \<Longrightarrow> R x) \<Longrightarrow> serverless R m"
  by (coinduction arbitrary: m) (auto elim: serverless.cases)

lemma serverless_loops:
  "serverless (\<lambda>_. True) (read_fully_loop fd len p)"
  "serverless (\<lambda>_. True) (write_fully_loop fd p n)"
  "serverless (\<lambda>_. True) (waitpid_loop pid)"
  subgoal by (coinduction arbitrary: len p) (subst (1 2 3) read_fully_loop.code, auto)
  subgoal by (coinduction arbitrary: p n) (subst (1 2 3) write_fully_loop.code, auto)
  subgoal by (coinduction arbitrary: pid) (subst (1 2 3) waitpid_loop.code, auto)
  done

lemmas serverless_seq = serverless_then [where Q = "\<lambda>_. True"]

section \<open>The start of the daemon\<close>

definition ready :: "daemon_vars \<Rightarrow> bool" where
  "ready v \<longleftrightarrow> infrap4d_detach v \<and> \<not> infrap4d_detached v \<and> infrap4d_save_fds v = [False, False, False] \<and>
     null_fd v = 0"

lemma serverless_hooks: "serverless (\<lambda>_. True) (cancel_hooks hs)"
  by (induction hs) (auto split: option.split)

lemma serverless_fork: "ready v \<Longrightarrow> serverless (\<lambda>(pid, v). ready v) (fork_and_clean_up v)"
  by (auto simp: fork_and_clean_up_def daemon_fatal_signal_fork_def Let_def and_then_assoc ready_def
      intro!: serverless_seq [OF serverless_hooks])

lemma serverless_wait:
  assumes "ready v"
  shows "serverless (\<lambda>(ret, fd, pid, v). ready v) (fork_and_wait_for_startup fdp v)"
  using serverless_fork [OF assms]
  by (auto simp: fork_and_wait_for_startup_def startup_failed_def read_fully_def Let_def and_then_assoc
      split: prod.split intro!: serverless_then [of "\<lambda>(pid, v). ready v"]
        serverless_seq [OF serverless_loops(1)] serverless_seq [OF serverless_loops(3)])

lemma serverless_start: "ready v \<Longrightarrow> serverless ready (daemonize_start b v)"
  using serverless_wait [of "v\<lparr>infrap4d_daemonize_fd := - 1\<rparr>" "- 1"]
  by (auto simp: daemonize_start_def Let_def ready_def
      intro!: serverless_then [of "\<lambda>(ret, fd, pid, v). ready v"])

lemma serverless_notify: "serverless (\<lambda>_. True) (fork_notify_startup fd)"
  by (auto simp: fork_notify_startup_def write_fully_def intro!: serverless_seq [OF serverless_loops(2)])

section \<open>Replacing the descriptors\<close>

lemma file_at_put_other:
  "file_at (put_fd i f fds) (int i) = Some f"
  "file_at fds j = Some f \<Longrightarrow> file_at (put_fd i f fds) j = Some f"
  by (auto simp: file_at_def put_fd_def nth_append nth_list_update split: if_splits)

lemma covered_dup2:
  assumes "file_at fds null = Some DevNull" and "covered (put_fd fd DevNull fds) m"
  shows "covered fds (Sys (Dup2 null (int fd)) (\<lambda>_. m))"
  using assms by (auto intro!: covered.call elim!: kernel.cases simp: failed_def returned_def)

text \<open>What was replaced before stays replaced.\<close>

lemma covered_replace:
  assumes "\<And>fds. list_all (\<lambda>fd. file_at fds (int fd) = Some DevNull) (done @ js) \<Longrightarrow> covered fds (f v)"
    and "list_all (\<lambda>fd. file_at fds (int fd) = Some DevNull) done" and "file_at fds null = Some DevNull"
    and "list_all (\<lambda>fd. \<not> infrap4d_save_fds v ! fd) js"
  shows "covered fds (and_then (replace_fds null (map int js) v) f)"
  using assms
proof (induction js arbitrary: "done" fds)
  case (Cons j js)
  have "covered (put_fd j DevNull fds) (and_then (replace_fds null (map int js) v) f)"
    using Cons.prems by (intro Cons.IH [of "done @ [j]"]) (auto simp: list_all_iff file_at_put_other)
  with Cons.prems show ?case by (simp add: covered_dup2)
qed simp

lemma covered_open:
  assumes "\<And>fd fds'. file_at fds' (int fd) = Some DevNull \<Longrightarrow> covered fds' (k (returned (int fd)))"
  shows "covered fds (Sys (Open ''/dev/null'') k)"
  using assms by (auto intro!: covered.call elim!: kernel.cases simp: failed_def returned_def file_at_put_other)

lemma covered_post_detach:
  assumes v: "infrap4d_detach v" "infrap4d_save_fds v = [False, False, False]" "null_fd v = 0"
    and f: "\<And>fds v. std_null fds \<Longrightarrow> covered fds (f v)"
  shows "covered fds (and_then (daemonize_post_detach v) f)"
proof -
  have "covered fds' (and_then (replace_fds (int fd) [0, 1, 2] u) f)"
    if "file_at fds' (int fd) = Some DevNull" "infrap4d_save_fds u = [False, False, False]" for fd fds' u
    using covered_replace [of "[]" "[0, 1, 2]" f u fds' "int fd"] that f by (simp add: std_null_def)
  with v show ?thesis
    by (auto simp: daemonize_post_detach_def daemon_close_standard_fds_def get_null_fd_def Let_def
        returned_def and_then_assoc intro!: covered_open)
qed

lemma covered_complete:
  assumes "ready v" and "\<And>fds v. std_null fds \<Longrightarrow> covered fds (f v)"
  shows "covered fds (and_then (daemonize_complete v) f)"
  using assms
  by (auto simp: daemonize_complete_def Let_def and_then_assoc ready_def
      intro!: serverless_covered [OF serverless_notify] covered_post_detach)

lemma covered_keeping:
  assumes "c = StratumMain \<or> c = CreateThread name" and "std_null fds" and "\<And>a. covered fds (k a)"
  shows "covered fds (Sys c k)"
  using assms by (auto intro!: covered.call elim!: kernel.cases)

lemma covered_infrap4d:
  "covered fds (and_then (infrap4d_main True d) (\<lambda>r. Halt (Exit r)))"
  "covered fds (and_then (infrap4d_lite_main True) (\<lambda>r. Halt (Exit r)))"
proof -
  have "ready daemon_init" by (simp add: ready_def daemon_init_def)
  note start = serverless_covered [OF serverless_start [OF this]]
  have server: "covered fds (and_then stratum_main (\<lambda>r. Halt (Exit r)))" if "std_null fds" for fds
    using that by (auto simp: stratum_main_def intro!: covered_keeping covered.halted)
  show "covered fds (and_then (infrap4d_main True d) (\<lambda>r. Halt (Exit r)))"
    using server
    by (auto simp: infrap4d_main_def detached_def and_then_assoc
        intro!: start covered_complete covered_keeping)
  show "covered fds (and_then (infrap4d_lite_main True) (\<lambda>r. Halt (Exit r)))"
    using server
    by (auto simp: infrap4d_lite_main_def detached_def and_then_assoc intro!: start covered_complete)
qed

section \<open>The system\<close>

definition fds_inv :: "os \<Rightarrow> bool" where
  "fds_inv s \<longleftrightarrow> (list_all (\<lambda>(i, c, a). worked c a) (os_events s) \<longrightarrow>
     (\<forall>i < length (os_procs s). \<forall>m. pr_state (os_procs s ! i) = Running m \<longrightarrow>
        covered (pr_fds (os_procs s ! i)) m))"

lemma fds_inv_own:
  assumes "proc_step i s s'" and "fds_inv s" and "list_all (\<lambda>(i, c, a). worked c a) (os_events s')"
    and "pr_state (os_procs s' ! i) = Running m"
  shows "covered (pr_fds (os_procs s' ! i)) m"
  using assms(1)
proof (cases rule: proc_step.cases)
  case (call c k p a p' s1)
  have "covered (pr_fds p) (Sys c k)" and "worked c a"
    using assms(2,3) call kernel_events [OF call(4)] by (auto simp: fds_inv_def os_defs)
  then have "covered (pr_fds p') (k a)" using call(4) by (elim covered_SysE) blast
  then show ?thesis using assms(4) call kernel_others [OF call(4)] by (simp add: os_defs)
next
  case (forked k p a child)
  then have "covered (pr_fds p) (Sys Fork k)"
    using assms(2,3) by (auto simp: fds_inv_def os_defs)
  then show ?thesis using assms(4) forked by (auto simp: os_defs nth_append elim: covered_SysE)
next
  case (fork_fails k e)
  then have "covered (pr_fds (os_procs s ! i)) (Sys Fork k)"
    using assms(2,3) by (auto simp: fds_inv_def os_defs)
  then show ?thesis using assms(4) fork_fails by (auto simp: os_defs elim: covered_SysE)
qed (use assms(4) in \<open>simp_all add: os_defs\<close>)

text \<open>A new process is a child that goes on where its parent called.\<close>

lemma fds_inv_new:
  assumes "proc_step i s s'" and "fds_inv s" and "list_all (\<lambda>(i, c, a). worked c a) (os_events s')"
    and "length (os_procs s) \<le> j" "j < length (os_procs s')" and "pr_state (os_procs s' ! j) = Running m"
  shows "covered (pr_fds (os_procs s' ! j)) m"
  using assms(1)
proof (cases rule: proc_step.cases)
  case (call c k p a p' s1)
  then show ?thesis using assms(4,5) kernel_others [OF call(4)] by (simp add: os_defs)
next
  case (forked k p a child)
  then have "covered (pr_fds p) (Sys Fork k)"
    using assms(2,3) by (auto simp: fds_inv_def os_defs)
  then show ?thesis using assms(4-6) forked by (auto simp: os_defs nth_append elim: covered_SysE)
qed (use assms(4,5) in \<open>simp_all add: os_defs\<close>)

lemma fds_inv_step:
  assumes "fds_inv s" and "os_step s s'"
  shows "fds_inv s'"
proof -
  obtain i where st: "stepped i s s'" and i: "proc_step i s s' \<or> killed i s s'"
    using os_stepD [OF assms(2)] by blast
  have "covered (pr_fds (os_procs s' ! j)) m"
    if ev: "list_all (\<lambda>(i, c, a). worked c a) (os_events s')" and j: "j < length (os_procs s')"
      and m: "pr_state (os_procs s' ! j) = Running m" for j m
  proof (cases "j < length (os_procs s) \<and> j \<noteq> i")
    case True
    then have "os_procs s' ! j = os_procs s ! j" using stepped_other [OF st] m by fastforce
    moreover have "list_all (\<lambda>(i, c, a). worked c a) (os_events s)"
      using st ev by (auto simp: stepped_def)
    ultimately show ?thesis using assms(1) True m by (simp add: fds_inv_def)
  next
    case False
    from i show ?thesis
    proof
      assume "proc_step i s s'"
      with False show ?thesis
        using fds_inv_own [OF _ assms(1) ev, of i] fds_inv_new [OF _ assms(1) ev _ j m] m by force
    next
      assume "killed i s s'"
      then show ?thesis using False j m by (auto simp: killed_def os_defs)
    qed
  qed
  then show ?thesis by (simp add: fds_inv_def)
qed

interpretation fds: kept_invariant os_step fds_inv
  by unfold_locales (rule fds_inv_step)

lemma fds_inv_boot: "(\<And>fds. covered fds (and_then m (\<lambda>r. Halt (Exit r)))) \<Longrightarrow> fds_inv (boot fds m)"
  by (simp add: fds_inv_def boot_def)

lemma standard_fds:
  assumes "os_step\<^sup>*\<^sup>* (boot fds m) s" and "m = infrap4d_main True d \<or> m = infrap4d_lite_main True"
    and "running s i (Sys StratumMain k)" and "list_all (\<lambda>(j, c, a). worked c a) (os_events s)"
  shows "std_null (pr_fds (os_procs s ! i))"
proof -
  have "fds_inv s"
    using assms(2) by (intro fds.run_inv [OF assms(1)] fds_inv_boot) (auto intro: covered_infrap4d)
  with assms(3,4) show ?thesis by (auto simp: fds_inv_def running_def elim: covered_SysE)
qed

end
