(* ===== verification/Daemon_Properties.thy ===== *)
theory Daemon_Properties
  imports Daemon_Liveness Daemon_Fds
begin

text \<open>
  Properties of the daemon library and of infrap4d: what the exit status of the starting
  process says, that it does not wait forever, where the standard descriptors lead, and what a
  second completion does. The two
  runs at the beginning are concrete: a child that exits before it has notified its parent,
  and one that is killed.
\<close>

section \<open>Two runs\<close>

definition demo_fds :: fd_table where
  "demo_fds = replicate 3 (Some (OtherFile ''/dev/tty''))"

definition demo_os ::
    "proc_state \<Rightarrow> fd_table \<Rightarrow> process \<Rightarrow> (nat \<times> syscall \<times> answer) list \<Rightarrow> string list \<Rightarrow> os" where
  "demo_os st fds child ev out =
     \<lparr>os_procs = [\<lparr>pr_state = st, pr_fds = fds, pr_parent = 0, pr_leader = False\<rparr>, child],
      os_pipes = [[]], os_out = out, os_events = ev, os_writes = []\<rparr>"

abbreviation demo_pipe_fds :: fd_table where
  "demo_pipe_fds \<equiv> demo_fds @ [Some (ReadEnd 0), Some (WriteEnd 0)]"

abbreviation demo_child :: "proc_state \<Rightarrow> fd_table \<Rightarrow> bool \<Rightarrow> process" where
  "demo_child st fds leader \<equiv> \<lparr>pr_state = st, pr_fds = fds, pr_parent = 1, pr_leader = leader\<rparr>"

lemma step_call:
  assumes "i < length (os_procs s)" and "pr_state (os_procs s ! i) = Running (Sys c k)"
    and "kernel s i (os_procs s ! i) c a p' s1"
    and "s' = log_event i c a (put_proc i (p'\<lparr>pr_state := Running (k a)\<rparr>) s1)"
  shows "os_step s s'"
  using assms by (auto simp: running_def intro!: os_step.proc [of i] proc_step.call)

lemma step_halt:
  assumes "i < length (os_procs s)" and "pr_state (os_procs s ! i) = Running (Halt e)"
    and "s' = put_proc i (die (ending_status e) (os_procs s ! i)) s"
  shows "os_step s s'"
  using assms proc_step.halt [of s i e] by (auto simp: running_def intro: os_step.proc)

definition demo_start_events :: "(nat \<times> syscall \<times> answer) list" where
  "demo_start_events = [(0, Pipe, (returned 0)\<lparr>a_fds := (3, 4)\<rparr>), (0, Fork, returned 2)]"

lemma demo_forks:
  "os_step\<^sup>*\<^sup>* (boot demo_fds (and_then (daemonize_start b daemon_init) body))
     (demo_os (Running (Sys (Close 4) (\<lambda>_. parent_read 3 2))) demo_pipe_fds
        (demo_child (Running (Sys (Close 3) (\<lambda>_. child_start body 4))) demo_pipe_fds False)
        demo_start_events [])"
proof -
  let ?s0 = "boot demo_fds (and_then (daemonize_start b daemon_init) body)"
  let ?s1 = "\<lparr>os_procs = [\<lparr>pr_state = Running (Sys Fork (forking body 3 4)), pr_fds = demo_pipe_fds,
      pr_parent = 0, pr_leader = False\<rparr>], os_pipes = [[]], os_out = [],
    os_events = [(0, Pipe, (returned 0)\<lparr>a_fds := (3, 4)\<rparr>)], os_writes = []\<rparr>"
  have l: "lowest_fd demo_fds = 3" "lowest_fd (put_fd 3 (ReadEnd 0) demo_fds) = 4"
    by (simp_all add: lowest_fd_def demo_fds_def put_fd_def numeral_eq_Suc)
  have "os_step ?s0 ?s1"
    by (rule step_call [of 0, OF _ _ pipe_made [OF refl refl refl]])
      (simp_all add: boot_def start_prog_eq start_prog_def os_defs l returned_def,
       simp add: put_fd_def demo_fds_def)
  moreover have "os_step ?s1
     (demo_os (Running (Sys (Close 4) (\<lambda>_. parent_read 3 2))) demo_pipe_fds
        (demo_child (Running (Sys (Close 3) (\<lambda>_. child_start body 4))) demo_pipe_fds False)
        demo_start_events [])"
    using proc_step.forked [of ?s1 0 "forking body 3 4", OF _ refl refl refl]
    by (intro os_step.proc [of 0])
      (simp add: running_def log_event_def demo_os_def forking_def returned_def demo_start_events_def)
  ultimately show ?thesis by (auto intro: converse_rtranclp_into_rtranclp)
qed

text \<open>From a dead child to the end of its parent.\<close>

definition parent_says :: "wait_status \<Rightarrow> nat" where
  "parent_says st = (case st of Exited n \<Rightarrow> n | Signaled sig \<Rightarrow> 0)"

lemma demo_hears:
  assumes "parent_says st < 256"
  shows "\<exists>ev' out. list_all (\<lambda>(i, c, a). i = 0 \<and> c \<noteq> Pipe \<and> c \<noteq> Fork) ev' \<and>
    os_step\<^sup>*\<^sup>* (demo_os (Running (Sys (Close 4) (\<lambda>_. parent_read 3 2))) demo_pipe_fds
        (demo_child (Zombie st) [] leader) ev [])
      (demo_os (Zombie (Exited (parent_says st))) [] (demo_child (Reaped st) [] leader) (ev @ ev') out)"
proof -
  let ?fds = "demo_fds @ [Some (ReadEnd 0), None]"
  let ?e1 = "ev @ [(0, Close 4, returned 0)]"
  let ?e2 = "?e1 @ [(0, Read 3 1, returned 0)]"
  let ?w = "(returned 2)\<lparr>a_status := st\<rparr>"
  let ?e3 = "?e2 @ [(0, Waitpid 2, ?w)]"
  let ?z = "demo_child (Zombie st) [] leader" and ?r = "demo_child (Reaped st) [] leader"
  let ?msg = "''could not detach from foreground session ''"
  have f: "close_fd 4 demo_pipe_fds = ?fds" "file_at ?fds 3 = Some (ReadEnd 0)" "Some (WriteEnd 0) \<notin> set demo_fds"
    by (simp_all add: close_fd_def demo_fds_def file_at_def numeral_eq_Suc)
  have 1: "os_step (demo_os (Running (Sys (Close 4) (\<lambda>_. parent_read 3 2))) demo_pipe_fds ?z ev [])
      (demo_os (Running (parent_read 3 2)) ?fds ?z ?e1 [])"
    by (rule step_call [where i = 0 and k = "\<lambda>_. parent_read 3 2", OF _ _ closed [where r = 0 and fd = 4]])
      (simp_all add: demo_os_def os_defs f)
  have 2: "os_step (demo_os (Running (parent_read 3 2)) ?fds ?z ?e1 [])
      (demo_os (Running (parent_wait 2)) ?fds ?z ?e2 [])"
    by (rule step_call [where i = 0, OF _ trans [OF _ arg_cong [OF parent_read_code, of Running]]
          read_end [where n = 0]])
      (simp_all add: demo_os_def os_defs f has_end_def returned_def)
  let ?next = "if parent_says st \<noteq> 0 then Halt (Exit (int (parent_says st)))
         else Sys (Print ?msg) (\<lambda>_. Halt (Exit 0))"
  have ps: "WEXITSTATUS st = int (parent_says st)" "WIFEXITED st \<and> 0 < parent_says st \<longleftrightarrow> 0 < parent_says st"
    by (cases st; simp add: parent_says_def)+
  have 3: "os_step (demo_os (Running (parent_wait 2)) ?fds ?z ?e2 [])
      (demo_os (Running ?next) ?fds ?r ?e3 [])"
    by (rule step_call [where i = 0, OF _ trans [OF _ arg_cong [OF parent_wait_code, of Running]]
          waited [where j = 1 and st = st, OF _ _ refl]])
      (simp_all add: demo_os_def os_defs returned_def ps)
  have 4: "os_step (demo_os (Running (Halt (Exit (int n)))) ?fds ?r e out)
      (demo_os (Zombie (Exited n)) [] ?r e out)" if "n < 256" for n e out
    by (rule step_halt [where i = 0 and e = "Exit (int n)"]) (use that in \<open>simp_all add: demo_os_def os_defs\<close>)
  show ?thesis
  proof (cases "parent_says st = 0")
    case False
    have "os_step\<^sup>*\<^sup>* (demo_os (Running (Sys (Close 4) (\<lambda>_. parent_read 3 2))) demo_pipe_fds ?z ev [])
        (demo_os (Zombie (Exited (parent_says st))) [] ?r ?e3 [])"
      using 1 2 3 4 [OF assms, of ?e3 "[]"] False by (auto intro: converse_rtranclp_into_rtranclp)
    then show ?thesis
      by (intro exI [of _ "[(0, Close 4, returned 0), (0, Read 3 1, returned 0), (0, Waitpid 2, ?w)]"] exI [of _ "[]"])
        simp
  next
    case True
    let ?e4 = "?e3 @ [(0, Print ?msg, returned 0)]"
    have "os_step (demo_os (Running (Sys (Print ?msg) (\<lambda>_. Halt (Exit 0)))) ?fds ?r ?e3 [])
        (demo_os (Running (Halt (Exit (int 0)))) ?fds ?r ?e4 [?msg])"
      by (rule step_call [where i = 0 and k = "\<lambda>_. Halt (Exit 0)", OF _ _ printed [where r = 0 and line = ?msg]])
        (simp_all add: demo_os_def os_defs)
    then have "os_step\<^sup>*\<^sup>* (demo_os (Running (Sys (Close 4) (\<lambda>_. parent_read 3 2))) demo_pipe_fds ?z ev [])
        (demo_os (Zombie (Exited (parent_says st))) [] ?r ?e4 [?msg])"
      using 1 2 3 4 [of 0 ?e4 "[?msg]"] True by (auto intro: converse_rtranclp_into_rtranclp)
    then show ?thesis
      by (intro exI [of _ "[(0, Close 4, returned 0), (0, Read 3 1, returned 0), (0, Waitpid 2, ?w),
          (0, Print ?msg, returned 0)]"] exI [of _ "[?msg]"]) simp
  qed
qed

text \<open>The two children.\<close>

text \<open>The child has closed its end of the pipe and left the session.\<close>

definition demo_detached_events :: "(nat \<times> syscall \<times> answer) list" where
  "demo_detached_events = demo_start_events @ [(1, Close 3, returned 0), (1, Setsid, returned 0)]"

lemma demo_detaches:
  "os_step\<^sup>*\<^sup>* (boot demo_fds (and_then (daemonize_start b daemon_init) body))
     (demo_os (Running (Sys (Close 4) (\<lambda>_. parent_read 3 2))) demo_pipe_fds
        (demo_child (Running (body_prog body (daemon_init\<lparr>infrap4d_daemonize_fd := 4\<rparr>)))
           (demo_fds @ [None, Some (WriteEnd 0)]) True)
        demo_detached_events [])"
proof -
  let ?p = "Running (Sys (Close 4) (\<lambda>_. parent_read 3 2))" and ?b = "body_prog body (daemon_init\<lparr>infrap4d_daemonize_fd := 4\<rparr>)"
  let ?c = "Running (Sys (Close 3) (\<lambda>_. child_start body 4))"
  let ?fds = "demo_fds @ [None, Some (WriteEnd 0)]"
  let ?e1 = "demo_start_events @ [(1, Close 3, returned 0)]"
  have 1: "os_step (demo_os ?p demo_pipe_fds (demo_child ?c demo_pipe_fds False) demo_start_events [])
      (demo_os ?p demo_pipe_fds (demo_child (Running (child_start body 4)) ?fds False) ?e1 [])"
    by (rule step_call [where i = 1 and k = "\<lambda>_. child_start body 4", OF _ _ closed [where r = 0 and fd = 3]])
      (simp_all add: demo_os_def os_defs close_fd_def demo_fds_def numeral_eq_Suc)
  have 2: "os_step (demo_os ?p demo_pipe_fds (demo_child (Running (child_start body 4)) ?fds False) ?e1 [])
      (demo_os ?p demo_pipe_fds (demo_child (Running ?b) ?fds True) demo_detached_events [])"
    by (rule step_call [where i = 1 and c = Setsid and k = "\<lambda>_. ?b", OF _ _ session [where r = 0]])
      (simp_all add: demo_os_def os_defs child_start_def demo_detached_events_def)
  show ?thesis
    using demo_forks [of b body] 1 2 by (meson rtranclp.rtrancl_into_rtrancl)
qed

lemma demo_exits:
  assumes "n < 256"
  shows "\<exists>s. os_step\<^sup>*\<^sup>* (boot demo_fds (and_then (daemonize_start b daemon_init) (\<lambda>_. Return (int n)))) s \<and>
    got_child s \<and> status_of (os_procs s ! 0) = Some (Exited n)"
proof -
  let ?p = "Running (Sys (Close 4) (\<lambda>_. parent_read 3 2))" and ?body = "\<lambda>_. Return (int n)"
  let ?b = "body_prog ?body (daemon_init\<lparr>infrap4d_daemonize_fd := 4\<rparr>)"
  let ?fds = "demo_fds @ [None, Some (WriteEnd 0)]" and ?e2 = demo_detached_events
  have 3: "os_step (demo_os ?p demo_pipe_fds (demo_child (Running ?b) ?fds True) ?e2 [])
      (demo_os ?p demo_pipe_fds (demo_child (Zombie (Exited n)) [] True) ?e2 [])"
    by (rule step_halt [where i = 1 and e = "Exit (int n)"])
      (use assms in \<open>simp_all add: demo_os_def os_defs body_prog_def\<close>)
  obtain ev out where ev: "list_all (\<lambda>(i, c, a). i = 0 \<and> c \<noteq> Pipe \<and> c \<noteq> Fork) ev"
    "os_step\<^sup>*\<^sup>* (demo_os ?p demo_pipe_fds (demo_child (Zombie (Exited n)) [] True) ?e2 [])
      (demo_os (Zombie (Exited n)) [] (demo_child (Reaped (Exited n)) [] True) (?e2 @ ev) out)"
    using demo_hears [of "Exited n" True ?e2] assms by (auto simp: parent_says_def)
  have "os_step\<^sup>*\<^sup>* (boot demo_fds (and_then (daemonize_start b daemon_init) ?body))
      (demo_os (Zombie (Exited n)) [] (demo_child (Reaped (Exited n)) [] True) (?e2 @ ev) out)"
    using rtranclp_trans [OF demo_detaches [of b ?body] converse_rtranclp_into_rtranclp [OF 3 ev(2)]] .
  moreover have "got_child (demo_os (Zombie (Exited n)) [] (demo_child (Reaped (Exited n)) [] True) (?e2 @ ev) out)"
    using ev(1) by (auto simp: got_child_def demo_os_def demo_detached_events_def demo_start_events_def
        returned_def list_all_iff)
  ultimately show ?thesis by (force simp: demo_os_def status_of_def)
qed

lemma demo_killed:
  "\<exists>s. os_step\<^sup>*\<^sup>* (boot demo_fds (and_then (daemonize_start b daemon_init) body)) s \<and> got_child s \<and>
    \<not> notified s \<and> status_of (os_procs s ! 1) = Some (Signaled sig) \<and>
    status_of (os_procs s ! 0) = Some (Exited 0)"
proof -
  let ?p = "Running (Sys (Close 4) (\<lambda>_. parent_read 3 2))" and ?e = demo_start_events
  let ?c = "demo_child (Running (Sys (Close 3) (\<lambda>_. child_start body 4))) demo_pipe_fds False"
  let ?z = "demo_child (Zombie (Signaled sig)) [] False" and ?r = "demo_child (Reaped (Signaled sig)) [] False"
  have 1: "os_step (demo_os ?p demo_pipe_fds ?c ?e []) (demo_os ?p demo_pipe_fds ?z ?e [])"
    using os_step.kill [of "demo_os ?p demo_pipe_fds ?c ?e []" 1 _ sig] by (simp add: demo_os_def os_defs)
  obtain ev out where ev: "list_all (\<lambda>(i, c, a). i = 0 \<and> c \<noteq> Pipe \<and> c \<noteq> Fork) ev"
    "os_step\<^sup>*\<^sup>* (demo_os ?p demo_pipe_fds ?z ?e []) (demo_os (Zombie (Exited 0)) [] ?r (?e @ ev) out)"
    using demo_hears [of "Signaled sig" False ?e] by (auto simp: parent_says_def)
  have "os_step\<^sup>*\<^sup>* (boot demo_fds (and_then (daemonize_start b daemon_init) body))
      (demo_os (Zombie (Exited 0)) [] ?r (?e @ ev) out)"
    using rtranclp_trans [OF demo_forks [of b body] converse_rtranclp_into_rtranclp [OF 1 ev(2)]] .
  moreover have "got_child (demo_os (Zombie (Exited 0)) [] ?r (?e @ ev) out)"
    "\<not> notified (demo_os (Zombie (Exited 0)) [] ?r (?e @ ev) out)"
    using ev(1) by (auto simp: got_child_def notified_def written_def demo_os_def demo_start_events_def
        returned_def list_all_iff)
  ultimately show ?thesis by (force simp: demo_os_def status_of_def)
qed

section \<open>What the exit status says\<close>

lemma parent_inv_status:
  assumes "parent_inv body s" and "status_of (os_procs s ! 0) = Some (Exited n)"
  shows "says s n"
proof -
  have "parent_phase body s (os_procs s ! 0)" using assms(1) by (simp add: parent_inv_def)
  then show ?thesis using assms(2) by cases (auto simp: status_of_def)
qed

text \<open>C28: a program calls daemonize_start and goes on, in the child, with any body. If its first
  process got a pipe and a child and then exits, its status tells what became of the child: a
  status that is not zero is the exit status of the child; with status zero some other
  process has put a byte into the pipe that daemonize_start made, or the child has exited with
  zero or was ended by a signal. The library does not tell the last cases from the first.\<close>

theorem daemon_parent_status:
  assumes "os_step\<^sup>*\<^sup>* (boot fds (and_then (daemonize_start b daemon_init) body)) s" and "got_child s"
    and "status_of (os_procs s ! 0) = Some (Exited n)"
  shows "2 \<le> length (os_procs s) \<and> pr_parent (os_procs s ! 1) = 1 \<and>
    (n \<noteq> 0 \<longrightarrow> status_of (os_procs s ! 1) = Some (Exited n)) \<and>
    (n = 0 \<longrightarrow> (\<exists>j. j \<noteq> 0 \<and> written 0 j s) \<or> status_of (os_procs s ! 1) = Some (Exited 0) \<or>
      (\<exists>sig. status_of (os_procs s ! 1) = Some (Signaled sig)))"
  using parent_inv_status [OF parent_reachable [OF assms(1,2)] assms(3)]
  by (auto simp: says_def has_child_def notified_def child_failed_def)

theorem daemon_parent_status_witness:
  "\<exists>s. os_step\<^sup>*\<^sup>* (boot demo_fds (and_then (daemonize_start False daemon_init) (\<lambda>_. Return 3))) s \<and>
    status_of (os_procs s ! 0) = Some (Exited 3) \<and> status_of (os_procs s ! 1) = Some (Exited 3)"
proof -
  obtain s where s: "os_step\<^sup>*\<^sup>* (boot demo_fds (and_then (daemonize_start False daemon_init) (\<lambda>_. Return 3))) s"
    "got_child s" "status_of (os_procs s ! 0) = Some (Exited 3)"
    using demo_exits [of 3 False] by auto
  with daemon_parent_status [OF s] show ?thesis by auto
qed

text \<open>C29: infrap4d, and infrap4d_lite, started in detached mode: the process that was started can
  only exit with status zero, whatever becomes of the server, because the child reports
  its start before it starts the server. When it exits the child has reported or was ended
  by a signal.\<close>

theorem infrap4d_parent_status:
  assumes "os_step\<^sup>*\<^sup>* (boot fds m) s" and "m = infrap4d_main True d \<or> m = infrap4d_lite_main True"
    and "got_child s" and "plain_fds fds" and "status_of (os_procs s ! 0) = Some (Exited n)"
  shows "n = 0 \<and> ((\<exists>j. j \<noteq> 0 \<and> written 0 j s) \<or> (\<exists>sig. status_of (os_procs s ! 1) = Some (Signaled sig)))"
proof -
  obtain rest where "os_step\<^sup>*\<^sup>* (boot fds (and_then (daemonize_start False daemon_init) (completing rest))) s"
    using assms(1,2) infrap4d_main_eq by metis
  from start_reachable [OF this assms(3,4)] have inv: "start_inv rest s" .
  then have says: "says s n" using parent_inv_status assms(5) by (auto simp: start_inv_def)
  have "start_phase rest s" using inv by (simp add: start_inv_def)
  then show ?thesis
  proof cases
    case crashed
    then have "n = 0" using says by (auto simp: says_def dead_by_signal_def split: if_splits)
    with crashed show ?thesis by (simp add: dead_by_signal_def)
  next
    case two
    then show ?thesis using assms(5) busy_running by fastforce
  next
    case told
    then show ?thesis using assms(5) busy_running by fastforce
  qed (use assms(5) in \<open>simp_all add: status_of_def dead_by_signal_def notified_def\<close>)
qed

theorem infrap4d_parent_status_witness:
  "\<exists>s. os_step\<^sup>*\<^sup>* (boot demo_fds (infrap4d_main True False)) s \<and>
    status_of (os_procs s ! 0) = Some (Exited 0) \<and>
    ((\<exists>j. j \<noteq> 0 \<and> written 0 j s) \<or> (\<exists>sig. status_of (os_procs s ! 1) = Some (Signaled sig)))"
proof -
  have "plain_fds demo_fds" by (simp add: plain_fds_def demo_fds_def list_all_iff)
  moreover obtain s where s: "os_step\<^sup>*\<^sup>* (boot demo_fds (infrap4d_main True False)) s" "got_child s"
    "status_of (os_procs s ! 0) = Some (Exited 0)"
    using demo_killed [of False "completing (infrap4d_rest False)", folded infrap4d_main_eq(1)] by auto
  ultimately have "(\<exists>j. j \<noteq> 0 \<and> written 0 j s) \<or> (\<exists>sig. status_of (os_procs s ! 1) = Some (Signaled sig))"
    using infrap4d_parent_status [OF s(1) disjI1 [OF refl] s(2) _ s(3)] by simp
  with s show ?thesis by blast
qed

text \<open>A child of infrap4d that is ended by a signal, whichever, before it has reported its
  start goes unnoticed: there is a run in which the process that was started exits with
  status zero all the same.\<close>

lemma infrap4d_crash_unnoticed:
  "\<exists>s. os_step\<^sup>*\<^sup>* (boot demo_fds (infrap4d_main True d)) s \<and> got_child s \<and>
    \<not> (\<exists>j. j \<noteq> 0 \<and> written 0 j s) \<and> status_of (os_procs s ! 1) = Some (Signaled sig) \<and>
    status_of (os_procs s ! 0) = Some (Exited 0)"
  using demo_killed [of False "completing (infrap4d_rest d)" sig, folded infrap4d_main_eq(1)]
  by (simp add: notified_def)

section \<open>The start ends\<close>

text \<open>C30: without signals and interrupted calls, and when the pipe and the child can be made,
  every run of infrap4d in detached mode is over after at most 16 system calls and
  ends of processes; until the process that was started has exited there is always a next
  step, and it exits with status zero after the child has reported.\<close>

theorem infrap4d_start_ends:
  assumes "(quiet_step ^^ k) (boot fds (infrap4d_main True d)) s" and "plain_fds fds"
  shows "k \<le> 16 \<and> (status_of (os_procs s ! 0) = None \<longrightarrow> (\<exists>s'. quiet_step s s')) \<and>
    (\<exists>s'. quiet_step\<^sup>*\<^sup>* s s' \<and> status_of (os_procs s' ! 0) = Some (Exited 0) \<and> (\<exists>j. j \<noteq> 0 \<and> written 0 j s'))"
proof -
  have inv: "quiet_inv d s"
    using quiet.run_inv [OF relpowp_imp_rtranclp [OF assms(1)] quiet_boot(1) [OF assms(2)]] .
  have "k \<le> 16"
    using quiet.run_length [OF assms(1) quiet_boot(1) [OF assms(2)]] quiet_boot(2) [OF assms(2), of d] by simp
  moreover have "status_of (os_procs s ! 0) = None \<Longrightarrow> \<exists>s'. quiet_step s s'"
    using quiet.progress [OF inv] by simp
  moreover obtain s' where s': "quiet_step\<^sup>*\<^sup>* s s'" "status_of (os_procs s' ! 0) \<noteq> None"
    using quiet.can_finish [OF inv] by blast
  then have "status_of (os_procs s' ! 0) = Some (Exited 0)" "notified s'"
    using quiet_over [OF quiet.run_inv [OF s'(1) inv] s'(2)] by simp_all
  ultimately show ?thesis using s'(1) by (auto simp: notified_def)
qed

theorem infrap4d_start_ends_witness:
  "\<exists>s'. quiet_step\<^sup>*\<^sup>* (boot demo_fds (infrap4d_main True True)) s' \<and>
    status_of (os_procs s' ! 0) = Some (Exited 0) \<and> (\<exists>j. j \<noteq> 0 \<and> written 0 j s')"
proof -
  have "plain_fds demo_fds" by (simp add: plain_fds_def demo_fds_def list_all_iff)
  moreover have "(quiet_step ^^ 0) (boot demo_fds (infrap4d_main True True)) (boot demo_fds (infrap4d_main True True))"
    by simp
  ultimately show ?thesis using infrap4d_start_ends by blast
qed

section \<open>The standard descriptors\<close>

text \<open>A process in the middle of a run in which nothing failed, and its next call.\<close>

definition runs_at :: "os \<Rightarrow> nat \<Rightarrow> unit prog \<Rightarrow> fd_table \<Rightarrow> bool" where
  "runs_at s i m fds \<longleftrightarrow> running s i m \<and> pr_fds (os_procs s ! i) = fds \<and>
     list_all (\<lambda>(j, c, a). worked c a) (os_events s)"

lemma runs_at_call:
  assumes "os_step\<^sup>*\<^sup>* s0 s" and "runs_at s i (Sys c k) fds"
    and "kernel s i (os_procs s ! i) c a p' s1" and "worked c a"
  shows "\<exists>s'. os_step\<^sup>*\<^sup>* s0 s' \<and> runs_at s' i (k a) (pr_fds p')"
proof -
  let ?s = "log_event i c a (put_proc i (p'\<lparr>pr_state := Running (k a)\<rparr>) s1)"
  have "os_step s ?s"
    using assms(2,3) by (intro step_call [of i s c k]) (simp_all add: runs_at_def running_def)
  with assms(1) have "os_step\<^sup>*\<^sup>* s0 ?s" by simp
  moreover have "runs_at ?s i (k a) (pr_fds p')"
    using assms kernel_others [OF assms(3)] kernel_events [OF assms(3)] by (simp add: runs_at_def os_defs)
  ultimately show ?thesis by blast
qed

lemma runs_at_dup2:
  assumes "os_step\<^sup>*\<^sup>* s0 s" and at: "runs_at s i (Sys (Dup2 old (int new)) (\<lambda>_. m)) fds"
    and "file_at fds old = Some f"
  shows "\<exists>s'. os_step\<^sup>*\<^sup>* s0 s' \<and> runs_at s' i m (put_fd new f fds)"
proof -
  have "kernel s i (os_procs s ! i) (Dup2 old (int new)) (returned (int new))
      ((os_procs s ! i)\<lparr>pr_fds := put_fd (nat (int new)) f (pr_fds (os_procs s ! i))\<rparr>) s"
    using at assms(3) by (intro duplicated) (simp_all add: runs_at_def)
  from runs_at_call [OF assms(1) at this] at show ?thesis by (auto simp: returned_def runs_at_def)
qed

text \<open>C31: whatever the order of the steps, and whatever descriptors the process was started with:
  when a process of infrap4d or infrap4d_lite in detached mode is about to start the server
  its descriptors 0, 1 and 2 lead to \<^verbatim>\<open>/dev/null\<close>, also where there was no second process,
  provided that no attempt to open or to duplicate a descriptor has failed. The daemon library
  ignores such a failure.\<close>

theorem infrap4d_standard_fds:
  assumes "os_step\<^sup>*\<^sup>* (boot fds m) s" and "m = infrap4d_main True d \<or> m = infrap4d_lite_main True"
    and "running s i (Sys StratumMain k)" and "list_all (\<lambda>(j, c, a). worked c a) (os_events s)"
  shows "map (file_at (pr_fds (os_procs s ! i))) [0, 1, 2] = replicate 3 (Some DevNull)"
  using standard_fds [OF assms] by (simp add: std_null_def numeral_eq_Suc)

lemma demo_reports:
  "\<exists>s. os_step\<^sup>*\<^sup>* (boot demo_fds (infrap4d_main True d)) s \<and>
    runs_at s 1 (child_done (infrap4d_rest d) 4) (demo_fds @ [None, Some (WriteEnd 0)])"
proof -
  let ?fds = "demo_fds @ [None, Some (WriteEnd 0)]" and ?rest = "infrap4d_rest d"
  let ?s = "demo_os (Running (Sys (Close 4) (\<lambda>_. parent_read 3 2))) demo_pipe_fds
    (demo_child (Running (child_notify ?rest 4)) ?fds True) demo_detached_events []"
  have "os_step\<^sup>*\<^sup>* (boot demo_fds (infrap4d_main True d)) ?s"
    unfolding infrap4d_main_eq child_notify_def by (rule demo_detaches)
  moreover have "runs_at ?s 1 (child_notify ?rest 4) ?fds"
    by (simp add: runs_at_def running_def demo_os_def demo_detached_events_def demo_start_events_def)
  moreover have "kernel ?s 1 (os_procs ?s ! 1) (Write 4 [NUL]) (returned (int 1)) (os_procs ?s ! 1)
      (put_pipe 0 (os_pipes ?s ! 0 @ take 1 [NUL]) (?s\<lparr>os_writes := os_writes ?s @ [(1, 0)]\<rparr>))"
    by (intro write_pipe) (simp_all add: demo_os_def file_at_def has_end_def demo_fds_def numeral_eq_Suc)
  ultimately show ?thesis
    using runs_at_call [of _ ?s 1 "Write 4 [NUL]" _ ?fds "returned (int 1)"]
    by (fastforce simp: child_notify_code returned_def runs_at_def)
qed

lemma demo_child_calls:
  "\<exists>k m. child_done (infrap4d_rest True) 4 = Sys (Open ''/dev/null'') k \<and>
    k (returned (int 3)) = Sys (Dup2 3 (int 0)) (\<lambda>_. Sys (Dup2 3 (int 1)) (\<lambda>_. Sys (Dup2 3 (int 2))
      (\<lambda>_. Sys StratumMain m)))"
  by (simp add: child_done_def daemonize_post_detach_def daemon_close_standard_fds_def get_null_fd_def
      daemon_init_def returned_def body_prog_def infrap4d_rest_def stratum_main_def) (rule exI, rule refl)

theorem infrap4d_standard_fds_witness:
  "\<exists>s k. os_step\<^sup>*\<^sup>* (boot demo_fds (infrap4d_main True True)) s \<and> running s 1 (Sys StratumMain k) \<and>
    map (file_at (pr_fds (os_procs s ! 1))) [0, 1, 2] = replicate 3 (Some DevNull)"
proof -
  let ?s0 = "boot demo_fds (infrap4d_main True True)" and ?fds = "demo_fds @ [None, Some (WriteEnd 0)]"
  let ?fds3 = "put_fd 3 DevNull ?fds"
  obtain k m where k: "child_done (infrap4d_rest True) 4 = Sys (Open ''/dev/null'') k"
    "k (returned (int 3)) = Sys (Dup2 3 (int 0)) (\<lambda>_. Sys (Dup2 3 (int 1)) (\<lambda>_. Sys (Dup2 3 (int 2))
      (\<lambda>_. Sys StratumMain m)))"
    using demo_child_calls by blast
  obtain s where s: "os_step\<^sup>*\<^sup>* ?s0 s" "runs_at s 1 (Sys (Open ''/dev/null'') k) ?fds"
    using demo_reports [of True] k(1) by auto
  have "kernel s 1 (os_procs s ! 1) (Open ''/dev/null'') (returned (int 3))
      ((os_procs s ! 1)\<lparr>pr_fds := put_fd 3 DevNull (pr_fds (os_procs s ! 1))\<rparr>) s"
    using s(2) opened [of 3 "os_procs s ! 1" s 1 "''/dev/null''"]
    by (simp add: runs_at_def lowest_fd_def demo_fds_def numeral_eq_Suc)
  from runs_at_call [OF s this] obtain s3 where s3: "os_step\<^sup>*\<^sup>* ?s0 s3" "runs_at s3 1 (k (returned (int 3))) ?fds3"
    using s(2) by (auto simp: runs_at_def returned_def)
  have null: "file_at ?fds3 3 = Some DevNull" using file_at_put_other(1) [of 3] by simp
  note kept = file_at_put_other(2)
  obtain s4 where "os_step\<^sup>*\<^sup>* ?s0 s4"
    "runs_at s4 1 (Sys StratumMain m) (put_fd 2 DevNull (put_fd 1 DevNull (put_fd 0 DevNull ?fds3)))"
    using runs_at_dup2 [OF s3 [unfolded k(2)] null] runs_at_dup2 [OF _ _ kept [OF null]]
      runs_at_dup2 [OF _ _ kept [OF kept [OF null]]] by blast
  then have "os_step\<^sup>*\<^sup>* ?s0 s4" "running s4 1 (Sys StratumMain m)"
    "list_all (\<lambda>(j, c, a). worked c a) (os_events s4)"
    by (simp_all add: runs_at_def)
  with infrap4d_standard_fds [where m = "infrap4d_main True True" and d = True and i = 1 and k = m] show ?thesis
    by blast
qed

section \<open>Completing twice\<close>

lemma post_detach_vars:
  assumes "infrap4d_detached v" and "infrap4d_pidfile v = None"
  shows "and_then (daemonize_post_detach v) daemonize_complete = daemonize_post_detach v"
proof -
  have c: "daemonize_complete u = Return u" if "infrap4d_detached u" "infrap4d_pidfile u = None" for u
    using that by (simp add: daemonize_complete_def Let_def)
  have "and_then (replace_fds n js u) daemonize_complete = replace_fds n js u"
    if "infrap4d_detached u" "infrap4d_pidfile u = None" for n js u
    using that by (induction n js u rule: replace_fds.induct) (auto simp: c)
  with assms c show ?thesis
    by (auto simp: daemonize_post_detach_def daemon_close_standard_fds_def get_null_fd_def Let_def
        and_then_assoc if_and_then fun_eq_iff)
qed

text \<open>Calling daemonize_complete more than once has no additional effect: two calls are the
  same program as one, from any values of the variables.\<close>

lemma daemonize_complete_once:
  "and_then (daemonize_complete v) daemonize_complete = daemonize_complete v"
proof (cases "infrap4d_detached v")
  case True
  then show ?thesis by (simp add: daemonize_complete_def Let_def)
next
  case False
  have "and_then (daemonize_post_detach u) daemonize_complete = daemonize_post_detach u"
    if "u = v\<lparr>infrap4d_pidfile := None, infrap4d_detached := True\<rparr>" for u
    using that post_detach_vars [of u] by simp
  moreover have "daemonize_complete v = and_then (fork_notify_startup (infrap4d_daemonize_fd v))
      (\<lambda>_. daemonize_post_detach (v\<lparr>infrap4d_pidfile := None, infrap4d_detached := True\<rparr>))"
    using False by (simp add: daemonize_complete_def Let_def)
  ultimately show ?thesis by (simp add: and_then_assoc)
qed

end
