(* ===== verification/V1_Utils.thy ===== *)
theory V1_Utils
  imports Ip_Mac_Map_Entry
begin

text \<open>
  \<^verbatim>\<open>core/v1/ovsp4rt.cc\<close>: the byte encoders, the lookups in the pipeline description and the
  other small functions that the file has for itself, and that later versions share in
  \<^verbatim>\<open>core/common\<close> and \<^verbatim>\<open>core/api\<close>. The collection \<open>v1_utils\<close> says that they are the same.
\<close>

definition v1_tunnel_v6_param_name :: "string list" where
  "v1_tunnel_v6_param_name =
     [ACTION_SET_TUNNEL_V6_PARAM_IPV6_1, ACTION_SET_TUNNEL_V6_PARAM_IPV6_2,
      ACTION_SET_TUNNEL_V6_PARAM_IPV6_3, ACTION_SET_TUNNEL_V6_PARAM_IPV6_4]"

fun v1_EncodeByteValue :: "nat \<Rightarrow> u32 list \<Rightarrow> bytes" where
  "v1_EncodeByteValue (Suc arg_count) (arg # args) = ucast arg # v1_EncodeByteValue arg_count args"
| "v1_EncodeByteValue _ _ = []"

definition v1_EncodeTunnelId :: "u32 \<Rightarrow> bytes" where
  "v1_EncodeTunnelId vni = v1_EncodeByteValue 3
     [drop_bit 16 vni AND 0x0F, drop_bit 8 vni AND 0xFF, vni AND 0xFF]"

definition v1_EncodeVniValue :: "u32 \<Rightarrow> bytes" where
  "v1_EncodeVniValue vni = v1_EncodeByteValue 3
     [drop_bit 16 vni AND 0xFF, drop_bit 8 vni AND 0xFF, vni AND 0xFF]"

definition v1_CanonicalizeIp :: "u32 \<Rightarrow> bytes" where
  "v1_CanonicalizeIp ipv4addr = v1_EncodeByteValue 4
     [ipv4addr AND 0xff, drop_bit 8 ipv4addr AND 0xff,
      drop_bit 16 ipv4addr AND 0xff, drop_bit 24 ipv4addr AND 0xff]"

definition v1_CanonicalizeIpv6 :: "u128 \<Rightarrow> bytes" where
  "v1_CanonicalizeIpv6 a = v1_EncodeByteValue 16
     [ucast (u6_addr8 a 0), ucast (u6_addr8 a 1), ucast (u6_addr8 a 2), ucast (u6_addr8 a 3),
      ucast (u6_addr8 a 4), ucast (u6_addr8 a 5), ucast (u6_addr8 a 6), ucast (u6_addr8 a 7),
      ucast (u6_addr8 a 8), ucast (u6_addr8 a 9), ucast (u6_addr8 a 10), ucast (u6_addr8 a 11),
      ucast (u6_addr8 a 12), ucast (u6_addr8 a 13), ucast (u6_addr8 a 14), ucast (u6_addr8 a 15)]"

definition v1_CanonicalizeMac :: "mac_addr \<Rightarrow> bytes" where
  "v1_CanonicalizeMac mac = v1_EncodeByteValue 6
     [ucast (mac0 mac) AND 0xff, ucast (mac1 mac) AND 0xff, ucast (mac2 mac) AND 0xff,
      ucast (mac3 mac) AND 0xff, ucast (mac4 mac) AND 0xff, ucast (mac5 mac) AND 0xff]"

text \<open>The two ways in which the encoders write a port.\<close>

definition v1_encode_port16 :: "u16 \<Rightarrow> bytes" where
  "v1_encode_port16 p = v1_EncodeByteValue 2 [ucast (drop_bit 8 p) AND 0xff, ucast p AND 0xff]"

definition v1_encode_port32 :: "u32 \<Rightarrow> bytes" where
  "v1_encode_port32 p = v1_EncodeByteValue 2 [drop_bit 8 p AND 0xff, p AND 0xff]"

fun v1_GetTableId_loop :: "P4Table list \<Rightarrow> string \<Rightarrow> u32" where
  "v1_GetTableId_loop [] t_name = -1"
| "v1_GetTableId_loop (table # tables) t_name =
     (let pre = tbl_preamble table in
      if pre_name pre = t_name then pre_id pre else v1_GetTableId_loop tables t_name)"

definition v1_GetTableId :: "P4Info \<Rightarrow> string \<Rightarrow> u32" where
  "v1_GetTableId p4info t_name = v1_GetTableId_loop (pi_tables p4info) t_name"

fun v1_GetActionId_loop :: "P4Action list \<Rightarrow> string \<Rightarrow> u32" where
  "v1_GetActionId_loop [] a_name = -1"
| "v1_GetActionId_loop (action # actions) a_name =
     (let pre = pact_preamble action in
      if pre_name pre = a_name then pre_id pre else v1_GetActionId_loop actions a_name)"

definition v1_GetActionId :: "P4Info \<Rightarrow> string \<Rightarrow> u32" where
  "v1_GetActionId p4info a_name = v1_GetActionId_loop (pi_actions p4info) a_name"

fun v1_find_id :: "NamedId list \<Rightarrow> string \<Rightarrow> u32 option" where
  "v1_find_id [] name = None"
| "v1_find_id (x # xs) name = (if ni_name x = name then Some (ni_id x) else v1_find_id xs name)"

fun v1_GetParamId_loop :: "P4Action list \<Rightarrow> string \<Rightarrow> string \<Rightarrow> u32" where
  "v1_GetParamId_loop [] a_name param_name = -1"
| "v1_GetParamId_loop (action # actions) a_name param_name =
     (let pre = pact_preamble action in
      if pre_name pre \<noteq> a_name then v1_GetParamId_loop actions a_name param_name
      else (case v1_find_id (pact_params action) param_name of
              Some i \<Rightarrow> i
            | None \<Rightarrow> v1_GetParamId_loop actions a_name param_name))"

definition v1_GetParamId :: "P4Info \<Rightarrow> string \<Rightarrow> string \<Rightarrow> u32" where
  "v1_GetParamId p4info a_name param_name = v1_GetParamId_loop (pi_actions p4info) a_name param_name"

fun v1_GetMatchFieldId_loop :: "P4Table list \<Rightarrow> string \<Rightarrow> string \<Rightarrow> u32" where
  "v1_GetMatchFieldId_loop [] t_name mf_name = -1"
| "v1_GetMatchFieldId_loop (table # tables) t_name mf_name =
     (let pre = tbl_preamble table in
      if pre_name pre \<noteq> t_name then v1_GetMatchFieldId_loop tables t_name mf_name
      else (case v1_find_id (tbl_match_fields table) mf_name of
              Some i \<Rightarrow> i
            | None \<Rightarrow> v1_GetMatchFieldId_loop tables t_name mf_name))"

definition v1_GetMatchFieldId :: "P4Info \<Rightarrow> string \<Rightarrow> string \<Rightarrow> u32" where
  "v1_GetMatchFieldId p4info t_name mf_name = v1_GetMatchFieldId_loop (pi_tables p4info) t_name mf_name"

definition v1_ValidIpAddr :: "u32 \<Rightarrow> bool" where
  "v1_ValidIpAddr nw_addr \<longleftrightarrow>
     nw_addr \<noteq> 0 \<and> nw_addr \<noteq> INADDR_ANY \<and> nw_addr \<noteq> INADDR_LOOPBACK \<and> nw_addr \<noteq> 0xffffffff"

definition v1_ovsp4rt_str_to_tunnel_type :: "string option \<Rightarrow> u8" where
  "v1_ovsp4rt_str_to_tunnel_type tnl_type =
     (case tnl_type of
        Some s \<Rightarrow> if s = ''vxlan'' then OVS_TUNNEL_VXLAN
                  else if s = ''geneve'' then OVS_TUNNEL_GENEVE
                  else OVS_TUNNEL_UNKNOWN
      | None \<Rightarrow> OVS_TUNNEL_UNKNOWN)"

section \<open>The functions are those that later versions share\<close>

lemma v1_EncodeByteValue_eq: "v1_EncodeByteValue = EncodeByteValue"
proof (intro ext)
  fix n args
  show "v1_EncodeByteValue n args = EncodeByteValue n args"
    by (induction n args rule: EncodeByteValue.induct) simp_all
qed

lemma v1_byte_encoders:
  "v1_EncodeTunnelId = EncodeTunnelId"
  "v1_EncodeVniValue = EncodeVniValue"
  "v1_CanonicalizeIp = CanonicalizeIp"
  "v1_CanonicalizeIpv6 = CanonicalizeIpv6"
  "v1_CanonicalizeMac = CanonicalizeMac"
  "v1_encode_port16 = encode_port16"
  "v1_encode_port32 = encode_port32"
  by (intro ext, simp only: v1_EncodeByteValue_eq v1_EncodeTunnelId_def EncodeTunnelId_def
      v1_EncodeVniValue_def EncodeVniValue_def
      v1_CanonicalizeIp_def CanonicalizeIp_def
      v1_CanonicalizeIpv6_def CanonicalizeIpv6_def
      v1_CanonicalizeMac_def CanonicalizeMac_def
      v1_encode_port16_def encode_port16_def
      v1_encode_port32_def encode_port32_def)+

lemma v1_find_id_eq: "v1_find_id xs name = find_id xs name"
  by (induction xs) simp_all

lemma v1_lookup_loops:
  "v1_GetTableId_loop tables t_name = GetTableId_loop tables t_name"
  "v1_GetActionId_loop actions a_name = GetActionId_loop actions a_name"
  "v1_GetParamId_loop actions a_name param_name = GetParamId_loop actions a_name param_name"
  "v1_GetMatchFieldId_loop tables t_name mf_name = GetMatchFieldId_loop tables t_name mf_name"
  by (induction tables, simp_all add: Let_def v1_find_id_eq split: option.split)
    (induction actions, simp_all add: Let_def v1_find_id_eq split: option.split)+

lemma v1_lookups:
  "v1_GetTableId = GetTableId"
  "v1_GetActionId = GetActionId"
  "v1_GetParamId = GetParamId"
  "v1_GetMatchFieldId = GetMatchFieldId"
  by (intro ext, simp only: v1_lookup_loops v1_GetTableId_def GetTableId_def
      v1_GetActionId_def GetActionId_def
      v1_GetParamId_def GetParamId_def
      v1_GetMatchFieldId_def GetMatchFieldId_def)+

lemma v1_small_functions:
  "v1_tunnel_v6_param_name = tunnel_v6_param_name"
  "v1_ValidIpAddr = ValidIpAddr"
  "v1_ovsp4rt_str_to_tunnel_type = ovsp4rt_str_to_tunnel_type"
  by (simp_all add: v1_tunnel_v6_param_name_def tunnel_v6_param_name_def v1_ValidIpAddr_def
      ValidIpAddr_def v1_ovsp4rt_str_to_tunnel_type_def ovsp4rt_str_to_tunnel_type_def fun_eq_iff)

lemmas v1_utils = v1_EncodeByteValue_eq v1_byte_encoders v1_lookups v1_small_functions

end
