(* ===== verification/V1_Encoders.thy ===== *)
theory V1_Encoders
  imports V1_Utils Es2k_Tunnel_Entry Dpdk_Entries
begin

text \<open>
  \<^verbatim>\<open>core/v1/ovsp4rt.cc\<close>, the core that is built by default: its encoders and the Prepare
  functions that choose among them, in the order of the file. Most of them have the text of
  the functions of \<^verbatim>\<open>core/v3\<close> with the same names; the FDB encoders of the transmit table
  spell out the match fields that \<^verbatim>\<open>core/v3\<close> has moved into
  \<open>EncodeL2FwdTxTablePrologue\<close>. A function with branches for both targets is two
  definitions, the one for DPDK with the prefix \<open>v1_dpdk_\<close>. The byte encoders and the
  lookups of the file are in \<open>V1_Utils\<close>.

  The collection \<open>v1_encoders\<close> says that every one of them is the function of \<^verbatim>\<open>core/v3\<close>.
\<close>

section \<open>Encoders\<close>

definition v1_EncodeFdbSmacTableEntry ::
    "TableEntry \<Rightarrow> mac_learning_info \<Rightarrow> P4Info \<Rightarrow> bool \<Rightarrow>
     DiagDetail \<Rightarrow> TableEntry \<times> DiagDetail" where
  "v1_EncodeFdbSmacTableEntry table_entry learn_info p4info insert_entry detail =
     (let te = set_table_id (v1_GetTableId p4info L2_FWD_SMAC_TABLE) table_entry;
          te = add_exact (v1_GetMatchFieldId p4info L2_FWD_SMAC_TABLE
             L2_FWD_SMAC_TABLE_KEY_SA) (v1_CanonicalizeMac (ml_mac_addr learn_info)) te;
          te = add_exact (v1_GetMatchFieldId p4info L2_FWD_SMAC_TABLE
             L2_FWD_SMAC_TABLE_KEY_BRIDGE_ID)
             (v1_EncodeByteValue 1 [ucast (ml_bridge_id learn_info)]) te
      in ((if insert_entry then
           (let te = mutable_action te;
                te = set_action_id (v1_GetActionId p4info L2_FWD_SMAC_TABLE_ACTION_NO_ACTION) te
            in te)
         else te),
          detail\<lparr>dd_table_id := LOG_L2_FWD_SMAC_TABLE\<rparr>))"

definition v1_EncodeFdbTxVlanTableEntry ::
    "TableEntry \<Rightarrow> mac_learning_info \<Rightarrow> P4Info \<Rightarrow> bool \<Rightarrow>
     DiagDetail \<Rightarrow> TableEntry \<times> DiagDetail" where
  "v1_EncodeFdbTxVlanTableEntry table_entry learn_info p4info insert_entry detail =
     (let te = set_table_id (v1_GetTableId p4info L2_FWD_TX_TABLE) table_entry;
          te = add_exact (v1_GetMatchFieldId p4info L2_FWD_TX_TABLE
             L2_FWD_TX_TABLE_KEY_DST_MAC) (v1_CanonicalizeMac (ml_mac_addr learn_info)) te;
          te = add_exact (v1_GetMatchFieldId p4info L2_FWD_TX_TABLE
             L2_FWD_TX_TABLE_KEY_BRIDGE_ID)
             (v1_EncodeByteValue 1 [ucast (ml_bridge_id learn_info)]) te
      in ((if insert_entry then
           (let te = mutable_action te
            in if pv_mode (ml_vlan_info learn_info) = P4_PORT_VLAN_NATIVE_UNTAGGED then
                 (let te = set_action_id
                        (v1_GetActionId p4info L2_FWD_TX_TABLE_ACTION_REMOVE_VLAN_AND_FWD) te;
                      te = add_param (v1_GetParamId p4info L2_FWD_TX_TABLE_ACTION_REMOVE_VLAN_AND_FWD
                               ACTION_REMOVE_VLAN_AND_FWD_PARAM_PORT_ID)
                             (v1_EncodeByteValue 1 [ml_src_port learn_info]) te;
                      te = add_param (v1_GetParamId p4info L2_FWD_TX_TABLE_ACTION_REMOVE_VLAN_AND_FWD
                               ACTION_REMOVE_VLAN_AND_FWD_PARAM_VLAN_PTR)
                             (v1_EncodeByteValue 1 [pv_vlan (ml_vlan_info learn_info)]) te
                  in te)
               else
                 (let te = set_action_id (v1_GetActionId p4info L2_FWD_TX_TABLE_ACTION_L2_FWD) te;
                      te = add_param (v1_GetParamId p4info L2_FWD_TX_TABLE_ACTION_L2_FWD
                               ACTION_L2_FWD_PARAM_PORT)
                             (v1_EncodeByteValue 1 [ml_src_port learn_info]) te
                  in te))
         else te),
          detail\<lparr>dd_table_id := LOG_L2_FWD_TX_TABLE\<rparr>))"

definition v1_dpdk_EncodeFdbTxVlanTableEntry ::
    "TableEntry \<Rightarrow> mac_learning_info \<Rightarrow> P4Info \<Rightarrow> bool \<Rightarrow>
     DiagDetail \<Rightarrow> TableEntry \<times> DiagDetail" where
  "v1_dpdk_EncodeFdbTxVlanTableEntry table_entry learn_info p4info insert_entry detail =
     (let te = set_table_id (v1_GetTableId p4info DPDK_L2_FWD_TX_TABLE) table_entry;
          te = add_exact
             (v1_GetMatchFieldId p4info DPDK_L2_FWD_TX_TABLE DPDK_L2_FWD_TX_TABLE_KEY_DST_MAC)
             (v1_CanonicalizeMac (ml_mac_addr learn_info)) te
      in ((if insert_entry then
           (let te = mutable_action te;
                te = set_action_id (v1_GetActionId p4info DPDK_L2_FWD_TX_TABLE_ACTION_L2_FWD) te;
                port_id = vi_vlan_id (ml_vln_info learn_info) - 1;
                te = add_param (v1_GetParamId p4info DPDK_L2_FWD_TX_TABLE_ACTION_L2_FWD
                         DPDK_ACTION_L2_FWD_PARAM_PORT)
                       (v1_EncodeByteValue 1 [port_id]) te
            in te)
         else te),
          detail\<lparr>dd_table_id := LOG_L2_FWD_TX_TABLE\<rparr>))"

definition v1_EncodeFdbRxVlanTableEntry ::
    "TableEntry \<Rightarrow> mac_learning_info \<Rightarrow> P4Info \<Rightarrow> bool \<Rightarrow>
     DiagDetail \<Rightarrow> TableEntry \<times> DiagDetail" where
  "v1_EncodeFdbRxVlanTableEntry table_entry learn_info p4info insert_entry detail =
     (let te = set_table_id (v1_GetTableId p4info L2_FWD_RX_TABLE) table_entry;
          te = add_exact (v1_GetMatchFieldId p4info L2_FWD_RX_TABLE
             L2_FWD_RX_TABLE_KEY_DST_MAC) (v1_CanonicalizeMac (ml_mac_addr learn_info)) te;
          te = add_exact (v1_GetMatchFieldId p4info L2_FWD_RX_TABLE
             L2_FWD_RX_TABLE_KEY_BRIDGE_ID)
             (v1_EncodeByteValue 1 [ucast (ml_bridge_id learn_info)]) te
      in ((if insert_entry then
           (let te = mutable_action te;
                te = set_action_id (v1_GetActionId p4info L2_FWD_RX_TABLE_ACTION_L2_FWD) te;
                te = add_param (v1_GetParamId p4info L2_FWD_RX_TABLE_ACTION_L2_FWD
                         ACTION_L2_FWD_PARAM_PORT)
                       (v1_EncodeByteValue 1 [ml_rx_src_port learn_info]) te
            in te)
         else te),
          detail\<lparr>dd_table_id := LOG_L2_FWD_RX_TABLE\<rparr>))"

definition v1_dpdk_EncodeFdbRxVlanTableEntry ::
    "TableEntry \<Rightarrow> mac_learning_info \<Rightarrow> P4Info \<Rightarrow> bool \<Rightarrow>
     DiagDetail \<Rightarrow> TableEntry \<times> DiagDetail" where
  "v1_dpdk_EncodeFdbRxVlanTableEntry table_entry learn_info p4info insert_entry detail =
     (let te = set_table_id (v1_GetTableId p4info DPDK_L2_FWD_RX_WITH_TUNNEL_TABLE) table_entry;
          te = add_exact
             (v1_GetMatchFieldId p4info DPDK_L2_FWD_RX_WITH_TUNNEL_TABLE
                DPDK_L2_FWD_TX_TABLE_KEY_DST_MAC)
             (v1_CanonicalizeMac (ml_mac_addr learn_info)) te
      in ((if insert_entry then
           (let te = mutable_action te;
                te = set_action_id (v1_GetActionId p4info DPDK_L2_FWD_TX_TABLE_ACTION_L2_FWD) te;
                port_id = vi_vlan_id (ml_vln_info learn_info) - 1;
                te = add_param (v1_GetParamId p4info DPDK_L2_FWD_RX_TABLE_ACTION_L2_FWD
                         DPDK_ACTION_L2_FWD_PARAM_PORT)
                       (v1_EncodeByteValue 1 [port_id]) te
            in te)
         else te),
          detail\<lparr>dd_table_id := LOG_L2_FWD_RX_WITH_TUNNEL_TABLE\<rparr>))"

definition v1_EncodeFdbTableEntryforV4VxlanTunnel ::
    "TableEntry \<Rightarrow> mac_learning_info \<Rightarrow> P4Info \<Rightarrow> bool \<Rightarrow>
     DiagDetail \<Rightarrow> TableEntry \<times> DiagDetail" where
  "v1_EncodeFdbTableEntryforV4VxlanTunnel table_entry learn_info p4info insert_entry detail =
     (let te = set_table_id (v1_GetTableId p4info L2_FWD_TX_TABLE) table_entry;
          te = add_exact (v1_GetMatchFieldId p4info L2_FWD_TX_TABLE
             L2_FWD_TX_TABLE_KEY_DST_MAC) (v1_CanonicalizeMac (ml_mac_addr learn_info)) te;
          te = add_exact (v1_GetMatchFieldId p4info L2_FWD_TX_TABLE
             L2_FWD_TX_TABLE_KEY_BRIDGE_ID)
             (v1_EncodeByteValue 1 [ucast (ml_bridge_id learn_info)]) te
      in ((if insert_entry then
           (let te = mutable_action te
            in if ip_family (ti_local_ip (ml_tnl_info learn_info)) = AF_INET \<and>
                  ip_family (ti_remote_ip (ml_tnl_info learn_info)) = AF_INET then
                 (if pv_mode (ml_vlan_info learn_info) = P4_PORT_VLAN_NATIVE_UNTAGGED then
                    (let te = set_action_id
                           (v1_GetActionId p4info L2_FWD_TX_TABLE_ACTION_POP_VLAN_SET_VXLAN_UNDERLAY_V4) te;
                         te = add_param (v1_GetParamId p4info L2_FWD_TX_TABLE_ACTION_POP_VLAN_SET_VXLAN_UNDERLAY_V4
                                  ACTION_PARAM_TUNNEL_ID)
                                (v1_EncodeTunnelId (ti_vni (ml_tnl_info learn_info))) te
                     in te)
                  else
                    (let te = set_action_id
                           (v1_GetActionId p4info L2_FWD_TX_TABLE_ACTION_SET_VXLAN_UNDERLAY_V4) te;
                         te = add_param (v1_GetParamId p4info L2_FWD_TX_TABLE_ACTION_SET_VXLAN_UNDERLAY_V4
                                  ACTION_PARAM_TUNNEL_ID)
                                (v1_EncodeTunnelId (ti_vni (ml_tnl_info learn_info))) te
                     in te))
               else if ip_family (ti_local_ip (ml_tnl_info learn_info)) = AF_INET6 \<and>
                  ip_family (ti_remote_ip (ml_tnl_info learn_info)) = AF_INET6 then
                 (if pv_mode (ml_vlan_info learn_info) = P4_PORT_VLAN_NATIVE_UNTAGGED then
                    (let te = set_action_id
                           (v1_GetActionId p4info L2_FWD_TX_TABLE_ACTION_POP_VLAN_SET_VXLAN_UNDERLAY_V6) te;
                         te = add_param (v1_GetParamId p4info L2_FWD_TX_TABLE_ACTION_POP_VLAN_SET_VXLAN_UNDERLAY_V6
                                  ACTION_PARAM_TUNNEL_ID)
                                (v1_EncodeTunnelId (ti_vni (ml_tnl_info learn_info))) te
                     in te)
                  else
                    (let te = set_action_id
                           (v1_GetActionId p4info L2_FWD_TX_TABLE_ACTION_SET_VXLAN_UNDERLAY_V6) te;
                         te = add_param (v1_GetParamId p4info L2_FWD_TX_TABLE_ACTION_SET_VXLAN_UNDERLAY_V6
                                  ACTION_PARAM_TUNNEL_ID)
                                (v1_EncodeTunnelId (ti_vni (ml_tnl_info learn_info))) te
                     in te))
               else te)
         else te),
          detail\<lparr>dd_table_id := LOG_L2_FWD_TX_TABLE\<rparr>))"

definition v1_dpdk_EncodeFdbTableEntryforV4VxlanTunnel ::
    "TableEntry \<Rightarrow> mac_learning_info \<Rightarrow> P4Info \<Rightarrow> bool \<Rightarrow>
     DiagDetail \<Rightarrow> TableEntry \<times> DiagDetail" where
  "v1_dpdk_EncodeFdbTableEntryforV4VxlanTunnel table_entry learn_info p4info insert_entry detail =
     (let te = set_table_id (v1_GetTableId p4info DPDK_L2_FWD_TX_TABLE) table_entry;
          te = add_exact
             (v1_GetMatchFieldId p4info DPDK_L2_FWD_TX_TABLE DPDK_L2_FWD_TX_TABLE_KEY_DST_MAC)
             (v1_CanonicalizeMac (ml_mac_addr learn_info)) te
      in ((if insert_entry then
           (let te = mutable_action te;
                te = set_action_id (v1_GetActionId p4info DPDK_L2_FWD_TX_TABLE_ACTION_SET_TUNNEL) te;
                te = add_param (v1_GetParamId p4info DPDK_L2_FWD_TX_TABLE_ACTION_SET_TUNNEL
                         DPDK_ACTION_SET_TUNNEL_PARAM_TUNNEL_ID)
                       (v1_EncodeByteValue 1 [ti_vni (ml_tnl_info learn_info)]) te;
                te = add_param (v1_GetParamId p4info DPDK_L2_FWD_TX_TABLE_ACTION_SET_TUNNEL
                         DPDK_ACTION_SET_TUNNEL_PARAM_DST_ADDR)
                       (v1_CanonicalizeIp (v4addr_s_addr (ti_remote_ip (ml_tnl_info learn_info)))) te
            in te)
         else te),
          detail\<lparr>dd_table_id := LOG_L2_FWD_TX_TABLE\<rparr>))"

definition v1_EncodeFdbTableEntryforV4GeneveTunnel ::
    "TableEntry \<Rightarrow> mac_learning_info \<Rightarrow> P4Info \<Rightarrow> bool \<Rightarrow>
     DiagDetail \<Rightarrow> TableEntry \<times> DiagDetail" where
  "v1_EncodeFdbTableEntryforV4GeneveTunnel table_entry learn_info p4info insert_entry detail =
     (let te = set_table_id (v1_GetTableId p4info L2_FWD_TX_TABLE) table_entry;
          te = add_exact (v1_GetMatchFieldId p4info L2_FWD_TX_TABLE
             L2_FWD_TX_TABLE_KEY_DST_MAC) (v1_CanonicalizeMac (ml_mac_addr learn_info)) te;
          te = add_exact (v1_GetMatchFieldId p4info L2_FWD_TX_TABLE
             L2_FWD_TX_TABLE_KEY_BRIDGE_ID)
             (v1_EncodeByteValue 1 [ucast (ml_bridge_id learn_info)]) te
      in ((if insert_entry then
           (let te = mutable_action te
            in if ip_family (ti_local_ip (ml_tnl_info learn_info)) = AF_INET \<and>
                  ip_family (ti_remote_ip (ml_tnl_info learn_info)) = AF_INET then
                 (if pv_mode (ml_vlan_info learn_info) = P4_PORT_VLAN_NATIVE_UNTAGGED then
                    (let te = set_action_id
                           (v1_GetActionId p4info L2_FWD_TX_TABLE_ACTION_POP_VLAN_SET_GENEVE_UNDERLAY_V4) te;
                         te = add_param (v1_GetParamId p4info L2_FWD_TX_TABLE_ACTION_POP_VLAN_SET_GENEVE_UNDERLAY_V4
                                  ACTION_PARAM_TUNNEL_ID)
                                (v1_EncodeTunnelId (ti_vni (ml_tnl_info learn_info))) te
                     in te)
                  else
                    (let te = set_action_id
                           (v1_GetActionId p4info L2_FWD_TX_TABLE_ACTION_SET_GENEVE_UNDERLAY_V4) te;
                         te = add_param (v1_GetParamId p4info L2_FWD_TX_TABLE_ACTION_SET_GENEVE_UNDERLAY_V4
                                  ACTION_PARAM_TUNNEL_ID)
                                (v1_EncodeTunnelId (ti_vni (ml_tnl_info learn_info))) te
                     in te))
               else if ip_family (ti_local_ip (ml_tnl_info learn_info)) = AF_INET6 \<and>
                  ip_family (ti_remote_ip (ml_tnl_info learn_info)) = AF_INET6 then
                 (if pv_mode (ml_vlan_info learn_info) = P4_PORT_VLAN_NATIVE_UNTAGGED then
                    (let te = set_action_id
                           (v1_GetActionId p4info L2_FWD_TX_TABLE_ACTION_POP_VLAN_SET_GENEVE_UNDERLAY_V6) te;
                         te = add_param (v1_GetParamId p4info L2_FWD_TX_TABLE_ACTION_POP_VLAN_SET_GENEVE_UNDERLAY_V6
                                  ACTION_PARAM_TUNNEL_ID)
                                (v1_EncodeTunnelId (ti_vni (ml_tnl_info learn_info))) te
                     in te)
                  else
                    (let te = set_action_id
                           (v1_GetActionId p4info L2_FWD_TX_TABLE_ACTION_SET_GENEVE_UNDERLAY_V6) te;
                         te = add_param (v1_GetParamId p4info L2_FWD_TX_TABLE_ACTION_SET_GENEVE_UNDERLAY_V6
                                  ACTION_PARAM_TUNNEL_ID)
                                (v1_EncodeTunnelId (ti_vni (ml_tnl_info learn_info))) te
                     in te))
               else te)
         else te),
          detail\<lparr>dd_table_id := LOG_L2_FWD_TX_TABLE\<rparr>))"

definition v1_EncodeL2ToTunnelV4 ::
    "TableEntry \<Rightarrow> mac_learning_info \<Rightarrow> P4Info \<Rightarrow> bool \<Rightarrow>
     DiagDetail \<Rightarrow> TableEntry \<times> DiagDetail" where
  "v1_EncodeL2ToTunnelV4 table_entry learn_info p4info insert_entry detail =
     (let te = set_table_id (v1_GetTableId p4info L2_TO_TUNNEL_V4_TABLE) table_entry;
          te = add_exact (v1_GetMatchFieldId p4info L2_TO_TUNNEL_V4_TABLE
             L2_TO_TUNNEL_V4_KEY_DA) (v1_CanonicalizeMac (ml_mac_addr learn_info)) te
      in ((if insert_entry then
           (let te = mutable_action te;
                te = set_action_id (v1_GetActionId p4info L2_TO_TUNNEL_V4_ACTION_SET_TUNNEL_V4) te;
                te = add_param (v1_GetParamId p4info L2_TO_TUNNEL_V4_ACTION_SET_TUNNEL_V4
                         ACTION_SET_TUNNEL_V4_PARAM_DST_ADDR)
                       (v1_CanonicalizeIp (v4addr_s_addr (ti_remote_ip (ml_tnl_info learn_info)))) te
            in te)
         else te),
          detail\<lparr>dd_table_id := LOG_L2_TO_TUNNEL_V4_TABLE\<rparr>))"

definition v1_EncodeL2ToTunnelV6 ::
    "TableEntry \<Rightarrow> mac_learning_info \<Rightarrow> P4Info \<Rightarrow> bool \<Rightarrow>
     DiagDetail \<Rightarrow> TableEntry \<times> DiagDetail" where
  "v1_EncodeL2ToTunnelV6 table_entry learn_info p4info insert_entry detail =
     (let te = set_table_id (v1_GetTableId p4info L2_TO_TUNNEL_V6_TABLE) table_entry;
          te = add_exact (v1_GetMatchFieldId p4info L2_TO_TUNNEL_V6_TABLE
             L2_TO_TUNNEL_V6_KEY_DA) (v1_CanonicalizeMac (ml_mac_addr learn_info)) te
      in ((if insert_entry then
           (let te = mutable_action te;
                te = set_action_id (v1_GetActionId p4info L2_TO_TUNNEL_V6_ACTION_SET_TUNNEL_V6) te;
                te = foldl (\<lambda>te i. add_param
                       (v1_GetParamId p4info L2_TO_TUNNEL_V6_ACTION_SET_TUNNEL_V6 (v1_tunnel_v6_param_name ! i))
                       (v1_CanonicalizeIp (u6_addr32 (ip_mem (ti_remote_ip (ml_tnl_info learn_info))) i)) te)
                   te [0..<4]
            in te)
         else te),
          detail\<lparr>dd_table_id := LOG_L2_TO_TUNNEL_V6_TABLE\<rparr>))"

definition v1_EncodeVxlanEncapTableEntry ::
    "TableEntry \<Rightarrow> tunnel_info \<Rightarrow> P4Info \<Rightarrow> bool \<Rightarrow> TableEntry" where
  "v1_EncodeVxlanEncapTableEntry table_entry tunnel_info p4info insert_entry =
     (let te = set_table_id (v1_GetTableId p4info VXLAN_ENCAP_MOD_TABLE) table_entry;
          te = add_exact (v1_GetMatchFieldId p4info VXLAN_ENCAP_MOD_TABLE
             VXLAN_ENCAP_MOD_TABLE_KEY_VENDORMETA_MOD_DATA_PTR)
             (v1_EncodeVniValue (ti_vni tunnel_info)) te
      in (if insert_entry then
           (let te = mutable_action te;
                te = set_action_id (v1_GetActionId p4info ACTION_VXLAN_ENCAP) te;
                te = add_param (v1_GetParamId p4info ACTION_VXLAN_ENCAP
                         ACTION_VXLAN_ENCAP_PARAM_SRC_ADDR)
                       (v1_CanonicalizeIp (v4addr_s_addr (ti_local_ip tunnel_info))) te;
                te = add_param (v1_GetParamId p4info ACTION_VXLAN_ENCAP
                         ACTION_VXLAN_ENCAP_PARAM_DST_ADDR)
                       (v1_CanonicalizeIp (v4addr_s_addr (ti_remote_ip tunnel_info))) te;
                te = add_param (v1_GetParamId p4info ACTION_VXLAN_ENCAP
                         ACTION_VXLAN_ENCAP_PARAM_SRC_PORT)
                       (v1_encode_port16 (htons (ti_dst_port tunnel_info) * 2)) te;
                te = add_param (v1_GetParamId p4info ACTION_VXLAN_ENCAP
                         ACTION_VXLAN_ENCAP_PARAM_DST_PORT)
                       (v1_encode_port16 (htons (ti_dst_port tunnel_info))) te;
                te = add_param (v1_GetParamId p4info ACTION_VXLAN_ENCAP ACTION_VXLAN_ENCAP_PARAM_VNI)
                       (v1_EncodeVniValue (ti_vni tunnel_info)) te
            in te)
         else te))"

definition v1_dpdk_EncodeVxlanEncapTableEntry ::
    "TableEntry \<Rightarrow> tunnel_info \<Rightarrow> P4Info \<Rightarrow> bool \<Rightarrow> TableEntry" where
  "v1_dpdk_EncodeVxlanEncapTableEntry table_entry tunnel_info p4info insert_entry =
     (let te = set_table_id (v1_GetTableId p4info DPDK_VXLAN_ENCAP_MOD_TABLE) table_entry;
          te = add_exact
             (v1_GetMatchFieldId p4info DPDK_VXLAN_ENCAP_MOD_TABLE
                DPDK_VXLAN_ENCAP_MOD_TABLE_KEY_VENDORMETA_MOD_DATA_PTR)
             (v1_EncodeVniValue (ti_vni tunnel_info)) te
      in (if insert_entry then
           (let te = mutable_action te;
                te = set_action_id (v1_GetActionId p4info DPDK_ACTION_VXLAN_ENCAP) te;
                te = add_param (v1_GetParamId p4info DPDK_ACTION_VXLAN_ENCAP
                         DPDK_ACTION_VXLAN_ENCAP_PARAM_SRC_ADDR)
                       (v1_CanonicalizeIp (v4addr_s_addr (ti_local_ip tunnel_info))) te;
                te = add_param (v1_GetParamId p4info DPDK_ACTION_VXLAN_ENCAP
                         DPDK_ACTION_VXLAN_ENCAP_PARAM_DST_ADDR)
                       (v1_CanonicalizeIp (v4addr_s_addr (ti_remote_ip tunnel_info))) te;
                te = add_param (v1_GetParamId p4info DPDK_ACTION_VXLAN_ENCAP
                         DPDK_ACTION_VXLAN_ENCAP_PARAM_DST_PORT)
                       (v1_encode_port16 (htons (ti_dst_port tunnel_info))) te;
                te = add_param (v1_GetParamId p4info DPDK_ACTION_VXLAN_ENCAP
                         DPDK_ACTION_VXLAN_ENCAP_PARAM_VNI)
                       (v1_EncodeVniValue (ti_vni tunnel_info)) te
            in te)
         else te))"

definition v1_EncodeGeneveEncapTableEntry ::
    "TableEntry \<Rightarrow> tunnel_info \<Rightarrow> P4Info \<Rightarrow> bool \<Rightarrow> TableEntry" where
  "v1_EncodeGeneveEncapTableEntry table_entry tunnel_info p4info insert_entry =
     (let te = set_table_id (v1_GetTableId p4info GENEVE_ENCAP_MOD_TABLE) table_entry;
          te = add_exact (v1_GetMatchFieldId p4info GENEVE_ENCAP_MOD_TABLE
             GENEVE_ENCAP_MOD_TABLE_KEY_VENDORMETA_MOD_DATA_PTR)
             (v1_EncodeVniValue (ti_vni tunnel_info)) te
      in (if insert_entry then
           (let te = mutable_action te;
                te = set_action_id (v1_GetActionId p4info ACTION_GENEVE_ENCAP) te;
                te = add_param (v1_GetParamId p4info ACTION_GENEVE_ENCAP
                         ACTION_GENEVE_ENCAP_PARAM_SRC_ADDR)
                       (v1_CanonicalizeIp (v4addr_s_addr (ti_local_ip tunnel_info))) te;
                te = add_param (v1_GetParamId p4info ACTION_GENEVE_ENCAP
                         ACTION_GENEVE_ENCAP_PARAM_DST_ADDR)
                       (v1_CanonicalizeIp (v4addr_s_addr (ti_remote_ip tunnel_info))) te;
                te = add_param (v1_GetParamId p4info ACTION_GENEVE_ENCAP
                         ACTION_GENEVE_ENCAP_PARAM_SRC_PORT)
                       (v1_encode_port16 (htons (ti_dst_port tunnel_info) * 2)) te;
                te = add_param (v1_GetParamId p4info ACTION_GENEVE_ENCAP
                         ACTION_GENEVE_ENCAP_PARAM_DST_PORT)
                       (v1_encode_port16 (htons (ti_dst_port tunnel_info))) te;
                te = add_param (v1_GetParamId p4info ACTION_GENEVE_ENCAP
                         ACTION_GENEVE_ENCAP_PARAM_VNI)
                       (v1_EncodeVniValue (ti_vni tunnel_info)) te
            in te)
         else te))"

definition v1_PrepareV4EncapTableEntry ::
    "TableEntry \<Rightarrow> tunnel_info \<Rightarrow> P4Info \<Rightarrow> bool \<Rightarrow> TableEntry \<times> string list" where
  "v1_PrepareV4EncapTableEntry table_entry tunnel_info p4info insert_entry =
     (if ti_tunnel_type tunnel_info = OVS_TUNNEL_VXLAN then
        (v1_EncodeVxlanEncapTableEntry table_entry tunnel_info p4info insert_entry, [])
      else if ti_tunnel_type tunnel_info = OVS_TUNNEL_GENEVE then
        (v1_EncodeGeneveEncapTableEntry table_entry tunnel_info p4info insert_entry, [])
      else (table_entry, [''ERROR: Unsupported tunnel type'']))"

definition v1_dpdk_PrepareV4EncapTableEntry ::
    "TableEntry \<Rightarrow> tunnel_info \<Rightarrow> P4Info \<Rightarrow> bool \<Rightarrow> TableEntry" where
  "v1_dpdk_PrepareV4EncapTableEntry table_entry tunnel_info p4info insert_entry =
     v1_dpdk_EncodeVxlanEncapTableEntry table_entry tunnel_info p4info insert_entry"

definition v1_EncodeV6VxlanEncapTableEntry ::
    "TableEntry \<Rightarrow> tunnel_info \<Rightarrow> P4Info \<Rightarrow> bool \<Rightarrow> TableEntry" where
  "v1_EncodeV6VxlanEncapTableEntry table_entry tunnel_info p4info insert_entry =
     (let te = set_table_id (v1_GetTableId p4info VXLAN_ENCAP_V6_MOD_TABLE) table_entry;
          te = add_exact (v1_GetMatchFieldId p4info VXLAN_ENCAP_V6_MOD_TABLE
             VXLAN_ENCAP_V6_MOD_TABLE_KEY_VENDORMETA_MOD_DATA_PTR)
             (v1_EncodeVniValue (ti_vni tunnel_info)) te
      in (if insert_entry then
           (let te = mutable_action te;
                te = set_action_id (v1_GetActionId p4info ACTION_VXLAN_ENCAP_V6) te;
                te = add_param (v1_GetParamId p4info ACTION_VXLAN_ENCAP_V6
                         ACTION_VXLAN_ENCAP_V6_PARAM_SRC_ADDR)
                       (v1_CanonicalizeIpv6 (ip_mem (ti_local_ip tunnel_info))) te;
                te = add_param (v1_GetParamId p4info ACTION_VXLAN_ENCAP_V6
                         ACTION_VXLAN_ENCAP_V6_PARAM_DST_ADDR)
                       (v1_CanonicalizeIpv6 (ip_mem (ti_remote_ip tunnel_info))) te;
                te = add_param (v1_GetParamId p4info ACTION_VXLAN_ENCAP_V6
                         ACTION_VXLAN_ENCAP_V6_PARAM_SRC_PORT)
                       (v1_encode_port16 (htons (ti_dst_port tunnel_info) * 2)) te;
                te = add_param (v1_GetParamId p4info ACTION_VXLAN_ENCAP_V6
                         ACTION_VXLAN_ENCAP_V6_PARAM_DST_PORT)
                       (v1_encode_port16 (htons (ti_dst_port tunnel_info))) te;
                te = add_param (v1_GetParamId p4info ACTION_VXLAN_ENCAP_V6
                         ACTION_VXLAN_ENCAP_V6_PARAM_VNI)
                       (v1_EncodeVniValue (ti_vni tunnel_info)) te
            in te)
         else te))"

definition v1_EncodeV6GeneveEncapTableEntry ::
    "TableEntry \<Rightarrow> tunnel_info \<Rightarrow> P4Info \<Rightarrow> bool \<Rightarrow> TableEntry" where
  "v1_EncodeV6GeneveEncapTableEntry table_entry tunnel_info p4info insert_entry =
     (let te = set_table_id (v1_GetTableId p4info GENEVE_ENCAP_V6_MOD_TABLE) table_entry;
          te = add_exact (v1_GetMatchFieldId p4info GENEVE_ENCAP_V6_MOD_TABLE
             GENEVE_ENCAP_V6_MOD_TABLE_KEY_VENDORMETA_MOD_DATA_PTR)
             (v1_EncodeVniValue (ti_vni tunnel_info)) te
      in (if insert_entry then
           (let te = mutable_action te;
                te = set_action_id (v1_GetActionId p4info ACTION_GENEVE_ENCAP_V6) te;
                te = add_param (v1_GetParamId p4info ACTION_GENEVE_ENCAP_V6
                         ACTION_GENEVE_ENCAP_V6_PARAM_SRC_ADDR)
                       (v1_CanonicalizeIpv6 (ip_mem (ti_local_ip tunnel_info))) te;
                te = add_param (v1_GetParamId p4info ACTION_GENEVE_ENCAP_V6
                         ACTION_GENEVE_ENCAP_V6_PARAM_DST_ADDR)
                       (v1_CanonicalizeIpv6 (ip_mem (ti_remote_ip tunnel_info))) te;
                te = add_param (v1_GetParamId p4info ACTION_GENEVE_ENCAP_V6
                         ACTION_GENEVE_ENCAP_V6_PARAM_SRC_PORT)
                       (v1_encode_port16 (htons (ti_dst_port tunnel_info) * 2)) te;
                te = add_param (v1_GetParamId p4info ACTION_GENEVE_ENCAP_V6
                         ACTION_GENEVE_ENCAP_V6_PARAM_DST_PORT)
                       (v1_encode_port16 (htons (ti_dst_port tunnel_info))) te;
                te = add_param (v1_GetParamId p4info ACTION_GENEVE_ENCAP_V6
                         ACTION_GENEVE_ENCAP_V6_PARAM_VNI)
                       (v1_EncodeVniValue (ti_vni tunnel_info)) te
            in te)
         else te))"

definition v1_PrepareV6EncapTableEntry ::
    "TableEntry \<Rightarrow> tunnel_info \<Rightarrow> P4Info \<Rightarrow> bool \<Rightarrow> TableEntry \<times> string list" where
  "v1_PrepareV6EncapTableEntry table_entry tunnel_info p4info insert_entry =
     (if ti_tunnel_type tunnel_info = OVS_TUNNEL_VXLAN then
        (v1_EncodeV6VxlanEncapTableEntry table_entry tunnel_info p4info insert_entry, [])
      else if ti_tunnel_type tunnel_info = OVS_TUNNEL_GENEVE then
        (v1_EncodeV6GeneveEncapTableEntry table_entry tunnel_info p4info insert_entry, [])
      else (table_entry, [''ERROR: Unsupported tunnel type'']))"

definition v1_EncodeVxlanEncapAndVlanPopTableEntry ::
    "TableEntry \<Rightarrow> tunnel_info \<Rightarrow> P4Info \<Rightarrow> bool \<Rightarrow> TableEntry" where
  "v1_EncodeVxlanEncapAndVlanPopTableEntry table_entry tunnel_info p4info insert_entry =
     (let te = set_table_id (v1_GetTableId p4info VXLAN_ENCAP_VLAN_POP_MOD_TABLE) table_entry;
          te = add_exact (v1_GetMatchFieldId p4info VXLAN_ENCAP_VLAN_POP_MOD_TABLE
             VXLAN_ENCAP_VLAN_POP_MOD_TABLE_KEY_VENDORMETA_MOD_DATA_PTR)
             (v1_EncodeVniValue (ti_vni tunnel_info)) te
      in (if insert_entry then
           (let te = mutable_action te;
                te = set_action_id (v1_GetActionId p4info ACTION_VXLAN_ENCAP_VLAN_POP) te;
                te = add_param (v1_GetParamId p4info ACTION_VXLAN_ENCAP_VLAN_POP
                         ACTION_VXLAN_ENCAP_VLAN_POP_PARAM_SRC_ADDR)
                       (v1_CanonicalizeIp (v4addr_s_addr (ti_local_ip tunnel_info))) te;
                te = add_param (v1_GetParamId p4info ACTION_VXLAN_ENCAP_VLAN_POP
                         ACTION_VXLAN_ENCAP_VLAN_POP_PARAM_DST_ADDR)
                       (v1_CanonicalizeIp (v4addr_s_addr (ti_remote_ip tunnel_info))) te;
                te = add_param (v1_GetParamId p4info ACTION_VXLAN_ENCAP_VLAN_POP
                         ACTION_VXLAN_ENCAP_VLAN_POP_PARAM_SRC_PORT)
                       (v1_encode_port16 (htons (ti_dst_port tunnel_info) * 2)) te;
                te = add_param (v1_GetParamId p4info ACTION_VXLAN_ENCAP_VLAN_POP
                         ACTION_VXLAN_ENCAP_VLAN_POP_PARAM_DST_PORT)
                       (v1_encode_port16 (htons (ti_dst_port tunnel_info))) te;
                te = add_param (v1_GetParamId p4info ACTION_VXLAN_ENCAP_VLAN_POP
                         ACTION_VXLAN_ENCAP_VLAN_POP_PARAM_VNI)
                       (v1_EncodeVniValue (ti_vni tunnel_info)) te
            in te)
         else te))"

definition v1_EncodeGeneveEncapAndVlanPopTableEntry ::
    "TableEntry \<Rightarrow> tunnel_info \<Rightarrow> P4Info \<Rightarrow> bool \<Rightarrow> TableEntry" where
  "v1_EncodeGeneveEncapAndVlanPopTableEntry table_entry tunnel_info p4info insert_entry =
     (let te = set_table_id (v1_GetTableId p4info GENEVE_ENCAP_VLAN_POP_MOD_TABLE) table_entry;
          te = add_exact (v1_GetMatchFieldId p4info GENEVE_ENCAP_VLAN_POP_MOD_TABLE
             GENEVE_ENCAP_VLAN_POP_MOD_TABLE_KEY_VENDORMETA_MOD_DATA_PTR)
             (v1_EncodeVniValue (ti_vni tunnel_info)) te
      in (if insert_entry then
           (let te = mutable_action te;
                te = set_action_id (v1_GetActionId p4info ACTION_GENEVE_ENCAP_VLAN_POP) te;
                te = add_param (v1_GetParamId p4info ACTION_GENEVE_ENCAP_VLAN_POP
                         ACTION_GENEVE_ENCAP_VLAN_POP_PARAM_SRC_ADDR)
                       (v1_CanonicalizeIp (v4addr_s_addr (ti_local_ip tunnel_info))) te;
                te = add_param (v1_GetParamId p4info ACTION_GENEVE_ENCAP_VLAN_POP
                         ACTION_GENEVE_ENCAP_VLAN_POP_PARAM_DST_ADDR)
                       (v1_CanonicalizeIp (v4addr_s_addr (ti_remote_ip tunnel_info))) te;
                te = add_param (v1_GetParamId p4info ACTION_GENEVE_ENCAP_VLAN_POP
                         ACTION_GENEVE_ENCAP_VLAN_POP_PARAM_SRC_PORT)
                       (v1_encode_port16 (htons (ti_dst_port tunnel_info) * 2)) te;
                te = add_param (v1_GetParamId p4info ACTION_GENEVE_ENCAP_VLAN_POP
                         ACTION_GENEVE_ENCAP_VLAN_POP_PARAM_DST_PORT)
                       (v1_encode_port16 (htons (ti_dst_port tunnel_info))) te;
                te = add_param (v1_GetParamId p4info ACTION_GENEVE_ENCAP_VLAN_POP
                         ACTION_GENEVE_ENCAP_VLAN_POP_PARAM_VNI)
                       (v1_EncodeVniValue (ti_vni tunnel_info)) te
            in te)
         else te))"

definition v1_PrepareV4EncapAndVlanPopTableEntry ::
    "TableEntry \<Rightarrow> tunnel_info \<Rightarrow> P4Info \<Rightarrow> bool \<Rightarrow> TableEntry \<times> string list" where
  "v1_PrepareV4EncapAndVlanPopTableEntry table_entry tunnel_info p4info insert_entry =
     (if ti_tunnel_type tunnel_info = OVS_TUNNEL_VXLAN then
        (v1_EncodeVxlanEncapAndVlanPopTableEntry table_entry tunnel_info p4info insert_entry, [])
      else if ti_tunnel_type tunnel_info = OVS_TUNNEL_GENEVE then
        (v1_EncodeGeneveEncapAndVlanPopTableEntry table_entry tunnel_info p4info insert_entry, [])
      else (table_entry, [''ERROR: Unsupported tunnel type'']))"

definition v1_EncodeV6VxlanEncapAndVlanPopTableEntry ::
    "TableEntry \<Rightarrow> tunnel_info \<Rightarrow> P4Info \<Rightarrow> bool \<Rightarrow> TableEntry" where
  "v1_EncodeV6VxlanEncapAndVlanPopTableEntry table_entry tunnel_info p4info insert_entry =
     (let te = set_table_id (v1_GetTableId p4info VXLAN_ENCAP_V6_VLAN_POP_MOD_TABLE) table_entry;
          te = add_exact (v1_GetMatchFieldId p4info VXLAN_ENCAP_V6_VLAN_POP_MOD_TABLE
             VXLAN_ENCAP_V6_VLAN_POP_MOD_TABLE_KEY_VENDORMETA_MOD_DATA_PTR)
             (v1_EncodeVniValue (ti_vni tunnel_info)) te
      in (if insert_entry then
           (let te = mutable_action te;
                te = set_action_id (v1_GetActionId p4info ACTION_VXLAN_ENCAP_V6_VLAN_POP) te;
                te = add_param (v1_GetParamId p4info ACTION_VXLAN_ENCAP_V6_VLAN_POP
                         ACTION_VXLAN_ENCAP_V6_VLAN_POP_PARAM_SRC_ADDR)
                       (v1_CanonicalizeIpv6 (ip_mem (ti_local_ip tunnel_info))) te;
                te = add_param (v1_GetParamId p4info ACTION_VXLAN_ENCAP_V6_VLAN_POP
                         ACTION_VXLAN_ENCAP_V6_VLAN_POP_PARAM_DST_ADDR)
                       (v1_CanonicalizeIpv6 (ip_mem (ti_remote_ip tunnel_info))) te;
                te = add_param (v1_GetParamId p4info ACTION_VXLAN_ENCAP_V6_VLAN_POP
                         ACTION_VXLAN_ENCAP_V6_VLAN_POP_PARAM_SRC_PORT)
                       (v1_encode_port16 (htons (ti_dst_port tunnel_info) * 2)) te;
                te = add_param (v1_GetParamId p4info ACTION_VXLAN_ENCAP_V6_VLAN_POP
                         ACTION_VXLAN_ENCAP_V6_VLAN_POP_PARAM_DST_PORT)
                       (v1_encode_port16 (htons (ti_dst_port tunnel_info))) te;
                te = add_param (v1_GetParamId p4info ACTION_VXLAN_ENCAP_V6_VLAN_POP
                         ACTION_VXLAN_ENCAP_V6_VLAN_POP_PARAM_VNI)
                       (v1_EncodeVniValue (ti_vni tunnel_info)) te
            in te)
         else te))"

definition v1_EncodeV6GeneveEncapAndVlanPopTableEntry ::
    "TableEntry \<Rightarrow> tunnel_info \<Rightarrow> P4Info \<Rightarrow> bool \<Rightarrow> TableEntry" where
  "v1_EncodeV6GeneveEncapAndVlanPopTableEntry table_entry tunnel_info p4info insert_entry =
     (let te = set_table_id (v1_GetTableId p4info GENEVE_ENCAP_V6_VLAN_POP_MOD_TABLE) table_entry;
          te = add_exact (v1_GetMatchFieldId p4info GENEVE_ENCAP_V6_VLAN_POP_MOD_TABLE
             GENEVE_ENCAP_V6_VLAN_POP_MOD_TABLE_KEY_VENDORMETA_MOD_DATA_PTR)
             (v1_EncodeVniValue (ti_vni tunnel_info)) te
      in (if insert_entry then
           (let te = mutable_action te;
                te = set_action_id (v1_GetActionId p4info ACTION_GENEVE_ENCAP_V6_VLAN_POP) te;
                te = add_param (v1_GetParamId p4info ACTION_GENEVE_ENCAP_V6_VLAN_POP
                         ACTION_GENEVE_ENCAP_V6_VLAN_POP_PARAM_SRC_ADDR)
                       (v1_CanonicalizeIpv6 (ip_mem (ti_local_ip tunnel_info))) te;
                te = add_param (v1_GetParamId p4info ACTION_GENEVE_ENCAP_V6_VLAN_POP
                         ACTION_GENEVE_ENCAP_V6_VLAN_POP_PARAM_DST_ADDR)
                       (v1_CanonicalizeIpv6 (ip_mem (ti_remote_ip tunnel_info))) te;
                te = add_param (v1_GetParamId p4info ACTION_GENEVE_ENCAP_V6_VLAN_POP
                         ACTION_GENEVE_ENCAP_V6_VLAN_POP_PARAM_SRC_PORT)
                       (v1_encode_port16 (htons (ti_dst_port tunnel_info) * 2)) te;
                te = add_param (v1_GetParamId p4info ACTION_GENEVE_ENCAP_V6_VLAN_POP
                         ACTION_GENEVE_ENCAP_V6_VLAN_POP_PARAM_DST_PORT)
                       (v1_encode_port16 (htons (ti_dst_port tunnel_info))) te;
                te = add_param (v1_GetParamId p4info ACTION_GENEVE_ENCAP_V6_VLAN_POP
                         ACTION_GENEVE_ENCAP_V6_VLAN_POP_PARAM_VNI)
                       (v1_EncodeVniValue (ti_vni tunnel_info)) te
            in te)
         else te))"

definition v1_PrepareV6EncapAndVlanPopTableEntry ::
    "TableEntry \<Rightarrow> tunnel_info \<Rightarrow> P4Info \<Rightarrow> bool \<Rightarrow> TableEntry \<times> string list" where
  "v1_PrepareV6EncapAndVlanPopTableEntry table_entry tunnel_info p4info insert_entry =
     (if ti_tunnel_type tunnel_info = OVS_TUNNEL_VXLAN then
        (v1_EncodeV6VxlanEncapAndVlanPopTableEntry table_entry tunnel_info p4info insert_entry, [])
      else if ti_tunnel_type tunnel_info = OVS_TUNNEL_GENEVE then
        (v1_EncodeV6GeneveEncapAndVlanPopTableEntry table_entry tunnel_info p4info insert_entry, [])
      else (table_entry, [''ERROR: Unsupported tunnel type'']))"

definition v1_EncodeRxTunnelTableEntry ::
    "TableEntry \<Rightarrow> tunnel_info \<Rightarrow> P4Info \<Rightarrow> bool \<Rightarrow> TableEntry" where
  "v1_EncodeRxTunnelTableEntry table_entry tunnel_info p4info insert_entry =
     (let te = set_table_id (v1_GetTableId p4info RX_IPV4_TUNNEL_SOURCE_PORT_TABLE) table_entry;
          te = add_exact (v1_GetMatchFieldId p4info RX_IPV4_TUNNEL_SOURCE_PORT_TABLE
             RX_IPV4_TUNNEL_SOURCE_PORT_TABLE_KEY_VNI) (v1_EncodeVniValue (ti_vni tunnel_info)) te;
          te = add_exact (v1_GetMatchFieldId p4info RX_IPV4_TUNNEL_SOURCE_PORT_TABLE
             RX_IPV4_TUNNEL_SOURCE_PORT_TABLE_KEY_IPV4_SRC)
             (v1_CanonicalizeIp (v4addr_s_addr (ti_remote_ip tunnel_info))) te
      in (if insert_entry then
           (let te = mutable_action te;
                te = set_action_id
                       (v1_GetActionId p4info RX_IPV4_TUNNEL_SOURCE_PORT_TABLE_ACTION_SET_SRC_PORT) te;
                te = add_param (v1_GetParamId p4info RX_IPV4_TUNNEL_SOURCE_PORT_TABLE_ACTION_SET_SRC_PORT
                         ACTION_SET_SRC_PORT)
                       (v1_encode_port32 (ti_src_port tunnel_info)) te
            in te)
         else te))"

definition v1_EncodeV6RxTunnelTableEntry ::
    "TableEntry \<Rightarrow> tunnel_info \<Rightarrow> P4Info \<Rightarrow> bool \<Rightarrow> TableEntry" where
  "v1_EncodeV6RxTunnelTableEntry table_entry tunnel_info p4info insert_entry =
     (let te = set_table_id (v1_GetTableId p4info RX_IPV6_TUNNEL_SOURCE_PORT_TABLE) table_entry;
          te = add_exact (v1_GetMatchFieldId p4info RX_IPV6_TUNNEL_SOURCE_PORT_TABLE
             RX_IPV6_TUNNEL_SOURCE_PORT_TABLE_KEY_VNI) (v1_EncodeVniValue (ti_vni tunnel_info)) te;
          te = add_exact (v1_GetMatchFieldId p4info RX_IPV6_TUNNEL_SOURCE_PORT_TABLE
             RX_IPV6_TUNNEL_SOURCE_PORT_TABLE_KEY_IPV6_SRC)
             (v1_CanonicalizeIpv6 (ip_mem (ti_remote_ip tunnel_info))) te
      in (if insert_entry then
           (let te = mutable_action te;
                te = set_action_id
                       (v1_GetActionId p4info RX_IPV6_TUNNEL_SOURCE_PORT_TABLE_ACTION_SET_SRC_PORT) te;
                te = add_param (v1_GetParamId p4info RX_IPV6_TUNNEL_SOURCE_PORT_TABLE_ACTION_SET_SRC_PORT
                         ACTION_SET_SRC_PORT)
                       (v1_encode_port32 (ti_src_port tunnel_info)) te
            in te)
         else te))"

definition v1_EncodeTunnelTermTableEntry ::
    "TableEntry \<Rightarrow> tunnel_info \<Rightarrow> P4Info \<Rightarrow> bool \<Rightarrow> TableEntry \<times> string list" where
  "v1_EncodeTunnelTermTableEntry table_entry tunnel_info p4info insert_entry =
     (let te = add_exact (v1_GetMatchFieldId p4info IPV4_TUNNEL_TERM_TABLE
             IPV4_TUNNEL_TERM_TABLE_KEY_IPV4_SRC)
             (v1_CanonicalizeIp (v4addr_s_addr (ti_remote_ip tunnel_info))) table_entry;
          te = set_table_id (v1_GetTableId p4info IPV4_TUNNEL_TERM_TABLE) te;
          te = add_exact (v1_GetMatchFieldId p4info IPV4_TUNNEL_TERM_TABLE
             IPV4_TUNNEL_TERM_TABLE_KEY_BRIDGE_ID)
             (v1_EncodeByteValue 1 [ucast (ti_bridge_id tunnel_info)]) te;
          te = add_exact (v1_GetMatchFieldId p4info IPV4_TUNNEL_TERM_TABLE
             IPV4_TUNNEL_TERM_TABLE_KEY_VNI) (v1_EncodeVniValue (ti_vni tunnel_info)) te
      in if insert_entry then
           (let te = mutable_action te
            in if pv_mode (ti_vlan_info tunnel_info) = P4_PORT_VLAN_NATIVE_UNTAGGED then
                 (if ti_tunnel_type tunnel_info = OVS_TUNNEL_VXLAN then
                    (let te = set_action_id
                           (v1_GetActionId p4info ACTION_SET_VXLAN_DECAP_OUTER_HDR_AND_PUSH_VLAN) te;
                         te = add_param (v1_GetParamId p4info ACTION_SET_VXLAN_DECAP_OUTER_HDR_AND_PUSH_VLAN
                                  ACTION_PARAM_TUNNEL_ID)
                                (v1_EncodeTunnelId (ti_vni tunnel_info)) te
                     in (te, []))
                  else if ti_tunnel_type tunnel_info = OVS_TUNNEL_GENEVE then
                    (let te = set_action_id
                           (v1_GetActionId p4info ACTION_SET_GENEVE_DECAP_OUTER_HDR_AND_PUSH_VLAN) te;
                         te = add_param (v1_GetParamId p4info ACTION_SET_GENEVE_DECAP_OUTER_HDR_AND_PUSH_VLAN
                                  ACTION_PARAM_TUNNEL_ID)
                                (v1_EncodeTunnelId (ti_vni tunnel_info)) te
                     in (te, []))
                  else (te, [''Unsupported tunnel type'']))
               else
                 (if ti_tunnel_type tunnel_info = OVS_TUNNEL_VXLAN then
                    (let te = set_action_id
                           (v1_GetActionId p4info ACTION_SET_VXLAN_DECAP_OUTER_HDR) te;
                         te = add_param (v1_GetParamId p4info ACTION_SET_VXLAN_DECAP_OUTER_HDR
                                  ACTION_PARAM_TUNNEL_ID)
                                (v1_EncodeTunnelId (ti_vni tunnel_info)) te
                     in (te, []))
                  else if ti_tunnel_type tunnel_info = OVS_TUNNEL_GENEVE then
                    (let te = set_action_id
                           (v1_GetActionId p4info ACTION_SET_GENEVE_DECAP_OUTER_HDR) te;
                         te = add_param (v1_GetParamId p4info ACTION_SET_GENEVE_DECAP_OUTER_HDR
                                  ACTION_PARAM_TUNNEL_ID)
                                (v1_EncodeTunnelId (ti_vni tunnel_info)) te
                     in (te, []))
                  else (te, [''Unsupported tunnel type''])))
         else (te, []))"

definition v1_dpdk_EncodeTunnelTermTableEntry ::
    "TableEntry \<Rightarrow> tunnel_info \<Rightarrow> P4Info \<Rightarrow> bool \<Rightarrow> TableEntry" where
  "v1_dpdk_EncodeTunnelTermTableEntry table_entry tunnel_info p4info insert_entry =
     (let te = add_exact
             (v1_GetMatchFieldId p4info DPDK_IPV4_TUNNEL_TERM_TABLE
                DPDK_IPV4_TUNNEL_TERM_TABLE_KEY_IPV4_SRC)
             (v1_CanonicalizeIp (v4addr_s_addr (ti_remote_ip tunnel_info))) table_entry;
          te = set_table_id (v1_GetTableId p4info DPDK_IPV4_TUNNEL_TERM_TABLE) te;
          te = add_exact
             (v1_GetMatchFieldId p4info DPDK_IPV4_TUNNEL_TERM_TABLE
                DPDK_IPV4_TUNNEL_TERM_TABLE_KEY_TUNNEL_TYPE)
             (v1_EncodeByteValue 1 [DPDK_TUNNEL_TYPE_VXLAN]) te;
          te = add_exact
             (v1_GetMatchFieldId p4info DPDK_IPV4_TUNNEL_TERM_TABLE
                DPDK_IPV4_TUNNEL_TERM_TABLE_KEY_IPV4_DST)
             (v1_CanonicalizeIp (v4addr_s_addr (ti_local_ip tunnel_info))) te
      in (if insert_entry then
           (let te = mutable_action te;
                te = set_action_id (v1_GetActionId p4info DPDK_ACTION_DECAP_OUTER_IPV4) te;
                te = add_param (v1_GetParamId p4info DPDK_ACTION_DECAP_OUTER_IPV4
                         DPDK_ACTION_DECAP_OUTER_IPV4_PARAM_TUNNEL_ID)
                       (v1_EncodeByteValue 1 [ti_vni tunnel_info]) te
            in te)
         else te))"

definition v1_EncodeV6TunnelTermTableEntry ::
    "TableEntry \<Rightarrow> tunnel_info \<Rightarrow> P4Info \<Rightarrow> bool \<Rightarrow> TableEntry \<times> string list" where
  "v1_EncodeV6TunnelTermTableEntry table_entry tunnel_info p4info insert_entry =
     (let te = set_table_id (v1_GetTableId p4info IPV6_TUNNEL_TERM_TABLE) table_entry;
          te = add_exact (v1_GetMatchFieldId p4info IPV6_TUNNEL_TERM_TABLE
             IPV6_TUNNEL_TERM_TABLE_KEY_BRIDGE_ID)
             (v1_EncodeByteValue 1 [ucast (ti_bridge_id tunnel_info)]) te;
          te = add_exact (v1_GetMatchFieldId p4info IPV6_TUNNEL_TERM_TABLE
             IPV6_TUNNEL_TERM_TABLE_KEY_IPV6_SRC)
             (v1_CanonicalizeIpv6 (ip_mem (ti_remote_ip tunnel_info))) te;
          te = add_exact (v1_GetMatchFieldId p4info IPV6_TUNNEL_TERM_TABLE
             IPV6_TUNNEL_TERM_TABLE_KEY_VNI) (v1_EncodeVniValue (ti_vni tunnel_info)) te
      in if insert_entry then
           (let te = mutable_action te
            in if pv_mode (ti_vlan_info tunnel_info) = P4_PORT_VLAN_NATIVE_UNTAGGED then
                 (if ti_tunnel_type tunnel_info = OVS_TUNNEL_VXLAN then
                    (let te = set_action_id
                           (v1_GetActionId p4info ACTION_SET_VXLAN_DECAP_OUTER_HDR_AND_PUSH_VLAN) te;
                         te = add_param (v1_GetParamId p4info ACTION_SET_VXLAN_DECAP_OUTER_HDR_AND_PUSH_VLAN
                                  ACTION_PARAM_TUNNEL_ID)
                                (v1_EncodeTunnelId (ti_vni tunnel_info)) te
                     in (te, []))
                  else if ti_tunnel_type tunnel_info = OVS_TUNNEL_GENEVE then
                    (let te = set_action_id
                           (v1_GetActionId p4info ACTION_SET_GENEVE_DECAP_OUTER_HDR_AND_PUSH_VLAN) te;
                         te = add_param (v1_GetParamId p4info ACTION_SET_GENEVE_DECAP_OUTER_HDR_AND_PUSH_VLAN
                                  ACTION_PARAM_TUNNEL_ID)
                                (v1_EncodeTunnelId (ti_vni tunnel_info)) te
                     in (te, []))
                  else (te, [''Unsupported tunnel type'']))
               else
                 (if ti_tunnel_type tunnel_info = OVS_TUNNEL_VXLAN then
                    (let te = set_action_id
                           (v1_GetActionId p4info ACTION_SET_VXLAN_DECAP_OUTER_HDR) te;
                         te = add_param (v1_GetParamId p4info ACTION_SET_VXLAN_DECAP_OUTER_HDR
                                  ACTION_PARAM_TUNNEL_ID)
                                (v1_EncodeTunnelId (ti_vni tunnel_info)) te
                     in (te, []))
                  else if ti_tunnel_type tunnel_info = OVS_TUNNEL_GENEVE then
                    (let te = set_action_id
                           (v1_GetActionId p4info ACTION_SET_GENEVE_DECAP_OUTER_HDR) te;
                         te = add_param (v1_GetParamId p4info ACTION_SET_GENEVE_DECAP_OUTER_HDR
                                  ACTION_PARAM_TUNNEL_ID)
                                (v1_EncodeTunnelId (ti_vni tunnel_info)) te
                     in (te, []))
                  else (te, [''Unsupported tunnel type''])))
         else (te, []))"

definition v1_EncodeVxlanDecapModTableEntry ::
    "TableEntry \<Rightarrow> tunnel_info \<Rightarrow> P4Info \<Rightarrow> bool \<Rightarrow> TableEntry" where
  "v1_EncodeVxlanDecapModTableEntry table_entry tunnel_info p4info insert_entry =
     (let te = set_table_id (v1_GetTableId p4info VXLAN_DECAP_MOD_TABLE) table_entry;
          te = add_exact (v1_GetMatchFieldId p4info VXLAN_DECAP_MOD_TABLE
             VXLAN_DECAP_MOD_TABLE_KEY_MOD_BLOB_PTR) (v1_EncodeVniValue (ti_vni tunnel_info)) te
      in (if insert_entry then
           (let te = mutable_action te;
                te = set_action_id (v1_GetActionId p4info ACTION_VXLAN_DECAP_OUTER_HDR) te
            in te)
         else te))"

definition v1_EncodeGeneveDecapModTableEntry ::
    "TableEntry \<Rightarrow> tunnel_info \<Rightarrow> P4Info \<Rightarrow> bool \<Rightarrow> TableEntry" where
  "v1_EncodeGeneveDecapModTableEntry table_entry tunnel_info p4info insert_entry =
     (let te = set_table_id (v1_GetTableId p4info GENEVE_DECAP_MOD_TABLE) table_entry;
          te = add_exact (v1_GetMatchFieldId p4info GENEVE_DECAP_MOD_TABLE
             GENEVE_DECAP_MOD_TABLE_KEY_MOD_BLOB_PTR) (v1_EncodeVniValue (ti_vni tunnel_info)) te
      in (if insert_entry then
           (let te = mutable_action te;
                te = set_action_id (v1_GetActionId p4info ACTION_GENEVE_DECAP_OUTER_HDR) te
            in te)
         else te))"

definition v1_PrepareDecapModTableEntry ::
    "TableEntry \<Rightarrow> tunnel_info \<Rightarrow> P4Info \<Rightarrow> bool \<Rightarrow> TableEntry \<times> string list" where
  "v1_PrepareDecapModTableEntry table_entry tunnel_info p4info insert_entry =
     (if ti_tunnel_type tunnel_info = OVS_TUNNEL_VXLAN then
        (v1_EncodeVxlanDecapModTableEntry table_entry tunnel_info p4info insert_entry, [])
      else if ti_tunnel_type tunnel_info = OVS_TUNNEL_GENEVE then
        (v1_EncodeGeneveDecapModTableEntry table_entry tunnel_info p4info insert_entry, [])
      else (table_entry, [''ERROR: Unsupported tunnel type'']))"

definition v1_EncodeVxlanDecapModAndVlanPushTableEntry ::
    "TableEntry \<Rightarrow> tunnel_info \<Rightarrow> P4Info \<Rightarrow> bool \<Rightarrow> TableEntry" where
  "v1_EncodeVxlanDecapModAndVlanPushTableEntry table_entry tunnel_info p4info insert_entry =
     (let te = set_table_id (v1_GetTableId p4info VXLAN_DECAP_AND_VLAN_PUSH_MOD_TABLE) table_entry;
          te = add_exact (v1_GetMatchFieldId p4info VXLAN_DECAP_AND_VLAN_PUSH_MOD_TABLE
             VXLAN_DECAP_AND_VLAN_PUSH_MOD_TABLE_KEY_MOD_BLOB_PTR)
             (v1_EncodeVniValue (ti_vni tunnel_info)) te
      in (if insert_entry then
           (let te = mutable_action te;
                te = set_action_id (v1_GetActionId p4info ACTION_VXLAN_DECAP_AND_PUSH_VLAN) te;
                te = add_param (v1_GetParamId p4info ACTION_VXLAN_DECAP_AND_PUSH_VLAN
                         ACTION_VXLAN_DECAP_AND_PUSH_VLAN_PARAM_PCP)
                       (v1_EncodeByteValue 1 [1]) te;
                te = add_param (v1_GetParamId p4info ACTION_VXLAN_DECAP_AND_PUSH_VLAN
                         ACTION_VXLAN_DECAP_AND_PUSH_VLAN_PARAM_DEI)
                       (v1_EncodeByteValue 1 [0]) te;
                te = add_param (v1_GetParamId p4info ACTION_VXLAN_DECAP_AND_PUSH_VLAN
                         ACTION_VXLAN_DECAP_AND_PUSH_VLAN_PARAM_VLAN_ID)
                       (v1_EncodeByteValue 1 [pv_vlan (ti_vlan_info tunnel_info)]) te
            in te)
         else te))"

definition v1_EncodeGeneveDecapModAndVlanPushTableEntry ::
    "TableEntry \<Rightarrow> tunnel_info \<Rightarrow> P4Info \<Rightarrow> bool \<Rightarrow> TableEntry" where
  "v1_EncodeGeneveDecapModAndVlanPushTableEntry table_entry tunnel_info p4info insert_entry =
     (let te = set_table_id (v1_GetTableId p4info GENEVE_DECAP_AND_VLAN_PUSH_MOD_TABLE) table_entry;
          te = add_exact (v1_GetMatchFieldId p4info GENEVE_DECAP_AND_VLAN_PUSH_MOD_TABLE
             GENEVE_DECAP_AND_VLAN_PUSH_MOD_TABLE_KEY_MOD_BLOB_PTR)
             (v1_EncodeVniValue (ti_vni tunnel_info)) te
      in (if insert_entry then
           (let te = mutable_action te;
                te = set_action_id (v1_GetActionId p4info ACTION_GENEVE_DECAP_AND_PUSH_VLAN) te;
                te = add_param (v1_GetParamId p4info ACTION_GENEVE_DECAP_AND_PUSH_VLAN
                         ACTION_GENEVE_DECAP_AND_PUSH_VLAN_PARAM_PCP)
                       (v1_EncodeByteValue 1 [1]) te;
                te = add_param (v1_GetParamId p4info ACTION_GENEVE_DECAP_AND_PUSH_VLAN
                         ACTION_GENEVE_DECAP_AND_PUSH_VLAN_PARAM_DEI)
                       (v1_EncodeByteValue 1 [0]) te;
                te = add_param (v1_GetParamId p4info ACTION_GENEVE_DECAP_AND_PUSH_VLAN
                         ACTION_GENEVE_DECAP_AND_PUSH_VLAN_PARAM_VLAN_ID)
                       (v1_EncodeByteValue 1 [pv_vlan (ti_vlan_info tunnel_info)]) te
            in te)
         else te))"

definition v1_PrepareDecapModAndVlanPushTableEntry ::
    "TableEntry \<Rightarrow> tunnel_info \<Rightarrow> P4Info \<Rightarrow> bool \<Rightarrow> TableEntry \<times> string list" where
  "v1_PrepareDecapModAndVlanPushTableEntry table_entry tunnel_info p4info insert_entry =
     (if ti_tunnel_type tunnel_info = OVS_TUNNEL_VXLAN then
        (v1_EncodeVxlanDecapModAndVlanPushTableEntry table_entry tunnel_info p4info insert_entry, [])
      else if ti_tunnel_type tunnel_info = OVS_TUNNEL_GENEVE then
        (v1_EncodeGeneveDecapModAndVlanPushTableEntry table_entry tunnel_info p4info insert_entry, [])
      else (table_entry, [''ERROR: Unsupported tunnel type'']))"

definition v1_EncodeVlanPushTableEntry ::
    "TableEntry \<Rightarrow> u16 \<Rightarrow> P4Info \<Rightarrow> bool \<Rightarrow> TableEntry" where
  "v1_EncodeVlanPushTableEntry table_entry vlan_id p4info insert_entry =
     (let te = set_table_id (v1_GetTableId p4info VLAN_PUSH_MOD_TABLE) table_entry;
          te = add_exact (v1_GetMatchFieldId p4info VLAN_PUSH_MOD_TABLE
             VLAN_PUSH_MOD_KEY_MOD_BLOB_PTR) (v1_EncodeByteValue 1 [ucast vlan_id]) te
      in (if insert_entry then
           (let te = mutable_action te;
                te = set_action_id (v1_GetActionId p4info VLAN_PUSH_MOD_ACTION_VLAN_PUSH) te;
                te = add_param (v1_GetParamId p4info VLAN_PUSH_MOD_ACTION_VLAN_PUSH
                         ACTION_VLAN_PUSH_PARAM_PCP)
                       (v1_EncodeByteValue 1 [1]) te;
                te = add_param (v1_GetParamId p4info VLAN_PUSH_MOD_ACTION_VLAN_PUSH
                         ACTION_VLAN_PUSH_PARAM_DEI)
                       (v1_EncodeByteValue 1 [0]) te;
                te = add_param (v1_GetParamId p4info VLAN_PUSH_MOD_ACTION_VLAN_PUSH
                         ACTION_VLAN_PUSH_PARAM_VLAN_ID)
                       (v1_EncodeByteValue 1 [ucast vlan_id]) te
            in te)
         else te))"

definition v1_EncodeVlanPopTableEntry ::
    "TableEntry \<Rightarrow> u16 \<Rightarrow> P4Info \<Rightarrow> bool \<Rightarrow> TableEntry" where
  "v1_EncodeVlanPopTableEntry table_entry vlan_id p4info insert_entry =
     (let te = set_table_id (v1_GetTableId p4info VLAN_POP_MOD_TABLE) table_entry;
          te = add_exact (v1_GetMatchFieldId p4info VLAN_POP_MOD_TABLE
             VLAN_POP_MOD_KEY_MOD_BLOB_PTR) (v1_EncodeByteValue 1 [ucast vlan_id]) te
      in (if insert_entry then
           (let te = mutable_action te;
                te = set_action_id (v1_GetActionId p4info VLAN_POP_MOD_ACTION_VLAN_POP) te
            in te)
         else te))"

definition v1_EncodeSrcPortTableEntry ::
    "TableEntry \<Rightarrow> src_port_info \<Rightarrow> P4Info \<Rightarrow> bool \<Rightarrow> TableEntry" where
  "v1_EncodeSrcPortTableEntry table_entry sp p4info insert_entry =
     (let te = set_table_id (v1_GetTableId p4info SOURCE_PORT_TO_BRIDGE_MAP_TABLE) table_entry;
          te = set_priority 1 te;
          te = add_ternary (v1_GetMatchFieldId p4info SOURCE_PORT_TO_BRIDGE_MAP_TABLE
             SOURCE_PORT_TO_BRIDGE_MAP_TABLE_KEY_SRC_PORT)
             (v1_encode_port32 (sp_src_port sp)) (v1_EncodeByteValue 2 [0xff, 0xff]) te;
          te = add_ternary (v1_GetMatchFieldId p4info SOURCE_PORT_TO_BRIDGE_MAP_TABLE
             SOURCE_PORT_TO_BRIDGE_MAP_TABLE_KEY_VID)
             (v1_EncodeByteValue 2 [ucast (drop_bit 8 (sp_vlan_id sp)) AND 0x0f, ucast (sp_vlan_id sp) AND 0xff])
             (v1_EncodeByteValue 2 [0x0f, 0xff]) te
      in (if insert_entry then
           (let te = mutable_action te;
                te = set_action_id
                       (v1_GetActionId p4info SOURCE_PORT_TO_BRIDGE_MAP_TABLE_ACTION_SET_BRIDGE_ID) te;
                te = add_param (v1_GetParamId p4info SOURCE_PORT_TO_BRIDGE_MAP_TABLE_ACTION_SET_BRIDGE_ID
                         ACTION_SET_BRIDGE_ID_PARAM_BRIDGE_ID)
                       (v1_EncodeByteValue 1 [ucast (sp_bridge_id sp)]) te
            in te)
         else te))"

definition v1_EncodeSrcIpMacMapTableEntry ::
    "TableEntry \<Rightarrow> ip_mac_map_info \<Rightarrow> P4Info \<Rightarrow> bool \<Rightarrow>
     DiagDetail \<Rightarrow> TableEntry \<times> DiagDetail" where
  "v1_EncodeSrcIpMacMapTableEntry table_entry ip_info p4info insert_entry detail =
     (let te = set_table_id (v1_GetTableId p4info SRC_IP_MAC_MAP_TABLE) table_entry;
          te = add_exact (v1_GetMatchFieldId p4info SRC_IP_MAC_MAP_TABLE
             SRC_IP_MAC_MAP_TABLE_KEY_SRC_IP)
             (v1_CanonicalizeIp (v4addr_s_addr (im_src_ip_addr ip_info))) te
      in ((if insert_entry then
           (let te = mutable_action te;
                te = set_action_id (v1_GetActionId p4info SRC_IP_MAC_MAP_TABLE_ACTION_SMAC_MAP) te;
                te = add_param (v1_GetParamId p4info SRC_IP_MAC_MAP_TABLE_ACTION_SMAC_MAP
                         ACTION_SET_SRC_MAC_HIGH)
                       (v1_EncodeByteValue 2 [ucast (mac0 (im_src_mac_addr ip_info)) AND 0xff,
                          ucast (mac1 (im_src_mac_addr ip_info)) AND 0xff]) te;
                te = add_param (v1_GetParamId p4info SRC_IP_MAC_MAP_TABLE_ACTION_SMAC_MAP
                         ACTION_SET_SRC_MAC_MID)
                       (v1_EncodeByteValue 2 [ucast (mac2 (im_src_mac_addr ip_info)) AND 0xff,
                          ucast (mac3 (im_src_mac_addr ip_info)) AND 0xff]) te;
                te = add_param (v1_GetParamId p4info SRC_IP_MAC_MAP_TABLE_ACTION_SMAC_MAP
                         ACTION_SET_SRC_MAC_LOW)
                       (v1_EncodeByteValue 2 [ucast (mac4 (im_src_mac_addr ip_info)) AND 0xff,
                          ucast (mac5 (im_src_mac_addr ip_info)) AND 0xff]) te
            in te)
         else te),
          detail\<lparr>dd_table_id := LOG_SRC_IP_MAC_MAP_TABLE\<rparr>))"

definition v1_EncodeDstIpMacMapTableEntry ::
    "TableEntry \<Rightarrow> ip_mac_map_info \<Rightarrow> P4Info \<Rightarrow> bool \<Rightarrow>
     DiagDetail \<Rightarrow> TableEntry \<times> DiagDetail" where
  "v1_EncodeDstIpMacMapTableEntry table_entry ip_info p4info insert_entry detail =
     (let te = set_table_id (v1_GetTableId p4info DST_IP_MAC_MAP_TABLE) table_entry;
          te = add_exact (v1_GetMatchFieldId p4info DST_IP_MAC_MAP_TABLE
             DST_IP_MAC_MAP_TABLE_KEY_DST_IP)
             (v1_CanonicalizeIp (v4addr_s_addr (im_dst_ip_addr ip_info))) te
      in ((if insert_entry then
           (let te = mutable_action te;
                te = set_action_id (v1_GetActionId p4info DST_IP_MAC_MAP_TABLE_ACTION_DMAC_MAP) te;
                te = add_param (v1_GetParamId p4info DST_IP_MAC_MAP_TABLE_ACTION_DMAC_MAP
                         ACTION_SET_DST_MAC_HIGH)
                       (v1_EncodeByteValue 2 [ucast (mac0 (im_dst_mac_addr ip_info)) AND 0xff,
                          ucast (mac1 (im_dst_mac_addr ip_info)) AND 0xff]) te;
                te = add_param (v1_GetParamId p4info DST_IP_MAC_MAP_TABLE_ACTION_DMAC_MAP
                         ACTION_SET_DST_MAC_MID)
                       (v1_EncodeByteValue 2 [ucast (mac2 (im_dst_mac_addr ip_info)) AND 0xff,
                          ucast (mac3 (im_dst_mac_addr ip_info)) AND 0xff]) te;
                te = add_param (v1_GetParamId p4info DST_IP_MAC_MAP_TABLE_ACTION_DMAC_MAP
                         ACTION_SET_DST_MAC_LOW)
                       (v1_EncodeByteValue 2 [ucast (mac4 (im_dst_mac_addr ip_info)) AND 0xff,
                          ucast (mac5 (im_dst_mac_addr ip_info)) AND 0xff]) te
            in te)
         else te),
          detail\<lparr>dd_table_id := LOG_DST_IP_MAC_MAP_TABLE\<rparr>))"

definition v1_EncodeTxAccVsiTableEntry :: "TableEntry \<Rightarrow> u32 \<Rightarrow> P4Info \<Rightarrow> TableEntry" where
  "v1_EncodeTxAccVsiTableEntry table_entry sp p4info =
     (let te = set_table_id (v1_GetTableId p4info TX_ACC_VSI_TABLE) table_entry;
          te = add_exact (v1_GetMatchFieldId p4info TX_ACC_VSI_TABLE TX_ACC_VSI_TABLE_KEY_VSI)
             (v1_EncodeByteValue 1 [sp - ES2K_VPORT_ID_OFFSET]) te
      in te)"

section \<open>The encoders are those of version 3\<close>

lemmas v1_encoder_defs = v1_EncodeFdbSmacTableEntry_def EncodeFdbSmacTableEntry_def
  v1_EncodeFdbRxVlanTableEntry_def EncodeFdbRxVlanTableEntry_def
  v1_dpdk_EncodeFdbRxVlanTableEntry_def dpdk_EncodeFdbRxVlanTableEntry_def
  v1_EncodeL2ToTunnelV4_def EncodeL2ToTunnelV4_def
  v1_EncodeL2ToTunnelV6_def EncodeL2ToTunnelV6_def
  v1_EncodeVxlanEncapTableEntry_def EncodeVxlanEncapTableEntry_def
  v1_dpdk_EncodeVxlanEncapTableEntry_def dpdk_EncodeVxlanEncapTableEntry_def
  v1_EncodeGeneveEncapTableEntry_def EncodeGeneveEncapTableEntry_def
  v1_EncodeV6VxlanEncapTableEntry_def EncodeV6VxlanEncapTableEntry_def
  v1_EncodeV6GeneveEncapTableEntry_def EncodeV6GeneveEncapTableEntry_def
  v1_EncodeVxlanEncapAndVlanPopTableEntry_def EncodeVxlanEncapAndVlanPopTableEntry_def
  v1_EncodeGeneveEncapAndVlanPopTableEntry_def EncodeGeneveEncapAndVlanPopTableEntry_def
  v1_EncodeV6VxlanEncapAndVlanPopTableEntry_def EncodeV6VxlanEncapAndVlanPopTableEntry_def
  v1_EncodeV6GeneveEncapAndVlanPopTableEntry_def EncodeV6GeneveEncapAndVlanPopTableEntry_def
  v1_EncodeRxTunnelTableEntry_def EncodeRxTunnelTableEntry_def
  v1_EncodeV6RxTunnelTableEntry_def EncodeV6RxTunnelTableEntry_def
  v1_EncodeTunnelTermTableEntry_def EncodeTunnelTermTableEntry_def
  v1_dpdk_EncodeTunnelTermTableEntry_def dpdk_EncodeTunnelTermTableEntry_def
  v1_EncodeV6TunnelTermTableEntry_def EncodeV6TunnelTermTableEntry_def
  v1_EncodeVxlanDecapModTableEntry_def EncodeVxlanDecapModTableEntry_def
  v1_EncodeGeneveDecapModTableEntry_def EncodeGeneveDecapModTableEntry_def
  v1_EncodeVxlanDecapModAndVlanPushTableEntry_def EncodeVxlanDecapModAndVlanPushTableEntry_def
  v1_EncodeGeneveDecapModAndVlanPushTableEntry_def EncodeGeneveDecapModAndVlanPushTableEntry_def
  v1_EncodeVlanPushTableEntry_def EncodeVlanPushTableEntry_def
  v1_EncodeVlanPopTableEntry_def EncodeVlanPopTableEntry_def
  v1_EncodeSrcPortTableEntry_def EncodeSrcPortTableEntry_def
  v1_EncodeSrcIpMacMapTableEntry_def EncodeSrcIpMacMapTableEntry_def
  v1_EncodeDstIpMacMapTableEntry_def EncodeDstIpMacMapTableEntry_def
  v1_EncodeTxAccVsiTableEntry_def EncodeTxAccVsiTableEntry_def

text \<open>The functions whose text has not changed.\<close>

lemma v1_unchanged:
  "v1_EncodeFdbSmacTableEntry = EncodeFdbSmacTableEntry"
  "v1_EncodeFdbRxVlanTableEntry = EncodeFdbRxVlanTableEntry"
  "v1_dpdk_EncodeFdbRxVlanTableEntry = dpdk_EncodeFdbRxVlanTableEntry"
  "v1_EncodeL2ToTunnelV4 = EncodeL2ToTunnelV4"
  "v1_EncodeL2ToTunnelV6 = EncodeL2ToTunnelV6"
  "v1_EncodeVxlanEncapTableEntry = EncodeVxlanEncapTableEntry"
  "v1_dpdk_EncodeVxlanEncapTableEntry = dpdk_EncodeVxlanEncapTableEntry"
  "v1_EncodeGeneveEncapTableEntry = EncodeGeneveEncapTableEntry"
  "v1_EncodeV6VxlanEncapTableEntry = EncodeV6VxlanEncapTableEntry"
  "v1_EncodeV6GeneveEncapTableEntry = EncodeV6GeneveEncapTableEntry"
  "v1_EncodeVxlanEncapAndVlanPopTableEntry = EncodeVxlanEncapAndVlanPopTableEntry"
  "v1_EncodeGeneveEncapAndVlanPopTableEntry = EncodeGeneveEncapAndVlanPopTableEntry"
  "v1_EncodeV6VxlanEncapAndVlanPopTableEntry = EncodeV6VxlanEncapAndVlanPopTableEntry"
  "v1_EncodeV6GeneveEncapAndVlanPopTableEntry = EncodeV6GeneveEncapAndVlanPopTableEntry"
  "v1_EncodeRxTunnelTableEntry = EncodeRxTunnelTableEntry"
  "v1_EncodeV6RxTunnelTableEntry = EncodeV6RxTunnelTableEntry"
  "v1_EncodeTunnelTermTableEntry = EncodeTunnelTermTableEntry"
  "v1_dpdk_EncodeTunnelTermTableEntry = dpdk_EncodeTunnelTermTableEntry"
  "v1_EncodeV6TunnelTermTableEntry = EncodeV6TunnelTermTableEntry"
  "v1_EncodeVxlanDecapModTableEntry = EncodeVxlanDecapModTableEntry"
  "v1_EncodeGeneveDecapModTableEntry = EncodeGeneveDecapModTableEntry"
  "v1_EncodeVxlanDecapModAndVlanPushTableEntry = EncodeVxlanDecapModAndVlanPushTableEntry"
  "v1_EncodeGeneveDecapModAndVlanPushTableEntry = EncodeGeneveDecapModAndVlanPushTableEntry"
  "v1_EncodeVlanPushTableEntry = EncodeVlanPushTableEntry"
  "v1_EncodeVlanPopTableEntry = EncodeVlanPopTableEntry"
  "v1_EncodeSrcPortTableEntry = EncodeSrcPortTableEntry"
  "v1_EncodeSrcIpMacMapTableEntry = EncodeSrcIpMacMapTableEntry"
  "v1_EncodeDstIpMacMapTableEntry = EncodeDstIpMacMapTableEntry"
  "v1_EncodeTxAccVsiTableEntry = EncodeTxAccVsiTableEntry"
  by (intro ext, simp only: v1_encoder_defs v1_utils)+

text \<open>The functions whose match fields have been moved into a function of their own.\<close>

lemma v1_prologue:
  "v1_EncodeFdbTxVlanTableEntry = EncodeFdbTxVlanTableEntry"
  "v1_dpdk_EncodeFdbTxVlanTableEntry = dpdk_EncodeFdbTxVlanTableEntry"
  "v1_EncodeFdbTableEntryforV4VxlanTunnel = EncodeFdbTableEntryforV4VxlanTunnel"
  "v1_dpdk_EncodeFdbTableEntryforV4VxlanTunnel = dpdk_EncodeFdbTableEntryforV4VxlanTunnel"
  "v1_EncodeFdbTableEntryforV4GeneveTunnel = EncodeFdbTableEntryforV4GeneveTunnel"
  by (intro ext, simp only: Let_def v1_utils EncodeL2FwdTxTablePrologue_def dpdk_EncodeL2FwdTxTablePrologue_def
      v1_EncodeFdbTxVlanTableEntry_def EncodeFdbTxVlanTableEntry_def
      v1_dpdk_EncodeFdbTxVlanTableEntry_def dpdk_EncodeFdbTxVlanTableEntry_def
      v1_EncodeFdbTableEntryforV4VxlanTunnel_def EncodeFdbTableEntryforV4VxlanTunnel_def
      v1_dpdk_EncodeFdbTableEntryforV4VxlanTunnel_def dpdk_EncodeFdbTableEntryforV4VxlanTunnel_def
      v1_EncodeFdbTableEntryforV4GeneveTunnel_def EncodeFdbTableEntryforV4GeneveTunnel_def)+

text \<open>The choice of an encoder.\<close>

lemma v1_prepare:
  "v1_PrepareV4EncapTableEntry = PrepareV4EncapTableEntry"
  "v1_dpdk_PrepareV4EncapTableEntry = dpdk_PrepareV4EncapTableEntry"
  "v1_PrepareV6EncapTableEntry = PrepareV6EncapTableEntry"
  "v1_PrepareV4EncapAndVlanPopTableEntry = PrepareV4EncapAndVlanPopTableEntry"
  "v1_PrepareV6EncapAndVlanPopTableEntry = PrepareV6EncapAndVlanPopTableEntry"
  "v1_PrepareDecapModTableEntry = PrepareDecapModTableEntry"
  "v1_PrepareDecapModAndVlanPushTableEntry = PrepareDecapModAndVlanPushTableEntry"
  by (intro ext, simp only: v1_unchanged v1_utils
      v1_PrepareV4EncapTableEntry_def PrepareV4EncapTableEntry_def
      v1_dpdk_PrepareV4EncapTableEntry_def dpdk_PrepareV4EncapTableEntry_def
      v1_PrepareV6EncapTableEntry_def PrepareV6EncapTableEntry_def
      v1_PrepareV4EncapAndVlanPopTableEntry_def PrepareV4EncapAndVlanPopTableEntry_def
      v1_PrepareV6EncapAndVlanPopTableEntry_def PrepareV6EncapAndVlanPopTableEntry_def
      v1_PrepareDecapModTableEntry_def PrepareDecapModTableEntry_def
      v1_PrepareDecapModAndVlanPushTableEntry_def PrepareDecapModAndVlanPushTableEntry_def)+

lemmas v1_encoders = v1_unchanged v1_prologue v1_prepare

end
