(* ===== verification/V1_Core.thy ===== *)
theory V1_Core
  imports V1_Encoders Standard_Api
begin

text \<open>
  \<^verbatim>\<open>core/v1/ovsp4rt.cc\<close>: the functions that write and read one entry over a session, and the
  seven functions of the C interface. There is no client object; a function that uses the
  session takes it as an argument. The functions of the C interface have no result: the
  environment and the output are what a caller observes.

  \<open>None\<close> is undefined behaviour: a format string that is not valid, and a byte of a string
  behind its terminating zero.
\<close>

section \<open>Requests over a session\<close>

text \<open>The choice between the two Setup functions, and the two Send functions, on the state.\<close>

definition v1_setup_write :: "OvsP4rtSession \<Rightarrow> bool \<Rightarrow> nat \<times> WriteRequest" where
  "v1_setup_write session insert_entry =
     (if insert_entry then SetupTableEntryToInsert session empty_WriteRequest
      else SetupTableEntryToDelete session empty_WriteRequest)"

definition v1_send_write ::
    "'e grpc_env \<Rightarrow> OvsP4rtSession \<Rightarrow> WriteRequest \<Rightarrow> ('c, 'e) world \<Rightarrow>
     (('c, 'e) world, Status) result" where
  "v1_send_write g session write_request w =
     (let (status, e) = SendWriteRequest g session write_request (w_env w)
      in Some (status, w\<lparr>w_env := e\<rparr>))"

definition v1_send_read ::
    "'e grpc_env \<Rightarrow> OvsP4rtSession \<Rightarrow> ReadRequest \<Rightarrow> ('c, 'e) world \<Rightarrow>
     (('c, 'e) world, ReadResponse StatusOr) result" where
  "v1_send_read g session read_request w =
     (let (response, e) = SendReadRequest g session read_request (w_env w)
      in Some (response, w\<lparr>w_env := e\<rparr>))"

definition UnknownError :: "string \<Rightarrow> Status" where
  "UnknownError m = absl_Status 2 m"

section \<open>Writing one entry\<close>

definition v1_WriteFdbSmacTableEntry ::
    "'e grpc_env \<Rightarrow> OvsP4rtSession \<Rightarrow> mac_learning_info \<Rightarrow> P4Info \<Rightarrow> bool \<Rightarrow> ('c, 'e) world \<Rightarrow>
     (('c, 'e) world, Status) result" where
  "v1_WriteFdbSmacTableEntry g session learn_info p4info insert_entry w = do {
     let (table_entry, write_request) = v1_setup_write session insert_entry;
     let (entry, detail) = v1_EncodeFdbSmacTableEntry (write_entry table_entry write_request)
           learn_info p4info insert_entry default_DiagDetail;
     (status, w) \<leftarrow> v1_send_write g session (put_write_entry table_entry entry write_request) w;
     Some (status,
       if \<not> ok status
       then LogFailureWithMacAddr insert_entry (getLogTableName detail) (ml_mac_addr learn_info) w
       else w)
   }"

definition v1_WriteL2TunnelTableEntry ::
    "'e grpc_env \<Rightarrow> OvsP4rtSession \<Rightarrow> mac_learning_info \<Rightarrow> P4Info \<Rightarrow> bool \<Rightarrow> ('c, 'e) world \<Rightarrow>
     (('c, 'e) world, Status) result" where
  "v1_WriteL2TunnelTableEntry g session learn_info p4info insert_entry w = do {
     let (table_entry, write_request) = v1_setup_write session insert_entry;
     let te = write_entry table_entry write_request;
     let (entry, detail) =
       (if ip_family (ti_local_ip (ml_tnl_info learn_info)) = AF_INET6 \<and>
           ip_family (ti_remote_ip (ml_tnl_info learn_info)) = AF_INET6 then
          v1_EncodeL2ToTunnelV6 te learn_info p4info insert_entry default_DiagDetail
        else v1_EncodeL2ToTunnelV4 te learn_info p4info insert_entry default_DiagDetail);
     (status, w) \<leftarrow> v1_send_write g session (put_write_entry table_entry entry write_request) w;
     Some (status,
       if \<not> ok status
       then LogFailureWithMacAddr insert_entry (getLogTableName detail) (ml_mac_addr learn_info) w
       else w)
   }"

definition v1_WriteFdbTxVlanTableEntry ::
    "'e grpc_env \<Rightarrow> OvsP4rtSession \<Rightarrow> mac_learning_info \<Rightarrow> P4Info \<Rightarrow> bool \<Rightarrow> ('c, 'e) world \<Rightarrow>
     (('c, 'e) world, Status) result" where
  "v1_WriteFdbTxVlanTableEntry g session learn_info p4info insert_entry w = do {
     let (table_entry, write_request) = v1_setup_write session insert_entry;
     let (entry, detail) = v1_EncodeFdbTxVlanTableEntry (write_entry table_entry write_request)
           learn_info p4info insert_entry default_DiagDetail;
     (status, w) \<leftarrow> v1_send_write g session (put_write_entry table_entry entry write_request) w;
     Some (status,
       if \<not> ok status
       then LogFailureWithMacAddr insert_entry (getLogTableName detail) (ml_mac_addr learn_info) w
       else w)
   }"

definition v1_dpdk_WriteFdbTxVlanTableEntry ::
    "'e grpc_env \<Rightarrow> OvsP4rtSession \<Rightarrow> mac_learning_info \<Rightarrow> P4Info \<Rightarrow> bool \<Rightarrow> ('c, 'e) world \<Rightarrow>
     (('c, 'e) world, Status) result" where
  "v1_dpdk_WriteFdbTxVlanTableEntry g session learn_info p4info insert_entry w = do {
     let (table_entry, write_request) = v1_setup_write session insert_entry;
     let (entry, detail) = v1_dpdk_EncodeFdbTxVlanTableEntry (write_entry table_entry write_request)
           learn_info p4info insert_entry default_DiagDetail;
     (status, w) \<leftarrow> v1_send_write g session (put_write_entry table_entry entry write_request) w;
     Some (status,
       if \<not> ok status
       then LogFailureWithMacAddr insert_entry (getLogTableName detail) (ml_mac_addr learn_info) w
       else w)
   }"

definition v1_WriteFdbRxVlanTableEntry ::
    "'e grpc_env \<Rightarrow> OvsP4rtSession \<Rightarrow> mac_learning_info \<Rightarrow> P4Info \<Rightarrow> bool \<Rightarrow> ('c, 'e) world \<Rightarrow>
     (('c, 'e) world, Status) result" where
  "v1_WriteFdbRxVlanTableEntry g session learn_info p4info insert_entry w = do {
     let (table_entry, write_request) = v1_setup_write session insert_entry;
     let (entry, detail) = v1_EncodeFdbRxVlanTableEntry (write_entry table_entry write_request)
           learn_info p4info insert_entry default_DiagDetail;
     (status, w) \<leftarrow> v1_send_write g session (put_write_entry table_entry entry write_request) w;
     Some (status,
       if \<not> ok status
       then LogFailureWithMacAddr insert_entry (getLogTableName detail) (ml_mac_addr learn_info) w
       else w)
   }"

definition v1_dpdk_WriteFdbRxVlanTableEntry ::
    "'e grpc_env \<Rightarrow> OvsP4rtSession \<Rightarrow> mac_learning_info \<Rightarrow> P4Info \<Rightarrow> bool \<Rightarrow> ('c, 'e) world \<Rightarrow>
     (('c, 'e) world, Status) result" where
  "v1_dpdk_WriteFdbRxVlanTableEntry g session learn_info p4info insert_entry w = do {
     let (table_entry, write_request) = v1_setup_write session insert_entry;
     let (entry, detail) = v1_dpdk_EncodeFdbRxVlanTableEntry (write_entry table_entry write_request)
           learn_info p4info insert_entry default_DiagDetail;
     (status, w) \<leftarrow> v1_send_write g session (put_write_entry table_entry entry write_request) w;
     Some (status,
       if \<not> ok status
       then LogFailureWithMacAddr insert_entry (getLogTableName detail) (ml_mac_addr learn_info) w
       else w)
   }"

text \<open>The tunnel type does not matter for a delete.\<close>

definition v1_WriteFdbTunnelTableEntry ::
    "'e grpc_env \<Rightarrow> OvsP4rtSession \<Rightarrow> mac_learning_info \<Rightarrow> P4Info \<Rightarrow> bool \<Rightarrow> ('c, 'e) world \<Rightarrow>
     (('c, 'e) world, Status) result" where
  "v1_WriteFdbTunnelTableEntry g session learn_info p4info insert_entry w = do {
     let (table_entry, write_request) = v1_setup_write session insert_entry;
     let te = write_entry table_entry write_request;
     let (entry, detail) =
       (if ti_tunnel_type (ml_tnl_info learn_info) = OVS_TUNNEL_VXLAN then
          v1_EncodeFdbTableEntryforV4VxlanTunnel te learn_info p4info insert_entry default_DiagDetail
        else if ti_tunnel_type (ml_tnl_info learn_info) = OVS_TUNNEL_GENEVE then
          v1_EncodeFdbTableEntryforV4GeneveTunnel te learn_info p4info insert_entry default_DiagDetail
        else if \<not> insert_entry then
          v1_EncodeFdbTableEntryforV4VxlanTunnel te learn_info p4info insert_entry default_DiagDetail
        else (te, default_DiagDetail));
     (status, w) \<leftarrow> v1_send_write g session (put_write_entry table_entry entry write_request) w;
     Some (status,
       if \<not> ok status
       then LogFailureWithMacAddr insert_entry (getLogTableName detail) (ml_mac_addr learn_info) w
       else w)
   }"

definition v1_dpdk_WriteFdbTunnelTableEntry ::
    "'e grpc_env \<Rightarrow> OvsP4rtSession \<Rightarrow> mac_learning_info \<Rightarrow> P4Info \<Rightarrow> bool \<Rightarrow> ('c, 'e) world \<Rightarrow>
     (('c, 'e) world, Status) result" where
  "v1_dpdk_WriteFdbTunnelTableEntry g session learn_info p4info insert_entry w = do {
     let (table_entry, write_request) = v1_setup_write session insert_entry;
     let (entry, detail) = v1_dpdk_EncodeFdbTableEntryforV4VxlanTunnel (write_entry table_entry write_request)
           learn_info p4info insert_entry default_DiagDetail;
     (status, w) \<leftarrow> v1_send_write g session (put_write_entry table_entry entry write_request) w;
     Some (status,
       if \<not> ok status
       then LogFailureWithMacAddr insert_entry (getLogTableName detail) (ml_mac_addr learn_info) w
       else w)
   }"

definition v1_WriteEncapTableEntry ::
    "'e grpc_env \<Rightarrow> OvsP4rtSession \<Rightarrow> tunnel_info \<Rightarrow> P4Info \<Rightarrow> bool \<Rightarrow> ('c, 'e) world \<Rightarrow>
     (('c, 'e) world, Status) result" where
  "v1_WriteEncapTableEntry g session tunnel_info p4info insert_entry w = do {
     let (table_entry, write_request) = v1_setup_write session insert_entry;
     let te = write_entry table_entry write_request;
     let (entry, lines) =
       (if ip_family (ti_local_ip tunnel_info) = AF_INET \<and>
           ip_family (ti_remote_ip tunnel_info) = AF_INET then
          (if pv_mode (ti_vlan_info tunnel_info) = P4_PORT_VLAN_NATIVE_UNTAGGED then
             v1_PrepareV4EncapAndVlanPopTableEntry te tunnel_info p4info insert_entry
           else v1_PrepareV4EncapTableEntry te tunnel_info p4info insert_entry)
        else if ip_family (ti_local_ip tunnel_info) = AF_INET6 \<and>
           ip_family (ti_remote_ip tunnel_info) = AF_INET6 then
          (if pv_mode (ti_vlan_info tunnel_info) = P4_PORT_VLAN_NATIVE_UNTAGGED then
             v1_PrepareV6EncapAndVlanPopTableEntry te tunnel_info p4info insert_entry
           else v1_PrepareV6EncapTableEntry te tunnel_info p4info insert_entry)
        else (te, []));
     v1_send_write g session (put_write_entry table_entry entry write_request) (print_lines lines w)
   }"

definition v1_dpdk_WriteEncapTableEntry ::
    "'e grpc_env \<Rightarrow> OvsP4rtSession \<Rightarrow> tunnel_info \<Rightarrow> P4Info \<Rightarrow> bool \<Rightarrow> ('c, 'e) world \<Rightarrow>
     (('c, 'e) world, Status) result" where
  "v1_dpdk_WriteEncapTableEntry g session tunnel_info p4info insert_entry w = do {
     let (table_entry, write_request) = v1_setup_write session insert_entry;
     let entry = v1_dpdk_PrepareV4EncapTableEntry (write_entry table_entry write_request)
           tunnel_info p4info insert_entry;
     v1_send_write g session (put_write_entry table_entry entry write_request) w
   }"

definition v1_WriteDecapTableEntry ::
    "'e grpc_env \<Rightarrow> OvsP4rtSession \<Rightarrow> tunnel_info \<Rightarrow> P4Info \<Rightarrow> bool \<Rightarrow> ('c, 'e) world \<Rightarrow>
     (('c, 'e) world, Status) result" where
  "v1_WriteDecapTableEntry g session tunnel_info p4info insert_entry w = do {
     let (table_entry, write_request) = v1_setup_write session insert_entry;
     let te = write_entry table_entry write_request;
     let (entry, lines) =
       (if pv_mode (ti_vlan_info tunnel_info) = P4_PORT_VLAN_NATIVE_TAGGED then
          v1_PrepareDecapModTableEntry te tunnel_info p4info insert_entry
        else v1_PrepareDecapModAndVlanPushTableEntry te tunnel_info p4info insert_entry);
     v1_send_write g session (put_write_entry table_entry entry write_request) (print_lines lines w)
   }"

definition v1_WriteVlanPushTableEntry ::
    "'e grpc_env \<Rightarrow> OvsP4rtSession \<Rightarrow> u16 \<Rightarrow> P4Info \<Rightarrow> bool \<Rightarrow> ('c, 'e) world \<Rightarrow>
     (('c, 'e) world, Status) result" where
  "v1_WriteVlanPushTableEntry g session vlan_id p4info insert_entry w = do {
     let (table_entry, write_request) = v1_setup_write session insert_entry;
     let entry = v1_EncodeVlanPushTableEntry (write_entry table_entry write_request)
           vlan_id p4info insert_entry;
     v1_send_write g session (put_write_entry table_entry entry write_request) w
   }"

definition v1_WriteVlanPopTableEntry ::
    "'e grpc_env \<Rightarrow> OvsP4rtSession \<Rightarrow> u16 \<Rightarrow> P4Info \<Rightarrow> bool \<Rightarrow> ('c, 'e) world \<Rightarrow>
     (('c, 'e) world, Status) result" where
  "v1_WriteVlanPopTableEntry g session vlan_id p4info insert_entry w = do {
     let (table_entry, write_request) = v1_setup_write session insert_entry;
     let entry = v1_EncodeVlanPopTableEntry (write_entry table_entry write_request)
           vlan_id p4info insert_entry;
     v1_send_write g session (put_write_entry table_entry entry write_request) w
   }"

section \<open>Reading one entry\<close>

definition v1_ReadL2ToTunnelV4TableEntry ::
    "'e grpc_env \<Rightarrow> OvsP4rtSession \<Rightarrow> mac_learning_info \<Rightarrow> P4Info \<Rightarrow> ('c, 'e) world \<Rightarrow>
     (('c, 'e) world, ReadResponse StatusOr) result" where
  "v1_ReadL2ToTunnelV4TableEntry g session learn_info p4info w = do {
     let (table_entry, read_request) = SetupTableEntryToRead session empty_ReadRequest;
     let entry = fst (v1_EncodeL2ToTunnelV4 (read_entry table_entry read_request)
           learn_info p4info False default_DiagDetail);
     v1_send_read g session (put_read_entry table_entry entry read_request) w
   }"

definition v1_ReadL2ToTunnelV6TableEntry ::
    "'e grpc_env \<Rightarrow> OvsP4rtSession \<Rightarrow> mac_learning_info \<Rightarrow> P4Info \<Rightarrow> ('c, 'e) world \<Rightarrow>
     (('c, 'e) world, ReadResponse StatusOr) result" where
  "v1_ReadL2ToTunnelV6TableEntry g session learn_info p4info w = do {
     let (table_entry, read_request) = SetupTableEntryToRead session empty_ReadRequest;
     let entry = fst (v1_EncodeL2ToTunnelV6 (read_entry table_entry read_request)
           learn_info p4info False default_DiagDetail);
     v1_send_read g session (put_read_entry table_entry entry read_request) w
   }"

text \<open>An unknown tunnel type is an error, and no request is sent.\<close>

definition v1_ReadFdbTunnelTableEntry ::
    "'e grpc_env \<Rightarrow> OvsP4rtSession \<Rightarrow> mac_learning_info \<Rightarrow> P4Info \<Rightarrow> bool \<Rightarrow> ('c, 'e) world \<Rightarrow>
     (('c, 'e) world, ReadResponse StatusOr) result" where
  "v1_ReadFdbTunnelTableEntry g session learn_info p4info adding w =
     (let (table_entry, read_request) = SetupTableEntryToRead session empty_ReadRequest;
          te = read_entry table_entry read_request;
          send = (\<lambda>(entry, detail). do {
            (status, w) \<leftarrow>
              v1_send_read g session (put_read_entry table_entry entry read_request) w;
            Some (status,
              if status_or_ok status \<and> adding then
                ovsp4rt_log_message OVSP4RT_LEVEL_ERROR
                  (''Error adding to '' @ getLogTableName detail @ '': entry already exists'') w
              else w)
          })
      in if ti_tunnel_type (ml_tnl_info learn_info) = OVS_TUNNEL_VXLAN then
           send (v1_EncodeFdbTableEntryforV4VxlanTunnel te learn_info p4info False default_DiagDetail)
         else if ti_tunnel_type (ml_tnl_info learn_info) = OVS_TUNNEL_GENEVE then
           send (v1_EncodeFdbTableEntryforV4GeneveTunnel te learn_info p4info False default_DiagDetail)
         else Some (Inl (UnknownError ''Unsupported tunnel type''), w))"

text \<open>The log message for an entry that exists has the format \<^verbatim>\<open>"Error adding to %: entry ..."\<close>.
  \<open>%:\<close> is not a conversion specification, so printing it is undefined.\<close>

definition v1_ReadFdbVlanTableEntry ::
    "'e grpc_env \<Rightarrow> OvsP4rtSession \<Rightarrow> mac_learning_info \<Rightarrow> P4Info \<Rightarrow> bool \<Rightarrow> ('c, 'e) world \<Rightarrow>
     (('c, 'e) world, ReadResponse StatusOr) result" where
  "v1_ReadFdbVlanTableEntry g session learn_info p4info adding w = do {
     let (table_entry, read_request) = SetupTableEntryToRead session empty_ReadRequest;
     let entry = fst (v1_EncodeFdbTxVlanTableEntry (read_entry table_entry read_request)
           learn_info p4info False default_DiagDetail);
     (status, w) \<leftarrow> v1_send_read g session (put_read_entry table_entry entry read_request) w;
     if status_or_ok status \<and> adding then None else Some (status, w)
   }"

definition v1_ReadVmSrcTableEntry ::
    "'e grpc_env \<Rightarrow> OvsP4rtSession \<Rightarrow> ip_mac_map_info \<Rightarrow> P4Info \<Rightarrow> ('c, 'e) world \<Rightarrow>
     (('c, 'e) world, ReadResponse StatusOr) result" where
  "v1_ReadVmSrcTableEntry g session ip_info p4info w = do {
     let (table_entry, read_request) = SetupTableEntryToRead session empty_ReadRequest;
     let entry = fst (v1_EncodeSrcIpMacMapTableEntry (read_entry table_entry read_request)
           ip_info p4info False default_DiagDetail);
     v1_send_read g session (put_read_entry table_entry entry read_request) w
   }"

definition v1_ReadVmDstTableEntry ::
    "'e grpc_env \<Rightarrow> OvsP4rtSession \<Rightarrow> ip_mac_map_info \<Rightarrow> P4Info \<Rightarrow> ('c, 'e) world \<Rightarrow>
     (('c, 'e) world, ReadResponse StatusOr) result" where
  "v1_ReadVmDstTableEntry g session ip_info p4info w = do {
     let (table_entry, read_request) = SetupTableEntryToRead session empty_ReadRequest;
     let entry = fst (v1_EncodeDstIpMacMapTableEntry (read_entry table_entry read_request)
           ip_info p4info False default_DiagDetail);
     v1_send_read g session (put_read_entry table_entry entry read_request) w
   }"

definition v1_ReadTxAccVsiTableEntry ::
    "'e grpc_env \<Rightarrow> OvsP4rtSession \<Rightarrow> u32 \<Rightarrow> P4Info \<Rightarrow> ('c, 'e) world \<Rightarrow>
     (('c, 'e) world, ReadResponse StatusOr) result" where
  "v1_ReadTxAccVsiTableEntry g session sp p4info w = do {
     let (table_entry, read_request) = SetupTableEntryToRead session empty_ReadRequest;
     let entry = v1_EncodeTxAccVsiTableEntry (read_entry table_entry read_request) sp p4info;
     v1_send_read g session (put_read_entry table_entry entry read_request) w
   }"

section \<open>Writing one entry, continued\<close>

definition v1_ConfigureVsiSrcPortTableEntry ::
    "'e grpc_env \<Rightarrow> OvsP4rtSession \<Rightarrow> src_port_info \<Rightarrow> P4Info \<Rightarrow> bool \<Rightarrow> ('c, 'e) world \<Rightarrow>
     (('c, 'e) world, Status) result" where
  "v1_ConfigureVsiSrcPortTableEntry g session sp p4info insert_entry w = do {
     let (table_entry, write_request) = v1_setup_write session insert_entry;
     let entry = v1_EncodeSrcPortTableEntry (write_entry table_entry write_request)
           sp p4info insert_entry;
     v1_send_write g session (put_write_entry table_entry entry write_request) w
   }"

definition v1_WriteRxTunnelSrcPortTableEntry ::
    "'e grpc_env \<Rightarrow> OvsP4rtSession \<Rightarrow> tunnel_info \<Rightarrow> P4Info \<Rightarrow> bool \<Rightarrow> ('c, 'e) world \<Rightarrow>
     (('c, 'e) world, Status) result" where
  "v1_WriteRxTunnelSrcPortTableEntry g session tunnel_info p4info insert_entry w = do {
     let (table_entry, write_request) = v1_setup_write session insert_entry;
     let te = write_entry table_entry write_request;
     let entry =
       (if ip_family (ti_local_ip tunnel_info) = AF_INET \<and>
           ip_family (ti_remote_ip tunnel_info) = AF_INET then
          v1_EncodeRxTunnelTableEntry te tunnel_info p4info insert_entry
        else if ip_family (ti_local_ip tunnel_info) = AF_INET6 \<and>
           ip_family (ti_remote_ip tunnel_info) = AF_INET6 then
          v1_EncodeV6RxTunnelTableEntry te tunnel_info p4info insert_entry
        else te);
     v1_send_write g session (put_write_entry table_entry entry write_request) w
   }"

definition v1_WriteTunnelTermTableEntry ::
    "'e grpc_env \<Rightarrow> OvsP4rtSession \<Rightarrow> tunnel_info \<Rightarrow> P4Info \<Rightarrow> bool \<Rightarrow> ('c, 'e) world \<Rightarrow>
     (('c, 'e) world, Status) result" where
  "v1_WriteTunnelTermTableEntry g session tunnel_info p4info insert_entry w = do {
     let (table_entry, write_request) = v1_setup_write session insert_entry;
     let te = write_entry table_entry write_request;
     let (entry, lines) =
       (if ip_family (ti_local_ip tunnel_info) = AF_INET \<and>
           ip_family (ti_remote_ip tunnel_info) = AF_INET then
          v1_EncodeTunnelTermTableEntry te tunnel_info p4info insert_entry
        else if ip_family (ti_local_ip tunnel_info) = AF_INET6 \<and>
           ip_family (ti_remote_ip tunnel_info) = AF_INET6 then
          v1_EncodeV6TunnelTermTableEntry te tunnel_info p4info insert_entry
        else (te, []));
     v1_send_write g session (put_write_entry table_entry entry write_request) (print_lines lines w)
   }"

definition v1_dpdk_WriteTunnelTermTableEntry ::
    "'e grpc_env \<Rightarrow> OvsP4rtSession \<Rightarrow> tunnel_info \<Rightarrow> P4Info \<Rightarrow> bool \<Rightarrow> ('c, 'e) world \<Rightarrow>
     (('c, 'e) world, Status) result" where
  "v1_dpdk_WriteTunnelTermTableEntry g session tunnel_info p4info insert_entry w = do {
     let (table_entry, write_request) = v1_setup_write session insert_entry;
     let entry = v1_dpdk_EncodeTunnelTermTableEntry (write_entry table_entry write_request)
           tunnel_info p4info insert_entry;
     v1_send_write g session (put_write_entry table_entry entry write_request) w
   }"

definition v1_WriteDstIpMacMapTableEntry ::
    "'e grpc_env \<Rightarrow> OvsP4rtSession \<Rightarrow> ip_mac_map_info \<Rightarrow> P4Info \<Rightarrow> bool \<Rightarrow> ('c, 'e) world \<Rightarrow>
     (('c, 'e) world, Status) result" where
  "v1_WriteDstIpMacMapTableEntry g session ip_info p4info insert_entry w = do {
     let (table_entry, write_request) = v1_setup_write session insert_entry;
     let (entry, detail) = v1_EncodeDstIpMacMapTableEntry (write_entry table_entry write_request)
           ip_info p4info insert_entry default_DiagDetail;
     (status, w) \<leftarrow> v1_send_write g session (put_write_entry table_entry entry write_request) w;
     Some (status,
       if \<not> ok status
       then LogFailure insert_entry (getLogTableName detail) w
       else w)
   }"

definition v1_WriteSrcIpMacMapTableEntry ::
    "'e grpc_env \<Rightarrow> OvsP4rtSession \<Rightarrow> ip_mac_map_info \<Rightarrow> P4Info \<Rightarrow> bool \<Rightarrow> ('c, 'e) world \<Rightarrow>
     (('c, 'e) world, Status) result" where
  "v1_WriteSrcIpMacMapTableEntry g session ip_info p4info insert_entry w = do {
     let (table_entry, write_request) = v1_setup_write session insert_entry;
     let (entry, detail) = v1_EncodeSrcIpMacMapTableEntry (write_entry table_entry write_request)
           ip_info p4info insert_entry default_DiagDetail;
     (status, w) \<leftarrow> v1_send_write g session (put_write_entry table_entry entry write_request) w;
     Some (status,
       if \<not> ok status
       then LogFailure insert_entry (getLogTableName detail) w
       else w)
   }"

section \<open>The host port of a VSI\<close>

text \<open>\<open>int(s2[i])\<close>: \<open>s2[i]\<close> is the terminating zero at the end of the string and undefined
  behind it; whether a \<open>char\<close> is signed depends on the platform.\<close>

definition v1_byte_at :: "bytes \<Rightarrow> nat \<Rightarrow> u8 option" where
  "v1_byte_at s i =
     (if i < length s then Some (s ! i) else if i = length s then Some 0 else None)"

definition int_of_char :: "bool \<Rightarrow> u8 \<Rightarrow> u32" where
  "int_of_char char_signed c = (if char_signed then scast c else ucast c)"

fun v1_port_bytes :: "bool \<Rightarrow> bytes \<Rightarrow> nat list \<Rightarrow> u32 \<Rightarrow> u32 option" where
  "v1_port_bytes char_signed s2 [] host_sp = Some host_sp"
| "v1_port_bytes char_signed s2 (param_bytes # rest) host_sp = do {
     c \<leftarrow> v1_byte_at s2 param_bytes;
     v1_port_bytes char_signed s2 rest (push_bit 8 host_sp OR int_of_char char_signed c)
   }"

text \<open>The loop over the parameters of an entity stops at the first match, the loop over the
  entities does not, and \<open>host_sp\<close> is carried on.\<close>

fun v1_port_params :: "bool \<Rightarrow> u32 \<Rightarrow> Param list \<Rightarrow> u32 \<Rightarrow> u32 option" where
  "v1_port_params char_signed param_id [] host_sp = Some host_sp"
| "v1_port_params char_signed param_id (param # params) host_sp =
     (if param_id = par_param_id param
      then v1_port_bytes char_signed (par_value param) [0..<4] host_sp
      else v1_port_params char_signed param_id params host_sp)"

fun v1_port_entities :: "bool \<Rightarrow> u32 \<Rightarrow> TableEntry list \<Rightarrow> u32 \<Rightarrow> u32 option" where
  "v1_port_entities char_signed param_id [] host_sp = Some host_sp"
| "v1_port_entities char_signed param_id (table_entry_1 # entities) host_sp = do {
     host_sp \<leftarrow>
       v1_port_params char_signed param_id (act_params (the_action table_entry_1)) host_sp;
     v1_port_entities char_signed param_id entities host_sp
   }"

definition v1_host_port :: "bool \<Rightarrow> P4Info \<Rightarrow> ReadResponse \<Rightarrow> u32 option" where
  "v1_host_port char_signed p4info read_response =
     (let param_id = v1_GetParamId p4info TX_ACC_VSI_TABLE_ACTION_L2_FWD_AND_BYPASS_BRIDGE
                       ACTION_L2_FWD_AND_BYPASS_BRIDGE_PARAM_PORT
      in v1_port_entities char_signed param_id (rs_entities read_response) 0)"

section \<open>The C interface\<close>

text \<open>The code every function starts with: a session is created and the pipeline is
  fetched; a failure ends the call.\<close>

definition v1_with_session ::
    "'e grpc_env \<Rightarrow> client_flags \<Rightarrow> string \<Rightarrow>
     (OvsP4rtSession \<Rightarrow> P4Info \<Rightarrow> (unit, 'e) world \<Rightarrow> ((unit, 'e) world, unit) result) \<Rightarrow>
     'e outside \<Rightarrow> 'e outside option" where
  "v1_with_session g flags grpc_addr body io =
     (let (credentials, w) =
            GenerateClientCredentials g \<lparr>w_client = (), w_env = fst io, w_out = snd io\<rparr>;
          (status_or_session, e) = Create_addr g grpc_addr credentials
             (ucast (FLAGS_device_id flags)) (FLAGS_role_name flags)
             (TimeBasedElectionId g (w_env w)) (w_env w);
          w = w\<lparr>w_env := e\<rparr>
      in case status_or_session of
           Inl status \<Rightarrow> Some (w_env w, w_out w)
         | Inr session \<Rightarrow>
             (let ((status, p4info), e) = GetForwardingPipelineConfig g session (w_env w);
                  w = w\<lparr>w_env := e\<rparr>
              in if \<not> ok status then Some (w_env w, w_out w)
                 else do {
                   (_, w) \<leftarrow> body session p4info w;
                   Some (w_env w, w_out w)
                 }))"

subsection \<open>FDB entries\<close>

text \<open>\<^verbatim>\<open>ovsp4rt_config_fdb_entry\<close> of the ES2K target in three parts: finding out whether a
  deleted address is behind a tunnel, the tunnel branch and the VLAN branch.\<close>

definition v1_update_tunnel_info ::
    "'e grpc_env \<Rightarrow> OvsP4rtSession \<Rightarrow> mac_learning_info \<Rightarrow> P4Info \<Rightarrow> ('c, 'e) world \<Rightarrow>
     (('c, 'e) world, mac_learning_info) result" where
  "v1_update_tunnel_info g session learn_info p4info w = do {
     (status_or_read_response, w) \<leftarrow> v1_ReadL2ToTunnelV4TableEntry g session learn_info p4info w;
     let learn_info = (if status_or_ok status_or_read_response
                       then learn_info\<lparr>ml_is_tunnel := True\<rparr> else learn_info);
     if \<not> ml_is_tunnel learn_info then do {
       (status_or_read_response, w) \<leftarrow> v1_ReadL2ToTunnelV6TableEntry g session learn_info p4info w;
       let tnl_info = ml_tnl_info learn_info;
       Some (if status_or_ok status_or_read_response
             then learn_info\<lparr>ml_is_tunnel := True,
                    ml_tnl_info := tnl_info\<lparr>
                      ti_local_ip := (ti_local_ip tnl_info)\<lparr>ip_family := AF_INET6\<rparr>,
                      ti_remote_ip := (ti_remote_ip tnl_info)\<lparr>ip_family := AF_INET6\<rparr>\<rparr>\<rparr>
             else learn_info, w)
     }
     else Some (learn_info, w)
   }"

definition v1_fdb_tunnel ::
    "'e grpc_env \<Rightarrow> OvsP4rtSession \<Rightarrow> mac_learning_info \<Rightarrow> P4Info \<Rightarrow> bool \<Rightarrow> ('c, 'e) world \<Rightarrow>
     (('c, 'e) world, unit) result" where
  "v1_fdb_tunnel g session learn_info p4info insert_entry w = do {
     (exists, w) \<leftarrow>
       (if insert_entry then do {
          (status_or_read_response, w) \<leftarrow>
            v1_ReadFdbTunnelTableEntry g session learn_info p4info True w;
          Some (status_or_ok status_or_read_response, w)
        } else Some (False, w));
     if exists then Some ((), w)
     else do {
       (_, w) \<leftarrow> v1_WriteFdbTunnelTableEntry g session learn_info p4info insert_entry w;
       (_, w) \<leftarrow> v1_WriteL2TunnelTableEntry g session learn_info p4info insert_entry w;
       (_, w) \<leftarrow> v1_WriteFdbSmacTableEntry g session learn_info p4info insert_entry w;
       Some ((), w)
     }
   }"

text \<open>\<open>None\<close> of the inner result is an early return.\<close>

definition v1_fdb_vlan ::
    "'e grpc_env \<Rightarrow> bool \<Rightarrow> OvsP4rtSession \<Rightarrow> mac_learning_info \<Rightarrow> P4Info \<Rightarrow> bool \<Rightarrow> ('c, 'e) world \<Rightarrow>
     (('c, 'e) world, unit) result" where
  "v1_fdb_vlan g char_signed session learn_info p4info insert_entry w = do {
     (r, w) \<leftarrow>
       (if insert_entry then do {
          (status_or_read_response, w) \<leftarrow>
            v1_ReadFdbVlanTableEntry g session learn_info p4info True w;
          if status_or_ok status_or_read_response then Some (None, w)
          else do {
            (_, w) \<leftarrow> v1_WriteFdbRxVlanTableEntry g session learn_info p4info insert_entry w;
            (status_or_read_response, w) \<leftarrow>
              v1_ReadTxAccVsiTableEntry g session (ml_src_port learn_info) p4info w;
            case status_or_read_response of
              Inl status \<Rightarrow> Some (None, w)
            | Inr read_response \<Rightarrow> do {
                host_sp \<leftarrow> v1_host_port char_signed p4info read_response;
                Some (Some (learn_info\<lparr>ml_src_port := host_sp\<rparr>), w)
              }
          }
        } else Some (Some learn_info, w));
     case r of
       None \<Rightarrow> Some ((), w)
     | Some learn_info \<Rightarrow> do {
         (_, w) \<leftarrow> v1_WriteFdbTxVlanTableEntry g session learn_info p4info insert_entry w;
         (_, w) \<leftarrow> v1_WriteFdbSmacTableEntry g session learn_info p4info insert_entry w;
         Some ((), w)
       }
   }"

definition v1_fdb_body ::
    "'e grpc_env \<Rightarrow> bool \<Rightarrow> mac_learning_info \<Rightarrow> bool \<Rightarrow> OvsP4rtSession \<Rightarrow> P4Info \<Rightarrow>
     ('c, 'e) world \<Rightarrow> (('c, 'e) world, unit) result" where
  "v1_fdb_body g char_signed learn_info insert_entry session p4info w = do {
     (learn_info, w) \<leftarrow>
       (if \<not> insert_entry then v1_update_tunnel_info g session learn_info p4info w
        else Some (learn_info, w));
     if ml_is_tunnel learn_info then v1_fdb_tunnel g session learn_info p4info insert_entry w
     else v1_fdb_vlan g char_signed session learn_info p4info insert_entry w
   }"

definition v1_dpdk_fdb_body ::
    "'e grpc_env \<Rightarrow> mac_learning_info \<Rightarrow> bool \<Rightarrow> OvsP4rtSession \<Rightarrow> P4Info \<Rightarrow>
     ('c, 'e) world \<Rightarrow> (('c, 'e) world, unit) result" where
  "v1_dpdk_fdb_body g learn_info insert_entry session p4info w =
     (if ml_is_tunnel learn_info then do {
        (_, w) \<leftarrow> v1_dpdk_WriteFdbTunnelTableEntry g session learn_info p4info insert_entry w;
        Some ((), w)
      }
      else if ml_is_vlan learn_info then do {
        (status, w) \<leftarrow> v1_dpdk_WriteFdbTxVlanTableEntry g session learn_info p4info insert_entry w;
        if \<not> ok status then Some ((), w)
        else do {
          (_, w) \<leftarrow> v1_dpdk_WriteFdbRxVlanTableEntry g session learn_info p4info insert_entry w;
          Some ((), w)
        }
      }
      else Some ((), w))"

definition v1_ovsp4rt_config_fdb_entry ::
    "target \<Rightarrow> bool \<Rightarrow> 'e grpc_env \<Rightarrow> client_flags \<Rightarrow> mac_learning_info \<Rightarrow> bool \<Rightarrow> string \<Rightarrow>
     'e outside \<Rightarrow> 'e outside option" where
  "v1_ovsp4rt_config_fdb_entry target char_signed g flags learn_info insert_entry grpc_addr io =
     (case target of
        ES2K_TARGET \<Rightarrow>
          v1_with_session g flags grpc_addr (v1_fdb_body g char_signed learn_info insert_entry) io
      | DPDK_TARGET \<Rightarrow>
          v1_with_session g flags grpc_addr (v1_dpdk_fdb_body g learn_info insert_entry) io)"

subsection \<open>Source ports and VLANs\<close>

definition v1_ovsp4rt_config_rx_tunnel_src_entry ::
    "target \<Rightarrow> 'e grpc_env \<Rightarrow> client_flags \<Rightarrow> tunnel_info \<Rightarrow> bool \<Rightarrow> string \<Rightarrow>
     'e outside \<Rightarrow> 'e outside option" where
  "v1_ovsp4rt_config_rx_tunnel_src_entry target g flags tunnel_info insert_entry grpc_addr io =
     (case target of
        DPDK_TARGET \<Rightarrow> Some io
      | ES2K_TARGET \<Rightarrow>
          v1_with_session g flags grpc_addr
            (\<lambda>session p4info w. do {
               (status, w) \<leftarrow>
                 v1_WriteRxTunnelSrcPortTableEntry g session tunnel_info p4info insert_entry w;
               Some ((), w)
             }) io)"

definition v1_ovsp4rt_config_tunnel_src_port_entry ::
    "target \<Rightarrow> 'e grpc_env \<Rightarrow> client_flags \<Rightarrow> src_port_info \<Rightarrow> bool \<Rightarrow> string \<Rightarrow>
     'e outside \<Rightarrow> 'e outside option" where
  "v1_ovsp4rt_config_tunnel_src_port_entry target g flags tnl_sp insert_entry grpc_addr io =
     (case target of
        DPDK_TARGET \<Rightarrow> Some io
      | ES2K_TARGET \<Rightarrow>
          v1_with_session g flags grpc_addr
            (\<lambda>session p4info w. do {
               let (table_entry, write_request) = v1_setup_write session insert_entry;
               let entry = v1_EncodeSrcPortTableEntry (write_entry table_entry write_request)
                     tnl_sp p4info insert_entry;
               (status, w) \<leftarrow>
                 v1_send_write g session (put_write_entry table_entry entry write_request) w;
               Some ((), w)
             }) io)"

definition v1_ovsp4rt_config_src_port_entry ::
    "target \<Rightarrow> bool \<Rightarrow> 'e grpc_env \<Rightarrow> client_flags \<Rightarrow> src_port_info \<Rightarrow> bool \<Rightarrow> string \<Rightarrow>
     'e outside \<Rightarrow> 'e outside option" where
  "v1_ovsp4rt_config_src_port_entry target char_signed g flags vsi_sp insert_entry grpc_addr io =
     (case target of
        DPDK_TARGET \<Rightarrow> Some io
      | ES2K_TARGET \<Rightarrow>
          v1_with_session g flags grpc_addr
            (\<lambda>session p4info w. do {
               (status_or_read_response, w) \<leftarrow>
                 v1_ReadTxAccVsiTableEntry g session (sp_src_port vsi_sp) p4info w;
               case status_or_read_response of
                 Inl status \<Rightarrow> Some ((), w)
               | Inr read_response \<Rightarrow> do {
                   host_sp \<leftarrow> v1_host_port char_signed p4info read_response;
                   (status, w) \<leftarrow> v1_ConfigureVsiSrcPortTableEntry g session
                     (vsi_sp\<lparr>sp_src_port := host_sp\<rparr>) p4info insert_entry w;
                   Some ((), w)
                 }
             }) io)"

definition v1_ovsp4rt_config_vlan_entry ::
    "target \<Rightarrow> 'e grpc_env \<Rightarrow> client_flags \<Rightarrow> u16 \<Rightarrow> bool \<Rightarrow> string \<Rightarrow>
     'e outside \<Rightarrow> 'e outside option" where
  "v1_ovsp4rt_config_vlan_entry target g flags vlan_id insert_entry grpc_addr io =
     (case target of
        DPDK_TARGET \<Rightarrow> Some io
      | ES2K_TARGET \<Rightarrow>
          v1_with_session g flags grpc_addr
            (\<lambda>session p4info w. do {
               (status, w) \<leftarrow> v1_WriteVlanPushTableEntry g session vlan_id p4info insert_entry w;
               if \<not> ok status then Some ((), w)
               else do {
                 (status, w) \<leftarrow> v1_WriteVlanPopTableEntry g session vlan_id p4info insert_entry w;
                 Some ((), w)
               }
             }) io)"

subsection \<open>Tunnels\<close>

definition v1_tunnel_body ::
    "'e grpc_env \<Rightarrow> tunnel_info \<Rightarrow> bool \<Rightarrow> OvsP4rtSession \<Rightarrow> P4Info \<Rightarrow>
     ('c, 'e) world \<Rightarrow> (('c, 'e) world, unit) result" where
  "v1_tunnel_body g tunnel_info insert_entry session p4info w = do {
     (status, w) \<leftarrow> v1_WriteEncapTableEntry g session tunnel_info p4info insert_entry w;
     if \<not> ok status then Some ((), w)
     else do {
       (status, w) \<leftarrow> v1_WriteDecapTableEntry g session tunnel_info p4info insert_entry w;
       if \<not> ok status then Some ((), w)
       else do {
         (status, w) \<leftarrow> v1_WriteTunnelTermTableEntry g session tunnel_info p4info insert_entry w;
         Some ((), w)
       }
     }
   }"

definition v1_dpdk_tunnel_body ::
    "'e grpc_env \<Rightarrow> tunnel_info \<Rightarrow> bool \<Rightarrow> OvsP4rtSession \<Rightarrow> P4Info \<Rightarrow>
     ('c, 'e) world \<Rightarrow> (('c, 'e) world, unit) result" where
  "v1_dpdk_tunnel_body g tunnel_info insert_entry session p4info w = do {
     (status, w) \<leftarrow> v1_dpdk_WriteEncapTableEntry g session tunnel_info p4info insert_entry w;
     if \<not> ok status then Some ((), w)
     else do {
       (status, w) \<leftarrow> v1_dpdk_WriteTunnelTermTableEntry g session tunnel_info p4info insert_entry w;
       Some ((), w)
     }
   }"

definition v1_ovsp4rt_config_tunnel_entry ::
    "target \<Rightarrow> 'e grpc_env \<Rightarrow> client_flags \<Rightarrow> tunnel_info \<Rightarrow> bool \<Rightarrow> string \<Rightarrow>
     'e outside \<Rightarrow> 'e outside option" where
  "v1_ovsp4rt_config_tunnel_entry target g flags tunnel_info insert_entry grpc_addr io =
     v1_with_session g flags grpc_addr
       (case target of
          ES2K_TARGET \<Rightarrow> v1_tunnel_body g tunnel_info insert_entry
        | DPDK_TARGET \<Rightarrow> v1_dpdk_tunnel_body g tunnel_info insert_entry) io"

subsection \<open>IP-to-MAC entries\<close>

definition v1_ip_mac_map_body ::
    "'e grpc_env \<Rightarrow> ip_mac_map_info \<Rightarrow> bool \<Rightarrow> OvsP4rtSession \<Rightarrow> P4Info \<Rightarrow>
     ('c, 'e) world \<Rightarrow> (('c, 'e) world, unit) result" where
  "v1_ip_mac_map_body g ip_info insert_entry session p4info w = do {
     (try_dstip, w) \<leftarrow>
       (if insert_entry then do {
          (status_or_read_response, w) \<leftarrow> v1_ReadVmSrcTableEntry g session ip_info p4info w;
          Some (status_or_ok status_or_read_response, w)
        } else Some (False, w));
     (_, w) \<leftarrow>
       (if \<not> try_dstip \<and> v1_ValidIpAddr (v4addr_s_addr (im_src_ip_addr ip_info)) then
          v1_WriteSrcIpMacMapTableEntry g session ip_info p4info insert_entry w
        else Some (OkStatus, w));
     (found, w) \<leftarrow>
       (if insert_entry then do {
          (status_or_read_response, w) \<leftarrow> v1_ReadVmDstTableEntry g session ip_info p4info w;
          Some (status_or_ok status_or_read_response, w)
        } else Some (False, w));
     if found then Some ((), w)
     else if v1_ValidIpAddr (v4addr_s_addr (im_src_ip_addr ip_info)) then do {
       (_, w) \<leftarrow> v1_WriteDstIpMacMapTableEntry g session ip_info p4info insert_entry w;
       Some ((), w)
     } else Some ((), w)
   }"

definition v1_ovsp4rt_config_ip_mac_map_entry ::
    "target \<Rightarrow> 'e grpc_env \<Rightarrow> client_flags \<Rightarrow> ip_mac_map_info \<Rightarrow> bool \<Rightarrow> string \<Rightarrow>
     'e outside \<Rightarrow> 'e outside option" where
  "v1_ovsp4rt_config_ip_mac_map_entry target g flags ip_info insert_entry grpc_addr io =
     (case target of
        DPDK_TARGET \<Rightarrow> Some io
      | ES2K_TARGET \<Rightarrow>
          v1_with_session g flags grpc_addr (v1_ip_mac_map_body g ip_info insert_entry) io)"

end
