(* ===== verification/V1_Equivalence.thy ===== *)
theory V1_Equivalence
  imports V1_Core Api_Server
begin

text \<open>
  The core of version 1 against the core of version 3. The two are related by
  \<open>same_session\<close>: the client of version 3 holds the session version 1 works with, the
  environment is the same and, where \<open>out\<close> is set, so is the output. Each function of
  version 1 is simulated by the functions of version 3; the differences between the two
  are the conditions of the lemmas.
\<close>

section \<open>The simulation\<close>

definition same_session ::
    "bool \<Rightarrow> OvsP4rtSession \<Rightarrow> (Client, 'e) world \<Rightarrow> (unit, 'e) world \<Rightarrow> bool" where
  "same_session out s w v \<longleftrightarrow>
     cl_session (w_client w) = Some s \<and> w_env v = w_env w \<and> (out \<longrightarrow> w_out v = w_out w)"

lemma same_session_log:
  assumes "same_session out s w v"
  shows "same_session out s (LogFailure b t w) (LogFailure b t v)"
    and "out \<longrightarrow> t = t' \<Longrightarrow>
      same_session out s (LogFailureWithMacAddr b t m w) (LogFailureWithMacAddr b t' m v)"
    and "same_session out s (print_lines ls w) (print_lines ls v)"
  using assms
  by (auto simp: same_session_def LogFailure_def LogFailureWithMacAddr_def ovsp4rt_log_message_def)

lemma same_session_ready: "same_session out s w v \<Longrightarrow> Client_ready (w_client w)"
  by (simp add: same_session_def Client_ready_def)

lemma v1_write_request:
  "put_write_entry (fst (v1_setup_write s b)) te (snd (v1_setup_write s b)) =
     single_write (ucast (ses_device_id s)) (ses_election_id s) b te"
  "write_entry (fst (v1_setup_write s b)) (snd (v1_setup_write s b)) = empty_TableEntry"
  by (simp_all add: v1_setup_write_def SetupTableEntryToInsert_def SetupTableEntryToDelete_def
      empty_WriteRequest_def put_write_entry_def write_entry_def single_write_def write_type_def)

lemma v1_read_request:
  "put_read_entry (fst (SetupTableEntryToRead s empty_ReadRequest)) te
     (snd (SetupTableEntryToRead s empty_ReadRequest)) = single_read (ucast (ses_device_id s)) te"
  "read_entry (fst (SetupTableEntryToRead s empty_ReadRequest))
     (snd (SetupTableEntryToRead s empty_ReadRequest)) = empty_TableEntry"
  by (simp_all add: SetupTableEntryToRead_def empty_ReadRequest_def put_read_entry_def
      read_entry_def single_read_def)

text \<open>One write and one read of version 1 are those of the production client.\<close>

lemma v1_write_sim:
  assumes "same_session out s w v"
  shows "simulates (=) (same_session out s) (cl.send_entry g flags b te w)
    (v1_send_write g s (single_write (ucast (ses_device_id s)) (ses_election_id s) b te) v)"
  using assms
  by (auto simp: same_session_def cl_send_entry v1_send_write_def server_write_def Let_def
      split: prod.split)

lemma v1_read_sim:
  assumes "same_session out s w v"
  shows "simulates (=) (same_session out s) (cl.read_key g flags te w)
    (v1_send_read g s (single_read (ucast (ses_device_id s)) te) v)"
  using assms
  by (auto simp: same_session_def cl_read_key v1_send_read_def server_read_def Let_def
      split: prod.split)

lemma v1_mac_logged_sim:
  assumes "same_session out s w v" and "out \<longrightarrow> d = snd r"
  shows "simulates (=) (same_session out s)
    (cl.send_logged g flags (\<lambda>t. LogFailureWithMacAddr b t m) b r w)
    (v1_send_write g s (single_write (ucast (ses_device_id s)) (ses_election_id s) b (fst r)) v \<bind>
      (\<lambda>(status, v). Some (status,
         if \<not> ok status then LogFailureWithMacAddr b (getLogTableName d) m v else v)))"
  unfolding cl.send_logged_def
  by (rule simulates_bind [OF v1_write_sim [OF assms(1)]]) (use assms(2) in \<open>auto intro: same_session_log\<close>)

lemma v1_logged_sim:
  assumes "same_session out s w v"
  shows "simulates (=) (same_session out s) (cl.send_logged g flags (LogFailure b) b r w)
    (v1_send_write g s (single_write (ucast (ses_device_id s)) (ses_election_id s) b (fst r)) v \<bind>
      (\<lambda>(status, v). Some (status,
         if \<not> ok status then LogFailure b (getLogTableName (snd r)) v else v)))"
  unfolding cl.send_logged_def
  by (rule simulates_bind [OF v1_write_sim [OF assms]]) (auto intro: same_session_log)

lemmas v1_simps = Let_def case_prod_beta v1_write_request v1_read_request v1_encoders

section \<open>Writing one entry\<close>

lemma v1_fdb_write_sims:
  assumes "same_session out s w v"
  shows "simulates (=) (same_session out s) (WriteFdbSmacTableEntry (Client_vtable g flags) i p b w)
      (v1_WriteFdbSmacTableEntry g s i p b v)"
    and "simulates (=) (same_session out s) (WriteL2TunnelTableEntry (Client_vtable g flags) i p b w)
      (v1_WriteL2TunnelTableEntry g s i p b v)"
    and "simulates (=) (same_session out s) (WriteFdbTxVlanTableEntry (Client_vtable g flags) i p b w)
      (v1_WriteFdbTxVlanTableEntry g s i p b v)"
    and "simulates (=) (same_session out s) (WriteFdbRxVlanTableEntry (Client_vtable g flags) i p b w)
      (v1_WriteFdbRxVlanTableEntry g s i p b v)"
    and "simulates (=) (same_session out s)
      (dpdk_WriteFdbTxVlanTableEntry (Client_vtable g flags) i p b w)
      (v1_dpdk_WriteFdbTxVlanTableEntry g s i p b v)"
    and "simulates (=) (same_session out s)
      (dpdk_WriteFdbRxVlanTableEntry (Client_vtable g flags) i p b w)
      (v1_dpdk_WriteFdbRxVlanTableEntry g s i p b v)"
    and "simulates (=) (same_session out s)
      (dpdk_WriteFdbTunnelTableEntry (Client_vtable g flags) i p b w)
      (v1_dpdk_WriteFdbTunnelTableEntry g s i p b v)"
  using v1_mac_logged_sim [OF assms, of _ _ g flags b "ml_mac_addr i"] same_session_ready [OF assms]
  by (simp_all add: v1_WriteFdbSmacTableEntry_def v1_WriteL2TunnelTableEntry_def
      v1_WriteFdbTxVlanTableEntry_def v1_WriteFdbRxVlanTableEntry_def
      v1_dpdk_WriteFdbTxVlanTableEntry_def v1_dpdk_WriteFdbRxVlanTableEntry_def
      v1_dpdk_WriteFdbTunnelTableEntry_def cl.WriteFdbSmac cl.WriteL2Tunnel cl.WriteFdbTxVlan
      cl.WriteFdbRxVlan cl.dpdk_WriteFdbTxVlan cl.dpdk_WriteFdbRxVlan cl.dpdk_WriteFdbTunnel
      PrepareL2TunnelTableEntry_def v1_simps cong: if_cong)

text \<open>For a delete of an unknown tunnel type version 1 names the table in the log message,
  version 3 does not.\<close>

lemma v1_fdb_tunnel_write_sim:
  assumes "same_session out s w v" and "out \<longrightarrow> b \<or> known_tunnel_type (ml_tnl_info i)"
  shows "simulates (=) (same_session out s)
      (WriteFdbTunnelTableEntry (Client_vtable g flags) i p b w)
      (v1_WriteFdbTunnelTableEntry g s i p b v)"
proof -
  have e: "fst (EncodeFdbTableEntryforV4VxlanTunnel te i p False d) =
      EncodeL2FwdTxTablePrologue te i p" for te d
    by (simp add: EncodeFdbTableEntryforV4VxlanTunnel_def Let_def)
  show ?thesis
    using v1_mac_logged_sim [OF assms(1), of _
        "PrepareFdbTunnelTableEntry empty_TableEntry i p b default_DiagDetail" g flags b "ml_mac_addr i"]
      same_session_ready [OF assms(1)] assms(2)
    by (auto simp: v1_WriteFdbTunnelTableEntry_def cl.WriteFdbTunnel PrepareFdbTunnelTableEntry_def
        known_tunnel_type_def e v1_simps cong: if_cong)
qed

lemma v1_ip_mac_write_sims:
  assumes "same_session out s w v"
  shows "simulates (=) (same_session out s) (WriteSrcIpMacMapTableEntry (Client_vtable g flags) m p b w)
      (v1_WriteSrcIpMacMapTableEntry g s m p b v)"
    and "simulates (=) (same_session out s) (WriteDstIpMacMapTableEntry (Client_vtable g flags) m p b w)
      (v1_WriteDstIpMacMapTableEntry g s m p b v)"
  using v1_logged_sim [OF assms, of g flags b] same_session_ready [OF assms]
  by (simp_all add: v1_WriteSrcIpMacMapTableEntry_def v1_WriteDstIpMacMapTableEntry_def
      cl.WriteSrcIpMacMap cl.WriteDstIpMacMap v1_simps cong: if_cong)

lemma v1_plain_write_sims:
  assumes "same_session out s w v"
  shows "simulates (=) (same_session out s) (WriteVlanPushTableEntry (Client_vtable g flags) n p b w)
      (v1_WriteVlanPushTableEntry g s n p b v)"
    and "simulates (=) (same_session out s) (WriteVlanPopTableEntry (Client_vtable g flags) n p b w)
      (v1_WriteVlanPopTableEntry g s n p b v)"
    and "simulates (=) (same_session out s) (WriteVsiSrcPortTableEntry (Client_vtable g flags) sp p b w)
      (v1_ConfigureVsiSrcPortTableEntry g s sp p b v)"
    and "simulates (=) (same_session out s)
      (WriteRxTunnelSrcPortTableEntry (Client_vtable g flags) t p b w)
      (v1_WriteRxTunnelSrcPortTableEntry g s t p b v)"
    and "simulates (=) (same_session out s)
      (dpdk_WriteEncapTableEntry (Client_vtable g flags) t p b w)
      (v1_dpdk_WriteEncapTableEntry g s t p b v)"
    and "simulates (=) (same_session out s)
      (dpdk_WriteTunnelTermTableEntry (Client_vtable g flags) t p b w)
      (v1_dpdk_WriteTunnelTermTableEntry g s t p b v)"
  using v1_write_sim [OF assms, of g flags b] same_session_ready [OF assms]
  by (simp_all add: v1_WriteVlanPushTableEntry_def v1_WriteVlanPopTableEntry_def
      v1_ConfigureVsiSrcPortTableEntry_def v1_WriteRxTunnelSrcPortTableEntry_def
      v1_dpdk_WriteEncapTableEntry_def v1_dpdk_WriteTunnelTermTableEntry_def cl.WriteVlanPush
      cl.WriteVlanPop cl.WriteVsiSrcPort cl.WriteRxTunnelSrcPort cl.dpdk_WriteEncap
      cl.dpdk_WriteTunnelTerm PrepareRxTunnelSrcPortTableEntry_def v1_simps cong: if_cong)

lemma v1_tunnel_write_sims:
  assumes "same_session out s w v"
  shows "simulates (=) (same_session out s) (WriteEncapTableEntry (Client_vtable g flags) t p b w)
      (v1_WriteEncapTableEntry g s t p b v)"
    and "simulates (=) (same_session out s) (WriteDecapTableEntry (Client_vtable g flags) t p b w)
      (v1_WriteDecapTableEntry g s t p b v)"
    and "simulates (=) (same_session out s) (WriteTunnelTermTableEntry (Client_vtable g flags) t p b w)
      (v1_WriteTunnelTermTableEntry g s t p b v)"
  using v1_write_sim [where g = g and flags = flags and b = b, OF same_session_log(3) [OF assms]] same_session_ready [OF assms]
  by (simp_all add: v1_WriteEncapTableEntry_def v1_WriteDecapTableEntry_def
      v1_WriteTunnelTermTableEntry_def cl.WriteEncap cl.WriteDecap cl.WriteTunnelTerm
      PrepareEncapTableEntry_def PrepareDecapTableEntry_def PrepareTunnelTermTableEntry_def v1_simps
      cong: if_cong)

section \<open>Reading one entry\<close>

lemma v1_read_sims:
  assumes "same_session out s w v"
  shows "simulates (=) (same_session out s) (ReadL2ToTunnelV4TableEntry (Client_vtable g flags) i p w)
      (v1_ReadL2ToTunnelV4TableEntry g s i p v)"
    and "simulates (=) (same_session out s) (ReadL2ToTunnelV6TableEntry (Client_vtable g flags) i p w)
      (v1_ReadL2ToTunnelV6TableEntry g s i p v)"
    and "simulates (=) (same_session out s) (ReadVmSrcTableEntry (Client_vtable g flags) m p w)
      (v1_ReadVmSrcTableEntry g s m p v)"
    and "simulates (=) (same_session out s) (ReadVmDstTableEntry (Client_vtable g flags) m p w)
      (v1_ReadVmDstTableEntry g s m p v)"
    and "simulates (=) (same_session out s) (ReadTxAccVsiTableEntry (Client_vtable g flags) sp p w)
      (v1_ReadTxAccVsiTableEntry g s sp p v)"
  using v1_read_sim [OF assms, of g flags] same_session_ready [OF assms]
  by (simp_all add: v1_ReadL2ToTunnelV4TableEntry_def v1_ReadL2ToTunnelV6TableEntry_def
      v1_ReadVmSrcTableEntry_def v1_ReadVmDstTableEntry_def v1_ReadTxAccVsiTableEntry_def
      cl.ReadL2ToTunnelV4 cl.ReadL2ToTunnelV6 cl.ReadVmSrc cl.ReadVmDst cl.ReadTxAccVsi v1_simps)

section \<open>The functions of the C interface\<close>

abbreviation any :: "'a \<Rightarrow> 'b \<Rightarrow> bool" where
  "any \<equiv> \<lambda>_ _. True"

text \<open>Version 1 drops a status where version 3 returns it.\<close>

lemma simulates_drop:
  "simulates Q R m m' \<Longrightarrow> simulates any R m (m' \<bind> (\<lambda>(_, w). Some ((), w)))"
  by (cases m; cases m') (auto simp: simulates_def)

lemma session_bind:
  assumes "simulates (=) (same_session out s) m m'"
    and "\<And>r v w. same_session out s v w \<Longrightarrow> simulates Q S (f (r, v)) (f' (r, w))"
  shows "simulates Q S (m \<bind> f) (m' \<bind> f')"
  using assms by (auto intro: simulates_bind)

lemma v1_vlan_sim:
  assumes "same_session out s w v"
  shows "simulates any (same_session out s) (ConfigVlanEntry (Client_vtable g flags) n p b w)
    (v1_WriteVlanPushTableEntry g s n p b v \<bind> (\<lambda>(status, w).
       if \<not> ok status then Some ((), w)
       else v1_WriteVlanPopTableEntry g s n p b w \<bind> (\<lambda>(_, w). Some ((), w))))"
  unfolding ConfigVlanEntry_def
  by (rule simulates_bind [OF v1_plain_write_sims(1) [OF assms]])
    (auto intro!: simulates_drop v1_plain_write_sims)

lemma v1_tunnel_sim:
  assumes "same_session out s w v"
  shows "simulates any (same_session out s) (ConfigTunnelEntry (Client_vtable g flags) t p b w)
    (v1_tunnel_body g t b s p v)"
  unfolding ConfigTunnelEntry_def v1_tunnel_body_def
  by (rule session_bind [OF v1_tunnel_write_sims(1) [OF assms]])
    (auto intro!: session_bind [OF v1_tunnel_write_sims(2)] simulates_drop [OF v1_tunnel_write_sims(3)])

lemma v1_dpdk_tunnel_sim:
  assumes "same_session out s w v"
  shows "simulates any (same_session out s) (dpdk_ConfigTunnelEntry (Client_vtable g flags) t p b w)
    (v1_dpdk_tunnel_body g t b s p v)"
  unfolding dpdk_ConfigTunnelEntry_def v1_dpdk_tunnel_body_def
  by (rule session_bind [OF v1_plain_write_sims(5) [OF assms]])
    (auto intro!: simulates_drop [OF v1_plain_write_sims(6)])

lemma v1_ip_mac_map_sim:
  assumes "same_session out s w v"
  shows "simulates any (same_session out s) (ConfigIpMacMapEntry (Client_vtable g flags) m p b w)
    (v1_ip_mac_map_body g m b s p v)"
  unfolding ConfigIpMacMapEntry_def v1_ip_mac_map_body_def v1_utils using assms
  by (auto intro!: session_bind [OF v1_read_sims(3)] session_bind [OF v1_read_sims(4)]
      session_bind [OF v1_ip_mac_write_sims(1)] session_bind [OF v1_ip_mac_write_sims(2)])

lemma v1_dpdk_fdb_sim:
  assumes "same_session out s w v"
  shows "simulates any (same_session out s) (dpdk_ConfigFdbEntry (Client_vtable g flags) i p b w)
    (v1_dpdk_fdb_body g i b s p v)"
  unfolding dpdk_ConfigFdbEntry_def v1_dpdk_fdb_body_def using assms
  by (auto intro!: session_bind [OF v1_fdb_write_sims(5)] simulates_drop [OF v1_fdb_write_sims(6)]
      simulates_drop [OF v1_fdb_write_sims(7)])

section \<open>From the body to the whole call\<close>

text \<open>The server's pipeline is \<open>p\<close>.\<close>

definition serves :: "'e grpc_env \<Rightarrow> P4Info \<Rightarrow> bool" where
  "serves g p \<longleftrightarrow> (\<forall>stub rq e. snd (fst (g_get_config g stub rq e)) = p)"

definition same_outside :: "bool \<Rightarrow> 'e outside \<Rightarrow> 'e outside \<Rightarrow> bool" where
  "same_outside out io io' \<longleftrightarrow> fst io = fst io' \<and> (out \<longrightarrow> snd io = snd io')"

lemma v1_session:
  fixes io :: "'e outside"
  obtains (failed) io' where
      "with_client (in_session (Client_vtable g flags) addr update) io = Some io'"
      "v1_with_session g flags addr body io = Some io'"
  | (opened) s p w v where "same_session out s w v" "\<And>q. serves g q \<Longrightarrow> p = q"
      "with_client (in_session (Client_vtable g flags) addr update) io =
         update p w \<bind> (\<lambda>(_, w). Some (w_env w, w_out w))"
      "v1_with_session g flags addr body io = body s p v \<bind> (\<lambda>(_, w). Some (w_env w, w_out w))"
proof -
  let ?w = "\<lparr>w_client = Client_new, w_env = fst io, w_out = snd io\<rparr>"
  let ?v = "\<lparr>w_client = (), w_env = fst io, w_out = snd io\<rparr>"
  obtain c v1 where c: "GenerateClientCredentials g ?v = (c, v1)" by fastforce
  then obtain w1 where w1: "GenerateClientCredentials g ?w = (c, w1)"
    "w_env w1 = w_env v1" "w_out w1 = w_out v1" "w_client w1 = Client_new"
    by (auto simp: GenerateClientCredentials_def split: if_splits)
  obtain r e where r: "Create_addr g addr c (ucast (FLAGS_device_id flags)) (FLAGS_role_name flags)
      (TimeBasedElectionId g (w_env v1)) (w_env v1) = (r, e)" by fastforce
  show thesis
  proof (cases r)
    case (Inl st)
    with r have "\<not> ok st" by (auto dest: Create_addr_error)
    with Inl c w1 r show ?thesis
      by (intro failed [of "(e, w_out v1)"])
        (simp_all add: v1_with_session_def with_client_def in_session_def Client_vtable_def
          Client_connect_def)
  next
    case (Inr s)
    obtain st p e' where pc: "g_get_config g (ses_stub s) \<lparr>gc_device_id = ucast (ses_device_id s),
        gc_response_type = ''P4INFO_AND_COOKIE''\<rparr> e = ((st, p), e')"
      by (metis prod.exhaust)
    then have p: "GetForwardingPipelineConfig g s e = ((OkStatus, p), e')"
      by (simp add: GetForwardingPipelineConfig_def)
    have "p = q" if "serves g q" for q
    proof -
      from that have "snd (fst (g_get_config g (ses_stub s) \<lparr>gc_device_id = ucast (ses_device_id s),
        gc_response_type = ''P4INFO_AND_COOKIE''\<rparr> e)) = q" by (simp add: serves_def)
      then show ?thesis by (simp add: pc)
    qed
    with p Inr c w1 r show ?thesis
      by (intro opened [of s "w1\<lparr>w_client := (w_client w1)\<lparr>cl_session := Some s\<rparr>, w_env := e'\<rparr>"
            "v1\<lparr>w_env := e'\<rparr>" p])
        (simp_all add: same_session_def v1_with_session_def with_client_def in_session_def
          Client_vtable_def Client_connect_def Client_getPipelineConfig_def)
  qed
qed

lemma v1_call_simulates:
  assumes "\<And>s p w v. same_session out s w v \<Longrightarrow>
    simulates any (same_session out s) (update p w) (body s p v)"
  shows "rel_option (same_outside out)
    (with_client (in_session (Client_vtable g flags) addr update) io)
    (v1_with_session g flags addr body io)"
proof (rule v1_session [where g = g and flags = flags and addr = addr and update = update
        and io = io and body = body and out = out])
  fix s p w v
  assume "same_session out s w v"
    and v3: "with_client (in_session (Client_vtable g flags) addr update) io =
      update p w \<bind> (\<lambda>(_, w). Some (w_env w, w_out w))"
    and v1: "v1_with_session g flags addr body io = body s p v \<bind> (\<lambda>(_, w). Some (w_env w, w_out w))"
  with assms [of s w v p] show ?thesis
    by (cases "update p w"; cases "body s p v")
      (auto simp: simulates_def same_outside_def same_session_def)
qed (simp add: same_outside_def)

lemma v1_call_mimics:
  assumes "\<And>s w v. same_session out s w v \<Longrightarrow>
      mimics any (same_session out s) (update q w) (body s q v)"
    and "serves g q" and "v1_with_session g flags addr body io = Some io1"
  shows "\<exists>io3. with_client (in_session (Client_vtable g flags) addr update) io = Some io3 \<and>
    same_outside out io3 io1"
proof (rule v1_session [where g = g and flags = flags and addr = addr and update = update
        and io = io and body = body and out = out])
  fix s p w v
  assume "same_session out s w v" and "\<And>q. serves g q \<Longrightarrow> p = q"
    and v3: "with_client (in_session (Client_vtable g flags) addr update) io =
      update p w \<bind> (\<lambda>(_, w). Some (w_env w, w_out w))"
    and v1: "v1_with_session g flags addr body io = body s p v \<bind> (\<lambda>(_, w). Some (w_env w, w_out w))"
  with assms(1) [of s w v] assms(2,3) show ?thesis
    by (cases "body s p v") (fastforce simp: mimics_def same_outside_def same_session_def)+
qed (use assms(3) in \<open>simp add: same_outside_def\<close>)

section \<open>The FDB function of the ES2K target\<close>

lemma v1_update_tunnel_sim:
  assumes "same_session out s w v"
  shows "simulates (=) (same_session out s) (UpdateFdbTunnelInfo (Client_vtable g flags) i p w)
    (v1_update_tunnel_info g s i p v)"
  unfolding UpdateFdbTunnelInfo_def v1_update_tunnel_info_def
  by (rule session_bind [OF v1_read_sims(1) [OF assms]])
    (auto simp: Let_def intro!: session_bind [OF v1_read_sims(2)])

text \<open>The existence check of a known tunnel type; version 1 logs an entry that exists.\<close>

lemma v1_fdb_tunnel_read_sim:
  assumes "same_session False s w v" and "known_tunnel_type (ml_tnl_info i)"
  shows "simulates (=) (same_session False s) (ReadFdbTunnelTableEntry (Client_vtable g flags) i p a w)
    (v1_ReadFdbTunnelTableEntry g s i p a v)"
proof -
  have log: "same_session False s x (ovsp4rt_log_message l t y)" if "same_session False s x y" for l t x y
    using that by (simp add: same_session_def ovsp4rt_log_message_def)
  have "simulates (=) (same_session False s) (cl.read_key g flags te w)
      (v1_send_read g s (single_read (ucast (ses_device_id s)) te) v \<bind>
        (\<lambda>(status, w). Some (status, if status_or_ok status \<and> a then ovsp4rt_log_message l t w else w)))"
    for te l t
    using simulates_bind [OF v1_read_sim [OF assms(1), of g flags te], of "(=)" "same_session False s" Some]
    by (auto simp: log)
  with assms(2) same_session_ready [OF assms(1)] show ?thesis
    by (auto simp: v1_ReadFdbTunnelTableEntry_def cl.ReadFdbTunnel PrepareFdbTableV4TunnelEntry_def
        known_tunnel_type_def v1_simps)
qed

lemma v1_fdb_tunnel_sim:
  assumes "same_session False s w v" and "b \<longrightarrow> known_tunnel_type (ml_tnl_info i)"
  shows "simulates any (same_session False s) (ConfigFdbTunnelEntry (Client_vtable g flags) i b p w)
    (v1_fdb_tunnel g s i p b v)"
  unfolding ConfigFdbTunnelEntry_def v1_fdb_tunnel_def using assms
  by (auto intro!: session_bind [OF v1_fdb_tunnel_read_sim] session_bind [OF v1_fdb_tunnel_write_sim]
      session_bind [OF v1_fdb_write_sims(1)] session_bind [OF v1_fdb_write_sims(2)])

text \<open>The answers from which both versions read the same port.\<close>

definition port_plain :: "bool \<Rightarrow> P4Info \<Rightarrow> ReadResponse \<Rightarrow> bool" where
  "port_plain char_signed p r \<longleftrightarrow>
     (\<exists>port. find_port_entity (port_param_id p) (rs_entities r) = Some port \<and>
             v1_host_port char_signed p r = Some port)"

definition plain_ports :: "'e grpc_env \<Rightarrow> bool \<Rightarrow> P4Info \<Rightarrow> u32 \<Rightarrow> bool" where
  "plain_ports g char_signed p sp \<longleftrightarrow>
     (\<forall>s e. case fst (server_read g s (EncodeTxAccVsiTableEntry empty_TableEntry sp p) e) of
              Inl _ \<Rightarrow> True
            | Inr r \<Rightarrow> port_plain char_signed p r)"

lemma v1_port_read_sim:
  assumes "same_session out s w v" and "plain_ports g char_signed p sp"
  shows "(\<exists>st w' v'. \<not> ok st \<and> GetTxAccVsiPort (Client_vtable g flags) p sp w = Some (Inl st, w') \<and>
        v1_ReadTxAccVsiTableEntry g s sp p v = Some (Inl st, v') \<and> same_session out s w' v') \<or>
    (\<exists>port r w' v'. GetTxAccVsiPort (Client_vtable g flags) p sp w = Some (Inr port, w') \<and>
        v1_ReadTxAccVsiTableEntry g s sp p v = Some (Inr r, v') \<and>
        v1_host_port char_signed p r = Some port \<and> same_session out s w' v')"
proof -
  obtain r e where r: "server_read g s (EncodeTxAccVsiTableEntry empty_TableEntry sp p) (w_env w) = (r, e)"
    by fastforce
  have s: "cl_session (w_client w) = Some s" "w_env v = w_env w"
    using assms(1) by (simp_all add: same_session_def)
  have v: "v1_ReadTxAccVsiTableEntry g s sp p v = Some (r, v\<lparr>w_env := e\<rparr>)"
    using r s by (simp add: v1_ReadTxAccVsiTableEntry_def v1_send_read_def server_read_def v1_simps)
  have "same_session out s (w\<lparr>w_env := e\<rparr>) (v\<lparr>w_env := e\<rparr>)"
    using assms(1) by (simp add: same_session_def)
  moreover have "\<And>x. r = Inr x \<Longrightarrow> port_plain char_signed p x"
    using assms(2) r unfolding plain_ports_def by (metis fst_conv sum.case(2))
  moreover have "\<And>st. r = Inl st \<Longrightarrow> \<not> ok st"
    using r by (auto simp: server_read_def SendReadRequest_def Let_def split: prod.splits if_splits)
  ultimately show ?thesis
    using r v by (cases r) (auto simp: cl_GetTxAccVsiPort [OF s(1)] server_port_def port_plain_def)
qed

text \<open>Version 1 has undefined behaviour when the address of a VLAN port is already there.\<close>

lemma v1_fdb_vlan_read_mimics:
  assumes "same_session out s w v"
  shows "mimics (=) (same_session out s) (ReadFdbVlanTableEntry (Client_vtable g flags) i p a w)
    (v1_ReadFdbVlanTableEntry g s i p a v)"
proof -
  have "mimics (=) (same_session out s) (cl.read_key g flags te w \<bind> Some)
      (v1_send_read g s (single_read (ucast (ses_device_id s)) te) v \<bind>
        (\<lambda>(status, w). if status_or_ok status \<and> a then None else Some (status, w)))" for te
    by (rule mimics_bind [OF simulates_mimics [OF v1_read_sim [OF assms]]]) auto
  with same_session_ready [OF assms] show ?thesis
    by (simp add: v1_ReadFdbVlanTableEntry_def cl.ReadFdbVlan v1_simps)
qed

lemma v1_fdb_vlan_mimics:
  assumes ss: "same_session False s w v" and port: "b \<longrightarrow> plain_ports g char_signed p (ml_src_port i)"
  shows "mimics any (same_session False s) (ConfigFdbVlanEntry (Client_vtable g flags) i b p w)
    (v1_fdb_vlan g char_signed s i p b v)"
proof -
  have rest: "mimics any (same_session False s)
      (WriteFdbTxVlanTableEntry (Client_vtable g flags) j p b w \<bind>
        (\<lambda>(_, w). WriteFdbSmacTableEntry (Client_vtable g flags) j p b w \<bind>
          (\<lambda>(_, w). Some (OkStatus, w))))
      (v1_WriteFdbTxVlanTableEntry g s j p b v \<bind>
        (\<lambda>(_, w). v1_WriteFdbSmacTableEntry g s j p b w \<bind> (\<lambda>(_, w). Some ((), w))))"
    if "same_session False s w v" for j w v
    using that
    by (intro simulates_mimics)
      (auto intro!: session_bind [OF v1_fdb_write_sims(3)] session_bind [OF v1_fdb_write_sims(1)])
  show ?thesis
  proof (cases b)
    case False
    with rest [OF ss, of i] show ?thesis by (simp add: ConfigFdbVlanEntry_def v1_fdb_vlan_def)
  next
    case True
    show ?thesis
    proof (cases "v1_ReadFdbVlanTableEntry g s i p True v")
      case None
      with True show ?thesis by (simp add: v1_fdb_vlan_def)
    next
      case (Some a)
      obtain r v1 where a: "a = (r, v1)" by fastforce
      with Some v1_fdb_vlan_read_mimics [OF ss, of g flags i p True]
      obtain w1 where w1: "ReadFdbVlanTableEntry (Client_vtable g flags) i p True w = Some (r, w1)"
        "same_session False s w1 v1" by (auto simp: mimics_def)
      obtain st w2 where rx:
        "WriteFdbRxVlanTableEntry (Client_vtable g flags) i p True w1 = Some (st, w2)"
        using cl.WriteFdbRxVlan_stays [OF same_session_ready [OF w1(2)], of g flags i p True]
        by (auto simp: runs_def)
      with v1_fdb_write_sims(4) [OF w1(2), of g flags i p True] obtain v2 where w2:
        "v1_WriteFdbRxVlanTableEntry g s i p True v1 = Some (st, v2)" "same_session False s w2 v2"
        by (cases "v1_WriteFdbRxVlanTableEntry g s i p True v1") (auto simp: simulates_def)
      show ?thesis
        using True Some a w1 rx w2 port rest v1_port_read_sim [OF w2(2), of g char_signed p "ml_src_port i" flags]
        by (auto simp: ConfigFdbVlanEntry_def v1_fdb_vlan_def UpdateFdbSrcPortInfo_def)
    qed
  qed
qed

end
