(* ===== verification/V1_Properties.thy ===== *)
theory V1_Properties
  imports V1_Equivalence Api_Machine
begin

text \<open>
  What the two cores of the library have in common: the calls of version 1 against the
  calls of version 3, for the same arguments and the same environment, and the decoding of
  the host port, where they differ.
\<close>

section \<open>The calls that agree\<close>

lemmas v1_api_defs = v1_ovsp4rt_config_fdb_entry_def v1_ovsp4rt_config_tunnel_entry_def
  v1_ovsp4rt_config_rx_tunnel_src_entry_def v1_ovsp4rt_config_vlan_entry_def
  v1_ovsp4rt_config_tunnel_src_port_entry_def v1_ovsp4rt_config_src_port_entry_def
  v1_ovsp4rt_config_ip_mac_map_entry_def

lemma same_outside_eq: "rel_option (same_outside True) a b \<Longrightarrow> b = a"
  by (cases a; cases b) (auto simp: same_outside_def prod_eq_iff)

lemma v1_call_equal:
  assumes "\<And>s p w v. same_session True s w v \<Longrightarrow>
    simulates any (same_session True s) (update p w) (body s p v)"
  shows "v1_with_session g flags addr body io =
    with_client (in_session (Client_vtable g flags) addr update) io"
  by (rule same_outside_eq [OF v1_call_simulates]) (rule assms)

lemma v1_rx_tunnel_sim:
  assumes "same_session out s w v"
  shows "simulates any (same_session out s)
    (WriteRxTunnelSrcPortTableEntry (Client_vtable g flags) t p b w)
    (v1_WriteRxTunnelSrcPortTableEntry g s t p b v \<bind> (\<lambda>(status, w). Some ((), w)))"
  by (rule simulates_drop [OF v1_plain_write_sims(4) [OF assms]])

lemma v1_tunnel_src_port_sim:
  assumes "same_session out s w v"
  shows "simulates any (same_session out s)
    (WriteTunnelSrcPortEntry (Client_vtable g flags) sp p b w)
    (do {
       let (table_entry, write_request) = v1_setup_write s b;
       let entry = v1_EncodeSrcPortTableEntry (write_entry table_entry write_request) sp p b;
       (status, w) \<leftarrow> v1_send_write g s (put_write_entry table_entry entry write_request) v;
       Some ((), w)
     })"
  using simulates_drop [OF v1_write_sim [OF assms, of g flags b]] same_session_ready [OF assms]
  by (simp add: cl.WriteTunnelSrcPort v1_simps)

text \<open>C8: for every environment and all arguments, the calls of version 1 that configure a
  tunnel, the receive side of a tunnel, a tunnel source port, a VLAN and an IP-to-MAC
  mapping do exactly what the calls of version 3 do on both targets, and so does the FDB call
  on DPDK: the same requests in the same order and the same output.\<close>

theorem v1_same_as_v3:
  "v1_ovsp4rt_config_tunnel_entry target g flags t b addr io =
     ovsp4rt_config_tunnel_entry target g flags t b addr io \<and>
   v1_ovsp4rt_config_rx_tunnel_src_entry target g flags t b addr io =
     ovsp4rt_config_rx_tunnel_src_entry target g flags t b addr io \<and>
   v1_ovsp4rt_config_tunnel_src_port_entry target g flags sp b addr io =
     ovsp4rt_config_tunnel_src_port_entry target g flags sp b addr io \<and>
   v1_ovsp4rt_config_vlan_entry target g flags n b addr io =
     ovsp4rt_config_vlan_entry target g flags n b addr io \<and>
   v1_ovsp4rt_config_ip_mac_map_entry target g flags m b addr io =
     ovsp4rt_config_ip_mac_map_entry target g flags m b addr io \<and>
   v1_ovsp4rt_config_fdb_entry DPDK_TARGET char_signed g flags i b addr io =
     ovsp4rt_config_fdb_entry DPDK_TARGET g flags i b addr io"
  unfolding v1_api_defs api_defs api_in_session
  by (cases target)
    (auto intro!: v1_call_equal v1_tunnel_sim v1_dpdk_tunnel_sim v1_rx_tunnel_sim
      v1_tunnel_src_port_sim [unfolded Let_def] v1_vlan_sim v1_ip_mac_map_sim v1_dpdk_fdb_sim)

section \<open>The calls that read the host port\<close>

lemma v1_src_port_mimics:
  assumes ss: "same_session out s w v" and port: "plain_ports g char_signed p (sp_src_port sp)"
  shows "mimics any (same_session out s) (ConfigSrcPortEntry (Client_vtable g flags) sp p b w)
    (v1_ReadTxAccVsiTableEntry g s (sp_src_port sp) p v \<bind> (\<lambda>(r, v). case r of
       Inl status \<Rightarrow> Some ((), v)
     | Inr read_response \<Rightarrow> v1_host_port char_signed p read_response \<bind> (\<lambda>host_sp.
         v1_ConfigureVsiSrcPortTableEntry g s (sp\<lparr>sp_src_port := host_sp\<rparr>) p b v \<bind>
           (\<lambda>(status, v). Some ((), v)))))"
proof -
  note w = simulates_mimics [OF simulates_drop [OF v1_plain_write_sims(3)]]
  show ?thesis
    using v1_port_read_sim [OF ss port, of flags] w
    by (auto simp: ConfigSrcPortEntry_def)
qed

lemma v1_fdb_mimics:
  assumes ss: "same_session False s w v"
    and type: "b \<and> ml_is_tunnel i \<longrightarrow> known_tunnel_type (ml_tnl_info i)"
    and port: "b \<longrightarrow> plain_ports g char_signed p (ml_src_port i)"
  shows "mimics any (same_session False s) (ConfigFdbEntry (Client_vtable g flags) i p b w)
    (v1_fdb_body g char_signed i b s p v)"
proof (cases b)
  case True
  with assms show ?thesis
    by (auto simp: ConfigFdbEntry_def v1_fdb_body_def
        intro!: simulates_mimics [OF v1_fdb_tunnel_sim] v1_fdb_vlan_mimics)
next
  case False
  have "mimics any (same_session False s)
      (UpdateFdbTunnelInfo (Client_vtable g flags) i p w \<bind> (\<lambda>(i, w).
        if ml_is_tunnel i then ConfigFdbTunnelEntry (Client_vtable g flags) i False p w
        else ConfigFdbVlanEntry (Client_vtable g flags) i False p w))
      (v1_update_tunnel_info g s i p v \<bind> (\<lambda>(i, v).
        if ml_is_tunnel i then v1_fdb_tunnel g s i p False v
        else v1_fdb_vlan g char_signed s i p False v))"
    by (rule mimics_bind [OF simulates_mimics [OF v1_update_tunnel_sim [OF ss]]])
      (auto intro!: simulates_mimics [OF v1_fdb_tunnel_sim] v1_fdb_vlan_mimics)
  with False show ?thesis by (simp add: ConfigFdbEntry_def v1_fdb_body_def)
qed

text \<open>The next two properties relate the ES2K calls that read the host port of a VSI. On a
  server that reports it in the form both versions understand, a call of version 1 that
  has defined behaviour is a call of version 3.\<close>

text \<open>C9: on a server with the pipeline \<open>p\<close> that reports the host port in a form both
  versions read alike, every call of version 1 that configures a source port and has
  defined behaviour has the effect of the call of version 3: the same environment and the
  same output.\<close>

theorem v1_src_port_same:
  assumes "serves g p" and "plain_ports g char_signed p (sp_src_port sp)"
    and "v1_ovsp4rt_config_src_port_entry target char_signed g flags sp b addr io = Some io'"
  shows "ovsp4rt_config_src_port_entry target g flags sp b addr io = Some io'"
proof (cases target)
  case DPDK_TARGET
  with assms(3) show ?thesis by (simp add: v1_api_defs api_defs)
next
  case ES2K_TARGET
  note v1 = assms(3) [unfolded ES2K_TARGET v1_api_defs target.case]
  have "\<exists>io3. with_client (in_session (Client_vtable g flags) addr
      (\<lambda>p. ConfigSrcPortEntry (Client_vtable g flags) sp p b)) io = Some io3 \<and> same_outside True io3 io'"
    by (rule v1_call_mimics [OF _ assms(1) v1]) (rule v1_src_port_mimics [OF _ assms(2)])
  with ES2K_TARGET show ?thesis
    by (auto simp: api_defs api_in_session same_outside_def prod_eq_iff)
qed

text \<open>C10: the FDB call of the ES2K target. On a server with the pipeline \<open>p\<close> that reports the
  host port of the learned address's VSI in a form both versions read alike, and for a known
  tunnel type when a tunnel address is learned, every call of version 1 with defined
  behaviour sends the requests of the call of version 3 and so leaves the same environment.
  The output may differ: only version 1 reports an address that is there already.\<close>

theorem v1_fdb_same:
  assumes "serves g p"
    and "b \<and> ml_is_tunnel i \<longrightarrow> known_tunnel_type (ml_tnl_info i)"
    and "b \<longrightarrow> plain_ports g char_signed p (ml_src_port i)"
    and "v1_ovsp4rt_config_fdb_entry ES2K_TARGET char_signed g flags i b addr io = Some io'"
  shows "\<exists>io3. ovsp4rt_config_fdb_entry ES2K_TARGET g flags i b addr io = Some io3 \<and>
    fst io3 = fst io'"
proof -
  note v1 = assms(4) [unfolded v1_api_defs target.case]
  have "\<exists>io3. with_client (in_session (Client_vtable g flags) addr
      (\<lambda>p. ConfigFdbEntry (Client_vtable g flags) i p b)) io = Some io3 \<and> same_outside False io3 io'"
    by (rule v1_call_mimics [OF _ assms(1) v1]) (rule v1_fdb_mimics [OF _ assms(2,3)])
  then show ?thesis by (simp add: api_defs api_in_session same_outside_def)
qed

section \<open>The bytes of the host port\<close>

lemma port_indices: "[0..<4] = [0, 1, 2, 3 :: nat]"
  by code_simp

lemma bit_7_iff: "bit (c :: u8) 7 \<longleftrightarrow> 128 \<le> c"
proof -
  have "bit c 7 \<longleftrightarrow> odd (unat c div 128)"
    using bit_unsigned_iff [of c 7, where ?'a = nat] by (simp add: bit_iff_odd)
  moreover have "unat c < 256" using unsigned_less [of c] by (simp only: len_num1 len_bit0 len_num0) simp
  then have "unat c div 128 = (if 128 \<le> unat c then 1 else 0)" by (auto simp: div_nat_eqI)
  ultimately show ?thesis by (simp add: word_le_nat_alt)
qed

lemma int_of_char_plain:
  assumes "char_signed \<longrightarrow> c < 128"
  shows "int_of_char char_signed c = ucast c"
proof -
  have "(scast c :: u32) = ucast c" if "c < 128"
    by (rule bit_word_eqI)
      (use that in \<open>auto simp: bit_word_scast_iff bit_word_ucast_iff bit_7_iff not_le dest: bit_imp_le_length\<close>)
  with assms show ?thesis by (auto simp: int_of_char_def)
qed

lemma int_of_char_extended:
  assumes "128 \<le> c"
  shows "drop_bit 8 (h OR int_of_char True c) = mask 24"
  by (rule bit_word_eqI)
    (use assms in \<open>auto simp: int_of_char_def bit_simps bit_word_scast_iff bit_7_iff
      dest: bit_imp_le_length\<close>)

lemma long_port:
  assumes "4 \<le> length bs"
  obtains b0 b1 b2 b3 rest where "bs = b0 # b1 # b2 # b3 # rest"
  using assms by (auto simp: numeral_eq_Suc Suc_le_length_iff)

lemma v1_port_bytes_long:
  assumes "4 \<le> length bs" and "char_signed \<longrightarrow> list_all (\<lambda>c. c < 128) (take 4 bs)"
  shows "v1_port_bytes char_signed bs [0..<4] 0 = Some (decode_host_sp 0 (take 4 bs))"
  using assms
  by (elim long_port) (auto simp: port_indices v1_byte_at_def int_of_char_plain ucast_byte_mask)

lemma v1_port_bytes_extended:
  assumes "4 \<le> length bs" and "128 \<le> bs ! 3"
  shows "\<exists>port. v1_port_bytes True bs [0..<4] 0 = Some port \<and> drop_bit 8 port = mask 24"
  using assms
  by (elim long_port) (auto simp: port_indices v1_byte_at_def simp del: drop_bit_or
      intro!: int_of_char_extended)

text \<open>C11: how version 1 decodes the host port. A value of less than three bytes (and so the
  canonical form of every port below 65536) is read behind its end, which is undefined; a
  value of three bytes gets its terminating zero as a fourth; of a longer value the first
  four bytes count, and they give the port that version 3 decodes from them when no byte has its high bit set
  or \<open>char\<close> is unsigned; where \<open>char\<close> is signed, a last byte from 128 on sets all upper bits
  of the port.\<close>

theorem v1_host_port_decoding:
  "(length bs < 3 \<longrightarrow> v1_port_bytes char_signed bs [0..<4] 0 = None) \<and>
   (length bs = 3 \<and> (char_signed \<longrightarrow> list_all (\<lambda>c. c < 128) bs) \<longrightarrow>
      v1_port_bytes char_signed bs [0..<4] 0 = Some (push_bit 8 (decode_host_sp 0 bs))) \<and>
   (4 \<le> length bs \<and> (char_signed \<longrightarrow> list_all (\<lambda>c. c < 128) (take 4 bs)) \<longrightarrow>
      v1_port_bytes char_signed bs [0..<4] 0 = Some (decode_host_sp 0 (take 4 bs))) \<and>
   (4 \<le> length bs \<and> char_signed \<and> 128 \<le> bs ! 3 \<longrightarrow>
      (\<exists>port. v1_port_bytes char_signed bs [0..<4] 0 = Some port \<and> drop_bit 8 port = mask 24))"
proof (intro conjI impI)
  assume "length bs < 3"
  then have "length bs = 0 \<or> length bs = 1 \<or> length bs = 2" by linarith
  then show "v1_port_bytes char_signed bs [0..<4] 0 = None"
    by (auto simp: port_indices v1_byte_at_def)
next
  assume bs: "length bs = 3 \<and> (char_signed \<longrightarrow> list_all (\<lambda>c. c < 128) bs)"
  then obtain b0 b1 b2 where "bs = [b0, b1, b2]"
    by (auto simp: numeral_eq_Suc length_Suc_conv)
  with bs show "v1_port_bytes char_signed bs [0..<4] 0 = Some (push_bit 8 (decode_host_sp 0 bs))"
    by (auto simp: port_indices v1_byte_at_def int_of_char_plain ucast_byte_mask)
qed (auto intro: v1_port_bytes_long v1_port_bytes_extended)

theorem v1_host_port_decoding_witness:
  "v1_port_bytes True [42] [0..<4] 0 = None \<and>
   v1_port_bytes True [0, 0, 42] [0..<4] 0 = Some 0x2A00 \<and>
   v1_port_bytes False [0, 0, 0, 200] [0..<4] 0 = Some 200 \<and>
   (\<exists>port. v1_port_bytes True [0, 0, 0, 200] [0..<4] 0 = Some port \<and> drop_bit 8 port = mask 24)"
  using v1_host_port_decoding [of "[42]" True] v1_host_port_decoding [of "[0, 0, 42]" True]
    v1_host_port_decoding [of "[0, 0, 0, 200]" False]
    v1_host_port_decoding [of "[0, 0, 0, 200]" True]
  by simp

section \<open>A server that reports four bytes\<close>

text \<open>The demo server, with a host port of four bytes for every VSI.\<close>

definition port_entry :: TableEntry where
  "port_entry = add_param (port_param_id demo_fdb_p4info) [0, 0, 0, 42] empty_TableEntry"

definition port_server :: "demo_tables grpc_env" where
  "port_server = (demo_server demo_fdb_p4info)\<lparr>g_read := \<lambda>_ rq T.
     (case rr_entities rq of
        [te] \<Rightarrow> if length (te_match te) = 1 then (([\<lparr>rs_entities = [port_entry]\<rparr>], OkStatus), T)
                else demo_read rq T
      | _ \<Rightarrow> demo_read rq T)\<rparr>"

lemma port_server_serves: "serves port_server demo_fdb_p4info"
  by (simp add: serves_def port_server_def demo_server_def)

lemma port_entry_plain: "port_plain char_signed demo_fdb_p4info \<lparr>rs_entities = [port_entry]\<rparr>"
proof -
  have "find_port_entity (port_param_id demo_fdb_p4info) [port_entry] = Some 42" by code_simp
  moreover have "v1_host_port False demo_fdb_p4info \<lparr>rs_entities = [port_entry]\<rparr> = Some 42"
    and "v1_host_port True demo_fdb_p4info \<lparr>rs_entities = [port_entry]\<rparr> = Some 42"
    by code_simp+
  ultimately show ?thesis by (cases char_signed) (auto simp: port_plain_def)
qed

lemma port_server_plain: "plain_ports port_server char_signed demo_fdb_p4info sp"
  using port_entry_plain
  by (simp add: plain_ports_def server_read_def SendReadRequest_def single_read_def
      EncodeTxAccVsiTableEntry_def port_server_def Let_def empty_ReadResponse_def MergeFrom_def)

theorem v1_src_port_same_witness:
  "\<exists>io'. v1_ovsp4rt_config_src_port_entry ES2K_TARGET True port_server default_flags
      \<lparr>sp_bridge_id = 9, sp_vlan_id = 5, sp_src_port = 20\<rparr> True ''a'' ([], []) = Some io' \<and>
    ovsp4rt_config_src_port_entry ES2K_TARGET port_server default_flags
      \<lparr>sp_bridge_id = 9, sp_vlan_id = 5, sp_src_port = 20\<rparr> True ''a'' ([], []) = Some io'"
proof -
  have "v1_ovsp4rt_config_src_port_entry ES2K_TARGET True port_server default_flags
      \<lparr>sp_bridge_id = 9, sp_vlan_id = 5, sp_src_port = 20\<rparr> True ''a'' ([], []) \<noteq> None"
    by code_simp
  with v1_src_port_same [OF port_server_serves port_server_plain] show ?thesis by blast
qed

theorem v1_fdb_same_witness:
  "\<exists>io' io3. v1_ovsp4rt_config_fdb_entry ES2K_TARGET True port_server default_flags
      (demo_learn False 0 0) True ''a'' ([], []) = Some io' \<and>
    ovsp4rt_config_fdb_entry ES2K_TARGET port_server default_flags
      (demo_learn False 0 0) True ''a'' ([], []) = Some io3 \<and> fst io3 = fst io'"
proof -
  have "v1_ovsp4rt_config_fdb_entry ES2K_TARGET True port_server default_flags
      (demo_learn False 0 0) True ''a'' ([], []) \<noteq> None"
    by code_simp
  then obtain io' where io': "v1_ovsp4rt_config_fdb_entry ES2K_TARGET True port_server default_flags
      (demo_learn False 0 0) True ''a'' ([], []) = Some io'" by blast
  then have "\<exists>io3. ovsp4rt_config_fdb_entry ES2K_TARGET port_server default_flags
      (demo_learn False 0 0) True ''a'' ([], []) = Some io3 \<and> fst io3 = fst io'"
    by (rule v1_fdb_same [OF port_server_serves _ _, rotated 2])
      (simp_all add: port_server_plain)
  with io' show ?thesis by blast
qed

end
