(* ===== verification/V2_Encoders.thy ===== *)
theory V2_Encoders
  imports Standard_Api
begin

text \<open>
  \<^verbatim>\<open>core/v2/ovsp4rt_encoders.cc\<close>: the encoders of the core that is built with
  \<open>BUILD_CLIENT\<close>, in the order of the file. The file serves both targets: a function that is
  compiled for both takes the target as an argument, \<open>#if\<close> inside its body is a case
  distinction on it, and a name that both files of P4 names define is looked up in the file
  that the build includes. A function inside \<open>#if defined(ES2K_TARGET)\<close> exists on ES2K only
  and has no such argument. \<open>EncodeFdbRxVlanTableEntry\<close> has two texts, the one for DPDK
  with the prefix \<open>v2_dpdk_\<close>.

  The lemmas say that compiling an encoder for a target gives the encoder that
  \<^verbatim>\<open>core/v3\<close> has for this target in a file of its own.
\<close>

named_theorems v2_names \<open>names of the included file of P4 names\<close>

section \<open>The included file of P4 names\<close>

definition v2_L2_FWD_TX_TABLE :: "target \<Rightarrow> string" where [v2_names]:
  "v2_L2_FWD_TX_TABLE target =
     (case target of ES2K_TARGET \<Rightarrow> L2_FWD_TX_TABLE
      | DPDK_TARGET \<Rightarrow> DPDK_L2_FWD_TX_TABLE)"

definition v2_L2_FWD_TX_TABLE_KEY_DST_MAC :: "target \<Rightarrow> string" where [v2_names]:
  "v2_L2_FWD_TX_TABLE_KEY_DST_MAC target =
     (case target of ES2K_TARGET \<Rightarrow> L2_FWD_TX_TABLE_KEY_DST_MAC
      | DPDK_TARGET \<Rightarrow> DPDK_L2_FWD_TX_TABLE_KEY_DST_MAC)"

definition v2_VXLAN_ENCAP_MOD_TABLE :: "target \<Rightarrow> string" where [v2_names]:
  "v2_VXLAN_ENCAP_MOD_TABLE target =
     (case target of ES2K_TARGET \<Rightarrow> VXLAN_ENCAP_MOD_TABLE
      | DPDK_TARGET \<Rightarrow> DPDK_VXLAN_ENCAP_MOD_TABLE)"

definition v2_VXLAN_ENCAP_MOD_TABLE_KEY_VENDORMETA_MOD_DATA_PTR :: "target \<Rightarrow> string" where [v2_names]:
  "v2_VXLAN_ENCAP_MOD_TABLE_KEY_VENDORMETA_MOD_DATA_PTR target =
     (case target of ES2K_TARGET \<Rightarrow> VXLAN_ENCAP_MOD_TABLE_KEY_VENDORMETA_MOD_DATA_PTR
      | DPDK_TARGET \<Rightarrow> DPDK_VXLAN_ENCAP_MOD_TABLE_KEY_VENDORMETA_MOD_DATA_PTR)"

definition v2_ACTION_VXLAN_ENCAP :: "target \<Rightarrow> string" where [v2_names]:
  "v2_ACTION_VXLAN_ENCAP target =
     (case target of ES2K_TARGET \<Rightarrow> ACTION_VXLAN_ENCAP
      | DPDK_TARGET \<Rightarrow> DPDK_ACTION_VXLAN_ENCAP)"

definition v2_ACTION_VXLAN_ENCAP_PARAM_SRC_ADDR :: "target \<Rightarrow> string" where [v2_names]:
  "v2_ACTION_VXLAN_ENCAP_PARAM_SRC_ADDR target =
     (case target of ES2K_TARGET \<Rightarrow> ACTION_VXLAN_ENCAP_PARAM_SRC_ADDR
      | DPDK_TARGET \<Rightarrow> DPDK_ACTION_VXLAN_ENCAP_PARAM_SRC_ADDR)"

definition v2_ACTION_VXLAN_ENCAP_PARAM_DST_ADDR :: "target \<Rightarrow> string" where [v2_names]:
  "v2_ACTION_VXLAN_ENCAP_PARAM_DST_ADDR target =
     (case target of ES2K_TARGET \<Rightarrow> ACTION_VXLAN_ENCAP_PARAM_DST_ADDR
      | DPDK_TARGET \<Rightarrow> DPDK_ACTION_VXLAN_ENCAP_PARAM_DST_ADDR)"

definition v2_ACTION_VXLAN_ENCAP_PARAM_DST_PORT :: "target \<Rightarrow> string" where [v2_names]:
  "v2_ACTION_VXLAN_ENCAP_PARAM_DST_PORT target =
     (case target of ES2K_TARGET \<Rightarrow> ACTION_VXLAN_ENCAP_PARAM_DST_PORT
      | DPDK_TARGET \<Rightarrow> DPDK_ACTION_VXLAN_ENCAP_PARAM_DST_PORT)"

definition v2_ACTION_VXLAN_ENCAP_PARAM_VNI :: "target \<Rightarrow> string" where [v2_names]:
  "v2_ACTION_VXLAN_ENCAP_PARAM_VNI target =
     (case target of ES2K_TARGET \<Rightarrow> ACTION_VXLAN_ENCAP_PARAM_VNI
      | DPDK_TARGET \<Rightarrow> DPDK_ACTION_VXLAN_ENCAP_PARAM_VNI)"

definition v2_IPV4_TUNNEL_TERM_TABLE :: "target \<Rightarrow> string" where [v2_names]:
  "v2_IPV4_TUNNEL_TERM_TABLE target =
     (case target of ES2K_TARGET \<Rightarrow> IPV4_TUNNEL_TERM_TABLE
      | DPDK_TARGET \<Rightarrow> DPDK_IPV4_TUNNEL_TERM_TABLE)"

definition v2_IPV4_TUNNEL_TERM_TABLE_KEY_IPV4_SRC :: "target \<Rightarrow> string" where [v2_names]:
  "v2_IPV4_TUNNEL_TERM_TABLE_KEY_IPV4_SRC target =
     (case target of ES2K_TARGET \<Rightarrow> IPV4_TUNNEL_TERM_TABLE_KEY_IPV4_SRC
      | DPDK_TARGET \<Rightarrow> DPDK_IPV4_TUNNEL_TERM_TABLE_KEY_IPV4_SRC)"

section \<open>Encoders\<close>

definition v2_tunnel_v6_param_name :: "string list" where
  "v2_tunnel_v6_param_name =
     [ACTION_SET_TUNNEL_V6_PARAM_IPV6_1, ACTION_SET_TUNNEL_V6_PARAM_IPV6_2,
      ACTION_SET_TUNNEL_V6_PARAM_IPV6_3, ACTION_SET_TUNNEL_V6_PARAM_IPV6_4]"

definition v2_EncodeFdbSmacTableEntry ::
    "TableEntry \<Rightarrow> mac_learning_info \<Rightarrow> P4Info \<Rightarrow> bool \<Rightarrow>
     DiagDetail \<Rightarrow> TableEntry \<times> DiagDetail" where
  "v2_EncodeFdbSmacTableEntry table_entry learn_info p4info insert_entry detail =
     (let te = set_table_id (GetTableId p4info L2_FWD_SMAC_TABLE) table_entry;
          te = add_exact (GetMatchFieldId p4info L2_FWD_SMAC_TABLE
             L2_FWD_SMAC_TABLE_KEY_SA) (CanonicalizeMac (ml_mac_addr learn_info)) te;
          te = add_exact (GetMatchFieldId p4info L2_FWD_SMAC_TABLE
             L2_FWD_SMAC_TABLE_KEY_BRIDGE_ID)
             (EncodeByteValue 1 [ucast (ml_bridge_id learn_info)]) te
      in ((if insert_entry then
           (let te = mutable_action te;
                te = set_action_id (GetActionId p4info L2_FWD_SMAC_TABLE_ACTION_NO_ACTION) te
            in te)
         else te),
          detail\<lparr>dd_table_id := LOG_L2_FWD_SMAC_TABLE\<rparr>))"

definition v2_EncodeL2FwdTxTablePrologue ::
    "target \<Rightarrow> TableEntry \<Rightarrow> mac_learning_info \<Rightarrow> P4Info \<Rightarrow> TableEntry" where
  "v2_EncodeL2FwdTxTablePrologue target table_entry learn_info p4info =
     (let te = set_table_id (GetTableId p4info (v2_L2_FWD_TX_TABLE target)) table_entry;
          te = add_exact (GetMatchFieldId p4info (v2_L2_FWD_TX_TABLE target)
             (v2_L2_FWD_TX_TABLE_KEY_DST_MAC target)) (CanonicalizeMac (ml_mac_addr learn_info)) te;
          te = (case target of
                  ES2K_TARGET \<Rightarrow>
                    add_exact (GetMatchFieldId p4info L2_FWD_TX_TABLE
                      L2_FWD_TX_TABLE_KEY_BRIDGE_ID)
                      (EncodeByteValue 1 [ucast (ml_bridge_id learn_info)]) te
                | DPDK_TARGET \<Rightarrow> te)
      in te)"

definition v2_EncodeFdbTxVlanTableEntry ::
    "target \<Rightarrow> TableEntry \<Rightarrow> mac_learning_info \<Rightarrow> P4Info \<Rightarrow> bool \<Rightarrow>
     DiagDetail \<Rightarrow> TableEntry \<times> DiagDetail" where
  "v2_EncodeFdbTxVlanTableEntry target table_entry learn_info p4info insert_entry detail =
     (let te = v2_EncodeL2FwdTxTablePrologue target table_entry learn_info p4info
      in (case target of
            ES2K_TARGET \<Rightarrow>
          (if insert_entry then
             (let te = mutable_action te
              in if pv_mode (ml_vlan_info learn_info) = P4_PORT_VLAN_NATIVE_UNTAGGED then
                   (let te = set_action_id
                          (GetActionId p4info L2_FWD_TX_TABLE_ACTION_REMOVE_VLAN_AND_FWD) te;
                        te = add_param (GetParamId p4info L2_FWD_TX_TABLE_ACTION_REMOVE_VLAN_AND_FWD
                                 ACTION_REMOVE_VLAN_AND_FWD_PARAM_PORT_ID)
                               (EncodeByteValue 1 [ml_src_port learn_info]) te;
                        te = add_param (GetParamId p4info L2_FWD_TX_TABLE_ACTION_REMOVE_VLAN_AND_FWD
                                 ACTION_REMOVE_VLAN_AND_FWD_PARAM_VLAN_PTR)
                               (EncodeByteValue 1 [pv_vlan (ml_vlan_info learn_info)]) te
                    in te)
                 else
                   (let te = set_action_id (GetActionId p4info L2_FWD_TX_TABLE_ACTION_L2_FWD) te;
                        te = add_param (GetParamId p4info L2_FWD_TX_TABLE_ACTION_L2_FWD
                                 ACTION_L2_FWD_PARAM_PORT)
                               (EncodeByteValue 1 [ml_src_port learn_info]) te
                    in te))
           else te)
          | DPDK_TARGET \<Rightarrow>
          (if insert_entry then
             (let te = mutable_action te;
                  te = set_action_id (GetActionId p4info DPDK_L2_FWD_TX_TABLE_ACTION_L2_FWD) te;
                  port_id = vi_vlan_id (ml_vln_info learn_info) - 1;
                  te = add_param (GetParamId p4info DPDK_L2_FWD_TX_TABLE_ACTION_L2_FWD
                           DPDK_ACTION_L2_FWD_PARAM_PORT)
                         (EncodeByteValue 1 [port_id]) te
              in te)
           else te),
          detail\<lparr>dd_table_id := LOG_L2_FWD_TX_TABLE\<rparr>))"

definition v2_EncodeFdbRxVlanTableEntry ::
    "TableEntry \<Rightarrow> mac_learning_info \<Rightarrow> P4Info \<Rightarrow> bool \<Rightarrow>
     DiagDetail \<Rightarrow> TableEntry \<times> DiagDetail" where
  "v2_EncodeFdbRxVlanTableEntry table_entry learn_info p4info insert_entry detail =
     (let te = set_table_id (GetTableId p4info L2_FWD_RX_TABLE) table_entry;
          te = add_exact (GetMatchFieldId p4info L2_FWD_RX_TABLE
             L2_FWD_RX_TABLE_KEY_DST_MAC) (CanonicalizeMac (ml_mac_addr learn_info)) te;
          te = add_exact (GetMatchFieldId p4info L2_FWD_RX_TABLE
             L2_FWD_RX_TABLE_KEY_BRIDGE_ID)
             (EncodeByteValue 1 [ucast (ml_bridge_id learn_info)]) te
      in ((if insert_entry then
           (let te = mutable_action te;
                te = set_action_id (GetActionId p4info L2_FWD_RX_TABLE_ACTION_L2_FWD) te;
                te = add_param (GetParamId p4info L2_FWD_RX_TABLE_ACTION_L2_FWD
                         ACTION_L2_FWD_PARAM_PORT)
                       (EncodeByteValue 1 [ml_rx_src_port learn_info]) te
            in te)
         else te),
          detail\<lparr>dd_table_id := LOG_L2_FWD_RX_TABLE\<rparr>))"

definition v2_dpdk_EncodeFdbRxVlanTableEntry ::
    "TableEntry \<Rightarrow> mac_learning_info \<Rightarrow> P4Info \<Rightarrow> bool \<Rightarrow>
     DiagDetail \<Rightarrow> TableEntry \<times> DiagDetail" where
  "v2_dpdk_EncodeFdbRxVlanTableEntry table_entry learn_info p4info insert_entry detail =
     (let te = set_table_id (GetTableId p4info DPDK_L2_FWD_RX_WITH_TUNNEL_TABLE) table_entry;
          te = add_exact
             (GetMatchFieldId p4info DPDK_L2_FWD_RX_WITH_TUNNEL_TABLE
                DPDK_L2_FWD_TX_TABLE_KEY_DST_MAC)
             (CanonicalizeMac (ml_mac_addr learn_info)) te
      in ((if insert_entry then
           (let te = mutable_action te;
                te = set_action_id (GetActionId p4info DPDK_L2_FWD_TX_TABLE_ACTION_L2_FWD) te;
                port_id = vi_vlan_id (ml_vln_info learn_info) - 1;
                te = add_param (GetParamId p4info DPDK_L2_FWD_RX_TABLE_ACTION_L2_FWD
                         DPDK_ACTION_L2_FWD_PARAM_PORT)
                       (EncodeByteValue 1 [port_id]) te
            in te)
         else te),
          detail\<lparr>dd_table_id := LOG_L2_FWD_RX_WITH_TUNNEL_TABLE\<rparr>))"

definition v2_EncodeFdbTableEntryforV4VxlanTunnel ::
    "target \<Rightarrow> TableEntry \<Rightarrow> mac_learning_info \<Rightarrow> P4Info \<Rightarrow> bool \<Rightarrow>
     DiagDetail \<Rightarrow> TableEntry \<times> DiagDetail" where
  "v2_EncodeFdbTableEntryforV4VxlanTunnel target table_entry learn_info p4info insert_entry detail =
     (let te = v2_EncodeL2FwdTxTablePrologue target table_entry learn_info p4info
      in (case target of
            ES2K_TARGET \<Rightarrow>
          (if insert_entry then
             (let te = mutable_action te
              in if ip_family (ti_local_ip (ml_tnl_info learn_info)) = AF_INET \<and>
                    ip_family (ti_remote_ip (ml_tnl_info learn_info)) = AF_INET then
                   (if pv_mode (ml_vlan_info learn_info) = P4_PORT_VLAN_NATIVE_UNTAGGED then
                      (let te = set_action_id
                             (GetActionId p4info L2_FWD_TX_TABLE_ACTION_POP_VLAN_SET_VXLAN_UNDERLAY_V4) te;
                           te = add_param (GetParamId p4info L2_FWD_TX_TABLE_ACTION_POP_VLAN_SET_VXLAN_UNDERLAY_V4
                                    ACTION_PARAM_TUNNEL_ID)
                                  (EncodeTunnelId (ti_vni (ml_tnl_info learn_info))) te
                       in te)
                    else
                      (let te = set_action_id
                             (GetActionId p4info L2_FWD_TX_TABLE_ACTION_SET_VXLAN_UNDERLAY_V4) te;
                           te = add_param (GetParamId p4info L2_FWD_TX_TABLE_ACTION_SET_VXLAN_UNDERLAY_V4
                                    ACTION_PARAM_TUNNEL_ID)
                                  (EncodeTunnelId (ti_vni (ml_tnl_info learn_info))) te
                       in te))
                 else if ip_family (ti_local_ip (ml_tnl_info learn_info)) = AF_INET6 \<and>
                    ip_family (ti_remote_ip (ml_tnl_info learn_info)) = AF_INET6 then
                   (if pv_mode (ml_vlan_info learn_info) = P4_PORT_VLAN_NATIVE_UNTAGGED then
                      (let te = set_action_id
                             (GetActionId p4info L2_FWD_TX_TABLE_ACTION_POP_VLAN_SET_VXLAN_UNDERLAY_V6) te;
                           te = add_param (GetParamId p4info L2_FWD_TX_TABLE_ACTION_POP_VLAN_SET_VXLAN_UNDERLAY_V6
                                    ACTION_PARAM_TUNNEL_ID)
                                  (EncodeTunnelId (ti_vni (ml_tnl_info learn_info))) te
                       in te)
                    else
                      (let te = set_action_id
                             (GetActionId p4info L2_FWD_TX_TABLE_ACTION_SET_VXLAN_UNDERLAY_V6) te;
                           te = add_param (GetParamId p4info L2_FWD_TX_TABLE_ACTION_SET_VXLAN_UNDERLAY_V6
                                    ACTION_PARAM_TUNNEL_ID)
                                  (EncodeTunnelId (ti_vni (ml_tnl_info learn_info))) te
                       in te))
                 else te)
           else te)
          | DPDK_TARGET \<Rightarrow>
          (if insert_entry then
             (let te = mutable_action te;
                  te = set_action_id (GetActionId p4info DPDK_L2_FWD_TX_TABLE_ACTION_SET_TUNNEL) te;
                  te = add_param (GetParamId p4info DPDK_L2_FWD_TX_TABLE_ACTION_SET_TUNNEL
                           DPDK_ACTION_SET_TUNNEL_PARAM_TUNNEL_ID)
                         (EncodeByteValue 1 [ti_vni (ml_tnl_info learn_info)]) te;
                  te = add_param (GetParamId p4info DPDK_L2_FWD_TX_TABLE_ACTION_SET_TUNNEL
                           DPDK_ACTION_SET_TUNNEL_PARAM_DST_ADDR)
                         (CanonicalizeIp (v4addr_s_addr (ti_remote_ip (ml_tnl_info learn_info)))) te
              in te)
           else te),
          detail\<lparr>dd_table_id := LOG_L2_FWD_TX_TABLE\<rparr>))"

definition v2_EncodeFdbTableEntryforV4GeneveTunnel ::
    "TableEntry \<Rightarrow> mac_learning_info \<Rightarrow> P4Info \<Rightarrow> bool \<Rightarrow>
     DiagDetail \<Rightarrow> TableEntry \<times> DiagDetail" where
  "v2_EncodeFdbTableEntryforV4GeneveTunnel table_entry learn_info p4info insert_entry detail =
     (let te = v2_EncodeL2FwdTxTablePrologue ES2K_TARGET table_entry learn_info p4info
      in ((if insert_entry then
           (let te = mutable_action te
            in if ip_family (ti_local_ip (ml_tnl_info learn_info)) = AF_INET \<and>
                  ip_family (ti_remote_ip (ml_tnl_info learn_info)) = AF_INET then
                 (if pv_mode (ml_vlan_info learn_info) = P4_PORT_VLAN_NATIVE_UNTAGGED then
                    (let te = set_action_id
                           (GetActionId p4info L2_FWD_TX_TABLE_ACTION_POP_VLAN_SET_GENEVE_UNDERLAY_V4) te;
                         te = add_param (GetParamId p4info L2_FWD_TX_TABLE_ACTION_POP_VLAN_SET_GENEVE_UNDERLAY_V4
                                  ACTION_PARAM_TUNNEL_ID)
                                (EncodeTunnelId (ti_vni (ml_tnl_info learn_info))) te
                     in te)
                  else
                    (let te = set_action_id
                           (GetActionId p4info L2_FWD_TX_TABLE_ACTION_SET_GENEVE_UNDERLAY_V4) te;
                         te = add_param (GetParamId p4info L2_FWD_TX_TABLE_ACTION_SET_GENEVE_UNDERLAY_V4
                                  ACTION_PARAM_TUNNEL_ID)
                                (EncodeTunnelId (ti_vni (ml_tnl_info learn_info))) te
                     in te))
               else if ip_family (ti_local_ip (ml_tnl_info learn_info)) = AF_INET6 \<and>
                  ip_family (ti_remote_ip (ml_tnl_info learn_info)) = AF_INET6 then
                 (if pv_mode (ml_vlan_info learn_info) = P4_PORT_VLAN_NATIVE_UNTAGGED then
                    (let te = set_action_id
                           (GetActionId p4info L2_FWD_TX_TABLE_ACTION_POP_VLAN_SET_GENEVE_UNDERLAY_V6) te;
                         te = add_param (GetParamId p4info L2_FWD_TX_TABLE_ACTION_POP_VLAN_SET_GENEVE_UNDERLAY_V6
                                  ACTION_PARAM_TUNNEL_ID)
                                (EncodeTunnelId (ti_vni (ml_tnl_info learn_info))) te
                     in te)
                  else
                    (let te = set_action_id
                           (GetActionId p4info L2_FWD_TX_TABLE_ACTION_SET_GENEVE_UNDERLAY_V6) te;
                         te = add_param (GetParamId p4info L2_FWD_TX_TABLE_ACTION_SET_GENEVE_UNDERLAY_V6
                                  ACTION_PARAM_TUNNEL_ID)
                                (EncodeTunnelId (ti_vni (ml_tnl_info learn_info))) te
                     in te))
               else te)
         else te),
          detail\<lparr>dd_table_id := LOG_L2_FWD_TX_TABLE\<rparr>))"

definition v2_EncodeL2ToTunnelV4 ::
    "TableEntry \<Rightarrow> mac_learning_info \<Rightarrow> P4Info \<Rightarrow> bool \<Rightarrow>
     DiagDetail \<Rightarrow> TableEntry \<times> DiagDetail" where
  "v2_EncodeL2ToTunnelV4 table_entry learn_info p4info insert_entry detail =
     (let te = set_table_id (GetTableId p4info L2_TO_TUNNEL_V4_TABLE) table_entry;
          te = add_exact (GetMatchFieldId p4info L2_TO_TUNNEL_V4_TABLE
             L2_TO_TUNNEL_V4_KEY_DA) (CanonicalizeMac (ml_mac_addr learn_info)) te
      in ((if insert_entry then
           (let te = mutable_action te;
                te = set_action_id (GetActionId p4info L2_TO_TUNNEL_V4_ACTION_SET_TUNNEL_V4) te;
                te = add_param (GetParamId p4info L2_TO_TUNNEL_V4_ACTION_SET_TUNNEL_V4
                         ACTION_SET_TUNNEL_V4_PARAM_DST_ADDR)
                       (CanonicalizeIp (v4addr_s_addr (ti_remote_ip (ml_tnl_info learn_info)))) te
            in te)
         else te),
          detail\<lparr>dd_table_id := LOG_L2_TO_TUNNEL_V4_TABLE\<rparr>))"

definition v2_EncodeL2ToTunnelV6 ::
    "TableEntry \<Rightarrow> mac_learning_info \<Rightarrow> P4Info \<Rightarrow> bool \<Rightarrow>
     DiagDetail \<Rightarrow> TableEntry \<times> DiagDetail" where
  "v2_EncodeL2ToTunnelV6 table_entry learn_info p4info insert_entry detail =
     (let te = set_table_id (GetTableId p4info L2_TO_TUNNEL_V6_TABLE) table_entry;
          te = add_exact (GetMatchFieldId p4info L2_TO_TUNNEL_V6_TABLE
             L2_TO_TUNNEL_V6_KEY_DA) (CanonicalizeMac (ml_mac_addr learn_info)) te
      in ((if insert_entry then
           (let te = mutable_action te;
                te = set_action_id (GetActionId p4info L2_TO_TUNNEL_V6_ACTION_SET_TUNNEL_V6) te;
                te = foldl (\<lambda>te i. add_param
                       (GetParamId p4info L2_TO_TUNNEL_V6_ACTION_SET_TUNNEL_V6 (v2_tunnel_v6_param_name ! i))
                       (CanonicalizeIp (u6_addr32 (ip_mem (ti_remote_ip (ml_tnl_info learn_info))) i)) te)
                   te [0..<4]
            in te)
         else te),
          detail\<lparr>dd_table_id := LOG_L2_TO_TUNNEL_V6_TABLE\<rparr>))"

definition v2_EncodeVxlanEncapTableEntry ::
    "target \<Rightarrow> TableEntry \<Rightarrow> tunnel_info \<Rightarrow> P4Info \<Rightarrow> bool \<Rightarrow> TableEntry" where
  "v2_EncodeVxlanEncapTableEntry target table_entry tunnel_info p4info insert_entry =
     (let te = set_table_id (GetTableId p4info (v2_VXLAN_ENCAP_MOD_TABLE target)) table_entry;
          te = add_exact (GetMatchFieldId p4info (v2_VXLAN_ENCAP_MOD_TABLE target)
             (v2_VXLAN_ENCAP_MOD_TABLE_KEY_VENDORMETA_MOD_DATA_PTR target))
             (EncodeVniValue (ti_vni tunnel_info)) te
      in (if insert_entry then
           (let te = mutable_action te;
                te = set_action_id (GetActionId p4info (v2_ACTION_VXLAN_ENCAP target)) te;
                te = add_param (GetParamId p4info (v2_ACTION_VXLAN_ENCAP target)
                         (v2_ACTION_VXLAN_ENCAP_PARAM_SRC_ADDR target))
                       (CanonicalizeIp (v4addr_s_addr (ti_local_ip tunnel_info))) te;
                te = add_param (GetParamId p4info (v2_ACTION_VXLAN_ENCAP target)
                         (v2_ACTION_VXLAN_ENCAP_PARAM_DST_ADDR target))
                       (CanonicalizeIp (v4addr_s_addr (ti_remote_ip tunnel_info))) te;
                te = (case target of
                        ES2K_TARGET \<Rightarrow>
                          add_param (GetParamId p4info ACTION_VXLAN_ENCAP
                              ACTION_VXLAN_ENCAP_PARAM_SRC_PORT)
                            (encode_port16 (htons (ti_dst_port tunnel_info) * 2)) te
                      | DPDK_TARGET \<Rightarrow> te);
                te = add_param (GetParamId p4info (v2_ACTION_VXLAN_ENCAP target)
                         (v2_ACTION_VXLAN_ENCAP_PARAM_DST_PORT target))
                       (encode_port16 (htons (ti_dst_port tunnel_info))) te;
                te = add_param (GetParamId p4info (v2_ACTION_VXLAN_ENCAP target)
                         (v2_ACTION_VXLAN_ENCAP_PARAM_VNI target))
                       (EncodeVniValue (ti_vni tunnel_info)) te
            in te)
         else te))"

definition v2_EncodeGeneveEncapTableEntry ::
    "TableEntry \<Rightarrow> tunnel_info \<Rightarrow> P4Info \<Rightarrow> bool \<Rightarrow> TableEntry" where
  "v2_EncodeGeneveEncapTableEntry table_entry tunnel_info p4info insert_entry =
     (let te = set_table_id (GetTableId p4info GENEVE_ENCAP_MOD_TABLE) table_entry;
          te = add_exact (GetMatchFieldId p4info GENEVE_ENCAP_MOD_TABLE
             GENEVE_ENCAP_MOD_TABLE_KEY_VENDORMETA_MOD_DATA_PTR)
             (EncodeVniValue (ti_vni tunnel_info)) te
      in (if insert_entry then
           (let te = mutable_action te;
                te = set_action_id (GetActionId p4info ACTION_GENEVE_ENCAP) te;
                te = add_param (GetParamId p4info ACTION_GENEVE_ENCAP
                         ACTION_GENEVE_ENCAP_PARAM_SRC_ADDR)
                       (CanonicalizeIp (v4addr_s_addr (ti_local_ip tunnel_info))) te;
                te = add_param (GetParamId p4info ACTION_GENEVE_ENCAP
                         ACTION_GENEVE_ENCAP_PARAM_DST_ADDR)
                       (CanonicalizeIp (v4addr_s_addr (ti_remote_ip tunnel_info))) te;
                te = add_param (GetParamId p4info ACTION_GENEVE_ENCAP
                         ACTION_GENEVE_ENCAP_PARAM_SRC_PORT)
                       (encode_port16 (htons (ti_dst_port tunnel_info) * 2)) te;
                te = add_param (GetParamId p4info ACTION_GENEVE_ENCAP
                         ACTION_GENEVE_ENCAP_PARAM_DST_PORT)
                       (encode_port16 (htons (ti_dst_port tunnel_info))) te;
                te = add_param (GetParamId p4info ACTION_GENEVE_ENCAP
                         ACTION_GENEVE_ENCAP_PARAM_VNI)
                       (EncodeVniValue (ti_vni tunnel_info)) te
            in te)
         else te))"

definition v2_EncodeV6VxlanEncapTableEntry ::
    "TableEntry \<Rightarrow> tunnel_info \<Rightarrow> P4Info \<Rightarrow> bool \<Rightarrow> TableEntry" where
  "v2_EncodeV6VxlanEncapTableEntry table_entry tunnel_info p4info insert_entry =
     (let te = set_table_id (GetTableId p4info VXLAN_ENCAP_V6_MOD_TABLE) table_entry;
          te = add_exact (GetMatchFieldId p4info VXLAN_ENCAP_V6_MOD_TABLE
             VXLAN_ENCAP_V6_MOD_TABLE_KEY_VENDORMETA_MOD_DATA_PTR)
             (EncodeVniValue (ti_vni tunnel_info)) te
      in (if insert_entry then
           (let te = mutable_action te;
                te = set_action_id (GetActionId p4info ACTION_VXLAN_ENCAP_V6) te;
                te = add_param (GetParamId p4info ACTION_VXLAN_ENCAP_V6
                         ACTION_VXLAN_ENCAP_V6_PARAM_SRC_ADDR)
                       (CanonicalizeIpv6 (ip_mem (ti_local_ip tunnel_info))) te;
                te = add_param (GetParamId p4info ACTION_VXLAN_ENCAP_V6
                         ACTION_VXLAN_ENCAP_V6_PARAM_DST_ADDR)
                       (CanonicalizeIpv6 (ip_mem (ti_remote_ip tunnel_info))) te;
                te = add_param (GetParamId p4info ACTION_VXLAN_ENCAP_V6
                         ACTION_VXLAN_ENCAP_V6_PARAM_SRC_PORT)
                       (encode_port16 (htons (ti_dst_port tunnel_info) * 2)) te;
                te = add_param (GetParamId p4info ACTION_VXLAN_ENCAP_V6
                         ACTION_VXLAN_ENCAP_V6_PARAM_DST_PORT)
                       (encode_port16 (htons (ti_dst_port tunnel_info))) te;
                te = add_param (GetParamId p4info ACTION_VXLAN_ENCAP_V6
                         ACTION_VXLAN_ENCAP_V6_PARAM_VNI)
                       (EncodeVniValue (ti_vni tunnel_info)) te
            in te)
         else te))"

definition v2_EncodeV6GeneveEncapTableEntry ::
    "TableEntry \<Rightarrow> tunnel_info \<Rightarrow> P4Info \<Rightarrow> bool \<Rightarrow> TableEntry" where
  "v2_EncodeV6GeneveEncapTableEntry table_entry tunnel_info p4info insert_entry =
     (let te = set_table_id (GetTableId p4info GENEVE_ENCAP_V6_MOD_TABLE) table_entry;
          te = add_exact (GetMatchFieldId p4info GENEVE_ENCAP_V6_MOD_TABLE
             GENEVE_ENCAP_V6_MOD_TABLE_KEY_VENDORMETA_MOD_DATA_PTR)
             (EncodeVniValue (ti_vni tunnel_info)) te
      in (if insert_entry then
           (let te = mutable_action te;
                te = set_action_id (GetActionId p4info ACTION_GENEVE_ENCAP_V6) te;
                te = add_param (GetParamId p4info ACTION_GENEVE_ENCAP_V6
                         ACTION_GENEVE_ENCAP_V6_PARAM_SRC_ADDR)
                       (CanonicalizeIpv6 (ip_mem (ti_local_ip tunnel_info))) te;
                te = add_param (GetParamId p4info ACTION_GENEVE_ENCAP_V6
                         ACTION_GENEVE_ENCAP_V6_PARAM_DST_ADDR)
                       (CanonicalizeIpv6 (ip_mem (ti_remote_ip tunnel_info))) te;
                te = add_param (GetParamId p4info ACTION_GENEVE_ENCAP_V6
                         ACTION_GENEVE_ENCAP_V6_PARAM_SRC_PORT)
                       (encode_port16 (htons (ti_dst_port tunnel_info) * 2)) te;
                te = add_param (GetParamId p4info ACTION_GENEVE_ENCAP_V6
                         ACTION_GENEVE_ENCAP_V6_PARAM_DST_PORT)
                       (encode_port16 (htons (ti_dst_port tunnel_info))) te;
                te = add_param (GetParamId p4info ACTION_GENEVE_ENCAP_V6
                         ACTION_GENEVE_ENCAP_V6_PARAM_VNI)
                       (EncodeVniValue (ti_vni tunnel_info)) te
            in te)
         else te))"

definition v2_EncodeVxlanEncapAndVlanPopTableEntry ::
    "TableEntry \<Rightarrow> tunnel_info \<Rightarrow> P4Info \<Rightarrow> bool \<Rightarrow> TableEntry" where
  "v2_EncodeVxlanEncapAndVlanPopTableEntry table_entry tunnel_info p4info insert_entry =
     (let te = set_table_id (GetTableId p4info VXLAN_ENCAP_VLAN_POP_MOD_TABLE) table_entry;
          te = add_exact (GetMatchFieldId p4info VXLAN_ENCAP_VLAN_POP_MOD_TABLE
             VXLAN_ENCAP_VLAN_POP_MOD_TABLE_KEY_VENDORMETA_MOD_DATA_PTR)
             (EncodeVniValue (ti_vni tunnel_info)) te
      in (if insert_entry then
           (let te = mutable_action te;
                te = set_action_id (GetActionId p4info ACTION_VXLAN_ENCAP_VLAN_POP) te;
                te = add_param (GetParamId p4info ACTION_VXLAN_ENCAP_VLAN_POP
                         ACTION_VXLAN_ENCAP_VLAN_POP_PARAM_SRC_ADDR)
                       (CanonicalizeIp (v4addr_s_addr (ti_local_ip tunnel_info))) te;
                te = add_param (GetParamId p4info ACTION_VXLAN_ENCAP_VLAN_POP
                         ACTION_VXLAN_ENCAP_VLAN_POP_PARAM_DST_ADDR)
                       (CanonicalizeIp (v4addr_s_addr (ti_remote_ip tunnel_info))) te;
                te = add_param (GetParamId p4info ACTION_VXLAN_ENCAP_VLAN_POP
                         ACTION_VXLAN_ENCAP_VLAN_POP_PARAM_SRC_PORT)
                       (encode_port16 (htons (ti_dst_port tunnel_info) * 2)) te;
                te = add_param (GetParamId p4info ACTION_VXLAN_ENCAP_VLAN_POP
                         ACTION_VXLAN_ENCAP_VLAN_POP_PARAM_DST_PORT)
                       (encode_port16 (htons (ti_dst_port tunnel_info))) te;
                te = add_param (GetParamId p4info ACTION_VXLAN_ENCAP_VLAN_POP
                         ACTION_VXLAN_ENCAP_VLAN_POP_PARAM_VNI)
                       (EncodeVniValue (ti_vni tunnel_info)) te
            in te)
         else te))"

definition v2_EncodeGeneveEncapAndVlanPopTableEntry ::
    "TableEntry \<Rightarrow> tunnel_info \<Rightarrow> P4Info \<Rightarrow> bool \<Rightarrow> TableEntry" where
  "v2_EncodeGeneveEncapAndVlanPopTableEntry table_entry tunnel_info p4info insert_entry =
     (let te = set_table_id (GetTableId p4info GENEVE_ENCAP_VLAN_POP_MOD_TABLE) table_entry;
          te = add_exact (GetMatchFieldId p4info GENEVE_ENCAP_VLAN_POP_MOD_TABLE
             GENEVE_ENCAP_VLAN_POP_MOD_TABLE_KEY_VENDORMETA_MOD_DATA_PTR)
             (EncodeVniValue (ti_vni tunnel_info)) te
      in (if insert_entry then
           (let te = mutable_action te;
                te = set_action_id (GetActionId p4info ACTION_GENEVE_ENCAP_VLAN_POP) te;
                te = add_param (GetParamId p4info ACTION_GENEVE_ENCAP_VLAN_POP
                         ACTION_GENEVE_ENCAP_VLAN_POP_PARAM_SRC_ADDR)
                       (CanonicalizeIp (v4addr_s_addr (ti_local_ip tunnel_info))) te;
                te = add_param (GetParamId p4info ACTION_GENEVE_ENCAP_VLAN_POP
                         ACTION_GENEVE_ENCAP_VLAN_POP_PARAM_DST_ADDR)
                       (CanonicalizeIp (v4addr_s_addr (ti_remote_ip tunnel_info))) te;
                te = add_param (GetParamId p4info ACTION_GENEVE_ENCAP_VLAN_POP
                         ACTION_GENEVE_ENCAP_VLAN_POP_PARAM_SRC_PORT)
                       (encode_port16 (htons (ti_dst_port tunnel_info) * 2)) te;
                te = add_param (GetParamId p4info ACTION_GENEVE_ENCAP_VLAN_POP
                         ACTION_GENEVE_ENCAP_VLAN_POP_PARAM_DST_PORT)
                       (encode_port16 (htons (ti_dst_port tunnel_info))) te;
                te = add_param (GetParamId p4info ACTION_GENEVE_ENCAP_VLAN_POP
                         ACTION_GENEVE_ENCAP_VLAN_POP_PARAM_VNI)
                       (EncodeVniValue (ti_vni tunnel_info)) te
            in te)
         else te))"

definition v2_EncodeV6VxlanEncapAndVlanPopTableEntry ::
    "TableEntry \<Rightarrow> tunnel_info \<Rightarrow> P4Info \<Rightarrow> bool \<Rightarrow> TableEntry" where
  "v2_EncodeV6VxlanEncapAndVlanPopTableEntry table_entry tunnel_info p4info insert_entry =
     (let te = set_table_id (GetTableId p4info VXLAN_ENCAP_V6_VLAN_POP_MOD_TABLE) table_entry;
          te = add_exact (GetMatchFieldId p4info VXLAN_ENCAP_V6_VLAN_POP_MOD_TABLE
             VXLAN_ENCAP_V6_VLAN_POP_MOD_TABLE_KEY_VENDORMETA_MOD_DATA_PTR)
             (EncodeVniValue (ti_vni tunnel_info)) te
      in (if insert_entry then
           (let te = mutable_action te;
                te = set_action_id (GetActionId p4info ACTION_VXLAN_ENCAP_V6_VLAN_POP) te;
                te = add_param (GetParamId p4info ACTION_VXLAN_ENCAP_V6_VLAN_POP
                         ACTION_VXLAN_ENCAP_V6_VLAN_POP_PARAM_SRC_ADDR)
                       (CanonicalizeIpv6 (ip_mem (ti_local_ip tunnel_info))) te;
                te = add_param (GetParamId p4info ACTION_VXLAN_ENCAP_V6_VLAN_POP
                         ACTION_VXLAN_ENCAP_V6_VLAN_POP_PARAM_DST_ADDR)
                       (CanonicalizeIpv6 (ip_mem (ti_remote_ip tunnel_info))) te;
                te = add_param (GetParamId p4info ACTION_VXLAN_ENCAP_V6_VLAN_POP
                         ACTION_VXLAN_ENCAP_V6_VLAN_POP_PARAM_SRC_PORT)
                       (encode_port16 (htons (ti_dst_port tunnel_info) * 2)) te;
                te = add_param (GetParamId p4info ACTION_VXLAN_ENCAP_V6_VLAN_POP
                         ACTION_VXLAN_ENCAP_V6_VLAN_POP_PARAM_DST_PORT)
                       (encode_port16 (htons (ti_dst_port tunnel_info))) te;
                te = add_param (GetParamId p4info ACTION_VXLAN_ENCAP_V6_VLAN_POP
                         ACTION_VXLAN_ENCAP_V6_VLAN_POP_PARAM_VNI)
                       (EncodeVniValue (ti_vni tunnel_info)) te
            in te)
         else te))"

definition v2_EncodeV6GeneveEncapAndVlanPopTableEntry ::
    "TableEntry \<Rightarrow> tunnel_info \<Rightarrow> P4Info \<Rightarrow> bool \<Rightarrow> TableEntry" where
  "v2_EncodeV6GeneveEncapAndVlanPopTableEntry table_entry tunnel_info p4info insert_entry =
     (let te = set_table_id (GetTableId p4info GENEVE_ENCAP_V6_VLAN_POP_MOD_TABLE) table_entry;
          te = add_exact (GetMatchFieldId p4info GENEVE_ENCAP_V6_VLAN_POP_MOD_TABLE
             GENEVE_ENCAP_V6_VLAN_POP_MOD_TABLE_KEY_VENDORMETA_MOD_DATA_PTR)
             (EncodeVniValue (ti_vni tunnel_info)) te
      in (if insert_entry then
           (let te = mutable_action te;
                te = set_action_id (GetActionId p4info ACTION_GENEVE_ENCAP_V6_VLAN_POP) te;
                te = add_param (GetParamId p4info ACTION_GENEVE_ENCAP_V6_VLAN_POP
                         ACTION_GENEVE_ENCAP_V6_VLAN_POP_PARAM_SRC_ADDR)
                       (CanonicalizeIpv6 (ip_mem (ti_local_ip tunnel_info))) te;
                te = add_param (GetParamId p4info ACTION_GENEVE_ENCAP_V6_VLAN_POP
                         ACTION_GENEVE_ENCAP_V6_VLAN_POP_PARAM_DST_ADDR)
                       (CanonicalizeIpv6 (ip_mem (ti_remote_ip tunnel_info))) te;
                te = add_param (GetParamId p4info ACTION_GENEVE_ENCAP_V6_VLAN_POP
                         ACTION_GENEVE_ENCAP_V6_VLAN_POP_PARAM_SRC_PORT)
                       (encode_port16 (htons (ti_dst_port tunnel_info) * 2)) te;
                te = add_param (GetParamId p4info ACTION_GENEVE_ENCAP_V6_VLAN_POP
                         ACTION_GENEVE_ENCAP_V6_VLAN_POP_PARAM_DST_PORT)
                       (encode_port16 (htons (ti_dst_port tunnel_info))) te;
                te = add_param (GetParamId p4info ACTION_GENEVE_ENCAP_V6_VLAN_POP
                         ACTION_GENEVE_ENCAP_V6_VLAN_POP_PARAM_VNI)
                       (EncodeVniValue (ti_vni tunnel_info)) te
            in te)
         else te))"

definition v2_EncodeRxTunnelTableEntry ::
    "TableEntry \<Rightarrow> tunnel_info \<Rightarrow> P4Info \<Rightarrow> bool \<Rightarrow> TableEntry" where
  "v2_EncodeRxTunnelTableEntry table_entry tunnel_info p4info insert_entry =
     (let te = set_table_id (GetTableId p4info RX_IPV4_TUNNEL_SOURCE_PORT_TABLE) table_entry;
          te = add_exact (GetMatchFieldId p4info RX_IPV4_TUNNEL_SOURCE_PORT_TABLE
             RX_IPV4_TUNNEL_SOURCE_PORT_TABLE_KEY_VNI) (EncodeVniValue (ti_vni tunnel_info)) te;
          te = add_exact (GetMatchFieldId p4info RX_IPV4_TUNNEL_SOURCE_PORT_TABLE
             RX_IPV4_TUNNEL_SOURCE_PORT_TABLE_KEY_IPV4_SRC)
             (CanonicalizeIp (v4addr_s_addr (ti_remote_ip tunnel_info))) te
      in (if insert_entry then
           (let te = mutable_action te;
                te = set_action_id
                       (GetActionId p4info RX_IPV4_TUNNEL_SOURCE_PORT_TABLE_ACTION_SET_SRC_PORT) te;
                te = add_param (GetParamId p4info RX_IPV4_TUNNEL_SOURCE_PORT_TABLE_ACTION_SET_SRC_PORT
                         ACTION_SET_SRC_PORT)
                       (encode_port32 (ti_src_port tunnel_info)) te
            in te)
         else te))"

definition v2_EncodeV6RxTunnelTableEntry ::
    "TableEntry \<Rightarrow> tunnel_info \<Rightarrow> P4Info \<Rightarrow> bool \<Rightarrow> TableEntry" where
  "v2_EncodeV6RxTunnelTableEntry table_entry tunnel_info p4info insert_entry =
     (let te = set_table_id (GetTableId p4info RX_IPV6_TUNNEL_SOURCE_PORT_TABLE) table_entry;
          te = add_exact (GetMatchFieldId p4info RX_IPV6_TUNNEL_SOURCE_PORT_TABLE
             RX_IPV6_TUNNEL_SOURCE_PORT_TABLE_KEY_VNI) (EncodeVniValue (ti_vni tunnel_info)) te;
          te = add_exact (GetMatchFieldId p4info RX_IPV6_TUNNEL_SOURCE_PORT_TABLE
             RX_IPV6_TUNNEL_SOURCE_PORT_TABLE_KEY_IPV6_SRC)
             (CanonicalizeIpv6 (ip_mem (ti_remote_ip tunnel_info))) te
      in (if insert_entry then
           (let te = mutable_action te;
                te = set_action_id
                       (GetActionId p4info RX_IPV6_TUNNEL_SOURCE_PORT_TABLE_ACTION_SET_SRC_PORT) te;
                te = add_param (GetParamId p4info RX_IPV6_TUNNEL_SOURCE_PORT_TABLE_ACTION_SET_SRC_PORT
                         ACTION_SET_SRC_PORT)
                       (encode_port32 (ti_src_port tunnel_info)) te
            in te)
         else te))"

definition v2_EncodeTunnelTermTableEntry ::
    "target \<Rightarrow> TableEntry \<Rightarrow> tunnel_info \<Rightarrow> P4Info \<Rightarrow> bool \<Rightarrow> TableEntry \<times> string list" where
  "v2_EncodeTunnelTermTableEntry target table_entry tunnel_info p4info insert_entry =
     (let te = add_exact (GetMatchFieldId p4info (v2_IPV4_TUNNEL_TERM_TABLE target)
             (v2_IPV4_TUNNEL_TERM_TABLE_KEY_IPV4_SRC target))
             (CanonicalizeIp (v4addr_s_addr (ti_remote_ip tunnel_info))) table_entry;
          te = (case target of
                  ES2K_TARGET \<Rightarrow>
                    (let te = set_table_id (GetTableId p4info IPV4_TUNNEL_TERM_TABLE) te;
                         te = add_exact (GetMatchFieldId p4info IPV4_TUNNEL_TERM_TABLE
                            IPV4_TUNNEL_TERM_TABLE_KEY_BRIDGE_ID)
                            (EncodeByteValue 1 [ucast (ti_bridge_id tunnel_info)]) te;
                         te = add_exact (GetMatchFieldId p4info IPV4_TUNNEL_TERM_TABLE
                            IPV4_TUNNEL_TERM_TABLE_KEY_VNI) (EncodeVniValue (ti_vni tunnel_info)) te
                     in te)
                | DPDK_TARGET \<Rightarrow>
                    (let te = set_table_id (GetTableId p4info DPDK_IPV4_TUNNEL_TERM_TABLE) te;
                         te = add_exact
                            (GetMatchFieldId p4info DPDK_IPV4_TUNNEL_TERM_TABLE
                               DPDK_IPV4_TUNNEL_TERM_TABLE_KEY_TUNNEL_TYPE)
                            (EncodeByteValue 1 [DPDK_TUNNEL_TYPE_VXLAN]) te;
                         te = add_exact
                            (GetMatchFieldId p4info DPDK_IPV4_TUNNEL_TERM_TABLE
                               DPDK_IPV4_TUNNEL_TERM_TABLE_KEY_IPV4_DST)
                            (CanonicalizeIp (v4addr_s_addr (ti_local_ip tunnel_info))) te
                     in te))
      in case target of
           DPDK_TARGET \<Rightarrow>
         ((if insert_entry then
           (let te = mutable_action te;
                te = set_action_id (GetActionId p4info DPDK_ACTION_DECAP_OUTER_IPV4) te;
                te = add_param (GetParamId p4info DPDK_ACTION_DECAP_OUTER_IPV4
                         DPDK_ACTION_DECAP_OUTER_IPV4_PARAM_TUNNEL_ID)
                       (EncodeByteValue 1 [ti_vni tunnel_info]) te
            in te)
         else te), [])
         | ES2K_TARGET \<Rightarrow>
         (if insert_entry then
           (let te = mutable_action te
            in if pv_mode (ti_vlan_info tunnel_info) = P4_PORT_VLAN_NATIVE_UNTAGGED then
                 (if ti_tunnel_type tunnel_info = OVS_TUNNEL_VXLAN then
                    (let te = set_action_id
                           (GetActionId p4info ACTION_SET_VXLAN_DECAP_OUTER_HDR_AND_PUSH_VLAN) te;
                         te = add_param (GetParamId p4info ACTION_SET_VXLAN_DECAP_OUTER_HDR_AND_PUSH_VLAN
                                  ACTION_PARAM_TUNNEL_ID)
                                (EncodeTunnelId (ti_vni tunnel_info)) te
                     in (te, []))
                  else if ti_tunnel_type tunnel_info = OVS_TUNNEL_GENEVE then
                    (let te = set_action_id
                           (GetActionId p4info ACTION_SET_GENEVE_DECAP_OUTER_HDR_AND_PUSH_VLAN) te;
                         te = add_param (GetParamId p4info ACTION_SET_GENEVE_DECAP_OUTER_HDR_AND_PUSH_VLAN
                                  ACTION_PARAM_TUNNEL_ID)
                                (EncodeTunnelId (ti_vni tunnel_info)) te
                     in (te, []))
                  else (te, [''Unsupported tunnel type'']))
               else
                 (if ti_tunnel_type tunnel_info = OVS_TUNNEL_VXLAN then
                    (let te = set_action_id
                           (GetActionId p4info ACTION_SET_VXLAN_DECAP_OUTER_HDR) te;
                         te = add_param (GetParamId p4info ACTION_SET_VXLAN_DECAP_OUTER_HDR
                                  ACTION_PARAM_TUNNEL_ID)
                                (EncodeTunnelId (ti_vni tunnel_info)) te
                     in (te, []))
                  else if ti_tunnel_type tunnel_info = OVS_TUNNEL_GENEVE then
                    (let te = set_action_id
                           (GetActionId p4info ACTION_SET_GENEVE_DECAP_OUTER_HDR) te;
                         te = add_param (GetParamId p4info ACTION_SET_GENEVE_DECAP_OUTER_HDR
                                  ACTION_PARAM_TUNNEL_ID)
                                (EncodeTunnelId (ti_vni tunnel_info)) te
                     in (te, []))
                  else (te, [''Unsupported tunnel type''])))
         else (te, [])))"

definition v2_EncodeV6TunnelTermTableEntry ::
    "TableEntry \<Rightarrow> tunnel_info \<Rightarrow> P4Info \<Rightarrow> bool \<Rightarrow> TableEntry \<times> string list" where
  "v2_EncodeV6TunnelTermTableEntry table_entry tunnel_info p4info insert_entry =
     (let te = set_table_id (GetTableId p4info IPV6_TUNNEL_TERM_TABLE) table_entry;
          te = add_exact (GetMatchFieldId p4info IPV6_TUNNEL_TERM_TABLE
             IPV6_TUNNEL_TERM_TABLE_KEY_BRIDGE_ID)
             (EncodeByteValue 1 [ucast (ti_bridge_id tunnel_info)]) te;
          te = add_exact (GetMatchFieldId p4info IPV6_TUNNEL_TERM_TABLE
             IPV6_TUNNEL_TERM_TABLE_KEY_IPV6_SRC)
             (CanonicalizeIpv6 (ip_mem (ti_remote_ip tunnel_info))) te;
          te = add_exact (GetMatchFieldId p4info IPV6_TUNNEL_TERM_TABLE
             IPV6_TUNNEL_TERM_TABLE_KEY_VNI) (EncodeVniValue (ti_vni tunnel_info)) te
      in if insert_entry then
           (let te = mutable_action te
            in if pv_mode (ti_vlan_info tunnel_info) = P4_PORT_VLAN_NATIVE_UNTAGGED then
                 (if ti_tunnel_type tunnel_info = OVS_TUNNEL_VXLAN then
                    (let te = set_action_id
                           (GetActionId p4info ACTION_SET_VXLAN_DECAP_OUTER_HDR_AND_PUSH_VLAN) te;
                         te = add_param (GetParamId p4info ACTION_SET_VXLAN_DECAP_OUTER_HDR_AND_PUSH_VLAN
                                  ACTION_PARAM_TUNNEL_ID)
                                (EncodeTunnelId (ti_vni tunnel_info)) te
                     in (te, []))
                  else if ti_tunnel_type tunnel_info = OVS_TUNNEL_GENEVE then
                    (let te = set_action_id
                           (GetActionId p4info ACTION_SET_GENEVE_DECAP_OUTER_HDR_AND_PUSH_VLAN) te;
                         te = add_param (GetParamId p4info ACTION_SET_GENEVE_DECAP_OUTER_HDR_AND_PUSH_VLAN
                                  ACTION_PARAM_TUNNEL_ID)
                                (EncodeTunnelId (ti_vni tunnel_info)) te
                     in (te, []))
                  else (te, [''Unsupported tunnel type'']))
               else
                 (if ti_tunnel_type tunnel_info = OVS_TUNNEL_VXLAN then
                    (let te = set_action_id
                           (GetActionId p4info ACTION_SET_VXLAN_DECAP_OUTER_HDR) te;
                         te = add_param (GetParamId p4info ACTION_SET_VXLAN_DECAP_OUTER_HDR
                                  ACTION_PARAM_TUNNEL_ID)
                                (EncodeTunnelId (ti_vni tunnel_info)) te
                     in (te, []))
                  else if ti_tunnel_type tunnel_info = OVS_TUNNEL_GENEVE then
                    (let te = set_action_id
                           (GetActionId p4info ACTION_SET_GENEVE_DECAP_OUTER_HDR) te;
                         te = add_param (GetParamId p4info ACTION_SET_GENEVE_DECAP_OUTER_HDR
                                  ACTION_PARAM_TUNNEL_ID)
                                (EncodeTunnelId (ti_vni tunnel_info)) te
                     in (te, []))
                  else (te, [''Unsupported tunnel type''])))
         else (te, []))"

definition v2_EncodeVxlanDecapModAndVlanPushTableEntry ::
    "TableEntry \<Rightarrow> tunnel_info \<Rightarrow> P4Info \<Rightarrow> bool \<Rightarrow> TableEntry" where
  "v2_EncodeVxlanDecapModAndVlanPushTableEntry table_entry tunnel_info p4info insert_entry =
     (let te = set_table_id (GetTableId p4info VXLAN_DECAP_AND_VLAN_PUSH_MOD_TABLE) table_entry;
          te = add_exact (GetMatchFieldId p4info VXLAN_DECAP_AND_VLAN_PUSH_MOD_TABLE
             VXLAN_DECAP_AND_VLAN_PUSH_MOD_TABLE_KEY_MOD_BLOB_PTR)
             (EncodeVniValue (ti_vni tunnel_info)) te
      in (if insert_entry then
           (let te = mutable_action te;
                te = set_action_id (GetActionId p4info ACTION_VXLAN_DECAP_AND_PUSH_VLAN) te;
                te = add_param (GetParamId p4info ACTION_VXLAN_DECAP_AND_PUSH_VLAN
                         ACTION_VXLAN_DECAP_AND_PUSH_VLAN_PARAM_PCP)
                       (EncodeByteValue 1 [1]) te;
                te = add_param (GetParamId p4info ACTION_VXLAN_DECAP_AND_PUSH_VLAN
                         ACTION_VXLAN_DECAP_AND_PUSH_VLAN_PARAM_DEI)
                       (EncodeByteValue 1 [0]) te;
                te = add_param (GetParamId p4info ACTION_VXLAN_DECAP_AND_PUSH_VLAN
                         ACTION_VXLAN_DECAP_AND_PUSH_VLAN_PARAM_VLAN_ID)
                       (EncodeByteValue 1 [pv_vlan (ti_vlan_info tunnel_info)]) te
            in te)
         else te))"

definition v2_EncodeGeneveDecapModAndVlanPushTableEntry ::
    "TableEntry \<Rightarrow> tunnel_info \<Rightarrow> P4Info \<Rightarrow> bool \<Rightarrow> TableEntry" where
  "v2_EncodeGeneveDecapModAndVlanPushTableEntry table_entry tunnel_info p4info insert_entry =
     (let te = set_table_id (GetTableId p4info GENEVE_DECAP_AND_VLAN_PUSH_MOD_TABLE) table_entry;
          te = add_exact (GetMatchFieldId p4info GENEVE_DECAP_AND_VLAN_PUSH_MOD_TABLE
             GENEVE_DECAP_AND_VLAN_PUSH_MOD_TABLE_KEY_MOD_BLOB_PTR)
             (EncodeVniValue (ti_vni tunnel_info)) te
      in (if insert_entry then
           (let te = mutable_action te;
                te = set_action_id (GetActionId p4info ACTION_GENEVE_DECAP_AND_PUSH_VLAN) te;
                te = add_param (GetParamId p4info ACTION_GENEVE_DECAP_AND_PUSH_VLAN
                         ACTION_GENEVE_DECAP_AND_PUSH_VLAN_PARAM_PCP)
                       (EncodeByteValue 1 [1]) te;
                te = add_param (GetParamId p4info ACTION_GENEVE_DECAP_AND_PUSH_VLAN
                         ACTION_GENEVE_DECAP_AND_PUSH_VLAN_PARAM_DEI)
                       (EncodeByteValue 1 [0]) te;
                te = add_param (GetParamId p4info ACTION_GENEVE_DECAP_AND_PUSH_VLAN
                         ACTION_GENEVE_DECAP_AND_PUSH_VLAN_PARAM_VLAN_ID)
                       (EncodeByteValue 1 [pv_vlan (ti_vlan_info tunnel_info)]) te
            in te)
         else te))"

definition v2_EncodeVlanPushTableEntry ::
    "TableEntry \<Rightarrow> u16 \<Rightarrow> P4Info \<Rightarrow> bool \<Rightarrow> TableEntry" where
  "v2_EncodeVlanPushTableEntry table_entry vlan_id p4info insert_entry =
     (let te = set_table_id (GetTableId p4info VLAN_PUSH_MOD_TABLE) table_entry;
          te = add_exact (GetMatchFieldId p4info VLAN_PUSH_MOD_TABLE
             VLAN_PUSH_MOD_KEY_MOD_BLOB_PTR) (EncodeByteValue 1 [ucast vlan_id]) te
      in (if insert_entry then
           (let te = mutable_action te;
                te = set_action_id (GetActionId p4info VLAN_PUSH_MOD_ACTION_VLAN_PUSH) te;
                te = add_param (GetParamId p4info VLAN_PUSH_MOD_ACTION_VLAN_PUSH
                         ACTION_VLAN_PUSH_PARAM_PCP)
                       (EncodeByteValue 1 [1]) te;
                te = add_param (GetParamId p4info VLAN_PUSH_MOD_ACTION_VLAN_PUSH
                         ACTION_VLAN_PUSH_PARAM_DEI)
                       (EncodeByteValue 1 [0]) te;
                te = add_param (GetParamId p4info VLAN_PUSH_MOD_ACTION_VLAN_PUSH
                         ACTION_VLAN_PUSH_PARAM_VLAN_ID)
                       (EncodeByteValue 1 [ucast vlan_id]) te
            in te)
         else te))"

definition v2_EncodeVlanPopTableEntry ::
    "TableEntry \<Rightarrow> u16 \<Rightarrow> P4Info \<Rightarrow> bool \<Rightarrow> TableEntry" where
  "v2_EncodeVlanPopTableEntry table_entry vlan_id p4info insert_entry =
     (let te = set_table_id (GetTableId p4info VLAN_POP_MOD_TABLE) table_entry;
          te = add_exact (GetMatchFieldId p4info VLAN_POP_MOD_TABLE
             VLAN_POP_MOD_KEY_MOD_BLOB_PTR) (EncodeByteValue 1 [ucast vlan_id]) te
      in (if insert_entry then
           (let te = mutable_action te;
                te = set_action_id (GetActionId p4info VLAN_POP_MOD_ACTION_VLAN_POP) te
            in te)
         else te))"

definition v2_EncodeSrcPortTableEntry ::
    "TableEntry \<Rightarrow> src_port_info \<Rightarrow> P4Info \<Rightarrow> bool \<Rightarrow> TableEntry" where
  "v2_EncodeSrcPortTableEntry table_entry sp p4info insert_entry =
     (let te = set_table_id (GetTableId p4info SOURCE_PORT_TO_BRIDGE_MAP_TABLE) table_entry;
          te = set_priority 1 te;
          te = add_ternary (GetMatchFieldId p4info SOURCE_PORT_TO_BRIDGE_MAP_TABLE
             SOURCE_PORT_TO_BRIDGE_MAP_TABLE_KEY_SRC_PORT)
             (encode_port32 (sp_src_port sp)) (EncodeByteValue 2 [0xff, 0xff]) te;
          te = add_ternary (GetMatchFieldId p4info SOURCE_PORT_TO_BRIDGE_MAP_TABLE
             SOURCE_PORT_TO_BRIDGE_MAP_TABLE_KEY_VID)
             (EncodeByteValue 2 [ucast (drop_bit 8 (sp_vlan_id sp)) AND 0x0f, ucast (sp_vlan_id sp) AND 0xff])
             (EncodeByteValue 2 [0x0f, 0xff]) te
      in (if insert_entry then
           (let te = mutable_action te;
                te = set_action_id
                       (GetActionId p4info SOURCE_PORT_TO_BRIDGE_MAP_TABLE_ACTION_SET_BRIDGE_ID) te;
                te = add_param (GetParamId p4info SOURCE_PORT_TO_BRIDGE_MAP_TABLE_ACTION_SET_BRIDGE_ID
                         ACTION_SET_BRIDGE_ID_PARAM_BRIDGE_ID)
                       (EncodeByteValue 1 [ucast (sp_bridge_id sp)]) te
            in te)
         else te))"

definition v2_EncodeSrcIpMacMapTableEntry ::
    "TableEntry \<Rightarrow> ip_mac_map_info \<Rightarrow> P4Info \<Rightarrow> bool \<Rightarrow>
     DiagDetail \<Rightarrow> TableEntry \<times> DiagDetail" where
  "v2_EncodeSrcIpMacMapTableEntry table_entry ip_info p4info insert_entry detail =
     (let te = set_table_id (GetTableId p4info SRC_IP_MAC_MAP_TABLE) table_entry;
          te = add_exact (GetMatchFieldId p4info SRC_IP_MAC_MAP_TABLE
             SRC_IP_MAC_MAP_TABLE_KEY_SRC_IP)
             (CanonicalizeIp (v4addr_s_addr (im_src_ip_addr ip_info))) te
      in ((if insert_entry then
           (let te = mutable_action te;
                te = set_action_id (GetActionId p4info SRC_IP_MAC_MAP_TABLE_ACTION_SMAC_MAP) te;
                te = add_param (GetParamId p4info SRC_IP_MAC_MAP_TABLE_ACTION_SMAC_MAP
                         ACTION_SET_SRC_MAC_HIGH)
                       (EncodeByteValue 2 [ucast (mac0 (im_src_mac_addr ip_info)) AND 0xff,
                          ucast (mac1 (im_src_mac_addr ip_info)) AND 0xff]) te;
                te = add_param (GetParamId p4info SRC_IP_MAC_MAP_TABLE_ACTION_SMAC_MAP
                         ACTION_SET_SRC_MAC_MID)
                       (EncodeByteValue 2 [ucast (mac2 (im_src_mac_addr ip_info)) AND 0xff,
                          ucast (mac3 (im_src_mac_addr ip_info)) AND 0xff]) te;
                te = add_param (GetParamId p4info SRC_IP_MAC_MAP_TABLE_ACTION_SMAC_MAP
                         ACTION_SET_SRC_MAC_LOW)
                       (EncodeByteValue 2 [ucast (mac4 (im_src_mac_addr ip_info)) AND 0xff,
                          ucast (mac5 (im_src_mac_addr ip_info)) AND 0xff]) te
            in te)
         else te),
          detail\<lparr>dd_table_id := LOG_SRC_IP_MAC_MAP_TABLE\<rparr>))"

definition v2_EncodeDstIpMacMapTableEntry ::
    "TableEntry \<Rightarrow> ip_mac_map_info \<Rightarrow> P4Info \<Rightarrow> bool \<Rightarrow>
     DiagDetail \<Rightarrow> TableEntry \<times> DiagDetail" where
  "v2_EncodeDstIpMacMapTableEntry table_entry ip_info p4info insert_entry detail =
     (let te = set_table_id (GetTableId p4info DST_IP_MAC_MAP_TABLE) table_entry;
          te = add_exact (GetMatchFieldId p4info DST_IP_MAC_MAP_TABLE
             DST_IP_MAC_MAP_TABLE_KEY_DST_IP)
             (CanonicalizeIp (v4addr_s_addr (im_dst_ip_addr ip_info))) te
      in ((if insert_entry then
           (let te = mutable_action te;
                te = set_action_id (GetActionId p4info DST_IP_MAC_MAP_TABLE_ACTION_DMAC_MAP) te;
                te = add_param (GetParamId p4info DST_IP_MAC_MAP_TABLE_ACTION_DMAC_MAP
                         ACTION_SET_DST_MAC_HIGH)
                       (EncodeByteValue 2 [ucast (mac0 (im_dst_mac_addr ip_info)) AND 0xff,
                          ucast (mac1 (im_dst_mac_addr ip_info)) AND 0xff]) te;
                te = add_param (GetParamId p4info DST_IP_MAC_MAP_TABLE_ACTION_DMAC_MAP
                         ACTION_SET_DST_MAC_MID)
                       (EncodeByteValue 2 [ucast (mac2 (im_dst_mac_addr ip_info)) AND 0xff,
                          ucast (mac3 (im_dst_mac_addr ip_info)) AND 0xff]) te;
                te = add_param (GetParamId p4info DST_IP_MAC_MAP_TABLE_ACTION_DMAC_MAP
                         ACTION_SET_DST_MAC_LOW)
                       (EncodeByteValue 2 [ucast (mac4 (im_dst_mac_addr ip_info)) AND 0xff,
                          ucast (mac5 (im_dst_mac_addr ip_info)) AND 0xff]) te
            in te)
         else te),
          detail\<lparr>dd_table_id := LOG_DST_IP_MAC_MAP_TABLE\<rparr>))"

definition v2_EncodeTxAccVsiTableEntry :: "TableEntry \<Rightarrow> u32 \<Rightarrow> P4Info \<Rightarrow> TableEntry" where
  "v2_EncodeTxAccVsiTableEntry table_entry sp p4info =
     (let te = set_table_id (GetTableId p4info TX_ACC_VSI_TABLE) table_entry;
          te = add_exact (GetMatchFieldId p4info TX_ACC_VSI_TABLE TX_ACC_VSI_TABLE_KEY_VSI)
             (EncodeByteValue 1 [sp - ES2K_VPORT_ID_OFFSET]) te
      in te)"

definition v2_EncodeVxlanDecapModTableEntry ::
    "TableEntry \<Rightarrow> tunnel_info \<Rightarrow> P4Info \<Rightarrow> bool \<Rightarrow> TableEntry" where
  "v2_EncodeVxlanDecapModTableEntry table_entry tunnel_info p4info insert_entry =
     (let te = set_table_id (GetTableId p4info VXLAN_DECAP_MOD_TABLE) table_entry;
          te = add_exact (GetMatchFieldId p4info VXLAN_DECAP_MOD_TABLE
             VXLAN_DECAP_MOD_TABLE_KEY_MOD_BLOB_PTR) (EncodeVniValue (ti_vni tunnel_info)) te
      in (if insert_entry then
           (let te = mutable_action te;
                te = set_action_id (GetActionId p4info ACTION_VXLAN_DECAP_OUTER_HDR) te
            in te)
         else te))"

definition v2_EncodeGeneveDecapModTableEntry ::
    "TableEntry \<Rightarrow> tunnel_info \<Rightarrow> P4Info \<Rightarrow> bool \<Rightarrow> TableEntry" where
  "v2_EncodeGeneveDecapModTableEntry table_entry tunnel_info p4info insert_entry =
     (let te = set_table_id (GetTableId p4info GENEVE_DECAP_MOD_TABLE) table_entry;
          te = add_exact (GetMatchFieldId p4info GENEVE_DECAP_MOD_TABLE
             GENEVE_DECAP_MOD_TABLE_KEY_MOD_BLOB_PTR) (EncodeVniValue (ti_vni tunnel_info)) te
      in (if insert_entry then
           (let te = mutable_action te;
                te = set_action_id (GetActionId p4info ACTION_GENEVE_DECAP_OUTER_HDR) te
            in te)
         else te))"

section \<open>The encoders for a target are those of version 3\<close>

lemma v2_tunnel_v6_param_name_eq: "v2_tunnel_v6_param_name = tunnel_v6_param_name"
  by (simp add: v2_tunnel_v6_param_name_def tunnel_v6_param_name_def)

text \<open>Resolving the conditionals of the functions compiled for both targets.\<close>

lemma v2_prologue_target:
  "v2_EncodeL2FwdTxTablePrologue ES2K_TARGET = EncodeL2FwdTxTablePrologue"
  "v2_EncodeL2FwdTxTablePrologue DPDK_TARGET = dpdk_EncodeL2FwdTxTablePrologue"
  by (intro ext, simp add: v2_names Let_def v2_EncodeL2FwdTxTablePrologue_def
      EncodeL2FwdTxTablePrologue_def dpdk_EncodeL2FwdTxTablePrologue_def)+

lemma v2_fdb_target:
  "v2_EncodeFdbTxVlanTableEntry ES2K_TARGET = EncodeFdbTxVlanTableEntry"
  "v2_EncodeFdbTxVlanTableEntry DPDK_TARGET = dpdk_EncodeFdbTxVlanTableEntry"
  "v2_EncodeFdbTableEntryforV4VxlanTunnel ES2K_TARGET = EncodeFdbTableEntryforV4VxlanTunnel"
  "v2_EncodeFdbTableEntryforV4VxlanTunnel DPDK_TARGET = dpdk_EncodeFdbTableEntryforV4VxlanTunnel"
  "v2_EncodeFdbTableEntryforV4GeneveTunnel = EncodeFdbTableEntryforV4GeneveTunnel"
  by (intro ext, simp only: v2_prologue_target target.case v2_EncodeFdbTxVlanTableEntry_def
      EncodeFdbTxVlanTableEntry_def dpdk_EncodeFdbTxVlanTableEntry_def
      v2_EncodeFdbTableEntryforV4VxlanTunnel_def EncodeFdbTableEntryforV4VxlanTunnel_def
      dpdk_EncodeFdbTableEntryforV4VxlanTunnel_def v2_EncodeFdbTableEntryforV4GeneveTunnel_def
      EncodeFdbTableEntryforV4GeneveTunnel_def)+

lemma v2_vxlan_encap_target:
  "v2_EncodeVxlanEncapTableEntry ES2K_TARGET = EncodeVxlanEncapTableEntry"
  "v2_EncodeVxlanEncapTableEntry DPDK_TARGET = dpdk_EncodeVxlanEncapTableEntry"
  by (intro ext, simp only: v2_names Let_def target.case v2_EncodeVxlanEncapTableEntry_def
      EncodeVxlanEncapTableEntry_def dpdk_EncodeVxlanEncapTableEntry_def)+

lemma v2_tunnel_term_target:
  "v2_EncodeTunnelTermTableEntry ES2K_TARGET = EncodeTunnelTermTableEntry"
  "v2_EncodeTunnelTermTableEntry DPDK_TARGET =
     (\<lambda>te t p b. (dpdk_EncodeTunnelTermTableEntry te t p b, []))"
  by (intro ext, simp only: v2_names Let_def target.case v2_EncodeTunnelTermTableEntry_def
      EncodeTunnelTermTableEntry_def dpdk_EncodeTunnelTermTableEntry_def)+

lemmas v2_encoder_defs = v2_EncodeFdbSmacTableEntry_def EncodeFdbSmacTableEntry_def
  v2_EncodeFdbRxVlanTableEntry_def EncodeFdbRxVlanTableEntry_def
  v2_EncodeL2ToTunnelV4_def EncodeL2ToTunnelV4_def
  v2_EncodeL2ToTunnelV6_def EncodeL2ToTunnelV6_def
  v2_EncodeGeneveEncapTableEntry_def EncodeGeneveEncapTableEntry_def
  v2_EncodeV6VxlanEncapTableEntry_def EncodeV6VxlanEncapTableEntry_def
  v2_EncodeV6GeneveEncapTableEntry_def EncodeV6GeneveEncapTableEntry_def
  v2_EncodeVxlanEncapAndVlanPopTableEntry_def EncodeVxlanEncapAndVlanPopTableEntry_def
  v2_EncodeGeneveEncapAndVlanPopTableEntry_def EncodeGeneveEncapAndVlanPopTableEntry_def
  v2_EncodeV6VxlanEncapAndVlanPopTableEntry_def EncodeV6VxlanEncapAndVlanPopTableEntry_def
  v2_EncodeV6GeneveEncapAndVlanPopTableEntry_def EncodeV6GeneveEncapAndVlanPopTableEntry_def
  v2_EncodeRxTunnelTableEntry_def EncodeRxTunnelTableEntry_def
  v2_EncodeV6RxTunnelTableEntry_def EncodeV6RxTunnelTableEntry_def
  v2_EncodeV6TunnelTermTableEntry_def EncodeV6TunnelTermTableEntry_def
  v2_EncodeVxlanDecapModAndVlanPushTableEntry_def EncodeVxlanDecapModAndVlanPushTableEntry_def
  v2_EncodeGeneveDecapModAndVlanPushTableEntry_def EncodeGeneveDecapModAndVlanPushTableEntry_def
  v2_EncodeVlanPushTableEntry_def EncodeVlanPushTableEntry_def
  v2_EncodeVlanPopTableEntry_def EncodeVlanPopTableEntry_def
  v2_EncodeSrcPortTableEntry_def EncodeSrcPortTableEntry_def
  v2_EncodeSrcIpMacMapTableEntry_def EncodeSrcIpMacMapTableEntry_def
  v2_EncodeDstIpMacMapTableEntry_def EncodeDstIpMacMapTableEntry_def
  v2_EncodeTxAccVsiTableEntry_def EncodeTxAccVsiTableEntry_def
  v2_EncodeVxlanDecapModTableEntry_def EncodeVxlanDecapModTableEntry_def
  v2_EncodeGeneveDecapModTableEntry_def EncodeGeneveDecapModTableEntry_def
  v2_dpdk_EncodeFdbRxVlanTableEntry_def dpdk_EncodeFdbRxVlanTableEntry_def

text \<open>The functions compiled for one target.\<close>

lemma v2_one_target:
  "v2_EncodeFdbSmacTableEntry = EncodeFdbSmacTableEntry"
  "v2_EncodeFdbRxVlanTableEntry = EncodeFdbRxVlanTableEntry"
  "v2_EncodeL2ToTunnelV4 = EncodeL2ToTunnelV4"
  "v2_EncodeL2ToTunnelV6 = EncodeL2ToTunnelV6"
  "v2_EncodeGeneveEncapTableEntry = EncodeGeneveEncapTableEntry"
  "v2_EncodeV6VxlanEncapTableEntry = EncodeV6VxlanEncapTableEntry"
  "v2_EncodeV6GeneveEncapTableEntry = EncodeV6GeneveEncapTableEntry"
  "v2_EncodeVxlanEncapAndVlanPopTableEntry = EncodeVxlanEncapAndVlanPopTableEntry"
  "v2_EncodeGeneveEncapAndVlanPopTableEntry = EncodeGeneveEncapAndVlanPopTableEntry"
  "v2_EncodeV6VxlanEncapAndVlanPopTableEntry = EncodeV6VxlanEncapAndVlanPopTableEntry"
  "v2_EncodeV6GeneveEncapAndVlanPopTableEntry = EncodeV6GeneveEncapAndVlanPopTableEntry"
  "v2_EncodeRxTunnelTableEntry = EncodeRxTunnelTableEntry"
  "v2_EncodeV6RxTunnelTableEntry = EncodeV6RxTunnelTableEntry"
  "v2_EncodeV6TunnelTermTableEntry = EncodeV6TunnelTermTableEntry"
  "v2_EncodeVxlanDecapModAndVlanPushTableEntry = EncodeVxlanDecapModAndVlanPushTableEntry"
  "v2_EncodeGeneveDecapModAndVlanPushTableEntry = EncodeGeneveDecapModAndVlanPushTableEntry"
  "v2_EncodeVlanPushTableEntry = EncodeVlanPushTableEntry"
  "v2_EncodeVlanPopTableEntry = EncodeVlanPopTableEntry"
  "v2_EncodeSrcPortTableEntry = EncodeSrcPortTableEntry"
  "v2_EncodeSrcIpMacMapTableEntry = EncodeSrcIpMacMapTableEntry"
  "v2_EncodeDstIpMacMapTableEntry = EncodeDstIpMacMapTableEntry"
  "v2_EncodeTxAccVsiTableEntry = EncodeTxAccVsiTableEntry"
  "v2_EncodeVxlanDecapModTableEntry = EncodeVxlanDecapModTableEntry"
  "v2_EncodeGeneveDecapModTableEntry = EncodeGeneveDecapModTableEntry"
  "v2_dpdk_EncodeFdbRxVlanTableEntry = dpdk_EncodeFdbRxVlanTableEntry"
  by (intro ext, simp only: v2_encoder_defs v2_tunnel_v6_param_name_eq)+

lemmas v2_encoders = v2_prologue_target v2_fdb_target v2_vxlan_encap_target v2_tunnel_term_target
  v2_one_target

end
