(* ===== verification/V2_Core.thy ===== *)
theory V2_Core
  imports V2_Encoders
begin

text \<open>
  \<^verbatim>\<open>core/v2/ovsp4rt_v2.cc\<close>: the functions that write and read one entry, and the
  \<open>DoConfig\<close> functions of the internal interface, in the order of the file. The target is
  an argument as in \<open>V2_Encoders\<close>: of the functions compiled for both, and not of those
  that exist on ES2K only. \<open>ConfigFdbEntry\<close> and \<open>DoConfigFdbEntry\<close> have one text for each
  target, the ones for DPDK with the prefix \<open>v2_dpdk_\<close>.
\<close>

definition v2_ValidIpAddr :: "u32 \<Rightarrow> bool" where
  "v2_ValidIpAddr nw_addr \<longleftrightarrow>
     nw_addr \<noteq> 0 \<and> nw_addr \<noteq> INADDR_ANY \<and> nw_addr \<noteq> INADDR_LOOPBACK \<and> nw_addr \<noteq> 0xffffffff"

definition v2_WriteFdbSmacTableEntry ::
    "('c, 'e) ClientInterface \<Rightarrow> mac_learning_info \<Rightarrow> P4Info \<Rightarrow> bool \<Rightarrow> ('c, 'e) world \<Rightarrow>
     (('c, 'e) world, Status) result" where
  "v2_WriteFdbSmacTableEntry client learn_info p4info insert_entry w = do {
     ((table_entry, write_request), w) \<leftarrow> ci_initWriteRequest client empty_WriteRequest insert_entry w;
     let (entry, detail) = v2_EncodeFdbSmacTableEntry (write_entry table_entry write_request)
           learn_info p4info insert_entry default_DiagDetail;
     (status, w) \<leftarrow>
       ci_sendWriteRequest client (put_write_entry table_entry entry write_request) w;
     Some (status,
       if \<not> ok status
       then LogFailureWithMacAddr insert_entry (getLogTableName detail) (ml_mac_addr learn_info) w
       else w)
   }"

definition v2_PrepareL2TunnelTableEntry ::
    "TableEntry \<Rightarrow> mac_learning_info \<Rightarrow> P4Info \<Rightarrow> bool \<Rightarrow>
     DiagDetail \<Rightarrow> TableEntry \<times> DiagDetail" where
  "v2_PrepareL2TunnelTableEntry table_entry learn_info p4info insert_entry detail =
     (if ip_family (ti_local_ip (ml_tnl_info learn_info)) = AF_INET6 \<and>
         ip_family (ti_remote_ip (ml_tnl_info learn_info)) = AF_INET6 then
        v2_EncodeL2ToTunnelV6 table_entry learn_info p4info insert_entry detail
      else v2_EncodeL2ToTunnelV4 table_entry learn_info p4info insert_entry detail)"

definition v2_WriteL2TunnelTableEntry ::
    "('c, 'e) ClientInterface \<Rightarrow> mac_learning_info \<Rightarrow> P4Info \<Rightarrow> bool \<Rightarrow> ('c, 'e) world \<Rightarrow>
     (('c, 'e) world, Status) result" where
  "v2_WriteL2TunnelTableEntry client learn_info p4info insert_entry w = do {
     ((table_entry, write_request), w) \<leftarrow> ci_initWriteRequest client empty_WriteRequest insert_entry w;
     let (entry, detail) = v2_PrepareL2TunnelTableEntry (write_entry table_entry write_request)
           learn_info p4info insert_entry default_DiagDetail;
     (status, w) \<leftarrow>
       ci_sendWriteRequest client (put_write_entry table_entry entry write_request) w;
     Some (status,
       if \<not> ok status
       then LogFailureWithMacAddr insert_entry (getLogTableName detail) (ml_mac_addr learn_info) w
       else w)
   }"

definition v2_WriteFdbTxVlanTableEntry ::
    "target \<Rightarrow> ('c, 'e) ClientInterface \<Rightarrow> mac_learning_info \<Rightarrow> P4Info \<Rightarrow> bool \<Rightarrow> ('c, 'e) world \<Rightarrow>
     (('c, 'e) world, Status) result" where
  "v2_WriteFdbTxVlanTableEntry target client learn_info p4info insert_entry w = do {
     ((table_entry, write_request), w) \<leftarrow> ci_initWriteRequest client empty_WriteRequest insert_entry w;
     let te = write_entry table_entry write_request;
     let (entry, detail) = v2_EncodeFdbTxVlanTableEntry target te learn_info p4info insert_entry default_DiagDetail;
     (status, w) \<leftarrow>
       ci_sendWriteRequest client (put_write_entry table_entry entry write_request) w;
     Some (status,
       if \<not> ok status
       then LogFailureWithMacAddr insert_entry (getLogTableName detail) (ml_mac_addr learn_info) w
       else w)
   }"

definition v2_WriteFdbRxVlanTableEntry ::
    "target \<Rightarrow> ('c, 'e) ClientInterface \<Rightarrow> mac_learning_info \<Rightarrow> P4Info \<Rightarrow> bool \<Rightarrow> ('c, 'e) world \<Rightarrow>
     (('c, 'e) world, Status) result" where
  "v2_WriteFdbRxVlanTableEntry target client learn_info p4info insert_entry w = do {
     ((table_entry, write_request), w) \<leftarrow> ci_initWriteRequest client empty_WriteRequest insert_entry w;
     let te = write_entry table_entry write_request;
     let (entry, detail) = (case target of
         ES2K_TARGET \<Rightarrow> v2_EncodeFdbRxVlanTableEntry te learn_info p4info insert_entry default_DiagDetail
       | DPDK_TARGET \<Rightarrow> v2_dpdk_EncodeFdbRxVlanTableEntry te learn_info p4info insert_entry default_DiagDetail);
     (status, w) \<leftarrow>
       ci_sendWriteRequest client (put_write_entry table_entry entry write_request) w;
     Some (status,
       if \<not> ok status
       then LogFailureWithMacAddr insert_entry (getLogTableName detail) (ml_mac_addr learn_info) w
       else w)
   }"

definition v2_PrepareFdbTunnelTableEntry ::
    "TableEntry \<Rightarrow> mac_learning_info \<Rightarrow> P4Info \<Rightarrow> bool \<Rightarrow>
     DiagDetail \<Rightarrow> TableEntry \<times> DiagDetail" where
  "v2_PrepareFdbTunnelTableEntry table_entry learn_info p4info insert_entry detail =
     (if ti_tunnel_type (ml_tnl_info learn_info) = OVS_TUNNEL_VXLAN then
        v2_EncodeFdbTableEntryforV4VxlanTunnel ES2K_TARGET table_entry learn_info p4info insert_entry detail
      else if ti_tunnel_type (ml_tnl_info learn_info) = OVS_TUNNEL_GENEVE then
        v2_EncodeFdbTableEntryforV4GeneveTunnel table_entry learn_info p4info insert_entry detail
      else if \<not> insert_entry then
        (v2_EncodeL2FwdTxTablePrologue ES2K_TARGET table_entry learn_info p4info, detail)
      else (table_entry, detail))"

definition v2_WriteFdbTunnelTableEntry ::
    "target \<Rightarrow> ('c, 'e) ClientInterface \<Rightarrow> mac_learning_info \<Rightarrow> P4Info \<Rightarrow> bool \<Rightarrow> ('c, 'e) world \<Rightarrow>
     (('c, 'e) world, Status) result" where
  "v2_WriteFdbTunnelTableEntry target client learn_info p4info insert_entry w = do {
     ((table_entry, write_request), w) \<leftarrow> ci_initWriteRequest client empty_WriteRequest insert_entry w;
     let te = write_entry table_entry write_request;
     let (entry, detail) = (case target of
         DPDK_TARGET \<Rightarrow> v2_EncodeFdbTableEntryforV4VxlanTunnel DPDK_TARGET te learn_info p4info insert_entry default_DiagDetail
       | ES2K_TARGET \<Rightarrow> v2_PrepareFdbTunnelTableEntry te learn_info p4info insert_entry default_DiagDetail);
     (status, w) \<leftarrow>
       ci_sendWriteRequest client (put_write_entry table_entry entry write_request) w;
     Some (status,
       if \<not> ok status
       then LogFailureWithMacAddr insert_entry (getLogTableName detail) (ml_mac_addr learn_info) w
       else w)
   }"

definition v2_PrepareV4EncapTableEntry ::
    "target \<Rightarrow> TableEntry \<Rightarrow> tunnel_info \<Rightarrow> P4Info \<Rightarrow> bool \<Rightarrow> TableEntry \<times> string list" where
  "v2_PrepareV4EncapTableEntry target table_entry tunnel_info p4info insert_entry =
     (case target of
        DPDK_TARGET \<Rightarrow>
          (v2_EncodeVxlanEncapTableEntry DPDK_TARGET table_entry tunnel_info p4info insert_entry, [])
      | ES2K_TARGET \<Rightarrow>
          (if ti_tunnel_type tunnel_info = OVS_TUNNEL_VXLAN then
             (v2_EncodeVxlanEncapTableEntry ES2K_TARGET table_entry tunnel_info p4info insert_entry, [])
           else if ti_tunnel_type tunnel_info = OVS_TUNNEL_GENEVE then
             (v2_EncodeGeneveEncapTableEntry table_entry tunnel_info p4info insert_entry, [])
           else (table_entry, [''ERROR: Unsupported tunnel type''])))"

definition v2_PrepareV6EncapTableEntry ::
    "TableEntry \<Rightarrow> tunnel_info \<Rightarrow> P4Info \<Rightarrow> bool \<Rightarrow> TableEntry \<times> string list" where
  "v2_PrepareV6EncapTableEntry table_entry tunnel_info p4info insert_entry =
     (if ti_tunnel_type tunnel_info = OVS_TUNNEL_VXLAN then
        (v2_EncodeV6VxlanEncapTableEntry table_entry tunnel_info p4info insert_entry, [])
      else if ti_tunnel_type tunnel_info = OVS_TUNNEL_GENEVE then
        (v2_EncodeV6GeneveEncapTableEntry table_entry tunnel_info p4info insert_entry, [])
      else (table_entry, [''ERROR: Unsupported tunnel type'']))"

definition v2_PrepareV4EncapAndVlanPopTableEntry ::
    "TableEntry \<Rightarrow> tunnel_info \<Rightarrow> P4Info \<Rightarrow> bool \<Rightarrow> TableEntry \<times> string list" where
  "v2_PrepareV4EncapAndVlanPopTableEntry table_entry tunnel_info p4info insert_entry =
     (if ti_tunnel_type tunnel_info = OVS_TUNNEL_VXLAN then
        (v2_EncodeVxlanEncapAndVlanPopTableEntry table_entry tunnel_info p4info insert_entry, [])
      else if ti_tunnel_type tunnel_info = OVS_TUNNEL_GENEVE then
        (v2_EncodeGeneveEncapAndVlanPopTableEntry table_entry tunnel_info p4info insert_entry, [])
      else (table_entry, [''ERROR: Unsupported tunnel type'']))"

definition v2_PrepareV6EncapAndVlanPopTableEntry ::
    "TableEntry \<Rightarrow> tunnel_info \<Rightarrow> P4Info \<Rightarrow> bool \<Rightarrow> TableEntry \<times> string list" where
  "v2_PrepareV6EncapAndVlanPopTableEntry table_entry tunnel_info p4info insert_entry =
     (if ti_tunnel_type tunnel_info = OVS_TUNNEL_VXLAN then
        (v2_EncodeV6VxlanEncapAndVlanPopTableEntry table_entry tunnel_info p4info insert_entry, [])
      else if ti_tunnel_type tunnel_info = OVS_TUNNEL_GENEVE then
        (v2_EncodeV6GeneveEncapAndVlanPopTableEntry table_entry tunnel_info p4info insert_entry, [])
      else (table_entry, [''ERROR: Unsupported tunnel type'']))"

definition v2_PrepareEncapTableEntry ::
    "TableEntry \<Rightarrow> tunnel_info \<Rightarrow> P4Info \<Rightarrow> bool \<Rightarrow> TableEntry \<times> string list" where
  "v2_PrepareEncapTableEntry table_entry tunnel_info p4info insert_entry =
     (if ip_family (ti_local_ip tunnel_info) = AF_INET \<and>
         ip_family (ti_remote_ip tunnel_info) = AF_INET then
        (if pv_mode (ti_vlan_info tunnel_info) = P4_PORT_VLAN_NATIVE_UNTAGGED then
           v2_PrepareV4EncapAndVlanPopTableEntry table_entry tunnel_info p4info insert_entry
         else v2_PrepareV4EncapTableEntry ES2K_TARGET table_entry tunnel_info p4info insert_entry)
      else if ip_family (ti_local_ip tunnel_info) = AF_INET6 \<and>
         ip_family (ti_remote_ip tunnel_info) = AF_INET6 then
        (if pv_mode (ti_vlan_info tunnel_info) = P4_PORT_VLAN_NATIVE_UNTAGGED then
           v2_PrepareV6EncapAndVlanPopTableEntry table_entry tunnel_info p4info insert_entry
         else v2_PrepareV6EncapTableEntry table_entry tunnel_info p4info insert_entry)
      else (table_entry, []))"

definition v2_WriteEncapTableEntry ::
    "target \<Rightarrow> ('c, 'e) ClientInterface \<Rightarrow> tunnel_info \<Rightarrow> P4Info \<Rightarrow> bool \<Rightarrow> ('c, 'e) world \<Rightarrow>
     (('c, 'e) world, Status) result" where
  "v2_WriteEncapTableEntry target client tunnel_info p4info insert_entry w = do {
     ((table_entry, write_request), w) \<leftarrow> ci_initWriteRequest client empty_WriteRequest insert_entry w;
     let te = write_entry table_entry write_request;
     let (entry, lines) = (case target of
         DPDK_TARGET \<Rightarrow> v2_PrepareV4EncapTableEntry DPDK_TARGET te tunnel_info p4info insert_entry
       | ES2K_TARGET \<Rightarrow> v2_PrepareEncapTableEntry te tunnel_info p4info insert_entry);
     ci_sendWriteRequest client (put_write_entry table_entry entry write_request)
       (print_lines lines w)
   }"

definition v2_PrepareDecapModTableEntry ::
    "TableEntry \<Rightarrow> tunnel_info \<Rightarrow> P4Info \<Rightarrow> bool \<Rightarrow> TableEntry \<times> string list" where
  "v2_PrepareDecapModTableEntry table_entry tunnel_info p4info insert_entry =
     (if ti_tunnel_type tunnel_info = OVS_TUNNEL_VXLAN then
        (v2_EncodeVxlanDecapModTableEntry table_entry tunnel_info p4info insert_entry, [])
      else if ti_tunnel_type tunnel_info = OVS_TUNNEL_GENEVE then
        (v2_EncodeGeneveDecapModTableEntry table_entry tunnel_info p4info insert_entry, [])
      else (table_entry, [''ERROR: Unsupported tunnel type'']))"

definition v2_PrepareDecapModAndVlanPushTableEntry ::
    "TableEntry \<Rightarrow> tunnel_info \<Rightarrow> P4Info \<Rightarrow> bool \<Rightarrow> TableEntry \<times> string list" where
  "v2_PrepareDecapModAndVlanPushTableEntry table_entry tunnel_info p4info insert_entry =
     (if ti_tunnel_type tunnel_info = OVS_TUNNEL_VXLAN then
        (v2_EncodeVxlanDecapModAndVlanPushTableEntry table_entry tunnel_info p4info insert_entry, [])
      else if ti_tunnel_type tunnel_info = OVS_TUNNEL_GENEVE then
        (v2_EncodeGeneveDecapModAndVlanPushTableEntry table_entry tunnel_info p4info insert_entry, [])
      else (table_entry, [''ERROR: Unsupported tunnel type'']))"

definition v2_PrepareDecapTableEntry ::
    "TableEntry \<Rightarrow> tunnel_info \<Rightarrow> P4Info \<Rightarrow> bool \<Rightarrow> TableEntry \<times> string list" where
  "v2_PrepareDecapTableEntry table_entry tunnel_info p4info insert_entry =
     (if pv_mode (ti_vlan_info tunnel_info) = P4_PORT_VLAN_NATIVE_TAGGED then
        v2_PrepareDecapModTableEntry table_entry tunnel_info p4info insert_entry
      else v2_PrepareDecapModAndVlanPushTableEntry table_entry tunnel_info p4info insert_entry)"

definition v2_WriteDecapTableEntry ::
    "('c, 'e) ClientInterface \<Rightarrow> tunnel_info \<Rightarrow> P4Info \<Rightarrow> bool \<Rightarrow> ('c, 'e) world \<Rightarrow>
     (('c, 'e) world, Status) result" where
  "v2_WriteDecapTableEntry client tunnel_info p4info insert_entry w = do {
     ((table_entry, write_request), w) \<leftarrow> ci_initWriteRequest client empty_WriteRequest insert_entry w;
     let (entry, lines) = v2_PrepareDecapTableEntry (write_entry table_entry write_request)
           tunnel_info p4info insert_entry;
     ci_sendWriteRequest client (put_write_entry table_entry entry write_request)
       (print_lines lines w)
   }"

definition v2_WriteVlanPushTableEntry ::
    "('c, 'e) ClientInterface \<Rightarrow> u16 \<Rightarrow> P4Info \<Rightarrow> bool \<Rightarrow> ('c, 'e) world \<Rightarrow>
     (('c, 'e) world, Status) result" where
  "v2_WriteVlanPushTableEntry client vlan_id p4info insert_entry w = do {
     ((table_entry, write_request), w) \<leftarrow> ci_initWriteRequest client empty_WriteRequest insert_entry w;
     let write_request = put_write_entry table_entry
           (v2_EncodeVlanPushTableEntry (write_entry table_entry write_request)
              vlan_id p4info insert_entry) write_request;
     ci_sendWriteRequest client write_request w
   }"

definition v2_WriteVlanPopTableEntry ::
    "('c, 'e) ClientInterface \<Rightarrow> u16 \<Rightarrow> P4Info \<Rightarrow> bool \<Rightarrow> ('c, 'e) world \<Rightarrow>
     (('c, 'e) world, Status) result" where
  "v2_WriteVlanPopTableEntry client vlan_id p4info insert_entry w = do {
     ((table_entry, write_request), w) \<leftarrow> ci_initWriteRequest client empty_WriteRequest insert_entry w;
     let write_request = put_write_entry table_entry
           (v2_EncodeVlanPopTableEntry (write_entry table_entry write_request)
              vlan_id p4info insert_entry) write_request;
     ci_sendWriteRequest client write_request w
   }"

definition v2_ReadL2ToTunnelV4TableEntry ::
    "('c, 'e) ClientInterface \<Rightarrow> mac_learning_info \<Rightarrow> P4Info \<Rightarrow> ('c, 'e) world \<Rightarrow>
     (('c, 'e) world, ReadResponse StatusOr) result" where
  "v2_ReadL2ToTunnelV4TableEntry client learn_info p4info w = do {
     ((table_entry, read_request), w) \<leftarrow> ci_initReadRequest client empty_ReadRequest w;
     let (entry, detail) = v2_EncodeL2ToTunnelV4 (read_entry table_entry read_request)
           learn_info p4info False default_DiagDetail;
     ci_sendReadRequest client (put_read_entry table_entry entry read_request) w
   }"

definition v2_ReadL2ToTunnelV6TableEntry ::
    "('c, 'e) ClientInterface \<Rightarrow> mac_learning_info \<Rightarrow> P4Info \<Rightarrow> ('c, 'e) world \<Rightarrow>
     (('c, 'e) world, ReadResponse StatusOr) result" where
  "v2_ReadL2ToTunnelV6TableEntry client learn_info p4info w = do {
     ((table_entry, read_request), w) \<leftarrow> ci_initReadRequest client empty_ReadRequest w;
     let (entry, detail) = v2_EncodeL2ToTunnelV6 (read_entry table_entry read_request)
           learn_info p4info False default_DiagDetail;
     ci_sendReadRequest client (put_read_entry table_entry entry read_request) w
   }"

definition v2_PrepareFdbTableV4TunnelEntry ::
    "TableEntry \<Rightarrow> mac_learning_info \<Rightarrow> P4Info \<Rightarrow> bool \<Rightarrow>
     DiagDetail \<Rightarrow> bool \<Rightarrow> TableEntry \<times> DiagDetail" where
  "v2_PrepareFdbTableV4TunnelEntry table_entry learn_info p4info insert_entry detail testing =
     (if ti_tunnel_type (ml_tnl_info learn_info) = OVS_TUNNEL_VXLAN then
        v2_EncodeFdbTableEntryforV4VxlanTunnel ES2K_TARGET table_entry learn_info p4info testing detail
      else if ti_tunnel_type (ml_tnl_info learn_info) = OVS_TUNNEL_GENEVE then
        v2_EncodeFdbTableEntryforV4GeneveTunnel table_entry learn_info p4info testing detail
      else (table_entry, detail))"

definition v2_ReadFdbTunnelTableEntry ::
    "('c, 'e) ClientInterface \<Rightarrow> mac_learning_info \<Rightarrow> P4Info \<Rightarrow> bool \<Rightarrow> ('c, 'e) world \<Rightarrow>
     (('c, 'e) world, ReadResponse StatusOr) result" where
  "v2_ReadFdbTunnelTableEntry client learn_info p4info adding w = do {
     ((table_entry, read_request), w) \<leftarrow> ci_initReadRequest client empty_ReadRequest w;
     let (entry, detail) = v2_PrepareFdbTableV4TunnelEntry
           (read_entry table_entry read_request) learn_info p4info False default_DiagDetail False;
     ci_sendReadRequest client (put_read_entry table_entry entry read_request) w
   }"

definition v2_ReadFdbVlanTableEntry ::
    "('c, 'e) ClientInterface \<Rightarrow> mac_learning_info \<Rightarrow> P4Info \<Rightarrow> bool \<Rightarrow> ('c, 'e) world \<Rightarrow>
     (('c, 'e) world, ReadResponse StatusOr) result" where
  "v2_ReadFdbVlanTableEntry client learn_info p4info adding w = do {
     ((table_entry, read_request), w) \<leftarrow> ci_initReadRequest client empty_ReadRequest w;
     let (entry, detail) = v2_EncodeFdbTxVlanTableEntry ES2K_TARGET (read_entry table_entry read_request)
           learn_info p4info False default_DiagDetail;
     ci_sendReadRequest client (put_read_entry table_entry entry read_request) w
   }"

definition v2_ReadVmSrcTableEntry ::
    "('c, 'e) ClientInterface \<Rightarrow> ip_mac_map_info \<Rightarrow> P4Info \<Rightarrow> ('c, 'e) world \<Rightarrow>
     (('c, 'e) world, ReadResponse StatusOr) result" where
  "v2_ReadVmSrcTableEntry client ip_info p4info w = do {
     ((table_entry, read_request), w) \<leftarrow> ci_initReadRequest client empty_ReadRequest w;
     let (entry, detail) = v2_EncodeSrcIpMacMapTableEntry (read_entry table_entry read_request)
           ip_info p4info False default_DiagDetail;
     ci_sendReadRequest client (put_read_entry table_entry entry read_request) w
   }"

definition v2_ReadVmDstTableEntry ::
    "('c, 'e) ClientInterface \<Rightarrow> ip_mac_map_info \<Rightarrow> P4Info \<Rightarrow> ('c, 'e) world \<Rightarrow>
     (('c, 'e) world, ReadResponse StatusOr) result" where
  "v2_ReadVmDstTableEntry client ip_info p4info w = do {
     ((table_entry, read_request), w) \<leftarrow> ci_initReadRequest client empty_ReadRequest w;
     let (entry, detail) = v2_EncodeDstIpMacMapTableEntry (read_entry table_entry read_request)
           ip_info p4info False default_DiagDetail;
     ci_sendReadRequest client (put_read_entry table_entry entry read_request) w
   }"

text \<open>The host port of a VSI: the loops of \<open>GetTxAccVsiPort\<close> over the entities, their
  parameters and the bytes of a parameter are the three functions that follow the read.\<close>

definition v2_ReadTxAccVsiTableEntry ::
    "('c, 'e) ClientInterface \<Rightarrow> u32 \<Rightarrow> P4Info \<Rightarrow> ('c, 'e) world \<Rightarrow>
     (('c, 'e) world, ReadResponse StatusOr) result" where
  "v2_ReadTxAccVsiTableEntry client sp p4info w = do {
     ((table_entry, read_request), w) \<leftarrow> ci_initReadRequest client empty_ReadRequest w;
     let read_request = put_read_entry table_entry
           (v2_EncodeTxAccVsiTableEntry (read_entry table_entry read_request) sp p4info) read_request;
     ci_sendReadRequest client read_request w
   }"

fun v2_decode_host_sp :: "u32 \<Rightarrow> bytes \<Rightarrow> u32" where
  "v2_decode_host_sp host_sp [] = host_sp"
| "v2_decode_host_sp host_sp (b # val) =
     v2_decode_host_sp (push_bit 8 host_sp OR (ucast b AND 0xff)) val"

fun v2_find_port_param :: "u32 \<Rightarrow> Param list \<Rightarrow> u32 option" where
  "v2_find_port_param param_id [] = None"
| "v2_find_port_param param_id (param # params) =
     (if par_param_id param = param_id then Some (v2_decode_host_sp 0 (par_value param))
      else v2_find_port_param param_id params)"

fun v2_find_port_entity :: "u32 \<Rightarrow> TableEntry list \<Rightarrow> u32 option" where
  "v2_find_port_entity param_id [] = None"
| "v2_find_port_entity param_id (table_entry # entities) =
     (case v2_find_port_param param_id (act_params (the_action table_entry)) of
        Some host_sp \<Rightarrow> Some host_sp
      | None \<Rightarrow> v2_find_port_entity param_id entities)"

definition v2_GetTxAccVsiPort ::
    "('c, 'e) ClientInterface \<Rightarrow> P4Info \<Rightarrow> u32 \<Rightarrow> ('c, 'e) world \<Rightarrow>
     (('c, 'e) world, u32 StatusOr) result" where
  "v2_GetTxAccVsiPort client p4info src_port w = do {
     (response_or_status, w) \<leftarrow> v2_ReadTxAccVsiTableEntry client src_port p4info w;
     case response_or_status of
       Inl status \<Rightarrow> Some (Inl status, w)
     | Inr read_response \<Rightarrow>
         (let param_id = GetParamId p4info TX_ACC_VSI_TABLE_ACTION_L2_FWD_AND_BYPASS_BRIDGE
                           ACTION_L2_FWD_AND_BYPASS_BRIDGE_PARAM_PORT
          in case v2_find_port_entity param_id (rs_entities read_response) of
               Some host_sp \<Rightarrow> Some (Inr host_sp, w)
             | None \<Rightarrow> Some (Inl (InternalError ''Missing port parameter''), w))
   }"

definition v2_WriteVsiSrcPortTableEntry ::
    "('c, 'e) ClientInterface \<Rightarrow> src_port_info \<Rightarrow> P4Info \<Rightarrow> bool \<Rightarrow> ('c, 'e) world \<Rightarrow>
     (('c, 'e) world, Status) result" where
  "v2_WriteVsiSrcPortTableEntry client port_info p4info insert_entry w = do {
     ((table_entry, write_request), w) \<leftarrow> ci_initWriteRequest client empty_WriteRequest insert_entry w;
     let write_request = put_write_entry table_entry
           (v2_EncodeSrcPortTableEntry (write_entry table_entry write_request)
              port_info p4info insert_entry) write_request;
     ci_sendWriteRequest client write_request w
   }"

definition v2_PrepareRxTunnelSrcPortTableEntry ::
    "TableEntry \<Rightarrow> tunnel_info \<Rightarrow> P4Info \<Rightarrow> bool \<Rightarrow> TableEntry" where
  "v2_PrepareRxTunnelSrcPortTableEntry table_entry tunnel_info p4info insert_entry =
     (if ip_family (ti_local_ip tunnel_info) = AF_INET \<and>
         ip_family (ti_remote_ip tunnel_info) = AF_INET then
        v2_EncodeRxTunnelTableEntry table_entry tunnel_info p4info insert_entry
      else if ip_family (ti_local_ip tunnel_info) = AF_INET6 \<and>
         ip_family (ti_remote_ip tunnel_info) = AF_INET6 then
        v2_EncodeV6RxTunnelTableEntry table_entry tunnel_info p4info insert_entry
      else table_entry)"

definition v2_WriteRxTunnelSrcPortTableEntry ::
    "('c, 'e) ClientInterface \<Rightarrow> tunnel_info \<Rightarrow> P4Info \<Rightarrow> bool \<Rightarrow> ('c, 'e) world \<Rightarrow>
     (('c, 'e) world, Status) result" where
  "v2_WriteRxTunnelSrcPortTableEntry client tunnel_info p4info insert_entry w = do {
     ((table_entry, write_request), w) \<leftarrow> ci_initWriteRequest client empty_WriteRequest insert_entry w;
     let write_request = put_write_entry table_entry
           (v2_PrepareRxTunnelSrcPortTableEntry (write_entry table_entry write_request)
              tunnel_info p4info insert_entry) write_request;
     ci_sendWriteRequest client write_request w
   }"

definition v2_PrepareTunnelTermTableEntry ::
    "TableEntry \<Rightarrow> tunnel_info \<Rightarrow> P4Info \<Rightarrow> bool \<Rightarrow> TableEntry \<times> string list" where
  "v2_PrepareTunnelTermTableEntry table_entry tunnel_info p4info insert_entry =
     (if ip_family (ti_local_ip tunnel_info) = AF_INET \<and>
         ip_family (ti_remote_ip tunnel_info) = AF_INET then
        v2_EncodeTunnelTermTableEntry ES2K_TARGET table_entry tunnel_info p4info insert_entry
      else if ip_family (ti_local_ip tunnel_info) = AF_INET6 \<and>
         ip_family (ti_remote_ip tunnel_info) = AF_INET6 then
        v2_EncodeV6TunnelTermTableEntry table_entry tunnel_info p4info insert_entry
      else (table_entry, []))"

definition v2_WriteTunnelTermTableEntry ::
    "target \<Rightarrow> ('c, 'e) ClientInterface \<Rightarrow> tunnel_info \<Rightarrow> P4Info \<Rightarrow> bool \<Rightarrow> ('c, 'e) world \<Rightarrow>
     (('c, 'e) world, Status) result" where
  "v2_WriteTunnelTermTableEntry target client tunnel_info p4info insert_entry w = do {
     ((table_entry, write_request), w) \<leftarrow> ci_initWriteRequest client empty_WriteRequest insert_entry w;
     let te = write_entry table_entry write_request;
     let (entry, lines) = (case target of
         DPDK_TARGET \<Rightarrow> v2_EncodeTunnelTermTableEntry DPDK_TARGET te tunnel_info p4info insert_entry
       | ES2K_TARGET \<Rightarrow> v2_PrepareTunnelTermTableEntry te tunnel_info p4info insert_entry);
     ci_sendWriteRequest client (put_write_entry table_entry entry write_request)
       (print_lines lines w)
   }"

definition v2_WriteDstIpMacMapTableEntry ::
    "('c, 'e) ClientInterface \<Rightarrow> ip_mac_map_info \<Rightarrow> P4Info \<Rightarrow> bool \<Rightarrow> ('c, 'e) world \<Rightarrow>
     (('c, 'e) world, Status) result" where
  "v2_WriteDstIpMacMapTableEntry client ip_info p4info insert_entry w = do {
     ((table_entry, write_request), w) \<leftarrow> ci_initWriteRequest client empty_WriteRequest insert_entry w;
     let (entry, detail) = v2_EncodeDstIpMacMapTableEntry (write_entry table_entry write_request)
           ip_info p4info insert_entry default_DiagDetail;
     (status, w) \<leftarrow>
       ci_sendWriteRequest client (put_write_entry table_entry entry write_request) w;
     Some (status,
       if \<not> ok status
       then LogFailure insert_entry (getLogTableName detail) w
       else w)
   }"

definition v2_WriteSrcIpMacMapTableEntry ::
    "('c, 'e) ClientInterface \<Rightarrow> ip_mac_map_info \<Rightarrow> P4Info \<Rightarrow> bool \<Rightarrow> ('c, 'e) world \<Rightarrow>
     (('c, 'e) world, Status) result" where
  "v2_WriteSrcIpMacMapTableEntry client ip_info p4info insert_entry w = do {
     ((table_entry, write_request), w) \<leftarrow> ci_initWriteRequest client empty_WriteRequest insert_entry w;
     let (entry, detail) = v2_EncodeSrcIpMacMapTableEntry (write_entry table_entry write_request)
           ip_info p4info insert_entry default_DiagDetail;
     (status, w) \<leftarrow>
       ci_sendWriteRequest client (put_write_entry table_entry entry write_request) w;
     Some (status,
       if \<not> ok status
       then LogFailure insert_entry (getLogTableName detail) w
       else w)
   }"

definition v2_UpdateFdbTunnelInfo ::
    "('c, 'e) ClientInterface \<Rightarrow> mac_learning_info \<Rightarrow> P4Info \<Rightarrow> ('c, 'e) world \<Rightarrow>
     (('c, 'e) world, mac_learning_info) result" where
  "v2_UpdateFdbTunnelInfo client learn_info p4info w = do {
     (status_or_read_response, w) \<leftarrow> v2_ReadL2ToTunnelV4TableEntry client learn_info p4info w;
     let learn_info = (if status_or_ok status_or_read_response
                       then learn_info\<lparr>ml_is_tunnel := True\<rparr> else learn_info);
     if \<not> ml_is_tunnel learn_info then do {
       (status_or_read_response, w) \<leftarrow> v2_ReadL2ToTunnelV6TableEntry client learn_info p4info w;
       let tnl_info = ml_tnl_info learn_info;
       let learn_info =
         (if status_or_ok status_or_read_response
          then learn_info\<lparr>ml_is_tunnel := True,
                 ml_tnl_info := tnl_info\<lparr>
                   ti_local_ip := (ti_local_ip tnl_info)\<lparr>ip_family := AF_INET6\<rparr>,
                   ti_remote_ip := (ti_remote_ip tnl_info)\<lparr>ip_family := AF_INET6\<rparr>\<rparr>\<rparr>
          else learn_info);
       Some (learn_info, w)
     }
     else Some (learn_info, w)
   }"

definition v2_UpdateFdbSrcPortInfo ::
    "('c, 'e) ClientInterface \<Rightarrow> mac_learning_info \<Rightarrow> P4Info \<Rightarrow> ('c, 'e) world \<Rightarrow>
     (('c, 'e) world, Status \<times> mac_learning_info) result" where
  "v2_UpdateFdbSrcPortInfo client learn_info p4info w = do {
     (host_sp, w) \<leftarrow> v2_GetTxAccVsiPort client p4info (ml_src_port learn_info) w;
     case host_sp of
       Inl status \<Rightarrow> Some ((status, learn_info), w)
     | Inr port \<Rightarrow> Some ((OkStatus, learn_info\<lparr>ml_src_port := port\<rparr>), w)
   }"

definition v2_ConfigFdbTunnelEntry ::
    "('c, 'e) ClientInterface \<Rightarrow> mac_learning_info \<Rightarrow> bool \<Rightarrow> P4Info \<Rightarrow> ('c, 'e) world \<Rightarrow>
     (('c, 'e) world, Status) result" where
  "v2_ConfigFdbTunnelEntry client learn_info insert_entry p4info w = do {
     (exists, w) \<leftarrow>
       (if insert_entry then do {
          (status_or_read_response, w) \<leftarrow> v2_ReadFdbTunnelTableEntry client learn_info p4info True w;
          Some (status_or_ok status_or_read_response, w)
        } else Some (False, w));
     if exists then Some (OkStatus, w)
     else do {
       (_, w) \<leftarrow> v2_WriteFdbTunnelTableEntry ES2K_TARGET client learn_info p4info insert_entry w;
       (_, w) \<leftarrow> v2_WriteL2TunnelTableEntry client learn_info p4info insert_entry w;
       (_, w) \<leftarrow> v2_WriteFdbSmacTableEntry client learn_info p4info insert_entry w;
       Some (OkStatus, w)
     }
   }"

definition v2_ConfigFdbVlanEntry ::
    "('c, 'e) ClientInterface \<Rightarrow> mac_learning_info \<Rightarrow> bool \<Rightarrow> P4Info \<Rightarrow> ('c, 'e) world \<Rightarrow>
     (('c, 'e) world, Status) result" where
  "v2_ConfigFdbVlanEntry client learn_info insert_entry p4info w = do {
     (r, w) \<leftarrow>
       (if insert_entry then do {
          (status_or_read_response, w) \<leftarrow> v2_ReadFdbVlanTableEntry client learn_info p4info True w;
          if status_or_ok status_or_read_response then Some (Inl OkStatus, w)
          else do {
            (_, w) \<leftarrow> v2_WriteFdbRxVlanTableEntry ES2K_TARGET client learn_info p4info insert_entry w;
            ((status, learn_info), w) \<leftarrow> v2_UpdateFdbSrcPortInfo client learn_info p4info w;
            Some (if \<not> ok status then Inl status else Inr learn_info, w)
          }
        } else Some (Inr learn_info, w));
     case r of
       Inl status \<Rightarrow> Some (status, w)
     | Inr learn_info \<Rightarrow> do {
         (_, w) \<leftarrow> v2_WriteFdbTxVlanTableEntry ES2K_TARGET client learn_info p4info insert_entry w;
         (_, w) \<leftarrow> v2_WriteFdbSmacTableEntry client learn_info p4info insert_entry w;
         Some (OkStatus, w)
       }
   }"

definition v2_ConfigFdbEntry ::
    "('c, 'e) ClientInterface \<Rightarrow> mac_learning_info \<Rightarrow> P4Info \<Rightarrow> bool \<Rightarrow> ('c, 'e) world \<Rightarrow>
     (('c, 'e) world, Status) result" where
  "v2_ConfigFdbEntry client learn_info p4info insert_entry w = do {
     (learn_info, w) \<leftarrow>
       (if \<not> insert_entry then v2_UpdateFdbTunnelInfo client learn_info p4info w
        else Some (learn_info, w));
     if ml_is_tunnel learn_info then v2_ConfigFdbTunnelEntry client learn_info insert_entry p4info w
     else v2_ConfigFdbVlanEntry client learn_info insert_entry p4info w
   }"

definition v2_DoConfigFdbEntry ::
    "('c, 'e) ClientInterface \<Rightarrow> mac_learning_info \<Rightarrow> bool \<Rightarrow> string \<Rightarrow> ('c, 'e) world \<Rightarrow>
     (('c, 'e) world, Status) result" where
  "v2_DoConfigFdbEntry client learn_info insert_entry grpc_addr w = do {
     (status, w) \<leftarrow> ci_connect client grpc_addr w;
     if \<not> ok status then Some (status, w)
     else do {
       ((status, p4info), w) \<leftarrow> ci_getPipelineConfig client empty_P4Info w;
       if \<not> ok status then Some (status, w)
       else v2_ConfigFdbEntry client learn_info p4info insert_entry w
     }
   }"

definition v2_DoConfigRxTunnelSrcEntry ::
    "('c, 'e) ClientInterface \<Rightarrow> tunnel_info \<Rightarrow> bool \<Rightarrow> string \<Rightarrow> ('c, 'e) world \<Rightarrow>
     (('c, 'e) world, Status) result" where
  "v2_DoConfigRxTunnelSrcEntry client tunnel_info insert_entry grpc_addr w = do {
     (status, w) \<leftarrow> ci_connect client grpc_addr w;
     if \<not> ok status then Some (status, w)
     else do {
       ((status, p4info), w) \<leftarrow> ci_getPipelineConfig client empty_P4Info w;
       if \<not> ok status then Some (status, w)
       else v2_WriteRxTunnelSrcPortTableEntry client tunnel_info p4info insert_entry w
     }
   }"

definition v2_WriteTunnelSrcPortEntry ::
    "('c, 'e) ClientInterface \<Rightarrow> src_port_info \<Rightarrow> P4Info \<Rightarrow> bool \<Rightarrow> ('c, 'e) world \<Rightarrow>
     (('c, 'e) world, Status) result" where
  "v2_WriteTunnelSrcPortEntry client port_info p4info insert_entry w = do {
     ((table_entry, write_request), w) \<leftarrow> ci_initWriteRequest client empty_WriteRequest insert_entry w;
     let write_request = put_write_entry table_entry
           (v2_EncodeSrcPortTableEntry (write_entry table_entry write_request)
              port_info p4info insert_entry) write_request;
     ci_sendWriteRequest client write_request w
   }"

definition v2_DoConfigTunnelSrcPortEntry ::
    "('c, 'e) ClientInterface \<Rightarrow> src_port_info \<Rightarrow> bool \<Rightarrow> string \<Rightarrow> ('c, 'e) world \<Rightarrow>
     (('c, 'e) world, Status) result" where
  "v2_DoConfigTunnelSrcPortEntry client port_info insert_entry grpc_addr w = do {
     (status, w) \<leftarrow> ci_connect client grpc_addr w;
     if \<not> ok status then Some (status, w)
     else do {
       ((status, p4info), w) \<leftarrow> ci_getPipelineConfig client empty_P4Info w;
       if \<not> ok status then Some (status, w)
       else v2_WriteTunnelSrcPortEntry client port_info p4info insert_entry w
     }
   }"

definition v2_ConfigSrcPortEntry ::
    "('c, 'e) ClientInterface \<Rightarrow> src_port_info \<Rightarrow> P4Info \<Rightarrow> bool \<Rightarrow> ('c, 'e) world \<Rightarrow>
     (('c, 'e) world, Status) result" where
  "v2_ConfigSrcPortEntry client port_info p4info insert_entry w = do {
     (host_sp, w) \<leftarrow> v2_GetTxAccVsiPort client p4info (sp_src_port port_info) w;
     case host_sp of
       Inl status \<Rightarrow> Some (status, w)
     | Inr port \<Rightarrow>
         v2_WriteVsiSrcPortTableEntry client (port_info\<lparr>sp_src_port := port\<rparr>) p4info insert_entry w
   }"

definition v2_DoConfigSrcPortEntry ::
    "('c, 'e) ClientInterface \<Rightarrow> src_port_info \<Rightarrow> bool \<Rightarrow> string \<Rightarrow> ('c, 'e) world \<Rightarrow>
     (('c, 'e) world, Status) result" where
  "v2_DoConfigSrcPortEntry client port_info insert_entry grpc_addr w = do {
     (status, w) \<leftarrow> ci_connect client grpc_addr w;
     if \<not> ok status then Some (status, w)
     else do {
       ((status, p4info), w) \<leftarrow> ci_getPipelineConfig client empty_P4Info w;
       if \<not> ok status then Some (status, w)
       else v2_ConfigSrcPortEntry client port_info p4info insert_entry w
     }
   }"

definition v2_ConfigVlanEntry ::
    "('c, 'e) ClientInterface \<Rightarrow> u16 \<Rightarrow> P4Info \<Rightarrow> bool \<Rightarrow> ('c, 'e) world \<Rightarrow>
     (('c, 'e) world, Status) result" where
  "v2_ConfigVlanEntry client vlan_id p4info insert_entry w = do {
     (status, w) \<leftarrow> v2_WriteVlanPushTableEntry client vlan_id p4info insert_entry w;
     if \<not> ok status then Some (status, w)
     else v2_WriteVlanPopTableEntry client vlan_id p4info insert_entry w
   }"

definition v2_DoConfigVlanEntry ::
    "('c, 'e) ClientInterface \<Rightarrow> u16 \<Rightarrow> bool \<Rightarrow> string \<Rightarrow> ('c, 'e) world \<Rightarrow>
     (('c, 'e) world, Status) result" where
  "v2_DoConfigVlanEntry client vlan_id insert_entry grpc_addr w = do {
     (status, w) \<leftarrow> ci_connect client grpc_addr w;
     if \<not> ok status then Some (status, w)
     else do {
       ((status, p4info), w) \<leftarrow> ci_getPipelineConfig client empty_P4Info w;
       if \<not> ok status then Some (status, w)
       else v2_ConfigVlanEntry client vlan_id p4info insert_entry w
     }
   }"

definition v2_dpdk_ConfigFdbEntry ::
    "('c, 'e) ClientInterface \<Rightarrow> mac_learning_info \<Rightarrow> P4Info \<Rightarrow> bool \<Rightarrow> ('c, 'e) world \<Rightarrow>
     (('c, 'e) world, Status) result" where
  "v2_dpdk_ConfigFdbEntry client learn_info p4info insert_entry w = 
     (if ml_is_tunnel learn_info then
        v2_WriteFdbTunnelTableEntry DPDK_TARGET client learn_info p4info insert_entry w
      else if ml_is_vlan learn_info then do {
        (status, w) \<leftarrow> v2_WriteFdbTxVlanTableEntry DPDK_TARGET client learn_info p4info insert_entry w;
        if \<not> ok status then Some (status, w)
        else v2_WriteFdbRxVlanTableEntry DPDK_TARGET client learn_info p4info insert_entry w
      }
      else Some (OkStatus, w))"

definition v2_dpdk_DoConfigFdbEntry ::
    "('c, 'e) ClientInterface \<Rightarrow> mac_learning_info \<Rightarrow> bool \<Rightarrow> string \<Rightarrow> ('c, 'e) world \<Rightarrow>
     (('c, 'e) world, Status) result" where
  "v2_dpdk_DoConfigFdbEntry client learn_info insert_entry grpc_addr w = do {
     (status, w) \<leftarrow> ci_connect client grpc_addr w;
     if \<not> ok status then Some (status, w)
     else do {
       ((status, p4info), w) \<leftarrow> ci_getPipelineConfig client empty_P4Info w;
       if \<not> ok status then Some (status, w)
       else v2_dpdk_ConfigFdbEntry client learn_info p4info insert_entry w
     }
   }"

definition v2_ConfigTunnelEntry ::
    "target \<Rightarrow> ('c, 'e) ClientInterface \<Rightarrow> tunnel_info \<Rightarrow> P4Info \<Rightarrow> bool \<Rightarrow> ('c, 'e) world \<Rightarrow>
     (('c, 'e) world, Status) result" where
  "v2_ConfigTunnelEntry target client tunnel_info p4info insert_entry w = do {
     (status, w) \<leftarrow> v2_WriteEncapTableEntry target client tunnel_info p4info insert_entry w;
     if \<not> ok status then Some (status, w)
     else do {
       (status, w) \<leftarrow>
         (case target of
            ES2K_TARGET \<Rightarrow> v2_WriteDecapTableEntry client tunnel_info p4info insert_entry w
          | DPDK_TARGET \<Rightarrow> Some (status, w));
       if \<not> ok status then Some (status, w)
       else v2_WriteTunnelTermTableEntry target client tunnel_info p4info insert_entry w
     }
   }"

definition v2_DoConfigTunnelEntry ::
    "target \<Rightarrow> ('c, 'e) ClientInterface \<Rightarrow> tunnel_info \<Rightarrow> bool \<Rightarrow> string \<Rightarrow> ('c, 'e) world \<Rightarrow>
     (('c, 'e) world, Status) result" where
  "v2_DoConfigTunnelEntry target client tunnel_info insert_entry grpc_addr w = do {
     (status, w) \<leftarrow> ci_connect client grpc_addr w;
     if \<not> ok status then Some (status, w)
     else do {
       ((status, p4info), w) \<leftarrow> ci_getPipelineConfig client empty_P4Info w;
       if \<not> ok status then Some (status, w)
       else v2_ConfigTunnelEntry target client tunnel_info p4info insert_entry w
     }
   }"

definition v2_ConfigIpMacMapEntry ::
    "('c, 'e) ClientInterface \<Rightarrow> ip_mac_map_info \<Rightarrow> P4Info \<Rightarrow> bool \<Rightarrow> ('c, 'e) world \<Rightarrow>
     (('c, 'e) world, Status) result" where
  "v2_ConfigIpMacMapEntry client ip_info p4info insert_entry w = do {
     (try_dstip, w) \<leftarrow>
       (if insert_entry then do {
          (status_or_read_response, w) \<leftarrow> v2_ReadVmSrcTableEntry client ip_info p4info w;
          Some (status_or_ok status_or_read_response, w)
        } else Some (False, w));
     (_, w) \<leftarrow>
       (if \<not> try_dstip \<and> v2_ValidIpAddr (v4addr_s_addr (im_src_ip_addr ip_info)) then
          v2_WriteSrcIpMacMapTableEntry client ip_info p4info insert_entry w
        else Some (OkStatus, w));
     (found, w) \<leftarrow>
       (if insert_entry then do {
          (status_or_read_response, w) \<leftarrow> v2_ReadVmDstTableEntry client ip_info p4info w;
          Some (status_or_ok status_or_read_response, w)
        } else Some (False, w));
     if found then Some (OkStatus, w)
     else if v2_ValidIpAddr (v4addr_s_addr (im_src_ip_addr ip_info)) then do {
       (_, w) \<leftarrow> v2_WriteDstIpMacMapTableEntry client ip_info p4info insert_entry w;
       Some (OkStatus, w)
     } else Some (OkStatus, w)
   }"

definition v2_DoConfigIpMacMapEntry ::
    "('c, 'e) ClientInterface \<Rightarrow> ip_mac_map_info \<Rightarrow> bool \<Rightarrow> string \<Rightarrow> ('c, 'e) world \<Rightarrow>
     (('c, 'e) world, Status) result" where
  "v2_DoConfigIpMacMapEntry client ip_info insert_entry grpc_addr w = do {
     (status, w) \<leftarrow> ci_connect client grpc_addr w;
     if \<not> ok status then Some (status, w)
     else do {
       ((status, p4info), w) \<leftarrow> ci_getPipelineConfig client empty_P4Info w;
       if \<not> ok status then Some (status, w)
       else v2_ConfigIpMacMapEntry client ip_info p4info insert_entry w
     }
   }"

end
