(* ===== verification/V2_Equivalence.thy ===== *)
theory V2_Equivalence
  imports V2_Core
begin

text \<open>
  The core of version 2 compiled for a target and the core of version 3 for this target,
  function by function, from the Prepare functions up to the \<open>DoConfig\<close> functions.
\<close>

section \<open>Preparing an entry\<close>

lemma v2_v4_encap_target:
  "v2_PrepareV4EncapTableEntry ES2K_TARGET = PrepareV4EncapTableEntry"
  "v2_PrepareV4EncapTableEntry DPDK_TARGET =
     (\<lambda>te t p b. (dpdk_PrepareV4EncapTableEntry te t p b, []))"
  by (intro ext, simp only: v2_encoders target.case v2_PrepareV4EncapTableEntry_def
      PrepareV4EncapTableEntry_def dpdk_PrepareV4EncapTableEntry_def)+

lemmas v2_prepare_defs = v2_PrepareL2TunnelTableEntry_def PrepareL2TunnelTableEntry_def
  v2_PrepareFdbTunnelTableEntry_def PrepareFdbTunnelTableEntry_def
  v2_PrepareV6EncapTableEntry_def PrepareV6EncapTableEntry_def
  v2_PrepareV4EncapAndVlanPopTableEntry_def PrepareV4EncapAndVlanPopTableEntry_def
  v2_PrepareV6EncapAndVlanPopTableEntry_def PrepareV6EncapAndVlanPopTableEntry_def
  v2_PrepareDecapModTableEntry_def PrepareDecapModTableEntry_def
  v2_PrepareDecapModAndVlanPushTableEntry_def PrepareDecapModAndVlanPushTableEntry_def
  v2_PrepareFdbTableV4TunnelEntry_def PrepareFdbTableV4TunnelEntry_def
  v2_PrepareRxTunnelSrcPortTableEntry_def PrepareRxTunnelSrcPortTableEntry_def
  v2_PrepareTunnelTermTableEntry_def PrepareTunnelTermTableEntry_def

lemma v2_prepare:
  "v2_PrepareL2TunnelTableEntry = PrepareL2TunnelTableEntry"
  "v2_PrepareFdbTunnelTableEntry = PrepareFdbTunnelTableEntry"
  "v2_PrepareV6EncapTableEntry = PrepareV6EncapTableEntry"
  "v2_PrepareV4EncapAndVlanPopTableEntry = PrepareV4EncapAndVlanPopTableEntry"
  "v2_PrepareV6EncapAndVlanPopTableEntry = PrepareV6EncapAndVlanPopTableEntry"
  "v2_PrepareDecapModTableEntry = PrepareDecapModTableEntry"
  "v2_PrepareDecapModAndVlanPushTableEntry = PrepareDecapModAndVlanPushTableEntry"
  "v2_PrepareFdbTableV4TunnelEntry = PrepareFdbTableV4TunnelEntry"
  "v2_PrepareRxTunnelSrcPortTableEntry = PrepareRxTunnelSrcPortTableEntry"
  "v2_PrepareTunnelTermTableEntry = PrepareTunnelTermTableEntry"
  by (intro ext, simp only: v2_encoders v2_prepare_defs)+

lemmas v2_prepare_choice_defs = v2_PrepareEncapTableEntry_def PrepareEncapTableEntry_def
  v2_PrepareDecapTableEntry_def PrepareDecapTableEntry_def

lemma v2_prepare_choice:
  "v2_PrepareEncapTableEntry = PrepareEncapTableEntry"
  "v2_PrepareDecapTableEntry = PrepareDecapTableEntry"
  by (intro ext, simp only: v2_prepare v2_v4_encap_target v2_prepare_choice_defs)+

section \<open>Writing and reading one entry\<close>

lemmas v2_one_entry_defs = v2_WriteFdbSmacTableEntry_def WriteFdbSmacTableEntry_def
  v2_WriteL2TunnelTableEntry_def WriteL2TunnelTableEntry_def
  v2_WriteDecapTableEntry_def WriteDecapTableEntry_def
  v2_WriteVlanPushTableEntry_def WriteVlanPushTableEntry_def
  v2_WriteVlanPopTableEntry_def WriteVlanPopTableEntry_def
  v2_ReadL2ToTunnelV4TableEntry_def ReadL2ToTunnelV4TableEntry_def
  v2_ReadL2ToTunnelV6TableEntry_def ReadL2ToTunnelV6TableEntry_def
  v2_ReadFdbTunnelTableEntry_def ReadFdbTunnelTableEntry_def
  v2_ReadFdbVlanTableEntry_def ReadFdbVlanTableEntry_def
  v2_ReadVmSrcTableEntry_def ReadVmSrcTableEntry_def
  v2_ReadVmDstTableEntry_def ReadVmDstTableEntry_def
  v2_ReadTxAccVsiTableEntry_def ReadTxAccVsiTableEntry_def
  v2_WriteVsiSrcPortTableEntry_def WriteVsiSrcPortTableEntry_def
  v2_WriteRxTunnelSrcPortTableEntry_def WriteRxTunnelSrcPortTableEntry_def
  v2_WriteDstIpMacMapTableEntry_def WriteDstIpMacMapTableEntry_def
  v2_WriteSrcIpMacMapTableEntry_def WriteSrcIpMacMapTableEntry_def
  v2_WriteTunnelSrcPortEntry_def WriteTunnelSrcPortEntry_def

lemma v2_one_entry:
  "v2_WriteFdbSmacTableEntry = WriteFdbSmacTableEntry"
  "v2_WriteL2TunnelTableEntry = WriteL2TunnelTableEntry"
  "v2_WriteDecapTableEntry = WriteDecapTableEntry"
  "v2_WriteVlanPushTableEntry = WriteVlanPushTableEntry"
  "v2_WriteVlanPopTableEntry = WriteVlanPopTableEntry"
  "v2_ReadL2ToTunnelV4TableEntry = ReadL2ToTunnelV4TableEntry"
  "v2_ReadL2ToTunnelV6TableEntry = ReadL2ToTunnelV6TableEntry"
  "v2_ReadFdbTunnelTableEntry = ReadFdbTunnelTableEntry"
  "v2_ReadFdbVlanTableEntry = ReadFdbVlanTableEntry"
  "v2_ReadVmSrcTableEntry = ReadVmSrcTableEntry"
  "v2_ReadVmDstTableEntry = ReadVmDstTableEntry"
  "v2_ReadTxAccVsiTableEntry = ReadTxAccVsiTableEntry"
  "v2_WriteVsiSrcPortTableEntry = WriteVsiSrcPortTableEntry"
  "v2_WriteRxTunnelSrcPortTableEntry = WriteRxTunnelSrcPortTableEntry"
  "v2_WriteDstIpMacMapTableEntry = WriteDstIpMacMapTableEntry"
  "v2_WriteSrcIpMacMapTableEntry = WriteSrcIpMacMapTableEntry"
  "v2_WriteTunnelSrcPortEntry = WriteTunnelSrcPortEntry"
  by (intro ext, simp only: v2_encoders v2_prepare v2_prepare_choice v2_one_entry_defs)+

text \<open>The functions compiled for both targets.\<close>

lemma v2_fdb_write_target:
  "v2_WriteFdbTxVlanTableEntry ES2K_TARGET = WriteFdbTxVlanTableEntry"
  "v2_WriteFdbTxVlanTableEntry DPDK_TARGET = dpdk_WriteFdbTxVlanTableEntry"
  "v2_WriteFdbRxVlanTableEntry ES2K_TARGET = WriteFdbRxVlanTableEntry"
  "v2_WriteFdbRxVlanTableEntry DPDK_TARGET = dpdk_WriteFdbRxVlanTableEntry"
  "v2_WriteFdbTunnelTableEntry ES2K_TARGET = WriteFdbTunnelTableEntry"
  "v2_WriteFdbTunnelTableEntry DPDK_TARGET = dpdk_WriteFdbTunnelTableEntry"
  by (intro ext, simp only: v2_encoders v2_prepare target.case Let_def
      v2_WriteFdbTxVlanTableEntry_def WriteFdbTxVlanTableEntry_def dpdk_WriteFdbTxVlanTableEntry_def
      v2_WriteFdbRxVlanTableEntry_def WriteFdbRxVlanTableEntry_def dpdk_WriteFdbRxVlanTableEntry_def
      v2_WriteFdbTunnelTableEntry_def WriteFdbTunnelTableEntry_def
      dpdk_WriteFdbTunnelTableEntry_def)+

lemma v2_tunnel_write_target:
  "v2_WriteEncapTableEntry ES2K_TARGET = WriteEncapTableEntry"
  "v2_WriteEncapTableEntry DPDK_TARGET = dpdk_WriteEncapTableEntry"
  "v2_WriteTunnelTermTableEntry ES2K_TARGET = WriteTunnelTermTableEntry"
  "v2_WriteTunnelTermTableEntry DPDK_TARGET = dpdk_WriteTunnelTermTableEntry"
  by (intro ext, simp only: v2_encoders v2_prepare v2_prepare_choice v2_v4_encap_target target.case
      Let_def prod.case print_lines_simps v2_WriteEncapTableEntry_def WriteEncapTableEntry_def
      dpdk_WriteEncapTableEntry_def v2_WriteTunnelTermTableEntry_def WriteTunnelTermTableEntry_def
      dpdk_WriteTunnelTermTableEntry_def)+

section \<open>The host port of a VSI\<close>

lemma v2_decode_host_sp_eq: "v2_decode_host_sp sp val = decode_host_sp sp val"
  by (induction sp val rule: decode_host_sp.induct) simp_all

lemma v2_find_port_param_eq: "v2_find_port_param i params = find_port_param i params"
  by (induction params) (simp_all add: v2_decode_host_sp_eq)

lemma v2_find_port_entity_eq: "v2_find_port_entity i entities = find_port_entity i entities"
  by (induction entities) (simp_all add: v2_find_port_param_eq split: option.split)

section \<open>The internal interface\<close>

lemma v2_ValidIpAddr_eq: "v2_ValidIpAddr a = ValidIpAddr a"
  by (simp only: v2_ValidIpAddr_def ValidIpAddr_def)

lemmas v2_updates_defs = v2_GetTxAccVsiPort_def GetTxAccVsiPort_def
  v2_UpdateFdbTunnelInfo_def UpdateFdbTunnelInfo_def
  v2_ConfigFdbTunnelEntry_def ConfigFdbTunnelEntry_def
  v2_ConfigVlanEntry_def ConfigVlanEntry_def

lemma v2_updates:
  "v2_GetTxAccVsiPort = GetTxAccVsiPort"
  "v2_UpdateFdbTunnelInfo = UpdateFdbTunnelInfo"
  "v2_ConfigFdbTunnelEntry = ConfigFdbTunnelEntry"
  "v2_ConfigVlanEntry = ConfigVlanEntry"
  by (intro ext, simp only: v2_one_entry v2_fdb_write_target v2_find_port_entity_eq v2_updates_defs)+

lemmas v2_ports_defs = v2_UpdateFdbSrcPortInfo_def UpdateFdbSrcPortInfo_def
  v2_ConfigSrcPortEntry_def ConfigSrcPortEntry_def

lemma v2_ports:
  "v2_UpdateFdbSrcPortInfo = UpdateFdbSrcPortInfo"
  "v2_ConfigSrcPortEntry = ConfigSrcPortEntry"
  by (intro ext, simp only: v2_one_entry v2_updates v2_ports_defs)+

lemmas v2_configs_defs = v2_ConfigFdbVlanEntry_def ConfigFdbVlanEntry_def
  v2_ConfigIpMacMapEntry_def ConfigIpMacMapEntry_def
  v2_dpdk_ConfigFdbEntry_def dpdk_ConfigFdbEntry_def

lemma v2_configs:
  "v2_ConfigFdbVlanEntry = ConfigFdbVlanEntry"
  "v2_ConfigIpMacMapEntry = ConfigIpMacMapEntry"
  "v2_dpdk_ConfigFdbEntry = dpdk_ConfigFdbEntry"
  by (intro ext, simp only: v2_one_entry v2_fdb_write_target v2_ports v2_ValidIpAddr_eq v2_configs_defs)+

lemma v2_tunnel_target:
  "v2_ConfigTunnelEntry ES2K_TARGET = ConfigTunnelEntry"
  "v2_ConfigTunnelEntry DPDK_TARGET = dpdk_ConfigTunnelEntry"
  by (intro ext, simp add: v2_one_entry v2_tunnel_write_target v2_ConfigTunnelEntry_def
      ConfigTunnelEntry_def dpdk_ConfigTunnelEntry_def cong: if_cong)+

lemmas v2_calls_defs = v2_ConfigFdbEntry_def ConfigFdbEntry_def
  v2_DoConfigRxTunnelSrcEntry_def DoConfigRxTunnelSrcEntry_def
  v2_DoConfigTunnelSrcPortEntry_def DoConfigTunnelSrcPortEntry_def
  v2_DoConfigSrcPortEntry_def DoConfigSrcPortEntry_def
  v2_DoConfigVlanEntry_def DoConfigVlanEntry_def
  v2_dpdk_DoConfigFdbEntry_def dpdk_DoConfigFdbEntry_def
  v2_DoConfigIpMacMapEntry_def DoConfigIpMacMapEntry_def

lemma v2_calls:
  "v2_ConfigFdbEntry = ConfigFdbEntry"
  "v2_DoConfigRxTunnelSrcEntry = DoConfigRxTunnelSrcEntry"
  "v2_DoConfigTunnelSrcPortEntry = DoConfigTunnelSrcPortEntry"
  "v2_DoConfigSrcPortEntry = DoConfigSrcPortEntry"
  "v2_DoConfigVlanEntry = DoConfigVlanEntry"
  "v2_dpdk_DoConfigFdbEntry = dpdk_DoConfigFdbEntry"
  "v2_DoConfigIpMacMapEntry = DoConfigIpMacMapEntry"
  by (intro ext, simp only: v2_one_entry v2_updates v2_ports v2_configs v2_calls_defs)+

lemma v2_target_calls:
  "v2_DoConfigTunnelEntry ES2K_TARGET = DoConfigTunnelEntry"
  "v2_DoConfigTunnelEntry DPDK_TARGET = dpdk_DoConfigTunnelEntry"
  "v2_DoConfigFdbEntry = DoConfigFdbEntry"
  by (intro ext, simp only: v2_tunnel_target v2_calls v2_DoConfigTunnelEntry_def
      DoConfigTunnelEntry_def dpdk_DoConfigTunnelEntry_def v2_DoConfigFdbEntry_def
      DoConfigFdbEntry_def)+

end
