(* ===== verification/V2_Properties.thy ===== *)
theory V2_Properties
  imports V2_Equivalence Api_Machine
begin

text \<open>
  \<^verbatim>\<open>core/api/ovsp4rt_internal_api.h\<close>, the interface between the C functions and a core, and
  the library linked with the core of version 2.
\<close>

section \<open>The internal interface and the linked library\<close>

text \<open>The functions a core exports; the last five are declared for ES2K only.\<close>

type_synonym ('c, 'e, 'a) do_config =
  "('c, 'e) ClientInterface \<Rightarrow> 'a \<Rightarrow> bool \<Rightarrow> string \<Rightarrow> ('c, 'e) world \<Rightarrow>
   (('c, 'e) world, Status) result"

record ('c, 'e) internal_api =
  ia_DoConfigFdbEntry :: "('c, 'e, mac_learning_info) do_config"
  ia_DoConfigTunnelEntry :: "('c, 'e, tunnel_info) do_config"
  ia_DoConfigIpMacMapEntry :: "('c, 'e, ip_mac_map_info) do_config option"
  ia_DoConfigRxTunnelSrcEntry :: "('c, 'e, tunnel_info) do_config option"
  ia_DoConfigSrcPortEntry :: "('c, 'e, src_port_info) do_config option"
  ia_DoConfigTunnelSrcPortEntry :: "('c, 'e, src_port_info) do_config option"
  ia_DoConfigVlanEntry :: "('c, 'e, u16) do_config option"

text \<open>What the two cores export when they are built for a target.\<close>

definition v2_internal_api :: "target \<Rightarrow> ('c, 'e) internal_api" where
  "v2_internal_api target = (case target of
     ES2K_TARGET \<Rightarrow> \<lparr>
       ia_DoConfigFdbEntry = v2_DoConfigFdbEntry,
       ia_DoConfigTunnelEntry = v2_DoConfigTunnelEntry ES2K_TARGET,
       ia_DoConfigIpMacMapEntry = Some v2_DoConfigIpMacMapEntry,
       ia_DoConfigRxTunnelSrcEntry = Some v2_DoConfigRxTunnelSrcEntry,
       ia_DoConfigSrcPortEntry = Some v2_DoConfigSrcPortEntry,
       ia_DoConfigTunnelSrcPortEntry = Some v2_DoConfigTunnelSrcPortEntry,
       ia_DoConfigVlanEntry = Some v2_DoConfigVlanEntry\<rparr>
   | DPDK_TARGET \<Rightarrow> \<lparr>
       ia_DoConfigFdbEntry = v2_dpdk_DoConfigFdbEntry,
       ia_DoConfigTunnelEntry = v2_DoConfigTunnelEntry DPDK_TARGET,
       ia_DoConfigIpMacMapEntry = None,
       ia_DoConfigRxTunnelSrcEntry = None,
       ia_DoConfigSrcPortEntry = None,
       ia_DoConfigTunnelSrcPortEntry = None,
       ia_DoConfigVlanEntry = None\<rparr>)"

definition v3_internal_api :: "target \<Rightarrow> ('c, 'e) internal_api" where
  "v3_internal_api target = (case target of
     ES2K_TARGET \<Rightarrow> \<lparr>
       ia_DoConfigFdbEntry = DoConfigFdbEntry,
       ia_DoConfigTunnelEntry = DoConfigTunnelEntry,
       ia_DoConfigIpMacMapEntry = Some DoConfigIpMacMapEntry,
       ia_DoConfigRxTunnelSrcEntry = Some DoConfigRxTunnelSrcEntry,
       ia_DoConfigSrcPortEntry = Some DoConfigSrcPortEntry,
       ia_DoConfigTunnelSrcPortEntry = Some DoConfigTunnelSrcPortEntry,
       ia_DoConfigVlanEntry = Some DoConfigVlanEntry\<rparr>
   | DPDK_TARGET \<Rightarrow> \<lparr>
       ia_DoConfigFdbEntry = dpdk_DoConfigFdbEntry,
       ia_DoConfigTunnelEntry = dpdk_DoConfigTunnelEntry,
       ia_DoConfigIpMacMapEntry = None,
       ia_DoConfigRxTunnelSrcEntry = None,
       ia_DoConfigSrcPortEntry = None,
       ia_DoConfigTunnelSrcPortEntry = None,
       ia_DoConfigVlanEntry = None\<rparr>)"

text \<open>A function of the C interface linked with a core: without the function in the core its
  body is empty.\<close>

definition linked_call ::
    "(Client, 'e, 'a) do_config option \<Rightarrow> 'e grpc_env \<Rightarrow> client_flags \<Rightarrow> 'a \<Rightarrow> bool \<Rightarrow> string \<Rightarrow>
     'e outside \<Rightarrow> 'e outside option" where
  "linked_call f g flags arg insert_entry grpc_addr io = (case f of
     None \<Rightarrow> Some io
   | Some do_config \<Rightarrow> with_client (do_config (Client_vtable g flags) arg insert_entry grpc_addr) io)"

fun linked_perform ::
    "(Client, 'e) internal_api \<Rightarrow> 'e grpc_env \<Rightarrow> client_flags \<Rightarrow> string \<Rightarrow> api_call \<Rightarrow>
     'e outside \<Rightarrow> 'e outside option" where
  "linked_perform core g flags addr (FdbCall i b) =
     linked_call (Some (ia_DoConfigFdbEntry core)) g flags i b addr"
| "linked_perform core g flags addr (TunnelCall t b) =
     linked_call (Some (ia_DoConfigTunnelEntry core)) g flags t b addr"
| "linked_perform core g flags addr (RxTunnelSrcCall t b) =
     linked_call (ia_DoConfigRxTunnelSrcEntry core) g flags t b addr"
| "linked_perform core g flags addr (VlanCall v b) =
     linked_call (ia_DoConfigVlanEntry core) g flags v b addr"
| "linked_perform core g flags addr (TunnelSrcPortCall sp b) =
     linked_call (ia_DoConfigTunnelSrcPortEntry core) g flags sp b addr"
| "linked_perform core g flags addr (SrcPortCall sp b) =
     linked_call (ia_DoConfigSrcPortEntry core) g flags sp b addr"
| "linked_perform core g flags addr (IpMacMapCall m b) =
     linked_call (ia_DoConfigIpMacMapEntry core) g flags m b addr"

section \<open>The library with the core of version 2\<close>

lemma linked_v3: "linked_perform (v3_internal_api target) g flags addr c io =
    perform target g flags addr c io"
  by (cases c; cases target) (simp_all add: linked_call_def v3_internal_api_def api_defs)

text \<open>C12: the core of version 2, whose text serves both targets, compiled for either of them
  exports to every client the functions that version 3 has for this target in files of its
  own; so every call of the C interface linked with it has the effect of the call linked
  with version 3: the same requests in the same order, and the same output.\<close>

theorem v2_same_as_v3:
  "(v2_internal_api target :: ('c, 'e) internal_api) = v3_internal_api target \<and>
   linked_perform (v2_internal_api target) g flags addr c io = perform target g flags addr c io"
proof -
  have same: "v2_internal_api target = (v3_internal_api target :: ('x, 'y) internal_api)"
    by (cases target)
      (simp_all add: v2_internal_api_def v3_internal_api_def v2_calls v2_target_calls)
  show ?thesis by (simp add: same linked_v3)
qed

end
