(* ===== verification/Encoding_Properties.thy ===== *)
theory Encoding_Properties
  imports Demo
begin

text \<open>
  The properties of the encoders: the numbers the byte strings stand for, where two
  encodings of one value differ, when two inputs get the same key, and that the entries
  conform to the pipeline description.
\<close>

section \<open>Conformance to the pipeline\<close>

text \<open>The encoders of the two targets with their schemas, by the type of their input.\<close>

type_synonym 'i encoder = "TableEntry \<Rightarrow> 'i \<Rightarrow> P4Info \<Rightarrow> bool \<Rightarrow> TableEntry"

definition tunnel_encoders :: "(entry_schema \<times> tunnel_info encoder) list" where
  "tunnel_encoders =
     [(vxlan_encap_schema, EncodeVxlanEncapTableEntry),
      (geneve_encap_schema, EncodeGeneveEncapTableEntry),
      (v6_vxlan_encap_schema, EncodeV6VxlanEncapTableEntry),
      (v6_geneve_encap_schema, EncodeV6GeneveEncapTableEntry),
      (vxlan_encap_and_vlan_pop_schema, EncodeVxlanEncapAndVlanPopTableEntry),
      (geneve_encap_and_vlan_pop_schema, EncodeGeneveEncapAndVlanPopTableEntry),
      (v6_vxlan_encap_and_vlan_pop_schema, EncodeV6VxlanEncapAndVlanPopTableEntry),
      (v6_geneve_encap_and_vlan_pop_schema, EncodeV6GeneveEncapAndVlanPopTableEntry),
      (rx_tunnel_schema, EncodeRxTunnelTableEntry),
      (v6_rx_tunnel_schema, EncodeV6RxTunnelTableEntry),
      (tunnel_term_schema, \<lambda>te i p b. fst (EncodeTunnelTermTableEntry te i p b)),
      (v6_tunnel_term_schema, \<lambda>te i p b. fst (EncodeV6TunnelTermTableEntry te i p b)),
      (vxlan_decap_mod_schema, EncodeVxlanDecapModTableEntry),
      (geneve_decap_mod_schema, EncodeGeneveDecapModTableEntry),
      (vxlan_decap_mod_and_vlan_push_schema, EncodeVxlanDecapModAndVlanPushTableEntry),
      (geneve_decap_mod_and_vlan_push_schema, EncodeGeneveDecapModAndVlanPushTableEntry),
      (dpdk_vxlan_encap_schema, dpdk_EncodeVxlanEncapTableEntry),
      (dpdk_tunnel_term_schema, dpdk_EncodeTunnelTermTableEntry)]"

definition fdb_encoders :: "DiagDetail \<Rightarrow> (entry_schema \<times> mac_learning_info encoder) list" where
  "fdb_encoders d =
     [(fdb_smac_schema, \<lambda>te i p b. fst (EncodeFdbSmacTableEntry te i p b d)),
      (fdb_tx_vlan_schema, \<lambda>te i p b. fst (EncodeFdbTxVlanTableEntry te i p b d)),
      (fdb_rx_vlan_schema, \<lambda>te i p b. fst (EncodeFdbRxVlanTableEntry te i p b d)),
      (fdb_vxlan_schema, \<lambda>te i p b. fst (EncodeFdbTableEntryforV4VxlanTunnel te i p b d)),
      (fdb_geneve_schema, \<lambda>te i p b. fst (EncodeFdbTableEntryforV4GeneveTunnel te i p b d)),
      (l2_to_tunnel_v4_schema, \<lambda>te i p b. fst (EncodeL2ToTunnelV4 te i p b d)),
      (l2_to_tunnel_v6_schema, \<lambda>te i p b. fst (EncodeL2ToTunnelV6 te i p b d)),
      (dpdk_fdb_tx_vlan_schema, \<lambda>te i p b. fst (dpdk_EncodeFdbTxVlanTableEntry te i p b d)),
      (dpdk_fdb_rx_vlan_schema, \<lambda>te i p b. fst (dpdk_EncodeFdbRxVlanTableEntry te i p b d)),
      (dpdk_fdb_vxlan_schema, \<lambda>te i p b. fst (dpdk_EncodeFdbTableEntryforV4VxlanTunnel te i p b d))]"

definition ip_mac_encoders :: "DiagDetail \<Rightarrow> (entry_schema \<times> ip_mac_map_info encoder) list" where
  "ip_mac_encoders d =
     [(src_ip_mac_map_schema, \<lambda>te i p b. fst (EncodeSrcIpMacMapTableEntry te i p b d)),
      (dst_ip_mac_map_schema, \<lambda>te i p b. fst (EncodeDstIpMacMapTableEntry te i p b d))]"

definition vlan_encoders :: "(entry_schema \<times> u16 encoder) list" where
  "vlan_encoders =
     [(vlan_push_schema, EncodeVlanPushTableEntry), (vlan_pop_schema, EncodeVlanPopTableEntry)]"

text \<open>What is shown of every encoder: a DELETE of an input has the key of its INSERT and
  carries no action, and the entry conforms to every well-formed pipeline that declares
  the schema, for the inputs the encoder attaches an action for.\<close>

definition encoder_ok :: "entry_schema \<Rightarrow> 'i encoder \<Rightarrow> 'i \<Rightarrow> P4Info \<Rightarrow> bool \<Rightarrow> bool" where
  "encoder_ok sc enc i p b \<longleftrightarrow>
     entry_key (enc empty_TableEntry i p True) = entry_key (enc empty_TableEntry i p False) \<and>
     te_action (enc empty_TableEntry i p False) = None \<and>
     (wf_p4info p \<and> declares p sc \<longrightarrow> entry_conforms p (enc empty_TableEntry i p b))"

context entry_encoder
begin

lemma contract: "(b \<longrightarrow> supported i) \<Longrightarrow> encoder_ok sc enc i p b"
  by (auto simp: encoder_ok_def delete_no_action conforms intro: key_flag)

end

text \<open>C36: every encoder of a tunnel entry, of both targets, uses the same key for an
  insert and a delete of the same tunnel, puts no action into a delete, and produces an
  entry whose table, match fields, action and parameters are declared and pairwise
  different in every well-formed pipeline that declares the names it looks up (for an
  insert of a VXLAN or GENEVE tunnel).\<close>

theorem tunnel_encoders_ok:
  assumes "(sc, enc) \<in> set tunnel_encoders" and "b \<longrightarrow> known_tunnel_type t"
  shows "encoder_ok sc enc t p b"
  using assms
  by (auto simp: tunnel_encoders_def
      intro: vxlan_encap.contract geneve_encap.contract v6_vxlan_encap.contract
      v6_geneve_encap.contract vxlan_encap_and_vlan_pop.contract
      geneve_encap_and_vlan_pop.contract v6_vxlan_encap_and_vlan_pop.contract
      v6_geneve_encap_and_vlan_pop.contract rx_tunnel.contract v6_rx_tunnel.contract
      tunnel_term.contract v6_tunnel_term.contract vxlan_decap_mod.contract
      geneve_decap_mod.contract vxlan_decap_mod_and_vlan_push.contract
      geneve_decap_mod_and_vlan_push.contract dpdk_vxlan_encap.contract dpdk_tunnel_term.contract)

lemma demo_encap_wf: "wf_p4info (p4info_of [vxlan_encap_schema])"
  and demo_encap_declares: "declares (p4info_of [vxlan_encap_schema]) vxlan_encap_schema"
  by code_simp+

theorem tunnel_encoders_ok_witness:
  "entry_conforms (p4info_of [vxlan_encap_schema])
     (EncodeVxlanEncapTableEntry empty_TableEntry
       (demo_tunnel AF_INET OVS_TUNNEL_VXLAN P4_PORT_VLAN_NATIVE_TAGGED)
       (p4info_of [vxlan_encap_schema]) True)"
  using tunnel_encoders_ok [of vxlan_encap_schema EncodeVxlanEncapTableEntry True
      "demo_tunnel AF_INET OVS_TUNNEL_VXLAN P4_PORT_VLAN_NATIVE_TAGGED"
      "p4info_of [vxlan_encap_schema]"] demo_encap_wf demo_encap_declares
  by (simp add: tunnel_encoders_def known_tunnel_type_def encoder_ok_def)

text \<open>C37: the same for the encoders of the forwarding-database entries (for an insert of a
  tunnel address whose two end points are of one family), of the IP-to-MAC entries and of
  the VLAN and source-port entries.\<close>

theorem fdb_encoders_ok:
  assumes "b \<longrightarrow> same_ip_family (ml_tnl_info i)"
  shows "(\<forall>(sc, enc) \<in> set (fdb_encoders d). encoder_ok sc enc i p b) \<and>
    (\<forall>(sc, enc) \<in> set (ip_mac_encoders d). encoder_ok sc enc m p b) \<and>
    (\<forall>(sc, enc) \<in> set vlan_encoders. encoder_ok sc enc v p b) \<and>
    encoder_ok src_port_schema EncodeSrcPortTableEntry sp p b"
  using assms
  by (auto simp: fdb_encoders_def ip_mac_encoders_def vlan_encoders_def
      intro: fdb_smac.contract fdb_tx_vlan.contract fdb_rx_vlan.contract fdb_vxlan.contract
      fdb_geneve.contract l2_to_tunnel_v4.contract l2_to_tunnel_v6.contract
      dpdk_fdb_tx_vlan.contract dpdk_fdb_rx_vlan.contract dpdk_fdb_vxlan.contract
      src_ip_mac_map.contract dst_ip_mac_map.contract vlan_push.contract vlan_pop.contract
      src_port.contract)

theorem fdb_encoders_ok_witness:
  "entry_conforms demo_fdb_p4info
     (fst (EncodeFdbTableEntryforV4GeneveTunnel empty_TableEntry
       (demo_learn True AF_INET6 OVS_TUNNEL_GENEVE) demo_fdb_p4info True default_DiagDetail))"
  using fdb_encoders_ok [where b = True and i = "demo_learn True AF_INET6 OVS_TUNNEL_GENEVE"
      and d = default_DiagDetail and p = demo_fdb_p4info] demo_fdb_wf demo_fdb_declares
  by (simp add: same_ip_family_def fdb_encoders_def encoder_ok_def es2k_fdb_schemas_def)

text \<open>The ES2K termination entries match on a bridge id. On a well-formed pipeline whose
  termination table has no such field the lookup gives the identifier -1, and the entry
  does not conform to the pipeline.\<close>

lemma tunnel_term_bridge_id:
  assumes wf: "wf_p4info p" and t: "tb \<in> set (pi_tables p)"
    "pre_name (tbl_preamble tb) = IPV4_TUNNEL_TERM_TABLE"
    "IPV4_TUNNEL_TERM_TABLE_KEY_BRIDGE_ID \<notin> ni_name ` set (tbl_match_fields tb)"
  shows "-1 \<in> set (field_ids (fst (EncodeTunnelTermTableEntry empty_TableEntry i p b))) \<and>
    \<not> entry_conforms p (fst (EncodeTunnelTermTableEntry empty_TableEntry i p b))"
proof -
  let ?te = "fst (EncodeTunnelTermTableEntry empty_TableEntry i p b)"
  have "find_id (tbl_match_fields tb) IPV4_TUNNEL_TERM_TABLE_KEY_BRIDGE_ID = None"
    using t(3) by (simp add: find_id_None_iff)
  then have "GetMatchFieldId p IPV4_TUNNEL_TERM_TABLE IPV4_TUNNEL_TERM_TABLE_KEY_BRIDGE_ID = -1"
    using GetMatchFieldId_loop_distinct [of "pi_tables p" tb] wf t(1)
    unfolding t(2) [symmetric]
    by (simp add: GetMatchFieldId_def wf_p4info_def table_names_def)
  then have m1: "-1 \<in> set (field_ids ?te)"
    by (simp add: tunnel_term.fields tunnel_term_schema_def)
  have "find_table p (te_table_id ?te) = Some tb"
    using wf t(1) GetTableId_declared [OF wf t(1)] find_distinct_key [of "pre_id \<circ> tbl_preamble"]
    by (auto simp: tunnel_term.table_id tunnel_term_schema_def t(2) find_table_def wf_p4info_def
        comp_def)
  moreover have "-1 \<notin> set (map ni_id (tbl_match_fields tb))"
    using wf t(1) by (auto simp: wf_p4info_def list_all_iff wf_named_def)
  ultimately have "\<not> entry_conforms p ?te"
    using m1 by (auto simp: entry_conforms_def ids_within_def)
  with m1 show ?thesis by blast
qed

definition demo_term_table :: P4Table where
  "demo_term_table = \<lparr>tbl_preamble = \<lparr>pre_id = 1, pre_name = IPV4_TUNNEL_TERM_TABLE\<rparr>,
     tbl_match_fields = number [IPV4_TUNNEL_TERM_TABLE_KEY_IPV4_SRC, IPV4_TUNNEL_TERM_TABLE_KEY_VNI]\<rparr>"

lemma demo_term_facts:
  "wf_p4info \<lparr>pi_tables = [demo_term_table], pi_actions = []\<rparr>"
  "IPV4_TUNNEL_TERM_TABLE_KEY_BRIDGE_ID \<notin> ni_name ` set (tbl_match_fields demo_term_table)"
  by code_simp+

theorem tunnel_term_bridge_id_witness:
  "\<not> entry_conforms \<lparr>pi_tables = [demo_term_table], pi_actions = []\<rparr>
     (fst (EncodeTunnelTermTableEntry empty_TableEntry
       (demo_tunnel AF_INET OVS_TUNNEL_VXLAN P4_PORT_VLAN_NATIVE_TAGGED)
       \<lparr>pi_tables = [demo_term_table], pi_actions = []\<rparr> False))"
  using tunnel_term_bridge_id [OF demo_term_facts(1) _ _ demo_term_facts(2)]
  by (simp add: demo_term_table_def)

section \<open>Values\<close>

text \<open>A VNI is encoded as its low 24 bits in the key and the parameter of the
  encapsulation entry, and as its low 20 bits in the tunnel id that the FDB action hands to
  that entry: the two byte strings agree exactly for the VNIs below 2 to the 20.\<close>

lemma fdb_tunnel_id_vs_encap_key:
  assumes "ip_family (ti_local_ip (ml_tnl_info i)) = AF_INET"
    and "ip_family (ti_remote_ip (ml_tnl_info i)) = AF_INET"
  shows "(let vni = ti_vni (ml_tnl_info i);
      fdb = fst (EncodeFdbTableEntryforV4VxlanTunnel empty_TableEntry i p True d);
      encap = EncodeVxlanEncapTableEntry empty_TableEntry (ml_tnl_info i) p b;
      tunnel_id = par_value (hd (act_params (the_action fdb)));
      key = fm_match (hd (te_match encap))
    in be_value tunnel_id = unat vni mod 2 ^ 20 \<and>
       key = Exact (EncodeVniValue vni) \<and> be_value (EncodeVniValue vni) = unat vni mod 2 ^ 24 \<and>
       (key = Exact tunnel_id \<longleftrightarrow> unat vni mod 2 ^ 24 < 2 ^ 20))"
proof -
  let ?vni = "ti_vni (ml_tnl_info i)"
  let ?fdb = "fst (EncodeFdbTableEntryforV4VxlanTunnel empty_TableEntry i p True d)"
  let ?encap = "EncodeVxlanEncapTableEntry empty_TableEntry (ml_tnl_info i) p b"
  have tid: "par_value (hd (act_params (the_action ?fdb))) = EncodeTunnelId ?vni"
    using assms by (simp add: EncodeFdbTableEntryforV4VxlanTunnel_def EncodeL2FwdTxTablePrologue_def
        the_action_None Let_def)
  have "entry_key ?encap = entry_key (EncodeVxlanEncapTableEntry empty_TableEntry (ml_tnl_info i) p False)"
    by (rule vxlan_encap.key_flag)
  then have key: "fm_match (hd (te_match ?encap)) = Exact (EncodeVniValue ?vni)"
    by (simp add: EncodeVxlanEncapTableEntry_def entry_key_def Let_def)
  have "EncodeVniValue ?vni = EncodeTunnelId ?vni \<longleftrightarrow>
      be_value (EncodeVniValue ?vni) = be_value (EncodeTunnelId ?vni)"
    using be_value_inj [of "EncodeVniValue ?vni" "EncodeTunnelId ?vni"]
    by (auto simp: EncodeVniValue_bytes EncodeTunnelId_bytes)
  also have "\<dots> \<longleftrightarrow> unat ?vni mod 2 ^ 24 = unat ?vni mod 2 ^ 20"
    by (simp only: be_value_EncodeVniValue be_value_EncodeTunnelId)
  also have "\<dots> \<longleftrightarrow> unat ?vni mod 2 ^ 24 < 2 ^ 20"
  proof -
    have "unat ?vni mod 2 ^ 20 = unat ?vni mod 2 ^ 24 mod 2 ^ 20"
      by (rule mod_mod_cancel [symmetric]) (simp add: le_imp_power_dvd)
    moreover have "unat ?vni mod 2 ^ 24 mod 2 ^ 20 < (2::nat) ^ 20" by (rule mod_less_divisor) simp
    ultimately show ?thesis by (metis mod_less)
  qed
  finally show ?thesis
    by (simp only: Let_def tid key be_value_EncodeVniValue be_value_EncodeTunnelId MatchType.inject)
qed

theorem fdb_tunnel_id_vs_encap_key_witness:
  "EncodeVniValue 0x123456 \<noteq>
     par_value (hd (act_params (the_action (fst (EncodeFdbTableEntryforV4VxlanTunnel empty_TableEntry
       (demo_learn True AF_INET OVS_TUNNEL_VXLAN) empty_P4Info True default_DiagDetail)))))"
  using fdb_tunnel_id_vs_encap_key [of "demo_learn True AF_INET OVS_TUNNEL_VXLAN" empty_P4Info
      default_DiagDetail True]
  by (auto simp: Let_def)

text \<open>The four 32-bit parameters of the IPv6 tunnel action, taken together, are the
  sixteen bytes of the remote address in network order.\<close>

lemma l2_to_tunnel_v6_address:
  "concat (map par_value (act_params (the_action
     (fst (EncodeL2ToTunnelV6 empty_TableEntry i p True d))))) =
   CanonicalizeIpv6 (ip_mem (ti_remote_ip (ml_tnl_info i)))"
proof -
  let ?a = "ip_mem (ti_remote_ip (ml_tnl_info i))"
  have byte: "(ucast (drop_bit (8 * j) (u6_addr32 ?a k)) :: u8) = u6_addr8 ?a (4 * k + j)"
    if "j < 4" "k < 4" for j k
    using that by (rule u6_addr32_byte)
  have group: "CanonicalizeIp (u6_addr32 ?a k) =
      [u6_addr8 ?a (4 * k), u6_addr8 ?a (4 * k + 1), u6_addr8 ?a (4 * k + 2), u6_addr8 ?a (4 * k + 3)]"
    if "k < 4" for k
    using byte [of 0 k] byte [of 1 k] byte [of 2 k] byte [of 3 k] that
    by (simp add: CanonicalizeIp_bytes)
  show ?thesis
    by (simp add: EncodeL2ToTunnelV6_def upt_0_4 Let_def the_action_None group CanonicalizeIpv6_def
        numeral_2_eq_2)
qed

lemma CanonicalizeIpv6_bytes: "CanonicalizeIpv6 a = map (u6_addr8 a) [0..<16]"
proof -
  have "[0..<16] = [0, 1, 2, 3, 4, 5, 6, 7, 8, 9, 10, 11, 12, 13, 14, 15 :: nat]"
    by (simp add: upt_rec)
  then show ?thesis by (simp add: CanonicalizeIpv6_def)
qed

lemma CanonicalizeIpv6_inj: "CanonicalizeIpv6 a = CanonicalizeIpv6 b \<longleftrightarrow> a = b"
proof
  assume "CanonicalizeIpv6 a = CanonicalizeIpv6 b"
  then have bytes: "\<forall>k<16. u6_addr8 a k = u6_addr8 b k"
    by (simp add: CanonicalizeIpv6_bytes)
  show "a = b"
  proof (rule bit_word_eqI)
    fix n
    assume "n < LENGTH(128)"
    then have "u6_addr8 a (n div 8) = u6_addr8 b (n div 8)" using bytes by simp
    then have "bit (u6_addr8 a (n div 8)) (n mod 8) = bit (u6_addr8 b (n div 8)) (n mod 8)" by simp
    then show "bit a n = bit b n" by (simp add: u6_addr8_def bit_simps)
  qed
qed simp

text \<open>The address encoders lose nothing: MAC, IPv4 and IPv6 addresses are encoded into
  6, 4 and 16 bytes, and different addresses give different bytes.\<close>

lemma address_encodings:
  "length (CanonicalizeMac m) = 6 \<and> length (CanonicalizeIp x) = 4 \<and> length (CanonicalizeIpv6 a) = 16 \<and>
   (CanonicalizeMac m = CanonicalizeMac m' \<longleftrightarrow> m = m') \<and>
   (CanonicalizeIp x = CanonicalizeIp x' \<longleftrightarrow> x = x') \<and>
   (CanonicalizeIpv6 a = CanonicalizeIpv6 a' \<longleftrightarrow> a = a')"
  by (simp add: CanonicalizeMac_inj CanonicalizeIp_inj CanonicalizeIpv6_inj)
    (simp add: CanonicalizeMac_bytes CanonicalizeIp_bytes CanonicalizeIpv6_bytes)

lemma be_value_port16: "be_value (encode_port16 p) = unat p"
proof -
  have "unat p div 256 < 256" using unat_u16_less [of p] by simp
  then show ?thesis
    by (simp add: encode_port16_def ucast_low_byte be_value_Cons ucast_u16_u32_u8 unat_byte_of_u16
        unat_shift_u16)
qed

text \<open>The encapsulation entry carries the tunnel's destination port, converted to host
  order, and as the source port twice that number modulo 2 to the 16.\<close>

lemma encap_ports:
  "map (be_value \<circ> par_value) (drop 2 (act_params (the_action
     (EncodeVxlanEncapTableEntry empty_TableEntry t p True)))) =
   [2 * unat (htons (ti_dst_port t)) mod 2 ^ 16, unat (htons (ti_dst_port t)),
    unat (ti_vni t) mod 2 ^ 24]"
proof -
  have "unat (htons (ti_dst_port t) * 2) = 2 * unat (htons (ti_dst_port t)) mod 2 ^ 16"
    by (simp add: unat_word_ariths mult.commute)
  then show ?thesis
    by (simp add: EncodeVxlanEncapTableEntry_def Let_def the_action_None be_value_port16
        be_value_EncodeVniValue)
qed

lemma port32_eq:
  "encode_port32 a = encode_port32 b \<longleftrightarrow> unat a mod 65536 = unat b mod 65536"
proof -
  have "encode_port32 x = [ucast (drop_bit 8 x), ucast x]" for x
    by (simp add: encode_port32_def ucast_low_byte)
  moreover have "be_value [ucast (drop_bit 8 x), ucast x] = unat x mod 65536" for x :: u32
  proof -
    have "unat x mod (256 * 256) = 256 * (unat x div 256 mod 256) + unat x mod 256"
      by (rule mod_mult2_eq)
    then show ?thesis by (simp add: be_value_Cons unat_byte_of_u32 unat_shift_u32)
  qed
  ultimately show ?thesis
    by (metis be_value_inj length_Cons list.size(3))
qed

lemma vid_eq:
  fixes a b :: u16
  shows "([ucast (ucast (drop_bit 8 a) AND 0x0f :: u32), ucast (ucast a AND 0xff :: u32)] :: bytes) =
    [ucast (ucast (drop_bit 8 b) AND 0x0f :: u32), ucast (ucast b AND 0xff :: u32)] \<longleftrightarrow>
    unat a mod 4096 = unat b mod 4096"
proof -
  have val: "be_value [ucast (ucast (drop_bit 8 x) AND 0x0f :: u32), ucast (ucast x AND 0xff :: u32)] =
      unat x mod 4096" for x :: u16
  proof -
    have "unat (ucast (ucast (drop_bit 8 x) AND 0x0f :: u32) :: u8) = unat x div 256 mod 16"
      by (simp add: mask_low_nibble unat_low_nibble unat_u16_u32 unat_shift_u16)
    moreover have "unat (ucast (ucast x AND 0xff :: u32) :: u8) = unat x mod 256"
      by (simp add: ucast_low_byte ucast_u16_u32_u8 unat_byte_of_u16)
    moreover have "unat x mod (256 * 16) = 256 * (unat x div 256 mod 16) + unat x mod 256"
      by (rule mod_mult2_eq)
    ultimately show ?thesis by (simp only: be_value_Cons) simp
  qed
  show ?thesis
    by (metis val be_value_inj length_Cons list.size(3))
qed

text \<open>The key of a source-port entry identifies the low 16 bits of the port and the low
  12 bits of the VLAN id, and nothing else: two inputs share an entry exactly when these
  agree.\<close>

lemma src_port_keys:
  "entry_key (EncodeSrcPortTableEntry empty_TableEntry x p b) =
   entry_key (EncodeSrcPortTableEntry empty_TableEntry y p c) \<longleftrightarrow>
   unat (sp_src_port x) mod 2 ^ 16 = unat (sp_src_port y) mod 2 ^ 16 \<and>
   unat (sp_vlan_id x) mod 2 ^ 12 = unat (sp_vlan_id y) mod 2 ^ 12"
proof -
  have "entry_key (EncodeSrcPortTableEntry empty_TableEntry x p False) =
      entry_key (EncodeSrcPortTableEntry empty_TableEntry y p False) \<longleftrightarrow>
    unat (sp_src_port x) mod 65536 = unat (sp_src_port y) mod 65536 \<and>
    unat (sp_vlan_id x) mod 4096 = unat (sp_vlan_id y) mod 4096"
    unfolding port32_eq [symmetric] vid_eq [symmetric]
    by (simp add: EncodeSrcPortTableEntry_def msg_defs Let_def)
  then show ?thesis
    unfolding src_port.key_flag [of empty_TableEntry x p b False]
      src_port.key_flag [of empty_TableEntry y p c False]
    by simp
qed

end
