(* ===== verification/Machine_Properties.thy ===== *)
theory Machine_Properties
  imports Api_Machine Encoding_Properties
begin

text \<open>
  The properties of arbitrary calls and sequences of calls of the C interface, on a server
  that may refuse or fail any request: every entry stored conforms to the pipeline as long as
  the pipeline declares the names the inserting calls use, and a call changes only the tables
  of its kind.
\<close>

section \<open>Conformance of the stored entries\<close>

text \<open>The schemas of the entries a call may write.\<close>

fun es2k_call_schemas :: "api_call \<Rightarrow> entry_schema list" where
  "es2k_call_schemas (FdbCall i b) = es2k_fdb_schemas"
| "es2k_call_schemas (TunnelCall t b) =
     [vxlan_encap_schema, geneve_encap_schema, v6_vxlan_encap_schema, v6_geneve_encap_schema,
      vxlan_encap_and_vlan_pop_schema, geneve_encap_and_vlan_pop_schema,
      v6_vxlan_encap_and_vlan_pop_schema, v6_geneve_encap_and_vlan_pop_schema,
      vxlan_decap_mod_schema, geneve_decap_mod_schema, vxlan_decap_mod_and_vlan_push_schema,
      geneve_decap_mod_and_vlan_push_schema, tunnel_term_schema, v6_tunnel_term_schema]"
| "es2k_call_schemas (RxTunnelSrcCall t b) = [rx_tunnel_schema, v6_rx_tunnel_schema]"
| "es2k_call_schemas (VlanCall v b) = [vlan_push_schema, vlan_pop_schema]"
| "es2k_call_schemas (TunnelSrcPortCall sp b) = [src_port_schema]"
| "es2k_call_schemas (SrcPortCall sp b) = [src_port_schema]"
| "es2k_call_schemas (IpMacMapCall m b) = [src_ip_mac_map_schema, dst_ip_mac_map_schema]"

fun dpdk_call_schemas :: "api_call \<Rightarrow> entry_schema list" where
  "dpdk_call_schemas (FdbCall i b) =
     [dpdk_fdb_tx_vlan_schema, dpdk_fdb_rx_vlan_schema, dpdk_fdb_vxlan_schema]"
| "dpdk_call_schemas (TunnelCall t b) = [dpdk_vxlan_encap_schema, dpdk_tunnel_term_schema]"
| "dpdk_call_schemas _ = []"

definition call_schemas :: "target \<Rightarrow> api_call \<Rightarrow> entry_schema list" where
  "call_schemas target c =
     (case target of ES2K_TARGET \<Rightarrow> es2k_call_schemas c | DPDK_TARGET \<Rightarrow> dpdk_call_schemas c)"

text \<open>The calls a pipeline is made for: an insert has arguments with an encoder, and the
  pipeline declares the tables, match fields, actions and parameters of its entries. A
  delete may have any argument.\<close>

definition declared_call :: "target \<Rightarrow> P4Info \<Rightarrow> api_call \<Rightarrow> bool" where
  "declared_call target p c \<longleftrightarrow>
     (inserts c \<longrightarrow> supported_call c \<and> list_all (declares p) (call_schemas target c))"

text \<open>Every entry is stored under its own key and fits the pipeline.\<close>

definition stored_ok :: "P4Info \<Rightarrow> tables \<Rightarrow> bool" where
  "stored_ok p T \<longleftrightarrow> (\<forall>k te. T k = Some te \<longrightarrow> entry_key te = k \<and> entry_conforms p te)"

lemma kept_stored: "(b \<longrightarrow> entry_conforms p te) \<Longrightarrow> kept_by (stored_ok p) b te"
  by (auto simp: kept_by_def stored_ok_def write_effect_def split: if_splits)

lemmas es2k_fdb_conform = fdb_smac.conforms fdb_tx_vlan.conforms fdb_rx_vlan.conforms
  fdb_vxlan.conforms fdb_geneve.conforms l2_to_tunnel_v4.conforms l2_to_tunnel_v6.conforms

lemmas es2k_tunnel_conform = vxlan_encap.conforms geneve_encap.conforms v6_vxlan_encap.conforms
  v6_geneve_encap.conforms vxlan_encap_and_vlan_pop.conforms geneve_encap_and_vlan_pop.conforms
  v6_vxlan_encap_and_vlan_pop.conforms v6_geneve_encap_and_vlan_pop.conforms
  tunnel_term.conforms v6_tunnel_term.conforms vxlan_decap_mod.conforms geneve_decap_mod.conforms
  vxlan_decap_mod_and_vlan_push.conforms geneve_decap_mod_and_vlan_push.conforms

lemmas es2k_other_conform = rx_tunnel.conforms v6_rx_tunnel.conforms vlan_push.conforms
  vlan_pop.conforms src_port.conforms src_ip_mac_map.conforms dst_ip_mac_map.conforms

lemma es2k_fdb_writes_conform:
  assumes "wf_p4info p" and "list_all (declares p) es2k_fdb_schemas"
    and "supported_call (FdbCall i True)" and "te \<in> es2k_writes p (FdbCall i True)"
  shows "entry_conforms p te"
  using assms
  by (auto simp: es2k_fdb_schemas_def fdb_tunnel_entries_def fdb_vlan_entries_def fdb_rx_entry_def
      PrepareFdbTunnelTableEntry_def PrepareL2TunnelTableEntry_def known_tunnel_type_def
      split: if_splits intro!: es2k_fdb_conform)

lemma es2k_tunnel_writes_conform:
  assumes "wf_p4info p" and "list_all (declares p) (es2k_call_schemas (TunnelCall t True))"
    and "supported_call (TunnelCall t True)" and "te \<in> es2k_writes p (TunnelCall t True)"
  shows "entry_conforms p te"
  using assms
  by (auto simp: tunnel_entries_def prepare_encap_defs prepare_decap_defs
      PrepareTunnelTermTableEntry_def known_tunnel_type_def same_ip_family_def
      split: if_splits intro!: es2k_tunnel_conform)

lemma es2k_writes_conform:
  assumes "wf_p4info p" and "list_all (declares p) (es2k_call_schemas c)"
    and "supported_call c" and "inserts c" and "te \<in> es2k_writes p c"
  shows "entry_conforms p te"
proof (cases c)
  case (FdbCall i b)
  with assms es2k_fdb_writes_conform [OF assms(1), of i te] show ?thesis by simp
next
  case (TunnelCall t b)
  with assms es2k_tunnel_writes_conform [OF assms(1), of t te] show ?thesis by simp
qed (use assms in \<open>auto simp: PrepareRxTunnelSrcPortTableEntry_def
    vlan_entries_def same_ip_family_def intro!: es2k_other_conform\<close>)

lemma dpdk_writes_conform:
  assumes "wf_p4info p" and "list_all (declares p) (dpdk_call_schemas c)"
    and "supported_call c" and "inserts c" and "te \<in> dpdk_writes p c"
  shows "entry_conforms p te"
  using assms
  by (cases c) (auto simp: dpdk_fdb_entries_def dpdk_tunnel_entries_def
      split: if_splits intro!: dpdk_fdb_tx_vlan.conforms dpdk_fdb_rx_vlan.conforms
      dpdk_fdb_vxlan.conforms dpdk_vxlan_encap.conforms dpdk_tunnel_term.conforms)

lemma call_writes_conform:
  assumes "wf_p4info p" and "declared_call target p c" and "inserts c" and "te \<in> call_writes target p c"
  shows "entry_conforms p te"
  using assms es2k_writes_conform dpdk_writes_conform
  by (cases target) (auto simp: call_writes_def call_schemas_def declared_call_def)

text \<open>C4: let the pipeline description \<^term>\<open>p\<close> be the only one the server ever answers with, and
  let it be well formed. No sequence of calls leaves an entry on the server that does not
  conform to \<^term>\<open>p\<close>, or that is stored under another key than its own, when there was none at the
  start. What is asked of the calls: an insert has a tunnel type and address families that the
  code has encoders for, and \<^term>\<open>p\<close> declares the names of the entries this kind of call writes;
  a delete may have any argument. What is asked of the server: only a write changes the
  tables, by its effect or not at all; connecting, queries, reads and writes may fail at any
  time. A pipeline without a bridge_id field in the tunnel termination tables, as a comment in
  the encoders describes, declares the names of every call but the insertion of a tunnel.\<close>

theorem api_entries_conform:
  assumes server: "keeps_tables g tables" and sent: "\<And>q. sends_pipeline g q \<Longrightarrow> q = p"
    and p: "wf_p4info p"
    and run: "(api_step target g flags (declared_call target p))\<^sup>*\<^sup>* io io'"
    and io: "stored_ok p (tables (fst io))"
  shows "stored_ok p (tables (fst io'))"
proof (rule reachable_inv [where P = "stored_ok p", OF server run io])
  show "kept_by (stored_ok p) (inserts c) te"
    if "sends_pipeline g q" "declared_call target p c" "te \<in> call_writes target q c" for q c te
    using call_writes_conform [OF p that(2), of te] that(3) sent [OF that(1)]
    by (intro kept_stored) simp
qed

text \<open>An ES2K pipeline without the tables of the tunnels: a learned address behind a tunnel and
  a VLAN are inserted and a tunnel is deleted.\<close>

definition demo_es2k_pipeline :: P4Info where
  "demo_es2k_pipeline = p4info_of (es2k_fdb_schemas @ [vlan_push_schema, vlan_pop_schema])"

lemma demo_es2k_pipeline_wf: "wf_p4info demo_es2k_pipeline"
  by code_simp

lemma demo_es2k_pipeline_declares:
  "list_all (declares demo_es2k_pipeline) (es2k_fdb_schemas @ [vlan_push_schema, vlan_pop_schema])"
  by code_simp

theorem api_entries_conform_witness:
  "\<exists>io1 io2 io3. perform ES2K_TARGET (demo_server demo_es2k_pipeline) default_flags ''a''
      (FdbCall (demo_learn True AF_INET OVS_TUNNEL_VXLAN) True) ([], []) = Some io1 \<and>
    perform ES2K_TARGET (demo_server demo_es2k_pipeline) default_flags ''b'' (VlanCall 10 True) io1 =
      Some io2 \<and>
    perform ES2K_TARGET (demo_server demo_es2k_pipeline) default_flags ''b''
      (TunnelCall (demo_tunnel AF_INET OVS_TUNNEL_VXLAN P4_PORT_VLAN_NATIVE_TAGGED) False) io2 =
      Some io3 \<and>
    stored_ok demo_es2k_pipeline (map_of (fst io3))"
proof -
  let ?g = "demo_server demo_es2k_pipeline"
  let ?step = "api_step ES2K_TARGET ?g default_flags (declared_call ES2K_TARGET demo_es2k_pipeline)"
  let ?f = "FdbCall (demo_learn True AF_INET OVS_TUNNEL_VXLAN) True" and ?v = "VlanCall 10 True"
  let ?t = "TunnelCall (demo_tunnel AF_INET OVS_TUNNEL_VXLAN P4_PORT_VLAN_NATIVE_TAGGED) False"
  have ok: "declared_call ES2K_TARGET demo_es2k_pipeline c" if "c = ?f \<or> c = ?v \<or> c = ?t" for c
    using that demo_es2k_pipeline_declares
    by (auto simp: declared_call_def call_schemas_def known_tunnel_type_def same_ip_family_def)
  obtain io1 where 1: "perform ES2K_TARGET ?g default_flags ''a'' ?f ([], []) = Some io1"
    using perform_returns by blast
  obtain io2 where 2: "perform ES2K_TARGET ?g default_flags ''b'' ?v io1 = Some io2"
    using perform_returns by blast
  obtain io3 where 3: "perform ES2K_TARGET ?g default_flags ''b'' ?t io2 = Some io3"
    using perform_returns by blast
  have "?step ([], []) io1" "?step io1 io2" "?step io2 io3"
    using api_step.call [OF ok 1] api_step.call [OF ok 2] api_step.call [OF ok 3] by simp_all
  then have "?step\<^sup>*\<^sup>* ([], []) io3" by (meson rtranclp.rtrancl_into_rtrancl rtranclp.rtrancl_refl)
  then have "stored_ok demo_es2k_pipeline (map_of (fst io3))"
    using api_entries_conform [OF demo_keeps_tables _ demo_es2k_pipeline_wf, where io = "([], [])"]
    by (simp add: demo_sends_pipeline stored_ok_def)
  with 1 2 3 show ?thesis by blast
qed

section \<open>The tables a call changes\<close>

definition call_tables :: "target \<Rightarrow> api_call \<Rightarrow> string list" where
  "call_tables target c = map sc_table (call_schemas target c)"

text \<open>The calls for which the code has no encoder: it sends the empty entry instead of at
  least one of the entries.\<close>

fun no_encoder :: "target \<Rightarrow> api_call \<Rightarrow> bool" where
  "no_encoder ES2K_TARGET (FdbCall i b) \<longleftrightarrow> b \<and> ml_is_tunnel i \<and> \<not> known_tunnel_type (ml_tnl_info i)"
| "no_encoder ES2K_TARGET (TunnelCall t b) \<longleftrightarrow> \<not> (known_tunnel_type t \<and> same_ip_family t)"
| "no_encoder ES2K_TARGET (RxTunnelSrcCall t b) \<longleftrightarrow> \<not> same_ip_family t"
| "no_encoder _ _ \<longleftrightarrow> False"

lemmas es2k_table_id = fdb_smac.table_id fdb_tx_vlan.table_id fdb_rx_vlan.table_id
  fdb_vxlan.table_id fdb_geneve.table_id l2_to_tunnel_v4.table_id l2_to_tunnel_v6.table_id
  vxlan_encap.table_id geneve_encap.table_id v6_vxlan_encap.table_id v6_geneve_encap.table_id
  vxlan_encap_and_vlan_pop.table_id geneve_encap_and_vlan_pop.table_id
  v6_vxlan_encap_and_vlan_pop.table_id v6_geneve_encap_and_vlan_pop.table_id
  tunnel_term.table_id v6_tunnel_term.table_id vxlan_decap_mod.table_id geneve_decap_mod.table_id
  vxlan_decap_mod_and_vlan_push.table_id geneve_decap_mod_and_vlan_push.table_id
  rx_tunnel.table_id v6_rx_tunnel.table_id vlan_push.table_id vlan_pop.table_id src_port.table_id
  src_ip_mac_map.table_id dst_ip_mac_map.table_id

lemmas dpdk_table_id = dpdk_fdb_tx_vlan.table_id dpdk_fdb_rx_vlan.table_id
  dpdk_fdb_vxlan.table_id dpdk_vxlan_encap.table_id dpdk_tunnel_term.table_id

lemma es2k_writes_tables:
  assumes "te \<in> es2k_writes p c"
  shows "te = empty_TableEntry \<and> no_encoder ES2K_TARGET c \<or>
    te_table_id te \<in> (GetTableId p \<circ> sc_table) ` set (es2k_call_schemas c)"
proof (cases c)
  case (FdbCall i b)
  have "te_table_id (EncodeL2FwdTxTablePrologue te j p) = GetTableId p L2_FWD_TX_TABLE" for te j
    by (simp add: EncodeL2FwdTxTablePrologue_def Let_def)
  with assms FdbCall show ?thesis
    by (auto simp: fdb_tunnel_entries_def fdb_vlan_entries_def fdb_rx_entry_def
        PrepareFdbTunnelTableEntry_def PrepareL2TunnelTableEntry_def es2k_table_id schema_defs
        es2k_fdb_schemas_def known_tunnel_type_def split: if_splits)
next
  case (TunnelCall t b)
  with assms show ?thesis
    by (auto simp: tunnel_entries_def prepare_encap_defs prepare_decap_defs
        PrepareTunnelTermTableEntry_def es2k_table_id known_tunnel_type_def same_ip_family_def
        split: if_splits)
qed (use assms in \<open>auto simp: PrepareRxTunnelSrcPortTableEntry_def vlan_entries_def es2k_table_id
    same_ip_family_def\<close>)

lemma call_writes_tables:
  assumes "te \<in> call_writes target p c"
  shows "te = empty_TableEntry \<and> no_encoder target c \<or>
    te_table_id te \<in> GetTableId p ` set (call_tables target c)"
proof (cases target)
  case DPDK_TARGET
  with assms show ?thesis
    by (cases c) (auto simp: call_writes_def call_tables_def call_schemas_def dpdk_fdb_entries_def
        dpdk_tunnel_entries_def dpdk_table_id split: if_splits)
next
  case ES2K_TARGET
  with assms es2k_writes_tables [of te p c] show ?thesis
    by (auto simp: call_writes_def call_tables_def call_schemas_def image_comp)
qed

lemma kept_frame:
  "te = empty_TableEntry \<and> N \<or> te_table_id te \<in> S \<Longrightarrow>
   kept_by (\<lambda>T. \<forall>k. fst k \<notin> S \<and> \<not> (N \<and> k = entry_key empty_TableEntry) \<longrightarrow> T k = T\<^sub>0 k) b te"
  by (auto simp: kept_by_def write_effect_def entry_key_def)

text \<open>C5: a call returns and changes only the tables of its kind, whatever its arguments are and
  whatever the server answers, as long as only writes change the server's tables, by their
  effect or not at all. The tables of the kind are the identifiers that a pipeline description
  sent by the server gives the names listed for the call; the entries of all other tables are
  the same before and after. The one exception is disclosed: for a tunnel whose type or address
  families the ES2K code has no encoder for, it sends the empty entry, so the entry under the
  empty key (table id 0, no match fields) may change as well. On DPDK the five calls without
  an implementation change nothing.\<close>

theorem api_call_frame:
  assumes server: "keeps_tables g tables"
  shows "\<exists>io'. perform target g flags addr c io = Some io' \<and>
    (\<exists>p. sends_pipeline g p \<and>
      (\<forall>k. fst k \<notin> GetTableId p ` set (call_tables target c) \<and>
           \<not> (no_encoder target c \<and> k = entry_key empty_TableEntry) \<longrightarrow>
         tables (fst io') k = tables (fst io) k))"
  by (rule perform_inv [OF server, of "\<lambda>p T. \<forall>k. fst k \<notin> GetTableId p ` set (call_tables target c) \<and>
      \<not> (no_encoder target c \<and> k = entry_key empty_TableEntry) \<longrightarrow> T k = tables (fst io) k"])
    (simp_all only: kept_frame call_writes_tables, simp)

theorem api_call_frame_witness:
  "\<exists>io'. perform ES2K_TARGET (demo_server empty_P4Info) default_flags ''a'' (VlanCall 10 True)
      ([((7, [], 0), empty_TableEntry)], []) = Some io' \<and>
    map_of (fst io') (7, [], 0) = Some empty_TableEntry"
proof -
  have "GetTableId empty_P4Info n \<noteq> 7" for n
    by (simp add: GetTableId_def empty_P4Info_def)
  then have "7 \<notin> GetTableId empty_P4Info ` S" for S by auto
  then show ?thesis
    using api_call_frame [OF demo_keeps_tables [of empty_P4Info], where c = "VlanCall 10 True" and target = ES2K_TARGET
        and addr = "''a''" and io = "([((7, [], 0), empty_TableEntry)], [])" and flags = default_flags]
    by (auto simp: demo_sends_pipeline)
qed

end
