(* ===== verification/Fdb_Properties.thy ===== *)
theory Fdb_Properties
  imports Demo
begin

text \<open>
  The properties of the ES2K forwarding-database operations against a table server, with
  their witnesses on the sample server.
\<close>

section \<open>Shared lemmas\<close>

lemma demo_fdb_setting:
  "fdb_setting (demo_server p) demo_session (\<lambda>_. True) map_of demo_fdb_p4info (demo_world T)"
  by (simp add: fdb_setting_def demo_table_server demo_fdb_wf demo_fdb_declares)

lemma fdb_setting_client:
  assumes "fdb_setting g s accepts tables p w" and "w_client w' = w_client w"
  shows "fdb_setting g s accepts tables p w'"
  using assms by (simp add: fdb_setting_def)

lemma fdb_absent_empty: "fdb_absent p (map_of []) m br"
  by (simp add: fdb_absent_def)

text \<open>A delete of an address that has no tunnel entry is a VLAN delete.\<close>

lemma fdb_vlan_delete_tables:
  assumes set: "fdb_setting g s accepts tables p w"
    and j: "\<not> ml_is_tunnel j"
    and no: "tables (w_env w) (v4_key p (ml_mac_addr j)) = None"
      "tables (w_env w) (v6_key p (ml_mac_addr j)) = None"
  shows "\<exists>w'. ConfigFdbEntry (Client_vtable g flags) j p False w = Some (OkStatus, w') \<and>
    w_client w' = w_client w \<and>
    tables (w_env w') = tables (w_env w) |`
      (- {tx_key p (ml_mac_addr j) (ml_bridge_id j), smac_key p (ml_mac_addr j) (ml_bridge_id j)})"
proof -
  have srv: "table_server g (ses_stub s) accepts tables" and ses: "cl_session (w_client w) = Some s"
    using set by (simp_all add: fdb_setting_def)
  let ?k4 = "fst (EncodeL2ToTunnelV4 empty_TableEntry j p False default_DiagDetail)"
  let ?k6 = "fst (EncodeL2ToTunnelV6 empty_TableEntry j p False default_DiagDetail)"
  obtain st e where r: "server_read g s ?k4 (w_env w) = (Inl st, e)" "tables e = tables (w_env w)"
    using server_read_absent [OF srv] no(1) by (metis l2_to_tunnel_keys(1))
  obtain st' e' where r': "server_read g s ?k6 e = (Inl st', e')" "tables e' = tables e"
    using server_read_absent [OF srv] no(2) r(2) by (metis l2_to_tunnel_keys(2))
  let ?w = "w\<lparr>w_env := e'\<rparr>"
  have u: "UpdateFdbTunnelInfo (Client_vtable g flags) j p w = Some (j, ?w)"
    using cl_UpdateFdbTunnelInfo [OF ses r(1), of flags] j r' by simp
  obtain w' where w': "ConfigFdbVlanEntry (Client_vtable g flags) j False p ?w = Some (OkStatus, w')"
    "w_client w' = w_client w"
    "w_env w' = write_each g s False (fdb_vlan_entries j p False) e'"
    using cl_ConfigFdbVlanEntry_delete [of ?w s g flags j p] ses by auto
  have "entry_key ` set (fdb_vlan_entries j p False) =
      set (map entry_key (fdb_vlan_entries j p False))" by simp
  also have "\<dots> = {tx_key p (ml_mac_addr j) (ml_bridge_id j),
      smac_key p (ml_mac_addr j) (ml_bridge_id j)}"
    by (simp only: vlan_entry_keys) simp
  finally have "tables (w_env w') = tables (w_env w) |`
      (- {tx_key p (ml_mac_addr j) (ml_bridge_id j), smac_key p (ml_mac_addr j) (ml_bridge_id j)})"
    by (simp only: w'(3) write_each_tables [OF srv] delete_all r(2) r'(2))
  with u w'(1,2) j show ?thesis by (simp add: ConfigFdbEntry_def)
qed

section \<open>Tunnel addresses\<close>

text \<open>With the entries of a tunnel address on top of tables \<open>T\<close> that have no entry of it, a
  delete of the address restores \<open>T\<close>.\<close>

lemma fdb_tunnel_delete_restores:
  assumes set: "fdb_setting g s accepts tables p w"
    and i: "ml_is_tunnel i" "known_tunnel_type (ml_tnl_info i)"
    and new: "fdb_absent p T (ml_mac_addr i) (ml_bridge_id i)"
    and on: "tables (w_env w) = T ++ added (fdb_tunnel_entries i p True)"
    and j: "ml_mac_addr j = ml_mac_addr i" "ml_bridge_id j = ml_bridge_id i" "\<not> ml_is_tunnel j"
      "\<not> v6_tunnel (ml_tnl_info j)"
  shows "\<exists>w'. ConfigFdbEntry (Client_vtable g flags) j p False w = Some (OkStatus, w') \<and>
    tables (w_env w') = T"
proof -
  let ?tes = "fdb_tunnel_entries i p True"
  let ?m = "ml_mac_addr i" and ?br = "ml_bridge_id i" and ?v6 = "v6_tunnel (ml_tnl_info i)"
  have keys: "map entry_key ?tes =
      [tx_key p ?m ?br, if ?v6 then v6_key p ?m else v4_key p ?m, smac_key p ?m ?br]"
    by (rule tunnel_entry_keys) (simp add: i)
  have dom: "dom (added ?tes) =
      {tx_key p ?m ?br, if ?v6 then v6_key p ?m else v4_key p ?m, smac_key p ?m ?br}" (is "_ = ?K")
    unfolding dom_added set_map [symmetric] keys by simp
  have dist: "distinct [tx_key p ?m ?br, rx_key p ?m ?br, smac_key p ?m ?br, v4_key p ?m, v6_key p ?m]"
    using set by (intro fdb_keys_distinct) (simp_all add: fdb_setting_def)
  have inK: "tables (w_env w) k \<noteq> None \<longleftrightarrow> k \<in> ?K" if "T k = None" for k
    using that unfolding on dom [symmetric] by (auto simp: map_add_def split: option.splits)
  have v4: "?v6 \<longleftrightarrow> tables (w_env w) (v4_key p ?m) = None"
    and v6: "?v6 \<longrightarrow> tables (w_env w) (v6_key p ?m) \<noteq> None"
    using new dist inK [of "v4_key p ?m"] inK [of "v6_key p ?m"]
    by (auto simp: fdb_absent_def split: if_splits)
  obtain w' where w': "ConfigFdbEntry (Client_vtable g flags) j p False w = Some (OkStatus, w')"
    "tables (w_env w') = tables (w_env w) |` (- ?K)"
    using fdb_tunnel_delete_tables [where six = ?v6 and flags = flags, OF set j(3,4)] j v4 v6 by auto
  have "?K \<inter> dom T = {}" using new by (auto simp: fdb_absent_def)
  then have "tables (w_env w') = T"
    using add_then_clear [OF dom] by (simp add: w'(2) on)
  with w'(1) show ?thesis by blast
qed

text \<open>C1: learning a MAC address behind a VXLAN or GENEVE tunnel (IPv4 or IPv6) on a server
  that has no entry for it writes the l2_fwd_tx, the l2_to_tunnel and the smac entry, and a
  later delete of the same MAC and bridge, issued without knowing that the address came
  from a tunnel, finds the l2_to_tunnel entry in the IPv4 or the IPv6 table and removes
  exactly these three entries: the tables are what they were before the insert, and both
  calls return OK.\<close>

theorem fdb_tunnel_roundtrip:
  assumes set: "fdb_setting g s accepts tables p w"
    and i: "ml_is_tunnel i" "known_tunnel_type (ml_tnl_info i)"
    and acc: "list_all accepts (fdb_tunnel_entries i p True)"
    and new: "fdb_absent p (tables (w_env w)) (ml_mac_addr i) (ml_bridge_id i)"
    and j: "ml_mac_addr j = ml_mac_addr i" "ml_bridge_id j = ml_bridge_id i" "\<not> ml_is_tunnel j"
      "\<not> v6_tunnel (ml_tnl_info j)"
  shows "\<exists>w1 w2. ConfigFdbEntry (Client_vtable g flags) i p True w = Some (OkStatus, w1) \<and>
    tables (w_env w1) = tables (w_env w) ++ added (fdb_tunnel_entries i p True) \<and>
    ConfigFdbEntry (Client_vtable g flags) j p False w1 = Some (OkStatus, w2) \<and>
    tables (w_env w2) = tables (w_env w)"
proof -
  obtain w1 where w1: "ConfigFdbEntry (Client_vtable g flags) i p True w = Some (OkStatus, w1)"
    "w_client w1 = w_client w"
    "tables (w_env w1) = tables (w_env w) ++ added (fdb_tunnel_entries i p True)"
    using fdb_tunnel_insert_tables [OF set i acc new] by blast
  with fdb_tunnel_delete_restores [OF fdb_setting_client [OF set w1(2)] i new w1(3) j]
  show ?thesis by blast
qed

theorem fdb_tunnel_roundtrip_witness:
  "\<exists>w1 w2. ConfigFdbEntry (Client_vtable (demo_server demo_fdb_p4info) default_flags)
      (demo_learn True AF_INET6 OVS_TUNNEL_GENEVE) demo_fdb_p4info True (demo_world []) =
        Some (OkStatus, w1) \<and>
    map_of (w_env w1) = map_of [] ++
      added (fdb_tunnel_entries (demo_learn True AF_INET6 OVS_TUNNEL_GENEVE) demo_fdb_p4info True) \<and>
    ConfigFdbEntry (Client_vtable (demo_server demo_fdb_p4info) default_flags)
      (demo_learn False 0 0) demo_fdb_p4info False w1 = Some (OkStatus, w2) \<and>
    map_of (w_env w2) = map_of []"
  using fdb_tunnel_roundtrip
    [where i = "demo_learn True AF_INET6 OVS_TUNNEL_GENEVE"
      and j = "demo_learn False 0 0" and flags = default_flags,
      OF demo_fdb_setting [where T = "[]" and p = demo_fdb_p4info]]
  by (simp add: known_tunnel_type_def v6_tunnel_def AF_INET6_def fdb_absent_def list_all_iff)



section \<open>VLAN addresses\<close>

lemma single_insert:
  assumes "table_server g (ses_stub s) accepts tables" and "accepts te"
    and "tables e (entry_key te) = None"
  shows "tables (write_each g s True [te] e) = (tables e)(entry_key te \<mapsto> te)"
  using assms by (simp add: server_write_tables apply_write_def applicable_def fun_eq_iff)

lemma server_port_found:
  assumes "table_server g (ses_stub s) accepts tables"
    and "tables e (entry_key (EncodeTxAccVsiTableEntry empty_TableEntry sp p)) = Some x"
    and "find_port_entity (port_param_id p) [x] = Some port"
  shows "\<exists>e'. server_port g s p sp e = (Inr port, e') \<and> tables e' = tables e"
proof -
  obtain r e' where "server_read g s (EncodeTxAccVsiTableEntry empty_TableEntry sp p) e = (Inr r, e')"
    "rs_entities r = [x]" "tables e' = tables e"
    using server_read_entry [OF assms(1,2)] by blast
  with assms(3) show ?thesis by (simp add: server_port_def)
qed

lemma fdb_vlan_insert_tables:
  assumes set: "fdb_setting g s accepts tables p w"
    and i: "\<not> ml_is_tunnel i"
    and acc: "accepts (fdb_rx_entry i p True)"
      "list_all accepts (fdb_vlan_entries (i\<lparr>ml_src_port := port\<rparr>) p True)"
    and new: "fdb_absent p (tables (w_env w)) (ml_mac_addr i) (ml_bridge_id i)"
    and port: "tables (w_env w) (entry_key (EncodeTxAccVsiTableEntry empty_TableEntry
        (ml_src_port i) p)) = Some x" "find_port_entity (port_param_id p) [x] = Some port"
  shows "\<exists>w'. ConfigFdbEntry (Client_vtable g flags) i p True w = Some (OkStatus, w') \<and>
    w_client w' = w_client w \<and>
    tables (w_env w') =
      (tables (w_env w))(rx_key p (ml_mac_addr i) (ml_bridge_id i) \<mapsto> fdb_rx_entry i p True) ++
      added (fdb_vlan_entries (i\<lparr>ml_src_port := port\<rparr>) p True)"
proof -
  let ?T = "tables (w_env w)" and ?i = "i\<lparr>ml_src_port := port\<rparr>"
  let ?m = "ml_mac_addr i" and ?br = "ml_bridge_id i"
  let ?rx = "fdb_rx_entry i p True" and ?vs = "fdb_vlan_entries ?i p True"
  let ?T1 = "?T(rx_key p ?m ?br \<mapsto> ?rx)"
  have srv: "table_server g (ses_stub s) accepts tables" and ses: "cl_session (w_client w) = Some s"
    and wf: "wf_p4info p" and dec: "list_all (declares p) es2k_fdb_schemas"
    using set by (simp_all add: fdb_setting_def)
  note dist = fdb_keys_distinct [OF wf dec, of ?m ?br]
  have rx: "entry_key ?rx = rx_key p ?m ?br" by (simp add: fdb_rx_entry_def fdb_vlan_entry_keys)
  have "?T (entry_key (fdb_vlan_key i p)) = None"
    using new by (simp add: fdb_vlan_key_def fdb_vlan_entry_keys fdb_absent_def)
  then obtain st e where r: "server_read g s (fdb_vlan_key i p) (w_env w) = (Inl st, e)"
    and e: "tables e = ?T"
    using server_read_absent [OF srv] by blast
  have e1: "tables (write_each g s True [?rx] e) = ?T1"
    using single_insert [OF srv acc(1)] new by (simp add: rx e fdb_absent_def)
  have "?T1 (entry_key (EncodeTxAccVsiTableEntry empty_TableEntry (ml_src_port i) p)) = Some x"
    using port(1) new by (auto simp: fdb_absent_def)
  then obtain e2 where p2: "server_port g s p (ml_src_port i) (write_each g s True [?rx] e) = (Inr port, e2)"
    and e2: "tables e2 = ?T1"
    using server_port_found [OF srv _ port(2)] by (metis e1)
  have keys: "map entry_key ?vs = [tx_key p ?m ?br, smac_key p ?m ?br]"
    by (simp add: vlan_entry_keys)
  have "list_all (\<lambda>k. ?T1 k = None) (map entry_key ?vs)"
    unfolding keys using new dist by (auto simp: fdb_absent_def)
  then have "list_all (\<lambda>te. tables e2 (entry_key te) = None) ?vs"
    by (simp add: list.pred_map comp_def e2)
  moreover have "distinct (map entry_key ?vs)" unfolding keys using dist by auto
  ultimately have "tables (write_each g s True ?vs e2) = ?T1 ++ added ?vs"
    using insert_all [OF _ acc(2)] by (simp add: write_each_tables [OF srv] e2 added_def)
  then show ?thesis
    using cl_ConfigFdbVlanEntry_insert [OF ses r p2, of flags] i by (auto simp: ConfigFdbEntry_def)
qed

text \<open>C3: learning a MAC address on a VLAN port of a server that has no entry for it writes
  the l2_fwd_rx entry, replaces the source port by the host port read back from the
  tx_acc_vsi table, and writes the l2_fwd_tx and smac entries; deleting the address again
  removes the l2_fwd_tx and the smac entry but not the l2_fwd_rx entry, which stays on the
  server with the port of the first learn. Both calls return OK.\<close>

theorem fdb_vlan_delete_leaves_rx:
  assumes set: "fdb_setting g s accepts tables p w"
    and i: "\<not> ml_is_tunnel i"
    and acc: "accepts (fdb_rx_entry i p True)"
      "list_all accepts (fdb_vlan_entries (i\<lparr>ml_src_port := port\<rparr>) p True)"
    and new: "fdb_absent p (tables (w_env w)) (ml_mac_addr i) (ml_bridge_id i)"
    and port: "tables (w_env w) (entry_key (EncodeTxAccVsiTableEntry empty_TableEntry
        (ml_src_port i) p)) = Some x" "find_port_entity (port_param_id p) [x] = Some port"
  shows "\<exists>w1 w2. ConfigFdbEntry (Client_vtable g flags) i p True w = Some (OkStatus, w1) \<and>
    tables (w_env w1) =
      (tables (w_env w))(rx_key p (ml_mac_addr i) (ml_bridge_id i) \<mapsto> fdb_rx_entry i p True) ++
      added (fdb_vlan_entries (i\<lparr>ml_src_port := port\<rparr>) p True) \<and>
    ConfigFdbEntry (Client_vtable g flags) i p False w1 = Some (OkStatus, w2) \<and>
    tables (w_env w2) =
      (tables (w_env w))(rx_key p (ml_mac_addr i) (ml_bridge_id i) \<mapsto> fdb_rx_entry i p True)"
proof -
  let ?m = "ml_mac_addr i" and ?br = "ml_bridge_id i"
  let ?vs = "fdb_vlan_entries (i\<lparr>ml_src_port := port\<rparr>) p True"
  let ?T1 = "(tables (w_env w))(rx_key p ?m ?br \<mapsto> fdb_rx_entry i p True)"
  let ?K = "{tx_key p ?m ?br, smac_key p ?m ?br}"
  obtain w1 where w1: "ConfigFdbEntry (Client_vtable g flags) i p True w = Some (OkStatus, w1)"
    "w_client w1 = w_client w" "tables (w_env w1) = ?T1 ++ added ?vs"
    using fdb_vlan_insert_tables [OF set i acc new port] by blast
  have dist: "distinct [tx_key p ?m ?br, rx_key p ?m ?br, smac_key p ?m ?br, v4_key p ?m, v6_key p ?m]"
    using set by (intro fdb_keys_distinct) (simp_all add: fdb_setting_def)
  have dom: "dom (added ?vs) = ?K"
    unfolding dom_added set_map [symmetric] vlan_entry_keys by simp
  have "(?T1 ++ added ?vs) k = None" if "k = v4_key p ?m \<or> k = v6_key p ?m" for k
  proof -
    have "k \<notin> ?K" using that dist by auto
    then have "added ?vs k = None" using dom by (metis domIff)
    with that new dist show ?thesis by (auto simp: map_add_None fdb_absent_def)
  qed
  then obtain w2 where w2: "ConfigFdbEntry (Client_vtable g flags) i p False w1 = Some (OkStatus, w2)"
    "tables (w_env w2) = tables (w_env w1) |` (- ?K)"
    using fdb_vlan_delete_tables [where flags = flags, OF fdb_setting_client [OF set w1(2)] i]
    by (auto simp: w1(3))
  have "?K \<inter> dom ?T1 = {}" using new dist by (auto simp: fdb_absent_def)
  from add_then_clear [OF dom this] have "tables (w_env w2) = ?T1" by (simp only: w2(2) w1(3))
  with w1 w2 show ?thesis by blast
qed

theorem fdb_vlan_delete_leaves_rx_witness:
  "\<exists>w1 w2. ConfigFdbEntry (Client_vtable (demo_server demo_fdb_p4info) default_flags)
      (demo_learn False 0 0) demo_fdb_p4info True (demo_world demo_vsi_tables) = Some (OkStatus, w1) \<and>
    map_of (w_env w1) =
      (map_of demo_vsi_tables)(rx_key demo_fdb_p4info demo_mac 9 \<mapsto>
        fdb_rx_entry (demo_learn False 0 0) demo_fdb_p4info True) ++
      added (fdb_vlan_entries ((demo_learn False 0 0)\<lparr>ml_src_port := 42\<rparr>) demo_fdb_p4info True) \<and>
    ConfigFdbEntry (Client_vtable (demo_server demo_fdb_p4info) default_flags)
      (demo_learn False 0 0) demo_fdb_p4info False w1 = Some (OkStatus, w2) \<and>
    map_of (w_env w2) =
      (map_of demo_vsi_tables)(rx_key demo_fdb_p4info demo_mac 9 \<mapsto>
        fdb_rx_entry (demo_learn False 0 0) demo_fdb_p4info True)"
  using fdb_vlan_delete_leaves_rx
    [where i = "demo_learn False 0 0" and flags = default_flags,
      OF demo_fdb_setting [where T = demo_vsi_tables and p = demo_fdb_p4info] _ _ _ _ _ demo_vsi_port]
    demo_vsi_absent
  by (simp add: list_all_iff demo_vsi_tables_def demo_learn_def)

end
