(* ===== verification/Tunnel_Properties.thy ===== *)
theory Tunnel_Properties
  imports Demo
begin

text \<open>
  The properties of the ES2K tunnel and VLAN entries: which tables a tunnel uses, what
  an insert and a delete do to a table server, and what is left behind when a write of
  the sequence fails.
\<close>

section \<open>The tables a tunnel uses\<close>

text \<open>The choice of tables the Prepare functions make, as a function of the address family,
  the VLAN mode and the tunnel type.\<close>

definition encap_table :: "tunnel_info \<Rightarrow> string" where
  "encap_table t =
     (if v6_tunnel t then
        (if pv_mode (ti_vlan_info t) = P4_PORT_VLAN_NATIVE_UNTAGGED then
           (if ti_tunnel_type t = OVS_TUNNEL_VXLAN then VXLAN_ENCAP_V6_VLAN_POP_MOD_TABLE
            else GENEVE_ENCAP_V6_VLAN_POP_MOD_TABLE)
         else
           (if ti_tunnel_type t = OVS_TUNNEL_VXLAN then VXLAN_ENCAP_V6_MOD_TABLE
            else GENEVE_ENCAP_V6_MOD_TABLE))
      else
        (if pv_mode (ti_vlan_info t) = P4_PORT_VLAN_NATIVE_UNTAGGED then
           (if ti_tunnel_type t = OVS_TUNNEL_VXLAN then VXLAN_ENCAP_VLAN_POP_MOD_TABLE
            else GENEVE_ENCAP_VLAN_POP_MOD_TABLE)
         else
           (if ti_tunnel_type t = OVS_TUNNEL_VXLAN then VXLAN_ENCAP_MOD_TABLE
            else GENEVE_ENCAP_MOD_TABLE)))"

definition decap_table :: "tunnel_info \<Rightarrow> string" where
  "decap_table t =
     (if pv_mode (ti_vlan_info t) = P4_PORT_VLAN_NATIVE_TAGGED then
        (if ti_tunnel_type t = OVS_TUNNEL_VXLAN then VXLAN_DECAP_MOD_TABLE
         else GENEVE_DECAP_MOD_TABLE)
      else
        (if ti_tunnel_type t = OVS_TUNNEL_VXLAN then VXLAN_DECAP_AND_VLAN_PUSH_MOD_TABLE
         else GENEVE_DECAP_AND_VLAN_PUSH_MOD_TABLE))"

definition term_table :: "tunnel_info \<Rightarrow> string" where
  "term_table t = (if v6_tunnel t then IPV6_TUNNEL_TERM_TABLE else IPV4_TUNNEL_TERM_TABLE)"

definition tunnel_tables :: "tunnel_info \<Rightarrow> string list" where
  "tunnel_tables t = [encap_table t, decap_table t, term_table t]"

lemmas tunnel_choice_defs = encap_table_def decap_table_def term_table_def v6_tunnel_def
  same_ip_family_def known_tunnel_type_def

lemma tunnel_table_ids:
  assumes "same_ip_family t" and "known_tunnel_type t"
  shows "map te_table_id (tunnel_entries t p b) = map (GetTableId p) (tunnel_tables t)"
  using assms
  by (auto simp: tunnel_entries_def tunnel_tables_def tunnel_choice_defs prepare_encap_defs
      prepare_decap_defs PrepareTunnelTermTableEntry_def schema_defs
      vxlan_encap.table_id geneve_encap.table_id v6_vxlan_encap.table_id v6_geneve_encap.table_id
      vxlan_encap_and_vlan_pop.table_id geneve_encap_and_vlan_pop.table_id
      v6_vxlan_encap_and_vlan_pop.table_id v6_geneve_encap_and_vlan_pop.table_id
      vxlan_decap_mod.table_id geneve_decap_mod.table_id
      vxlan_decap_mod_and_vlan_push.table_id geneve_decap_mod_and_vlan_push.table_id
      tunnel_term.table_id v6_tunnel_term.table_id)

lemma prepare_key_flag:
  "entry_key (fst (PrepareEncapTableEntry te t p b)) =
   entry_key (fst (PrepareEncapTableEntry te t p c))"
  "entry_key (fst (PrepareDecapTableEntry te t p b)) =
   entry_key (fst (PrepareDecapTableEntry te t p c))"
  "entry_key (fst (PrepareTunnelTermTableEntry te t p b)) =
   entry_key (fst (PrepareTunnelTermTableEntry te t p c))"
  by (auto simp: prepare_encap_defs prepare_decap_defs PrepareTunnelTermTableEntry_def
      intro: vxlan_encap.key_flag geneve_encap.key_flag v6_vxlan_encap.key_flag
      v6_geneve_encap.key_flag vxlan_encap_and_vlan_pop.key_flag
      geneve_encap_and_vlan_pop.key_flag v6_vxlan_encap_and_vlan_pop.key_flag
      v6_geneve_encap_and_vlan_pop.key_flag vxlan_decap_mod.key_flag geneve_decap_mod.key_flag
      vxlan_decap_mod_and_vlan_push.key_flag geneve_decap_mod_and_vlan_push.key_flag
      tunnel_term.key_flag v6_tunnel_term.key_flag)

lemma tunnel_entries_key_flag:
  "map entry_key (tunnel_entries t p b) = map entry_key (tunnel_entries t p c)"
  by (simp add: tunnel_entries_def prepare_key_flag [of empty_TableEntry t p b c])

lemma tunnel_tables_distinct: "distinct (tunnel_tables t)"
  by (simp add: tunnel_tables_def encap_table_def decap_table_def term_table_def)
    (simp add: p4_names)

lemma map_table_id_key: "map te_table_id tes = map fst (map entry_key tes)"
  by (simp add: entry_key_def)

lemma tunnel_keys_distinct:
  assumes "wf_p4info p" and "set (tunnel_tables t) \<subseteq> set (table_names p)"
    and "same_ip_family t" and "known_tunnel_type t"
  shows "distinct (map entry_key (tunnel_entries t p b))"
proof -
  have "inj_on (GetTableId p) (set (tunnel_tables t))"
    using assms(2) GetTableId_inj [OF assms(1)] by (auto simp: inj_on_def)
  then have "distinct (map (GetTableId p) (tunnel_tables t))"
    by (simp add: distinct_map tunnel_tables_distinct)
  then have "distinct (map fst (map entry_key (tunnel_entries t p b)))"
    by (simp only: tunnel_table_ids [OF assms(3,4), of p b, symmetric] map_table_id_key)
  then show ?thesis using distinct_map by blast
qed

section \<open>Tunnel entries on a table server\<close>

text \<open>C6: configuring a tunnel of a known type writes its encapsulation, decapsulation and
  termination entry in this order, stops at the first write the server refuses and returns
  that status: on a table server the call returns OK exactly when all three writes
  apply, and the tables hold the effect of the applied prefix (no rollback).\<close>

theorem tunnel_entry_refines:
  assumes srv: "table_server g (ses_stub s) accepts tables"
    and ses: "cl_session (w_client w) = Some s" and kt: "known_tunnel_type t"
  shows "\<exists>st w'. ConfigTunnelEntry (Client_vtable g flags) t p b w = Some (st, w') \<and>
    (ok st, tables (w_env w')) = apply_all accepts b (tunnel_entries t p b) (tables (w_env w)) \<and>
    w_client w' = w_client w \<and> w_out w' = w_out w"
  using cl_ConfigTunnelEntry [OF ses kt, of g flags p b]
    write_all_tables [OF srv, of b "tunnel_entries t p b" "w_env w"]
  by (auto simp: Let_def prod_eq_iff split: prod.splits)

theorem tunnel_entry_refines_witness:
  "\<exists>st w'. ConfigTunnelEntry (Client_vtable (demo_server empty_P4Info) default_flags)
      (demo_tunnel AF_INET OVS_TUNNEL_VXLAN P4_PORT_VLAN_NATIVE_TAGGED) empty_P4Info True
      (demo_world []) = Some (st, w') \<and>
    (ok st, map_of (w_env w')) =
      apply_all (\<lambda>_. True) True
        (tunnel_entries (demo_tunnel AF_INET OVS_TUNNEL_VXLAN P4_PORT_VLAN_NATIVE_TAGGED)
           empty_P4Info True) (map_of []) \<and>
    w_client w' = w_client (demo_world []) \<and> w_out w' = w_out (demo_world [])"
  using tunnel_entry_refines
    [where g = "demo_server empty_P4Info" and s = demo_session and tables = map_of
      and w = "demo_world []" and flags = default_flags and p = empty_P4Info and b = True
      and t = "demo_tunnel AF_INET OVS_TUNNEL_VXLAN P4_PORT_VLAN_NATIVE_TAGGED",
      OF demo_table_server]
  by (simp add: known_tunnel_type_def)

text \<open>C7: a tunnel (IPv4 or IPv6, VXLAN or GENEVE, any VLAN mode) whose three keys are free
  can be inserted and deleted again: both calls return OK, the insert adds exactly the
  three entries, in pairwise different tables, and the delete restores the tables.\<close>

theorem tunnel_entry_roundtrip:
  assumes srv: "table_server g (ses_stub s) accepts tables"
    and ses: "cl_session (w_client w) = Some s"
    and t: "same_ip_family t" "known_tunnel_type t"
    and p: "wf_p4info p" "set (tunnel_tables t) \<subseteq> set (table_names p)"
    and acc: "list_all accepts (tunnel_entries t p True)"
    and new: "list_all (\<lambda>te. tables (w_env w) (entry_key te) = None) (tunnel_entries t p True)"
  shows "\<exists>st1 w1 st2 w2. ConfigTunnelEntry (Client_vtable g flags) t p True w = Some (st1, w1) \<and>
    ok st1 \<and> tables (w_env w1) = tables (w_env w) ++ added (tunnel_entries t p True) \<and>
    ConfigTunnelEntry (Client_vtable g flags) t p False w1 = Some (st2, w2) \<and>
    ok st2 \<and> tables (w_env w2) = tables (w_env w)"
proof -
  let ?tes = "tunnel_entries t p True" and ?dels = "tunnel_entries t p False"
  let ?T = "tables (w_env w)"
  note rt = apply_all_roundtrip [OF tunnel_keys_distinct [OF p t] acc new
      tunnel_entries_key_flag [of t p False True]]
  obtain st1 e1 where 1: "write_all g s True ?tes (w_env w) = (st1, e1)" by fastforce
  with write_all_tables [OF srv, of True ?tes "w_env w"] rt(1)
  have e1: "ok st1" "tables e1 = ?T ++ added ?tes" by simp_all
  obtain st2 e2 where 2: "write_all g s False ?dels e1 = (st2, e2)" by fastforce
  with write_all_tables [OF srv, of False ?dels e1] rt(2) e1(2)
  have e2: "ok st2" "tables e2 = ?T" by simp_all
  have "ConfigTunnelEntry (Client_vtable g flags) t p True w = Some (st1, w\<lparr>w_env := e1\<rparr>)"
    using cl_ConfigTunnelEntry [OF ses t(2), of g flags p True] 1 by simp
  moreover have "ConfigTunnelEntry (Client_vtable g flags) t p False (w\<lparr>w_env := e1\<rparr>) =
      Some (st2, w\<lparr>w_env := e2\<rparr>)"
    using cl_ConfigTunnelEntry [of "w\<lparr>w_env := e1\<rparr>" s t g flags p False] ses t(2) 2 by simp
  ultimately show ?thesis using e1 e2 by auto
qed

definition demo_tunnel_p4info :: P4Info where
  "demo_tunnel_p4info =
     p4info_of [v6_geneve_encap_and_vlan_pop_schema, geneve_decap_mod_and_vlan_push_schema,
       v6_tunnel_term_schema]"

lemma demo_tunnel_wf: "wf_p4info demo_tunnel_p4info"
  by code_simp

lemma demo_tunnel_declared:
  "set (tunnel_tables (demo_tunnel AF_INET6 OVS_TUNNEL_GENEVE P4_PORT_VLAN_NATIVE_UNTAGGED)) \<subseteq>
   set (table_names demo_tunnel_p4info)"
  by code_simp

theorem tunnel_entry_roundtrip_witness:
  "\<exists>st1 w1 st2 w2. ConfigTunnelEntry (Client_vtable (demo_server demo_tunnel_p4info) default_flags)
      (demo_tunnel AF_INET6 OVS_TUNNEL_GENEVE P4_PORT_VLAN_NATIVE_UNTAGGED) demo_tunnel_p4info True
      (demo_world []) = Some (st1, w1) \<and>
    ok st1 \<and> map_of (w_env w1) = map_of [] ++
      added (tunnel_entries (demo_tunnel AF_INET6 OVS_TUNNEL_GENEVE P4_PORT_VLAN_NATIVE_UNTAGGED)
        demo_tunnel_p4info True) \<and>
    ConfigTunnelEntry (Client_vtable (demo_server demo_tunnel_p4info) default_flags)
      (demo_tunnel AF_INET6 OVS_TUNNEL_GENEVE P4_PORT_VLAN_NATIVE_UNTAGGED) demo_tunnel_p4info False
      w1 = Some (st2, w2) \<and>
    ok st2 \<and> map_of (w_env w2) = map_of []"
  using tunnel_entry_roundtrip
    [where g = "demo_server demo_tunnel_p4info" and s = demo_session and tables = map_of
      and w = "demo_world []" and flags = default_flags,
      OF demo_table_server _ _ _ demo_tunnel_wf demo_tunnel_declared]
  by (simp add: known_tunnel_type_def same_ip_family_def list_all_iff)

text \<open>For a tunnel type other than VXLAN and GENEVE the code prints an error and still
  sends the request it started, which holds an empty table entry (table id 0, no match
  field, no action); when the server refuses it, the call returns the server's status and
  nothing else is sent.\<close>

lemma tunnel_unsupported_type:
  assumes "cl_session (w_client w) = Some s"
    and "same_ip_family t" and "\<not> known_tunnel_type t"
    and "server_write g s b empty_TableEntry (w_env w) = (st, e)" and "\<not> ok st"
  shows "ConfigTunnelEntry (Client_vtable g flags) t p b w =
    Some (st, w\<lparr>w_env := e, w_out := w_out w @ [''ERROR: Unsupported tunnel type'']\<rparr>)"
proof -
  have "PrepareEncapTableEntry empty_TableEntry t p b =
      (empty_TableEntry, [''ERROR: Unsupported tunnel type''])"
    using assms(2,3) by (auto simp: prepare_encap_defs same_ip_family_def known_tunnel_type_def)
  then show ?thesis
    using assms by (simp add: ConfigTunnelEntry_def cl.WriteEncap cl_simps print_line_def)
qed

theorem tunnel_unsupported_type_witness:
  "ConfigTunnelEntry (Client_vtable (demo_server empty_P4Info) default_flags)
     (demo_tunnel AF_INET OVS_TUNNEL_UNKNOWN P4_PORT_VLAN_NATIVE_TAGGED) empty_P4Info False
     (demo_world []) =
   Some (\<lparr>st_code = 5, st_message = ''not found''\<rparr>,
     (demo_world [])\<lparr>w_env := [],
       w_out := w_out (demo_world []) @ [''ERROR: Unsupported tunnel type'']\<rparr>)"
proof -
  have "server_write (demo_server empty_P4Info) demo_session False empty_TableEntry
      (w_env (demo_world [])) = (\<lparr>st_code = 5, st_message = ''not found''\<rparr>, [])"
    by (simp add: server_write_def SendWriteRequest_def demo_write_def single_write_def
        write_type_def GrpcStatusToAbslStatus_def absl_Status_def)
  from tunnel_unsupported_type [OF _ _ _ this, of "demo_tunnel AF_INET OVS_TUNNEL_UNKNOWN
      P4_PORT_VLAN_NATIVE_TAGGED" default_flags empty_P4Info]
  show ?thesis by (simp add: same_ip_family_def known_tunnel_type_def)
qed

text \<open>The actions the termination entry attaches.\<close>

definition term_action :: "tunnel_info \<Rightarrow> string" where
  "term_action t =
     (if pv_mode (ti_vlan_info t) = P4_PORT_VLAN_NATIVE_UNTAGGED then
        (if ti_tunnel_type t = OVS_TUNNEL_VXLAN
         then ACTION_SET_VXLAN_DECAP_OUTER_HDR_AND_PUSH_VLAN
         else ACTION_SET_GENEVE_DECAP_OUTER_HDR_AND_PUSH_VLAN)
      else
        (if ti_tunnel_type t = OVS_TUNNEL_VXLAN then ACTION_SET_VXLAN_DECAP_OUTER_HDR
         else ACTION_SET_GENEVE_DECAP_OUTER_HDR))"

lemma term_action_id:
  assumes "same_ip_family t" and "known_tunnel_type t"
  shows "act_action_id (the_action (fst (PrepareTunnelTermTableEntry empty_TableEntry t p True))) =
    GetActionId p (term_action t)"
  using assms
  by (auto simp: PrepareTunnelTermTableEntry_def EncodeTunnelTermTableEntry_def
      EncodeV6TunnelTermTableEntry_def same_ip_family_def known_tunnel_type_def term_action_def
      Let_def)

text \<open>The two halves of the decapsulation are selected by different conditions. For a
  port that is neither native-tagged nor native-untagged the decapsulation entry goes into
  the decap-and-push-VLAN table while the termination entry selects the decapsulation
  without a VLAN push; for the two native modes they agree.\<close>

lemma tunnel_decap_term_modes:
  assumes "same_ip_family t" and "known_tunnel_type t"
  shows "te_table_id (fst (PrepareDecapTableEntry empty_TableEntry t p True)) =
      GetTableId p (decap_table t) \<and>
    act_action_id (the_action (fst (PrepareTunnelTermTableEntry empty_TableEntry t p True))) =
      GetActionId p (term_action t) \<and>
    (let mode = pv_mode (ti_vlan_info t);
         pushes_table = decap_table t \<in> {VXLAN_DECAP_AND_VLAN_PUSH_MOD_TABLE,
           GENEVE_DECAP_AND_VLAN_PUSH_MOD_TABLE};
         pushes_action = term_action t \<in> {ACTION_SET_VXLAN_DECAP_OUTER_HDR_AND_PUSH_VLAN,
           ACTION_SET_GENEVE_DECAP_OUTER_HDR_AND_PUSH_VLAN}
     in pushes_table = pushes_action \<longleftrightarrow>
        mode = P4_PORT_VLAN_NATIVE_TAGGED \<or> mode = P4_PORT_VLAN_NATIVE_UNTAGGED)"
proof -
  have "te_table_id (fst (PrepareDecapTableEntry empty_TableEntry t p True)) =
      GetTableId p (decap_table t)"
    using tunnel_table_ids [OF assms, of p True] by (simp add: tunnel_entries_def tunnel_tables_def)
  moreover have "decap_table t \<in> {VXLAN_DECAP_AND_VLAN_PUSH_MOD_TABLE,
      GENEVE_DECAP_AND_VLAN_PUSH_MOD_TABLE} \<longleftrightarrow>
      pv_mode (ti_vlan_info t) \<noteq> P4_PORT_VLAN_NATIVE_TAGGED"
    by (simp add: decap_table_def) (simp add: p4_names)
  moreover have "term_action t \<in> {ACTION_SET_VXLAN_DECAP_OUTER_HDR_AND_PUSH_VLAN,
      ACTION_SET_GENEVE_DECAP_OUTER_HDR_AND_PUSH_VLAN} \<longleftrightarrow>
      pv_mode (ti_vlan_info t) = P4_PORT_VLAN_NATIVE_UNTAGGED"
    by (simp add: term_action_def) (simp add: p4_names)
  ultimately show ?thesis using term_action_id [OF assms] by (auto simp: Let_def)
qed

theorem tunnel_decap_term_modes_witness:
  "te_table_id (fst (PrepareDecapTableEntry empty_TableEntry
      (demo_tunnel AF_INET OVS_TUNNEL_VXLAN P4_PORT_VLAN_ACCESS) empty_P4Info True)) =
    GetTableId empty_P4Info (decap_table (demo_tunnel AF_INET OVS_TUNNEL_VXLAN P4_PORT_VLAN_ACCESS)) \<and>
   act_action_id (the_action (fst (PrepareTunnelTermTableEntry empty_TableEntry
      (demo_tunnel AF_INET OVS_TUNNEL_VXLAN P4_PORT_VLAN_ACCESS) empty_P4Info True))) =
    GetActionId empty_P4Info (term_action (demo_tunnel AF_INET OVS_TUNNEL_VXLAN P4_PORT_VLAN_ACCESS)) \<and>
   decap_table (demo_tunnel AF_INET OVS_TUNNEL_VXLAN P4_PORT_VLAN_ACCESS) =
     VXLAN_DECAP_AND_VLAN_PUSH_MOD_TABLE \<and>
   term_action (demo_tunnel AF_INET OVS_TUNNEL_VXLAN P4_PORT_VLAN_ACCESS) =
     ACTION_SET_VXLAN_DECAP_OUTER_HDR"
  using tunnel_decap_term_modes
    [of "demo_tunnel AF_INET OVS_TUNNEL_VXLAN P4_PORT_VLAN_ACCESS" empty_P4Info]
  by (simp add: known_tunnel_type_def same_ip_family_def decap_table_def term_action_def
      del: lookups_empty)

section \<open>VLAN entries\<close>

lemma vlan_keys:
  "map entry_key (vlan_entries v p b) =
     [(GetTableId p VLAN_PUSH_MOD_TABLE,
       [\<lparr>fm_field_id = GetMatchFieldId p VLAN_PUSH_MOD_TABLE VLAN_PUSH_MOD_KEY_MOD_BLOB_PTR,
         fm_match = Exact [ucast v]\<rparr>], 0),
      (GetTableId p VLAN_POP_MOD_TABLE,
       [\<lparr>fm_field_id = GetMatchFieldId p VLAN_POP_MOD_TABLE VLAN_POP_MOD_KEY_MOD_BLOB_PTR,
         fm_match = Exact [ucast v]\<rparr>], 0)]"
proof -
  have "(ucast (ucast v :: u32) :: u8) = ucast v"
    by (rule bit_word_eqI) (simp add: bit_simps)
  then show ?thesis
    by (simp add: vlan_entries_def EncodeVlanPushTableEntry_def EncodeVlanPopTableEntry_def
        entry_key_match_setters Let_def)
qed

text \<open>Adding a VLAN whose push and pop keys are free and removing it again returns OK
  twice, writes both entries in between and restores the tables.\<close>

lemma vlan_entry_roundtrip:
  assumes srv: "table_server g (ses_stub s) accepts tables"
    and ses: "cl_session (w_client w) = Some s"
    and p: "wf_p4info p" "{VLAN_PUSH_MOD_TABLE, VLAN_POP_MOD_TABLE} \<subseteq> set (table_names p)"
    and acc: "list_all accepts (vlan_entries v p True)"
    and new: "list_all (\<lambda>te. tables (w_env w) (entry_key te) = None) (vlan_entries v p True)"
  shows "\<exists>st1 w1 st2 w2. ConfigVlanEntry (Client_vtable g flags) v p True w = Some (st1, w1) \<and>
    ok st1 \<and> tables (w_env w1) = tables (w_env w) ++ added (vlan_entries v p True) \<and>
    ConfigVlanEntry (Client_vtable g flags) v p False w1 = Some (st2, w2) \<and>
    ok st2 \<and> tables (w_env w2) = tables (w_env w)"
proof -
  let ?tes = "vlan_entries v p True" and ?dels = "vlan_entries v p False"
  have "VLAN_PUSH_MOD_TABLE \<noteq> VLAN_POP_MOD_TABLE" by (simp add: p4_names)
  then have dist: "distinct (map entry_key ?tes)"
    using GetTableId_inj [OF p(1), of VLAN_PUSH_MOD_TABLE VLAN_POP_MOD_TABLE] p(2)
    by (simp add: vlan_keys)
  note rt = apply_all_roundtrip [OF dist acc new, of ?dels]
  obtain st1 e1 where 1: "write_all g s True ?tes (w_env w) = (st1, e1)" by fastforce
  with write_all_tables [OF srv, of True ?tes "w_env w"] rt(1)
  have e1: "ok st1" "tables e1 = tables (w_env w) ++ added ?tes" by (simp_all add: vlan_keys)
  obtain st2 e2 where 2: "write_all g s False ?dels e1 = (st2, e2)" by fastforce
  with write_all_tables [OF srv, of False ?dels e1] rt(2) e1(2)
  have e2: "ok st2" "tables e2 = tables (w_env w)" by (simp_all add: vlan_keys)
  have "ConfigVlanEntry (Client_vtable g flags) v p True w = Some (st1, w\<lparr>w_env := e1\<rparr>)"
    using cl_ConfigVlanEntry [OF ses, of g flags v p True] 1 by simp
  moreover have "ConfigVlanEntry (Client_vtable g flags) v p False (w\<lparr>w_env := e1\<rparr>) =
      Some (st2, w\<lparr>w_env := e2\<rparr>)"
    using cl_ConfigVlanEntry [of "w\<lparr>w_env := e1\<rparr>" s g flags v p False] ses 2 by simp
  ultimately show ?thesis using e1 e2 by auto
qed

definition demo_vlan_p4info :: P4Info where
  "demo_vlan_p4info = p4info_of [vlan_push_schema, vlan_pop_schema]"

lemma demo_vlan_wf: "wf_p4info demo_vlan_p4info"
  by code_simp

lemma demo_vlan_declared:
  "{VLAN_PUSH_MOD_TABLE, VLAN_POP_MOD_TABLE} \<subseteq> set (table_names demo_vlan_p4info)"
  by code_simp

theorem vlan_entry_roundtrip_witness:
  "\<exists>st1 w1 st2 w2. ConfigVlanEntry (Client_vtable (demo_server demo_vlan_p4info) default_flags)
      10 demo_vlan_p4info True (demo_world []) = Some (st1, w1) \<and>
    ok st1 \<and> map_of (w_env w1) = map_of [] ++ added (vlan_entries 10 demo_vlan_p4info True) \<and>
    ConfigVlanEntry (Client_vtable (demo_server demo_vlan_p4info) default_flags)
      10 demo_vlan_p4info False w1 = Some (st2, w2) \<and>
    ok st2 \<and> map_of (w_env w2) = map_of []"
  using vlan_entry_roundtrip
    [where g = "demo_server demo_vlan_p4info" and s = demo_session and tables = map_of
      and w = "demo_world []" and flags = default_flags and v = 10,
      OF demo_table_server _ demo_vlan_wf demo_vlan_declared]
  by (simp add: list_all_iff)

text \<open>The key of a VLAN entry is the low byte of the VLAN id, so two VLAN ids that are
  equal modulo 256 share their entries: with one of them configured, adding the other
  fails and changes nothing.\<close>

lemma vlan_ids_collide:
  assumes srv: "table_server g (ses_stub s) accepts tables"
    and ses: "cl_session (w_client w) = Some s"
    and uv: "unat u mod 256 = unat v mod 256"
    and u: "list_all (\<lambda>te. tables (w_env w) (entry_key te) \<noteq> None) (vlan_entries u p True)"
  shows "\<exists>st w'. ConfigVlanEntry (Client_vtable g flags) v p True w = Some (st, w') \<and>
    \<not> ok st \<and> tables (w_env w') = tables (w_env w)"
proof -
  have "unat (ucast u :: u8) = unat (ucast v :: u8)"
    using uv by (simp add: unsigned_ucast_eq take_bit_eq_mod)
  then have "(ucast u :: u8) = ucast v" by (rule word_unat_eq_iff [THEN iffD2])
  then have keys: "map entry_key (vlan_entries v p True) = map entry_key (vlan_entries u p True)"
    by (simp add: vlan_keys)
  have "list_all (\<lambda>k. tables (w_env w) k \<noteq> None) (map entry_key (vlan_entries v p True))"
    unfolding keys using u by (simp add: list.pred_map comp_def)
  then have "apply_all accepts True (vlan_entries v p True) (tables (w_env w)) =
      (False, tables (w_env w))"
    by (auto simp: vlan_entries_def applicable_def)
  with write_all_tables [OF srv, of True "vlan_entries v p True" "w_env w"]
    cl_ConfigVlanEntry [OF ses, of g flags v p True]
  show ?thesis by (auto simp: Let_def split: prod.splits)
qed

theorem vlan_ids_collide_witness:
  "\<exists>st w'. ConfigVlanEntry (Client_vtable (demo_server demo_vlan_p4info) default_flags)
      266 demo_vlan_p4info True
      (demo_world (map (\<lambda>te. (entry_key te, te)) (vlan_entries 10 demo_vlan_p4info True))) =
        Some (st, w') \<and> \<not> ok st \<and>
    map_of (w_env w') =
      map_of (map (\<lambda>te. (entry_key te, te)) (vlan_entries 10 demo_vlan_p4info True))"
  using vlan_ids_collide
    [where g = "demo_server demo_vlan_p4info" and s = demo_session and tables = map_of
      and w = "demo_world (map (\<lambda>te. (entry_key te, te)) (vlan_entries 10 demo_vlan_p4info True))"
      and flags = default_flags and u = 10 and v = 266 and p = demo_vlan_p4info, OF demo_table_server]
  by (simp add: vlan_entries_def)

end
