(* ===== verification/Port_Properties.thy ===== *)
theory Port_Properties
  imports Demo Dpdk_Entries
begin

text \<open>
  The properties of the name lookups, of the source-port entries, of the IP-to-MAC entries
  and of the two DPDK operations.
\<close>

section \<open>Name lookups\<close>

text \<open>In a well-formed pipeline each lookup returns the declared identifier of a
  declared name; a table, field, action or parameter that is not declared gives -1, which
  no declared name has.\<close>

lemma lookups_correct:
  assumes wf: "wf_p4info p" and t: "t \<in> set (pi_tables p)" and a: "a \<in> set (pi_actions p)"
  shows "GetTableId p (pre_name (tbl_preamble t)) = pre_id (tbl_preamble t) \<and>
    GetActionId p (pre_name (pact_preamble a)) = pre_id (pact_preamble a) \<and>
    GetMatchFieldId p (pre_name (tbl_preamble t)) f =
      (case find (\<lambda>x. ni_name x = f) (tbl_match_fields t) of Some x \<Rightarrow> ni_id x | None \<Rightarrow> -1) \<and>
    GetParamId p (pre_name (pact_preamble a)) f =
      (case find (\<lambda>x. ni_name x = f) (pact_params a) of Some x \<Rightarrow> ni_id x | None \<Rightarrow> -1) \<and>
    (GetTableId p n = -1 \<longleftrightarrow> n \<notin> set (table_names p)) \<and>
    (GetActionId p n = -1 \<longleftrightarrow> n \<notin> set (action_names p))"
proof -
  have find: "find_id xs f = map_option ni_id (find (\<lambda>x. ni_name x = f) xs)" for xs
    by (induction xs) simp_all
  have "GetMatchFieldId p (pre_name (tbl_preamble t)) f =
      (case find (\<lambda>x. ni_name x = f) (tbl_match_fields t) of Some x \<Rightarrow> ni_id x | None \<Rightarrow> -1)"
    using GetMatchFieldId_loop_distinct [of "pi_tables p" t f] wf t
    by (simp add: GetMatchFieldId_def wf_p4info_def table_names_def find split: option.split)
  moreover have "GetParamId p (pre_name (pact_preamble a)) f =
      (case find (\<lambda>x. ni_name x = f) (pact_params a) of Some x \<Rightarrow> ni_id x | None \<Rightarrow> -1)"
    using GetParamId_loop_distinct [of "pi_actions p" a f] wf a
    by (simp add: GetParamId_def wf_p4info_def action_names_def find split: option.split)
  moreover have "GetTableId p n = -1 \<longleftrightarrow> n \<notin> set (table_names p)"
  proof
    assume "GetTableId p n = -1"
    with wf show "n \<notin> set (table_names p)"
      using GetTableId_declared [OF wf] by (force simp: table_names_def wf_p4info_def)
  next
    assume "n \<notin> set (table_names p)"
    then show "GetTableId p n = -1"
      by (simp add: GetTableId_def GetTableId_loop_absent table_names_def)
  qed
  moreover have "GetActionId p n = -1 \<longleftrightarrow> n \<notin> set (action_names p)"
  proof
    assume "GetActionId p n = -1"
    with wf show "n \<notin> set (action_names p)"
      using GetActionId_declared [OF wf] by (force simp: action_names_def wf_p4info_def)
  next
    assume "n \<notin> set (action_names p)"
    then show "GetActionId p n = -1"
      by (simp add: GetActionId_def GetActionId_loop_absent action_names_def)
  qed
  ultimately show ?thesis
    using GetTableId_declared [OF wf t] GetActionId_declared [OF wf a] by blast
qed

definition demo_small_p4info :: P4Info where
  "demo_small_p4info = \<lparr>
     pi_tables = [\<lparr>tbl_preamble = \<lparr>pre_id = 1, pre_name = ''t''\<rparr>,
                   tbl_match_fields = [\<lparr>ni_id = 3, ni_name = ''f''\<rparr>]\<rparr>],
     pi_actions = [\<lparr>pact_preamble = \<lparr>pre_id = 2, pre_name = ''a''\<rparr>, pact_params = []\<rparr>]\<rparr>"

theorem lookups_correct_witness:
  "GetMatchFieldId demo_small_p4info ''t'' ''f'' = 3 \<and> GetTableId demo_small_p4info ''u'' = -1"
  using lookups_correct [of demo_small_p4info "hd (pi_tables demo_small_p4info)"
      "hd (pi_actions demo_small_p4info)" "''f''" "''u''"]
  by (simp add: demo_small_p4info_def wf_p4info_def wf_named_def table_names_def action_names_def)

section \<open>Source ports\<close>

lemma find_port_param_find:
  "find_port_param pid ps =
     map_option (\<lambda>q. decode_host_sp 0 (par_value q)) (find (\<lambda>q. par_param_id q = pid) ps)"
  by (induction ps) simp_all

lemma find_append: "find P (xs @ ys) = (case find P xs of Some x \<Rightarrow> Some x | None \<Rightarrow> find P ys)"
  by (induction xs) simp_all

lemma find_port_entity_find:
  "find_port_entity pid es =
     map_option (\<lambda>q. decode_host_sp 0 (par_value q))
       (find (\<lambda>q. par_param_id q = pid) (concat (map (act_params \<circ> the_action) es)))"
  by (induction es) (simp_all add: find_port_param_find find_append split: option.split)

text \<open>The host port of a VSI is the value of the first parameter with the port's
  identifier among the entries the server returns: its bytes read as a big-endian number
  modulo 2 to the 32. Without such a parameter the result is an internal error, and a
  failed read is passed on.\<close>

lemma host_port_lookup:
  assumes "cl_session (w_client w) = Some s"
    and "server_read g s (EncodeTxAccVsiTableEntry empty_TableEntry sp p) (w_env w) = (r, e)"
  shows "\<exists>x. GetTxAccVsiPort (Client_vtable g flags) p sp w = Some (x, w\<lparr>w_env := e\<rparr>) \<and>
    (case r of
       Inl st \<Rightarrow> x = Inl st
     | Inr resp \<Rightarrow>
         (case find (\<lambda>q. par_param_id q = port_param_id p)
                 (concat (map (act_params \<circ> the_action) (rs_entities resp))) of
            None \<Rightarrow> x = Inl (InternalError ''Missing port parameter'')
          | Some q \<Rightarrow> \<exists>port. x = Inr port \<and> unat port = be_value (par_value q) mod 2 ^ 32))"
proof (cases r)
  case (Inl st)
  with assms show ?thesis by (simp add: cl_GetTxAccVsiPort server_port_def)
next
  case (Inr resp)
  with assms show ?thesis
    by (simp add: cl_GetTxAccVsiPort server_port_def find_port_entity_find decode_host_sp_value
        split: option.split)
qed

theorem host_port_lookup_witness:
  "\<exists>x. GetTxAccVsiPort (Client_vtable (demo_server demo_fdb_p4info) default_flags)
      demo_fdb_p4info 20 (demo_world []) = Some (x, (demo_world [])\<lparr>w_env := []\<rparr>) \<and>
    x = Inl \<lparr>st_code = 5, st_message = ''not found''\<rparr>"
proof -
  have "server_read (demo_server demo_fdb_p4info) demo_session
      (EncodeTxAccVsiTableEntry empty_TableEntry 20 demo_fdb_p4info) (w_env (demo_world [])) =
    (Inl \<lparr>st_code = 5, st_message = ''not found''\<rparr>, [])"
    by (simp add: server_read_def SendReadRequest_def demo_read_def single_read_def
        GrpcStatusToAbslStatus_def absl_Status_def)
  from host_port_lookup [OF _ this, of default_flags] show ?thesis by simp
qed

text \<open>A source-port entry is written with the host port the server returned in place of
  the VSI's port; when the port cannot be found, the call returns that error and writes
  nothing.\<close>

lemma src_port_entry:
  assumes "cl_session (w_client w) = Some s"
    and "server_port g s p (sp_src_port i) (w_env w) = (r, e)"
  shows "ConfigSrcPortEntry (Client_vtable g flags) i p b w =
    (case r of
       Inl st \<Rightarrow> Some (st, w\<lparr>w_env := e\<rparr>)
     | Inr port \<Rightarrow>
         (let (st, e') = server_write g s b
                (EncodeSrcPortTableEntry empty_TableEntry (i\<lparr>sp_src_port := port\<rparr>) p b) e
          in Some (st, w\<lparr>w_env := e'\<rparr>)))"
  using assms
  by (auto simp: ConfigSrcPortEntry_def cl_GetTxAccVsiPort cl.WriteVsiSrcPort cl_simps Let_def
      split: sum.split prod.split)

theorem src_port_entry_witness:
  "ConfigSrcPortEntry (Client_vtable (demo_server demo_fdb_p4info) default_flags)
     \<lparr>sp_bridge_id = 9, sp_vlan_id = 5, sp_src_port = 20\<rparr> demo_fdb_p4info True (demo_world []) =
   Some (\<lparr>st_code = 5, st_message = ''not found''\<rparr>, (demo_world [])\<lparr>w_env := []\<rparr>)"
proof -
  have "server_port (demo_server demo_fdb_p4info) demo_session demo_fdb_p4info
      (sp_src_port \<lparr>sp_bridge_id = 9, sp_vlan_id = 5, sp_src_port = 20\<rparr>) (w_env (demo_world [])) =
    (Inl \<lparr>st_code = 5, st_message = ''not found''\<rparr>, [])"
    by (simp add: server_port_def server_read_def SendReadRequest_def demo_read_def single_read_def
        GrpcStatusToAbslStatus_def absl_Status_def)
  from src_port_entry [OF _ this, of default_flags True] show ?thesis by simp
qed

section \<open>IP-to-MAC entries\<close>

text \<open>The address check accepts every IPv4 address except 0.0.0.0, 255.255.255.255 and
  1.0.0.127: the address is in network order and the loopback constant in host order, so
  127.0.0.1 itself passes.\<close>

lemma valid_ip_addresses:
  "(ValidIpAddr x \<longleftrightarrow> CanonicalizeIp x \<notin> {[0, 0, 0, 0], [255, 255, 255, 255], [1, 0, 0, 127]}) \<and>
   CanonicalizeIp 0x0100007f = [127, 0, 0, 1] \<and> ValidIpAddr 0x0100007f"
proof -
  have "CanonicalizeIp 0 = [0, 0, 0, 0]" "CanonicalizeIp 0xffffffff = [255, 255, 255, 255]"
    "CanonicalizeIp 0x7f000001 = [1, 0, 0, 127]" "CanonicalizeIp 0x0100007f = [127, 0, 0, 1]"
    by code_simp+
  moreover have "ValidIpAddr x \<longleftrightarrow>
      CanonicalizeIp x \<notin> {CanonicalizeIp 0, CanonicalizeIp 0xffffffff, CanonicalizeIp 0x7f000001}"
    by (auto simp: ValidIpAddr_def INADDR_ANY_def INADDR_LOOPBACK_def CanonicalizeIp_inj)
  moreover have "ValidIpAddr 0x0100007f"
    by (simp add: ValidIpAddr_def INADDR_ANY_def INADDR_LOOPBACK_def)
  ultimately show ?thesis by simp
qed

text \<open>The two entries of an IP-to-MAC mapping.\<close>

definition src_map_entry :: "ip_mac_map_info \<Rightarrow> P4Info \<Rightarrow> bool \<Rightarrow> TableEntry" where
  "src_map_entry i p b = fst (EncodeSrcIpMacMapTableEntry empty_TableEntry i p b default_DiagDetail)"

definition dst_map_entry :: "ip_mac_map_info \<Rightarrow> P4Info \<Rightarrow> bool \<Rightarrow> TableEntry" where
  "dst_map_entry i p b = fst (EncodeDstIpMacMapTableEntry empty_TableEntry i p b default_DiagDetail)"

lemma cl_ConfigIpMacMapEntry_insert:
  assumes "cl_session (w_client w) = Some s" and "ValidIpAddr (v4addr_s_addr (im_src_ip_addr i))"
    and "server_read g s (src_map_entry i p False) (w_env w) = (Inl st1, e1)"
    and "server_write g s True (src_map_entry i p True) e1 = (st2, e2)"
    and "server_read g s (dst_map_entry i p False) e2 = (Inl st3, e3)"
    and "server_write g s True (dst_map_entry i p True) e3 = (st4, e4)"
  shows "\<exists>w'. ConfigIpMacMapEntry (Client_vtable g flags) i p True w = Some (OkStatus, w') \<and>
    w_client w' = w_client w \<and> w_env w' = e4"
  using assms
  by (auto simp: ConfigIpMacMapEntry_def cl.ReadVmSrc cl.ReadVmDst cl.WriteSrcIpMacMap
      cl.WriteDstIpMacMap cl_simps src_map_entry_def dst_map_entry_def Let_def)

lemma map_entry_keys:
  "entry_key (src_map_entry i p b) = entry_key (src_map_entry i p c)"
  "entry_key (dst_map_entry i p b) = entry_key (dst_map_entry i p c)"
  unfolding src_map_entry_def dst_map_entry_def
  by (rule src_ip_mac_map.key_flag, rule dst_ip_mac_map.key_flag)

lemma map_keys_distinct:
  assumes "wf_p4info p" and "{SRC_IP_MAC_MAP_TABLE, DST_IP_MAC_MAP_TABLE} \<subseteq> set (table_names p)"
  shows "entry_key (src_map_entry i p b) \<noteq> entry_key (dst_map_entry j p c)"
proof -
  have "SRC_IP_MAC_MAP_TABLE \<noteq> DST_IP_MAC_MAP_TABLE" by (simp add: p4_names)
  then have "GetTableId p SRC_IP_MAC_MAP_TABLE \<noteq> GetTableId p DST_IP_MAC_MAP_TABLE"
    using GetTableId_inj [OF assms(1)] assms(2) by simp
  then show ?thesis
    by (simp add: entry_key_def src_map_entry_def dst_map_entry_def src_ip_mac_map.table_id
        dst_ip_mac_map.table_id schema_defs)
qed

text \<open>C38: mapping a valid source address on a server that has neither entry adds the source
  and the destination entry, deleting the mapping restores the tables, and both calls
  return OK.\<close>

theorem ip_mac_map_roundtrip:
  assumes srv: "table_server g (ses_stub s) accepts tables"
    and ses: "cl_session (w_client w) = Some s"
    and p: "wf_p4info p" "{SRC_IP_MAC_MAP_TABLE, DST_IP_MAC_MAP_TABLE} \<subseteq> set (table_names p)"
    and i: "ValidIpAddr (v4addr_s_addr (im_src_ip_addr i))"
    and acc: "accepts (src_map_entry i p True)" "accepts (dst_map_entry i p True)"
    and new: "tables (w_env w) (entry_key (src_map_entry i p True)) = None"
      "tables (w_env w) (entry_key (dst_map_entry i p True)) = None"
  shows "\<exists>w1 w2. ConfigIpMacMapEntry (Client_vtable g flags) i p True w = Some (OkStatus, w1) \<and>
    tables (w_env w1) = (tables (w_env w))(entry_key (src_map_entry i p True) \<mapsto> src_map_entry i p True,
      entry_key (dst_map_entry i p True) \<mapsto> dst_map_entry i p True) \<and>
    ConfigIpMacMapEntry (Client_vtable g flags) i p False w1 = Some (OkStatus, w2) \<and>
    tables (w_env w2) = tables (w_env w)"
proof -
  let ?S = "src_map_entry i p True" and ?D = "dst_map_entry i p True" and ?T = "tables (w_env w)"
  have keys: "entry_key (src_map_entry i p False) = entry_key ?S"
    "entry_key (dst_map_entry i p False) = entry_key ?D" by (rule map_entry_keys)+
  have ne: "entry_key ?S \<noteq> entry_key ?D" by (rule map_keys_distinct [OF p])
  obtain st1 e1 where 1: "server_read g s (src_map_entry i p False) (w_env w) = (Inl st1, e1)"
    "tables e1 = ?T"
    using server_read_absent [OF srv, of "w_env w" "src_map_entry i p False"] new keys by auto
  obtain st2 e2 where 2: "server_write g s True ?S e1 = (st2, e2)" by fastforce
  have t2: "tables e2 = ?T(entry_key ?S \<mapsto> ?S)"
    using server_write_tables(2) [OF srv, of True ?S e1] 1(2) 2 acc(1) new(1)
    by (simp add: apply_write_def applicable_def fun_eq_iff)
  obtain st3 e3 where 3: "server_read g s (dst_map_entry i p False) e2 = (Inl st3, e3)"
    "tables e3 = tables e2"
    using server_read_absent [OF srv, of e2 "dst_map_entry i p False"] new keys ne t2 by auto
  obtain st4 e4 where 4: "server_write g s True ?D e3 = (st4, e4)" by fastforce
  have t4: "tables e4 = ?T(entry_key ?S \<mapsto> ?S, entry_key ?D \<mapsto> ?D)"
    using server_write_tables(2) [OF srv, of True ?D e3] 3(2) t2 4 acc(2) new(2) ne
    by (simp add: apply_write_def applicable_def fun_eq_iff)
  obtain w1 where w1: "ConfigIpMacMapEntry (Client_vtable g flags) i p True w = Some (OkStatus, w1)"
    "w_client w1 = w_client w" "w_env w1 = e4"
    using cl_ConfigIpMacMapEntry_insert [OF ses i 1(1) 2 3(1) 4] by blast
  obtain w2 where w2: "ConfigIpMacMapEntry (Client_vtable g flags) i p False w1 = Some (OkStatus, w2)"
    "w_env w2 = write_each g s False [src_map_entry i p False, dst_map_entry i p False] e4"
    using cl_ConfigIpMacMapEntry_delete [of w1 s g flags i p] ses w1 i
    by (auto simp: src_map_entry_def dst_map_entry_def)
  have "tables (w_env w2) = tables e4 |` (- {entry_key ?S, entry_key ?D})"
    unfolding w2(2) write_each_tables [OF srv] delete_all by (simp add: keys)
  also have "\<dots> = ?T"
    using new ne by (auto simp: t4 restrict_map_def fun_eq_iff)
  finally show ?thesis using w1 w2 t4 by auto
qed

definition demo_map_p4info :: P4Info where
  "demo_map_p4info = p4info_of [src_ip_mac_map_schema, dst_ip_mac_map_schema]"

definition demo_map :: ip_mac_map_info where
  "demo_map = \<lparr>im_src_mac_addr = demo_mac, im_dst_mac_addr = demo_mac,
     im_src_ip_addr = demo_ip AF_INET 0x0100A8C0, im_dst_ip_addr = demo_ip AF_INET 0x0200A8C0\<rparr>"

lemma demo_map_facts:
  "wf_p4info demo_map_p4info"
  "{SRC_IP_MAC_MAP_TABLE, DST_IP_MAC_MAP_TABLE} \<subseteq> set (table_names demo_map_p4info)"
  "ValidIpAddr (v4addr_s_addr (im_src_ip_addr demo_map))"
  by code_simp+

theorem ip_mac_map_roundtrip_witness:
  "\<exists>w1 w2. ConfigIpMacMapEntry (Client_vtable (demo_server demo_map_p4info) default_flags)
      demo_map demo_map_p4info True (demo_world []) = Some (OkStatus, w1) \<and>
    ConfigIpMacMapEntry (Client_vtable (demo_server demo_map_p4info) default_flags)
      demo_map demo_map_p4info False w1 = Some (OkStatus, w2) \<and>
    map_of (w_env w2) = map_of []"
  using ip_mac_map_roundtrip
    [where g = "demo_server demo_map_p4info" and s = demo_session and tables = map_of
      and w = "demo_world []" and flags = default_flags,
      OF demo_table_server _ demo_map_facts]
  by simp blast

text \<open>C39: the source address guards both writes. With a source address that fails the check
  a call changes no table, for an insert as well as for a delete, whatever the destination
  address is, and returns OK.\<close>

theorem ip_mac_map_invalid_source:
  assumes srv: "table_server g (ses_stub s) accepts tables"
    and ses: "cl_session (w_client w) = Some s"
    and i: "\<not> ValidIpAddr (v4addr_s_addr (im_src_ip_addr i))"
  shows "\<exists>w'. ConfigIpMacMapEntry (Client_vtable g flags) i p b w = Some (OkStatus, w') \<and>
    tables (w_env w') = tables (w_env w)"
proof (cases b)
  case True
  obtain r1 e1 where 1: "server_read g s (src_map_entry i p False) (w_env w) = (r1, e1)" by fastforce
  obtain r2 e2 where 2: "server_read g s (dst_map_entry i p False) e1 = (r2, e2)" by fastforce
  have "tables e2 = tables (w_env w)"
    using server_read_tables(1) [OF srv, of "src_map_entry i p False" "w_env w"]
      server_read_tables(1) [OF srv, of "dst_map_entry i p False" e1] 1 2 by simp
  with True ses i 1 2 show ?thesis
    by (simp add: ConfigIpMacMapEntry_def cl.ReadVmSrc cl.ReadVmDst cl_simps src_map_entry_def
        dst_map_entry_def)
next
  case False
  with cl_ConfigIpMacMapEntry_delete [OF ses, of g flags i p] i show ?thesis by auto
qed

theorem ip_mac_map_invalid_source_witness:
  "\<exists>w'. ConfigIpMacMapEntry (Client_vtable (demo_server demo_map_p4info) default_flags)
      (demo_map\<lparr>im_src_ip_addr := demo_ip AF_INET 0\<rparr>) demo_map_p4info True (demo_world []) =
        Some (OkStatus, w') \<and> map_of (w_env w') = map_of []"
  using ip_mac_map_invalid_source
    [where g = "demo_server demo_map_p4info" and s = demo_session and tables = map_of
      and w = "demo_world []" and flags = default_flags and b = True and p = demo_map_p4info
      and i = "demo_map\<lparr>im_src_ip_addr := demo_ip AF_INET 0\<rparr>", OF demo_table_server]
  by (simp add: demo_ip_def v4addr_s_addr_def ValidIpAddr_def)

section \<open>DPDK\<close>

text \<open>C40: on DPDK an FDB configuration is one write for a tunnel address, a transmit and a
  receive entry for a VLAN address, stopping at the first write the server refuses, and
  nothing at all (with an OK status) for an address that is neither.\<close>

theorem dpdk_fdb_entry_refines:
  assumes srv: "table_server g (ses_stub s) accepts tables"
    and ses: "cl_session (w_client w) = Some s"
  shows "\<exists>st w'. dpdk_ConfigFdbEntry (Client_vtable g flags) i p b w = Some (st, w') \<and>
    (ok st, tables (w_env w')) = apply_all accepts b (dpdk_fdb_entries i p b) (tables (w_env w)) \<and>
    length (dpdk_fdb_entries i p b) =
      (if ml_is_tunnel i then 1 else if ml_is_vlan i then 2 else 0) \<and>
    w_client w' = w_client w"
proof -
  have "length (dpdk_fdb_entries i p b) =
      (if ml_is_tunnel i then 1 else if ml_is_vlan i then 2 else 0)"
    by (simp add: dpdk_fdb_entries_def)
  then show ?thesis
    using cl_dpdk_ConfigFdbEntry [OF ses, of g flags i p b]
      write_all_tables [OF srv, of b "dpdk_fdb_entries i p b" "w_env w"]
    by (auto simp: prod_eq_iff)
qed

theorem dpdk_fdb_entry_refines_witness:
  "\<exists>st w'. dpdk_ConfigFdbEntry (Client_vtable (demo_server empty_P4Info) default_flags)
      (demo_learn False 0 0) empty_P4Info True (demo_world []) = Some (st, w') \<and>
    (ok st, map_of (w_env w')) =
      apply_all (\<lambda>_. True) True (dpdk_fdb_entries (demo_learn False 0 0) empty_P4Info True) (map_of [])"
  using dpdk_fdb_entry_refines
    [where g = "demo_server empty_P4Info" and s = demo_session and tables = map_of
      and w = "demo_world []" and flags = default_flags and b = True and p = empty_P4Info
      and i = "demo_learn False 0 0", OF demo_table_server]
  by auto

text \<open>On DPDK a tunnel is its encapsulation and its termination entry; with both keys
  free, an insert followed by a delete returns OK twice and restores the tables.\<close>

lemma dpdk_tunnel_entry_roundtrip:
  assumes srv: "table_server g (ses_stub s) accepts tables"
    and ses: "cl_session (w_client w) = Some s"
    and p: "wf_p4info p"
      "{DPDK_VXLAN_ENCAP_MOD_TABLE, DPDK_IPV4_TUNNEL_TERM_TABLE} \<subseteq> set (table_names p)"
    and acc: "list_all accepts (dpdk_tunnel_entries t p True)"
    and new: "list_all (\<lambda>te. tables (w_env w) (entry_key te) = None) (dpdk_tunnel_entries t p True)"
  shows "\<exists>st1 w1 st2 w2. dpdk_ConfigTunnelEntry (Client_vtable g flags) t p True w = Some (st1, w1) \<and>
    ok st1 \<and> tables (w_env w1) = tables (w_env w) ++ added (dpdk_tunnel_entries t p True) \<and>
    dpdk_ConfigTunnelEntry (Client_vtable g flags) t p False w1 = Some (st2, w2) \<and>
    ok st2 \<and> tables (w_env w2) = tables (w_env w)"
proof -
  let ?tes = "dpdk_tunnel_entries t p True" and ?dels = "dpdk_tunnel_entries t p False"
  have keys: "map entry_key ?dels = map entry_key ?tes"
    unfolding dpdk_tunnel_entries_def list.map
    by (simp add: dpdk_vxlan_encap.same_key dpdk_tunnel_term.same_key)
  have "DPDK_VXLAN_ENCAP_MOD_TABLE \<noteq> DPDK_IPV4_TUNNEL_TERM_TABLE" by (simp add: p4_names)
  then have "GetTableId p DPDK_VXLAN_ENCAP_MOD_TABLE \<noteq> GetTableId p DPDK_IPV4_TUNNEL_TERM_TABLE"
    using GetTableId_inj [OF p(1)] p(2) by simp
  then have dist: "distinct (map entry_key ?tes)"
    by (simp add: dpdk_tunnel_entries_def entry_key_def dpdk_vxlan_encap.table_id
        dpdk_tunnel_term.table_id schema_defs)
  note rt = apply_all_roundtrip [OF dist acc new keys]
  obtain st1 e1 where 1: "write_all g s True ?tes (w_env w) = (st1, e1)" by fastforce
  with write_all_tables [OF srv, of True ?tes "w_env w"] rt(1)
  have e1: "ok st1" "tables e1 = tables (w_env w) ++ added ?tes" by simp_all
  obtain st2 e2 where 2: "write_all g s False ?dels e1 = (st2, e2)" by fastforce
  with write_all_tables [OF srv, of False ?dels e1] rt(2) e1(2)
  have e2: "ok st2" "tables e2 = tables (w_env w)" by simp_all
  have "dpdk_ConfigTunnelEntry (Client_vtable g flags) t p True w = Some (st1, w\<lparr>w_env := e1\<rparr>)"
    using cl_dpdk_ConfigTunnelEntry [OF ses, of g flags t p True] 1 by simp
  moreover have "dpdk_ConfigTunnelEntry (Client_vtable g flags) t p False (w\<lparr>w_env := e1\<rparr>) =
      Some (st2, w\<lparr>w_env := e2\<rparr>)"
    using cl_dpdk_ConfigTunnelEntry [of "w\<lparr>w_env := e1\<rparr>" s g flags t p False] ses 2 by simp
  ultimately show ?thesis using e1 e2 by auto
qed

definition demo_dpdk_p4info :: P4Info where
  "demo_dpdk_p4info = p4info_of dpdk_schemas"

lemma demo_dpdk_facts:
  "wf_p4info demo_dpdk_p4info"
  "{DPDK_VXLAN_ENCAP_MOD_TABLE, DPDK_IPV4_TUNNEL_TERM_TABLE} \<subseteq> set (table_names demo_dpdk_p4info)"
  by code_simp+

theorem dpdk_tunnel_entry_roundtrip_witness:
  "\<exists>st1 w1 st2 w2. dpdk_ConfigTunnelEntry (Client_vtable (demo_server demo_dpdk_p4info) default_flags)
      (demo_tunnel AF_INET OVS_TUNNEL_VXLAN P4_PORT_VLAN_NATIVE_TAGGED) demo_dpdk_p4info True
      (demo_world []) = Some (st1, w1) \<and> ok st1 \<and>
    dpdk_ConfigTunnelEntry (Client_vtable (demo_server demo_dpdk_p4info) default_flags)
      (demo_tunnel AF_INET OVS_TUNNEL_VXLAN P4_PORT_VLAN_NATIVE_TAGGED) demo_dpdk_p4info False
      w1 = Some (st2, w2) \<and> ok st2 \<and> map_of (w_env w2) = map_of []"
  using dpdk_tunnel_entry_roundtrip
    [where g = "demo_server demo_dpdk_p4info" and s = demo_session and tables = map_of
      and w = "demo_world []" and flags = default_flags
      and t = "demo_tunnel AF_INET OVS_TUNNEL_VXLAN P4_PORT_VLAN_NATIVE_TAGGED",
      OF demo_table_server _ demo_dpdk_facts]
  by (simp add: list_all_iff) blast

end
