(* ===== verification/Spec2Isabelle.thy ===== *)
theory Spec2Isabelle
  imports Spies Perf_Properties Sgnmi_Properties Cancel_Properties Daemon_Properties V1_Properties V2_Properties Machine_Properties Fdb_Properties Tunnel_Properties Encoding_Properties Port_Properties
begin

text \<open>
  Verification of the ovsp4rt library of the networking recipe (\<^verbatim>\<open>src/ovs-p4rt\<close>; paths
  below are relative to \<^verbatim>\<open>src/ovs-p4rt/sidecar\<close> unless they start with \<^verbatim>\<open>src\<close>), of the
  performance test of the P4Runtime server (\<^verbatim>\<open>src/clients/p4rt_perf_test\<close>), of the two gNMI
  command line clients (\<^verbatim>\<open>src/clients/gnmi-ctl\<close>, \<^verbatim>\<open>src/clients/sgnmi_cli\<close>) and of the start of the
  server process (\<^verbatim>\<open>src/infrap4d\<close>).

  \<^bold>\<open>The program.\<close> Open vSwitch links ovsp4rt to program a P4 device. Its C interface
  (\<^verbatim>\<open>include/ovsp4rt/ovs-p4rt.h\<close>, \<^verbatim>\<open>core/api/ovsp4rt_standard_api.cc\<close>) has seven functions
  that configure one thing each: a learned MAC address, a tunnel, the receive side of a
  tunnel, a VLAN, a source port, a tunnel source port, an IP-to-MAC mapping. Each makes a
  client (\<^verbatim>\<open>client\<close>), which opens a P4Runtime session (\<^verbatim>\<open>session\<close>) over gRPC and fetches
  the description of the loaded pipeline (P4Info). The code of \<^verbatim>\<open>core/v3\<close> then reads and
  writes table entries through the client: encoders (\<^verbatim>\<open>es2k_encoders.cc\<close>,
  \<^verbatim>\<open>dpdk_encoders.cc\<close>) fill in one entry each from names (\<^verbatim>\<open>core/es2k\<close>, \<^verbatim>\<open>core/dpdk\<close>)
  that they look up in the P4Info (\<^verbatim>\<open>core/common\<close>), and the \<^verbatim>\<open>Config\<close> functions choose the
  encoders, the order of the calls and what happens on an error. Failures of single writes
  are logged (\<^verbatim>\<open>logging\<close>).

  The library exists in three versions. \<^verbatim>\<open>core/v1\<close> is a single file without the client
  interface, and the one that is built unless another is chosen; \<^verbatim>\<open>core/v3\<close> is its refactoring
  into the parts above; \<^verbatim>\<open>core/v2\<close> is a step between the two that has the client interface and
  serves both targets with one file, by conditional compilation. A journaling variant (\<^verbatim>\<open>journal\<close>,
  \<^verbatim>\<open>client/ovsp4rt_journal_client.cc\<close>, \<^verbatim>\<open>core/api/ovsp4rt_journal_api.cc\<close>) of the interface
  prints the arguments of every call and every request and answer as JSON. Stubs and spies
  (\<^verbatim>\<open>stubs\<close>, \<^verbatim>\<open>spies\<close>) replace the interface in tests.

  The performance test writes a given number of entries from several threads, each over a
  session of its own, and reports how long the slowest of them took. The client gnmi-ctl turns
  parameters such as \<^verbatim>\<open>device:virtual-device,name:net_vhost0,mtu:1500\<close> into gNMI paths and sends
  get, set and subscribe requests for them; sgnmi_cli takes a path and the value in a flag.
  In both, a thread waits at a pipe for SIGINT in order to cancel the call that is under way.
  infrap4d is the P4Runtime server: it detaches from its terminal with the daemon library of
  \<^verbatim>\<open>src/infrap4d/daemon\<close>, a parent that waits at a pipe for a child, and then runs Stratum.

  \<^bold>\<open>The model.\<close> One theory per part, in the order of the calls:
  \<^item> \<open>Prelude\<close>: words, byte strings and their big-endian value, options, finders.
  \<^item> \<open>P4Runtime\<close>: the protobuf messages the code uses, as records; \<open>Api_Types\<close>: the
    structures of \<^verbatim>\<open>ovs-p4rt.h\<close> (a union is the storage with its readings) and
    \<^verbatim>\<open>ovsp4rt_str_to_tunnel_type.cc\<close>.
  \<^item> \<open>P4Info_Utils\<close>: the four lookups; \<open>Encode_Utils\<close>: the byte encoders; \<open>P4_Names\<close>: the
    macros of the two \<^verbatim>\<open>p4_name_mapping.h\<close> (the DPDK names carry the prefix \<open>DPDK_\<close>).
  \<^item> \<open>World\<close>: the state of a call (the client object, the environment, the lines printed so
    far) and \<^verbatim>\<open>logging\<close>.
  \<^item> \<open>Entry_Encoder\<close>: the locale \<open>entry_encoder\<close>, the contract of an encoder;
    \<open>Es2k_Encoders\<close> and \<open>Dpdk_Encoders\<close>: every encoder of the two files, statement by
    statement, and an interpretation of the contract for each encoder that makes a whole
    entry (the DPDK definitions carry the prefix \<open>dpdk_\<close>).
  \<^item> \<open>Session\<close>: \<^verbatim>\<open>ovsp4rt_session.cc\<close> and \<^verbatim>\<open>ovsp4rt_credentials.cc\<close>. gRPC, the server behind
    it, the file system, the clock and the thread id are the fields of the parameter
    \<open>grpc_env\<close>, functions on an environment state of any type; nothing is assumed of them
    except where a theorem says so.
  \<^item> \<open>Client\<close>: the virtual functions of \<open>ClientInterface\<close> as a record of functions, the
    locale \<open>client_interface\<close> with what the API code relies on, and its interpretations on
    the production client and on the test client.
  \<^item> \<open>Vlan_Entry\<close>, \<open>Src_Port_Entry\<close>, \<open>Ip_Mac_Map_Entry\<close>, \<open>Es2k_Tunnel_Entry\<close>,
    \<open>Es2k_Fdb_Entry\<close>, \<open>Dpdk_Entries\<close>: the functions of \<^verbatim>\<open>core/v3\<close>, one definition per C++
    function; \<open>Entry_Ops\<close> holds the lemmas about the shapes they share.
  \<^item> \<open>Standard_Api\<close>: the exported functions, for both targets.
  \<^item> \<open>V1_Utils\<close>, \<open>V1_Encoders\<close> and \<open>V1_Core\<close>: \<^verbatim>\<open>core/v1/ovsp4rt.cc\<close>, one definition per
    function; every name has the prefix \<open>v1_\<close>. Whether \<open>char\<close> is signed is a parameter.
  \<^item> \<open>V2_Encoders\<close> and \<open>V2_Core\<close>: \<^verbatim>\<open>core/v2\<close>, one definition per function with the prefix \<open>v2_\<close>.
    The target is an argument of a function that is compiled for both, and a conditional
    section is a case of it. \<open>V2_Properties\<close> has the internal interface
    (\<^verbatim>\<open>core/api/ovsp4rt_internal_api.h\<close>) as a record of functions, for each core, and the
    library linked with a core.
  \<^item> \<open>Journal\<close>: the records of inputs and actions, the journal, its client and its interface
    (prefix \<open>journal_\<close>). The JSON library and the JSON conversion of protobuf messages are the
    parameter \<open>json_lib\<close>. \<open>Spies\<close>: the stubs and spies.
  \<^item> \<open>Perf_Session\<close>: the session, credentials and utilities of the performance test (prefix
    \<open>perf_\<close>); \<open>Perf_Test\<close>: its command line, the division of the entries and the batch of a
    thread, statement by statement; \<open>Perf_Machine\<close>: \<open>main\<close> and its threads as a step relation,
    where a step of a thread is one call of the environment; \<open>Perf_Election\<close>: the threads that
    would wait for the answer to an arbitration in vain.
  \<^item> \<open>C_Strings\<close>: characters, \<open>atoi\<close> and terminated strings in a memory of characters;
    \<open>Gnmi_Parser\<close>: the parser of the gNMI client's parameters, which writes terminators into the
    text it parses; \<open>Gnmi_Ctl\<close>: its messages, the regular expressions of its paths as matchers,
    its requests and its commands. The gNMI service and the set-up of its channel are the parameter \<open>gnmi_env\<close>.
    \<open>Sgnmi_Cli\<close>: the other client, with the parameter \<open>sgnmi_env\<close>, of which RE2 is a part.
    \<open>Client_Cancel\<close>: SIGINT and the clean-up in both, a step relation of the main thread, the
    thread that cancels, and the handler.
  \<^item> \<open>Posix\<close>: processes, descriptors, pipes and the system calls as a step relation, with a record
    of which process has written to which pipe; \<open>Daemon\<close>: the
    daemon library and the main programs of infrap4d as programs of system calls, infinite trees
    where a loop may not end.

  An effectful function maps its arguments and the state to \<open>(result \<times> state) option\<close>.
  \<open>None\<close> is undefined behaviour: a call through the session pointer of a client that is not
  connected, and in version 1 a byte behind the end of a string and a format string that is
  not valid, in the performance test a division by zero and a number too large for \<open>atoi\<close>,
  in gnmi-ctl an overflow of a buffer. In the journal it is also an exception of the
  JSON library, and in gnmi-ctl one of \<open>stoull\<close>, which nothing catches; in both gNMI clients it is
  also a loop that does not end. Status values and StatusOr are values (\<open>Status\<close>,
  \<open>Status + 'a\<close>). There is no fuel: most loops of the code run over repeated fields and
  over the partial responses of a read, which are lists here, so that the definitions are
  total; a read of the P4Runtime server that never ends is outside the model. The loops that might not
  end are those of the daemon library, which are infinite trees, and those of the gNMI clients over
  the responses of a subscription and of sgnmi_cli over its path, which are partial functions. Structures passed by reference and changed
  by the callee are returned. Integers have the width of the C++ type, and byte order
  conversions are those of a little-endian host. What the code prints, log messages
  included, is the list of lines in the state.

  \<^bold>\<open>What is shown.\<close>
  \<^item> \<open>Table_Server\<close> and \<open>Fdb_Server\<close> give the abstract view of a server as a map from entry
    keys to entries: an insert of a key that is present, a delete of one that is absent and
    a read of one that is absent are refused. The code depends on the last point: it takes
    an OK answer to a read for "the entry exists".
  \<^item> \<open>Fdb_Properties\<close> (C1 to C3) and \<open>Tunnel_Properties\<close> (C6 and C7): what the ES2K
    operations do to the tables of such a server, insert followed by delete, refused
    writes, unknown tunnel types, and the choice of tables.
  \<^item> \<open>Write_Invariant\<close> is the contract that reduces an invariant to the entries that are
    written, on a server that may refuse or fail any request; \<open>Api_Server\<close> says when the
    environment of a whole call answers, and \<open>Api_Machine\<close> is the library as a state machine whose
    steps are calls. \<open>Machine_Properties\<close> (C4 and C5): what every reachable state satisfies as
    long as the pipeline declares the names that the inserting calls use, and which tables a call
    may change.
  \<^item> \<open>V1_Equivalence\<close> relates runs of the cores of version 1 and 3 by a simulation;
    \<open>V1_Properties\<close> (C8 to C11): where version 1 does what version 3 does, and where it cannot.
    \<open>V2_Equivalence\<close> has an equation for every function of version 2, on each target, and
    \<open>V2_Properties\<close> (C12) concludes that the linked libraries are the same.
  \<^item> \<open>Client_Simulation\<close> is the contract under which one client can replace another;
    \<open>Journal_Properties\<close> (C13) applies it to the journal client and \<open>Journal_Inputs\<close> (C14)
    shows what the record of the inputs says; \<open>Spies\<close> has the same of the spy of the FDB call.
  \<^item> \<open>Trace\<close> is an environment that remembers its requests, which the journal is compared
    with. \<open>Runs\<close> is the contract of a machine whose runs end; \<open>Perf_Machine\<close> interprets it,
    with the bound \<open>9 n + 2\<close> on the steps of a run with \<open>n\<close> threads, and shows that the steps of
    a thread alone are the function it runs. \<open>Perf_Writes\<close> has the invariant of what the
    threads have written, whatever the server answers, \<open>Perf_Election\<close> that of their election
    ids, by which no thread is stuck, and \<open>Perf_Properties\<close> (C15 to C18) the properties of the test.
  \<^item> \<open>Gnmi_Properties\<close> (C19 to C22): the parser in place refines a parser of strings, parameters
    are sent as they were written, buffer overflow, and deletion of the root.
    \<open>Sgnmi_Properties\<close> (C23 and C24): where the two clients agree, and when
    sgnmi_cli ends. \<open>Cancel_Properties\<close> (C25 to C27): the clean-up leaves no thread behind,
    whatever the order of the steps; an interrupt ends sgnmi_cli, within the bound of 15 steps
    that the interpretation of \<open>Runs\<close> gives, and is lost in gnmi-ctl.
  \<^item> \<open>Daemon_Machine\<close> has the invariant of the process that starts a daemon, whatever the daemon
    does, \<open>Daemon_Child\<close> that of the two processes of infrap4d; both interpret the contract of an
    invariant in \<open>Runs\<close>. \<open>Daemon_Liveness\<close> interprets that of runs that end, with the bound 16:
    pipe, fork, three steps of the parent, three of the child up to its report and eight after
    it. \<open>Daemon_Fds\<close> has the weakest condition on a program and its descriptors that every call
    keeps and that ensures the state in which the server is started. \<open>Daemon_Properties\<close> (C28 to
    C31): what the exit status says, that the start ends, and the standard descriptors.
  \<^item> This theory (C32 to C35): calls through the C interface, connecting and the pipeline query.
  \<^item> \<open>Encoding_Properties\<close> (C36 and C37): conformance of the encoders to the pipeline, and
    the values they produce.
  \<^item> \<open>Port_Properties\<close> (C38 to C40): source ports, IP-to-MAC entries, DPDK.
  \<^item> \<open>Demo\<close> holds a concrete server, pipelines and arguments; each property with a
    hypothesis is applied to them in its witness.

  \<^bold>\<open>What is not modelled.\<close> The clock readings and the throughput of the performance test,
  which are floating-point output; the unit tests; the build generators and the scripts;
  Stratum, krnlmon, gRPC, protobuf, RE2 and the command line parser, which are outside the
  repository. Of these, what the code relies on is a hypothesis of the theorem that needs it.
\<close>

section \<open>Whole API calls\<close>

text \<open>C32: end to end, through the C interface on ES2K: on a server that answers, a call that
  learns a MAC address behind a tunnel followed by a call that forgets it (each with a
  client, a connection and a session of its own) leaves the server's tables as they were,
  and in between they hold exactly the three new entries.\<close>

theorem api_fdb_tunnel_roundtrip:
  assumes h: "healthy g flags p accepts tables"
    and p: "wf_p4info p" "list_all (declares p) es2k_fdb_schemas"
    and i: "ml_is_tunnel i" "known_tunnel_type (ml_tnl_info i)"
    and acc: "list_all accepts (fdb_tunnel_entries i p True)"
    and new: "fdb_absent p (tables (fst io)) (ml_mac_addr i) (ml_bridge_id i)"
    and j: "ml_mac_addr j = ml_mac_addr i" "ml_bridge_id j = ml_bridge_id i" "\<not> ml_is_tunnel j"
      "\<not> v6_tunnel (ml_tnl_info j)"
  shows "\<exists>io1 io2. ovsp4rt_config_fdb_entry ES2K_TARGET g flags i True addr io = Some io1 \<and>
    tables (fst io1) = tables (fst io) ++ added (fdb_tunnel_entries i p True) \<and>
    ovsp4rt_config_fdb_entry ES2K_TARGET g flags j False addr' io1 = Some io2 \<and>
    tables (fst io2) = tables (fst io)"
proof -
  let ?tes = "fdb_tunnel_entries i p True" and ?T = "tables (fst io)"
  let ?call = "\<lambda>i b addr. DoConfigFdbEntry (Client_vtable g flags) i b addr"
  let ?w = "\<lparr>w_client = Client_new, w_env = fst io, w_out = snd io\<rparr>"
  obtain s w0 where w0: "cl_session (w_client w0) = Some s" "tables (w_env w0) = ?T"
    "?call i True addr ?w = ConfigFdbEntry (Client_vtable g flags) i p True w0"
    using healthy_in_session [OF h, of ?w addr "\<lambda>p. ConfigFdbEntry (Client_vtable g flags) i p True"]
    by (auto simp: DoConfigFdbEntry_in_session)
  have set0: "fdb_setting g s accepts tables p w0"
    using w0(1) p healthy_table_server [OF h] by (simp add: fdb_setting_def)
  obtain w1 where w1: "ConfigFdbEntry (Client_vtable g flags) i p True w0 = Some (OkStatus, w1)"
    "tables (w_env w1) = ?T ++ added ?tes"
    using fdb_tunnel_insert_tables [OF set0 i acc] new w0(2) by auto
  let ?w' = "\<lparr>w_client = Client_new, w_env = w_env w1, w_out = w_out w1\<rparr>"
  obtain s' w2 where w2: "cl_session (w_client w2) = Some s'" "tables (w_env w2) = tables (w_env w1)"
    "?call j False addr' ?w' = ConfigFdbEntry (Client_vtable g flags) j p False w2"
    using healthy_in_session [OF h, of ?w' addr' "\<lambda>p. ConfigFdbEntry (Client_vtable g flags) j p False"]
    by (auto simp: DoConfigFdbEntry_in_session)
  have set2: "fdb_setting g s' accepts tables p w2"
    using w2(1) p healthy_table_server [OF h] by (simp add: fdb_setting_def)
  obtain w3 where w3: "ConfigFdbEntry (Client_vtable g flags) j p False w2 = Some (OkStatus, w3)"
    "tables (w_env w3) = ?T"
    using fdb_tunnel_delete_restores [OF set2 i new _ j] w2(2) w1(2) by auto
  show ?thesis
    using w0(3) w1 w2(3) w3 by (auto simp: ovsp4rt_config_fdb_entry_def with_client_def)
qed

theorem api_fdb_tunnel_roundtrip_witness:
  "\<exists>io1 io2. ovsp4rt_config_fdb_entry ES2K_TARGET (demo_server demo_fdb_p4info) default_flags
      (demo_learn True AF_INET OVS_TUNNEL_VXLAN) True ''localhost:9559'' ([], []) = Some io1 \<and>
    map_of (fst io1) = map_of [] ++
      added (fdb_tunnel_entries (demo_learn True AF_INET OVS_TUNNEL_VXLAN) demo_fdb_p4info True) \<and>
    ovsp4rt_config_fdb_entry ES2K_TARGET (demo_server demo_fdb_p4info) default_flags
      (demo_learn False 0 0) False ''localhost:9559'' io1 = Some io2 \<and>
    map_of (fst io2) = map_of []"
  using api_fdb_tunnel_roundtrip
    [where i = "demo_learn True AF_INET OVS_TUNNEL_VXLAN" and j = "demo_learn False 0 0"
      and io = "([], [])" and addr = "''localhost:9559''" and addr' = "''localhost:9559''",
      OF demo_healthy demo_fdb_wf demo_fdb_declares]
  by (simp add: known_tunnel_type_def v6_tunnel_def AF_INET6_def fdb_absent_def list_all_iff)

text \<open>C33: every function of the C interface returns on both targets, whatever the server, the
  network, the file system and the arguments do: in particular no call uses the session
  pointer of a client that is not connected.\<close>

theorem api_returns:
  "(\<exists>io'. ovsp4rt_config_fdb_entry target g flags i b addr io = Some io') \<and>
   (\<exists>io'. ovsp4rt_config_tunnel_entry target g flags t b addr io = Some io') \<and>
   (\<exists>io'. ovsp4rt_config_rx_tunnel_src_entry target g flags t b addr io = Some io') \<and>
   (\<exists>io'. ovsp4rt_config_vlan_entry target g flags v b addr io = Some io') \<and>
   (\<exists>io'. ovsp4rt_config_tunnel_src_port_entry target g flags sp b addr io = Some io') \<and>
   (\<exists>io'. ovsp4rt_config_src_port_entry target g flags sp b addr io = Some io') \<and>
   (\<exists>io'. ovsp4rt_config_ip_mac_map_entry target g flags m b addr io = Some io')"
  unfolding ovsp4rt_config_fdb_entry_def ovsp4rt_config_tunnel_entry_def
    ovsp4rt_config_rx_tunnel_src_entry_def ovsp4rt_config_vlan_entry_def
    ovsp4rt_config_tunnel_src_port_entry_def ovsp4rt_config_src_port_entry_def
    ovsp4rt_config_ip_mac_map_entry_def
  by (cases target)
    (auto simp del: split_paired_Ex intro!: with_client_returns cl.DoConfigFdbEntry_returns cl.dpdk_DoConfigFdbEntry_returns
      cl.DoConfigTunnelEntry_returns cl.dpdk_DoConfigTunnelEntry_returns
      cl.DoConfigRxTunnelSrcEntry_returns cl.DoConfigVlanEntry_returns
      cl.DoConfigTunnelSrcPortEntry_returns cl.DoConfigSrcPortEntry_returns
      cl.DoConfigIpMacMapEntry_returns)

section \<open>Connecting\<close>

lemma in_session_connect_failure:
  assumes "Client_connect g flags addr w = Some (st, w')" and "\<not> ok st"
  shows "in_session (Client_vtable g flags) addr update w = Some (st, w')"
  using assms by (simp add: in_session_def Client_vtable_def)

text \<open>When the connection fails, each of the nine DoConfig functions returns the
  connection's status and does nothing else: its result and its final state are those of
  the connect call.\<close>

lemma connect_failure:
  assumes "Client_connect g flags addr w = Some (st, w')" and "\<not> ok st"
  shows "(let client = Client_vtable g flags in
    DoConfigFdbEntry client i b addr w = Some (st, w') \<and>
    DoConfigTunnelEntry client t b addr w = Some (st, w') \<and>
    DoConfigRxTunnelSrcEntry client t b addr w = Some (st, w') \<and>
    DoConfigVlanEntry client v b addr w = Some (st, w') \<and>
    DoConfigTunnelSrcPortEntry client sp b addr w = Some (st, w') \<and>
    DoConfigSrcPortEntry client sp b addr w = Some (st, w') \<and>
    DoConfigIpMacMapEntry client m b addr w = Some (st, w') \<and>
    dpdk_DoConfigFdbEntry client i b addr w = Some (st, w') \<and>
    dpdk_DoConfigTunnelEntry client t b addr w = Some (st, w'))"
  using in_session_connect_failure [OF assms]
  by (simp add: Let_def DoConfigFdbEntry_in_session DoConfigTunnelEntry_in_session
      DoConfigRxTunnelSrcEntry_in_session DoConfigVlanEntry_in_session
      DoConfigTunnelSrcPortEntry_in_session DoConfigSrcPortEntry_in_session
      DoConfigIpMacMapEntry_in_session dpdk_DoConfigFdbEntry_in_session
      dpdk_DoConfigTunnelEntry_in_session)

text \<open>A server that never answers the arbitration request.\<close>

definition demo_silent_server :: "demo_tables grpc_env" where
  "demo_silent_server = (demo_server empty_P4Info)\<lparr>g_stream_read := \<lambda>_ T. (None, T)\<rparr>"

definition demo_fresh :: "(Client, demo_tables) world" where
  "demo_fresh = \<lparr>w_client = Client_new, w_env = [], w_out = []\<rparr>"

lemma demo_silent_connect:
  "Client_connect demo_silent_server default_flags addr demo_fresh =
     Some (InternalError ''No arbitration response received'',
       demo_fresh\<lparr>w_out := [''Using insecure client credentials!'']\<rparr>)"
  by (simp add: Client_connect_def GenerateClientCredentials_def IsRegularFile_def Create_addr_def
      Create_def OvsP4rtSession_new_def arbitration_role_config_def demo_silent_server_def
      demo_server_def demo_fresh_def print_line_def)

theorem connect_failure_witness:
  "DoConfigVlanEntry (Client_vtable demo_silent_server default_flags) 10 True ''a'' demo_fresh =
     Some (InternalError ''No arbitration response received'',
       demo_fresh\<lparr>w_out := [''Using insecure client credentials!'']\<rparr>)"
  using connect_failure [OF demo_silent_connect] by (simp add: Let_def)

text \<open>C34: a successful connect leaves the client with a session whose device id is the low
  32 bits of the device flag and whose election id is the time in seconds and the id of
  the calling thread; the role name given to the session is not stored.\<close>

theorem connect_session:
  assumes c: "Client_connect g flags addr w = Some (st, w')" and st: "ok st"
  shows "\<exists>s. cl_session (w_client w') = Some s \<and>
    ses_device_id s = ucast (FLAGS_device_id flags) \<and>
    ses_election_id s = \<lparr>u128_high = g_now g (w_env w), u128_low = g_thread_self g (w_env w)\<rparr> \<and>
    ses_role_name s = []"
proof -
  obtain cr w0 where cr: "GenerateClientCredentials g w = (cr, w0)" and e0: "w_env w0 = w_env w"
    by (metis credentials_frame(1) prod.collapse)
  obtain stub e1 where n: "g_new_stub g addr cr (w_env w) = (stub, e1)" by fastforce
  let ?el = "TimeBasedElectionId g (w_env w) + ucast (g_thread_self g (w_env w))"
  obtain r e2 where cre: "Create g stub (ucast (FLAGS_device_id flags)) (FLAGS_role_name flags) ?el e1 =
    (r, e2)" by fastforce
  have "\<exists>s. r = Inr s"
    using c st cr e0 n cre Create_error [of g stub _ _ ?el e1 _ e2]
    by (cases r) (auto simp: Client_connect_def Create_addr_def)
  then obtain s where s: "r = Inr s" by blast
  have "cl_session (w_client w') = Some s"
    using c cr e0 n cre s by (auto simp: Client_connect_def Create_addr_def)
  moreover have "?el = MakeUint128 (g_now g (w_env w)) (g_thread_self g (w_env w))"
    by (simp add: TimeBasedElectionId_def MakeUint128_add)
  ultimately show ?thesis
    using Create_session [OF cre [unfolded s]] by (simp add: Uint128_halves)
qed

theorem connect_session_witness:
  "\<exists>s w'. Client_connect (demo_server empty_P4Info) default_flags ''a'' demo_fresh = Some (OkStatus, w') \<and>
     cl_session (w_client w') = Some s \<and> ses_device_id s = 1 \<and>
     ses_election_id s = \<lparr>u128_high = 1000, u128_low = 7\<rparr>"
proof -
  obtain s w' where c: "Client_connect (demo_server empty_P4Info) default_flags ''a'' demo_fresh =
    Some (OkStatus, w')" "cl_session (w_client w') = Some s"
    using healthy_connect [OF demo_healthy] by blast
  with connect_session [OF c(1)] show ?thesis by (simp add: default_flags_def) (simp add: demo_server_def)
qed

lemma unat_MakeUint128: "unat (MakeUint128 h l) = unat h * 2 ^ 64 + unat l"
proof -
  have h: "unat h < 2 ^ 64" using unsigned_less [where 'a = nat, of h] by simp
  have l: "unat l < 2 ^ 64" using unsigned_less [where 'a = nat, of l] by simp
  have "push_bit 64 (ucast h :: u128) AND ucast l = 0"
    by (rule bit_word_eqI) (auto simp: bit_simps dest: bit_imp_le_length)
  then have "MakeUint128 h l = push_bit 64 (ucast h) + ucast l"
    by (simp add: MakeUint128_def disjunctive_add_eq_or)
  also have "\<dots> = of_nat (unat h * 2 ^ 64 + unat l)"
    by (simp add: push_bit_eq_mult)
  finally have "unat (MakeUint128 h l) = take_bit 128 (unat h * 2 ^ 64 + unat l)"
    by (simp only: unsigned_of_nat) simp
  moreover have "unat h * 2 ^ 64 + unat l < 2 ^ 128" using h l by simp
  ultimately show ?thesis by (simp only: take_bit_nat_eq_self)
qed

text \<open>The election ids of two sessions are ordered by the second they were created in
  and, within a second, by the thread: they are equal only for the same thread in the same
  second, and a later second always gives the greater id.\<close>

lemma election_id_order:
  "(let id = (\<lambda>e. TimeBasedElectionId g e + ucast (g_thread_self g e)) in
    (id e < id e' \<longleftrightarrow> g_now g e < g_now g e' \<or>
       g_now g e = g_now g e' \<and> g_thread_self g e < g_thread_self g e') \<and>
    (id e = id e' \<longleftrightarrow> g_now g e = g_now g e' \<and> g_thread_self g e = g_thread_self g e'))"
proof -
  have lex: "x * 2 ^ 64 + y < u * 2 ^ 64 + v \<longleftrightarrow> x < u \<or> x = u \<and> y < v"
    if "y < 2 ^ 64" "v < 2 ^ 64" for x y u v :: nat
  proof (cases x u rule: linorder_cases)
    case less
    then have "Suc x * 2 ^ 64 \<le> u * 2 ^ 64" by (intro mult_le_mono1) simp
    with less that show ?thesis by simp
  next
    case greater
    then have "Suc u * 2 ^ 64 \<le> x * 2 ^ 64" by (intro mult_le_mono1) simp
    with greater that show ?thesis by simp
  qed simp
  have lt: "unat (y :: u64) < 2 ^ 64" for y
    using unsigned_less [where 'a = nat, of y] by simp
  have "MakeUint128 x y < MakeUint128 u v \<longleftrightarrow> x < u \<or> x = u \<and> y < v" for x y u v
    using lex [OF lt [of y] lt [of v], of "unat x" "unat u"]
    by (simp add: word_less_nat_alt unat_MakeUint128 word_unat_eq_iff)
  moreover have "MakeUint128 x y = MakeUint128 u v \<longleftrightarrow> x = u \<and> y = v" for x y u v
    by (metis Uint128_halves)
  ultimately show ?thesis by (simp add: Let_def TimeBasedElectionId_def MakeUint128_add)
qed

text \<open>C35: a failed pipeline query is not reported. When the connection succeeds and the
  query for the pipeline fails with an empty answer, a VLAN configuration goes on and sends
  its entries with the table identifier -1.\<close>

theorem pipeline_failure_masked:
  assumes c: "Client_connect g flags addr w = Some (st0, w1)" "ok st0"
    and s: "cl_session (w_client w1) = Some s"
    and q: "g_get_config g (ses_stub s)
        \<lparr>gc_device_id = ucast (ses_device_id s), gc_response_type = ''P4INFO_AND_COOKIE''\<rparr>
        (w_env w1) = ((st, empty_P4Info), e1)"
    and st: "\<not> ok st"
  shows "DoConfigVlanEntry (Client_vtable g flags) v b addr w =
      (let (st', e') = write_all g s b (vlan_entries v empty_P4Info b) e1
       in Some (st', w1\<lparr>w_env := e'\<rparr>)) \<and>
    map te_table_id (vlan_entries v empty_P4Info b) = [-1, -1]"
proof -
  have "DoConfigVlanEntry (Client_vtable g flags) v b addr w =
      ConfigVlanEntry (Client_vtable g flags) v empty_P4Info b (w1\<lparr>w_env := e1\<rparr>)"
    using c s q by (simp add: DoConfigVlanEntry_def Client_vtable_def Client_getPipelineConfig_def
        GetForwardingPipelineConfig_def)
  moreover have "map te_table_id (vlan_entries v empty_P4Info b) = [-1, -1]"
    by (simp add: vlan_entries_def vlan_push.table_id vlan_pop.table_id)
  ultimately show ?thesis
    using cl_ConfigVlanEntry [of "w1\<lparr>w_env := e1\<rparr>" s g flags v empty_P4Info b] s
    by (simp add: Let_def split: prod.split)
qed

text \<open>A server that refuses the pipeline query.\<close>

definition demo_refusing_server :: "demo_tables grpc_env" where
  "demo_refusing_server = (demo_server empty_P4Info)\<lparr>g_get_config :=
     \<lambda>_ _ T. ((\<lparr>st_code = 7, st_message = ''permission denied''\<rparr>, empty_P4Info), T)\<rparr>"

definition demo_connected :: "(Client, demo_tables) world" where
  "demo_connected = \<lparr>w_client = \<lparr>cl_session = Some demo_session\<rparr>, w_env = [],
     w_out = [''Using insecure client credentials!'']\<rparr>"

lemma demo_refusing_connect:
  "Client_connect demo_refusing_server default_flags addr demo_fresh = Some (OkStatus, demo_connected)"
proof -
  have "TimeBasedElectionId demo_refusing_server e + ucast (g_thread_self demo_refusing_server e) =
      MakeUint128 1000 7" for e
    using MakeUint128_add [of 1000 7]
    by (simp add: TimeBasedElectionId_def demo_refusing_server_def demo_server_def)
  then show ?thesis
    by (simp add: Client_connect_def GenerateClientCredentials_def IsRegularFile_def Create_addr_def
        Create_def OvsP4rtSession_new_def arbitration_role_config_def Uint128_halves)
      (simp add: demo_refusing_server_def demo_server_def demo_fresh_def print_line_def
        demo_connected_def demo_session_def default_flags_def)
qed

theorem pipeline_failure_masked_witness:
  "DoConfigVlanEntry (Client_vtable demo_refusing_server default_flags) 10 True ''a'' demo_fresh =
     (let (st', e') = write_all demo_refusing_server demo_session True (vlan_entries 10 empty_P4Info True) []
      in Some (st', demo_connected\<lparr>w_env := e'\<rparr>)) \<and>
   map te_table_id (vlan_entries 10 empty_P4Info True) = [-1, -1]"
proof -
  have q: "g_get_config demo_refusing_server (ses_stub demo_session)
      \<lparr>gc_device_id = ucast (ses_device_id demo_session), gc_response_type = ''P4INFO_AND_COOKIE''\<rparr>
      (w_env demo_connected) = ((\<lparr>st_code = 7, st_message = ''permission denied''\<rparr>, empty_P4Info), [])"
    by (simp add: demo_refusing_server_def demo_connected_def)
  show ?thesis
    using pipeline_failure_masked [OF demo_refusing_connect _ _ q, of 10 True]
    by (simp add: demo_connected_def)
qed

section \<open>Reading and logging\<close>

text \<open>A read returns the entities of all partial responses of the server's stream, in
  order, when the stream ends with OK, and otherwise an error with the code of the stream's
  final status; the partial responses are dropped.\<close>

lemma read_request_result:
  assumes "g_read g (ses_stub s) rq e = ((partials, st), e')"
  shows "SendReadRequest g s rq e =
    (if ok st then Inr \<lparr>rs_entities = concat (map rs_entities partials)\<rparr>
     else Inl (absl_Status (st_code st) (st_message st)), e') \<and>
    status_or_ok (fst (SendReadRequest g s rq e)) = ok st"
proof -
  have "foldl MergeFrom empty_ReadResponse partials = \<lparr>rs_entities = concat (map rs_entities partials)\<rparr>"
    using foldl_MergeFrom [of empty_ReadResponse partials] by (simp add: empty_ReadResponse_def)
  with assms show ?thesis by (simp add: SendReadRequest_def GrpcStatusToAbslStatus_def)
qed

definition demo_split_server :: "demo_tables grpc_env" where
  "demo_split_server = (demo_server empty_P4Info)\<lparr>g_read := \<lambda>_ _ T.
     (([\<lparr>rs_entities = [empty_TableEntry]\<rparr>, \<lparr>rs_entities = []\<rparr>, \<lparr>rs_entities = [demo_vsi_entry]\<rparr>],
       OkStatus), T)\<rparr>"

text \<open>The MAC address of a log line is never cut off by the 32-byte buffer it is printed
  into, and different addresses print differently although the digits are not padded.\<close>

lemma format_mac_addr:
  "FormatMacAddr m = mac_text m \<and> (FormatMacAddr m = FormatMacAddr n \<longleftrightarrow> m = n)"
proof -
  have full: "FormatMacAddr m = mac_text m" for m
    using mac_text_length [of m] by (simp add: FormatMacAddr_def)
  have "m = n" if eq: "mac_text m = mac_text n"
  proof -
    note cancel = append_sep_cancel [OF hex_byte_no_colon hex_byte_no_colon]
    obtain a b c d e f where m: "m = Mac a b c d e f" by (cases m)
    obtain a' b' c' d' e' f' where n: "n = Mac a' b' c' d' e' f'" by (cases n)
    from eq have h0: "hex_byte a @ CHR '':'' # hex_byte b @ CHR '':'' # hex_byte c @ CHR '':'' #
        hex_byte d @ CHR '':'' # hex_byte e @ CHR '':'' # hex_byte f =
      hex_byte a' @ CHR '':'' # hex_byte b' @ CHR '':'' # hex_byte c' @ CHR '':'' #
        hex_byte d' @ CHR '':'' # hex_byte e' @ CHR '':'' # hex_byte f'"
      by (simp add: m n mac_text_def)
    note h1 = cancel [OF h0]
    note h2 = cancel [OF conjunct2 [OF h1]]
    note h3 = cancel [OF conjunct2 [OF h2]]
    note h4 = cancel [OF conjunct2 [OF h3]]
    note h5 = cancel [OF conjunct2 [OF h4]]
    show ?thesis
      using h1 h2 h3 h4 h5 by (simp add: m n hex_byte_inj)
  qed
  with full show ?thesis by metis
qed

end
